(* ===== verification/Prelude.thy ===== *)
theory Prelude
  imports Main "HOL-Library.Word" "HOL-Library.Multiset"
begin

text \<open>
  Shared vocabulary of the development: the machine integers of the firmware
  (LM32 soft core, big endian, 32-bit pointers), the split of a 64-bit value
  into its two 32-bit bus words, single bytes of a bus word, and the generic
  lemmas on words and lists the component theories use.  The collections
  declared here are the simp sets of the development: \<open>dm_layout\<close> holds the
  evaluated register map of the data master, \<open>mem_simps\<close> the read-over-write
  laws of the memory model, \<open>fw_simps\<close> the defining equations that a proof
  about a whole handler unfolds.
\<close>

unbundle bit_operations_syntax

named_theorems dm_layout "evaluated offsets of the shared memory layout"
named_theorems mem_simps "read-over-write laws of the memory models"
named_theorems fw_simps "defining equations unfolded by handler proofs"

section \<open>Machine integers\<close>

type_synonym u8 = "8 word"
type_synonym u16 = "16 word"
type_synonym u32 = "32 word"
type_synonym u64 = "64 word"

text \<open>\<open>hiW\<close> and \<open>loW\<close> of modules/ftm/ftmfw/dm.h: the two bus words of a 64-bit value.\<close>

definition hiW :: "u64 \<Rightarrow> u32" where
  "hiW d = ucast (drop_bit 32 d)"

definition loW :: "u64 \<Rightarrow> u32" where
  "loW d = ucast d"

definition mk64 :: "u32 \<Rightarrow> u32 \<Rightarrow> u64" where
  "mk64 h l = push_bit 32 (ucast h) OR ucast l"

text \<open>Single bits and bytes. \<open>bitmask n\<close> is the C expression \<open>1 << n\<close>.\<close>

definition bitmask :: "nat \<Rightarrow> u32" where
  "bitmask n = push_bit n 1"

definition getbyte :: "u32 \<Rightarrow> nat \<Rightarrow> u8" where
  "getbyte w k = ucast (drop_bit (8 * k) w)"

definition setbyte :: "u32 \<Rightarrow> nat \<Rightarrow> u8 \<Rightarrow> u32" where
  "setbyte w k v = (w AND NOT (push_bit (8 * k) (mask 8))) OR push_bit (8 * k) (ucast v)"

lemma hiW_mk64 [simp]: "hiW (mk64 h l) = h"
  unfolding hiW_def mk64_def
  by (rule bit_word_eqI) (auto simp: bit_simps dest: bit_imp_le_length)

lemma loW_mk64 [simp]: "loW (mk64 h l) = l"
  unfolding loW_def mk64_def
  by (rule bit_word_eqI) (auto simp: bit_simps)

lemma mk64_hiW_loW [simp]: "mk64 (hiW d) (loW d) = d"
  unfolding hiW_def loW_def mk64_def
  by (rule bit_word_eqI) (auto simp: bit_simps not_le)

lemma mk64_eq_iff: "mk64 h l = mk64 h' l' \<longleftrightarrow> h = h' \<and> l = l'"
  by (metis hiW_mk64 loW_mk64)

lemma mk64_split: "P (mk64 (hiW d) (loW d)) = P d"
  by simp

lemma hiW_minus1 [simp]: "hiW (- 1) = - 1"
  unfolding hiW_def by (rule bit_word_eqI) (auto simp: bit_simps)

lemma loW_minus1 [simp]: "loW (- 1) = - 1"
  unfolding loW_def by (rule bit_word_eqI) (auto simp: bit_simps)

lemma hiW_0 [simp]: "hiW 0 = 0"
  by (simp add: hiW_def)

lemma loW_0 [simp]: "loW 0 = 0"
  by (simp add: loW_def)

lemma mk64_minus1 [simp]: "mk64 (- 1) (- 1) = - 1"
  by (metis hiW_minus1 loW_minus1 mk64_hiW_loW)

lemma mk64_0 [simp]: "mk64 0 0 = 0"
  by (metis hiW_0 loW_0 mk64_hiW_loW)

lemma getbyte_setbyte [simp]:
  assumes "k < 4" "j < 4"
  shows "getbyte (setbyte w k v) j = (if j = k then v else getbyte w j)"
proof (rule bit_word_eqI)
  fix n assume "n < LENGTH(8)"
  hence n: "n < 8" by simp
  consider "j = k" | "j < k" | "k < j" by linarith
  thus "bit (getbyte (setbyte w k v) j) n = bit (if j = k then v else getbyte w j) n"
  proof cases
    case 1
    thus ?thesis using n assms by (auto simp: getbyte_def setbyte_def bit_simps)
  next
    case 2
    hence "8 * j + n < 8 * k" using n by linarith
    thus ?thesis using 2 n assms by (auto simp: getbyte_def setbyte_def bit_simps)
  next
    case 3
    hence "8 \<le> 8 * j + n - 8 * k" by linarith
    thus ?thesis using 3 n assms
      by (auto simp: getbyte_def setbyte_def bit_simps dest: bit_imp_le_length)
  qed
qed

section \<open>Small natural numbers as machine words\<close>

lemma unat32_less: "unat (x :: u32) < 4294967296"
  by (rule order.strict_trans2[OF unsigned_less]) simp

lemma unat_of_nat32: "n < 4294967296 \<Longrightarrow> unat (of_nat n :: u32) = n"
  by (simp add: unat_of_nat take_bit_nat_eq_self)

lemma of_nat32_inj:
  assumes "i < 4294967296" "j < 4294967296"
  shows "(of_nat i :: u32) = of_nat j \<longleftrightarrow> i = j"
  by (metis assms unat_of_nat32)

lemma of_nat32_less:
  assumes "i < 4294967296" "j < 4294967296"
  shows "(of_nat i :: u32) < of_nat j \<longleftrightarrow> i < j"
  using assms by (simp add: word_less_nat_alt unat_of_nat32)

lemma ucast_ucast_32_64 [simp]: "ucast (ucast (x :: u32) :: u64) = x"
  by (rule bit_word_eqI) (auto simp: bit_simps)

lemma ucast_ucast_8_64 [simp]: "ucast (ucast (x :: u8) :: u64) = x"
  by (rule bit_word_eqI) (auto simp: bit_simps)

lemma unat64_less: "unat (x :: u64) < 18446744073709551616"
  by (rule order.strict_trans2[OF unsigned_less]) simp

lemma unat64_add: "unat (x :: u64) + unat y < 18446744073709551616 \<Longrightarrow> unat (x + y) = unat x + unat y"
  by (simp add: unat_word_ariths)

lemma unat64_mult: "unat (x :: u64) * unat y < 18446744073709551616 \<Longrightarrow> unat (x * y) = unat x * unat y"
  by (simp add: unat_word_ariths)

lemma unat_ucast_32_64 [simp]: "unat (ucast (x :: u32) :: u64) = unat x"
proof -
  have "unat x < 2 ^ LENGTH(64)" by (rule order.strict_trans[OF unsigned_less]) simp
  thus ?thesis by (simp only: unsigned_ucast_eq take_bit_nat_eq_self)
qed

lemma sint64_small:
  assumes "unat (x :: u64) < 9223372036854775808"
  shows "sint x = int (unat x)"
proof -
  have "int (unat x) < 9223372036854775808" using assms by linarith
  hence "uint x < 2 ^ (LENGTH(64) - Suc 0)" by simp
  hence "sint x = uint x"
    by (subst sint_uint, intro signed_take_bit_int_eq_self) (auto intro: order.trans[of _ 0])
  thus ?thesis by simp
qed

section \<open>Loops over the elements of an array\<close>

lemma fold_update:
  assumes "n \<le> length b"
  shows "length (fold (\<lambda>i b. b[i := g i (b ! i)]) [0..<n] b) = length b"
    and "j < length b \<Longrightarrow> fold (\<lambda>i b. b[i := g i (b ! i)]) [0..<n] b ! j = (if j < n then g j (b ! j) else b ! j)"
  using assms by (induction n arbitrary: j) (auto simp: nth_list_update less_Suc_eq)

lemma fold_bits:
  "bit (fold (\<lambda>i f. if P i then f OR push_bit i (1 :: 'a :: len word) else f) [0..<n] f0) k
   \<longleftrightarrow> bit f0 k \<or> k < n \<and> k < LENGTH('a) \<and> P k"
  by (induction n) (auto simp: bit_simps bit_1_iff less_Suc_eq)

end
