(* ===== verification/Ftm_Common.thy ===== *)
theory Ftm_Common
  imports Prelude
begin

text \<open>
  The memory layout shared by the data master firmware and its host library:
  modules/ftm/include/ftm_common.h.  Every offset is defined the way the header
  derives it (sums of the preceding field and its width); the lemmas of the
  collection \<open>dm_layout\<close> give the resulting numbers, so that proofs can compare
  addresses.  Offsets are byte offsets; \<open>node[X >> 2]\<close> of the source is the
  32-bit word at byte address \<open>node + X\<close>.
\<close>

section \<open>Scheduler parameters\<close>

definition THR_QTY :: nat where "THR_QTY = 8"
definition HEAP_SIZE :: nat where "HEAP_SIZE = THR_QTY"
definition PREPTIME_DEFAULT :: u64 where "PREPTIME_DEFAULT = 1000000"
definition T_GRID_OFFS :: u64 where "T_GRID_OFFS = 0"
definition T_GRID_SIZE :: u64 where "T_GRID_SIZE = 10000"
definition MEM_BLOCK_SIZE :: u32 where "MEM_BLOCK_SIZE = 52"
definition LM32_NULL_PTR :: u32 where "LM32_NULL_PTR = 0"

lemma sched_params [dm_layout]:
  "THR_QTY = 8" "HEAP_SIZE = 8" "PREPTIME_DEFAULT = 1000000"
  "T_GRID_OFFS = 0" "T_GRID_SIZE = 10000" "MEM_BLOCK_SIZE = 52" "LM32_NULL_PTR = 0"
  by (simp_all add: THR_QTY_def HEAP_SIZE_def PREPTIME_DEFAULT_def T_GRID_OFFS_def
      T_GRID_SIZE_def MEM_BLOCK_SIZE_def LM32_NULL_PTR_def)

section \<open>Thread control, runtime data, staging data and command elements\<close>

definition T_TC_START :: u32 where "T_TC_START = 0"
definition T_TC_CEASE :: u32 where "T_TC_CEASE = T_TC_START + 4"
definition T_TC_ABORT :: u32 where "T_TC_ABORT = T_TC_CEASE + 4"
definition T_TC_RUNNING :: u32 where "T_TC_RUNNING = T_TC_ABORT + 4"
definition T_TC_SIZE :: u32 where "T_TC_SIZE = T_TC_RUNNING + 4"

definition T_TD_FLAGS :: u32 where "T_TD_FLAGS = 0"
definition T_TD_MSG_CNT :: u32 where "T_TD_MSG_CNT = T_TD_FLAGS + 4"
definition T_TD_NODE_PTR :: u32 where "T_TD_NODE_PTR = T_TD_MSG_CNT + 8"
definition T_TD_DEADLINE :: u32 where "T_TD_DEADLINE = T_TD_NODE_PTR + 4"
definition T_TD_CURRTIME :: u32 where "T_TD_CURRTIME = T_TD_DEADLINE + 8"
definition T_TD_SIZE :: u32 where "T_TD_SIZE = T_TD_CURRTIME + 8"

definition T_TS_FLAGS :: u32 where "T_TS_FLAGS = 0"
definition T_TS_NODE_PTR :: u32 where "T_TS_NODE_PTR = T_TS_FLAGS + 4"
definition T_TS_STARTTIME :: u32 where "T_TS_STARTTIME = T_TS_NODE_PTR + 4"
definition T_TS_PREPTIME :: u32 where "T_TS_PREPTIME = T_TS_STARTTIME + 8"
definition T_TS_SIZE :: u32 where "T_TS_SIZE = T_TS_PREPTIME + 8"

definition T_CMD_TIME :: u32 where "T_CMD_TIME = 0"
definition T_CMD_ACT :: u32 where "T_CMD_ACT = T_CMD_TIME + 8"
definition T_CMD_WAIT_TIME :: u32 where "T_CMD_WAIT_TIME = T_CMD_ACT + 4"
definition T_CMD_FLOW_DEST :: u32 where "T_CMD_FLOW_DEST = T_CMD_ACT + 4"
definition T_CMD_FLUSH_OVR :: u32 where "T_CMD_FLUSH_OVR = T_CMD_ACT + 4"
definition T_CMD_SIZE :: u32 where "T_CMD_SIZE = 8 + 4 + 8"

lemma thread_layout [dm_layout]:
  "T_TC_START = 0" "T_TC_CEASE = 4" "T_TC_ABORT = 8" "T_TC_RUNNING = 12" "T_TC_SIZE = 16"
  "T_TD_FLAGS = 0" "T_TD_MSG_CNT = 4" "T_TD_NODE_PTR = 12" "T_TD_DEADLINE = 16"
  "T_TD_CURRTIME = 24" "T_TD_SIZE = 32"
  "T_TS_FLAGS = 0" "T_TS_NODE_PTR = 4" "T_TS_STARTTIME = 8" "T_TS_PREPTIME = 16" "T_TS_SIZE = 24"
  "T_CMD_TIME = 0" "T_CMD_ACT = 8" "T_CMD_WAIT_TIME = 12" "T_CMD_FLOW_DEST = 12"
  "T_CMD_FLUSH_OVR = 12" "T_CMD_SIZE = 20"
  by (simp_all add: T_TC_START_def T_TC_CEASE_def T_TC_ABORT_def T_TC_RUNNING_def T_TC_SIZE_def
      T_TD_FLAGS_def T_TD_MSG_CNT_def T_TD_NODE_PTR_def T_TD_DEADLINE_def T_TD_CURRTIME_def
      T_TD_SIZE_def T_TS_FLAGS_def T_TS_NODE_PTR_def T_TS_STARTTIME_def T_TS_PREPTIME_def
      T_TS_SIZE_def T_CMD_TIME_def T_CMD_ACT_def T_CMD_WAIT_TIME_def T_CMD_FLOW_DEST_def
      T_CMD_FLUSH_OVR_def T_CMD_SIZE_def)

section \<open>Diagnostics and the top control register sections\<close>

definition T_MOD_INFO_SIZE :: u32 where "T_MOD_INFO_SIZE = 8 + 8 + 8 + 4 + 4"
definition T_DIAG_MSG_CNT :: u32 where "T_DIAG_MSG_CNT = 0"
definition T_DIAG_BOOT_TS :: u32 where "T_DIAG_BOOT_TS = T_DIAG_MSG_CNT + 8"
definition T_DIAG_SCH_MOD :: u32 where "T_DIAG_SCH_MOD = T_DIAG_BOOT_TS + 8"
definition T_DIAG_CMD_MOD :: u32 where "T_DIAG_CMD_MOD = T_DIAG_SCH_MOD + T_MOD_INFO_SIZE"
definition T_DIAG_DIF_MIN :: u32 where "T_DIAG_DIF_MIN = T_DIAG_CMD_MOD + T_MOD_INFO_SIZE"
definition T_DIAG_DIF_MAX :: u32 where "T_DIAG_DIF_MAX = T_DIAG_DIF_MIN + 8"
definition T_DIAG_DIF_SUM :: u32 where "T_DIAG_DIF_SUM = T_DIAG_DIF_MAX + 8"
definition T_DIAG_DIF_WTH :: u32 where "T_DIAG_DIF_WTH = T_DIAG_DIF_SUM + 8"
definition T_DIAG_WAR_CNT :: u32 where "T_DIAG_WAR_CNT = T_DIAG_DIF_WTH + 8"
definition T_DIAG_WAR_1ST_HASH :: u32 where "T_DIAG_WAR_1ST_HASH = T_DIAG_WAR_CNT + 4"
definition T_DIAG_WAR_1ST_TS :: u32 where "T_DIAG_WAR_1ST_TS = T_DIAG_WAR_1ST_HASH + 4"
definition T_DIAG_BCKLOG_STRK :: u32 where "T_DIAG_BCKLOG_STRK = T_DIAG_WAR_1ST_TS + 8"
definition T_DIAG_BAD_WAIT_CNT :: u32 where "T_DIAG_BAD_WAIT_CNT = T_DIAG_BCKLOG_STRK + 4"
definition T_DIAG_SIZE :: u32 where "T_DIAG_SIZE = 256"
definition T_META_SIZE :: u32 where "T_META_SIZE = 4 + 4 + 4 + 4 + 4"

definition SHCTL_HEAP :: u32 where "SHCTL_HEAP = 0"
definition SHCTL_STATUS :: u32 where "SHCTL_STATUS = SHCTL_HEAP + of_nat THR_QTY * 4"
definition SHCTL_META :: u32 where "SHCTL_META = SHCTL_STATUS + 4"
definition SHCTL_DIAG :: u32 where "SHCTL_DIAG = SHCTL_META + T_META_SIZE"
definition SHCTL_CMD :: u32 where "SHCTL_CMD = SHCTL_DIAG + T_DIAG_SIZE"
definition SHCTL_TGATHER :: u32 where "SHCTL_TGATHER = SHCTL_CMD + 4"
definition SHCTL_THR_CTL :: u32 where "SHCTL_THR_CTL = SHCTL_TGATHER + 8"
definition SHCTL_THR_STA :: u32 where "SHCTL_THR_STA = SHCTL_THR_CTL + T_TC_SIZE"
definition SHCTL_THR_DAT :: u32 where "SHCTL_THR_DAT = SHCTL_THR_STA + of_nat THR_QTY * T_TS_SIZE"
definition SHCTL_INBOXES :: u32 where "SHCTL_INBOXES = SHCTL_THR_DAT + of_nat THR_QTY * T_TD_SIZE"
definition SHCTL_END :: u32 where "SHCTL_END = SHCTL_INBOXES + of_nat THR_QTY * 4"

lemma diag_layout [dm_layout]:
  "T_MOD_INFO_SIZE = 32" "T_DIAG_MSG_CNT = 0" "T_DIAG_BOOT_TS = 8" "T_DIAG_SCH_MOD = 16"
  "T_DIAG_CMD_MOD = 48" "T_DIAG_DIF_MIN = 80" "T_DIAG_DIF_MAX = 88" "T_DIAG_DIF_SUM = 96"
  "T_DIAG_DIF_WTH = 104" "T_DIAG_WAR_CNT = 112" "T_DIAG_WAR_1ST_HASH = 116"
  "T_DIAG_WAR_1ST_TS = 120" "T_DIAG_BCKLOG_STRK = 128" "T_DIAG_BAD_WAIT_CNT = 132"
  "T_DIAG_SIZE = 256" "T_META_SIZE = 20"
  by (simp_all add: T_MOD_INFO_SIZE_def T_DIAG_MSG_CNT_def T_DIAG_BOOT_TS_def T_DIAG_SCH_MOD_def
      T_DIAG_CMD_MOD_def T_DIAG_DIF_MIN_def T_DIAG_DIF_MAX_def T_DIAG_DIF_SUM_def
      T_DIAG_DIF_WTH_def T_DIAG_WAR_CNT_def T_DIAG_WAR_1ST_HASH_def T_DIAG_WAR_1ST_TS_def
      T_DIAG_BCKLOG_STRK_def T_DIAG_BAD_WAIT_CNT_def T_DIAG_SIZE_def T_META_SIZE_def)

lemma shctl_layout [dm_layout]:
  "SHCTL_HEAP = 0" "SHCTL_STATUS = 32" "SHCTL_META = 36" "SHCTL_DIAG = 56" "SHCTL_CMD = 312"
  "SHCTL_TGATHER = 316" "SHCTL_THR_CTL = 324" "SHCTL_THR_STA = 340" "SHCTL_THR_DAT = 532"
  "SHCTL_INBOXES = 788" "SHCTL_END = 820"
  by (simp_all add: SHCTL_HEAP_def SHCTL_STATUS_def SHCTL_META_def SHCTL_DIAG_def SHCTL_CMD_def
      SHCTL_TGATHER_def SHCTL_THR_CTL_def SHCTL_THR_STA_def SHCTL_THR_DAT_def SHCTL_INBOXES_def
      SHCTL_END_def dm_layout)

section \<open>Node layouts\<close>

definition NODE_HASH :: u32 where "NODE_HASH = 0x28"
definition NODE_FLAGS :: u32 where "NODE_FLAGS = NODE_HASH + 4"
definition NODE_DEF_DEST_PTR :: u32 where "NODE_DEF_DEST_PTR = NODE_FLAGS + 4"

definition BLOCK_PERIOD :: u32 where "BLOCK_PERIOD = 0"
definition BLOCK_ALT_DEST_PTR :: u32 where "BLOCK_ALT_DEST_PTR = BLOCK_PERIOD + 8"
definition BLOCK_CMDQ_LO_PTR :: u32 where "BLOCK_CMDQ_LO_PTR = BLOCK_ALT_DEST_PTR + 4"
definition BLOCK_CMDQ_HI_PTR :: u32 where "BLOCK_CMDQ_HI_PTR = BLOCK_CMDQ_LO_PTR + 4"
definition BLOCK_CMDQ_IL_PTR :: u32 where "BLOCK_CMDQ_IL_PTR = BLOCK_CMDQ_HI_PTR + 4"
definition BLOCK_CMDQ_WR_IDXS :: u32 where "BLOCK_CMDQ_WR_IDXS = BLOCK_CMDQ_IL_PTR + 4"
definition BLOCK_CMDQ_RD_IDXS :: u32 where "BLOCK_CMDQ_RD_IDXS = BLOCK_CMDQ_WR_IDXS + 4"
definition BLOCK_CMDQ_PTRS :: u32 where "BLOCK_CMDQ_PTRS = BLOCK_CMDQ_LO_PTR"
definition BLOCK_CMDQ_FLAGS :: u32 where "BLOCK_CMDQ_FLAGS = BLOCK_CMDQ_RD_IDXS + 4"

definition EVT_OFFS_TIME :: u32 where "EVT_OFFS_TIME = 0"
definition EVT_HDR_END :: u32 where "EVT_HDR_END = EVT_OFFS_TIME + 8"
definition TMSG_ID :: u32 where "TMSG_ID = EVT_HDR_END"
definition TMSG_ID_LO :: u32 where "TMSG_ID_LO = TMSG_ID + 4"
definition TMSG_PAR :: u32 where "TMSG_PAR = TMSG_ID + 8"
definition TMSG_RES :: u32 where "TMSG_RES = TMSG_PAR + 8"
definition TMSG_TEF :: u32 where "TMSG_TEF = TMSG_RES + 4"
definition SWITCH_TARGET :: u32 where "SWITCH_TARGET = EVT_HDR_END"
definition SWITCH_DEST :: u32 where "SWITCH_DEST = SWITCH_TARGET + 4 + 8 + 4"
definition ORIGIN_DEST :: u32 where "ORIGIN_DEST = EVT_HDR_END"
definition ORIGIN_RES :: u32 where "ORIGIN_RES = ORIGIN_DEST + 4"
definition ORIGIN_CPU :: u32 where "ORIGIN_CPU = ORIGIN_RES + 4"
definition ORIGIN_THR :: u32 where "ORIGIN_THR = ORIGIN_CPU + 4"
definition STARTTHREAD_STARTOFFS :: u32 where "STARTTHREAD_STARTOFFS = EVT_HDR_END"
definition STARTTHREAD_CPU :: u32 where "STARTTHREAD_CPU = STARTTHREAD_STARTOFFS + 8"
definition STARTTHREAD_THR :: u32 where "STARTTHREAD_THR = STARTTHREAD_CPU + 4"
definition CMD_TARGET :: u32 where "CMD_TARGET = EVT_HDR_END"
definition CMD_VALID_TIME :: u32 where "CMD_VALID_TIME = CMD_TARGET + 4"
definition CMD_ACT :: u32 where "CMD_ACT = CMD_VALID_TIME + 8"

lemma node_layout [dm_layout]:
  "NODE_HASH = 40" "NODE_FLAGS = 44" "NODE_DEF_DEST_PTR = 48"
  "BLOCK_PERIOD = 0" "BLOCK_ALT_DEST_PTR = 8" "BLOCK_CMDQ_LO_PTR = 12" "BLOCK_CMDQ_HI_PTR = 16"
  "BLOCK_CMDQ_IL_PTR = 20" "BLOCK_CMDQ_WR_IDXS = 24" "BLOCK_CMDQ_RD_IDXS = 28"
  "BLOCK_CMDQ_PTRS = 12" "BLOCK_CMDQ_FLAGS = 32"
  by (simp_all add: NODE_HASH_def NODE_FLAGS_def NODE_DEF_DEST_PTR_def BLOCK_PERIOD_def
      BLOCK_ALT_DEST_PTR_def BLOCK_CMDQ_LO_PTR_def BLOCK_CMDQ_HI_PTR_def BLOCK_CMDQ_IL_PTR_def
      BLOCK_CMDQ_WR_IDXS_def BLOCK_CMDQ_RD_IDXS_def BLOCK_CMDQ_PTRS_def BLOCK_CMDQ_FLAGS_def)

lemma event_layout [dm_layout]:
  "EVT_OFFS_TIME = 0" "EVT_HDR_END = 8" "TMSG_ID = 8" "TMSG_ID_LO = 12" "TMSG_PAR = 16"
  "TMSG_RES = 24" "TMSG_TEF = 28" "SWITCH_TARGET = 8" "SWITCH_DEST = 24"
  "ORIGIN_DEST = 8" "ORIGIN_RES = 12" "ORIGIN_CPU = 16" "ORIGIN_THR = 20"
  "STARTTHREAD_STARTOFFS = 8" "STARTTHREAD_CPU = 16" "STARTTHREAD_THR = 20"
  "CMD_TARGET = 8" "CMD_VALID_TIME = 12" "CMD_ACT = 20"
  by (simp_all add: EVT_OFFS_TIME_def EVT_HDR_END_def TMSG_ID_def TMSG_ID_LO_def TMSG_PAR_def
      TMSG_RES_def TMSG_TEF_def SWITCH_TARGET_def SWITCH_DEST_def ORIGIN_DEST_def ORIGIN_RES_def
      ORIGIN_CPU_def ORIGIN_THR_def STARTTHREAD_STARTOFFS_def STARTTHREAD_CPU_def
      STARTTHREAD_THR_def CMD_TARGET_def CMD_VALID_TIME_def CMD_ACT_def)

section \<open>Bit fields\<close>

text \<open>
  The shifted masks of the status register, the queue lock flags, the action
  word and the node flags.  \<open>SHCTL_STATUS_BAD_NODE_TYPE_SMSK\<close> is built from the
  bad-action mask in the header, so both errors raise bit 13.
\<close>

definition SHCTL_STATUS_UART_INIT_SMSK :: u32 where "SHCTL_STATUS_UART_INIT_SMSK = push_bit 0 0x1"
definition SHCTL_STATUS_EBM_INIT_SMSK :: u32 where "SHCTL_STATUS_EBM_INIT_SMSK = push_bit 1 0x1"
definition SHCTL_STATUS_PQ_INIT_SMSK :: u32 where "SHCTL_STATUS_PQ_INIT_SMSK = push_bit 2 0x1"
definition SHCTL_STATUS_DM_INIT_SMSK :: u32 where "SHCTL_STATUS_DM_INIT_SMSK = push_bit 3 0x1"
definition SHCTL_STATUS_BAD_ACT_TYPE_SMSK :: u32 where
  "SHCTL_STATUS_BAD_ACT_TYPE_SMSK = push_bit 13 0x1"
definition SHCTL_STATUS_BAD_NODE_TYPE_SMSK :: u32 where
  "SHCTL_STATUS_BAD_NODE_TYPE_SMSK = SHCTL_STATUS_BAD_ACT_TYPE_SMSK"

definition BLOCK_CMDQ_DNW_SMSK :: u32 where "BLOCK_CMDQ_DNW_SMSK = push_bit 0 0x1"
definition BLOCK_CMDQ_DNR_SMSK :: u32 where "BLOCK_CMDQ_DNR_SMSK = push_bit 1 0x1"
definition BLOCK_CMDQ_WR_IDXS_SMSK :: u32 where "BLOCK_CMDQ_WR_IDXS_SMSK = 0x00ffffff"
definition BLOCK_CMDQ_RD_IDXS_SMSK :: u32 where "BLOCK_CMDQ_RD_IDXS_SMSK = BLOCK_CMDQ_WR_IDXS_SMSK"

definition Q_IDX_MAX_OVF_MSK :: u8 where "Q_IDX_MAX_OVF_MSK = NOT (- push_bit 3 1)"
definition Q_IDX_MAX_MSK :: u8 where "Q_IDX_MAX_MSK = NOT (- push_bit 2 1)"

definition ACT_QTY_MSK :: u32 where "ACT_QTY_MSK = 0xfffff"
definition ACT_QTY_SMSK :: u32 where "ACT_QTY_SMSK = push_bit 0 ACT_QTY_MSK"
definition ACT_TYPE_MSK :: u32 where "ACT_TYPE_MSK = 0xf"
definition ACT_PRIO_MSK :: u32 where "ACT_PRIO_MSK = 0x3"
definition ACT_VABS_MSK :: u32 where "ACT_VABS_MSK = 0x1"
definition ACT_CHP_SMSK :: u32 where "ACT_CHP_SMSK = push_bit 27 0x1"
definition ACT_FLUSH_PRIO_MSK :: u32 where "ACT_FLUSH_PRIO_MSK = 0x7"
definition ACT_WAIT_ABS_SMSK :: u32 where "ACT_WAIT_ABS_SMSK = push_bit 28 0x1"

definition NFLG_TYPE_MSK :: u32 where "NFLG_TYPE_MSK = 0xff"
definition NFLG_PAINT_LM32_SMSK :: u32 where "NFLG_PAINT_LM32_SMSK = push_bit 8 0x1"
definition NFLG_BLOCK_QS_POS :: nat where "NFLG_BLOCK_QS_POS = 20"

lemma bitfields [dm_layout]:
  "SHCTL_STATUS_UART_INIT_SMSK = 1" "SHCTL_STATUS_EBM_INIT_SMSK = 2"
  "SHCTL_STATUS_PQ_INIT_SMSK = 4" "SHCTL_STATUS_DM_INIT_SMSK = 8"
  "SHCTL_STATUS_BAD_ACT_TYPE_SMSK = 0x2000" "SHCTL_STATUS_BAD_NODE_TYPE_SMSK = 0x2000"
  "BLOCK_CMDQ_DNW_SMSK = 1" "BLOCK_CMDQ_DNR_SMSK = 2"
  "BLOCK_CMDQ_WR_IDXS_SMSK = 0xffffff" "BLOCK_CMDQ_RD_IDXS_SMSK = 0xffffff"
  "Q_IDX_MAX_OVF_MSK = 7" "Q_IDX_MAX_MSK = 3"
  "ACT_QTY_MSK = 0xfffff" "ACT_QTY_SMSK = 0xfffff" "ACT_TYPE_MSK = 0xf" "ACT_PRIO_MSK = 3"
  "ACT_VABS_MSK = 1" "ACT_CHP_SMSK = 0x8000000" "ACT_FLUSH_PRIO_MSK = 7"
  "ACT_WAIT_ABS_SMSK = 0x10000000"
  "NFLG_TYPE_MSK = 0xff" "NFLG_PAINT_LM32_SMSK = 0x100" "NFLG_BLOCK_QS_POS = 20"
  by (simp_all add: SHCTL_STATUS_UART_INIT_SMSK_def SHCTL_STATUS_EBM_INIT_SMSK_def
      SHCTL_STATUS_PQ_INIT_SMSK_def SHCTL_STATUS_DM_INIT_SMSK_def
      SHCTL_STATUS_BAD_ACT_TYPE_SMSK_def SHCTL_STATUS_BAD_NODE_TYPE_SMSK_def
      BLOCK_CMDQ_DNW_SMSK_def BLOCK_CMDQ_DNR_SMSK_def BLOCK_CMDQ_WR_IDXS_SMSK_def
      BLOCK_CMDQ_RD_IDXS_SMSK_def Q_IDX_MAX_OVF_MSK_def Q_IDX_MAX_MSK_def ACT_QTY_MSK_def
      ACT_QTY_SMSK_def ACT_TYPE_MSK_def ACT_PRIO_MSK_def ACT_VABS_MSK_def ACT_CHP_SMSK_def
      ACT_FLUSH_PRIO_MSK_def ACT_WAIT_ABS_SMSK_def NFLG_TYPE_MSK_def NFLG_PAINT_LM32_SMSK_def
      NFLG_BLOCK_QS_POS_def)

section \<open>Node and action types\<close>

datatype node_type =
    NODE_TYPE_UNKNOWN | NODE_TYPE_RAW | NODE_TYPE_TMSG | NODE_TYPE_CNOOP | NODE_TYPE_CFLOW
  | NODE_TYPE_CFLUSH | NODE_TYPE_CWAIT | NODE_TYPE_BLOCK_FIXED | NODE_TYPE_BLOCK_ALIGN
  | NODE_TYPE_QUEUE | NODE_TYPE_QBUF | NODE_TYPE_SHARE | NODE_TYPE_ALTDST | NODE_TYPE_ORIGIN
  | NODE_TYPE_STARTTHREAD | NODE_TYPE_MGMT | NODE_TYPE_COVENANT | NODE_TYPE_NULL
  | NODE_TYPE_CSWITCH

definition node_types :: "node_type list" where
  "node_types = [NODE_TYPE_UNKNOWN, NODE_TYPE_RAW, NODE_TYPE_TMSG, NODE_TYPE_CNOOP,
     NODE_TYPE_CFLOW, NODE_TYPE_CFLUSH, NODE_TYPE_CWAIT, NODE_TYPE_BLOCK_FIXED,
     NODE_TYPE_BLOCK_ALIGN, NODE_TYPE_QUEUE, NODE_TYPE_QBUF, NODE_TYPE_SHARE, NODE_TYPE_ALTDST,
     NODE_TYPE_ORIGIN, NODE_TYPE_STARTTHREAD, NODE_TYPE_MGMT, NODE_TYPE_COVENANT,
     NODE_TYPE_NULL, NODE_TYPE_CSWITCH]"

definition NODE_TYPE_END :: nat where "NODE_TYPE_END = length node_types"

text \<open>The type number of a node, as the header numbers the enumerators.\<close>

definition node_type_of :: "u32 \<Rightarrow> node_type" where
  "node_type_of n = node_types ! unat n"

datatype act_type =
    ACT_TYPE_UNKNOWN | ACT_TYPE_NOOP | ACT_TYPE_FLOW | ACT_TYPE_FLUSH | ACT_TYPE_WAIT

definition act_types :: "act_type list" where
  "act_types = [ACT_TYPE_UNKNOWN, ACT_TYPE_NOOP, ACT_TYPE_FLOW, ACT_TYPE_FLUSH, ACT_TYPE_WAIT]"

definition ACT_TYPE_END :: nat where "ACT_TYPE_END = length act_types"

lemma NODE_TYPE_END_val [dm_layout]: "NODE_TYPE_END = 19"
  by (simp add: NODE_TYPE_END_def node_types_def)

lemma ACT_TYPE_END_val [dm_layout]: "ACT_TYPE_END = 5"
  by (simp add: ACT_TYPE_END_def act_types_def)

end
