(* ===== verification/Dm_State.thy ===== *)
theory Dm_State
  imports Ftm_Common
begin

text \<open>
  The state of one data master CPU (modules/ftm/ftmfw/dm.c): its RAM, the White
  Rabbit clock it reads, and the FIFO port of the hardware priority queue.

  The RAM is a map from word-aligned byte addresses to 32-bit words; a 64-bit
  access touches the high word first (LM32 is big endian), a byte access selects
  a lane of the word around it.  \<open>startshared\<close> is the address of the shared
  control area (\<open>_startshared\<close>, the pointer \<open>p\<close> of the source); \<open>int_base_adr\<close> and
  \<open>ram_size\<close> are the build's \<open>INT_BASE_ADR\<close> and \<open>RAM_SIZE\<close>.  The clock is not under
  the program's control: \<open>clk n\<close> is what the n-th call of \<open>getSysTime\<close> returns,
  and \<open>ticks\<close> counts the calls, so that two reads in one handler may differ.
  \<open>pq_out\<close> logs the writes to the priority queue's data port (tag, word) and
  \<open>pq_cnt\<close> is its read-only message counter.
\<close>

record dm_state =
  mem :: "u32 \<Rightarrow> u32"
  startshared :: u32
  int_base_adr :: u32
  ram_size :: u32
  clk :: "nat \<Rightarrow> u64"
  ticks :: nat
  pq_out :: "(u32 \<times> u32) list"
  pq_cnt :: u64

section \<open>Memory accesses\<close>

definition rd32 :: "dm_state \<Rightarrow> u32 \<Rightarrow> u32" where
  "rd32 s a = mem s a"

definition wr32 :: "u32 \<Rightarrow> u32 \<Rightarrow> dm_state \<Rightarrow> dm_state" where
  "wr32 a v s = s\<lparr>mem := (mem s)(a := v)\<rparr>"

definition rd64 :: "dm_state \<Rightarrow> u32 \<Rightarrow> u64" where
  "rd64 s a = mk64 (mem s a) (mem s (a + 4))"

definition wr64 :: "u32 \<Rightarrow> u64 \<Rightarrow> dm_state \<Rightarrow> dm_state" where
  "wr64 a v s = s\<lparr>mem := (mem s)(a := hiW v, a + 4 := loW v)\<rparr>"

definition rd8 :: "dm_state \<Rightarrow> u32 \<Rightarrow> u8" where
  "rd8 s a = getbyte (mem s (a AND NOT 3)) (3 - unat (a AND 3))"

definition wr8 :: "u32 \<Rightarrow> u8 \<Rightarrow> dm_state \<Rightarrow> dm_state" where
  "wr8 a v s = s\<lparr>mem := (mem s)
     (a AND NOT 3 := setbyte (mem s (a AND NOT 3)) (3 - unat (a AND 3)) v)\<rparr>"

definition getSysTime :: "dm_state \<Rightarrow> u64 \<times> dm_state" where
  "getSysTime s = (clk s (ticks s), s\<lparr>ticks := Suc (ticks s)\<rparr>)"

definition pq_put :: "u32 \<Rightarrow> u32 \<Rightarrow> dm_state \<Rightarrow> dm_state" where
  "pq_put tag v s = s\<lparr>pq_out := pq_out s @ [(tag, v)]\<rparr>"

section \<open>Read-over-write laws\<close>

lemma mem_wr32 [mem_simps]: "mem (wr32 a v s) = (mem s)(a := v)"
  by (simp add: wr32_def)

lemma mem_wr64 [mem_simps]: "mem (wr64 a v s) = (mem s)(a := hiW v, a + 4 := loW v)"
  by (simp add: wr64_def)

lemma rest_wr32 [mem_simps]:
  "startshared (wr32 a v s) = startshared s" "int_base_adr (wr32 a v s) = int_base_adr s"
  "ram_size (wr32 a v s) = ram_size s" "clk (wr32 a v s) = clk s" "ticks (wr32 a v s) = ticks s"
  "pq_out (wr32 a v s) = pq_out s" "pq_cnt (wr32 a v s) = pq_cnt s"
  by (simp_all add: wr32_def)

lemma rest_wr64 [mem_simps]:
  "startshared (wr64 a v s) = startshared s" "int_base_adr (wr64 a v s) = int_base_adr s"
  "ram_size (wr64 a v s) = ram_size s" "clk (wr64 a v s) = clk s" "ticks (wr64 a v s) = ticks s"
  "pq_out (wr64 a v s) = pq_out s" "pq_cnt (wr64 a v s) = pq_cnt s"
  by (simp_all add: wr64_def)

lemma rest_wr8 [mem_simps]:
  "startshared (wr8 a v s) = startshared s" "int_base_adr (wr8 a v s) = int_base_adr s"
  "ram_size (wr8 a v s) = ram_size s" "clk (wr8 a v s) = clk s" "ticks (wr8 a v s) = ticks s"
  "pq_out (wr8 a v s) = pq_out s" "pq_cnt (wr8 a v s) = pq_cnt s"
  by (simp_all add: wr8_def)

lemma pq_put_sel [mem_simps]:
  "mem (pq_put t v s) = mem s" "startshared (pq_put t v s) = startshared s"
  "int_base_adr (pq_put t v s) = int_base_adr s"
  "ram_size (pq_put t v s) = ram_size s" "clk (pq_put t v s) = clk s"
  "ticks (pq_put t v s) = ticks s" "pq_out (pq_put t v s) = pq_out s @ [(t, v)]"
  "pq_cnt (pq_put t v s) = pq_cnt s"
  by (simp_all add: pq_put_def)

lemma getSysTime_sel [mem_simps]:
  "fst (getSysTime s) = clk s (ticks s)"
  "mem (snd (getSysTime s)) = mem s" "startshared (snd (getSysTime s)) = startshared s"
  "int_base_adr (snd (getSysTime s)) = int_base_adr s"
  "ram_size (snd (getSysTime s)) = ram_size s" "clk (snd (getSysTime s)) = clk s"
  "ticks (snd (getSysTime s)) = Suc (ticks s)" "pq_out (snd (getSysTime s)) = pq_out s"
  "pq_cnt (snd (getSysTime s)) = pq_cnt s"
  by (simp_all add: getSysTime_def)

lemma rd32_wr32_same [mem_simps]: "rd32 (wr32 a v s) a = v"
  by (simp add: rd32_def wr32_def)

lemma rd32_wr32_other [mem_simps]: "a \<noteq> b \<Longrightarrow> rd32 (wr32 b v s) a = rd32 s a"
  by (simp add: rd32_def wr32_def)

lemma rd64_wr64_same [mem_simps]: "rd64 (wr64 a v s) a = v"
  by (simp add: rd64_def wr64_def)

text \<open>
  The control area is the 820 bytes from \<open>startshared\<close>; an address outside it
  is one that no control register shares.
\<close>

definition in_ctl :: "dm_state \<Rightarrow> u32 \<Rightarrow> bool" where
  "in_ctl s a \<longleftrightarrow> a - startshared s < SHCTL_END"

end
