(* ===== verification/Heap_List.thy ===== *)
theory Heap_List
  imports Prelude
begin

text \<open>
  The abstract scheduler heap: a list of threads ordered by a key (the
  deadline).  \<open>sift\<close> is the "moving node" variant of sift-down the data master
  uses (one copy per layer, the moving element written once at the end);
  \<open>replace_at\<close> starts it at an index, \<open>heapify_list\<close> builds a heap bottom up.
  The locale \<open>edf_queue\<close> is the contract the scheduler relies on: replacing
  keeps the elements and restores the order, so the root is a thread with the
  earliest deadline.
\<close>

definition heap_parent :: "nat \<Rightarrow> nat" where
  "heap_parent c = (c - 1) div 2"

definition heap_from :: "('a \<Rightarrow> 'k::linorder) \<Rightarrow> nat \<Rightarrow> 'a list \<Rightarrow> bool" where
  "heap_from k n xs \<longleftrightarrow>
     (\<forall>c < length xs. 0 < c \<longrightarrow> n \<le> heap_parent c \<longrightarrow> k (xs ! heap_parent c) \<le> k (xs ! c))"

abbreviation is_heap :: "('a \<Rightarrow> 'k::linorder) \<Rightarrow> 'a list \<Rightarrow> bool" where
  "is_heap k xs \<equiv> heap_from k 0 xs"

definition pick_child :: "('a \<Rightarrow> 'k::linorder) \<Rightarrow> 'a \<Rightarrow> nat \<Rightarrow> 'a list \<Rightarrow> nat" where
  "pick_child k m p xs =
     (let l = 2 * p + 1; r = l + 1;
          c = (if l < length xs \<and> k (xs ! l) < k m then l else p)
      in if r < length xs \<and> k (xs ! r) < k m \<and> k (xs ! r) < k (xs ! l) then r else c)"

lemma pick_child_cases:
  obtains (stay) "pick_child k m p xs = p"
      "\<And>c. c < length xs \<Longrightarrow> 0 < c \<Longrightarrow> heap_parent c = p \<Longrightarrow> k m \<le> k (xs ! c)"
    | (child) "p < pick_child k m p xs" "pick_child k m p xs < length xs" "heap_parent (pick_child k m p xs) = p"
      "k (xs ! pick_child k m p xs) < k m"
      "\<And>c. c < length xs \<Longrightarrow> 0 < c \<Longrightarrow> heap_parent c = p \<Longrightarrow> k (xs ! pick_child k m p xs) \<le> k (xs ! c)"
proof -
  have heap_parent: "\<And>c. 0 < c \<Longrightarrow> heap_parent c = p \<Longrightarrow> c = 2 * p + 1 \<or> c = 2 * p + 2"
    by (auto simp: heap_parent_def)
  have pl: "heap_parent (Suc (2 * p)) = p" and pr: "heap_parent (Suc (Suc (2 * p))) = p"
    by (simp_all add: heap_parent_def)
  show thesis
  proof (cases "pick_child k m p xs = p")
    case True
    have "k m \<le> k (xs ! c)" if "c < length xs" "0 < c" "heap_parent c = p" for c
      using True heap_parent[OF that(2,3)] that(1)
      by (auto simp: pick_child_def Let_def not_less split: if_splits)
    with True show thesis by (rule stay)
  next
    case False
    let ?c = "pick_child k m p xs"
    have c: "p < ?c" "?c < length xs" "heap_parent ?c = p" "k (xs ! ?c) < k m"
      using False pl pr by (auto simp: pick_child_def Let_def split: if_splits)
    have "k (xs ! ?c) \<le> k (xs ! c)" if "c < length xs" "0 < c" "heap_parent c = p" for c
      using False heap_parent[OF that(2,3)] that(1)
      by (auto simp: pick_child_def Let_def not_less split: if_splits)
    with c show thesis by (rule child)
  qed
qed

function sift :: "('a \<Rightarrow> 'k::linorder) \<Rightarrow> 'a \<Rightarrow> nat \<Rightarrow> 'a list \<Rightarrow> 'a list" where
  "sift k m p xs =
     (let c = pick_child k m p xs
      in if c = p then xs[p := m] else sift k m c (xs[p := xs ! c]))"
  by pat_completeness auto
termination
proof (relation "measure (\<lambda>(k, m, p, xs). length xs - p)")
  fix k :: "'a \<Rightarrow> 'k::linorder" and m p and xs :: "'a list" and x
  assume "x = pick_child k m p xs" "x \<noteq> p"
  thus "((k, m, x, xs[p := xs ! x]), (k, m, p, xs)) \<in> measure (\<lambda>(k, m, p, xs). length xs - p)"
    by (cases rule: pick_child_cases[of k m p xs]) auto
qed simp

declare sift.simps [simp del]

definition replace_at :: "('a \<Rightarrow> 'k::linorder) \<Rightarrow> nat \<Rightarrow> 'a list \<Rightarrow> 'a list" where
  "replace_at k src xs = sift k (xs ! src) src xs"

text \<open>\<open>heapify_from k n xs\<close> replaces at \<open>n - 1\<close>, \<open>n - 2\<close>, ..., 0.\<close>

primrec heapify_from :: "('a \<Rightarrow> 'k::linorder) \<Rightarrow> nat \<Rightarrow> 'a list \<Rightarrow> 'a list" where
  "heapify_from k 0 xs = xs"
| "heapify_from k (Suc n) xs = heapify_from k n (replace_at k n xs)"

definition heapify_list :: "('a \<Rightarrow> 'k::linorder) \<Rightarrow> 'a list \<Rightarrow> 'a list" where
  "heapify_list k xs = heapify_from k (length xs div 2) xs"

section \<open>Sifting keeps the elements and restores the order\<close>

lemma length_sift [simp]: "length (sift k m p xs) = length xs"
  by (induction k m p xs rule: sift.induct) (subst sift.simps, simp add: Let_def)

lemma mset_sift: "p < length xs \<Longrightarrow> mset (sift k m p xs) = mset (xs[p := m])"
proof (induction k m p xs rule: sift.induct)
  case (1 k m p xs)
  let ?c = "pick_child k m p xs"
  show ?case
  proof (cases "?c = p")
    case True
    thus ?thesis by (subst sift.simps) simp
  next
    case False
    hence c: "p < ?c" "?c < length xs" by (cases rule: pick_child_cases[of k m p xs]; simp)+
    have swap: "(xs[p := m])[p := xs[p := m] ! ?c, ?c := xs[p := m] ! p] = xs[p := xs ! ?c, ?c := m]"
      using c 1(2) by simp
    have "mset (sift k m p xs) = mset (xs[p := xs ! ?c, ?c := m])"
      using False c 1 by (subst sift.simps) (simp add: Let_def)
    also have "\<dots> = mset (xs[p := m])"
      using mset_swap[of ?c "xs[p := m]" p] c 1(2) swap by simp
    finally show ?thesis .
  qed
qed

lemma heap_parent_less: "0 < c \<Longrightarrow> heap_parent c < c"
  by (auto simp: heap_parent_def)

text \<open>Every edge is ordered except those out of the hole \<open>p\<close>, and the hole's parent is below
  the hole's children.\<close>

definition hole_ok :: "('a \<Rightarrow> 'k::linorder) \<Rightarrow> nat \<Rightarrow> nat \<Rightarrow> 'a list \<Rightarrow> bool" where
  "hole_ok k n p ys \<longleftrightarrow>
     (\<forall>c < length ys. 0 < c \<longrightarrow> n \<le> heap_parent c \<longrightarrow> heap_parent c \<noteq> p \<longrightarrow> k (ys ! heap_parent c) \<le> k (ys ! c)) \<and>
     (\<forall>c < length ys. 0 < c \<longrightarrow> heap_parent c = p \<longrightarrow> 0 < p \<longrightarrow> n \<le> heap_parent p \<longrightarrow> k (ys ! heap_parent p) \<le> k (ys ! c))"

lemma hole_ok_edge:
  "\<lbrakk>hole_ok k n p ys; c < length ys; 0 < c; n \<le> heap_parent c; heap_parent c \<noteq> p\<rbrakk> \<Longrightarrow> k (ys ! heap_parent c) \<le> k (ys ! c)"
  by (simp add: hole_ok_def)

lemma hole_ok_step:
  assumes inv: "hole_ok k n p (xs[p := m])" and p: "p < length xs" and np: "n \<le> p"
    and c: "p < c" "c < length xs" "heap_parent c = p" "k (xs ! c) < k m"
    and least: "\<And>d. d < length xs \<Longrightarrow> 0 < d \<Longrightarrow> heap_parent d = p \<Longrightarrow> k (xs ! c) \<le> k (xs ! d)"
  shows "hole_ok k n c (xs[p := xs ! c, c := m])"
  unfolding hole_ok_def
proof (intro conjI allI impI)
  let ?ys = "xs[p := xs ! c, c := m]"
  fix d assume d: "d < length ?ys" "0 < d" "n \<le> heap_parent d" "heap_parent d \<noteq> c"
  consider "heap_parent d = p" | "d = p" | "heap_parent d \<noteq> p" "d \<noteq> p" by blast
  thus "k (?ys ! heap_parent d) \<le> k (?ys ! d)"
  proof cases
    case 1
    thus ?thesis using least[of d] d c p heap_parent_less[of d] by (cases "d = c") auto
  next
    case 2
    hence "k (xs[p := m] ! heap_parent p) \<le> k (xs[p := m] ! c)"
      using inv c d p by (auto simp: hole_ok_def)
    thus ?thesis using 2 d c p heap_parent_less[of d] by auto
  next
    case 3
    have "k (xs[p := m] ! heap_parent d) \<le> k (xs[p := m] ! d)"
      using hole_ok_edge[OF inv, of d] d 3 by simp
    thus ?thesis using 3 d c p heap_parent_less[of d] by (cases "d = c") auto
  qed
next
  let ?ys = "xs[p := xs ! c, c := m]"
  fix d assume d: "d < length ?ys" "0 < d" "heap_parent d = c" "0 < c" "n \<le> heap_parent c"
  have "heap_parent d \<noteq> p" using d c by simp
  moreover have "n \<le> heap_parent d" using d np c by simp
  ultimately have "k (xs[p := m] ! c) \<le> k (xs[p := m] ! d)"
    using hole_ok_edge[OF inv, of d] d by simp
  thus "k (?ys ! heap_parent c) \<le> k (?ys ! d)"
    using d c p heap_parent_less[of d] by (cases "d = p") auto
qed

lemma heap_from_sift:
  "\<lbrakk>hole_ok k n p (xs[p := m]); p < length xs; n \<le> p\<rbrakk> \<Longrightarrow> heap_from k n (sift k m p xs)"
proof (induction k m p xs rule: sift.induct)
  case (1 k m p xs)
  let ?c = "pick_child k m p xs"
  show ?case
  proof (cases rule: pick_child_cases[of k m p xs])
    case stay
    have "heap_from k n (xs[p := m])"
      unfolding heap_from_def
    proof (intro allI impI)
      fix c assume c: "c < length (xs[p := m])" "0 < c" "n \<le> heap_parent c"
      show "k (xs[p := m] ! heap_parent c) \<le> k (xs[p := m] ! c)"
      proof (cases "heap_parent c = p")
        case True
        thus ?thesis using stay(2)[of c] c 1(3) heap_parent_less[of c] by simp
      next
        case False
        thus ?thesis using hole_ok_edge[OF 1(2)] c by simp
      qed
    qed
    thus ?thesis using stay(1) by (subst sift.simps) simp
  next
    case child
    have "hole_ok k n ?c (xs[p := xs ! ?c, ?c := m])"
      using hole_ok_step[OF 1(2,3,4) child] .
    hence "heap_from k n (sift k m ?c (xs[p := xs ! ?c]))"
      using 1(1)[OF refl] child 1(3,4) by simp
    thus ?thesis using child(1) by (subst sift.simps) (simp add: Let_def)
  qed
qed

text \<open>Only the keys of the elements present matter.\<close>

lemma heap_from_cong:
  assumes "\<And>x. x \<in> set xs \<Longrightarrow> k x = k' x"
  shows "heap_from k n xs = heap_from k' n xs"
proof -
  have "k (xs ! i) = k' (xs ! i)" if "i < length xs" for i
    using assms that by simp
  moreover have "heap_parent c < length xs" if "c < length xs" "0 < c" for c
    using heap_parent_less[of c] that by simp
  ultimately show ?thesis by (simp add: heap_from_def)
qed

lemma pick_child_cong:
  assumes "\<And>x. x \<in> set xs \<Longrightarrow> k x = k' x" "k m = k' m"
  shows "pick_child k m p xs = pick_child k' m p xs"
proof -
  have "k (xs ! i) = k' (xs ! i)" if "i < length xs" for i
    using assms(1) that by simp
  thus ?thesis using assms(2) by (auto simp: pick_child_def Let_def)
qed

lemma pick_child_less: "p < length xs \<Longrightarrow> pick_child k m p xs < length xs"
  by (cases rule: pick_child_cases[of k m p xs]) simp_all

lemma sift_cong:
  assumes "\<And>x. x \<in> set xs \<Longrightarrow> k x = k' x" "k m = k' m" "p < length xs"
  shows "sift k m p xs = sift k' m p xs"
  using assms
proof (induction k m p xs rule: sift.induct)
  case (1 k m p xs)
  let ?c = "pick_child k m p xs"
  have pc: "pick_child k' m p xs = ?c"
    by (rule pick_child_cong[symmetric]) (simp_all add: 1)
  have c: "?c < length xs" by (rule pick_child_less[OF 1(4)])
  have "set (xs[p := xs ! ?c]) \<subseteq> set xs"
    using set_update_subset_insert[of xs p] nth_mem[OF c] by blast
  hence "sift k m ?c (xs[p := xs ! ?c]) = sift k' m ?c (xs[p := xs ! ?c])" if "?c \<noteq> p"
    using 1 that c by (intro 1(1)[OF refl that]) auto
  thus ?case by (subst (1 2) sift.simps) (simp add: Let_def pc)
qed

section \<open>Replacing and heapifying\<close>

lemma length_replace_at [simp]: "length (replace_at k n xs) = length xs"
  by (simp add: replace_at_def)

lemma mset_replace_at [simp]: "n < length xs \<Longrightarrow> mset (replace_at k n xs) = mset xs"
  by (simp add: replace_at_def mset_sift)

lemma heap_from_replace_at:
  assumes "heap_from k (Suc n) xs" "n < length xs"
  shows "heap_from k n (replace_at k n xs)"
proof -
  have "hole_ok k n n xs"
    using assms(1) by (auto simp: hole_ok_def heap_from_def heap_parent_def)
  thus ?thesis
    unfolding replace_at_def using assms(2) by (intro heap_from_sift) simp_all
qed

lemma heap_from_leaves: "heap_from k (length xs div 2) xs"
  by (auto simp: heap_from_def heap_parent_def)

lemma length_heapify_from [simp]: "length (heapify_from k n xs) = length xs"
  by (induction n arbitrary: xs) simp_all

lemma heap_root_le:
  assumes "is_heap k xs" "i < length xs"
  shows "k (xs ! 0) \<le> k (xs ! i)"
  using assms(2)
proof (induction i rule: less_induct)
  case (less i)
  show ?case
  proof (cases "i = 0")
    case False
    hence "heap_parent i < i" by (simp add: heap_parent_less)
    hence "k (xs ! 0) \<le> k (xs ! heap_parent i)" using less by simp
    also have "k (xs ! heap_parent i) \<le> k (xs ! i)"
      using assms(1) False less.prems by (simp add: heap_from_def)
    finally show ?thesis .
  qed simp
qed

section \<open>The scheduler's contract\<close>

locale edf_queue =
  fixes repl :: "('a \<Rightarrow> 'k::linorder) \<Rightarrow> nat \<Rightarrow> 'a list \<Rightarrow> 'a list"
  assumes repl_length: "length (repl k n xs) = length xs"
    and repl_mset: "n < length xs \<Longrightarrow> mset (repl k n xs) = mset xs"
    and repl_heap: "heap_from k (Suc n) xs \<Longrightarrow> n < length xs \<Longrightarrow> heap_from k n (repl k n xs)"
begin

primrec build :: "('a \<Rightarrow> 'k) \<Rightarrow> nat \<Rightarrow> 'a list \<Rightarrow> 'a list" where
  "build k 0 xs = xs"
| "build k (Suc n) xs = build k n (repl k n xs)"

lemma build_length: "length (build k n xs) = length xs"
  by (induction n arbitrary: xs) (simp_all add: repl_length)

lemma build_mset: "n \<le> length xs \<Longrightarrow> mset (build k n xs) = mset xs"
  by (induction n arbitrary: xs) (simp_all add: repl_length repl_mset)

lemma build_heap: "\<lbrakk>heap_from k n xs; n \<le> length xs\<rbrakk> \<Longrightarrow> is_heap k (build k n xs)"
  by (induction n arbitrary: xs) (simp_all add: repl_length repl_heap)

lemma build_is_heap: "is_heap k (build k (length xs div 2) xs)"
  by (rule build_heap[OF heap_from_leaves]) simp

text \<open>Changing only the root's key leaves a list that one replacement repairs.\<close>

lemma rekey_root:
  assumes "is_heap k xs" and "\<And>i. \<lbrakk>0 < i; i < length xs\<rbrakk> \<Longrightarrow> k' (xs ! i) = k (xs ! i)"
    and "xs \<noteq> []"
  shows "is_heap k' (repl k' 0 xs)"
proof (rule repl_heap)
  show "heap_from k' (Suc 0) xs"
    using assms(1,2) by (auto simp: heap_from_def heap_parent_def)
qed (use assms(3) in simp)

lemma repl_root_least:
  assumes "is_heap k (repl k n xs)" "i < length xs"
  shows "k (repl k n xs ! 0) \<le> k (repl k n xs ! i)"
  using heap_root_le[OF assms(1)] assms(2) by (simp add: repl_length)

end

interpretation edf: edf_queue replace_at
  by unfold_locales (simp_all add: heap_from_replace_at)

lemma heapify_from_build: "heapify_from k n xs = edf.build k n xs"
  by (induction n arbitrary: xs) simp_all

lemma replace_at_cong:
  assumes "\<And>x. x \<in> set xs \<Longrightarrow> k x = k' x" "n < length xs"
  shows "replace_at k n xs = replace_at k' n xs"
  unfolding replace_at_def using assms by (intro sift_cong) auto

lemma heapify_from_cong:
  "\<lbrakk>\<And>x. x \<in> set xs \<Longrightarrow> k x = k' x; n \<le> length xs\<rbrakk> \<Longrightarrow> heapify_from k n xs = heapify_from k' n xs"
proof (induction n arbitrary: xs)
  case (Suc n)
  have "set (replace_at k n xs) = set xs"
    using mset_replace_at[of n xs k] Suc.prems(2) by (metis Suc_le_lessD set_mset_mset)
  thus ?case
    using Suc.IH[of "replace_at k n xs"] Suc.prems replace_at_cong[of xs k k' n] by simp
qed simp

lemma mset_heapify_list [simp]: "mset (heapify_list k xs) = mset xs"
  by (simp add: heapify_list_def heapify_from_build edf.build_mset)

lemma length_heapify_list [simp]: "length (heapify_list k xs) = length xs"
  by (simp add: heapify_list_def)

lemma is_heap_heapify_list: "is_heap k (heapify_list k xs)"
  unfolding heapify_list_def heapify_from_build by (rule edf.build_is_heap)

end
