(* ===== verification/Dm_Heap.thy ===== *)
theory Dm_Heap
  imports Dm_State Heap_List
begin

text \<open>
  The EDF scheduler heap of the data master in its memory representation
  (heapReplace, heapify of modules/ftm/ftmfw/dm.c): eight pointers to thread
  data at the start of the control area, ordered by the 64-bit deadline each
  thread keeps.  The last section proves that the routines refine the list
  operations of \<open>Heap_List\<close>: on the list of heap pointers, \<open>heapReplace\<close> is
  \<open>replace_at\<close> and \<open>heapify\<close> is \<open>heapify_list\<close>, and no other word changes.
\<close>

section \<open>The routines\<close>

text \<open>\<open>&hp[i]\<close>, \<open>hp[i]\<close>, \<open>DL(x)\<close>, and the thread data area of thread \<open>i\<close>.\<close>

definition hp_adr :: "dm_state \<Rightarrow> u32 \<Rightarrow> u32" where
  "hp_adr s i = startshared s + SHCTL_HEAP + 4 * i"

definition hp :: "dm_state \<Rightarrow> u32 \<Rightarrow> u32" where
  "hp s i = rd32 s (hp_adr s i)"

definition DL :: "dm_state \<Rightarrow> u32 \<Rightarrow> u64" where
  "DL s x = rd64 s (x + T_TD_DEADLINE)"

definition thr_dat :: "dm_state \<Rightarrow> nat \<Rightarrow> u32" where
  "thr_dat s i = startshared s + SHCTL_THR_DAT + of_nat i * T_TD_SIZE"

definition thr_sta :: "dm_state \<Rightarrow> nat \<Rightarrow> u32" where
  "thr_sta s i = startshared s + SHCTL_THR_STA + of_nat i * T_TS_SIZE"

text \<open>One round of the do-while loop: the chosen child and whether sorting goes on.\<close>

definition hr_choice :: "dm_state \<Rightarrow> u32 \<Rightarrow> u32 \<Rightarrow> bool \<times> u32" where
  "hr_choice s moving parent =
     (let left = push_bit 1 parent + 1; right = left + 1; r0 = (False, parent);
          r1 = (if left < of_nat HEAP_SIZE \<and> DL s (hp s left) < DL s moving
                then (True, left) else r0)
      in if right < of_nat HEAP_SIZE \<and> DL s (hp s right) < DL s moving
            \<and> DL s (hp s right) < DL s (hp s left)
         then (True, right) else r1)"

lemma word_less8_cases:
  assumes "(p::u32) < 8"
  shows "p \<in> {0, 1, 2, 3, 4, 5, 6, 7}"
proof -
  have "unat p < 8" using assms by (simp add: word_less_nat_alt)
  hence "unat p \<in> {0, 1, 2, 3, 4, 5, 6, 7}" by auto
  hence "(of_nat (unat p) :: u32) \<in> of_nat ` {0, 1, 2, 3, 4, 5, 6, 7}" by blast
  thus ?thesis by simp
qed

lemma hr_choice_progress:
  assumes "hr_choice s m p = (True, c)"
  shows "c < 8 \<and> (p < 8 \<longrightarrow> p < c)"
proof -
  have "c < 8" and c: "c = push_bit 1 p + 1 \<or> c = push_bit 1 p + 1 + 1"
    using assms by (auto simp: hr_choice_def Let_def dm_layout split: if_splits)
  moreover have "p < c" if "p < 8"
    using word_less8_cases[OF that] c by (auto simp: \<open>c < 8\<close>)
  ultimately show ?thesis by blast
qed

function hr_loop :: "u32 \<Rightarrow> u32 \<Rightarrow> dm_state \<Rightarrow> dm_state" where
  "hr_loop moving parent s =
     (case hr_choice s moving parent of (srt, choice) \<Rightarrow>
        let s1 = wr32 (hp_adr s parent) (hp s choice) s
        in if srt then hr_loop moving choice s1
           else wr32 (hp_adr s1 choice) moving s1)"
  by pat_completeness auto
termination
  by (relation "measure (\<lambda>(m, p, s). if p < 8 then 8 - unat p else 9)")
    (auto dest!: sym[of "(True, _)"] hr_choice_progress
      simp: word_less_nat_alt intro: diff_less_mono2)

declare hr_loop.simps [simp del]

definition heapReplace :: "u32 \<Rightarrow> dm_state \<Rightarrow> dm_state" where
  "heapReplace src s = hr_loop (hp s src) src s"

text \<open>\<open>for (startSrc = (_HEAP_SIZE_ >> 1) - 1; startSrc >= 0; startSrc--)\<close>\<close>

primrec heapify_loop :: "nat \<Rightarrow> dm_state \<Rightarrow> dm_state" where
  "heapify_loop 0 s = s"
| "heapify_loop (Suc n) s = heapify_loop n (heapReplace (of_nat n) s)"

definition heapify :: "dm_state \<Rightarrow> dm_state" where
  "heapify s = heapify_loop (HEAP_SIZE div 2) s"

section \<open>The heap as a list of pointers\<close>

definition heap_ptrs :: "dm_state \<Rightarrow> u32 list" where
  "heap_ptrs s = map (\<lambda>i. hp s (of_nat i)) [0..<HEAP_SIZE]"

text \<open>The deadline words of \<open>x\<close> are not heap cells.\<close>

definition dl_sep :: "dm_state \<Rightarrow> u32 \<Rightarrow> bool" where
  "dl_sep s x \<longleftrightarrow> (\<forall>i \<in> set [0..<HEAP_SIZE].
     x + T_TD_DEADLINE \<noteq> hp_adr s (of_nat i) \<and> x + T_TD_DEADLINE + 4 \<noteq> hp_adr s (of_nat i))"

definition same_but_heap :: "dm_state \<Rightarrow> dm_state \<Rightarrow> bool" where
  "same_but_heap s t \<longleftrightarrow> t = s\<lparr>mem := mem t\<rparr> \<and>
     (\<forall>a. a \<notin> (\<lambda>i. hp_adr s (of_nat i)) ` {0..<HEAP_SIZE} \<longrightarrow> mem t a = mem s a)"

lemma length_heap_ptrs [simp]: "length (heap_ptrs s) = 8"
  by (simp add: heap_ptrs_def dm_layout)

lemma heap_ptrs_nth [simp]: "i < 8 \<Longrightarrow> heap_ptrs s ! i = hp s (of_nat i)"
  by (simp add: heap_ptrs_def dm_layout)

lemma hp_adr_wr32 [simp]: "hp_adr (wr32 a v s) i = hp_adr s i"
  by (simp add: hp_adr_def mem_simps)

lemma hp_adr_inj:
  assumes "i < 8" "j < 8"
  shows "hp_adr s (of_nat i) = hp_adr s (of_nat j) \<longleftrightarrow> i = j"
proof -
  have "(4 * of_nat i :: u32) = 4 * of_nat j \<longleftrightarrow> (of_nat (4 * i) :: u32) = of_nat (4 * j)"
    by simp
  also have "\<dots> \<longleftrightarrow> i = j" using assms by (subst of_nat32_inj) auto
  finally show ?thesis by (simp add: hp_adr_def)
qed

lemma heap_ptrs_wr32:
  assumes "p < 8"
  shows "heap_ptrs (wr32 (hp_adr s (of_nat p)) v s) = (heap_ptrs s)[p := v]"
proof (rule nth_equalityI)
  fix i assume "i < length (heap_ptrs (wr32 (hp_adr s (of_nat p)) v s))"
  hence "i < 8" by simp
  thus "heap_ptrs (wr32 (hp_adr s (of_nat p)) v s) ! i = (heap_ptrs s)[p := v] ! i"
    using assms by (auto simp: hp_def hp_adr_inj nth_list_update mem_simps)
qed simp

lemma DL_wr32_heap: "\<lbrakk>dl_sep s x; p < 8\<rbrakk> \<Longrightarrow> DL (wr32 (hp_adr s (of_nat p)) v s) x = DL s x"
  by (auto simp: DL_def rd64_def mem_simps dl_sep_def dm_layout)

lemma dl_sep_wr32 [simp]: "dl_sep (wr32 a v s) x = dl_sep s x"
  by (simp add: dl_sep_def)

lemma same_but_heap_refl [simp]: "same_but_heap s s"
  by (simp add: same_but_heap_def)

lemma same_but_heap_trans: "same_but_heap s t \<Longrightarrow> same_but_heap t u \<Longrightarrow> same_but_heap s u"
proof -
  assume 1: "same_but_heap s t" and 2: "same_but_heap t u"
  have adr: "hp_adr t i = hp_adr s i" for i
    using 1 by (metis (no_types, lifting) dm_state.select_convs(2) dm_state.surjective
        dm_state.update_convs(1) hp_adr_def same_but_heap_def)
  have "u = s\<lparr>mem := mem u\<rparr>"
    using 1 2 by (metis (no_types, lifting) dm_state.surjective dm_state.update_convs(1)
        same_but_heap_def)
  thus ?thesis using 1 2 adr by (simp add: same_but_heap_def)
qed

lemma same_but_heap_wr32: "p < 8 \<Longrightarrow> same_but_heap s (wr32 (hp_adr s (of_nat p)) v s)"
  by (auto simp: same_but_heap_def wr32_def dm_layout)

lemma same_but_heap_sel:
  "same_but_heap s t \<Longrightarrow> startshared t = startshared s"
  "same_but_heap s t \<Longrightarrow> clk t = clk s"
  "same_but_heap s t \<Longrightarrow> ticks t = ticks s"
  "same_but_heap s t \<Longrightarrow> pq_out t = pq_out s"
  unfolding same_but_heap_def by (metis dm_state.select_convs dm_state.surjective dm_state.update_convs(1))+

lemma same_but_heap_DL:
  assumes "same_but_heap s t" "dl_sep s x"
  shows "DL t x = DL s x" and "dl_sep t x"
  using assms same_but_heap_sel(1)[OF assms(1)]
  by (auto simp: same_but_heap_def DL_def rd64_def dl_sep_def hp_adr_def image_iff)

section \<open>Refinement\<close>

lemma hr_choice_refines:
  assumes p: "p < 8"
  shows "hr_choice s m (of_nat p) =
    (let c = pick_child (DL s) m p (heap_ptrs s) in (c \<noteq> p, of_nat c))"
proof -
  have l: "push_bit 1 (of_nat p :: u32) + 1 = of_nat (2 * p + 1)"
    by (simp add: push_bit_eq_mult)
  have r: "of_nat (2 * p + 1) + (1::u32) = of_nat (2 * p + 2)"
    by simp
  have lt: "(of_nat i :: u32) < 8 \<longleftrightarrow> i < 8" if "i < 100" for i
    using that by (simp add: word_less_nat_alt unat_of_nat)
  have small: "2 * p + 1 < 100" "2 * p + 2 < 100" using p by simp_all
  let ?l = "2 * p + 1" and ?r = "2 * p + 2"
  have r2: "2 * p + 1 + 1 = 2 * p + 2" by simp
  have hl: "?l < 8 \<Longrightarrow> heap_ptrs s ! ?l = hp s (of_nat ?l)"
    and hr: "?r < 8 \<Longrightarrow> heap_ptrs s ! ?r = hp s (of_nat ?r)"
    by (rule heap_ptrs_nth, assumption)+
  define A where "A \<longleftrightarrow> ?l < 8 \<and> DL s (hp s (of_nat ?l)) < DL s m"
  define B where "B \<longleftrightarrow> ?r < 8 \<and> DL s (hp s (of_nat ?r)) < DL s m
    \<and> DL s (hp s (of_nat ?r)) < DL s (hp s (of_nat ?l))"
  have H: "hr_choice s m (of_nat p) =
     (if B then (True, of_nat ?r) else if A then (True, of_nat ?l) else (False, of_nat p))"
    unfolding hr_choice_def Let_def l r A_def B_def dm_layout of_nat_numeral lt[OF small(1)]
      lt[OF small(2)] by (rule refl)
  have A': "A \<longleftrightarrow> ?l < 8 \<and> DL s (heap_ptrs s ! ?l) < DL s m"
    unfolding A_def by (rule conj_cong[OF refl]) (simp only: hl)
  have B': "B \<longleftrightarrow> ?r < 8 \<and> DL s (heap_ptrs s ! ?r) < DL s m
    \<and> DL s (heap_ptrs s ! ?r) < DL s (heap_ptrs s ! ?l)"
  proof (unfold B_def, rule conj_cong[OF refl])
    assume r8: "?r < 8"
    hence l8: "?l < 8" by linarith
    show "(DL s (hp s (of_nat ?r)) < DL s m \<and> DL s (hp s (of_nat ?r)) < DL s (hp s (of_nat ?l)))
      \<longleftrightarrow> (DL s (heap_ptrs s ! ?r) < DL s m \<and> DL s (heap_ptrs s ! ?r) < DL s (heap_ptrs s ! ?l))"
      by (simp only: hl[OF l8] hr[OF r8])
  qed
  have P: "pick_child (DL s) m p (heap_ptrs s) = (if B then ?r else if A then ?l else p)"
    unfolding pick_child_def Let_def length_heap_ptrs A' B' r2 by (rule refl)
  show ?thesis unfolding H P Let_def by simp
qed

lemma hr_loop_refines:
  assumes "p < 8" "dl_sep s m" "\<forall>x \<in> set (heap_ptrs s). dl_sep s x"
  shows "heap_ptrs (hr_loop m (of_nat p) s) = sift (DL s) m p (heap_ptrs s)
    \<and> same_but_heap s (hr_loop m (of_nat p) s)"
  using assms
proof (induction "8 - p" arbitrary: p s rule: less_induct)
  case less
  let ?c = "pick_child (DL s) m p (heap_ptrs s)"
  let ?s1 = "wr32 (hp_adr s (of_nat p)) (hp s (of_nat ?c)) s"
  have ch: "hr_choice s m (of_nat p) = (?c \<noteq> p, of_nat ?c)"
    using hr_choice_refines[OF less.prems(1)] by (simp add: Let_def)
  have c8: "?c < 8"
    using less.prems(1) by (cases rule: pick_child_cases[of "DL s" m p "heap_ptrs s"]) simp_all
  have hp1: "heap_ptrs ?s1 = (heap_ptrs s)[p := heap_ptrs s ! ?c]"
    using less.prems(1) c8 by (simp add: heap_ptrs_wr32)
  have "set (heap_ptrs ?s1) \<subseteq> insert (heap_ptrs s ! ?c) (set (heap_ptrs s))"
    unfolding hp1 by (rule set_update_subset_insert)
  moreover have "heap_ptrs s ! ?c \<in> set (heap_ptrs s)"
    using c8 by (intro nth_mem) simp
  ultimately have in_s: "x \<in> set (heap_ptrs ?s1) \<Longrightarrow> x \<in> set (heap_ptrs s)" for x
    by blast
  have dl1: "DL ?s1 x = DL s x" if "dl_sep s x" for x
    using DL_wr32_heap[OF that less.prems(1)] .
  show ?case
  proof (cases "?c = p")
    case True
    have "hr_loop m (of_nat p) s = wr32 (hp_adr ?s1 (of_nat p)) m ?s1"
      using ch True by (subst hr_loop.simps) (simp add: Let_def)
    moreover have "heap_ptrs (wr32 (hp_adr ?s1 (of_nat p)) m ?s1) = (heap_ptrs s)[p := m]"
      using less.prems(1) by (subst heap_ptrs_wr32) (simp_all add: hp1)
    moreover have "same_but_heap s (wr32 (hp_adr ?s1 (of_nat p)) m ?s1)"
      using less.prems(1) by (blast intro: same_but_heap_trans same_but_heap_wr32)
    ultimately show ?thesis using True by (subst sift.simps) simp
  next
    case False
    hence c: "p < ?c" by (cases rule: pick_child_cases[of "DL s" m p "heap_ptrs s"]) simp_all
    have eq: "hr_loop m (of_nat p) s = hr_loop m (of_nat ?c) ?s1"
      using ch False by (subst hr_loop.simps) (simp add: Let_def)
    have IH: "heap_ptrs (hr_loop m (of_nat ?c) ?s1) = sift (DL ?s1) m ?c (heap_ptrs ?s1)
        \<and> same_but_heap ?s1 (hr_loop m (of_nat ?c) ?s1)"
      using c c8 less.prems in_s by (intro less.hyps) auto
    have "sift (DL ?s1) m ?c (heap_ptrs ?s1) = sift (DL s) m ?c (heap_ptrs ?s1)"
      using dl1 less.prems(2,3) in_s c8 by (intro sift_cong) auto
    hence "heap_ptrs (hr_loop m (of_nat p) s) = sift (DL s) m p (heap_ptrs s)"
      using IH eq hp1 False by (subst sift.simps) (simp add: Let_def)
    moreover have "same_but_heap s (hr_loop m (of_nat p) s)"
      unfolding eq using same_but_heap_wr32[OF less.prems(1)] IH
      by (blast intro: same_but_heap_trans)
    ultimately show ?thesis ..
  qed
qed

definition heap_sep :: "dm_state \<Rightarrow> bool" where
  "heap_sep s \<longleftrightarrow> (\<forall>x \<in> set (heap_ptrs s). dl_sep s x)"

lemma heapReplace_refines:
  assumes "p < 8" "heap_sep s"
  shows "heap_ptrs (heapReplace (of_nat p) s) = replace_at (DL s) p (heap_ptrs s)"
    and "same_but_heap s (heapReplace (of_nat p) s)"
proof -
  have "hp s (of_nat p) = heap_ptrs s ! p" "heap_ptrs s ! p \<in> set (heap_ptrs s)"
    using assms(1) nth_mem[of p "heap_ptrs s"] by simp_all
  thus "heap_ptrs (heapReplace (of_nat p) s) = replace_at (DL s) p (heap_ptrs s)"
    and "same_but_heap s (heapReplace (of_nat p) s)"
    using hr_loop_refines[OF assms(1), of s "hp s (of_nat p)"] assms(2)
    by (simp_all add: heapReplace_def replace_at_def heap_sep_def)
qed

lemma heap_sep_mset:
  assumes "same_but_heap s t" "mset (heap_ptrs t) = mset (heap_ptrs s)" "heap_sep s"
  shows "heap_sep t"
  using assms same_but_heap_DL(2)[OF assms(1)] mset_eq_setD[OF assms(2)]
  by (simp add: heap_sep_def)

lemma heapReplace_mset:
  "\<lbrakk>p < 8; heap_sep s\<rbrakk> \<Longrightarrow> mset (heap_ptrs (heapReplace (of_nat p) s)) = mset (heap_ptrs s)"
  by (simp add: heapReplace_refines edf.repl_mset)

lemma heapReplace_DL:
  assumes "p < 8" "heap_sep s" "x \<in> set (heap_ptrs s)"
  shows "DL (heapReplace (of_nat p) s) x = DL s x"
  using same_but_heap_DL(1)[OF heapReplace_refines(2)] assms by (simp add: heap_sep_def)

lemma heapify_loop_refines:
  assumes "n \<le> 8" "heap_sep s"
  shows "heap_ptrs (heapify_loop n s) = heapify_from (DL s) n (heap_ptrs s)
    \<and> same_but_heap s (heapify_loop n s)"
  using assms
proof (induction n arbitrary: s)
  case (Suc n)
  have n: "n < 8" using Suc.prems(1) by simp
  let ?t = "heapReplace (of_nat n) s"
  have t: "heap_ptrs ?t = replace_at (DL s) n (heap_ptrs s)" "same_but_heap s ?t"
    using heapReplace_refines[OF n Suc.prems(2)] .
  have m: "mset (heap_ptrs ?t) = mset (heap_ptrs s)"
    using heapReplace_mset[OF n Suc.prems(2)] .
  have "heapify_from (DL ?t) n (heap_ptrs ?t) = heapify_from (DL s) n (heap_ptrs ?t)"
    using heapReplace_DL[OF n Suc.prems(2)] mset_eq_setD[OF m] n
    by (intro heapify_from_cong) auto
  moreover have "heap_ptrs (heapify_loop n ?t) = heapify_from (DL ?t) n (heap_ptrs ?t)
      \<and> same_but_heap ?t (heapify_loop n ?t)"
    using Suc.IH[of ?t] n heap_sep_mset[OF t(2) m Suc.prems(2)] by simp
  ultimately show ?case
    using t by (auto intro: same_but_heap_trans)
qed simp

lemma heapify_refines:
  assumes "heap_sep s"
  shows "heap_ptrs (heapify s) = heapify_list (DL s) (heap_ptrs s)"
    and "same_but_heap s (heapify s)"
  using heapify_loop_refines[of 4 s] assms
  by (simp_all add: heapify_def heapify_list_def dm_layout)

lemma heapify_mset: "heap_sep s \<Longrightarrow> mset (heap_ptrs (heapify s)) = mset (heap_ptrs s)"
  by (simp add: heapify_refines(1))

lemma heapify_DL:
  "\<lbrakk>heap_sep s; x \<in> set (heap_ptrs s)\<rbrakk> \<Longrightarrow> DL (heapify s) x = DL s x"
  using same_but_heap_DL(1)[OF heapify_refines(2)] by (simp add: heap_sep_def)

lemma heapify_is_heap:
  assumes "heap_sep s"
  shows "is_heap (DL (heapify s)) (heap_ptrs (heapify s))"
proof -
  have "is_heap (DL s) (heap_ptrs (heapify s))"
    by (simp add: heapify_refines(1)[OF assms] is_heap_heapify_list)
  thus ?thesis
    using heap_from_cong[of "heap_ptrs (heapify s)" "DL s" "DL (heapify s)"]
      heapify_DL[OF assms] mset_eq_setD[OF heapify_mset[OF assms]] by simp
qed

lemma heapReplace_root_is_heap:
  assumes "heap_sep s" "heap_from (DL s) 1 (heap_ptrs s)"
  shows "is_heap (DL (heapReplace 0 s)) (heap_ptrs (heapReplace 0 s))"
proof -
  have p: "(0::nat) < 8" by simp
  have "is_heap (DL s) (heap_ptrs (heapReplace 0 s))"
    using assms heapReplace_refines(1)[OF p assms(1)]
    by (simp add: edf.repl_heap)
  thus ?thesis
    using heap_from_cong[of "heap_ptrs (heapReplace 0 s)" "DL s" "DL (heapReplace 0 s)"]
      heapReplace_DL[OF p assms(1)] mset_eq_setD[OF heapReplace_mset[OF p assms(1)]] by simp
qed

end
