(* ===== verification/Dm_Nodes.thy ===== *)
theory Dm_Nodes
  imports Dm_Heap
begin

text \<open>
  The node, deadline and action handlers of the data master
  (modules/ftm/ftmfw/dm.c) in the order of the source, one definition per
  function.  A handler takes the addresses of the node and of the thread data
  and returns the address of the successor node with the new state.  The three
  places where the code runs into undefined behaviour are values of \<open>dm_fault\<close>:
  a call through a slot of a handler table that \<open>dmInit\<close> never fills, an action
  type beyond the end of \<open>actionFuncs\<close>, and the pointer \<open>cmd\<close> of \<open>block\<close> when no
  queue the block has is pending; \<open>1 << thr\<close> of \<open>startThread\<close> for \<open>thr\<close> beyond the
  word is the fourth.  Debug output (DBPRINT) has no effect on the state and is
  left out; the build's DIAGNOSTICS code is included.
\<close>

datatype dm_fault = UninitHandler | BadActionIndex | UninitCmdPtr | ShiftOverflow

type_synonym 'a res = "dm_fault + 'a"

section \<open>Control registers\<close>

definition ctl :: "dm_state \<Rightarrow> u32 \<Rightarrow> u32" where
  "ctl s off = startshared s + off"

definition status_set :: "u32 \<Rightarrow> dm_state \<Rightarrow> dm_state" where
  "status_set m s = wr32 (ctl s SHCTL_STATUS) (rd32 s (ctl s SHCTL_STATUS) OR m) s"

definition count_adr :: "dm_state \<Rightarrow> u32" where
  "count_adr s = ctl s (SHCTL_DIAG + T_DIAG_MSG_CNT)"

definition start_adr :: "dm_state \<Rightarrow> u32" where
  "start_adr s = ctl s (SHCTL_THR_CTL + T_TC_START)"

definition running_adr :: "dm_state \<Rightarrow> u32" where
  "running_adr s = ctl s (SHCTL_THR_CTL + T_TC_RUNNING)"

definition abort_adr :: "dm_state \<Rightarrow> u32" where
  "abort_adr s = ctl s (SHCTL_THR_CTL + T_TC_ABORT)"

definition badwaitcnt_adr :: "dm_state \<Rightarrow> u32" where
  "badwaitcnt_adr s = ctl s (SHCTL_DIAG + T_DIAG_BAD_WAIT_CNT)"

definition def_dest :: "dm_state \<Rightarrow> u32 \<Rightarrow> u32" where
  "def_dest s node = rd32 s (node + NODE_DEF_DEST_PTR)"

definition paint :: "u32 \<Rightarrow> dm_state \<Rightarrow> dm_state" where
  "paint node s = wr32 (node + NODE_FLAGS) (rd32 s (node + NODE_FLAGS) OR NFLG_PAINT_LM32_SMSK) s"

section \<open>Defaults, node type, deadlines\<close>

definition nodeNull :: "u32 \<Rightarrow> u32 \<Rightarrow> dm_state \<Rightarrow> u32 \<times> dm_state" where
  "nodeNull node thrData s = (LM32_NULL_PTR, s)"

definition deadlineNull :: "u32 \<Rightarrow> u32 \<Rightarrow> dm_state \<Rightarrow> u64 \<times> dm_state" where
  "deadlineNull node thrData s = (- 1, s)"

definition dummyNodeFunc :: "u32 \<Rightarrow> u32 \<Rightarrow> dm_state \<Rightarrow> u32 \<times> dm_state" where
  "dummyNodeFunc node thrData s = nodeNull node thrData (status_set SHCTL_STATUS_BAD_NODE_TYPE_SMSK s)"

definition dummyDeadlineFunc :: "u32 \<Rightarrow> u32 \<Rightarrow> dm_state \<Rightarrow> u64 \<times> dm_state" where
  "dummyDeadlineFunc node thrData s =
     deadlineNull node thrData (status_set SHCTL_STATUS_BAD_NODE_TYPE_SMSK s)"

definition dummyActionFunc :: "u32 \<Rightarrow> u32 \<Rightarrow> u32 \<Rightarrow> dm_state \<Rightarrow> u32 \<times> dm_state" where
  "dummyActionFunc node cmd thrData s =
     (LM32_NULL_PTR, status_set SHCTL_STATUS_BAD_ACT_TYPE_SMSK s)"

definition getNodeType :: "u32 \<Rightarrow> dm_state \<Rightarrow> node_type" where
  "getNodeType node s =
     (if node \<noteq> LM32_NULL_PTR
      then let type = drop_bit 0 (rd32 s (node + NODE_FLAGS)) AND NFLG_TYPE_MSK;
               msk = - (if type < of_nat NODE_TYPE_END then 1 else 0)
           in node_type_of (type AND msk)
      else NODE_TYPE_NULL)"

definition dlEvt :: "u32 \<Rightarrow> u32 \<Rightarrow> dm_state \<Rightarrow> u64 \<times> dm_state" where
  "dlEvt node thrData s =
     (rd64 s (thrData + T_TD_CURRTIME) + rd64 s (node + EVT_OFFS_TIME), s)"

definition dlBlock :: "u32 \<Rightarrow> u32 \<Rightarrow> dm_state \<Rightarrow> u64 \<times> dm_state" where
  "dlBlock node thrData s = (rd64 s (thrData + T_TD_DEADLINE), s)"

section \<open>Command actions\<close>

definition execNoop :: "u32 \<Rightarrow> u32 \<Rightarrow> u32 \<Rightarrow> dm_state \<Rightarrow> u32 \<times> dm_state" where
  "execNoop node cmd thrData s = (def_dest s node, s)"

definition execFlow :: "u32 \<Rightarrow> u32 \<Rightarrow> u32 \<Rightarrow> dm_state \<Rightarrow> u32 \<times> dm_state" where
  "execFlow node cmd thrData s =
     (let ret = rd32 s (cmd + T_CMD_FLOW_DEST);
          s1 = (if rd32 s (cmd + T_CMD_ACT) AND ACT_CHP_SMSK \<noteq> 0
                then wr32 (node + NODE_DEF_DEST_PTR) ret s else s)
      in (ret, s1))"

text \<open>The loop over the priorities of \<open>execFlush\<close> works on local copies of the index words;
  byte \<open>3 - prio\<close> of a big-endian word is the lane with bits \<open>8 * prio\<close> and up.\<close>

primrec flush_loop :: "nat list \<Rightarrow> u8 \<Rightarrow> u8 \<Rightarrow> u32 \<Rightarrow> u32 \<Rightarrow> u32" where
  "flush_loop [] flushees flusher wrIdxs rdIdxs = rdIdxs"
| "flush_loop (prio # ps) flushees flusher wrIdxs rdIdxs =
     flush_loop ps flushees flusher wrIdxs
       (if flushees AND push_bit prio 1 \<noteq> 0
        then let flushMyself = (if flusher AND push_bit prio 1 \<noteq> 0 then 1 else 0)
             in setbyte rdIdxs prio ((getbyte wrIdxs prio - flushMyself) AND Q_IDX_MAX_OVF_MSK)
        else rdIdxs)"

definition execFlush :: "u32 \<Rightarrow> u32 \<Rightarrow> u32 \<Rightarrow> dm_state \<Rightarrow> u32 \<times> dm_state" where
  "execFlush node cmd thrData s =
     (let action = rd32 s (cmd + T_CMD_ACT);
          flushees = ucast (drop_bit 28 action AND ACT_FLUSH_PRIO_MSK) :: u8;
          flusher = push_bit (unat (drop_bit 24 action AND ACT_PRIO_MSK)) 1 :: u8;
          wrIdxs = rd32 s (node + BLOCK_CMDQ_WR_IDXS) AND BLOCK_CMDQ_WR_IDXS_SMSK;
          rdIdxs = rd32 s (node + BLOCK_CMDQ_RD_IDXS) AND BLOCK_CMDQ_RD_IDXS_SMSK;
          s1 = wr32 (node + BLOCK_CMDQ_RD_IDXS)
                 (flush_loop [0, 1, 2] flushees flusher wrIdxs rdIdxs) s;
          ret = rd32 s1 (cmd + T_CMD_FLUSH_OVR)
      in if ret \<noteq> LM32_NULL_PTR
         then (ret, if rd32 s1 (cmd + T_CMD_ACT) AND ACT_CHP_SMSK \<noteq> 0
                    then wr32 (node + NODE_DEF_DEST_PTR) ret s1 else s1)
         else (def_dest s1 node, s1))"

definition execWait :: "u32 \<Rightarrow> u32 \<Rightarrow> u32 \<Rightarrow> dm_state \<Rightarrow> u32 \<times> dm_state" where
  "execWait node cmd thrData s =
     (let tWait = rd64 s (cmd + T_CMD_WAIT_TIME) - rd64 s (node + BLOCK_PERIOD);
          tCur = thrData + T_TD_CURRTIME;
          act = rd32 s (cmd + T_CMD_ACT);
          s2 = (if act AND ACT_WAIT_ABS_SMSK \<noteq> 0
                then (case getSysTime s of (now, s1) \<Rightarrow>
                        if now < tWait then wr64 tCur tWait s1
                        else wr32 (badwaitcnt_adr s1) (rd32 s1 (badwaitcnt_adr s1) + 1) s1)
                else if act AND ACT_CHP_SMSK \<noteq> 0
                then wr64 (node + BLOCK_PERIOD) (rd64 s (cmd + T_CMD_WAIT_TIME)) s
                else wr64 tCur (rd64 s tCur + tWait) s)
      in (def_dest s2 node, s2))"

definition actionFuncs :: "u32 \<Rightarrow> u32 \<Rightarrow> u32 \<Rightarrow> u32 \<Rightarrow> dm_state \<Rightarrow> (u32 \<times> dm_state) res" where
  "actionFuncs atype node cmd thrData s =
     (if unat atype < ACT_TYPE_END
      then Inr (case act_types ! unat atype of
          ACT_TYPE_UNKNOWN \<Rightarrow> dummyActionFunc node cmd thrData s
        | ACT_TYPE_NOOP \<Rightarrow> execNoop node cmd thrData s
        | ACT_TYPE_FLOW \<Rightarrow> execFlow node cmd thrData s
        | ACT_TYPE_FLUSH \<Rightarrow> execFlush node cmd thrData s
        | ACT_TYPE_WAIT \<Rightarrow> execWait node cmd thrData s)
      else Inl BadActionIndex)"

section \<open>Event nodes\<close>

text \<open>Offsets inside a queue's buffers, as \<open>cmd\<close> and \<open>block\<close> compute them from an index.\<close>

definition buf_offs :: "u8 \<Rightarrow> u32" where
  "buf_offs idx = ucast (idx AND Q_IDX_MAX_MSK) div (MEM_BLOCK_SIZE div T_CMD_SIZE) * 4"

definition el_offs :: "u8 \<Rightarrow> u32" where
  "el_offs idx = ucast (idx AND Q_IDX_MAX_MSK) mod (MEM_BLOCK_SIZE div T_CMD_SIZE) * T_CMD_SIZE"

text \<open>Address of the byte that holds the index of queue \<open>prio\<close>: byte 3 is the low byte.\<close>

definition idx_adr :: "u32 \<Rightarrow> u32 \<Rightarrow> nat \<Rightarrow> u32" where
  "idx_adr node field prio = node + field + 3 - of_nat prio"

text \<open>The queue element that \<open>cmd\<close> writes, with the peer's address prefix.\<close>

definition cmd_elem :: "u32 \<Rightarrow> nat \<Rightarrow> dm_state \<Rightarrow> u32" where
  "cmd_elem tg prio s =
     (let adrPrefix = tg AND NOT (ram_size s - 1);
          wrIdx = rd8 s (idx_adr tg BLOCK_CMDQ_WR_IDXS prio);
          bl = rd32 s (tg + BLOCK_CMDQ_PTRS + of_nat prio * 4) - int_base_adr s + adrPrefix;
          b = rd32 s (bl + buf_offs wrIdx) - int_base_adr s + adrPrefix
      in b + el_offs wrIdx)"

definition cmd :: "u32 \<Rightarrow> u32 \<Rightarrow> dm_state \<Rightarrow> u32 \<times> dm_state" where
  "cmd node thrData s =
     (let ret = def_dest s node;
          prio = unat (drop_bit 24 (rd32 s (node + CMD_ACT)) AND ACT_PRIO_MSK);
          tg = rd32 s (node + CMD_TARGET)
      in if drop_bit NFLG_BLOCK_QS_POS (rd32 s (tg + NODE_FLAGS)) AND bitmask prio = 0
         then (node, status_set SHCTL_STATUS_BAD_ACT_TYPE_SMSK
                       (wr32 (abort_adr s) 0xffffffff s))
         else let s1 = paint node s
              in if tg = LM32_NULL_PTR then (ret, s1)
                 else if rd32 s1 (tg + BLOCK_CMDQ_FLAGS) AND BLOCK_CMDQ_DNW_SMSK \<noteq> 0
                 then (ret, s1)
                 else let wrIdx = idx_adr tg BLOCK_CMDQ_WR_IDXS prio;
                          e = cmd_elem tg prio s1;
                          tValid = (if drop_bit 26 (rd32 s1 (node + CMD_ACT)) AND ACT_VABS_MSK \<noteq> 0
                                    then rd64 s1 (node + CMD_VALID_TIME)
                                    else rd64 s1 (thrData + T_TD_CURRTIME)
                                         + rd64 s1 (node + CMD_VALID_TIME));
                          s2 = wr32 (e + T_CMD_TIME) (hiW tValid) s1;
                          s3 = wr32 (e + T_CMD_TIME + 4) (loW tValid) s2;
                          s4 = wr32 (e + T_CMD_ACT) (rd32 s3 (node + CMD_ACT)) s3;
                          s5 = wr32 (e + T_CMD_ACT + 4) (rd32 s4 (node + CMD_ACT + 4)) s4;
                          s6 = wr32 (e + T_CMD_ACT + 8) (rd32 s5 (node + CMD_ACT + 8)) s5
                      in (ret, wr8 wrIdx ((rd8 s6 wrIdx + 1) AND Q_IDX_MAX_OVF_MSK) s6))"

definition cswitch :: "u32 \<Rightarrow> u32 \<Rightarrow> dm_state \<Rightarrow> u32 \<times> dm_state" where
  "cswitch node thrData s =
     (let ret = def_dest s node;
          s1 = paint node s;
          tg = rd32 s1 (node + SWITCH_TARGET)
      in if tg = LM32_NULL_PTR then (ret, s1)
         else if rd32 s1 (tg + BLOCK_CMDQ_FLAGS) AND BLOCK_CMDQ_DNW_SMSK \<noteq> 0 then (ret, s1)
         else (ret, wr32 (tg + NODE_DEF_DEST_PTR) (rd32 s1 (node + SWITCH_DEST)) s1))"

text \<open>The DIAGNOSTICS part of \<open>tmsg\<close>: \<open>diff\<close> is the lead of the dispatch before the deadline;
  the comparisons are signed, and the sum restarts when it would overflow.\<close>

definition DIAG_PQ_MSG_CNT :: u64 where "DIAG_PQ_MSG_CNT = 0x0FA62F9000000000"

definition diag_overflow :: "u64 \<Rightarrow> u64 \<Rightarrow> bool" where
  "diag_overflow diff acc \<longleftrightarrow>
     (sint diff \<ge> 0 \<and> sint acc \<ge> 0 \<and> sint (diff + acc) < 0) \<or>
     (sint diff < 0 \<and> sint acc < 0 \<and> sint (diff + acc) \<ge> 0)"

definition tmsg_diag :: "u32 \<Rightarrow> u64 \<Rightarrow> u64 \<Rightarrow> dm_state \<Rightarrow> dm_state" where
  "tmsg_diag node now diff s0 =
     (let diffsum = ctl s0 (SHCTL_DIAG + T_DIAG_DIF_SUM);
          diffmin = ctl s0 (SHCTL_DIAG + T_DIAG_DIF_MIN);
          diffmax = ctl s0 (SHCTL_DIAG + T_DIAG_DIF_MAX);
          diffwth = ctl s0 (SHCTL_DIAG + T_DIAG_DIF_WTH);
          diffwcnt = ctl s0 (SHCTL_DIAG + T_DIAG_WAR_CNT);
          diffwhash = ctl s0 (SHCTL_DIAG + T_DIAG_WAR_1ST_HASH);
          diffwts = ctl s0 (SHCTL_DIAG + T_DIAG_WAR_1ST_TS);
          count = count_adr s0;
          overflow = diag_overflow diff (rd64 s0 diffsum);
          s1 = wr64 diffsum (if overflow then diff else rd64 s0 diffsum + diff) s0;
          s2 = wr64 diffmin (if sint diff < sint (rd64 s1 diffmin) then diff else rd64 s1 diffmin) s1;
          s3 = wr64 diffmax (if sint diff > sint (rd64 s2 diffmax) then diff else rd64 s2 diffmax) s2;
          s4 = wr64 count (if overflow then 0 else rd64 s3 count) s3;
          warn = (sint diff < sint (rd64 s4 diffwth));
          s5 = wr32 diffwcnt (rd32 s4 diffwcnt + (if warn then 1 else 0)) s4;
          s6 = wr32 diffwhash (if warn \<and> rd32 s5 diffwhash = 0 then rd32 s5 (node + NODE_HASH)
                               else rd32 s5 diffwhash) s5
      in wr64 diffwts (if warn \<and> rd64 s6 diffwts = 0 then now else rd64 s6 diffwts) s6)"

definition PRIO_DAT_STD :: u32 where "PRIO_DAT_STD = 0x00"
definition PRIO_DAT_TS_HI :: u32 where "PRIO_DAT_TS_HI = 0x04"
definition PRIO_DAT_TS_LO :: u32 where "PRIO_DAT_TS_LO = 0x08"

text \<open>The eight writes to the priority queue's input port.\<close>

definition pq_dispatch :: "u32 \<Rightarrow> u32 \<Rightarrow> u64 \<Rightarrow> dm_state \<Rightarrow> dm_state" where
  "pq_dispatch node thrData par s =
     pq_put PRIO_DAT_TS_LO (rd32 s (thrData + T_TD_DEADLINE + 4))
     (pq_put PRIO_DAT_TS_HI (rd32 s (thrData + T_TD_DEADLINE))
     (pq_put PRIO_DAT_STD (rd32 s (node + TMSG_TEF))
     (pq_put PRIO_DAT_STD (rd32 s (node + TMSG_RES))
     (pq_put PRIO_DAT_STD (loW par)
     (pq_put PRIO_DAT_STD (hiW par)
     (pq_put PRIO_DAT_STD (rd32 s (node + TMSG_ID_LO))
     (pq_put PRIO_DAT_STD (rd32 s (node + TMSG_ID)) s)))))))"

text \<open>The parameter words: the magic ID asks for the queue's own message counter.\<close>

definition tmsg_par :: "dm_state \<Rightarrow> u32 \<Rightarrow> u64" where
  "tmsg_par s node =
     (let tmpPar = rd64 s (node + TMSG_PAR)
      in if rd64 s (node + TMSG_ID) = DIAG_PQ_MSG_CNT then pq_cnt s else tmpPar)"

definition tmsg_send :: "u32 \<Rightarrow> u32 \<Rightarrow> u64 \<Rightarrow> dm_state \<Rightarrow> dm_state" where
  "tmsg_send node thrData par s =
     (let s1 = pq_dispatch node thrData par s;
          s2 = wr64 (thrData + T_TD_MSG_CNT) (rd64 s1 (thrData + T_TD_MSG_CNT) + 1) s1
      in wr64 (count_adr s2) (rd64 s2 (count_adr s2) + 1) s2)"

definition tmsg :: "u32 \<Rightarrow> u32 \<Rightarrow> dm_state \<Rightarrow> u32 \<times> dm_state" where
  "tmsg node thrData s =
     (case getSysTime (paint node s) of (now, s1) \<Rightarrow>
        let diff = rd64 s1 (thrData + T_TD_DEADLINE) - now;
            s2 = tmsg_diag node now diff s1;
            s3 = tmsg_send node thrData (tmsg_par s1 node) s2
        in (def_dest s3 node, s3))"

section \<open>Blocks\<close>

text \<open>The queue element at the read index, through the block's buffer list.\<close>

definition block_elem :: "u32 \<Rightarrow> nat \<Rightarrow> dm_state \<Rightarrow> u32" where
  "block_elem node prio s =
     (let rdIdx = rd8 s (idx_adr node BLOCK_CMDQ_RD_IDXS prio);
          bl = rd32 s (node + BLOCK_CMDQ_PTRS + of_nat prio * 4);
          b = rd32 s (bl + buf_offs rdIdx)
      in b + el_offs rdIdx)"

text \<open>The search loop of \<open>block\<close>: the queues from high to low priority.  The result keeps the
  pointers the C loop leaves in \<open>rdIdx\<close> and \<open>cmd\<close>; \<open>rdIdx\<close> moves on to every queue the block
  has, \<open>cmd\<close> only to pending ones.\<close>

primrec block_scan ::
  "nat list \<Rightarrow> u32 \<Rightarrow> u32 option \<Rightarrow> u32 option \<Rightarrow> dm_state \<Rightarrow> u32 option \<times> u32 option \<times> dm_state"
where
  "block_scan [] node rdp cp s = (rdp, cp, s)"
| "block_scan (prio # ps) node rdp cp s =
     (if drop_bit NFLG_BLOCK_QS_POS (rd32 s (node + NODE_FLAGS)) AND bitmask prio \<noteq> 0
      then let rdIdx = idx_adr node BLOCK_CMDQ_RD_IDXS prio;
               wrIdx = idx_adr node BLOCK_CMDQ_WR_IDXS prio
           in if rd8 s rdIdx \<noteq> rd8 s wrIdx
              then let c = block_elem node prio s
                   in case getSysTime s of (now, s1) \<Rightarrow>
                        if now \<ge> rd64 s1 (c + T_CMD_TIME) then (Some rdIdx, Some c, s1)
                        else block_scan ps node (Some rdIdx) (Some c) s1
              else block_scan ps node (Some rdIdx) cp s
      else block_scan ps node rdp cp s)"

definition queues_differ :: "u32 \<Rightarrow> dm_state \<Rightarrow> bool" where
  "queues_differ node s \<longleftrightarrow>
     rd32 s (node + BLOCK_CMDQ_WR_IDXS) AND BLOCK_CMDQ_WR_IDXS_SMSK
     \<noteq> rd32 s (node + BLOCK_CMDQ_RD_IDXS) AND BLOCK_CMDQ_RD_IDXS_SMSK"

text \<open>Executing the command found: action, quantity, pop.\<close>

definition block_exec :: "u32 \<Rightarrow> u32 \<Rightarrow> u32 \<Rightarrow> u32 \<Rightarrow> u32 \<Rightarrow> dm_state \<Rightarrow> (u32 \<times> dm_state) res" where
  "block_exec node thrData rdIdx c ret s =
     (let act = c + T_CMD_ACT;
          actTmp = rd32 s act;
          qty = drop_bit 0 actTmp AND ACT_QTY_MSK;
          atype = drop_bit 20 actTmp AND ACT_TYPE_MSK;
          pop = (\<lambda>q s. wr8 rdIdx ((rd8 s rdIdx + (if q = 0 then 1 else 0)) AND Q_IDX_MAX_OVF_MSK) s)
      in if qty \<noteq> 0
         then (case actionFuncs atype node c thrData s of
                 Inl e \<Rightarrow> Inl e
               | Inr (ret', s1) \<Rightarrow>
                   let s2 = wr32 act ((actTmp AND NOT ACT_QTY_SMSK)
                                      OR push_bit 0 ((qty - 1) AND ACT_QTY_MSK)) s1
                   in Inr (ret', pop (qty - 1) s2))
         else let s1 = pop (0 :: u32) s
              in Inr (if queues_differ node s1 then node else ret, s1))"

definition block :: "u32 \<Rightarrow> u32 \<Rightarrow> dm_state \<Rightarrow> (u32 \<times> dm_state) res" where
  "block node thrData s =
     (let ret = def_dest s node;
          qFlags = rd32 s (node + BLOCK_CMDQ_FLAGS);
          s1 = paint node s
      in if qFlags AND BLOCK_CMDQ_DNR_SMSK = 0 \<and> queues_differ node s1
         then (case block_scan [2, 1, 0] node None None s1 of
                 (Some rdIdx, Some c, s2) \<Rightarrow>
                   (case getSysTime s2 of (now, s3) \<Rightarrow>
                      if now < rd64 s3 (c + T_CMD_TIME) then Inr (ret, s3)
                      else block_exec node thrData rdIdx c ret s3)
               | _ \<Rightarrow> Inl UninitCmdPtr)
         else Inr (ret, s1))"

definition blockFixed :: "u32 \<Rightarrow> u32 \<Rightarrow> dm_state \<Rightarrow> (u32 \<times> dm_state) res" where
  "blockFixed node thrData s =
     (case block node thrData s of
        Inl e \<Rightarrow> Inl e
      | Inr (ret, s1) \<Rightarrow>
          let s2 = wr64 (thrData + T_TD_CURRTIME)
                     (rd64 s1 (thrData + T_TD_CURRTIME) + rd64 s1 (node + BLOCK_PERIOD)) s1
          in Inr (ret, wr64 (thrData + T_TD_DEADLINE) (rd64 s2 (thrData + T_TD_CURRTIME)) s2))"

definition align_up :: "u64 \<Rightarrow> u64 \<Rightarrow> u64" where
  "align_up tx Tx =
     (let t0 = T_GRID_OFFS; T0 = T_GRID_SIZE; diff = (tx + Tx) - t0 + (T0 - 1)
      in diff - (diff mod T0) + t0)"

definition blockAlign :: "u32 \<Rightarrow> u32 \<Rightarrow> dm_state \<Rightarrow> (u32 \<times> dm_state) res" where
  "blockAlign node thrData s =
     (case block node thrData s of
        Inl e \<Rightarrow> Inl e
      | Inr (ret, s1) \<Rightarrow>
          let tx = thrData + T_TD_CURRTIME;
              s2 = wr64 tx (align_up (rd64 s1 tx) (rd64 s1 (node + BLOCK_PERIOD))) s1
          in Inr (ret, wr64 (thrData + T_TD_DEADLINE) (rd64 s2 tx) s2))"

section \<open>Origin and thread start\<close>

definition origin :: "u32 \<Rightarrow> u32 \<Rightarrow> dm_state \<Rightarrow> u32 \<times> dm_state" where
  "origin node thrData s =
     (let ret = def_dest s node;
          newOrigin = rd32 s (node + ORIGIN_DEST);
          targetThr = rd32 s (node + ORIGIN_THR);
          targetOrigin = ctl s (SHCTL_THR_STA + targetThr * T_TS_SIZE + T_TS_NODE_PTR)
      in (ret, wr32 targetOrigin newOrigin s))"

definition startThread :: "u32 \<Rightarrow> u32 \<Rightarrow> dm_state \<Rightarrow> (u32 \<times> dm_state) res" where
  "startThread node thrData s =
     (let ret = def_dest s node;
          offset = rd64 s (node + STARTTHREAD_STARTOFFS);
          thr = rd32 s (node + STARTTHREAD_THR);
          thrStarttime = ctl s (SHCTL_THR_STA + thr * T_TS_SIZE + T_TS_STARTTIME);
          s1 = wr64 thrStarttime (rd64 s (thrData + T_TD_CURRTIME) + offset) s
      in if unat thr < 32
         then Inr (ret, wr32 (start_adr s1) (rd32 s1 (start_adr s1) OR bitmask (unat thr)) s1)
         else Inl ShiftOverflow)"

section \<open>The handler tables\<close>

definition nodeFuncs :: "node_type \<Rightarrow> u32 \<Rightarrow> u32 \<Rightarrow> dm_state \<Rightarrow> (u32 \<times> dm_state) res" where
  "nodeFuncs ty node thrData s =
     (case ty of
        NODE_TYPE_UNKNOWN \<Rightarrow> Inr (dummyNodeFunc node thrData s)
      | NODE_TYPE_RAW \<Rightarrow> Inr (dummyNodeFunc node thrData s)
      | NODE_TYPE_TMSG \<Rightarrow> Inr (tmsg node thrData s)
      | NODE_TYPE_CNOOP \<Rightarrow> Inr (cmd node thrData s)
      | NODE_TYPE_CFLOW \<Rightarrow> Inr (cmd node thrData s)
      | NODE_TYPE_CSWITCH \<Rightarrow> Inr (cswitch node thrData s)
      | NODE_TYPE_CFLUSH \<Rightarrow> Inr (cmd node thrData s)
      | NODE_TYPE_CWAIT \<Rightarrow> Inr (cmd node thrData s)
      | NODE_TYPE_BLOCK_FIXED \<Rightarrow> blockFixed node thrData s
      | NODE_TYPE_BLOCK_ALIGN \<Rightarrow> blockAlign node thrData s
      | NODE_TYPE_QUEUE \<Rightarrow> Inr (dummyNodeFunc node thrData s)
      | NODE_TYPE_QBUF \<Rightarrow> Inr (dummyNodeFunc node thrData s)
      | NODE_TYPE_SHARE \<Rightarrow> Inr (dummyNodeFunc node thrData s)
      | NODE_TYPE_ALTDST \<Rightarrow> Inr (dummyNodeFunc node thrData s)
      | NODE_TYPE_ORIGIN \<Rightarrow> Inr (origin node thrData s)
      | NODE_TYPE_STARTTHREAD \<Rightarrow> startThread node thrData s
      | NODE_TYPE_NULL \<Rightarrow> Inr (nodeNull node thrData s)
      | NODE_TYPE_MGMT \<Rightarrow> Inl UninitHandler
      | NODE_TYPE_COVENANT \<Rightarrow> Inl UninitHandler)"

definition deadlineFuncs :: "node_type \<Rightarrow> u32 \<Rightarrow> u32 \<Rightarrow> dm_state \<Rightarrow> (u64 \<times> dm_state) res" where
  "deadlineFuncs ty node thrData s =
     (case ty of
        NODE_TYPE_UNKNOWN \<Rightarrow> Inr (dummyDeadlineFunc node thrData s)
      | NODE_TYPE_RAW \<Rightarrow> Inr (dummyDeadlineFunc node thrData s)
      | NODE_TYPE_TMSG \<Rightarrow> Inr (dlEvt node thrData s)
      | NODE_TYPE_CNOOP \<Rightarrow> Inr (dlEvt node thrData s)
      | NODE_TYPE_CFLOW \<Rightarrow> Inr (dlEvt node thrData s)
      | NODE_TYPE_CSWITCH \<Rightarrow> Inr (dlEvt node thrData s)
      | NODE_TYPE_CFLUSH \<Rightarrow> Inr (dlEvt node thrData s)
      | NODE_TYPE_CWAIT \<Rightarrow> Inr (dlEvt node thrData s)
      | NODE_TYPE_BLOCK_FIXED \<Rightarrow> Inr (dlBlock node thrData s)
      | NODE_TYPE_BLOCK_ALIGN \<Rightarrow> Inr (dlBlock node thrData s)
      | NODE_TYPE_QUEUE \<Rightarrow> Inr (dummyDeadlineFunc node thrData s)
      | NODE_TYPE_QBUF \<Rightarrow> Inr (dummyDeadlineFunc node thrData s)
      | NODE_TYPE_SHARE \<Rightarrow> Inr (dummyDeadlineFunc node thrData s)
      | NODE_TYPE_ALTDST \<Rightarrow> Inr (dummyDeadlineFunc node thrData s)
      | NODE_TYPE_ORIGIN \<Rightarrow> Inr (dlEvt node thrData s)
      | NODE_TYPE_STARTTHREAD \<Rightarrow> Inr (dlEvt node thrData s)
      | NODE_TYPE_NULL \<Rightarrow> Inr (deadlineNull node thrData s)
      | NODE_TYPE_MGMT \<Rightarrow> Inl UninitHandler
      | NODE_TYPE_COVENANT \<Rightarrow> Inl UninitHandler)"

end
