(* ===== verification/Dm_Main.thy ===== *)
theory Dm_Main
  imports Dm_Nodes
begin

text \<open>
  Initialisation and the main loop of the data master: dmInit of
  modules/ftm/ftmfw/dm.c and the body of \<open>while (1)\<close> of
  modules/ftm/ftmfw/main.c, split into its three phases (abort, dispatch of
  the most urgent thread, start of new threads).  \<open>main_iter\<close> is one turn of the
  loop; the relation \<open>sched\<close> interleaves turns with the host, which writes start
  and abort bits, staging data and nodes between two turns.
\<close>

section \<open>Initialisation\<close>

definition dm_init_thread :: "nat \<Rightarrow> dm_state \<Rightarrow> dm_state" where
  "dm_init_thread i s =
     (let tp = thr_dat s i;
          s1 = wr64 (tp + T_TD_CURRTIME) (- 1) s;
          s2 = wr64 (tp + T_TD_DEADLINE) (- 1) s1;
          s3 = wr32 (tp + T_TD_FLAGS) (of_nat i) s2;
          s4 = wr64 (thr_sta s i + T_TS_PREPTIME) PREPTIME_DEFAULT s3;
          s5 = wr64 (thr_sta s i + T_TS_STARTTIME) 0 s4
      in wr32 (hp_adr s (of_nat i)) tp s5)"

definition dm_init_diag :: "dm_state \<Rightarrow> dm_state" where
  "dm_init_diag s =
     (let d = (\<lambda>off. ctl s (SHCTL_DIAG + off));
          s1 = wr64 (d T_DIAG_DIF_SUM) 0 s;
          s2 = wr64 (d T_DIAG_DIF_MAX) 0xffffffffffffffff s1;
          s3 = wr64 (d T_DIAG_DIF_MIN) 0x7fffffffffffffff s2;
          s4 = wr64 (d T_DIAG_DIF_WTH) 50000 s3;
          s5 = wr32 (d T_DIAG_WAR_CNT) 0 s4;
          s6 = wr32 (d T_DIAG_WAR_1ST_HASH) 0 s5;
          s7 = wr64 (d T_DIAG_WAR_1ST_TS) 0 s6;
          s8 = wr32 (d T_DIAG_BCKLOG_STRK) 0 s7;
          s9 = wr32 (d T_DIAG_BAD_WAIT_CNT) 0 s8
      in case getSysTime s9 of (now, s10) \<Rightarrow> wr64 (d T_DIAG_BOOT_TS) now s10)"

definition dmInit :: "dm_state \<Rightarrow> dm_state" where
  "dmInit s = dm_init_diag (fold dm_init_thread [0..<THR_QTY] s)"

section \<open>The three phases of a turn\<close>

definition abort_deadline :: "nat \<Rightarrow> dm_state \<Rightarrow> dm_state" where
  "abort_deadline i s =
     (let dl = thr_dat s i + T_TD_DEADLINE;
          m = (NOT (drop_bit i (ucast (rd32 s (abort_adr s)))) AND 1) - 1
      in wr64 dl (rd64 s dl OR m) s)"

definition abort_phase :: "dm_state \<Rightarrow> dm_state" where
  "abort_phase s =
     (if rd32 s (abort_adr s) \<noteq> 0
      then let s1 = wr32 (running_adr s)
                      (rd32 s (running_adr s) AND NOT (rd32 s (abort_adr s))) s;
               s2 = heapify (fold abort_deadline [0..<THR_QTY] s1)
           in wr32 (abort_adr s2) 0 s2
      else s)"

definition thr_idx :: "dm_state \<Rightarrow> nat" where
  "thr_idx s = unat (rd32 s (hp s 0 + T_TD_FLAGS) AND 0x7)"

text \<open>The guard of the dispatch branch; it reads the clock.\<close>

definition node_due :: "dm_state \<Rightarrow> bool \<times> dm_state" where
  "node_due s =
     (case getSysTime s of (now, s1) \<Rightarrow>
        (DL s1 (hp s1 0) \<le> now + rd64 s1 (thr_sta s1 (thr_idx s) + T_TS_PREPTIME), s1))"

definition dispatch :: "nat \<Rightarrow> dm_state \<Rightarrow> dm_state res" where
  "dispatch thrIdx s =
     (let t = hp s 0; node = rd32 s (t + T_TD_NODE_PTR)
      in case nodeFuncs (getNodeType node s) node t s of
           Inl e \<Rightarrow> Inl e
         | Inr (nxt, s1) \<Rightarrow>
             let s2 = wr32 (t + T_TD_NODE_PTR) nxt s1;
                 t2 = hp s2 0; n2 = rd32 s2 (t2 + T_TD_NODE_PTR)
             in case deadlineFuncs (getNodeType n2 s2) n2 t2 s2 of
                  Inl e \<Rightarrow> Inl e
                | Inr (dl, s3) \<Rightarrow>
                    let s4 = wr64 (t2 + T_TD_DEADLINE) dl s3;
                        s5 = wr32 (running_adr s4)
                               (rd32 s4 (running_adr s4)
                                AND NOT (if DL s4 (hp s4 0) = - 1 then bitmask thrIdx else 0)) s4
                    in Inr (heapReplace 0 s5))"

text \<open>Starting thread \<open>i\<close>: current time, cursor and provisional deadline; then the deadline of
  the origin node; then the start and running bits.\<close>

definition start_fields :: "nat \<Rightarrow> dm_state \<Rightarrow> dm_state" where
  "start_fields i s =
     (let thrStart = thr_sta s i; thrData = thr_dat s i;
          s1 = (if rd64 s (thrStart + T_TS_STARTTIME) = 0
                then (case getSysTime s of (now, s') \<Rightarrow>
                        wr64 (thrData + T_TD_CURRTIME)
                          (now + push_bit 1 (rd64 s' (thrStart + T_TS_PREPTIME))) s')
                else wr64 (thrData + T_TD_CURRTIME) (rd64 s (thrStart + T_TS_STARTTIME)) s);
          s2 = wr32 (thrData + T_TD_NODE_PTR) (rd32 s1 (thrStart + T_TS_NODE_PTR)) s1
      in wr64 (thrData + T_TD_DEADLINE) (rd64 s2 (thrData + T_TD_CURRTIME)) s2)"

definition start_commit :: "nat \<Rightarrow> u64 \<Rightarrow> dm_state \<Rightarrow> dm_state" where
  "start_commit i dl s =
     (let thrData = thr_dat s i;
          s1 = wr64 (thrData + T_TD_DEADLINE) dl s;
          s2 = wr32 (running_adr s1)
                 (rd32 s1 (running_adr s1) OR (rd32 s1 (start_adr s1) AND bitmask i)) s1;
          s3 = wr32 (start_adr s2) (rd32 s2 (start_adr s2) AND NOT (bitmask i)) s2
      in wr32 (thrData + T_TD_MSG_CNT) 0 s3)"

definition start_thread :: "nat \<Rightarrow> dm_state \<Rightarrow> dm_state res" where
  "start_thread i s =
     (let s1 = start_fields i s; thrData = thr_dat s1 i; cursor = rd32 s1 (thrData + T_TD_NODE_PTR)
      in case deadlineFuncs (getNodeType cursor s1) cursor thrData s1 of
           Inl e \<Rightarrow> Inl e
         | Inr (dl, s2) \<Rightarrow> Inr (start_commit i dl s2))"

primrec start_loop :: "nat list \<Rightarrow> dm_state \<Rightarrow> dm_state res" where
  "start_loop [] s = Inr s"
| "start_loop (i # is) s =
     (if rd32 s (start_adr s) AND bitmask i \<noteq> 0
      then (case start_thread i s of Inl e \<Rightarrow> Inl e | Inr s1 \<Rightarrow> start_loop is s1)
      else start_loop is s)"

definition bcklogmax_adr :: "dm_state \<Rightarrow> u32" where
  "bcklogmax_adr s = ctl s (SHCTL_DIAG + T_DIAG_BCKLOG_STRK)"

definition start_phase :: "u32 \<Rightarrow> dm_state \<Rightarrow> dm_state res" where
  "start_phase backlog s =
     (let s1 = wr32 (bcklogmax_adr s)
                 (if backlog > rd32 s (bcklogmax_adr s) then backlog else rd32 s (bcklogmax_adr s)) s
      in if rd32 s1 (start_adr s1) \<noteq> 0
         then (case start_loop [0..<THR_QTY] s1 of Inl e \<Rightarrow> Inl e | Inr s2 \<Rightarrow> Inr (heapify s2))
         else Inr s1)"

text \<open>One turn of the loop; the first component is the local variable \<open>backlog\<close>.\<close>

definition main_iter :: "u32 \<times> dm_state \<Rightarrow> (u32 \<times> dm_state) res" where
  "main_iter bs =
     (case bs of (backlog, s) \<Rightarrow>
        let s1 = abort_phase s; thrIdx = thr_idx s1
        in case node_due s1 of (due, s2) \<Rightarrow>
             if due
             then (case dispatch thrIdx s2 of Inl e \<Rightarrow> Inl e | Inr s3 \<Rightarrow> Inr (backlog + 1, s3))
             else (case start_phase backlog s2 of Inl e \<Rightarrow> Inl e | Inr s3 \<Rightarrow> Inr (0, s3)))"

end
