(* ===== verification/Dm_Frame.thy ===== *)
theory Dm_Frame
  imports Dm_Main
begin

text \<open>
  Separation in the data master's memory.  Control registers, thread areas and
  heap cells are compared by their distance from \<open>startshared\<close>; a node that lies
  outside the control area shares no word with them.  The scheduler invariant
  \<open>dm_inv\<close> says that the heap is a permutation of the eight thread areas, ordered
  by deadline, and that every thread area carries its own index;
  \<open>keeps_sched t\<close> is the frame a node handler of thread \<open>t\<close> must respect.
\<close>

section \<open>Distances from the control area\<close>

definition off :: "dm_state \<Rightarrow> u32 \<Rightarrow> nat" where
  "off s a = unat (a - startshared s)"

lemma off_neq: "off s a \<noteq> off s b \<Longrightarrow> a \<noteq> b"
  by auto

lemma off_eq_iff: "off s a = off s b \<longleftrightarrow> a = b"
  by (simp add: off_def word_unat_eq_iff[symmetric])

lemma off_base: "n < 4294967296 \<Longrightarrow> off s (startshared s + of_nat n) = n"
  by (simp add: off_def unat_of_nat32)

lemma off_ctl_num [simp]: "off s (startshared s + numeral k) = unat (numeral k :: u32)"
  by (simp add: off_def)

lemma off_add:
  assumes "off s a + k < 4294967296"
  shows "off s (a + of_nat k) = off s a + k"
proof -
  have "a + of_nat k - startshared s = of_nat (off s a + k)"
    by (simp add: off_def)
  hence "off s (a + of_nat k) = unat (of_nat (off s a + k) :: u32)"
    by (simp only: off_def)
  thus ?thesis by (simp only: unat_of_nat32[OF assms])
qed

lemma off_add_num:
  assumes "off s a + numeral k < 4294967296"
  shows "off s (a + numeral k) = off s a + numeral k"
  using off_add[of s a "numeral k"] assms by simp

lemma off_hp_adr: "i < 8 \<Longrightarrow> off s (hp_adr s (of_nat i)) = 4 * i"
  using off_base[of "4 * i" s] by (simp add: hp_adr_def dm_layout)

lemma off_thr_dat: "i < 8 \<Longrightarrow> off s (thr_dat s i) = 532 + 32 * i"
  using off_base[of "532 + 32 * i" s] by (simp add: thr_dat_def dm_layout ac_simps)

lemma off_thr_sta: "i < 8 \<Longrightarrow> off s (thr_sta s i) = 340 + 24 * i"
  using off_base[of "340 + 24 * i" s] by (simp add: thr_sta_def dm_layout ac_simps)

lemma off_thr_dat_field [simp]:
  assumes "i < 8" "numeral k < (32::nat)"
  shows "off s (thr_dat s i + numeral k) = 532 + 32 * i + numeral k"
    and "off s (numeral k + thr_dat s i) = 532 + 32 * i + numeral k"
proof -
  have "off s (thr_dat s i) + numeral k < 4294967296"
    using assms off_thr_dat[OF assms(1), of s] by linarith
  thus "off s (thr_dat s i + numeral k) = 532 + 32 * i + numeral k"
    by (simp only: off_add_num off_thr_dat[OF assms(1)])
  thus "off s (numeral k + thr_dat s i) = 532 + 32 * i + numeral k"
    by (simp only: add.commute)
qed

lemma off_thr_sta_field [simp]:
  assumes "i < 8" "numeral k < (24::nat)"
  shows "off s (thr_sta s i + numeral k) = 340 + 24 * i + numeral k"
    and "off s (numeral k + thr_sta s i) = 340 + 24 * i + numeral k"
proof -
  have "off s (thr_sta s i) + numeral k < 4294967296"
    using assms off_thr_sta[OF assms(1), of s] by linarith
  thus "off s (thr_sta s i + numeral k) = 340 + 24 * i + numeral k"
    by (simp only: off_add_num off_thr_sta[OF assms(1)])
  thus "off s (numeral k + thr_sta s i) = 340 + 24 * i + numeral k"
    by (simp only: add.commute)
qed

text \<open>An address is compared with a field of a thread or staging area through its distance.\<close>

lemma adr_eq_thr:
  assumes "i < 8"
  shows "a = thr_dat s i \<longleftrightarrow> off s a = 532 + 32 * i"
    and "numeral k < (32::nat) \<Longrightarrow> a = thr_dat s i + numeral k \<longleftrightarrow> off s a = 532 + 32 * i + numeral k"
    and "numeral k < (32::nat) \<Longrightarrow> a = numeral k + thr_dat s i \<longleftrightarrow> off s a = 532 + 32 * i + numeral k"
  by (simp_all only: off_eq_iff[of s a, symmetric] off_thr_dat[OF assms] off_thr_dat_field[OF assms])

lemma adr_eq_sta:
  assumes "i < 8"
  shows "a = thr_sta s i \<longleftrightarrow> off s a = 340 + 24 * i"
    and "numeral k < (24::nat) \<Longrightarrow> a = thr_sta s i + numeral k \<longleftrightarrow> off s a = 340 + 24 * i + numeral k"
    and "numeral k < (24::nat) \<Longrightarrow> a = numeral k + thr_sta s i \<longleftrightarrow> off s a = 340 + 24 * i + numeral k"
  by (simp_all only: off_eq_iff[of s a, symmetric] off_thr_sta[OF assms] off_thr_sta_field[OF assms])

lemma adr_eq_hp: "i < 8 \<Longrightarrow> a = hp_adr s (of_nat i) \<longleftrightarrow> off s a = 4 * i"
  by (simp only: off_eq_iff[of s a, symmetric] off_hp_adr)

lemmas adr_eq = adr_eq_thr adr_eq_sta adr_eq_hp

lemmas off_simps = off_hp_adr off_thr_dat off_thr_sta off_ctl_num

text \<open>A 52-byte node outside the control area.\<close>

definition node_out :: "dm_state \<Rightarrow> u32 \<Rightarrow> bool" where
  "node_out s n \<longleftrightarrow> 820 \<le> off s n \<and> off s n < 4294967244"

definition aligned :: "u32 \<Rightarrow> bool" where
  "aligned n \<longleftrightarrow> n AND 3 = 0"

lemma node_out_field: "node_out s n \<Longrightarrow> k < 52 \<Longrightarrow> 820 \<le> off s (n + of_nat k)"
  by (subst off_add) (auto simp: node_out_def)

lemma node_out_num: "node_out s n \<Longrightarrow> numeral k < (52::nat) \<Longrightarrow> 820 \<le> off s (n + numeral k)"
  using node_out_field[of s n "numeral k"] by simp

lemma node_out_0: "node_out s n \<Longrightarrow> 820 \<le> off s n"
  by (simp add: node_out_def)

lemma off_same: "startshared t = startshared s \<Longrightarrow> off t a = off s a"
  by (simp add: off_def)

lemma node_out_same: "startshared t = startshared s \<Longrightarrow> node_out t n = node_out s n"
  by (simp add: node_out_def off_def)

section \<open>Bytes of an aligned index word\<close>

lemma and_3_unat: "unat (x AND 3) = unat (x :: u32) mod 4"
proof -
  have "(mask 2 :: u32) = 3" by (simp add: mask_eq_exp_minus_1)
  hence "x AND 3 = take_bit 2 x" by (simp only: take_bit_eq_mask)
  thus ?thesis by (simp add: take_bit_eq_mod unat_mod_distrib)
qed

lemma aligned_add_num:
  assumes "aligned n" "(k :: u32) AND 3 = 0"
  shows "aligned (n + k)"
proof -
  have "unat n mod 4 = 0" "unat k mod 4 = 0"
    using assms and_3_unat[of n] and_3_unat[of k] by (simp_all add: aligned_def)
  hence "4 dvd unat n + unat k" by presburger
  hence "unat (n + k) mod 4 = 0"
    by (simp add: unat_word_ariths mod_mod_cancel mod_eq_0_iff_dvd)
  thus ?thesis by (metis aligned_def and_3_unat unat_eq_zero)
qed

lemma aligned_byte:
  assumes "aligned w" "k < (4::nat)"
  shows "(w + of_nat k) AND NOT 3 = w" "unat ((w + of_nat k) AND 3) = k"
proof -
  have k: "k = 0 \<or> k = 1 \<or> k = 2 \<or> k = 3" using assms(2) by auto
  have k3: "(of_nat k :: u32) AND 3 = of_nat k" "(of_nat k :: u32) AND NOT 3 = 0"
    using k by auto
  have w3: "w AND 3 = 0" using assms(1) by (simp add: aligned_def)
  have "w = w AND (3 OR NOT 3)" by simp
  also have "\<dots> = (w AND 3) OR (w AND NOT 3)" by (rule bit.conj_disj_distrib)
  finally have wn: "w AND NOT 3 = w" using w3 by simp
  have "w AND of_nat k = (w AND 3) AND of_nat k"
    by (simp only: and.assoc and.commute[of 3] k3)
  hence "w AND of_nat k = 0" using w3 by simp
  hence e: "w + of_nat k = w OR of_nat k"
    by (simp only: disjunctive_add_eq_or)
  show "(w + of_nat k) AND NOT 3 = w"
    unfolding e by (simp only: bit.conj_disj_distrib2 wn k3 or.right_neutral)
  have "(w + of_nat k) AND 3 = of_nat k"
    unfolding e by (simp only: bit.conj_disj_distrib2 w3 k3 or.left_neutral)
  thus "unat ((w + of_nat k) AND 3) = k"
    using assms(2) by (simp add: unat_of_nat32)
qed

lemma idx_adr_word:
  assumes "aligned n" "p < 4" "f = 24 \<or> f = 28"
  shows "idx_adr n f p AND NOT 3 = n + f" "3 - unat (idx_adr n f p AND 3) = p"
proof -
  have "aligned (n + f)"
    using aligned_add_num[OF assms(1), of f] assms(3) by auto
  moreover have "idx_adr n f p = (n + f) + of_nat (3 - p)"
    using assms(2) by (simp add: idx_adr_def of_nat_diff)
  ultimately show "idx_adr n f p AND NOT 3 = n + f" "3 - unat (idx_adr n f p AND 3) = p"
    using aligned_byte[of "n + f" "3 - p"] assms(2) by simp_all
qed

lemma rd8_idx:
  assumes "aligned n" "p < 4"
  shows "rd8 s (idx_adr n 24 p) = getbyte (mem s (n + 24)) p"
    "rd8 s (idx_adr n 28 p) = getbyte (mem s (n + 28)) p"
  using idx_adr_word[OF assms, of 24] idx_adr_word[OF assms, of 28] by (simp_all add: rd8_def)

lemma wr8_idx:
  assumes "aligned n" "p < 4"
  shows "wr8 (idx_adr n 24 p) v s = wr32 (n + 24) (setbyte (mem s (n + 24)) p v) s"
    "wr8 (idx_adr n 28 p) v s = wr32 (n + 28) (setbyte (mem s (n + 28)) p v) s"
  using idx_adr_word[OF assms, of 24] idx_adr_word[OF assms, of 28]
  by (simp_all add: wr8_def wr32_def)

section \<open>The scheduler invariant and its frame\<close>

definition dm_inv :: "dm_state \<Rightarrow> bool" where
  "dm_inv s \<longleftrightarrow>
     mset (heap_ptrs s) = mset (map (thr_dat s) [0..<THR_QTY]) \<and>
     is_heap (DL s) (heap_ptrs s) \<and>
     (\<forall>i \<in> set [0..<THR_QTY]. rd32 s (thr_dat s i + T_TD_FLAGS) = of_nat i)"

definition keeps_sched :: "nat \<Rightarrow> dm_state \<Rightarrow> dm_state \<Rightarrow> bool" where
  "keeps_sched t s s' \<longleftrightarrow> startshared s' = startshared s \<and>
     (\<forall>i < 8. hp s' (of_nat i) = hp s (of_nat i)) \<and>
     (\<forall>i < 8. mem s' (thr_dat s i) = mem s (thr_dat s i)) \<and>
     (\<forall>i < 8. i \<noteq> t \<longrightarrow> DL s' (thr_dat s i) = DL s (thr_dat s i))"

text \<open>The words the invariant reads, for every thread but \<open>t\<close>.\<close>

definition sched_word :: "nat \<Rightarrow> nat \<Rightarrow> bool" where
  "sched_word t k \<longleftrightarrow> k < 32 \<or>
     (\<exists>i < 8. k = 532 + 32 * i \<or> (i \<noteq> t \<and> (k = 548 + 32 * i \<or> k = 552 + 32 * i)))"

lemma keeps_schedI:
  assumes "startshared s' = startshared s"
    and "\<And>a. sched_word t (off s a) \<Longrightarrow> mem s' a = mem s a"
  shows "keeps_sched t s s'"
  unfolding keeps_sched_def
proof (intro conjI allI impI)
  show "startshared s' = startshared s" by fact
  fix i :: nat assume i: "i < 8"
  have "sched_word t (off s (hp_adr s (of_nat i)))"
    using i by (simp add: sched_word_def off_hp_adr)
  thus "hp s' (of_nat i) = hp s (of_nat i)"
    using assms(1) assms(2)[of "hp_adr s (of_nat i)"] by (simp add: hp_def hp_adr_def rd32_def)
next
  fix i :: nat assume i: "i < 8"
  show "mem s' (thr_dat s i) = mem s (thr_dat s i)"
    using i by (intro assms(2)) (auto simp: sched_word_def off_thr_dat)
next
  fix i :: nat assume i: "i < 8" "i \<noteq> t"
  have "sched_word t (548 + 32 * i)" "sched_word t (552 + 32 * i)"
    using i by (auto simp: sched_word_def)
  hence "mem s' (thr_dat s i + 16) = mem s (thr_dat s i + 16)"
    "mem s' (thr_dat s i + 16 + 4) = mem s (thr_dat s i + 16 + 4)"
    using i by (intro assms(2); simp)+
  thus "DL s' (thr_dat s i) = DL s (thr_dat s i)"
    unfolding DL_def rd64_def dm_layout by (simp only:)
qed

lemma keeps_sched_refl [simp]: "keeps_sched t s s"
  by (simp add: keeps_sched_def)

lemma thr_dat_same: "startshared s' = startshared s \<Longrightarrow> thr_dat s' i = thr_dat s i"
  by (simp add: thr_dat_def)

lemma keeps_sched_trans:
  "keeps_sched t s s' \<Longrightarrow> keeps_sched t s' s'' \<Longrightarrow> keeps_sched t s s''"
  by (simp add: keeps_sched_def thr_dat_def)

lemma keeps_sched_wr32:
  "\<not> sched_word t (off s a) \<Longrightarrow> keeps_sched t s (wr32 a v s)"
  by (rule keeps_schedI) (auto simp: mem_simps)

lemma keeps_sched_wr64:
  "\<lbrakk>\<not> sched_word t (off s a); \<not> sched_word t (off s (a + 4))\<rbrakk> \<Longrightarrow> keeps_sched t s (wr64 a v s)"
  by (rule keeps_schedI) (auto simp: mem_simps)

lemma sched_word_out: "820 \<le> k \<Longrightarrow> \<not> sched_word t k"
  by (auto simp: sched_word_def)

lemma thr_dat_inj: "i < 8 \<Longrightarrow> j < 8 \<Longrightarrow> thr_dat s i = thr_dat s j \<longleftrightarrow> i = j"
  by (metis add_left_cancel mult_cancel1 off_thr_dat zero_neq_numeral)

lemma heap_sepI:
  assumes "set (heap_ptrs s) \<subseteq> thr_dat s ` {0..<8}"
  shows "heap_sep s"
  unfolding heap_sep_def dl_sep_def
proof (intro ballI)
  fix x i assume "x \<in> set (heap_ptrs s)" "i \<in> set [0..<HEAP_SIZE]"
  then obtain j where j: "j < 8" "x = thr_dat s j" and i: "i < 8"
    using assms by (auto simp: dm_layout)
  have "off s (thr_dat s j + 16) \<noteq> off s (hp_adr s (of_nat i))"
    "off s (thr_dat s j + 20) \<noteq> off s (hp_adr s (of_nat i))"
    using i j by (simp_all add: off_hp_adr)
  thus "x + T_TD_DEADLINE \<noteq> hp_adr s (of_nat i) \<and> x + T_TD_DEADLINE + 4 \<noteq> hp_adr s (of_nat i)"
    unfolding off_eq_iff using j by (simp add: dm_layout add.assoc)
qed

lemma dm_inv_set: "dm_inv s \<Longrightarrow> set (heap_ptrs s) = thr_dat s ` {0..<8}"
  unfolding dm_inv_def by (drule conjunct1, drule mset_eq_setD) (simp add: dm_layout)

lemma dm_inv_heap_sep: "dm_inv s \<Longrightarrow> heap_sep s"
  by (rule heap_sepI) (simp add: dm_inv_set)

lemma dm_inv_root:
  assumes "dm_inv s"
  obtains t where "t < 8" "hp s 0 = thr_dat s t" "thr_idx s = t"
    "\<And>i. i < 8 \<Longrightarrow> DL s (thr_dat s t) \<le> DL s (thr_dat s i)"
proof -
  have "heap_ptrs s ! 0 \<in> set (heap_ptrs s)" by (rule nth_mem) simp
  then obtain t where t: "t < 8" "hp s 0 = thr_dat s t"
    unfolding dm_inv_set[OF assms] by auto
  have "rd32 s (thr_dat s t) = of_nat t"
    using assms t(1) by (auto simp: dm_inv_def dm_layout)
  moreover have "t \<in> {0, 1, 2, 3, 4, 5, 6, 7}" using t(1) by auto
  ultimately have idx: "thr_idx s = t"
    by (auto simp: thr_idx_def t(2) dm_layout)
  have "DL s (thr_dat s t) \<le> DL s (thr_dat s i)" if i: "i < 8" for i
  proof -
    have "thr_dat s i \<in> set (heap_ptrs s)" using i by (simp add: dm_inv_set[OF assms])
    then obtain j where "j < 8" "heap_ptrs s ! j = thr_dat s i"
      by (auto simp: in_set_conv_nth)
    thus ?thesis
      using heap_root_le[of "DL s" "heap_ptrs s" j] assms t(2) by (simp add: dm_inv_def)
  qed
  thus thesis using that t idx by blast
qed

end
