(* ===== verification/Dm_Sched.thy ===== *)
theory Dm_Sched
  imports Dm_Frame
begin

text \<open>
  Every node handler leaves the scheduler's words alone.  \<open>fr t s s'\<close> relates the
  state before and after a piece of code run for thread \<open>t\<close>: the words that the
  scheduler invariant reads (heap cells, thread flags, the deadlines of the other
  threads) are the same.  The introduction rules of the collection \<open>fr_intro\<close>
  follow the structure of the code; \<open>node_safe\<close> is the condition on the schedule
  (nodes and queue elements outside the control area, thread numbers in range)
  under which the due node's handler is inside that frame.
\<close>

named_theorems fr_intro "frame rules following the structure of a handler"
named_theorems fr_simps "addresses a handler may write"

definition fr :: "nat \<Rightarrow> dm_state \<Rightarrow> dm_state \<Rightarrow> bool" where
  "fr t s s' \<longleftrightarrow> startshared s' = startshared s \<and>
     (\<forall>a. sched_word t (off s a) \<longrightarrow> mem s' a = mem s a)"

definition wok :: "nat \<Rightarrow> dm_state \<Rightarrow> u32 \<Rightarrow> bool" where
  "wok t s a \<longleftrightarrow> \<not> sched_word t (off s a)"

definition fr_res :: "nat \<Rightarrow> dm_state \<Rightarrow> ('a \<times> dm_state) res \<Rightarrow> bool" where
  "fr_res t s r \<longleftrightarrow> (case r of Inl _ \<Rightarrow> True | Inr (_, s') \<Rightarrow> fr t s s')"

section \<open>Structural rules\<close>

lemma fr_refl [fr_intro, simp]: "fr t s s"
  by (simp add: fr_def)

lemma fr_keeps_sched: "fr t s s' \<Longrightarrow> keeps_sched t s s'"
  by (simp add: fr_def keeps_schedI)

lemma fr_base: "fr t s s' \<Longrightarrow> startshared s' = startshared s"
  by (simp add: fr_def)

lemma fr_wr32 [fr_intro]: "\<lbrakk>fr t s s1; wok t s a\<rbrakk> \<Longrightarrow> fr t s (wr32 a v s1)"
  by (auto simp: fr_def wok_def mem_simps)

lemma fr_wr64 [fr_intro]: "\<lbrakk>fr t s s1; wok t s a; wok t s (a + 4)\<rbrakk> \<Longrightarrow> fr t s (wr64 a v s1)"
  by (auto simp: fr_def wok_def mem_simps)

lemma fr_wr8 [fr_intro]: "\<lbrakk>fr t s s1; wok t s (a AND NOT 3)\<rbrakk> \<Longrightarrow> fr t s (wr8 a v s1)"
  by (auto simp: fr_def wok_def wr8_def)

lemma fr_pq_put [fr_intro]: "fr t s s1 \<Longrightarrow> fr t s (pq_put g v s1)"
  by (simp add: fr_def mem_simps)

lemma fr_getSysTime [fr_intro]: "fr t s s1 \<Longrightarrow> fr t s (snd (getSysTime s1))"
  by (simp add: fr_def mem_simps)

lemma fr_if [fr_intro]: "\<lbrakk>c \<Longrightarrow> fr t s a; \<not> c \<Longrightarrow> fr t s b\<rbrakk> \<Longrightarrow> fr t s (if c then a else b)"
  by simp

lemma fr_case_time [fr_intro]:
  "\<lbrakk>fr t s s0; \<And>now s1. fr t s s1 \<Longrightarrow> fr t s (f now s1)\<rbrakk>
   \<Longrightarrow> fr t s (case getSysTime s0 of (now, s1) \<Rightarrow> f now s1)"
  by (simp add: getSysTime_def fr_def)

lemma fr_let_state: "\<lbrakk>fr t s e; \<And>x. fr t s x \<Longrightarrow> fr t s (f x)\<rbrakk> \<Longrightarrow> fr t s (let x = e in f x)"
  by (simp add: Let_def)

lemma fr_let_val: "(\<And>x. x = e \<Longrightarrow> fr t s (f x)) \<Longrightarrow> fr t s (let x = e in f x)"
  by simp

lemma fr_snd_let_state:
  "\<lbrakk>fr t s e; \<And>x. fr t s x \<Longrightarrow> fr t s (snd (f x))\<rbrakk> \<Longrightarrow> fr t s (snd (let x = e in f x))"
  by (simp add: Let_def)

lemma fr_snd_let_val: "(\<And>x. x = e \<Longrightarrow> fr t s (snd (f x))) \<Longrightarrow> fr t s (snd (let x = e in f x))"
  by simp

lemma fr_snd_if [fr_intro]:
  "\<lbrakk>c \<Longrightarrow> fr t s (snd a); \<not> c \<Longrightarrow> fr t s (snd b)\<rbrakk> \<Longrightarrow> fr t s (snd (if c then a else b))"
  by simp

lemma fr_snd_case_time [fr_intro]:
  "\<lbrakk>fr t s s0; \<And>now s1. fr t s s1 \<Longrightarrow> fr t s (snd (f now s1))\<rbrakk>
   \<Longrightarrow> fr t s (snd (case getSysTime s0 of (now, s1) \<Rightarrow> f now s1))"
  by (simp add: getSysTime_def fr_def)

lemma fr_res_InrI: "fr t s (snd r) \<Longrightarrow> fr_res t s (Inr r)"
  by (cases r) (simp add: fr_res_def)

lemma fr_res_Inl [simp]: "fr_res t s (Inl e)"
  by (simp add: fr_res_def)

lemma fr_resD: "fr_res t s (Inr (x, s')) \<Longrightarrow> fr t s s'"
  by (simp add: fr_res_def)

section \<open>Addresses outside the scheduler's words\<close>

lemma sched_word_range: "sched_word t k \<Longrightarrow> k < 32 \<or> (532 \<le> k \<and> k < 788)"
  by (auto simp: sched_word_def)

lemma wok_ctl: "32 \<le> unat c \<Longrightarrow> unat c < 532 \<Longrightarrow> wok t s (startshared s + c)"
  using sched_word_range[of t "unat c"] by (auto simp: wok_def off_def)

lemma wok_ctl_num [fr_simps]:
  "32 \<le> unat (numeral k :: u32) \<Longrightarrow> unat (numeral k :: u32) < 532
   \<Longrightarrow> wok t s (startshared s + numeral k)"
  by (rule wok_ctl)

lemma wok_out: "820 \<le> off s a \<Longrightarrow> wok t s a"
  by (simp add: wok_def sched_word_out)

lemma wok_node [fr_simps]:
  "node_out s n \<Longrightarrow> wok t s n"
  "\<lbrakk>node_out s n; numeral k < (52::nat)\<rbrakk> \<Longrightarrow> wok t s (n + numeral k)"
  "\<lbrakk>node_out s n; numeral k < (52::nat)\<rbrakk> \<Longrightarrow> wok t s (numeral k + n)"
  using node_out_num[of s n k] by (auto intro!: wok_out simp: node_out_0 add.commute)

lemma not_sched_word_field:
  assumes "k \<in> {536, 540, 544, 548, 552, 556, 560}"
  shows "\<not> sched_word t (k + 32 * t)"
proof
  assume "sched_word t (k + 32 * t)"
  then obtain i where "k + 32 * t = 532 + 32 * i \<or>
      (i \<noteq> t \<and> (k + 32 * t = 548 + 32 * i \<or> k + 32 * t = 552 + 32 * i))"
    using assms unfolding sched_word_def by auto
  thus False using assms by auto presburger+
qed

lemma wok_thr [fr_simps]:
  assumes "t < 8"
  shows "wok t s (thr_dat s t + 4)" "wok t s (thr_dat s t + 8)" "wok t s (thr_dat s t + 12)"
    "wok t s (thr_dat s t + 16)" "wok t s (thr_dat s t + 20)" "wok t s (thr_dat s t + 24)"
    "wok t s (thr_dat s t + 28)"
  using assms by (simp_all add: wok_def not_sched_word_field)

lemmas wok_thr' [fr_simps] = wok_thr[simplified add.commute[of "thr_dat _ _"]]

text \<open>A queue element of 20 bytes outside the control area.\<close>

definition elem_out :: "dm_state \<Rightarrow> u32 \<Rightarrow> bool" where
  "elem_out s e \<longleftrightarrow> 820 \<le> off s e \<and> off s e < 4294967276"

lemma wok_elem [fr_simps]:
  "elem_out s e \<Longrightarrow> wok t s e"
  "\<lbrakk>elem_out s e; numeral k < (20::nat)\<rbrakk> \<Longrightarrow> wok t s (e + numeral k)"
  "\<lbrakk>elem_out s e; numeral k < (20::nat)\<rbrakk> \<Longrightarrow> wok t s (numeral k + e)"
proof -
  assume e: "elem_out s e"
  thus "wok t s e" by (simp add: wok_out elem_out_def)
  assume "numeral k < (20::nat)"
  hence "off s e + numeral k < 4294967296" using e unfolding elem_out_def by linarith
  hence "820 \<le> off s (e + numeral k)" using e unfolding elem_out_def by (simp only: off_add_num) linarith
  thus "wok t s (e + numeral k)" "wok t s (numeral k + e)"
    by (simp_all add: wok_out add.commute)
qed

lemma wok_idx [fr_simps]:
  assumes "node_out s n" "aligned n" "p < 4"
  shows "wok t s (idx_adr n 24 p AND NOT 3)" "wok t s (idx_adr n 28 p AND NOT 3)"
    "wok t s (idx_adr n 24 p AND - 4)" "wok t s (idx_adr n 28 p AND - 4)"
proof -
  show "wok t s (idx_adr n 24 p AND NOT 3)" "wok t s (idx_adr n 28 p AND NOT 3)"
    unfolding idx_adr_word(1)[OF assms(2,3) disjI1[OF refl]]
      idx_adr_word(1)[OF assms(2,3) disjI2[OF refl]]
    using assms(1) by (simp_all add: fr_simps)
  thus "wok t s (idx_adr n 24 p AND - 4)" "wok t s (idx_adr n 28 p AND - 4)" by simp_all
qed

lemma wok_sta:
  assumes "thr < (8 :: u32)" "j = 4 \<or> j = 8 \<or> j = 12"
  shows "wok t s (startshared s + (340 + thr * 24 + j))"
proof -
  have t: "unat thr < 8" using assms(1) by (simp add: word_less_nat_alt)
  have "(340 + thr * 24 + j :: u32) = of_nat (340 + unat thr * 24 + unat j)"
    by simp
  hence "unat (340 + thr * 24 + j) = 340 + unat thr * 24 + unat j"
    using t assms(2) by (auto simp: unat_of_nat32 simp del: of_nat_add of_nat_mult)
  thus ?thesis using t assms(2) by (intro wok_ctl) auto
qed

section \<open>The handlers\<close>

lemmas fr_lets = fr_let_state fr_let_val fr_snd_let_state fr_snd_let_val
lemmas adr_defs = ctl_def count_adr_def start_adr_def running_adr_def abort_adr_def
  badwaitcnt_adr_def bcklogmax_adr_def

lemma fr_paint [fr_intro]: "\<lbrakk>fr t s s1; node_out s n\<rbrakk> \<Longrightarrow> fr t s (paint n s1)"
  unfolding paint_def by (intro fr_intro) (auto simp: fr_simps dm_layout)

lemma fr_status_set [fr_intro]: "fr t s s1 \<Longrightarrow> fr t s (status_set m s1)"
  unfolding status_set_def by (intro fr_intro) (auto simp: fr_simps dm_layout adr_defs fr_base)

lemma fr_tmsg_diag [fr_intro]: "fr t s s1 \<Longrightarrow> fr t s (tmsg_diag node now diff s1)"
  unfolding tmsg_diag_def
  by (intro fr_lets fr_intro) (auto simp: fr_simps dm_layout adr_defs fr_base add.assoc)

lemma fr_pq_dispatch [fr_intro]: "fr t s s1 \<Longrightarrow> fr t s (pq_dispatch node thr par s1)"
  unfolding pq_dispatch_def by (intro fr_intro)

text \<open>The condition on the due node, per handler.\<close>

definition cmd_safe :: "dm_state \<Rightarrow> u32 \<Rightarrow> bool" where
  "cmd_safe s n \<longleftrightarrow> node_out s n \<and>
     (let tg = rd32 s (n + CMD_TARGET);
          prio = unat (drop_bit 24 (rd32 s (n + CMD_ACT)) AND ACT_PRIO_MSK)
      in tg \<noteq> LM32_NULL_PTR \<longrightarrow>
           node_out s tg \<and> aligned tg \<and> elem_out s (cmd_elem tg prio (paint n s)))"

definition cswitch_safe :: "dm_state \<Rightarrow> u32 \<Rightarrow> bool" where
  "cswitch_safe s n \<longleftrightarrow> node_out s n \<and>
     (let tg = rd32 (paint n s) (n + SWITCH_TARGET)
      in tg \<noteq> LM32_NULL_PTR \<longrightarrow> node_out s tg)"

definition block_safe :: "dm_state \<Rightarrow> u32 \<Rightarrow> bool" where
  "block_safe s n \<longleftrightarrow> node_out s n \<and> aligned n \<and>
     (\<forall>p \<in> set [0, 1, 2]. elem_out s (block_elem n p (paint n s)))"

definition thr_field_safe :: "dm_state \<Rightarrow> u32 \<Rightarrow> bool" where
  "thr_field_safe s n \<longleftrightarrow> rd32 s (n + ORIGIN_THR) < 8"

definition node_safe :: "dm_state \<Rightarrow> u32 \<Rightarrow> bool" where
  "node_safe s n \<longleftrightarrow>
     (case getNodeType n s of
        NODE_TYPE_TMSG \<Rightarrow> node_out s n
      | NODE_TYPE_CNOOP \<Rightarrow> cmd_safe s n
      | NODE_TYPE_CFLOW \<Rightarrow> cmd_safe s n
      | NODE_TYPE_CFLUSH \<Rightarrow> cmd_safe s n
      | NODE_TYPE_CWAIT \<Rightarrow> cmd_safe s n
      | NODE_TYPE_CSWITCH \<Rightarrow> cswitch_safe s n
      | NODE_TYPE_BLOCK_FIXED \<Rightarrow> block_safe s n
      | NODE_TYPE_BLOCK_ALIGN \<Rightarrow> block_safe s n
      | NODE_TYPE_ORIGIN \<Rightarrow> thr_field_safe s n
      | NODE_TYPE_STARTTHREAD \<Rightarrow> thr_field_safe s n
      | _ \<Rightarrow> True)"

lemma fr_tmsg:
  assumes "node_out s n" "t < 8"
  shows "fr t s (snd (tmsg n (thr_dat s t) s))"
  unfolding tmsg_def tmsg_send_def
  by (intro fr_lets fr_intro) (use assms in \<open>auto simp: fr_simps dm_layout adr_defs fr_base add.assoc\<close>)

lemma prio_bound: "unat (w AND (3 :: u32)) < 4"
  by (simp add: and_3_unat)

lemma fr_cmd:
  assumes "cmd_safe s n" "t < 8"
  shows "fr t s (snd (cmd n thr s))"
proof -
  let ?tg = "rd32 s (n + 8)"
  let ?p = "unat (drop_bit 24 (rd32 s (n + 20)) AND 3)"
  have n: "node_out s n"
    and tg: "?tg \<noteq> 0 \<Longrightarrow> node_out s ?tg" "?tg \<noteq> 0 \<Longrightarrow> aligned ?tg"
      "?tg \<noteq> 0 \<Longrightarrow> elem_out s (cmd_elem ?tg ?p (paint n s))"
    using assms(1) by (auto simp: cmd_safe_def Let_def dm_layout)
  show ?thesis
    unfolding cmd_def dm_layout Let_def using n tg prio_bound
    by (auto intro!: fr_intro simp: fr_simps dm_layout adr_defs fr_base add.assoc)
qed

lemma fr_cswitch:
  assumes "cswitch_safe s n"
  shows "fr t s (snd (cswitch n thr s))"
  unfolding cswitch_def Let_def dm_layout using assms
  by (auto intro!: fr_intro simp: cswitch_safe_def Let_def fr_simps dm_layout)

lemma fr_origin:
  assumes "thr_field_safe s n"
  shows "fr t s (snd (origin n thr s))"
  unfolding origin_def Let_def snd_conv
  by (intro fr_intro) (use assms wok_sta[of "rd32 s (n + 20)" 4] in
      \<open>auto simp: thr_field_safe_def dm_layout adr_defs add.assoc\<close>)

lemma fr_startThread:
  assumes "thr_field_safe s n"
  shows "fr_res t s (startThread n thr s)"
  unfolding startThread_def Let_def
  using assms wok_sta[of "rd32 s (n + 20)" 8] wok_sta[of "rd32 s (n + 20)" 12]
  by (auto intro!: fr_res_InrI fr_intro
      simp: thr_field_safe_def fr_simps dm_layout adr_defs fr_base add.assoc mem_simps)

section \<open>Blocks\<close>

lemma fr_res_let: "(\<And>x. x = e \<Longrightarrow> fr_res t s (f x)) \<Longrightarrow> fr_res t s (let x = e in f x)"
  by simp

lemma fr_res_let_state:
  "\<lbrakk>fr t s e; \<And>x. fr t s x \<Longrightarrow> fr_res t s (f x)\<rbrakk> \<Longrightarrow> fr_res t s (let x = e in f x)"
  by (simp add: Let_def)

lemma fr_res_if: "\<lbrakk>c \<Longrightarrow> fr_res t s a; \<not> c \<Longrightarrow> fr_res t s b\<rbrakk> \<Longrightarrow> fr_res t s (if c then a else b)"
  by simp

lemma fr_res_bind:
  "\<lbrakk>fr_res t s r; \<And>x s1. fr t s s1 \<Longrightarrow> fr_res t s (f x s1)\<rbrakk>
   \<Longrightarrow> fr_res t s (case r of Inl e \<Rightarrow> Inl e | Inr (x, s1) \<Rightarrow> f x s1)"
  by (cases r) (auto simp: fr_res_def)

lemma fr_res_case_time:
  "\<lbrakk>fr t s s0; \<And>now s1. fr t s s1 \<Longrightarrow> fr_res t s (f now s1)\<rbrakk>
   \<Longrightarrow> fr_res t s (case getSysTime s0 of (now, s1) \<Rightarrow> f now s1)"
  by (simp add: getSysTime_def fr_def)

lemmas fr_res_intro = fr_res_let_state fr_res_let fr_res_if fr_res_bind fr_res_case_time fr_res_InrI

lemma fr_actions:
  assumes "fr t s s1" "node_out s n" "t < 8"
  shows "fr t s (snd (dummyActionFunc n c thr s1))" "fr t s (snd (execNoop n c thr s1))"
    "fr t s (snd (execFlow n c thr s1))" "fr t s (snd (execFlush n c thr s1))"
    "fr t s (snd (execWait n c (thr_dat s t) s1))"
proof -
  show "fr t s (snd (dummyActionFunc n c thr s1))"
    using assms by (auto intro!: fr_intro simp: dummyActionFunc_def)
  show "fr t s (snd (execNoop n c thr s1))"
    using assms by (simp add: execNoop_def)
  show "fr t s (snd (execFlow n c thr s1))"
    using assms by (auto intro!: fr_intro simp: execFlow_def Let_def fr_simps dm_layout)
  show "fr t s (snd (execFlush n c thr s1))"
    unfolding execFlush_def Let_def dm_layout using assms
    by (auto intro!: fr_intro simp: fr_simps simp del: flush_loop.simps)
  show "fr t s (snd (execWait n c (thr_dat s t) s1))"
    unfolding execWait_def
    by (intro fr_lets fr_intro)
      (use assms in \<open>auto simp: fr_simps dm_layout adr_defs fr_base add.assoc\<close>)
qed

lemma fr_actionFuncs:
  assumes "fr t s s1" "node_out s n" "t < 8"
  shows "fr_res t s (actionFuncs ty n c (thr_dat s t) s1)"
  unfolding actionFuncs_def
  by (intro fr_res_if fr_res_Inl fr_res_InrI)
    (cases "act_types ! unat ty", use fr_actions[OF assms] in simp_all)

lemma fr_wr8_idx:
  assumes "fr t s s1" "node_out s n" "aligned n" "p < 4"
  shows "fr t s (wr8 (idx_adr n 28 p) v s1)" "fr t s (wr8 (idx_adr n 24 p) v s1)"
  using assms by (auto intro!: fr_wr8 wok_idx simp del: One_nat_def)

lemma fr_block_exec:
  assumes s1: "fr t s s1" and n: "node_out s n" "aligned n" and t: "t < 8"
    and c: "elem_out s c" and p: "p < 4" and rd: "rd = idx_adr n 28 p"
  shows "fr_res t s (block_exec n (thr_dat s t) rd c ret s1)"
  unfolding block_exec_def
  using fr_wr8_idx(1)[OF s1 n p] c
  by (intro fr_res_let fr_res_if fr_res_bind fr_actionFuncs s1 n t fr_res_let_state fr_res_InrI)
    (auto simp: rd dm_layout fr_simps wok_idx[OF n p] intro!: fr_intro s1)

text \<open>Every element pointer the search can return is the element of some queue, read in the
  painted state (the search only reads the clock).\<close>

lemma block_elem_ticks:
  "block_elem n p (snd (getSysTime s)) = block_elem n p s"
  by (simp add: block_elem_def rd8_def rd32_def mem_simps)

lemma block_scan_result:
  assumes "block_scan ps n rdp cp s = (rd, c, s')"
  shows "(rd = rdp \<or> (\<exists>p \<in> set ps. rd = Some (idx_adr n 28 p))) \<and>
    (c = cp \<or> (\<exists>p \<in> set ps. c = Some (block_elem n p s))) \<and>
    mem s' = mem s \<and> startshared s' = startshared s"
  using assms
proof (induction ps arbitrary: rdp cp s)
  case (Cons p ps)
  have e: "block_elem n q (s\<lparr>ticks := k\<rparr>) = block_elem n q s" for q k
    by (simp add: block_elem_def rd8_def rd32_def)
  show ?case
  proof (cases "drop_bit NFLG_BLOCK_QS_POS (rd32 s (n + NODE_FLAGS)) AND bitmask p \<noteq> 0")
    case False
    thus ?thesis using Cons.IH[of rdp cp s] Cons.prems by auto
  next
    case has: True
    show ?thesis
    proof (cases "rd8 s (idx_adr n BLOCK_CMDQ_RD_IDXS p) = rd8 s (idx_adr n BLOCK_CMDQ_WR_IDXS p)")
      case True
      thus ?thesis
        using Cons.IH[of "Some (idx_adr n 28 p)" cp s] Cons.prems has by (auto simp: dm_layout)
    next
      case False
      let ?c = "block_elem n p s" and ?s1 = "s\<lparr>ticks := Suc (ticks s)\<rparr>"
      show ?thesis
      proof (cases "clk s (ticks s) \<ge> rd64 ?s1 (?c + T_CMD_TIME)")
        case True
        thus ?thesis using Cons.prems has False
          by (auto simp: getSysTime_def Let_def dm_layout)
      next
        case late: False
        hence "block_scan ps n (Some (idx_adr n 28 p)) (Some ?c) ?s1 = (rd, c, s')"
          using Cons.prems has False by (simp add: getSysTime_def Let_def dm_layout)
        thus ?thesis
          using Cons.IH[of "Some (idx_adr n 28 p)" "Some ?c" ?s1] e by auto
      qed
    qed
  qed
qed simp

lemma fr_block:
  assumes "block_safe s n" "t < 8"
  shows "fr_res t s (block n (thr_dat s t) s)"
proof -
  have n: "node_out s n" "aligned n"
    and el: "\<And>p. p \<in> {0, 1, 2} \<Longrightarrow> elem_out s (block_elem n p (paint n s))"
    using assms(1) by (auto simp: block_safe_def)
  have s1: "fr t s (paint n s)" using n by (intro fr_intro)
  have "fr_res t s (case block_scan [2, 1, 0] n None None (paint n s) of
       (Some rd, Some c, s2) \<Rightarrow> (case getSysTime s2 of (now, s3) \<Rightarrow>
          if now < rd64 s3 (c + T_CMD_TIME) then Inr (ret, s3)
          else block_exec n (thr_dat s t) rd c ret s3)
     | _ \<Rightarrow> Inl UninitCmdPtr)" for ret
  proof -
    obtain rd c s2 where sc: "block_scan [2, 1, 0] n None None (paint n s) = (rd, c, s2)"
      by (metis prod_cases3)
    note r = block_scan_result[OF sc]
    show ?thesis
    proof (cases "\<exists>rdv cv. rd = Some rdv \<and> c = Some cv")
      case True
      then obtain rdv cv where rc: "rd = Some rdv" "c = Some cv" by blast
      have "rdv \<in> idx_adr n 28 ` {0, 1, 2}" using r rc by auto
      then obtain p :: nat where "p \<in> {0, 1, 2}" "rdv = idx_adr n 28 p" by blast
      hence p: "p < 4" "rdv = idx_adr n 28 p" by auto
      have "cv \<in> (\<lambda>p. block_elem n p (paint n s)) ` {0, 1, 2}" using r rc by auto
      hence cv: "elem_out s cv" using el by blast
      have "fr t s s2" using r s1 by (simp add: fr_def)
      thus ?thesis unfolding sc rc
        using fr_block_exec[OF _ n assms(2) cv p]
        by (auto intro!: fr_res_intro simp: getSysTime_def fr_def)
    next
      case False
      thus ?thesis unfolding sc by (auto split: option.splits)
    qed
  qed
  thus ?thesis
    unfolding block_def Let_def using s1 by (auto intro!: fr_res_if fr_res_InrI)
qed

lemma fr_blockFixed:
  assumes "block_safe s n" "t < 8"
  shows "fr_res t s (blockFixed n (thr_dat s t) s)"
  unfolding blockFixed_def
  by (intro fr_res_intro fr_block[OF assms] fr_intro)
    (use assms in \<open>auto simp: dm_layout fr_simps add.assoc intro!: fr_intro\<close>)

lemma fr_blockAlign:
  assumes "block_safe s n" "t < 8"
  shows "fr_res t s (blockAlign n (thr_dat s t) s)"
  unfolding blockAlign_def
  by (intro fr_res_intro fr_block[OF assms] fr_intro)
    (use assms in \<open>auto simp: dm_layout fr_simps add.assoc intro!: fr_intro\<close>)

lemma fr_nodeFuncs:
  assumes "node_safe s n" "t < 8"
  shows "fr_res t s (nodeFuncs (getNodeType n s) n (thr_dat s t) s)"
proof -
  have dummy: "fr t s (snd (dummyNodeFunc n thr s))" for thr
    by (auto simp: dummyNodeFunc_def nodeNull_def intro: fr_intro)
  show ?thesis
    using assms(1) fr_tmsg[of s n t] fr_cmd[of s n t] fr_cswitch[of s n] fr_origin[of s n]
      fr_startThread[of s n] fr_blockFixed[of s n t] fr_blockAlign[of s n t] assms(2) dummy
    by (cases "getNodeType n s")
      (auto simp: nodeFuncs_def node_safe_def nodeNull_def intro!: fr_res_InrI)
qed

lemma fr_deadlineFuncs: "fr t s s1 \<Longrightarrow> fr_res t s (deadlineFuncs ty n thr s1)"
  by (cases ty) (auto simp: deadlineFuncs_def dummyDeadlineFunc_def deadlineNull_def dlEvt_def
      dlBlock_def intro!: fr_res_InrI fr_intro)

end
