(* ===== verification/Dm_Loop.thy ===== *)
theory Dm_Loop
  imports Dm_Sched
begin

text \<open>
  The scheduler invariant across a turn of the main loop: the abort phase, the
  dispatch of the due node, the start phase, and \<open>dmInit\<close>, which establishes it.
  The transition relation \<open>sched\<close> interleaves turns of the loop with writes of the
  host, and every state reachable from an initialised one satisfies the invariant.
\<close>

section \<open>Re-establishing the invariant\<close>

text \<open>After a handler of the root's thread \<open>t\<close> the heap is only disordered at the root.\<close>

lemma keeps_heap_ptrs: "keeps_sched t s s' \<Longrightarrow> heap_ptrs s' = heap_ptrs s"
  by (simp add: keeps_sched_def heap_ptrs_def dm_layout)

lemma mset_unique_nth:
  assumes "mset xs = mset (map f [0..<n])" "inj_on f {0..<n}"
  shows "distinct xs"
  using assms by (metis distinct_map distinct_upt mset_eq_imp_distinct_iff set_upt)

lemma thr_dat_inj_on: "inj_on (thr_dat s) {0..<8}"
  by (auto simp: inj_on_def thr_dat_inj)

lemma dm_inv_distinct: "dm_inv s \<Longrightarrow> distinct (heap_ptrs s)"
  using mset_unique_nth[OF _ thr_dat_inj_on] by (simp add: dm_inv_def dm_layout)

definition dm_pre :: "dm_state \<Rightarrow> bool" where
  "dm_pre s \<longleftrightarrow>
     mset (heap_ptrs s) = mset (map (thr_dat s) [0..<THR_QTY]) \<and>
     (\<forall>i \<in> set [0..<THR_QTY]. rd32 s (thr_dat s i + T_TD_FLAGS) = of_nat i)"

lemma dm_inv_pre: "dm_inv s \<longleftrightarrow> dm_pre s \<and> is_heap (DL s) (heap_ptrs s)"
  by (auto simp: dm_inv_def dm_pre_def)

lemma dm_pre_set: "dm_pre s \<Longrightarrow> set (heap_ptrs s) = thr_dat s ` {0..<8}"
  unfolding dm_pre_def by (drule conjunct1, drule mset_eq_setD) (simp add: dm_layout)

lemma dm_pre_heap_sep: "dm_pre s \<Longrightarrow> heap_sep s"
  by (rule heap_sepI) (simp add: dm_pre_set)

lemma thr_dat_eq: "startshared s' = startshared s \<Longrightarrow> thr_dat s' = thr_dat s"
  by (rule ext) (simp add: thr_dat_def)

lemma dm_pre_keeps:
  assumes "keeps_sched t s s'"
  shows "dm_pre s' = dm_pre s"
proof -
  have "thr_dat s' = thr_dat s"
    using assms by (intro thr_dat_eq) (simp add: keeps_sched_def)
  thus ?thesis
    using keeps_heap_ptrs[OF assms] assms
    by (simp add: dm_pre_def keeps_sched_def rd32_def dm_layout)
qed

lemma dm_pre_same_but_heap:
  assumes "dm_pre s" "same_but_heap s s'" "mset (heap_ptrs s') = mset (heap_ptrs s)"
  shows "dm_pre s'"
proof -
  have b: "startshared s' = startshared s" by (rule same_but_heap_sel(1)[OF assms(2)])
  have "rd32 s' (thr_dat s i) = rd32 s (thr_dat s i)" if "i < 8" for i
  proof -
    have "thr_dat s i \<notin> (\<lambda>i. hp_adr s (of_nat i)) ` {0..<8}"
    proof
      assume "thr_dat s i \<in> (\<lambda>i. hp_adr s (of_nat i)) ` {0..<8}"
      then obtain j where "j < 8" "thr_dat s i = hp_adr s (of_nat j)" by auto
      hence "off s (thr_dat s i) = 4 * j" by (simp add: off_hp_adr)
      thus False using that \<open>j < 8\<close> by (simp add: off_thr_dat)
    qed
    thus ?thesis using assms(2) by (simp add: same_but_heap_def rd32_def dm_layout)
  qed
  thus ?thesis using assms(1,3) thr_dat_eq[OF b] by (simp add: dm_pre_def dm_layout)
qed

text \<open>The two ways the firmware restores the order.\<close>

lemma dm_inv_heapify: "dm_pre s \<Longrightarrow> dm_inv (heapify s)"
  unfolding dm_inv_pre
  using dm_pre_same_but_heap[OF _ heapify_refines(2)[OF dm_pre_heap_sep]]
  by (simp add: heapify_mset heapify_is_heap dm_pre_heap_sep)

lemma dm_inv_heapReplace:
  assumes "dm_pre s" "heap_from (DL s) 1 (heap_ptrs s)"
  shows "dm_inv (heapReplace 0 s)"
proof -
  have p: "(0::nat) < 8" by simp
  note sep = dm_pre_heap_sep[OF assms(1)]
  have "dm_pre (heapReplace 0 s)"
    using dm_pre_same_but_heap[OF assms(1)] heapReplace_refines(2)[OF p sep]
      heapReplace_mset[OF p sep] by simp
  thus ?thesis
    unfolding dm_inv_pre using heapReplace_root_is_heap[OF sep] assms(2) by simp
qed

lemma heap_from_1_keeps:
  assumes "dm_inv s" "keeps_sched t s s'" "hp s 0 = thr_dat s t" "t < 8"
  shows "heap_from (DL s') 1 (heap_ptrs s')"
proof -
  have hp: "heap_ptrs s' = heap_ptrs s" by (rule keeps_heap_ptrs[OF assms(2)])
  have key: "DL s' (heap_ptrs s ! i) = DL s (heap_ptrs s ! i)" if i: "0 < i" "i < 8" for i
  proof -
    have "heap_ptrs s ! i \<in> set (heap_ptrs s)" using i by (intro nth_mem) simp
    then obtain j where j: "j < 8" "heap_ptrs s ! i = thr_dat s j"
      unfolding dm_inv_set[OF assms(1)] by auto
    have "heap_ptrs s ! 0 = thr_dat s t" using assms(3) by simp
    hence "j \<noteq> t"
      using nth_eq_iff_index_eq[OF dm_inv_distinct[OF assms(1)], of i 0] i j by auto
    thus ?thesis using assms(2) j by (simp add: keeps_sched_def)
  qed
  have "heap_from (DL s) 0 (heap_ptrs s)" using assms(1) by (simp add: dm_inv_def)
  hence edge: "DL s (heap_ptrs s ! heap_parent c) \<le> DL s (heap_ptrs s ! c)"
    if "c < 8" "0 < c" for c
    using that by (simp add: heap_from_def)
  show ?thesis
    unfolding hp heap_from_def length_heap_ptrs
  proof (intro allI impI)
    fix c :: nat assume c: "c < 8" "0 < c" "1 \<le> heap_parent c"
    have "heap_parent c < 8" using heap_parent_less[OF c(2)] c(1) by linarith
    thus "DL s' (heap_ptrs s ! heap_parent c) \<le> DL s' (heap_ptrs s ! c)"
      using key[of c] key[of "heap_parent c"] edge[of c] c by (simp only:)
  qed
qed

lemma keeps_hp0: "keeps_sched t s s' \<Longrightarrow> hp s' 0 = hp s 0"
proof -
  assume "keeps_sched t s s'"
  hence "(0::nat) < 8 \<longrightarrow> hp s' (of_nat 0) = hp s (of_nat 0)"
    unfolding keeps_sched_def by blast
  thus "hp s' 0 = hp s 0" by simp
qed

section \<open>Dispatch\<close>

lemma fr_dispatch_step:
  assumes inv: "dm_inv s" and safe: "node_safe s (rd32 s (hp s 0 + T_TD_NODE_PTR))"
    and ok: "dispatch i s = Inr s'"
  shows "dm_inv s'"
proof -
  obtain t where t: "t < 8" "hp s 0 = thr_dat s t"
    using dm_inv_root[OF inv] by blast
  let ?n = "rd32 s (thr_dat s t + 12)"
  have n: "node_safe s ?n" using safe t by (simp add: dm_layout)
  obtain nxt s1 where h: "nodeFuncs (getNodeType ?n s) ?n (thr_dat s t) s = Inr (nxt, s1)"
    using ok t by (auto simp: dispatch_def Let_def dm_layout split: sum.splits)
  have f1: "fr t s s1" using fr_nodeFuncs[OF n t(1)] h fr_resD by metis
  let ?s2 = "wr32 (thr_dat s t + 12) nxt s1"
  have f2: "fr t s ?s2" using f1 t(1) by (intro fr_intro) (simp_all add: fr_simps)
  have hp2: "hp ?s2 0 = thr_dat s t"
    using keeps_hp0[OF fr_keeps_sched[OF f2]] t by simp
  let ?n2 = "rd32 ?s2 (thr_dat s t + 12)"
  obtain dl s3 where d: "deadlineFuncs (getNodeType ?n2 ?s2) ?n2 (thr_dat s t) ?s2 = Inr (dl, s3)"
    using ok h t hp2 by (auto simp: dispatch_def Let_def dm_layout split: sum.splits)
  have f3: "fr t s s3"
    using fr_deadlineFuncs[OF f2, of "getNodeType ?n2 ?s2" ?n2 "thr_dat s t"]
    unfolding d by (rule fr_resD)
  let ?s4 = "wr64 (thr_dat s t + 16) dl s3"
  let ?s5 = "wr32 (running_adr ?s4) (rd32 ?s4 (running_adr ?s4)
               AND NOT (if DL ?s4 (hp ?s4 0) = - 1 then bitmask i else 0)) ?s4"
  have f4: "fr t s ?s4" using f3 t(1)
    by (intro fr_intro) (simp_all add: fr_simps add.assoc)
  have "running_adr ?s4 = startshared s + 336"
    using fr_base[OF f4] by (simp add: running_adr_def ctl_def dm_layout)
  hence f5: "fr t s ?s5"
    by (intro fr_wr32[OF f4]) (simp add: fr_simps)
  have "s' = heapReplace 0 ?s5"
    using ok h t hp2 d by (simp add: dispatch_def Let_def dm_layout)
  moreover have "dm_pre ?s5"
    using dm_pre_keeps[OF fr_keeps_sched[OF f5]] inv by (simp add: dm_inv_pre)
  ultimately show ?thesis
    using dm_inv_heapReplace heap_from_1_keeps[OF inv fr_keeps_sched[OF f5] t(2) t(1)] by simp
qed

section \<open>Abort\<close>

text \<open>A run of writes that only touches deadlines and non-scheduler words keeps \<open>dm_pre\<close>;
  \<open>t = 8\<close> stands for no thread, and the deadline words are excluded one thread at a time.\<close>

lemma dm_pre_fr: "fr t s s' \<Longrightarrow> dm_pre s' = dm_pre s"
  by (rule dm_pre_keeps[OF fr_keeps_sched])

lemma fr_abort_deadline: "i < 8 \<Longrightarrow> fr i s (abort_deadline i s)"
  unfolding abort_deadline_def Let_def dm_layout
  by (intro fr_intro) (simp_all add: fr_simps add.assoc)

lemma dm_pre_fold_abort:
  "set is \<subseteq> {0..<8} \<Longrightarrow> dm_pre (fold abort_deadline is s) = dm_pre s"
  by (induction "is" arbitrary: s) (simp_all add: dm_pre_fr[OF fr_abort_deadline])

lemma dm_inv_wr_ctl:
  assumes "dm_inv s" "32 \<le> unat c" "unat c < 532"
  shows "dm_inv (wr32 (startshared s + c) v s)"
proof -
  have fr: "fr t s (wr32 (startshared s + c) v s)" for t
    using assms(2,3) by (intro fr_intro) (simp_all add: wok_ctl)
  have "DL (wr32 (startshared s + c) v s) (thr_dat s i) = DL s (thr_dat s i)" if "i < 8" for i
    using fr_keeps_sched[OF fr[of "if i = 0 then 1 else 0"]] that
    by (auto simp: keeps_sched_def split: if_splits)
  hence "\<And>x. x \<in> set (heap_ptrs s) \<Longrightarrow> DL s x = DL (wr32 (startshared s + c) v s) x"
    unfolding dm_inv_set[OF assms(1)] by auto
  hence "is_heap (DL (wr32 (startshared s + c) v s)) (heap_ptrs s)"
    using assms(1) heap_from_cong[of "heap_ptrs s" "DL s" "DL (wr32 (startshared s + c) v s)" 0]
    by (simp add: dm_inv_pre)
  thus ?thesis
    using dm_pre_fr[OF fr] keeps_heap_ptrs[OF fr_keeps_sched[OF fr]] assms(1)
    by (simp add: dm_inv_pre)
qed

lemma running_adr_wr32 [simp]: "running_adr (wr32 a v s) = running_adr s"
  by (simp add: running_adr_def ctl_def mem_simps)

lemma dm_inv_abort_phase:
  assumes "dm_inv s"
  shows "dm_inv (abort_phase s)"
proof (cases "rd32 s (abort_adr s) = 0")
  case True
  thus ?thesis using assms by (simp add: abort_phase_def)
next
  case False
  let ?s1 = "wr32 (running_adr s) (rd32 s (running_adr s) AND NOT (rd32 s (abort_adr s))) s"
  let ?s2 = "heapify (fold abort_deadline [0..<THR_QTY] ?s1)"
  have "dm_pre ?s1"
    using dm_inv_wr_ctl[OF assms, of 336] unfolding running_adr_def ctl_def dm_layout dm_inv_pre
    by simp
  hence "dm_inv ?s2"
    by (intro dm_inv_heapify) (simp add: dm_pre_fold_abort dm_layout)
  hence "dm_inv (wr32 (abort_adr ?s2) 0 ?s2)"
    unfolding abort_adr_def ctl_def dm_layout by (intro dm_inv_wr_ctl) simp_all
  thus ?thesis using False by (simp add: abort_phase_def Let_def)
qed

section \<open>Start\<close>

lemma fr_start_fields: "i < 8 \<Longrightarrow> fr i s (start_fields i s)"
  unfolding start_fields_def dm_layout
  by (intro fr_lets fr_intro) (auto simp: fr_simps add.assoc)

lemma fr_start_commit:
  assumes "fr i s s1" "i < 8"
  shows "fr i s (start_commit i dl s1)"
proof -
  have "startshared s1 = startshared s" "thr_dat s1 i = thr_dat s i"
    using fr_base[OF assms(1)] by (simp_all add: thr_dat_def)
  thus ?thesis unfolding start_commit_def Let_def using assms
    by (intro fr_intro) (simp_all add: adr_defs mem_simps dm_layout fr_simps add.assoc)
qed

lemma fr_start_thread:
  assumes "i < 8" "start_thread i s = Inr s'"
  shows "fr i s s'"
proof -
  let ?s1 = "start_fields i s"
  let ?c = "rd32 ?s1 (thr_dat ?s1 i + T_TD_NODE_PTR)"
  obtain dl s2 where d: "deadlineFuncs (getNodeType ?c ?s1) ?c (thr_dat ?s1 i) ?s1 = Inr (dl, s2)"
    and s': "s' = start_commit i dl s2"
    using assms(2) unfolding start_thread_def Let_def by (auto split: sum.splits)
  have "fr i s s2"
    using fr_deadlineFuncs[OF fr_start_fields[OF assms(1)], of s "getNodeType ?c ?s1" ?c "thr_dat ?s1 i"]
    unfolding d by (rule fr_resD)
  thus ?thesis unfolding s' using assms(1) by (rule fr_start_commit)
qed

lemma dm_pre_start_loop:
  "\<lbrakk>dm_pre s; set is \<subseteq> {0..<8}; start_loop is s = Inr s'\<rbrakk> \<Longrightarrow> dm_pre s'"
proof (induction "is" arbitrary: s)
  case (Cons i "is")
  show ?case
  proof (cases "rd32 s (start_adr s) AND bitmask i = 0")
    case True
    thus ?thesis using Cons by simp
  next
    case False
    then obtain s1 where s1: "start_thread i s = Inr s1" "start_loop is s1 = Inr s'"
      using Cons.prems(3) by (auto split: sum.splits)
    have "dm_pre s1"
      using dm_pre_fr[OF fr_start_thread[OF _ s1(1)]] Cons.prems(1,2) by simp
    thus ?thesis using Cons.IH s1(2) Cons.prems(2) by simp
  qed
qed simp

lemma dm_inv_start_phase:
  assumes "dm_inv s" "start_phase b s = Inr s'"
  shows "dm_inv s'"
proof -
  let ?a = "bcklogmax_adr s"
  let ?s1 = "wr32 ?a (if b > rd32 s ?a then b else rd32 s ?a) s"
  have s1: "dm_inv ?s1"
    unfolding bcklogmax_adr_def ctl_def dm_layout using assms(1)
    by (simp add: dm_inv_wr_ctl)
  show ?thesis
  proof (cases "rd32 ?s1 (start_adr ?s1) = 0")
    case True
    thus ?thesis using assms(2) s1 by (simp add: start_phase_def Let_def)
  next
    case False
    then obtain s2 where "start_loop [0..<8] ?s1 = Inr s2" "s' = heapify s2"
      using assms(2) by (auto simp: start_phase_def Let_def dm_layout split: sum.splits)
    thus ?thesis
      using dm_pre_start_loop[of ?s1 "[0..<8]" s2] s1 dm_inv_heapify by (simp add: dm_inv_pre)
  qed
qed

section \<open>Initialisation\<close>

lemma mem_dm_init_thread:
  assumes "i < 8"
  shows "mem (dm_init_thread i s) a =
    (if off s a = 4 * i then thr_dat s i
     else if off s a = 348 + 24 * i \<or> off s a = 352 + 24 * i then 0
     else if off s a = 356 + 24 * i then hiW PREPTIME_DEFAULT
     else if off s a = 360 + 24 * i then loW PREPTIME_DEFAULT
     else if off s a = 532 + 32 * i then of_nat i
     else if off s a \<in> {548 + 32 * i, 552 + 32 * i, 556 + 32 * i, 560 + 32 * i} then - 1
     else mem s a)"
  unfolding dm_init_thread_def Let_def dm_layout mem_simps add.assoc
  using assms by (simp add: adr_eq hiW_minus1 loW_minus1)

text \<open>The words of thread \<open>j\<close> the invariant reads: its heap cell, its index, its deadline.\<close>

definition thr_word :: "nat \<Rightarrow> nat \<Rightarrow> bool" where
  "thr_word j k \<longleftrightarrow> k = 4 * j \<or> k = 532 + 32 * j \<or> k = 548 + 32 * j \<or> k = 552 + 32 * j"

lemma init_thread_other:
  assumes "i < 8" "j < 8" "j \<noteq> i" "thr_word j (off s a)"
  shows "mem (dm_init_thread i s) a = mem s a"
proof -
  have "off s a \<noteq> 4 * i" "off s a \<noteq> 348 + 24 * i" "off s a \<noteq> 352 + 24 * i"
    "off s a \<noteq> 356 + 24 * i" "off s a \<noteq> 360 + 24 * i" "off s a \<noteq> 532 + 32 * i"
    "off s a \<noteq> 548 + 32 * i" "off s a \<noteq> 552 + 32 * i" "off s a \<noteq> 556 + 32 * i"
    "off s a \<noteq> 560 + 32 * i"
    using assms unfolding thr_word_def by auto
  thus ?thesis using mem_dm_init_thread[OF assms(1), of s a] by simp
qed

lemma startshared_dm_init_thread [simp]: "startshared (dm_init_thread i s) = startshared s"
  by (simp add: dm_init_thread_def Let_def mem_simps)

definition init_done :: "nat \<Rightarrow> dm_state \<Rightarrow> bool" where
  "init_done j s \<longleftrightarrow> (\<forall>a. (off s a = 4 * j \<longrightarrow> mem s a = thr_dat s j) \<and>
     (off s a = 532 + 32 * j \<longrightarrow> mem s a = of_nat j) \<and>
     (off s a = 548 + 32 * j \<or> off s a = 552 + 32 * j \<longrightarrow> mem s a = - 1))"

lemma init_done_self:
  assumes "i < 8"
  shows "init_done i (dm_init_thread i s)"
proof -
  have o: "off (dm_init_thread i s) a = off s a" for a by (simp add: off_def)
  have d: "thr_dat (dm_init_thread i s) i = thr_dat s i" by (simp add: thr_dat_def)
  show ?thesis
    unfolding init_done_def o d
    by (intro allI conjI impI) (auto simp: mem_dm_init_thread[OF assms])
qed

lemma init_done_keep:
  assumes "init_done j s" "startshared s' = startshared s"
    "\<And>a. thr_word j (off s a) \<Longrightarrow> mem s' a = mem s a"
  shows "init_done j s'"
proof -
  have "off s' a = off s a" "thr_dat s' j = thr_dat s j" for a
    using assms(2) by (simp_all add: off_def thr_dat_def)
  thus ?thesis using assms(1,3) by (simp add: init_done_def thr_word_def)
qed

lemma init_fold:
  "n \<le> 8 \<Longrightarrow> (\<forall>j < n. init_done j (fold dm_init_thread [0..<n] s)) \<and>
     startshared (fold dm_init_thread [0..<n] s) = startshared s"
proof (induction n)
  case (Suc n)
  let ?f = "fold dm_init_thread [0..<n] s"
  have n: "n < 8" using Suc.prems by simp
  have "init_done j (dm_init_thread n ?f)" if "j < Suc n" for j
  proof (cases "j = n")
    case True
    thus ?thesis using init_done_self[OF n] by simp
  next
    case False
    hence j: "j < n" using that by simp
    hence "init_done j ?f" using Suc.IH Suc.prems by simp
    moreover have "mem (dm_init_thread n ?f) a = mem ?f a" if "thr_word j (off ?f a)" for a
      using init_thread_other[OF n _ False that] j n by simp
    ultimately show ?thesis
      by (rule init_done_keep[OF _ startshared_dm_init_thread])
  qed
  moreover have "startshared ?f = startshared s" using Suc.IH Suc.prems by simp
  ultimately show ?case by simp
qed simp

lemma dm_inv_init_done:
  assumes "\<forall>j < 8. init_done j s"
  shows "dm_inv s"
proof -
  have hp: "hp s (of_nat j) = thr_dat s j" if "j < 8" for j
    using assms that by (simp add: hp_def rd32_def init_done_def off_hp_adr)
  have fl: "mem s (thr_dat s j) = of_nat j" if "j < 8" for j
    using assms that by (simp add: init_done_def off_thr_dat)
  have "mem s (thr_dat s j + 16) = - 1 \<and> mem s (thr_dat s j + 16 + 4) = - 1" if "j < 8" for j
    using assms that by (simp add: init_done_def)
  hence dl: "DL s (thr_dat s j) = - 1" if "j < 8" for j
    using that unfolding DL_def rd64_def dm_layout by (simp only:) simp
  have ptrs: "heap_ptrs s = map (thr_dat s) [0..<8]"
    unfolding heap_ptrs_def dm_layout using hp by (intro map_cong) auto
  have "DL s (heap_ptrs s ! i) = - 1" if "i < 8" for i
    using that dl hp by simp
  hence "is_heap (DL s) (heap_ptrs s)"
    using heap_parent_less by (auto simp: heap_from_def intro: less_trans)
  thus ?thesis using fl by (simp add: dm_inv_def ptrs dm_layout rd32_def)
qed

lemma dm_inv_fr8:
  assumes "dm_inv s" "fr 8 s s'"
  shows "dm_inv s'"
proof -
  note k = fr_keeps_sched[OF assms(2)]
  have "DL s x = DL s' x" if "x \<in> set (heap_ptrs s)" for x
    using that k unfolding dm_inv_set[OF assms(1)] by (auto simp: keeps_sched_def)
  hence "is_heap (DL s') (heap_ptrs s)"
    using heap_from_cong[of "heap_ptrs s" "DL s" "DL s'" 0] assms(1) by (simp add: dm_inv_pre)
  thus ?thesis
    using dm_pre_keeps[OF k] keeps_heap_ptrs[OF k] assms(1) by (simp add: dm_inv_pre)
qed

lemma fr_dm_init_diag: "fr 8 s (dm_init_diag s)"
  unfolding dm_init_diag_def
  by (intro fr_lets fr_intro) (auto simp: dm_layout adr_defs fr_simps add.assoc)

lemma dm_inv_dmInit: "dm_inv (dmInit s)"
proof -
  have "dm_inv (fold dm_init_thread [0..<8] s)"
    using init_fold[of 8 s] by (intro dm_inv_init_done) simp
  thus ?thesis
    unfolding dmInit_def dm_layout using fr_dm_init_diag by (rule dm_inv_fr8)
qed

section \<open>Turns of the loop and the host\<close>

text \<open>The schedule condition of a turn: if the root is due, its node is safe.\<close>

definition turn_safe :: "dm_state \<Rightarrow> bool" where
  "turn_safe s \<longleftrightarrow>
     (case node_due (abort_phase s) of
        (due, s2) \<Rightarrow> due \<longrightarrow> node_safe s2 (rd32 s2 (hp s2 0 + T_TD_NODE_PTR)))"

lemma node_due_state: "node_due s = (due, s2) \<Longrightarrow> s2 = s\<lparr>ticks := Suc (ticks s)\<rparr>"
  by (auto simp: node_due_def getSysTime_def)

lemma fr_ticks: "fr t s (s\<lparr>ticks := k\<rparr>)"
  by (simp add: fr_def)

lemma dm_inv_main_iter:
  assumes "dm_inv s" "turn_safe s" "main_iter (b, s) = Inr (b', s')"
  shows "dm_inv s'"
proof -
  let ?s1 = "abort_phase s"
  obtain due s2 where d: "node_due ?s1 = (due, s2)" by fastforce
  have s2: "dm_inv s2"
    using dm_inv_fr8[OF dm_inv_abort_phase[OF assms(1)] fr_ticks] node_due_state[OF d] by simp
  show ?thesis
  proof (cases due)
    case True
    then obtain s3 where "dispatch (thr_idx ?s1) s2 = Inr s3" "s' = s3"
      using assms(3) d by (auto simp: main_iter_def Let_def split: sum.splits)
    thus ?thesis
      using fr_dispatch_step[OF s2] assms(2) d True by (auto simp: turn_safe_def)
  next
    case False
    then obtain s3 where "start_phase b s2 = Inr s3" "s' = s3"
      using assms(3) d by (auto simp: main_iter_def Let_def split: sum.splits)
    thus ?thesis using dm_inv_start_phase[OF s2] by simp
  qed
qed

text \<open>Between two turns the host (or another CPU) may write anything but the heap, the thread
  indices and the deadlines.\<close>

inductive sched :: "u32 \<times> dm_state \<Rightarrow> u32 \<times> dm_state \<Rightarrow> bool" where
  turn: "\<lbrakk>turn_safe s; main_iter (b, s) = Inr (b', s')\<rbrakk> \<Longrightarrow> sched (b, s) (b', s')"
| host: "fr 8 s s' \<Longrightarrow> sched (b, s) (b, s')"

inductive dm_reach :: "u32 \<times> dm_state \<Rightarrow> bool" where
  init: "dm_reach (0, dmInit s)"
| step: "\<lbrakk>dm_reach c; sched c c'\<rbrakk> \<Longrightarrow> dm_reach c'"

inductive_cases schedE: "sched (b, s) c"

text \<open>
  C1. In every reachable state of a data master CPU the scheduler heap is a permutation of the
  eight thread areas, ordered by deadline, and each thread area carries its own index; the
  reachable states are those of dmInit, of turns of the main loop on schedules whose nodes lie
  outside the control area, and of host writes between turns.
\<close>

theorem dm_reach_inv: "dm_reach c \<Longrightarrow> dm_inv (snd c)"
proof (induction rule: dm_reach.induct)
  case (init s)
  show ?case by (simp add: dm_inv_dmInit)
next
  case (step c c')
  from step(2) step(3) show ?case
    by cases (auto intro: dm_inv_main_iter dm_inv_fr8)
qed

definition dm_blank :: dm_state where
  "dm_blank = \<lparr>mem = (\<lambda>_. 0), startshared = 0x1000, int_base_adr = 0x10000000, ram_size = 0x20000,
     clk = (\<lambda>n. 1000 * of_nat n), ticks = 0, pq_out = [], pq_cnt = 0\<rparr>"

lemma dm_reach_inv_witness:
  "dm_inv (wr32 (start_adr (dmInit dm_blank)) 1 (dmInit dm_blank))"
proof -
  let ?s = "dmInit dm_blank"
  have "fr 8 ?s (wr32 (start_adr ?s) 1 ?s)"
    by (intro fr_intro) (simp add: adr_defs dm_layout fr_simps)
  hence "dm_reach (0, wr32 (start_adr ?s) 1 ?s)"
    by (intro dm_reach.step[OF dm_reach.init sched.host])
  from dm_reach_inv[OF this] show ?thesis by simp
qed

end
