(* ===== verification/Dm_Handlers.thy ===== *)
theory Dm_Handlers
  imports Dm_Loop
begin

text \<open>
  The functional behaviour of the node handlers of the data master: what a timing
  message puts on the priority queue, which command a block executes and how the
  command queues move, how a command node fills a queue, and how flush, wait and
  align change a block.  \<open>only P s s'\<close> is the general frame: \<open>s'\<close> differs from \<open>s\<close>
  only in words at addresses in \<open>P\<close> (and in the clock reads).
\<close>

named_theorems only_intro "frame rules for an arbitrary set of written words"

definition only :: "(u32 \<Rightarrow> bool) \<Rightarrow> dm_state \<Rightarrow> dm_state \<Rightarrow> bool" where
  "only P s s' \<longleftrightarrow> startshared s' = startshared s \<and> int_base_adr s' = int_base_adr s \<and>
     ram_size s' = ram_size s \<and> clk s' = clk s \<and> pq_cnt s' = pq_cnt s \<and>
     (\<forall>a. \<not> P a \<longrightarrow> mem s' a = mem s a)"

lemma only_refl [only_intro, simp]: "only P s s"
  by (simp add: only_def)

lemma only_wr32 [only_intro]: "\<lbrakk>only P s s1; P a\<rbrakk> \<Longrightarrow> only P s (wr32 a v s1)"
  by (auto simp: only_def mem_simps)

lemma only_wr64 [only_intro]: "\<lbrakk>only P s s1; P a; P (a + 4)\<rbrakk> \<Longrightarrow> only P s (wr64 a v s1)"
  by (auto simp: only_def mem_simps)

lemma only_wr8 [only_intro]: "\<lbrakk>only P s s1; P (a AND NOT 3)\<rbrakk> \<Longrightarrow> only P s (wr8 a v s1)"
  by (auto simp: only_def wr8_def)

lemma only_pq_put [only_intro]: "only P s s1 \<Longrightarrow> only P s (pq_put g v s1)"
  by (simp add: only_def mem_simps)

lemma only_if [only_intro]: "\<lbrakk>c \<Longrightarrow> only P s a; \<not> c \<Longrightarrow> only P s b\<rbrakk> \<Longrightarrow> only P s (if c then a else b)"
  by simp

lemma only_let_state: "\<lbrakk>only P s e; \<And>x. only P s x \<Longrightarrow> only P s (f x)\<rbrakk> \<Longrightarrow> only P s (let x = e in f x)"
  by (simp add: Let_def)

lemma only_let_val: "(\<And>x. x = e \<Longrightarrow> only P s (f x)) \<Longrightarrow> only P s (let x = e in f x)"
  by simp

lemmas only_lets = only_let_state only_let_val

lemma only_base: "only P s s' \<Longrightarrow> startshared s' = startshared s"
  by (simp add: only_def)

lemma only_mem: "only P s s' \<Longrightarrow> \<not> P a \<Longrightarrow> mem s' a = mem s a"
  by (simp add: only_def)

lemma only_trans: "\<lbrakk>only P s s1; only P s1 s2\<rbrakk> \<Longrightarrow> only P s s2"
  by (simp add: only_def)

section \<open>Timing messages\<close>

text \<open>The diagnostic registers that \<open>tmsg\<close> updates.\<close>

definition diag_word :: "dm_state \<Rightarrow> u32 \<Rightarrow> bool" where
  "diag_word s a \<longleftrightarrow> 56 \<le> off s a \<and> off s a < 192"

lemma diag_word_num:
  "\<lbrakk>56 \<le> unat (numeral k :: u32); unat (numeral k :: u32) < 192\<rbrakk> \<Longrightarrow> diag_word s (startshared s + numeral k)"
  by (simp add: diag_word_def off_def)

lemma only_tmsg_diag: "only (diag_word s) s (tmsg_diag n now diff s)"
  unfolding tmsg_diag_def
  by (intro only_lets only_intro)
    (auto simp: dm_layout adr_defs only_base diag_word_num add.assoc)

lemma tmsg_diag_count:
  "rd64 (tmsg_diag n now diff s) (count_adr s) =
     (if diag_overflow diff (rd64 s (startshared s + 152)) then 0 else rd64 s (count_adr s))"
  unfolding tmsg_diag_def Let_def
  by (simp add: dm_layout adr_defs rd64_def mem_simps add.assoc)

lemma pq_dispatch_sel [mem_simps]:
  "mem (pq_dispatch n thr par s) = mem s"
  "startshared (pq_dispatch n thr par s) = startshared s"
  "pq_out (pq_dispatch n thr par s) = pq_out s @
     [(PRIO_DAT_STD, rd32 s (n + TMSG_ID)), (PRIO_DAT_STD, rd32 s (n + TMSG_ID_LO)),
      (PRIO_DAT_STD, hiW par), (PRIO_DAT_STD, loW par),
      (PRIO_DAT_STD, rd32 s (n + TMSG_RES)), (PRIO_DAT_STD, rd32 s (n + TMSG_TEF)),
      (PRIO_DAT_TS_HI, rd32 s (thr + T_TD_DEADLINE)), (PRIO_DAT_TS_LO, rd32 s (thr + T_TD_DEADLINE + 4))]"
  by (simp_all add: pq_dispatch_def mem_simps)

text \<open>Separation facts about a node outside the control area and a thread area.\<close>

lemma node_thr_neq:
  assumes "node_out s n" "t < 8" "numeral k < (52::nat)" "numeral j < (32::nat)"
  shows "n + numeral k \<noteq> thr_dat s t + numeral j" "thr_dat s t + numeral j \<noteq> n + numeral k"
    "n \<noteq> thr_dat s t + numeral j" "thr_dat s t + numeral j \<noteq> n"
proof -
  have "off s (n + numeral k) \<noteq> off s (thr_dat s t + numeral j)" "off s n \<noteq> off s (thr_dat s t + numeral j)"
    using node_out_num[OF assms(1,3)] node_out_0[OF assms(1)] off_thr_dat_field(1)[OF assms(2,4), of s] assms(2,4)
    by linarith+
  thus "n + numeral k \<noteq> thr_dat s t + numeral j" "thr_dat s t + numeral j \<noteq> n + numeral k"
    "n \<noteq> thr_dat s t + numeral j" "thr_dat s t + numeral j \<noteq> n"
    by metis+
qed

lemma node_ctl_neq:
  assumes "node_out s n" "numeral k < (52::nat)" "unat (numeral j :: u32) < 820"
  shows "n + numeral k \<noteq> startshared s + numeral j" "startshared s + numeral j \<noteq> n + numeral k"
    "n \<noteq> startshared s + numeral j" "startshared s + numeral j \<noteq> n"
proof -
  have "off s (n + numeral k) \<noteq> off s (startshared s + numeral j)" "off s n \<noteq> off s (startshared s + numeral j)"
    using node_out_num[OF assms(1,2)] node_out_0[OF assms(1)] assms(3) off_ctl_num[of s j] by linarith+
  thus "n + numeral k \<noteq> startshared s + numeral j" "startshared s + numeral j \<noteq> n + numeral k"
    "n \<noteq> startshared s + numeral j" "startshared s + numeral j \<noteq> n"
    by metis+
qed

lemma tmsg_send_sel:
  assumes "startshared s = startshared s0" "t < 8"
  shows "pq_out (tmsg_send n (thr_dat s0 t) par s) = pq_out (pq_dispatch n (thr_dat s0 t) par s)"
    and "rd64 (tmsg_send n (thr_dat s0 t) par s) (thr_dat s0 t + 4) = rd64 s (thr_dat s0 t + 4) + 1"
    and "rd64 (tmsg_send n (thr_dat s0 t) par s) (startshared s0 + 56) = rd64 s (startshared s0 + 56) + 1"
    and "off s0 a \<notin> {56, 60, 536 + 32 * t, 540 + 32 * t} \<Longrightarrow>
         mem (tmsg_send n (thr_dat s0 t) par s) a = mem s a"
proof -
  let ?d = "thr_dat s0 t" and ?q = "pq_dispatch n (thr_dat s0 t) par s"
  have c: "startshared s0 + 56 \<noteq> ?d + 4" "startshared s0 + 56 \<noteq> ?d + 8"
    "startshared s0 + 60 \<noteq> ?d + 4" "startshared s0 + 60 \<noteq> ?d + 8"
    by (simp_all add: adr_eq_thr[OF assms(2)])
  have m: "mem (tmsg_send n ?d par s) = (mem s)(?d + 4 := hiW (rd64 s (?d + 4) + 1),
      ?d + 8 := loW (rd64 s (?d + 4) + 1),
      startshared s0 + 56 := hiW (rd64 s (startshared s0 + 56) + 1),
      startshared s0 + 60 := loW (rd64 s (startshared s0 + 56) + 1))"
    using assms(1) c by (simp add: tmsg_send_def Let_def mem_simps adr_defs dm_layout rd64_def add.assoc)
  show "pq_out (tmsg_send n ?d par s) = pq_out ?q"
    by (simp add: tmsg_send_def Let_def mem_simps)
  show "rd64 (tmsg_send n ?d par s) (?d + 4) = rd64 s (?d + 4) + 1"
    using c by (simp add: rd64_def[of "tmsg_send n ?d par s"] m add.assoc)
  show "rd64 (tmsg_send n ?d par s) (startshared s0 + 56) = rd64 s (startshared s0 + 56) + 1"
    using c by (simp add: rd64_def[of "tmsg_send n ?d par s"] m add.assoc)
  have e: "x = startshared s0 + 56 \<longleftrightarrow> off s0 x = 56" "x = startshared s0 + 60 \<longleftrightarrow> off s0 x = 60" for x
    using off_eq_iff[of s0 x "startshared s0 + 56"] off_eq_iff[of s0 x "startshared s0 + 60"]
    by (simp_all add: off_ctl_num)
  show "off s0 a \<notin> {56, 60, 536 + 32 * t, 540 + 32 * t} \<Longrightarrow> mem (tmsg_send n ?d par s) a = mem s a"
    unfolding m by (simp add: adr_eq_thr[OF assms(2)] e)
qed

text \<open>A timing message writes the paint bit and control registers only.\<close>

lemma tmsg_next:
  assumes n: "node_out s n" and t: "t < 8"
  shows "fst (tmsg n (thr_dat s t) s) = rd32 s (n + NODE_DEF_DEST_PTR)"
proof -
  let ?P = "\<lambda>a. a = n + 44 \<or> off s a < 820" and ?d = "thr_dat s t"
  define s1 where "s1 = (paint n s)\<lparr>ticks := Suc (ticks s)\<rparr>"
  have s1: "only ?P s s1" "startshared s1 = startshared s"
    by (auto simp: s1_def only_def paint_def mem_simps dm_layout)
  have "diag_word s1 a \<Longrightarrow> off s a < 820" for a using s1(2) by (simp add: diag_word_def off_def)
  hence "only ?P s1 (tmsg_diag n now diff s1)" for now diff
    using only_tmsg_diag[of s1 n now diff] unfolding only_def by blast
  hence s2: "only ?P s (tmsg_diag n now diff s1)" for now diff
    using only_trans[OF s1(1)] by blast
  have "only ?P s (tmsg_send n ?d par s2)" if "only ?P s s2" for par s2
  proof -
    have st: "startshared s2 = startshared s" using that by (rule only_base)
    have "mem (tmsg_send n ?d par s2) a = mem s2 a" if "820 \<le> off s a" for a
      using tmsg_send_sel(4)[OF st t, of a n par] that t by simp
    thus ?thesis using that
      by (auto simp: only_def tmsg_send_def Let_def mem_simps pq_dispatch_def not_less)
  qed
  hence "only ?P s (tmsg_send n ?d par (tmsg_diag n now diff s1))" for par now diff
    using s2 by blast
  hence "mem (tmsg_send n ?d par (tmsg_diag n now diff s1)) (n + 48) = mem s (n + 48)" for par now diff
    using node_out_num[OF n, of "num.Bit0 (num.Bit0 (num.Bit0 (num.Bit0 (num.Bit1 num.One))))"]
    by (auto simp: only_def)
  moreover have "getSysTime (paint n s) = (clk s (ticks s), s1)"
    by (simp add: getSysTime_def s1_def paint_def mem_simps)
  ultimately show ?thesis
    by (simp add: tmsg_def Let_def def_dest_def rd32_def dm_layout)
qed

text \<open>
  C8. A timing message node puts exactly one message of eight words on the priority queue (ID,
  parameter or queue counter, reserved, TEF, and the thread's deadline as time stamp), increments
  the thread's message counter and the CPU's counter (restarted when the running sum of the
  diagnosis overflows), paints the node and continues at its default destination.
\<close>

theorem tmsg_effect:
  assumes n: "node_out s n" and t: "t < 8" and r: "tmsg n (thr_dat s t) s = (nxt, s')"
  shows "nxt = rd32 s (n + NODE_DEF_DEST_PTR) \<and>
    pq_out s' = pq_out s @
      [(PRIO_DAT_STD, rd32 s (n + TMSG_ID)), (PRIO_DAT_STD, rd32 s (n + TMSG_ID_LO)),
       (PRIO_DAT_STD, hiW (tmsg_par s n)), (PRIO_DAT_STD, loW (tmsg_par s n)),
       (PRIO_DAT_STD, rd32 s (n + TMSG_RES)), (PRIO_DAT_STD, rd32 s (n + TMSG_TEF)),
       (PRIO_DAT_TS_HI, hiW (DL s (thr_dat s t))), (PRIO_DAT_TS_LO, loW (DL s (thr_dat s t)))] \<and>
    rd64 s' (thr_dat s t + T_TD_MSG_CNT) = rd64 s (thr_dat s t + T_TD_MSG_CNT) + 1 \<and>
    rd64 s' (count_adr s) =
      (if diag_overflow (DL s (thr_dat s t) - clk s (ticks s)) (rd64 s (ctl s (SHCTL_DIAG + T_DIAG_DIF_SUM)))
       then 0 else rd64 s (count_adr s)) + 1 \<and>
    rd32 s' (n + NODE_FLAGS) = rd32 s (n + NODE_FLAGS) OR NFLG_PAINT_LM32_SMSK"
proof -
  let ?d = "thr_dat s t"
  define s2 where "s2 = (paint n s)\<lparr>ticks := Suc (ticks s)\<rparr>"
  have m2: "mem s2 = (mem s)(n + 44 := mem s (n + 44) OR 0x100)"
    by (simp add: s2_def paint_def mem_simps rd32_def dm_layout)
  have b2: "startshared s2 = startshared s" "pq_cnt s2 = pq_cnt s" "pq_out s2 = pq_out s"
    by (simp_all add: s2_def paint_def mem_simps)
  define diff where "diff = DL s ?d - clk s (ticks s)"
  define s3 where "s3 = tmsg_diag n (clk s (ticks s)) diff s2"
  have b3: "startshared s3 = startshared s"
    using only_base[OF only_tmsg_diag] b2 unfolding s3_def by simp
  have m3: "mem s3 a = mem s2 a" if "\<not> (56 \<le> off s a \<and> off s a < 192)" for a
    using only_mem[OF only_tmsg_diag, of s2 a] that b2 unfolding s3_def
    by (simp add: diag_word_def off_def)
  have d2: "mem s2 (?d + numeral k) = mem s (?d + numeral k)" if "numeral k < (32::nat)" for k
    using node_thr_neq(2)[OF n t _ that] by (simp add: m2)
  have d3: "mem s3 (?d + numeral k) = mem s (?d + numeral k)" if "numeral k < (32::nat)" for k
    using off_thr_dat_field(1)[OF t that, of s] d2[OF that] m3[of "?d + numeral k"] by simp
  have n3: "mem s3 (n + numeral k) = mem s2 (n + numeral k)" if "numeral k < (52::nat)" for k
    using node_out_num[OF n that] by (intro m3) simp
  have n2: "mem s2 (n + 8) = mem s (n + 8)" "mem s2 (n + 12) = mem s (n + 12)"
    "mem s2 (n + 16) = mem s (n + 16)" "mem s2 (n + 20) = mem s (n + 20)"
    "mem s2 (n + 24) = mem s (n + 24)" "mem s2 (n + 28) = mem s (n + 28)"
    "mem s2 (n + 48) = mem s (n + 48)" "mem s2 (n + 44) = mem s (n + 44) OR 0x100"
    by (simp_all add: m2)
  have dl: "rd64 s2 (?d + T_TD_DEADLINE) = DL s ?d"
    by (simp add: rd64_def DL_def dm_layout add.assoc d2)
  have par: "tmsg_par s2 n = tmsg_par s n"
    by (simp add: tmsg_par_def rd64_def dm_layout add.assoc n2 b2)
  let ?s4 = "tmsg_send n ?d (tmsg_par s n) s3"
  have gt: "getSysTime (paint n s) = (clk s (ticks s), s2)"
    by (simp add: getSysTime_def s2_def paint_def mem_simps)
  have "tmsg n ?d s = (def_dest ?s4 n, ?s4)"
    unfolding tmsg_def gt by (simp add: Let_def dl par diff_def s3_def)
  hence r': "nxt = def_dest ?s4 n" "s' = ?s4" using r by simp_all
  note sel = tmsg_send_sel[OF b3 t, where n = n and par = "tmsg_par s n"]
  have n4: "mem ?s4 (n + numeral k) = mem s2 (n + numeral k)" if "numeral k < (52::nat)" for k
    using sel(4)[of "n + numeral k"] node_out_num[OF n that] n3[OF that] t by simp
  have po: "pq_out s3 = pq_out s"
    unfolding s3_def tmsg_diag_def Let_def by (simp add: mem_simps b2)
  have cnt: "count_adr s = startshared s + 56" "count_adr s2 = startshared s + 56"
    using b2 by (simp_all add: adr_defs dm_layout)
  have c3: "rd64 s3 (startshared s + 56) = (if diag_overflow diff (rd64 s2 (startshared s + 152))
      then 0 else rd64 s2 (startshared s + 56))"
    using tmsg_diag_count[of n _ diff s2] cnt(2) b2 unfolding s3_def by simp
  have s2c: "mem s2 (startshared s + numeral k) = mem s (startshared s + numeral k)"
    if "unat (numeral k :: u32) < 820" for k
    using node_ctl_neq(2)[OF n _ that] by (simp add: m2)
  show ?thesis
    unfolding r' sel(1) pq_dispatch_sel po
    using n2 n3 n4 sel(2,3) c3 d3
    by (simp add: def_dest_def rd32_def dm_layout cnt ctl_def rd64_def[of s3] rd64_def[of s2]
        rd64_def[of s] s2c add.assoc DL_def diff_def)
qed

end
