(* ===== verification/Dm_Scheduling.thy ===== *)
theory Dm_Scheduling
  imports Dm_Handlers
begin

text \<open>
  What the scheduler promises to the threads of a data master CPU: the most
  urgent thread is the one dispatched, an abort puts the deadlines of the aborted
  threads to infinity and leaves the others alone, a start request loads the
  thread from its staging area and is consumed.
\<close>

section \<open>Reading through single writes\<close>

lemma DL_wr_other:
  assumes "off s a \<noteq> off s (x + 16)" "off s a \<noteq> off s (x + 20)"
  shows "DL (wr32 a v s) x = DL s x"
  using assms by (auto simp: DL_def rd64_def mem_simps dm_layout off_eq_iff add.assoc)

lemma rd_fr8:
  assumes "fr 8 s s'" "i < 8"
  shows "DL s' (thr_dat s i) = DL s (thr_dat s i)"
  using fr_keeps_sched[OF assms(1)] assms(2) by (simp add: keeps_sched_def)

lemma same_but_heap_mem:
  assumes "same_but_heap s s'" "32 \<le> off s a"
  shows "mem s' a = mem s a"
proof -
  have "a \<notin> (\<lambda>i. hp_adr s (of_nat i)) ` {0..<8}"
  proof
    assume "a \<in> (\<lambda>i. hp_adr s (of_nat i)) ` {0..<8}"
    then obtain i where "i < 8" "a = hp_adr s (of_nat i)" by auto
    thus False using assms(2) by (simp add: off_hp_adr)
  qed
  thus ?thesis using assms(1) by (simp add: same_but_heap_def dm_layout)
qed

section \<open>Abort\<close>

lemma abort_mask:
  "(NOT (drop_bit i (ucast (a :: u32))) AND 1) - 1 = (if bit a i then - 1 else (0 :: u64))"
proof -
  have "bit (ucast a :: u64) i = bit a i"
    by (auto simp: bit_simps dest: bit_imp_le_length)
  hence "odd (drop_bit i (ucast a :: u64)) = bit a i"
    by (simp flip: bit_iff_odd_drop_bit)
  thus ?thesis by (simp add: and_one_eq mod_2_eq_odd)
qed

lemma mem_abort_deadline:
  assumes "i < 8"
  shows "mem (abort_deadline i s) a =
    (if bit (rd32 s (abort_adr s)) i \<and> (off s a = 548 + 32 * i \<or> off s a = 552 + 32 * i)
     then - 1 else mem s a)"
proof -
  let ?d = "thr_dat s i + 16"
  have "mem (abort_deadline i s) =
      (mem s)(?d := hiW (rd64 s ?d OR (if bit (rd32 s (abort_adr s)) i then - 1 else 0)),
              ?d + 4 := loW (rd64 s ?d OR (if bit (rd32 s (abort_adr s)) i then - 1 else 0)))"
    unfolding abort_deadline_def Let_def dm_layout abort_mask mem_simps ..
  thus ?thesis
    using assms by (cases "bit (rd32 s (abort_adr s)) i") (simp_all add: adr_eq rd64_def add.assoc)
qed

lemma startshared_abort_deadline [simp]:
  "startshared (abort_deadline i s) = startshared s"
  by (simp add: abort_deadline_def Let_def mem_simps)

text \<open>The loop over all threads: deadline words of aborted threads are set, the rest is kept.\<close>

lemma mem_abort_fold:
  "n \<le> 8 \<Longrightarrow> startshared (fold abort_deadline [0..<n] s) = startshared s \<and>
     mem (fold abort_deadline [0..<n] s) a =
       (if \<exists>i < n. bit (rd32 s (abort_adr s)) i \<and> (off s a = 548 + 32 * i \<or> off s a = 552 + 32 * i)
        then - 1 else mem s a)"
proof (induction n arbitrary: a)
  case (Suc n)
  let ?f = "fold abort_deadline [0..<n] s"
  have st: "startshared ?f = startshared s" using Suc by simp
  have o: "off ?f x = off s x" for x using st by (simp add: off_def)
  have ab: "rd32 ?f (abort_adr ?f) = rd32 s (abort_adr s)"
    using Suc.IH[of "startshared s + 332"] Suc.prems st
    by (simp add: abort_adr_def ctl_def dm_layout rd32_def)
  have "mem (abort_deadline n ?f) a =
      (if bit (rd32 s (abort_adr s)) n \<and> (off s a = 548 + 32 * n \<or> off s a = 552 + 32 * n)
       then - 1 else mem ?f a)"
    using mem_abort_deadline[of n ?f a] Suc.prems ab o by simp
  thus ?case using Suc.IH[of a] Suc.prems st by (auto simp: less_Suc_eq)
qed simp

text \<open>
  C3. After the abort phase with abort bits \<open>a\<close>, exactly the threads whose bit is set have their
  deadline moved to infinity, their running bits are cleared, the request register is zero and
  the heap is in order again.
\<close>

theorem abort_phase_effect:
  assumes "dm_inv s" "rd32 s (abort_adr s) = a" "a \<noteq> 0"
  shows "(\<forall>i \<in> {0..<8}. DL (abort_phase s) (thr_dat s i)
            = (if bit a i then - 1 else DL s (thr_dat s i))) \<and>
    rd32 (abort_phase s) (running_adr s) = rd32 s (running_adr s) AND NOT a \<and>
    rd32 (abort_phase s) (abort_adr s) = 0 \<and>
    dm_inv (abort_phase s)"
proof (intro conjI ballI)
  let ?s1 = "wr32 (running_adr s) (rd32 s (running_adr s) AND NOT (rd32 s (abort_adr s))) s"
  let ?f = "fold abort_deadline [0..<THR_QTY] ?s1"
  let ?h = "heapify ?f"
  have ab: "abort_phase s = wr32 (abort_adr ?h) 0 ?h"
    using assms by (simp add: abort_phase_def Let_def)
  have run: "running_adr s = startshared s + 336" and abt: "abort_adr s = startshared s + 332"
    by (simp_all add: adr_defs dm_layout)
  have ne: "startshared s + 332 \<noteq> startshared s + 336" by simp
  have a1: "rd32 ?s1 (abort_adr ?s1) = a"
    using assms(2) unfolding abt run by (simp add: abort_adr_def ctl_def mem_simps dm_layout rd32_def)
  have st: "startshared ?f = startshared s" "startshared ?s1 = startshared s"
    using mem_abort_fold[of 8 ?s1] by (simp_all add: mem_simps dm_layout)
  have pre1: "dm_pre ?s1"
    using dm_inv_wr_ctl[OF assms(1), of 336] unfolding run by (simp add: dm_inv_pre)
  have pre: "dm_pre ?f"
    using pre1 by (simp add: dm_pre_fold_abort dm_layout)
  note sep = dm_pre_heap_sep[OF pre]
  have sth: "startshared ?h = startshared s"
    using same_but_heap_sel(1)[OF heapify_refines(2)[OF sep]] st by simp
  have o: "off ?f x = off s x" "off ?s1 x = off s x" for x using st by (simp_all add: off_def)
  have mem_f: "mem ?f x = (if \<exists>i < 8. bit a i \<and> (off s x = 548 + 32 * i \<or> off s x = 552 + 32 * i)
      then - 1 else mem ?s1 x)" for x
    using mem_abort_fold[of 8 ?s1 x] a1 o by (simp add: dm_layout)
  have mem_h: "mem (abort_phase s) x = (if off s x = 332 then 0 else mem ?f x)" if "32 \<le> off s x" for x
  proof -
    have "mem ?h x = mem ?f x"
      using same_but_heap_mem[OF heapify_refines(2)[OF sep]] that o by simp
    moreover have "x = startshared s + 332 \<longleftrightarrow> off s x = 332"
      using off_eq_iff[of s x "startshared s + 332"] by simp
    moreover have "abort_adr ?h = startshared s + 332"
      using sth by (simp add: abort_adr_def ctl_def dm_layout)
    ultimately show ?thesis by (simp only: ab mem_wr32 fun_upd_apply)
  qed
  show "dm_inv (abort_phase s)" by (rule dm_inv_abort_phase[OF assms(1)])
  show "rd32 (abort_phase s) (abort_adr s) = 0"
    using mem_h[of "startshared s + 332"] by (simp add: rd32_def abt)
  show "rd32 (abort_phase s) (running_adr s) = rd32 s (running_adr s) AND NOT a"
    using mem_h[of "startshared s + 336"] mem_f[of "startshared s + 336"] assms(2)
    by (simp add: rd32_def run mem_simps)
  fix i :: nat assume "i \<in> {0..<8}"
  hence i: "i < 8" by simp
  have m1: "mem ?s1 x = mem s x" if "off s x \<noteq> 336" for x
    using that by (auto simp: mem_simps run)
  have w: "mem (abort_phase s) x = (if bit a i then - 1 else mem s x)"
    if "off s x = 548 + 32 * i \<or> off s x = 552 + 32 * i" for x
  proof -
    have "mem (abort_phase s) x = mem ?f x" using that mem_h[of x] by auto
    moreover have "(\<exists>j < 8. bit a j \<and> (off s x = 548 + 32 * j \<or> off s x = 552 + 32 * j)) = bit a i"
      using that i by (auto; presburger)
    moreover have "mem ?s1 x = mem s x" using that by (intro m1) auto
    ultimately show ?thesis using mem_f[of x] by simp
  qed
  show "DL (abort_phase s) (thr_dat s i) = (if bit a i then - 1 else DL s (thr_dat s i))"
    using w[of "thr_dat s i + 16"] w[of "thr_dat s i + 20"] i
    by (simp add: DL_def rd64_def dm_layout add.assoc)
qed

definition dm_abort_example :: dm_state where
  "dm_abort_example = wr32 (abort_adr (dmInit dm_blank)) 5 (dmInit dm_blank)"

lemma startshared_dmInit [simp]: "startshared (dmInit s) = startshared s"
  using init_fold[of 8 s] fr_base[OF fr_dm_init_diag, of "fold dm_init_thread [0..<8] s"]
  by (simp add: dmInit_def dm_layout)

lemma dm_inv_abort_example: "dm_inv dm_abort_example"
  unfolding dm_abort_example_def
  by (rule dm_inv_fr8[OF dm_inv_dmInit[of dm_blank]]) (intro fr_intro, simp add: adr_defs dm_layout fr_simps del: startshared_dmInit)

lemma abort_phase_effect_witness:
  "dm_inv (abort_phase dm_abort_example) \<and>
   rd32 (abort_phase dm_abort_example) (abort_adr dm_abort_example) = 0"
proof -
  have "rd32 dm_abort_example (abort_adr dm_abort_example) = 5"
    by (simp add: dm_abort_example_def adr_defs mem_simps)
  thus ?thesis using abort_phase_effect[OF dm_inv_abort_example, of 5] by simp
qed

section \<open>Earliest deadline first\<close>

text \<open>
  C2. A turn of the main loop serves, after the abort phase, the thread with the earliest
  deadline of all eight: if that deadline is within the thread's preparation time of now, its
  node is dispatched and the backlog counter grows; otherwise nothing is dispatched, the backlog
  is reset and start requests are handled.
\<close>

theorem edf_turn:
  assumes "dm_inv s" "main_iter (b, s) = Inr (b', s')"
  shows "\<exists>t < 8. (let s1 = abort_phase s; s2 = snd (getSysTime s1) in
    hp s1 0 = thr_dat s1 t \<and>
    (\<forall>i < 8. DL s1 (thr_dat s1 t) \<le> DL s1 (thr_dat s1 i)) \<and>
    (if DL s1 (thr_dat s1 t) \<le> clk s1 (ticks s1) + rd64 s1 (thr_sta s1 t + T_TS_PREPTIME)
     then dispatch t s2 = Inr s' \<and> b' = b + 1
     else start_phase b s2 = Inr s' \<and> b' = 0))"
proof -
  let ?s1 = "abort_phase s"
  obtain t where t: "t < 8" "hp ?s1 0 = thr_dat ?s1 t" "thr_idx ?s1 = t"
    "\<And>i. i < 8 \<Longrightarrow> DL ?s1 (thr_dat ?s1 t) \<le> DL ?s1 (thr_dat ?s1 i)"
    using dm_inv_root[OF dm_inv_abort_phase[OF assms(1)]] by blast
  have rd: "rd64 (x\<lparr>ticks := k\<rparr>) a = rd64 x a" "DL (x\<lparr>ticks := k\<rparr>) a = DL x a"
    "hp (x\<lparr>ticks := k\<rparr>) j = hp x j" "thr_sta (x\<lparr>ticks := k\<rparr>) i = thr_sta x i"
    for x k a j i
    by (simp_all add: rd64_def DL_def hp_def rd32_def hp_adr_def thr_sta_def)
  have due: "node_due ?s1 = (DL ?s1 (thr_dat ?s1 t) \<le> clk ?s1 (ticks ?s1)
      + rd64 ?s1 (thr_sta ?s1 t + T_TS_PREPTIME), snd (getSysTime ?s1))"
    using t(2,3) by (simp add: node_due_def getSysTime_def rd)
  show ?thesis
    using assms(2) t due
    by (intro exI[of _ t])
      (auto simp: main_iter_def Let_def split: if_splits sum.splits)
qed

lemma abort_phase_idle: "rd32 s (abort_adr s) = 0 \<Longrightarrow> abort_phase s = s"
  by (simp add: abort_phase_def)

section \<open>Starting threads\<close>

text \<open>The time a start request sets: the staged start time, or now plus twice the preparation
  time when none is staged.\<close>

definition start_time :: "nat \<Rightarrow> dm_state \<Rightarrow> u64" where
  "start_time i s =
     (if rd64 s (thr_sta s i + T_TS_STARTTIME) = 0
      then clk s (ticks s) + push_bit 1 (rd64 s (thr_sta s i + T_TS_PREPTIME))
      else rd64 s (thr_sta s i + T_TS_STARTTIME))"

lemma start_fields_mem:
  assumes "i < 8"
  shows "mem (start_fields i s) a =
    (if off s a = 544 + 32 * i then rd32 s (thr_sta s i + T_TS_NODE_PTR)
     else if off s a = 548 + 32 * i \<or> off s a = 556 + 32 * i then hiW (start_time i s)
     else if off s a = 552 + 32 * i \<or> off s a = 560 + 32 * i then loW (start_time i s)
     else mem s a)"
proof -
  let ?st = "thr_sta s i" and ?d = "thr_dat s i"
  define s1 where "s1 = (if rd64 s (?st + T_TS_STARTTIME) = 0
       then (case getSysTime s of (now, s') \<Rightarrow> wr64 (?d + T_TD_CURRTIME)
               (now + push_bit 1 (rd64 s' (?st + T_TS_PREPTIME))) s')
       else wr64 (?d + T_TD_CURRTIME) (rd64 s (?st + T_TS_STARTTIME)) s)"
  have m1: "mem s1 = (mem s)(?d + 24 := hiW (start_time i s), ?d + 24 + 4 := loW (start_time i s))"
    unfolding s1_def by (simp add: getSysTime_def start_time_def mem_simps rd64_def dm_layout)
  have cur: "rd32 s1 (?st + T_TS_NODE_PTR) = rd32 s (?st + T_TS_NODE_PTR)"
    unfolding rd32_def m1 using assms by (simp add: adr_eq dm_layout add.assoc)
  let ?s2 = "wr32 (?d + T_TD_NODE_PTR) (rd32 s (?st + T_TS_NODE_PTR)) s1"
  have ct: "rd64 ?s2 (?d + T_TD_CURRTIME) = start_time i s"
    unfolding rd64_def mem_wr32 m1 dm_layout by (simp add: add.assoc)
  have "start_fields i s = wr64 (?d + T_TD_DEADLINE) (start_time i s) ?s2"
    unfolding start_fields_def Let_def s1_def[symmetric] cur ct ..
  hence "mem (start_fields i s) = (mem s)
     (?d + 24 := hiW (start_time i s), ?d + 28 := loW (start_time i s),
      ?d + 12 := rd32 s (?st + T_TS_NODE_PTR),
      ?d + 16 := hiW (start_time i s), ?d + 20 := loW (start_time i s))"
    by (simp only: mem_simps m1 dm_layout) (simp add: add.assoc)
  thus ?thesis using assms by (simp add: adr_eq)
qed

lemma startshared_start_fields [simp]: "startshared (start_fields i s) = startshared s"
  by (simp add: start_fields_def Let_def mem_simps getSysTime_def)

definition is_event :: "node_type \<Rightarrow> bool" where
  "is_event ty \<longleftrightarrow> ty \<in> {NODE_TYPE_TMSG, NODE_TYPE_CNOOP, NODE_TYPE_CFLOW, NODE_TYPE_CSWITCH,
     NODE_TYPE_CFLUSH, NODE_TYPE_CWAIT, NODE_TYPE_ORIGIN, NODE_TYPE_STARTTHREAD}"

definition is_block :: "node_type \<Rightarrow> bool" where
  "is_block ty \<longleftrightarrow> ty \<in> {NODE_TYPE_BLOCK_FIXED, NODE_TYPE_BLOCK_ALIGN}"

lemma deadlineFuncs_event: "is_event ty \<Longrightarrow> deadlineFuncs ty n t s = Inr (dlEvt n t s)"
  by (cases ty) (simp_all add: is_event_def deadlineFuncs_def)

lemma deadlineFuncs_block: "is_block ty \<Longrightarrow> deadlineFuncs ty n t s = Inr (dlBlock n t s)"
  by (cases ty) (simp_all add: is_block_def deadlineFuncs_def)

lemma start_commit_mem:
  assumes "i < 8"
  shows "mem (start_commit i dl s) a =
    (if off s a = 536 + 32 * i then 0
     else if off s a = 324 then rd32 s (start_adr s) AND NOT (bitmask i)
     else if off s a = 336 then rd32 s (running_adr s) OR (rd32 s (start_adr s) AND bitmask i)
     else if off s a = 548 + 32 * i then hiW dl
     else if off s a = 552 + 32 * i then loW dl
     else mem s a)"
proof -
  let ?d = "thr_dat s i"
  have c: "x = startshared s + 324 \<longleftrightarrow> off s x = 324" "x = startshared s + 336 \<longleftrightarrow> off s x = 336"
    for x using off_eq_iff[of s x "startshared s + 324"] off_eq_iff[of s x "startshared s + 336"]
    by simp_all
  have o: "off s (startshared s + 324) = 324" "off s (startshared s + 336) = 336" by simp_all
  have k: "startshared s + 324 \<noteq> ?d + 16" "startshared s + 324 \<noteq> ?d + 20"
    "startshared s + 336 \<noteq> ?d + 16" "startshared s + 336 \<noteq> ?d + 20"
    by (simp_all add: adr_eq_thr[OF assms])
  have "mem (start_commit i dl s) = (mem s)(?d + 16 := hiW dl, ?d + 20 := loW dl,
      startshared s + 336 := rd32 s (running_adr s) OR (rd32 s (start_adr s) AND bitmask i),
      startshared s + 324 := rd32 s (start_adr s) AND NOT (bitmask i), ?d + 4 := 0)"
    unfolding start_commit_def Let_def adr_defs dm_layout
    using k by (simp add: mem_simps rd32_def add.assoc)
  thus ?thesis using assms c by (simp add: adr_eq)
qed

lemma node_out_off: "node_out s n \<Longrightarrow> off s n \<noteq> k" if "k < 820"
  using that by (auto simp: node_out_def)

lemma node_mem_start_fields:
  assumes "node_out s n" "k < 52" "i < 8"
  shows "mem (start_fields i s) (n + of_nat k) = mem s (n + of_nat k)"
  using node_out_field[OF assms(1,2)] assms(3) by (simp add: start_fields_mem)

lemma getNodeType_cong:
  "mem s' (n + 44) = mem s (n + 44) \<Longrightarrow> getNodeType n s' = getNodeType n s"
  by (simp add: getNodeType_def rd32_def dm_layout)

lemma start_thread_run:
  assumes "i < 8" and c: "rd32 s (thr_sta s i + T_TS_NODE_PTR) = c" and out: "node_out s c"
    and ty: "is_event (getNodeType c s) \<or> is_block (getNodeType c s)"
  shows "\<exists>s'. start_thread i s = Inr s' \<and>
    rd64 s' (thr_dat s i + T_TD_CURRTIME) = start_time i s \<and>
    rd32 s' (thr_dat s i + T_TD_NODE_PTR) = c \<and>
    DL s' (thr_dat s i) = (if is_block (getNodeType c s) then start_time i s
                           else start_time i s + rd64 s (c + EVT_OFFS_TIME)) \<and>
    rd32 s' (running_adr s) = rd32 s (running_adr s) OR (rd32 s (start_adr s) AND bitmask i) \<and>
    rd32 s' (start_adr s) = rd32 s (start_adr s) AND NOT (bitmask i) \<and>
    (\<forall>j < 8. j \<noteq> i \<longrightarrow> DL s' (thr_dat s j) = DL s (thr_dat s j)) \<and> startshared s' = startshared s"
proof -
  let ?s1 = "start_fields i s" and ?d = "thr_dat s i"
  have o1: "off ?s1 x = off s x" for x by (simp add: off_def)
  have d1: "thr_dat ?s1 j = thr_dat s j" for j by (simp add: thr_dat_def)
  have cur: "rd32 ?s1 (?d + 12) = c" "rd64 ?s1 (?d + 24) = start_time i s" "DL ?s1 ?d = start_time i s"
    using assms(1) c by (simp_all add: rd32_def rd64_def DL_def start_fields_mem dm_layout add.assoc)
  have n: "mem ?s1 c = mem s c" "mem ?s1 (c + 4) = mem s (c + 4)" "mem ?s1 (c + 44) = mem s (c + 44)"
    using node_mem_start_fields[OF out _ assms(1), of 0] node_mem_start_fields[OF out _ assms(1), of 4]
      node_mem_start_fields[OF out _ assms(1), of 44] by simp_all
  define dl where "dl = (if is_block (getNodeType c s) then start_time i s
                         else start_time i s + rd64 s (c + EVT_OFFS_TIME))"
  have "deadlineFuncs (getNodeType c ?s1) c ?d ?s1 = Inr (dl, ?s1)"
  proof (cases "is_block (getNodeType c s)")
    case True
    thus ?thesis
      using cur by (simp add: getNodeType_cong[OF n(3)] deadlineFuncs_block dlBlock_def dl_def DL_def)
  next
    case False
    thus ?thesis
      using ty cur n by (simp add: getNodeType_cong[OF n(3)] deadlineFuncs_event dlEvt_def dl_def
          dm_layout rd64_def)
  qed
  hence st: "start_thread i s = Inr (start_commit i dl ?s1)"
    unfolding start_thread_def Let_def d1 dm_layout cur(1) by simp
  have a: "start_adr s = startshared s + 324" "running_adr s = startshared s + 336"
    "start_adr ?s1 = startshared s + 324" "running_adr ?s1 = startshared s + 336"
    by (simp_all add: adr_defs dm_layout)
  have r: "rd32 ?s1 (startshared s + 324) = rd32 s (startshared s + 324)"
    "rd32 ?s1 (startshared s + 336) = rd32 s (startshared s + 336)"
    using assms(1) by (simp_all add: rd32_def start_fields_mem)
  note m = start_commit_mem[OF assms(1), of dl ?s1, unfolded o1 a r] start_fields_mem[OF assms(1)]
  show ?thesis
  proof (intro exI[of _ "start_commit i dl ?s1"] conjI allI impI)
    show "start_thread i s = Inr (start_commit i dl ?s1)" by (rule st)
    show "rd64 (start_commit i dl ?s1) (?d + T_TD_CURRTIME) = start_time i s"
      using assms(1) by (simp add: rd64_def m dm_layout add.assoc)
    show "rd32 (start_commit i dl ?s1) (?d + T_TD_NODE_PTR) = c"
      using assms(1) c by (simp add: rd32_def m dm_layout)
    show "DL (start_commit i dl ?s1) ?d = (if is_block (getNodeType c s) then start_time i s
        else start_time i s + rd64 s (c + EVT_OFFS_TIME))"
      unfolding dl_def[symmetric] using assms(1)
      by (simp add: DL_def rd64_def m dm_layout add.assoc)
    show "rd32 (start_commit i dl ?s1) (running_adr s)
        = rd32 s (running_adr s) OR (rd32 s (start_adr s) AND bitmask i)"
      using assms(1) by (simp add: rd32_def m a)
    show "rd32 (start_commit i dl ?s1) (start_adr s) = rd32 s (start_adr s) AND NOT (bitmask i)"
      using assms(1) by (simp add: rd32_def m a)
    show "startshared (start_commit i dl ?s1) = startshared s" by (simp add: start_commit_def Let_def mem_simps)
    fix j :: nat assume j: "j < 8" "j \<noteq> i"
    have "532 + 32 * j + 16 \<noteq> k + 32 * i \<and> 532 + 32 * j + 20 \<noteq> k + 32 * i"
      if "k \<in> {536, 544, 548, 552, 556, 560}" for k
      using j that by (auto; presburger)
    thus "DL (start_commit i dl ?s1) (thr_dat s j) = DL s (thr_dat s j)"
      using j assms(1) by (simp add: DL_def rd64_def m dm_layout add.assoc)
  qed
qed

text \<open>
  C4. Starting a thread whose staged origin is an event or a block: the current time is the
  staged start time, or now plus twice the preparation time; the cursor is the origin; the first
  deadline is the current time for a block and the current time plus the offset for an event;
  the running bit takes over the start bit, which is cleared; the deadlines of the other threads
  do not change.
\<close>

theorem start_thread_effect:
  assumes "i < 8" and c: "rd32 s (thr_sta s i + T_TS_NODE_PTR) = c" and out: "node_out s c"
    and ty: "is_event (getNodeType c s) \<or> is_block (getNodeType c s)"
  shows "\<exists>s'. start_thread i s = Inr s' \<and>
    rd64 s' (thr_dat s i + T_TD_CURRTIME) = start_time i s \<and>
    rd32 s' (thr_dat s i + T_TD_NODE_PTR) = c \<and>
    DL s' (thr_dat s i) = (if is_block (getNodeType c s) then start_time i s
                           else start_time i s + rd64 s (c + EVT_OFFS_TIME)) \<and>
    rd32 s' (running_adr s) = rd32 s (running_adr s) OR (rd32 s (start_adr s) AND bitmask i) \<and>
    rd32 s' (start_adr s) = rd32 s (start_adr s) AND NOT (bitmask i) \<and>
    (\<forall>j < 8. j \<noteq> i \<longrightarrow> DL s' (thr_dat s j) = DL s (thr_dat s j))"
  using start_thread_run[OF assms] by blast

text \<open>A schedule with one timing message at 0x2000, origin of thread 0.\<close>

definition dm_start_example :: dm_state where
  "dm_start_example = dm_blank\<lparr>mem := (\<lambda>_. 0)(0x1158 := 0x2000, 0x1168 := 250000,
     0x2004 := 500, 0x202c := 2, 0x1144 := 1)\<rparr>"

lemma start_thread_effect_witness:
  "\<exists>s'. start_thread 0 dm_start_example = Inr s' \<and>
     DL s' (thr_dat dm_start_example 0) = 500500 \<and>
     rd32 s' (thr_dat dm_start_example 0 + T_TD_NODE_PTR) = 0x2000"
proof -
  let ?s = dm_start_example
  have c: "rd32 ?s (thr_sta ?s 0 + T_TS_NODE_PTR) = 0x2000"
    by (simp add: dm_start_example_def dm_blank_def thr_sta_def rd32_def dm_layout)
  have out: "node_out ?s 0x2000"
    by (simp add: node_out_def off_def dm_start_example_def dm_blank_def)
  have ty: "getNodeType 0x2000 ?s = NODE_TYPE_TMSG"
    by (simp add: getNodeType_def dm_start_example_def dm_blank_def rd32_def dm_layout
        node_type_of_def node_types_def Let_def)
  have st: "start_time 0 ?s = 500000"
    by (simp add: start_time_def rd64_def thr_sta_def dm_start_example_def dm_blank_def dm_layout
        mk64_def)
  have of: "rd64 ?s 0x2000 = 500"
    by (simp add: rd64_def dm_start_example_def dm_blank_def mk64_def)
  have "is_event (getNodeType 0x2000 ?s) \<or> is_block (getNodeType 0x2000 ?s)"
    by (simp add: ty is_event_def)
  from start_thread_effect[OF _ c out this] show ?thesis
    by (auto simp: ty is_block_def st of dm_layout)
qed

section \<open>Dispatching a node\<close>

lemma deadlineFuncs_state:
  assumes "deadlineFuncs ty n t s = Inr (dl, s')"
  shows "s' = s \<or> s' = status_set SHCTL_STATUS_BAD_NODE_TYPE_SMSK s"
  using assms by (cases ty) (auto simp: deadlineFuncs_def dummyDeadlineFunc_def deadlineNull_def
      dlEvt_def dlBlock_def)


text \<open>A running CPU: thread 0 stands at a timing message at 0x2000 that is due at 1000000, the
  other threads are idle.\<close>

definition dm_run_mem :: "u32 \<Rightarrow> u32" where
  "dm_run_mem a =
     (let f = a - 0x1214 in
      if a - 0x1000 < 32 then 0x1214 + 8 * (a - 0x1000)
      else if f < 256
      then (if f AND 31 = 0 then drop_bit 5 f
            else if f = 12 then 0x2000
            else if f = 16 then 0 else if f = 20 then 1000000
            else if f AND 31 = 16 \<or> f AND 31 = 20 then - 1 else 0)
      else if a = 0x1168 then 1000000 else if a = 0x202c then 2 else 0)"

definition dm_run_example :: dm_state where
  "dm_run_example = dm_blank\<lparr>mem := dm_run_mem\<rparr>"

lemma upt8: "[0..<8] = [0, 1, 2, 3, 4, 5, 6, 7 :: nat]"
  by (simp add: upt_rec)

lemma run_heap_ptrs: "heap_ptrs dm_run_example = map (thr_dat dm_run_example) [0..<8]"
  by (simp add: heap_ptrs_def dm_layout upt8 hp_def hp_adr_def rd32_def dm_run_example_def
      dm_run_mem_def dm_blank_def thr_dat_def)

lemma run_DL:
  "i < 8 \<Longrightarrow> DL dm_run_example (thr_dat dm_run_example i) = (if i = 0 then 1000000 else - 1)"
proof -
  have m: "mk64 0 1000000 = 1000000" by (simp add: mk64_def)
  assume "i < 8"
  hence "i \<in> {0, 1, 2, 3, 4, 5, 6, 7}" by auto
  thus ?thesis
    by (auto simp: DL_def rd64_def dm_layout dm_run_example_def dm_run_mem_def dm_blank_def
        thr_dat_def m)
qed

lemma dm_inv_run: "dm_inv dm_run_example"
proof -
  have fl: "rd32 dm_run_example (thr_dat dm_run_example i) = of_nat i" if "i < 8" for i
  proof -
    have "i \<in> {0, 1, 2, 3, 4, 5, 6, 7}" using that by auto
    thus ?thesis
      by (auto simp: dm_layout dm_run_example_def dm_run_mem_def dm_blank_def thr_dat_def rd32_def)
  qed
  have "is_heap (DL dm_run_example) (heap_ptrs dm_run_example)"
    unfolding run_heap_ptrs heap_from_def
    using run_DL heap_parent_less by (auto simp: word_order.extremum)
  thus ?thesis
    using fl by (simp add: dm_inv_def run_heap_ptrs dm_layout)
qed

lemma run_node:
  "node_out dm_run_example 0x2000" "getNodeType 0x2000 dm_run_example = NODE_TYPE_TMSG"
  "hp dm_run_example 0 = thr_dat dm_run_example 0"
  "rd32 dm_run_example (thr_dat dm_run_example 0 + T_TD_NODE_PTR) = 0x2000"
  by (simp_all add: node_out_def off_def getNodeType_def node_type_of_def node_types_def Let_def
      rd32_def dm_layout dm_run_example_def dm_run_mem_def dm_blank_def thr_dat_def hp_def hp_adr_def)

lemma run_dispatch:
  obtains nxt s1 where "nodeFuncs (getNodeType 0x2000 dm_run_example) 0x2000
      (thr_dat dm_run_example 0) dm_run_example = Inr (nxt, s1)" "nxt = 0"
proof -
  let ?s = dm_run_example and ?r = "tmsg 0x2000 (thr_dat dm_run_example 0) dm_run_example"
  have "fst ?r = 0"
    using tmsg_next[OF run_node(1), of 0]
    by (simp add: rd32_def dm_layout dm_run_example_def dm_run_mem_def dm_blank_def)
  moreover have "nodeFuncs (getNodeType 0x2000 ?s) 0x2000 (thr_dat ?s 0) ?s = Inr (fst ?r, snd ?r)"
    by (simp add: run_node nodeFuncs_def)
  ultimately show thesis using that by simp
qed

lemma deadlineFuncs_null: "deadlineFuncs (getNodeType 0 s) 0 d s = Inr (- 1, s)"
  by (simp add: getNodeType_def dm_layout deadlineFuncs_def deadlineNull_def)


lemma tmsg_effect_witness:
  "\<exists>s'. tmsg 0x2000 (thr_dat dm_run_example 0) dm_run_example = (0, s') \<and> length (pq_out s') = 8 \<and>
     last (pq_out s') = (PRIO_DAT_TS_LO, 1000000)"
proof -
  let ?s = dm_run_example
  obtain nxt s' where r: "tmsg 0x2000 (thr_dat ?s 0) ?s = (nxt, s')" by (meson surj_pair)
  have "rd32 ?s (0x2000 + NODE_DEF_DEST_PTR) = 0" "pq_out ?s = []" "DL ?s (thr_dat ?s 0) = 1000000"
    using run_DL[of 0]
    by (simp_all add: dm_run_example_def dm_run_mem_def dm_blank_def rd32_def dm_layout)
  moreover have "loW 1000000 = 1000000" by (simp add: loW_def)
  ultimately show ?thesis using tmsg_effect[OF run_node(1) _ r] r by simp
qed

text \<open>The same CPU with no preparation time staged: nothing is due at time 0.\<close>

definition dm_idle_example :: dm_state where
  "dm_idle_example = wr32 (startshared dm_run_example + 0x168) 0 dm_run_example"

lemma edf_turn_witness:
  "\<exists>s' t. main_iter (7, dm_idle_example) = Inr (0, s') \<and> t < 8 \<and>
     hp (abort_phase dm_idle_example) 0 = thr_dat (abort_phase dm_idle_example) t"
proof -
  let ?s = dm_idle_example
  have inv: "dm_inv ?s"
    unfolding dm_idle_example_def by (rule dm_inv_wr_ctl[OF dm_inv_run]) simp_all
  have ev: "rd32 ?s 4428 = 0" "rd32 ?s 4420 = 0" "rd32 ?s 4280 = 0"
    "hp ?s 0 = 0x1214" "rd64 ?s 0x1224 = 1000000" "rd64 ?s 0x1164 = 0" "rd32 ?s 0x1214 = 0"
    "startshared ?s = 0x1000" "clk ?s 0 = 0" "ticks ?s = 0"
    by (simp_all add: dm_idle_example_def dm_run_example_def dm_run_mem_def dm_blank_def
        mem_simps rd32_def rd64_def hp_def hp_adr_def dm_layout mk64_def)
  have ab: "abort_phase ?s = ?s"
    by (rule abort_phase_idle) (simp add: ev adr_defs dm_layout)
  let ?t = "snd (getSysTime ?s)"
  have rt: "rd32 ?t = rd32 ?s" "startshared ?t = startshared ?s"
    by (simp_all add: rd32_def mem_simps fun_eq_iff)
  have due: "node_due ?s = (False, ?t)"
    using ev by (simp add: node_due_def getSysTime_def thr_idx_def DL_def rd64_def hp_def hp_adr_def
        rd32_def dm_layout thr_sta_def)
  have "start_phase 7 ?t = Inr (wr32 4280 7 ?t)"
    using ev rt by (simp add: start_phase_def Let_def adr_defs dm_layout mem_simps rd32_def)
  hence run: "main_iter (7, ?s) = Inr (0, wr32 4280 7 ?t)"
    by (simp add: main_iter_def ab due Let_def)
  from edf_turn[OF inv run] show ?thesis using run by (auto simp: Let_def)
qed

end
