(* ===== verification/Dm_Queues.thy ===== *)
theory Dm_Queues
  imports Dm_Handlers
begin

text \<open>
  The command queues of a block: three ring buffers of four elements with 3-bit
  read and write indices, one byte lane each.  The first part says which command
  a block takes (highest priority first, only commands whose valid time has come)
  when no command becomes valid in the middle of the search, and shows what the
  code does when one does.  The second part follows the command through execution
  (quantity, pop) and through the queue from the command node that sent it.
\<close>

section \<open>Queue indices\<close>

definition has_q :: "dm_state \<Rightarrow> u32 \<Rightarrow> nat \<Rightarrow> bool" where
  "has_q s n p \<longleftrightarrow> bit (mem s (n + 44)) (20 + p)"

definition rd_idx :: "dm_state \<Rightarrow> u32 \<Rightarrow> nat \<Rightarrow> u8" where
  "rd_idx s n p = getbyte (mem s (n + 28)) p"

definition wr_idx :: "dm_state \<Rightarrow> u32 \<Rightarrow> nat \<Rightarrow> u8" where
  "wr_idx s n p = getbyte (mem s (n + 24)) p"

definition valid_time :: "dm_state \<Rightarrow> u32 \<Rightarrow> nat \<Rightarrow> u64" where
  "valid_time s n p = rd64 s (block_elem n p s)"

text \<open>The queue exists and holds a command.\<close>

definition pending :: "dm_state \<Rightarrow> u32 \<Rightarrow> nat \<Rightarrow> bool" where
  "pending s n p \<longleftrightarrow> has_q s n p \<and> rd_idx s n p \<noteq> wr_idx s n p"

lemma bitmask_test: "p < 3 \<Longrightarrow> drop_bit 20 w AND bitmask p \<noteq> 0 \<longleftrightarrow> bit w (20 + p)"
proof -
  assume p: "p < 3"
  have "drop_bit 20 w AND bitmask p = (if bit w (20 + p) then bitmask p else 0)"
    using p by (intro bit_word_eqI) (auto simp: bitmask_def bit_simps bit_1_iff)
  moreover have "bitmask p \<noteq> 0"
    using p by (auto simp: bitmask_def)
  ultimately show ?thesis by simp
qed

lemma getbyte_mask24: "p < 3 \<Longrightarrow> getbyte (w AND 0xffffff) p = getbyte w p"
proof -
  assume p: "p < 3"
  have m: "(0xffffff :: u32) = mask 24" by (simp add: mask_eq_exp_minus_1)
  show ?thesis unfolding getbyte_def m
    using p by (intro bit_word_eqI) (auto simp: bit_simps)
qed

lemma mask24_eqI:
  assumes "\<And>p. p < 3 \<Longrightarrow> getbyte v p = getbyte w p"
  shows "v AND 0xffffff = w AND 0xffffff"
proof (rule bit_word_eqI)
  have m: "(0xffffff :: u32) = mask 24" by (simp add: mask_eq_exp_minus_1)
  fix i assume "i < LENGTH(32)"
  show "bit (v AND 0xffffff) i = bit (w AND 0xffffff) i"
  proof (cases "i < 24")
    case True
    hence "i div 8 < 3" by simp
    hence "bit (getbyte v (i div 8)) (i mod 8) = bit (getbyte w (i div 8)) (i mod 8)"
      using assms by simp
    thus ?thesis using True unfolding m by (simp add: getbyte_def bit_simps)
  next
    case False
    thus ?thesis unfolding m by (simp add: bit_simps)
  qed
qed

lemma queues_differ_iff:
  "queues_differ n s \<longleftrightarrow> (\<exists>p < 3. wr_idx s n p \<noteq> rd_idx s n p)"
proof -
  let ?w = "mem s (n + 24)" and ?r = "mem s (n + 28)"
  have "?w AND 0xffffff = ?r AND 0xffffff \<longleftrightarrow> (\<forall>p < 3. getbyte ?w p = getbyte ?r p)"
    using mask24_eqI[of ?w ?r] getbyte_mask24[of _ ?w] getbyte_mask24[of _ ?r] by metis
  thus ?thesis
    by (auto simp: queues_differ_def rd32_def dm_layout wr_idx_def rd_idx_def)
qed

section \<open>Which command a block takes\<close>

text \<open>The state after \<open>k\<close> clock reads.\<close>

definition tick :: "nat \<Rightarrow> dm_state \<Rightarrow> dm_state" where
  "tick k s = s\<lparr>ticks := ticks s + k\<rparr>"

lemma tick_sel [simp]:
  "mem (tick k s) = mem s" "clk (tick k s) = clk s" "ticks (tick k s) = ticks s + k"
  "startshared (tick k s) = startshared s" "pq_out (tick k s) = pq_out s"
  "rd32 (tick k s) = rd32 s" "rd64 (tick k s) = rd64 s" "rd8 (tick k s) = rd8 s"
  by (auto simp: tick_def rd32_def rd64_def rd8_def)

lemma tick_0 [simp]: "tick 0 s = s" and tick_tick [simp]: "tick j (tick k s) = tick (j + k) s"
  by (simp_all add: tick_def)

lemma getSysTime_tick: "getSysTime s = (clk s (ticks s), tick 1 s)"
  by (simp add: getSysTime_def tick_def)

lemma block_elem_tick [simp]: "block_elem n p (tick k s) = block_elem n p s"
  by (simp add: block_elem_def)

lemma queue_tick [simp]:
  "has_q (tick k s) n p = has_q s n p" "pending (tick k s) n p = pending s n p"
  "valid_time (tick k s) n p = valid_time s n p"
  by (simp_all add: has_q_def pending_def rd_idx_def wr_idx_def valid_time_def)

lemma block_scan_step:
  assumes "aligned n" "p < 3"
  shows "block_scan (p # ps) n rdp cp s =
    (if pending s n p
     then if valid_time s n p \<le> clk s (ticks s)
          then (Some (idx_adr n 28 p), Some (block_elem n p s), tick 1 s)
          else block_scan ps n (Some (idx_adr n 28 p)) (Some (block_elem n p s)) (tick 1 s)
     else block_scan ps n (if has_q s n p then Some (idx_adr n 28 p) else rdp) cp s)"
proof -
  have "rd8 s (idx_adr n 28 p) = rd_idx s n p" "rd8 s (idx_adr n 24 p) = wr_idx s n p"
    using rd8_idx[OF assms(1)] assms(2) by (simp_all add: rd_idx_def wr_idx_def)
  moreover have "drop_bit 20 (rd32 s (n + 44)) AND bitmask p \<noteq> 0 \<longleftrightarrow> has_q s n p"
    using bitmask_test[OF assms(2)] by (simp add: has_q_def rd32_def)
  ultimately show ?thesis
    by (simp add: dm_layout pending_def valid_time_def getSysTime_tick Let_def)
qed

text \<open>No pending command becomes valid between the clock reads of one search.\<close>

definition stable :: "dm_state \<Rightarrow> u32 \<Rightarrow> bool" where
  "stable s n \<longleftrightarrow> (\<forall>p \<in> set [0, 1, 2]. pending s n p \<longrightarrow> (\<forall>k \<in> set [0, 1, 2, 3].
     (valid_time s n p \<le> clk s (ticks s + k)) = (valid_time s n p \<le> clk s (ticks s))))"

definition takeable :: "dm_state \<Rightarrow> u32 \<Rightarrow> nat \<Rightarrow> bool" where
  "takeable s n p \<longleftrightarrow> pending s n p \<and> valid_time s n p \<le> clk s (ticks s)"

lemma stable_at:
  "\<lbrakk>stable s n; p < 3; k \<le> 3; pending s n p\<rbrakk> \<Longrightarrow> (valid_time s n p \<le> clk s (ticks s + k)) = (valid_time s n p \<le> clk s (ticks s))"
proof -
  assume "stable s n" "p < 3" "k \<le> 3" "pending s n p"
  moreover have "p \<in> set [0, 1, 2]" "k \<in> set [0, 1, 2, 3]" using \<open>p < 3\<close> \<open>k \<le> 3\<close> by auto
  ultimately show ?thesis unfolding stable_def by blast
qed

lemma block_scan_take:
  assumes "aligned n" "stable s n" "set ps \<subseteq> {0, 1, 2}" "k + length ps \<le> 3"
    "filter (takeable s n) ps = p # qs"
  shows "\<exists>j \<le> 3. block_scan ps n rdp cp (tick k s) =
    (Some (idx_adr n 28 p), Some (block_elem n p s), tick j s)"
  using assms(3-)
proof (induction ps arbitrary: k rdp cp)
  case (Cons a ps)
  have a: "a < 3" using Cons.prems(1) by auto
  have st: "pending s n a \<Longrightarrow> (valid_time s n a \<le> clk s (ticks s + k)) = (valid_time s n a \<le> clk s (ticks s))"
    using stable_at[OF assms(2) a] Cons.prems(2) by simp
  show ?case
  proof (cases "takeable s n a")
    case True
    hence "block_scan (a # ps) n rdp cp (tick k s)
        = (Some (idx_adr n 28 a), Some (block_elem n a s), tick (Suc k) s)"
      using st by (simp add: block_scan_step[OF assms(1) a] takeable_def del: block_scan.simps)
    moreover have "p = a" using Cons.prems(3) True by simp
    ultimately show ?thesis using Cons.prems(2) by (intro exI[of _ "Suc k"]) simp
  next
    case False
    hence nt: "\<not> (pending s n a \<and> valid_time s n a \<le> clk s (ticks s))" by (simp add: takeable_def)
    have f: "filter (takeable s n) ps = p # qs" using Cons.prems(3) False by simp
    show ?thesis
      using Cons.IH[of "Suc k", OF _ _ f] Cons.IH[of k, OF _ _ f] Cons.prems(1,2) nt st
      by (simp only: block_scan_step[OF assms(1) a]) auto
  qed
qed simp

lemma block_scan_none:
  assumes "aligned n" "stable s n" "set ps \<subseteq> {0, 1, 2}" "k + length ps \<le> 3"
    "filter (takeable s n) ps = []"
  shows "\<exists>j rd. j \<le> 3 \<and> block_scan ps n rdp cp (tick k s) =
    (rd, (if filter (pending s n) ps = [] then cp
          else Some (block_elem n (last (filter (pending s n) ps)) s)), tick j s) \<and>
    (rdp \<noteq> None \<or> filter (pending s n) ps \<noteq> [] \<longrightarrow> rd \<noteq> None)"
  using assms(3-)
proof (induction ps arbitrary: k rdp cp)
  case (Cons a ps)
  have a: "a < 3" using Cons.prems(1) by auto
  have st: "pending s n a \<Longrightarrow> (valid_time s n a \<le> clk s (ticks s + k)) = (valid_time s n a \<le> clk s (ticks s))"
    using stable_at[OF assms(2) a] Cons.prems(2) by simp
  have f: "filter (takeable s n) ps = []" "\<not> takeable s n a" using Cons.prems(3) by (auto split: if_splits)
  let ?i = "Some (idx_adr n 28 a)"
  show ?case
  proof (cases "pending s n a")
    case True
    have "block_scan (a # ps) n rdp cp (tick k s)
        = block_scan ps n ?i (Some (block_elem n a s)) (tick (Suc k) s)"
      using True st f(2) by (simp add: block_scan_step[OF assms(1) a] takeable_def del: block_scan.simps)
    thus ?thesis
      using Cons.IH[of "Suc k" ?i "Some (block_elem n a s)"] Cons.prems(1,2) f(1) True by auto
  next
    case False
    have "block_scan (a # ps) n rdp cp (tick k s)
        = block_scan ps n (if has_q s n a then ?i else rdp) cp (tick k s)"
      using False by (simp add: block_scan_step[OF assms(1) a] del: block_scan.simps)
    thus ?thesis
      using Cons.IH[of k "if has_q s n a then ?i else rdp" cp] Cons.prems(1,2) f(1) False by auto
  qed
qed auto

lemma paint_sel [simp]:
  "clk (paint n s) = clk s" "ticks (paint n s) = ticks s" "startshared (paint n s) = startshared s"
  "int_base_adr (paint n s) = int_base_adr s" "ram_size (paint n s) = ram_size s"
  by (simp_all add: paint_def wr32_def)

lemma paint_mem: "mem (paint n s) = (mem s)(n + 44 := mem s (n + 44) OR 0x100)"
  by (simp add: paint_def mem_simps rd32_def dm_layout)

text \<open>
  Without a pending command, or with reading locked, a block only paints itself and continues
  at its default destination.
\<close>

theorem block_default:
  assumes "rd32 s (n + BLOCK_CMDQ_FLAGS) AND BLOCK_CMDQ_DNR_SMSK \<noteq> 0
    \<or> (\<forall>p < 3. wr_idx s n p = rd_idx s n p)"
  shows "block n thr s = Inr (rd32 s (n + NODE_DEF_DEST_PTR), paint n s)"
proof -
  have "queues_differ n (paint n s) \<longleftrightarrow> (\<exists>p < 3. wr_idx s n p \<noteq> rd_idx s n p)"
    unfolding queues_differ_iff by (simp add: wr_idx_def rd_idx_def paint_mem)
  thus ?thesis using assms by (auto simp: block_def Let_def def_dest_def)
qed

lemma scan_list: "set [2, 1, 0 :: nat] \<subseteq> {0, 1, 2}" "0 + length [2, 1, 0 :: nat] \<le> 3"
  by auto

lemma block_unfold:
  assumes "p < 3" "pending (paint n s) n p"
    and "rd32 s (n + BLOCK_CMDQ_FLAGS) AND BLOCK_CMDQ_DNR_SMSK = 0"
  shows "block n thr s = (case block_scan [2, 1, 0] n None None (tick 0 (paint n s)) of
      (Some rd, Some c, s2) \<Rightarrow> (case getSysTime s2 of (now, s3) \<Rightarrow>
         if now < rd64 s3 (c + T_CMD_TIME) then Inr (rd32 s (n + 48), s3)
         else block_exec n thr rd c (rd32 s (n + 48)) s3)
    | _ \<Rightarrow> Inl UninitCmdPtr)"
proof -
  have "queues_differ n (paint n s)"
    unfolding queues_differ_iff using assms(1,2) by (auto simp: pending_def)
  thus ?thesis using assms(3) by (simp add: block_def Let_def def_dest_def dm_layout)
qed

lemma block_take:
  assumes "aligned n" "stable (paint n s) n"
    and dnr: "rd32 s (n + BLOCK_CMDQ_FLAGS) AND BLOCK_CMDQ_DNR_SMSK = 0"
    and q: "filter (takeable (paint n s) n) [2, 1, 0] = q # qs"
  shows "\<exists>j \<le> 4. block n thr s = block_exec n thr (idx_adr n 28 q) (block_elem n q (paint n s))
      (rd32 s (n + 48)) (tick j (paint n s))"
proof -
  let ?s1 = "paint n s"
  have "q \<in> set (filter (takeable ?s1 n) [2, 1, 0])" by (simp only: q) simp
  hence "q \<in> set [2, 1, 0]" and q2: "takeable ?s1 n q" by (simp_all only: set_filter mem_Collect_eq)
  hence q3: "q < 3" by auto
  obtain j where j: "j \<le> 3" "block_scan [2, 1, 0] n None None (tick 0 ?s1) =
      (Some (idx_adr n 28 q), Some (block_elem n q ?s1), tick j ?s1)"
    using block_scan_take[OF assms(1,2) scan_list q, of None None] by blast
  have pend: "pending ?s1 n q" using q2 by (simp add: takeable_def)
  have "\<not> clk ?s1 (ticks ?s1 + j) < rd64 ?s1 (block_elem n q ?s1)"
    using stable_at[OF assms(2) q3 j(1)] q2 by (simp add: takeable_def valid_time_def not_less)
  hence "block n thr s = block_exec n thr (idx_adr n 28 q) (block_elem n q ?s1)
      (rd32 s (n + 48)) (tick (Suc j) ?s1)"
    unfolding block_unfold[OF q3 pend dnr] j(2) by (simp add: getSysTime_tick dm_layout)
  thus ?thesis using j(1) by (intro exI[of _ "Suc j"]) simp
qed

lemma block_wait:
  assumes "aligned n" "stable (paint n s) n" "p < 3" "pending (paint n s) n p"
    and dnr: "rd32 s (n + BLOCK_CMDQ_FLAGS) AND BLOCK_CMDQ_DNR_SMSK = 0"
    and none: "filter (takeable (paint n s) n) [2, 1, 0] = []"
  shows "\<exists>j \<le> 4. block n thr s = Inr (rd32 s (n + 48), tick j (paint n s))"
proof -
  let ?s1 = "paint n s"
  have "p \<in> set [2, 1, 0]" using assms(3) by auto
  hence ne: "filter (pending ?s1 n) [2, 1, 0] \<noteq> []"
    using assms(4) by (metis filter_empty_conv)
  define q where "q = last (filter (pending ?s1 n) [2, 1, 0])"
  have "q \<in> set (filter (pending ?s1 n) [2, 1, 0])" unfolding q_def by (rule last_in_set[OF ne])
  hence "q \<in> set [2, 1, 0]" and "pending ?s1 n q" by (simp_all only: set_filter mem_Collect_eq)
  hence q: "q < 3" "pending ?s1 n q" "q \<in> set [2, 1, 0]" by auto
  have nq: "\<not> takeable ?s1 n q" using none q(3) by (metis filter_empty_conv)
  obtain j rd where j: "j \<le> 3" "block_scan [2, 1, 0] n None None (tick 0 ?s1) =
      (Some rd, Some (block_elem n q ?s1), tick j ?s1)"
    using block_scan_none[OF assms(1,2) scan_list none, of None None] ne unfolding q_def by auto
  have "clk ?s1 (ticks ?s1 + j) < rd64 ?s1 (block_elem n q ?s1)"
    using stable_at[OF assms(2) q(1) j(1)] nq q(2) by (simp add: takeable_def valid_time_def not_less)
  hence "block n thr s = Inr (rd32 s (n + 48), tick (Suc j) ?s1)"
    unfolding block_unfold[OF q(1,2) dnr] j(2) by (simp add: getSysTime_tick dm_layout)
  thus ?thesis using j(1) by (intro exI[of _ "Suc j"]) simp
qed

text \<open>Indices that differ only in a queue the block does not have: the search finds no command at all, and what it
  reads next is an uninitialised pointer.\<close>

lemma block_undefined:
  assumes "aligned n" "stable (paint n s) n" "q < 3" "wr_idx s n q \<noteq> rd_idx s n q"
    and dnr: "rd32 s (n + BLOCK_CMDQ_FLAGS) AND BLOCK_CMDQ_DNR_SMSK = 0"
    and none: "filter (pending (paint n s) n) [2, 1, 0] = []"
  shows "block n thr s = Inl UninitCmdPtr"
proof -
  let ?s1 = "paint n s"
  have d: "queues_differ n ?s1"
    unfolding queues_differ_iff using assms(3,4) by (auto simp: wr_idx_def rd_idx_def paint_mem)
  have "filter (takeable ?s1 n) [2, 1, 0] = []"
    using none by (simp only: filter_empty_conv takeable_def) blast
  from block_scan_none[OF assms(1,2) scan_list this, of None None]
  obtain j rd where "block_scan [2, 1, 0] n None None (tick 0 ?s1) = (rd, None, tick j ?s1)"
    unfolding none by auto
  hence "block_scan [2, 1, 0] n None None ?s1 = (rd, None, tick j ?s1)" by simp
  thus ?thesis using d dnr by (simp add: block_def Let_def split: option.split)
qed

text \<open>
  C9. Provided that no pending command becomes valid between the readings of the clock during the search
  (the hypothesis \<open>stable\<close>), a block does exactly this.  With the flag that forbids reading, or with equal
  indices in all queues, it continues at its default destination.  Otherwise, when commands are pending but none
  is valid yet, it continues there as well; when some are, it executes that of the highest priority, popping that
  very queue; when none is pending, since the indices differ only in a queue the block does not have, it follows
  an uninitialised pointer.
\<close>

theorem block_selects:
  assumes "aligned n" "stable (paint n s) n"
  shows "\<exists>j \<le> 4. block n thr s =
    (if rd32 s (n + BLOCK_CMDQ_FLAGS) AND BLOCK_CMDQ_DNR_SMSK \<noteq> 0 \<or>
        filter (\<lambda>q. wr_idx s n q \<noteq> rd_idx s n q) [2, 1, 0] = []
     then Inr (rd32 s (n + NODE_DEF_DEST_PTR), paint n s)
     else if filter (pending (paint n s) n) [2, 1, 0] = [] then Inl UninitCmdPtr
     else case filter (takeable (paint n s) n) [2, 1, 0] of
       [] \<Rightarrow> Inr (rd32 s (n + NODE_DEF_DEST_PTR), tick j (paint n s))
     | q # _ \<Rightarrow> block_exec n thr (idx_adr n BLOCK_CMDQ_RD_IDXS q) (block_elem n q (paint n s))
                  (rd32 s (n + NODE_DEF_DEST_PTR)) (tick j (paint n s)))"
proof (cases "rd32 s (n + BLOCK_CMDQ_FLAGS) AND BLOCK_CMDQ_DNR_SMSK \<noteq> 0 \<or>
    filter (\<lambda>q. wr_idx s n q \<noteq> rd_idx s n q) [2, 1, 0] = []")
  case True
  have "p \<in> set [2, 1, 0]" if "p < 3" for p :: nat using that by auto
  hence "rd32 s (n + BLOCK_CMDQ_FLAGS) AND BLOCK_CMDQ_DNR_SMSK \<noteq> 0 \<or> (\<forall>p < 3. wr_idx s n p = rd_idx s n p)"
    using True unfolding filter_empty_conv by blast
  from block_default[OF this] show ?thesis unfolding if_P[OF True] by blast
next
  case False
  hence dnr: "rd32 s (n + BLOCK_CMDQ_FLAGS) AND BLOCK_CMDQ_DNR_SMSK = 0"
    and "filter (\<lambda>q. wr_idx s n q \<noteq> rd_idx s n q) [2, 1, 0] \<noteq> []" by auto
  then obtain q where "q \<in> set [2, 1, 0]" and q: "wr_idx s n q \<noteq> rd_idx s n q"
    unfolding filter_empty_conv by blast
  hence q3: "q < 3" by auto
  show ?thesis
  proof (cases "filter (pending (paint n s) n) [2, 1, 0] = []")
    case True
    thus ?thesis using block_undefined[OF assms q3 q dnr] False by auto
  next
    case some: False
    then obtain p where "p \<in> set [2, 1, 0]" and p: "pending (paint n s) n p"
      unfolding filter_empty_conv by blast
    hence p3: "p < 3" by auto
    show ?thesis
      unfolding if_not_P[OF False] if_not_P[OF some]
      using block_take[OF assms dnr] block_wait[OF assms p3 p dnr]
      by (cases "filter (takeable (paint n s) n) [2, 1, 0]") (simp_all add: dm_layout)
  qed
qed

section \<open>Executing and popping a command\<close>

text \<open>The \<open>la\<close> bytes at \<open>a\<close> and the \<open>lb\<close> bytes at \<open>b\<close> do not overlap.\<close>

definition apart :: "u32 \<Rightarrow> nat \<Rightarrow> u32 \<Rightarrow> nat \<Rightarrow> bool" where
  "apart a la b lb \<longleftrightarrow> lb \<le> unat (a - b) \<and> la \<le> unat (b - a)"

lemma apart_sym: "apart a la b lb \<longleftrightarrow> apart b lb a la"
  by (auto simp: apart_def)

lemma apart_neq:
  assumes "apart a la b lb" "k < la" "j < lb"
  shows "a + of_nat k \<noteq> b + of_nat j"
proof
  assume e: "a + of_nat k = b + of_nat j"
  have small: "la < 4294967296" "lb < 4294967296"
    using assms(1) unat32_less[of "b - a"] unat32_less[of "a - b"] by (auto simp: apart_def)
  show False
  proof (cases "k \<le> j")
    case True
    have "a - b = (b + of_nat j) - of_nat k - b" using e[symmetric] by simp
    hence "a - b = of_nat (j - k)" using True by (simp add: of_nat_diff)
    hence "unat (a - b) = j - k" using assms(3) small by (simp add: unat_of_nat32)
    thus False using assms(1,3) by (simp add: apart_def) arith
  next
    case False
    have "b - a = (a + of_nat k) - of_nat j - a" using e by simp
    hence "b - a = of_nat (k - j)" using False by (simp add: of_nat_diff)
    hence "unat (b - a) = k - j" using assms(2) small by (simp add: unat_of_nat32)
    thus False using assms(1,2) by (simp add: apart_def) arith
  qed
qed

lemma apart_num:
  assumes "apart a la b lb"
  shows "numeral k < la \<Longrightarrow> numeral j < lb \<Longrightarrow> a + numeral k \<noteq> b + numeral j"
    and "0 < la \<Longrightarrow> numeral j < lb \<Longrightarrow> a \<noteq> b + numeral j"
    and "numeral k < la \<Longrightarrow> 0 < lb \<Longrightarrow> a + numeral k \<noteq> b"
    and "0 < la \<Longrightarrow> 0 < lb \<Longrightarrow> a \<noteq> b"
proof -
  note kj = apart_neq[OF assms, of "numeral k" "numeral j"]
    and zj = apart_neq[OF assms, of 0 "numeral j"]
    and kz = apart_neq[OF assms, of "numeral k" 0]
    and zz = apart_neq[OF assms, of 0 0]
  show "numeral k < la \<Longrightarrow> numeral j < lb \<Longrightarrow> a + numeral k \<noteq> b + numeral j" using kj by simp
  show "0 < la \<Longrightarrow> numeral j < lb \<Longrightarrow> a \<noteq> b + numeral j" using zj by simp
  show "numeral k < la \<Longrightarrow> 0 < lb \<Longrightarrow> a + numeral k \<noteq> b" using kz by simp
  show "0 < la \<Longrightarrow> 0 < lb \<Longrightarrow> a \<noteq> b" using zz by simp
qed

abbreviation elem_sep :: "u32 \<Rightarrow> u32 \<Rightarrow> bool" where
  "elem_sep n c \<equiv> apart c 20 n 52"

abbreviation node_sep :: "u32 \<Rightarrow> u32 \<Rightarrow> bool" where
  "node_sep n m \<equiv> apart n 52 m 52"

text \<open>The next act word and the next read index.\<close>

definition dec_qty :: "u32 \<Rightarrow> u32" where
  "dec_qty act = (act AND NOT ACT_QTY_SMSK) OR (((act AND ACT_QTY_MSK) - 1) AND ACT_QTY_MSK)"

definition next_rd :: "u32 \<Rightarrow> u8 \<Rightarrow> u8" where
  "next_rd qty rd = (rd + (if qty = 1 then 1 else 0)) AND Q_IDX_MAX_OVF_MSK"

lemma block_exec_action:
  assumes "aligned n" "p < 3" "rd32 s (c + 8) = act" "act AND ACT_QTY_MSK \<noteq> 0"
    and a: "actionFuncs (drop_bit 20 act AND ACT_TYPE_MSK) n c thr s = Inr (r, s1)"
    and ne: "c + 8 \<noteq> n + 28"
  shows "block_exec n thr (idx_adr n 28 p) c ret s = Inr (r,
    wr32 (n + 28) (setbyte (mem s1 (n + 28)) p
       (next_rd (act AND ACT_QTY_MSK) (rd_idx s1 n p))) (wr32 (c + 8) (dec_qty act) s1))"
proof -
  let ?s2 = "wr32 (c + 8) (dec_qty act) s1"
  have w: "wr8 (idx_adr n 28 p) v ?s2 = wr32 (n + 28) (setbyte (mem s1 (n + 28)) p v) ?s2" for v
    using wr8_idx(2)[OF assms(1), of p v ?s2] assms(2) ne by (simp add: mem_simps)
  have r8: "rd8 ?s2 (idx_adr n 28 p) = rd_idx s1 n p"
    using rd8_idx(2)[OF assms(1), of p ?s2] assms(2) ne by (simp add: mem_simps rd_idx_def)
  have q: "(act AND ACT_QTY_MSK) - 1 = 0 \<longleftrightarrow> act AND ACT_QTY_MSK = 1" by simp
  show ?thesis
    using a assms(3,4) w r8 q
    by (simp add: block_exec_def Let_def dm_layout dec_qty_def next_rd_def)
qed

lemma mem_actions:
  assumes "startshared s = startshared s0"
  shows "execNoop n c thr s = (rd32 s (n + 48), s)"
    and "execFlow n c thr s = (rd32 s (c + 12),
      if rd32 s (c + 8) AND ACT_CHP_SMSK \<noteq> 0 then wr32 (n + 48) (rd32 s (c + 12)) s else s)"
  by (simp_all add: execNoop_def execFlow_def def_dest_def Let_def dm_layout)

lemma flow_exec:
  assumes "aligned n" "p < 3" "elem_sep n c"
    and act: "rd32 s (c + 8) = act" "act AND ACT_QTY_MSK \<noteq> 0"
      "drop_bit 20 act AND ACT_TYPE_MSK = 2"
  shows "\<exists>s'. block_exec n thr (idx_adr n 28 p) c ret s
      = Inr (rd32 s (c + 12), s') \<and>
    rd32 s' (c + 8) = dec_qty act \<and>
    rd_idx s' n p = next_rd (act AND ACT_QTY_MSK) (rd_idx s n p) \<and>
    (\<forall>q < 3. q \<noteq> p \<longrightarrow> rd_idx s' n q = rd_idx s n q) \<and>
    (\<forall>q < 3. wr_idx s' n q = wr_idx s n q) \<and>
    rd32 s' (n + 48) =
      (if act AND ACT_CHP_SMSK \<noteq> 0 then rd32 s (c + 12) else rd32 s (n + 48))"
proof -
  let ?s1 = "if rd32 s (c + 8) AND ACT_CHP_SMSK \<noteq> 0 then wr32 (n + 48) (rd32 s (c + 12)) s else s"
  have a: "actionFuncs (drop_bit 20 act AND ACT_TYPE_MSK) n c thr s = Inr (rd32 s (c + 12), ?s1)"
    using act(3) by (simp add: actionFuncs_def act_types_def mem_actions dm_layout)
  note ne = apart_num[OF assms(3)]
  have ne28: "c + 8 \<noteq> n + 28" by (rule ne(1)) simp_all
  have m1: "mem ?s1 (n + 28) = mem s (n + 28)" "mem ?s1 (n + 24) = mem s (n + 24)"
    "mem ?s1 (n + 48) = (if act AND ACT_CHP_SMSK \<noteq> 0 then rd32 s (c + 12) else rd32 s (n + 48))"
    using act(1) by (auto simp: mem_simps rd32_def dm_layout)
  let ?s' = "wr32 (n + 28) (setbyte (mem ?s1 (n + 28)) p
       (next_rd (act AND ACT_QTY_MSK) (rd_idx ?s1 n p))) (wr32 (c + 8) (dec_qty act) ?s1)"
  have act8: "rd32 s (c + 8) = act" using act(1) by (simp add: dm_layout)
  have ex: "block_exec n thr (idx_adr n 28 p) c ret s = Inr (rd32 s (c + 12), ?s')"
    by (rule block_exec_action[OF assms(1,2) act8 act(2) a ne28])
  have rd: "mem ?s' (n + 28) = setbyte (mem s (n + 28)) p (next_rd (act AND ACT_QTY_MSK) (rd_idx s n p))"
    by (simp add: mem_simps m1 rd_idx_def)
  have "c + 8 \<noteq> n + 24" "c + 8 \<noteq> n + 48" by (rule ne(1); simp)+
  hence other: "mem ?s' (n + 24) = mem s (n + 24)" "mem ?s' (c + 8) = dec_qty act"
    "mem ?s' (n + 48) = (if act AND ACT_CHP_SMSK \<noteq> 0 then rd32 s (c + 12) else rd32 s (n + 48))"
    using m1 ne28 by (simp_all add: mem_simps)
  show ?thesis
    using ex rd other assms(2)
    by (intro exI[of _ ?s']) (simp add: dm_layout rd_idx_def wr_idx_def rd32_def)
qed

text \<open>
  Executing a flow command of a queue: the block continues at the flow's destination, which
  becomes the default destination when the change is permanent; the quantity of the command drops
  by one, the read index of that queue advances exactly when the quantity is exhausted, and no
  other index moves.
\<close>

theorem block_exec_flow:
  assumes "aligned n" "p < 3" "elem_sep n c"
    and act: "rd32 s (c + T_CMD_ACT) = act" "act AND ACT_QTY_MSK \<noteq> 0"
      "drop_bit 20 act AND ACT_TYPE_MSK = 2"
  shows "\<exists>s'. block_exec n thr (idx_adr n BLOCK_CMDQ_RD_IDXS p) c ret s
      = Inr (rd32 s (c + T_CMD_FLOW_DEST), s') \<and>
    rd32 s' (c + T_CMD_ACT) = dec_qty act \<and>
    rd_idx s' n p = next_rd (act AND ACT_QTY_MSK) (rd_idx s n p) \<and>
    (\<forall>q < 3. q \<noteq> p \<longrightarrow> rd_idx s' n q = rd_idx s n q) \<and>
    (\<forall>q < 3. wr_idx s' n q = wr_idx s n q) \<and>
    rd32 s' (n + NODE_DEF_DEST_PTR) =
      (if act AND ACT_CHP_SMSK \<noteq> 0 then rd32 s (c + T_CMD_FLOW_DEST) else rd32 s (n + NODE_DEF_DEST_PTR))"
  using flow_exec[OF assms(1-3) _ act(2,3), of s thr ret] act(1)
  by (cases "act AND ACT_CHP_SMSK = 0") (simp_all add: dm_layout)

section \<open>Flushing\<close>

lemma flush_loop_byte:
  assumes "distinct ps" "set ps \<subseteq> {..<3}" "q < 3"
  shows "getbyte (flush_loop ps fl me wr rd) q =
    (if q \<in> set ps \<and> bit fl q
     then (getbyte wr q - (if bit me q then 1 else 0)) AND Q_IDX_MAX_OVF_MSK
     else getbyte rd q)"
  using assms(1,2)
proof (induction ps arbitrary: rd)
  case (Cons p ps)
  have b: "x AND push_bit k 1 \<noteq> 0 \<longleftrightarrow> bit x k" for x :: u8 and k
    by (simp add: and_exp_eq_0_iff_not_bit)
  have p: "p < 4" "q < 4" "distinct ps" "set ps \<subseteq> {..<3}" "p \<notin> set ps"
    using Cons.prems assms(3) by auto
  show ?case
    unfolding flush_loop.simps Let_def b Cons.IH[OF p(3,4)]
    using p by auto
qed simp

lemma flush_byte:
  assumes "q < 3"
  shows "getbyte (flush_loop [0, 1, 2] fl me wr rd) q =
    (if bit fl q then (getbyte wr q - (if bit me q then 1 else 0)) AND Q_IDX_MAX_OVF_MSK
     else getbyte rd q)"
proof -
  have "q \<in> set [0, 1, 2]" "set [0, 1, 2] \<subseteq> {..<3 :: nat}" using assms by auto
  thus ?thesis using flush_loop_byte[of "[0, 1, 2]" q] assms by simp
qed

text \<open>Queues flushed by an action word, and the queue it sits in.\<close>

definition flushes :: "u32 \<Rightarrow> nat \<Rightarrow> bool" where
  "flushes act q \<longleftrightarrow> bit act (28 + q)"

definition act_prio :: "u32 \<Rightarrow> nat" where
  "act_prio act = unat (drop_bit 24 act AND ACT_PRIO_MSK)"

lemma flushees_bit: "q < 3 \<Longrightarrow> bit (ucast (drop_bit 28 act AND (7 :: u32)) :: u8) q = bit act (28 + q)"
proof -
  assume q: "q < 3"
  have m: "(7 :: u32) = mask 3" by (simp add: mask_eq_exp_minus_1)
  show ?thesis unfolding m using q by (auto simp: bit_simps)
qed

lemma flusher_bit: "p < 8 \<Longrightarrow> q < 3 \<Longrightarrow> bit (push_bit p (1 :: u8)) q \<longleftrightarrow> p = q"
  by (auto simp: bit_simps bit_1_iff)

lemma act_prio_less: "act_prio act < 4"
  using and_3_unat[of "drop_bit 24 act"] by (simp add: act_prio_def dm_layout)

text \<open>What \<open>execFlush\<close> leaves in the index words.\<close>

lemma execFlush_idx:
  assumes sep: "elem_sep n c" and act: "rd32 s (c + 8) = act"
  shows "\<exists>r s1. execFlush n c thr s = (r, s1) \<and>
    (\<forall>q < 3. rd_idx s1 n q = (if flushes act q
        then (wr_idx s n q - (if act_prio act = q then 1 else 0)) AND 7 else rd_idx s n q)) \<and>
    (\<forall>q < 3. wr_idx s1 n q = wr_idx s n q) \<and> rd32 s1 (c + 8) = act \<and>
    r = (if rd32 s (c + 12) \<noteq> 0 then rd32 s (c + 12) else rd32 s (n + 48))"
proof -
  let ?fl = "ucast (drop_bit 28 act AND 7) :: u8" and ?me = "push_bit (act_prio act) 1 :: u8"
  let ?w = "rd32 s (n + 24) AND 0xffffff" and ?r = "rd32 s (n + 28) AND 0xffffff"
  let ?v = "flush_loop [0, 1, 2] ?fl ?me ?w ?r"
  let ?s1 = "wr32 (n + 28) ?v s"
  note ne = apart_num[OF sep]
  have ne': "c + 12 \<noteq> n + 28" "c + 8 \<noteq> n + 28" "c + 8 \<noteq> n + 48" by (rule ne(1); simp)+
  have ovr: "rd32 ?s1 (c + 12) = rd32 s (c + 12)" "rd32 ?s1 (c + 8) = act"
    using ne' act by (simp_all add: rd32_def mem_simps)
  let ?s2 = "if act AND ACT_CHP_SMSK \<noteq> 0 then wr32 (n + 48) (rd32 s (c + 12)) ?s1 else ?s1"
  have ex: "execFlush n c thr s = (if rd32 s (c + 12) \<noteq> 0 then (rd32 s (c + 12), ?s2)
      else (rd32 s (n + 48), ?s1))"
    using act ovr by (simp add: execFlush_def Let_def dm_layout def_dest_def act_prio_def
        rd32_wr32_other del: flush_loop.simps)
  have b: "getbyte ?v q = (if flushes act q then (wr_idx s n q - (if act_prio act = q then 1 else 0)) AND 7
      else rd_idx s n q)" if "q < 3" for q
    using flush_byte[OF that, of ?fl ?me ?w ?r] flushees_bit[OF that, of act]
      flusher_bit[of "act_prio act" q] act_prio_less[of act] that
      getbyte_mask24[OF that, of "mem s (n + 24)"] getbyte_mask24[OF that, of "mem s (n + 28)"]
    by (simp add: flushes_def wr_idx_def rd_idx_def rd32_def dm_layout del: flush_loop.simps)
  show ?thesis
    unfolding ex using b ne' ovr act
    by (auto simp: rd_idx_def wr_idx_def mem_simps rd32_def simp del: flush_loop.simps)
qed

lemma and_7_unat: "unat (x AND 7) = unat (x :: u8) mod 8"
proof -
  have "(7 :: u8) = mask 3" by (simp add: mask_eq_exp_minus_1)
  hence "x AND 7 = take_bit 3 x" by (simp only: take_bit_eq_mask)
  thus ?thesis by (simp add: take_bit_eq_mod unat_mod_distrib)
qed

lemma unat8_add: "unat (v + w :: u8) = (unat v + unat w) mod 256"
  using unat_word_ariths(1)[of v w] by simp

lemma unat8_sub1: "unat (w - 1 :: u8) = (unat w + 255) mod 256"
proof -
  have "w - 1 = w + 255" by simp
  thus ?thesis by (simp only: unat8_add) simp
qed

lemma idx_back_forth: "((w - 1) AND 7) + 1 AND 7 = (w :: u8) AND 7"
proof -
  have "unat (((w - 1) AND 7) + 1 AND 7) = ((unat w + 255) mod 256 mod 8 + 1) mod 256 mod 8"
    by (simp only: and_7_unat unat8_add unat8_sub1 unat_1)
  also have "\<dots> = ((unat w + 255) mod 8 + 1) mod 8" by (simp add: mod_mod_cancel)
  also have "\<dots> = unat w mod 8"
    using mod_add_left_eq[of "unat w + 255" 8 1] mod_mult_self2[of "unat w" 8 32]
    by (simp add: add.commute)
  finally show ?thesis by (simp only: word_unat_eq_iff and_7_unat)
qed

lemma block_exec_flush_idx:
  assumes "aligned n" "p < 3" "elem_sep n c"
    and act: "rd32 s (c + 8) = act" "act AND ACT_QTY_MSK \<noteq> 0"
      "drop_bit 20 act AND ACT_TYPE_MSK = 3"
  shows "\<exists>r s'. block_exec n thr (idx_adr n 28 p) c ret s = Inr (r, s') \<and>
    (\<forall>q < 3. rd_idx s' n q =
       (let i = (if flushes act q then (wr_idx s n q - (if act_prio act = q then 1 else 0)) AND 7
                 else rd_idx s n q)
        in if q = p then next_rd (act AND ACT_QTY_MSK) i else i)) \<and>
    (\<forall>q < 3. wr_idx s' n q = wr_idx s n q) \<and>
    r = (if rd32 s (c + 12) \<noteq> 0 then rd32 s (c + 12) else rd32 s (n + 48))"
proof -
  obtain r s1 where fl: "execFlush n c thr s = (r, s1)"
    and rd: "\<And>q. q < 3 \<Longrightarrow> rd_idx s1 n q = (if flushes act q
        then (wr_idx s n q - (if act_prio act = q then 1 else 0)) AND 7 else rd_idx s n q)"
    and wr: "\<And>q. q < 3 \<Longrightarrow> wr_idx s1 n q = wr_idx s n q"
    and dst: "r = (if rd32 s (c + 12) \<noteq> 0 then rd32 s (c + 12) else rd32 s (n + 48))"
    using execFlush_idx[OF assms(3) act(1)] by blast
  note ne = apart_num[OF assms(3)]
  have ne': "c + 8 \<noteq> n + 28" "c + 8 \<noteq> n + 24" by (rule ne(1); simp)+
  have a: "actionFuncs (drop_bit 20 act AND ACT_TYPE_MSK) n c thr s = Inr (r, s1)"
    using act(3) fl by (simp add: actionFuncs_def act_types_def dm_layout)
  show ?thesis
    using block_exec_action[OF assms(1,2) act(1,2) a ne'(1), of ret] rd wr ne' assms(2)
    by (auto simp: rd_idx_def wr_idx_def mem_simps Let_def dst)
qed

lemma idx_step_neq: "w < 8 \<Longrightarrow> (w + 1) AND 7 \<noteq> (w :: u8)"
proof
  assume w: "w < 8" "(w + 1) AND 7 = w"
  have lt: "unat w < 8" using w(1) by (simp add: word_less_nat_alt)
  hence "unat (w + 1) = unat w + 1" by (simp only: unat8_add unat_1) simp
  hence "(unat w + 1) mod 8 = unat w" using and_7_unat[of "w + 1"] w(2) by (simp only:)
  thus False using lt by presburger
qed

text \<open>
  C10. Executing a flush command with one execution left, sitting in the queue its priority field
  names: every queue in its flush mask is empty afterwards, the flush's own queue included, the
  other queues keep their commands, and the flush itself is popped.
\<close>

theorem block_exec_flush:
  assumes "aligned n" "p < 3" "elem_sep n c"
    and act: "rd32 s (c + T_CMD_ACT) = act" "act AND ACT_QTY_MSK = 1"
      "drop_bit 20 act AND ACT_TYPE_MSK = 3" "act_prio act = p"
  shows "\<exists>r s'. block_exec n thr (idx_adr n BLOCK_CMDQ_RD_IDXS p) c ret s = Inr (r, s') \<and>
    (\<forall>q < 3. wr_idx s' n q = wr_idx s n q) \<and>
    (\<forall>q < 3. rd_idx s' n q =
       (if flushes act q then wr_idx s n q AND 7
        else if q = p then (rd_idx s n q + 1) AND 7 else rd_idx s n q))"
proof -
  have "act AND ACT_QTY_MSK \<noteq> 0" "rd32 s (c + 8) = act" using act by (simp_all add: dm_layout)
  then obtain r s' where ex: "block_exec n thr (idx_adr n 28 p) c ret s = Inr (r, s')"
    and rd: "\<And>q. q < 3 \<Longrightarrow> rd_idx s' n q =
       (let i = (if flushes act q then (wr_idx s n q - (if act_prio act = q then 1 else 0)) AND 7
                 else rd_idx s n q)
        in if q = p then next_rd (act AND ACT_QTY_MSK) i else i)"
    and wr: "\<And>q. q < 3 \<Longrightarrow> wr_idx s' n q = wr_idx s n q"
    using block_exec_flush_idx[OF assms(1-3) _ _ act(3), of s thr ret] by blast
  show ?thesis
    using ex wr rd act(2,4)
    by (intro exI[of _ r] exI[of _ s'])
      (auto simp: dm_layout next_rd_def Let_def idx_back_forth)
qed

text \<open>
  A flush of its own queue with more than one execution left does not empty that queue: the
  read index is left one behind the write index, so the queue still reports a pending command.
\<close>

theorem block_exec_flush_repeat:
  assumes "aligned n" "p < 3" "elem_sep n c" "wr_idx s n p < 8"
    and act: "rd32 s (c + T_CMD_ACT) = act" "1 < act AND ACT_QTY_MSK"
      "drop_bit 20 act AND ACT_TYPE_MSK = 3" "act_prio act = p" "flushes act p"
  shows "\<exists>r s'. block_exec n thr (idx_adr n BLOCK_CMDQ_RD_IDXS p) c ret s = Inr (r, s') \<and>
    rd_idx s' n p = (wr_idx s n p - 1) AND 7 \<and> rd_idx s' n p \<noteq> wr_idx s' n p"
proof -
  have q: "act AND ACT_QTY_MSK \<noteq> 0" "act AND ACT_QTY_MSK \<noteq> 1" "rd32 s (c + 8) = act"
    using act by (auto simp: dm_layout)
  obtain r s' where ex: "block_exec n thr (idx_adr n 28 p) c ret s = Inr (r, s')"
    and rd: "\<And>q. q < 3 \<Longrightarrow> rd_idx s' n q =
       (let i = (if flushes act q then (wr_idx s n q - (if act_prio act = q then 1 else 0)) AND 7
                 else rd_idx s n q)
        in if q = p then next_rd (act AND ACT_QTY_MSK) i else i)"
    and wr: "\<And>q. q < 3 \<Longrightarrow> wr_idx s' n q = wr_idx s n q"
    using block_exec_flush_idx[OF assms(1-3) q(3,1) act(3), of thr ret] by blast
  have i: "(w - 1) AND 7 AND 7 = (w - 1) AND (7 :: u8)" for w :: u8 by (simp add: and.assoc)
  have "rd_idx s' n p = (wr_idx s n p - 1) AND 7"
    using rd[OF assms(2)] act(4,5) q(2) i by (simp add: Let_def next_rd_def dm_layout)
  moreover have "(w - 1) AND 7 \<noteq> w" if "w < 8" for w :: u8
  proof
    assume "(w - 1) AND 7 = w"
    hence "(unat w + 255) mod 256 mod 8 = unat w" using and_7_unat[of "w - 1"] unat8_sub1[of w] by simp
    hence "(unat w + 255) mod 8 = unat w" by (simp add: mod_mod_cancel)
    moreover have "unat w < 8" using that by (simp add: word_less_nat_alt)
    ultimately show False by presburger
  qed
  ultimately show ?thesis using ex wr[OF assms(2)] assms(4) by (auto simp: dm_layout)
qed

section \<open>Sending a command to a queue\<close>

lemma rd64_wr_other:
  "\<lbrakk>a \<noteq> b; a + 4 \<noteq> b\<rbrakk> \<Longrightarrow> rd64 (wr32 b v s) a = rd64 s a"
  by (simp add: rd64_def mem_simps)

text \<open>The time a command becomes valid: the node's time, absolute or relative to the thread.\<close>

definition cmd_valid :: "dm_state \<Rightarrow> u32 \<Rightarrow> u32 \<Rightarrow> u64" where
  "cmd_valid s n thr =
     (if drop_bit 26 (rd32 s (n + CMD_ACT)) AND ACT_VABS_MSK \<noteq> 0
      then rd64 s (n + CMD_VALID_TIME)
      else rd64 s (thr + T_TD_CURRTIME) + rd64 s (n + CMD_VALID_TIME))"

text \<open>What a command node needs to deliver to queue \<open>p\<close> of block \<open>tg\<close>, with \<open>e\<close> the element the
  write index selects.\<close>

definition cmd_ready :: "dm_state \<Rightarrow> u32 \<Rightarrow> u32 \<Rightarrow> u32 \<Rightarrow> nat \<Rightarrow> u32 \<Rightarrow> bool" where
  "cmd_ready s n thr tg p e \<longleftrightarrow>
     rd32 s (n + CMD_TARGET) = tg \<and> tg \<noteq> 0 \<and> aligned tg \<and>
     act_prio (rd32 s (n + CMD_ACT)) = p \<and> p < 3 \<and> has_q s tg p \<and>
     rd32 s (tg + BLOCK_CMDQ_FLAGS) AND BLOCK_CMDQ_DNW_SMSK = 0 \<and>
     e = cmd_elem tg p (paint n s) \<and>
     node_sep n tg \<and> elem_sep n e \<and> elem_sep tg e \<and> apart thr 32 n 52"

lemma cmd_run:
  assumes "cmd_ready s n thr tg p e"
  defines "s1 \<equiv> paint n s"
  defines "s6 \<equiv> s1\<lparr>mem := (mem s1)(e := hiW (cmd_valid s n thr), e + 4 := loW (cmd_valid s n thr),
      e + 8 := rd32 s (n + 20), e + 12 := rd32 s (n + 24), e + 16 := rd32 s (n + 28))\<rparr>"
  shows "cmd n thr s = (rd32 s (n + 48),
    wr32 (tg + 24) (setbyte (mem s (tg + 24)) p ((wr_idx s tg p + 1) AND Q_IDX_MAX_OVF_MSK)) s6)"
proof -
  have tg: "rd32 s (n + 8) = tg" "tg \<noteq> 0" "aligned tg" "p < 3" "has_q s tg p"
    and pr: "unat (drop_bit 24 (rd32 s (n + 20)) AND 3) = p"
    and dnw: "rd32 s (tg + 32) AND 1 = 0" and e: "cmd_elem tg p s1 = e"
    and sep: "node_sep n tg" "elem_sep n e" "elem_sep tg e" "apart thr 32 n 52"
    using assms(1) unfolding cmd_ready_def dm_layout act_prio_def s1_def by blast+
  have q: "drop_bit 20 (rd32 s (tg + 44)) AND bitmask p \<noteq> 0"
    using bitmask_test[OF tg(4)] tg(5) by (simp add: has_q_def rd32_def)
  have m1: "mem s1 = (mem s)(n + 44 := mem s (n + 44) OR 0x100)" by (simp add: s1_def paint_mem)
  have "n + 44 \<noteq> tg + 32" "n + 44 \<noteq> tg + 24" by (rule apart_num(1)[OF sep(1)]; simp)+
  hence tg1: "rd32 s1 (tg + 32) = rd32 s (tg + 32)" "mem s1 (tg + 24) = mem s (tg + 24)"
    by (simp_all add: m1 rd32_def)
  have "thr + 24 \<noteq> n + 44" "thr + 28 \<noteq> n + 44" by (rule apart_num(1)[OF sep(4)]; simp)+
  hence tv: "(if drop_bit 26 (rd32 s1 (n + 20)) AND 1 \<noteq> 0 then rd64 s1 (n + 12)
      else rd64 s1 (thr + 24) + rd64 s1 (n + 12)) = cmd_valid s n thr"
    by (simp add: cmd_valid_def dm_layout m1 rd32_def rd64_def add.assoc)
  have nn: "rd32 s1 (n + 20) = rd32 s (n + 20)" "rd32 s1 (n + 24) = rd32 s (n + 24)"
    "rd32 s1 (n + 28) = rd32 s (n + 28)"
    by (simp_all add: m1 rd32_def)
  have en: "e \<noteq> n + 20" "e + 4 \<noteq> n + 20" "e \<noteq> n + 24" "e + 4 \<noteq> n + 24" "e + 8 \<noteq> n + 24"
    "e \<noteq> n + 28" "e + 4 \<noteq> n + 28" "e + 8 \<noteq> n + 28" "e + 12 \<noteq> n + 28"
    by (rule apart_num[OF sep(2)]; simp)+
  have et: "e \<noteq> tg + 24" "e + 4 \<noteq> tg + 24" "e + 8 \<noteq> tg + 24" "e + 12 \<noteq> tg + 24" "e + 16 \<noteq> tg + 24"
    by (rule apart_num[OF sep(3)]; simp)+
  let ?v = "cmd_valid s n thr"
  let ?s2 = "wr32 e (hiW ?v) s1" let ?s3 = "wr32 (e + 4) (loW ?v) ?s2"
  let ?s4 = "wr32 (e + 8) (rd32 s (n + 20)) ?s3" let ?s5 = "wr32 (e + 12) (rd32 s (n + 24)) ?s4"
  let ?s6 = "wr32 (e + 16) (rd32 s (n + 28)) ?s5"
  have r: "rd32 ?s3 (n + 20) = rd32 s (n + 20)" "rd32 ?s4 (n + 24) = rd32 s (n + 24)"
    "rd32 ?s5 (n + 28) = rd32 s (n + 28)"
    using en nn by (simp_all add: rd32_wr32_other)
  have s6: "?s6 = s6" by (simp add: s6_def wr32_def)
  have w: "mem s6 (tg + 24) = mem s (tg + 24)" using et tg1 by (simp add: s6_def)
  have i: "rd8 s6 (idx_adr tg 24 p) = wr_idx s tg p"
    "wr8 (idx_adr tg 24 p) b s6 = wr32 (tg + 24) (setbyte (mem s (tg + 24)) p b) s6" for b
    using rd8_idx(1)[OF tg(3), of p s6] wr8_idx(1)[OF tg(3), of p b s6] tg(4) w
    by (simp_all add: wr_idx_def)
  show ?thesis
    unfolding cmd_def dm_layout Let_def def_dest_def tg(1) pr s1_def[symmetric] e tv
    using q tg(2) dnw tg1 r s6 i by (simp add: add.assoc dm_layout)
qed

lemma cmd_effect:
  assumes "cmd_ready s n thr tg p e"
  shows "\<exists>s'. cmd n thr s = (rd32 s (n + 48), s') \<and>
    rd64 s' (e) = cmd_valid s n thr \<and>
    rd32 s' (e + 8) = rd32 s (n + 20) \<and>
    rd32 s' (e + 12) = rd32 s (n + 24) \<and>
    rd32 s' (e + 16) = rd32 s (n + 28) \<and>
    wr_idx s' tg p = (wr_idx s tg p + 1) AND 7 \<and>
    (\<forall>q < 3. q \<noteq> p \<longrightarrow> wr_idx s' tg q = wr_idx s tg q) \<and>
    (\<forall>q < 3. rd_idx s' tg q = rd_idx s tg q) \<and>
    mem s' (tg + 32) = mem s (tg + 32) \<and> mem s' (tg + 44) = mem s (tg + 44) \<and>
    clk s' = clk s \<and> ticks s' = ticks s"
proof -
  have sep: "node_sep n tg" "elem_sep tg e" and p: "p < 3"
    using assms unfolding cmd_ready_def by blast+
  have "e \<noteq> tg + 24" "e + 4 \<noteq> tg + 24" "e + 8 \<noteq> tg + 24" "e + 12 \<noteq> tg + 24" "e + 16 \<noteq> tg + 24"
    "e \<noteq> tg + 28" "e + 4 \<noteq> tg + 28" "e + 8 \<noteq> tg + 28" "e + 12 \<noteq> tg + 28" "e + 16 \<noteq> tg + 28"
    by (rule apart_num[OF sep(2)]; simp)+
  moreover have "n + 44 \<noteq> tg + 28" "n + 44 \<noteq> tg + 32" "n + 44 \<noteq> tg + 44" by (rule apart_num(1)[OF sep(1)]; simp)+
  moreover have "e \<noteq> tg + 32" "e + 4 \<noteq> tg + 32" "e + 8 \<noteq> tg + 32" "e + 12 \<noteq> tg + 32" "e + 16 \<noteq> tg + 32"
    "e \<noteq> tg + 44" "e + 4 \<noteq> tg + 44" "e + 8 \<noteq> tg + 44" "e + 12 \<noteq> tg + 44" "e + 16 \<noteq> tg + 44"
    by (rule apart_num[OF sep(2)]; simp)+
  ultimately show ?thesis
    unfolding cmd_run[OF assms] using p
    by (auto simp: dm_layout rd32_def rd64_def mem_simps wr_idx_def rd_idx_def paint_mem add.assoc)
qed

text \<open>
  C11. A command node appends its command to the queue of its target that its priority names: the
  element the write index selects holds the valid time (absolute, or relative to the thread's
  current time) and the three action words of the node, and only that write index advances, by one
  modulo eight.
\<close>

theorem cmd_enqueue:
  assumes "cmd_ready s n thr tg p e"
  shows "\<exists>s'. cmd n thr s = (rd32 s (n + NODE_DEF_DEST_PTR), s') \<and>
    rd64 s' (e + T_CMD_TIME) = cmd_valid s n thr \<and>
    rd32 s' (e + T_CMD_ACT) = rd32 s (n + CMD_ACT) \<and>
    rd32 s' (e + T_CMD_ACT + 4) = rd32 s (n + CMD_ACT + 4) \<and>
    rd32 s' (e + T_CMD_ACT + 8) = rd32 s (n + CMD_ACT + 8) \<and>
    wr_idx s' tg p = (wr_idx s tg p + 1) AND 7 \<and>
    (\<forall>q < 3. q \<noteq> p \<longrightarrow> wr_idx s' tg q = wr_idx s tg q) \<and>
    (\<forall>q < 3. rd_idx s' tg q = rd_idx s tg q)"
  using cmd_effect[OF assms] by (auto simp: dm_layout add.assoc)

section \<open>From a command node through the queue to the block\<close>

lemma buf_offs_val: "buf_offs i = 0 \<or> buf_offs i = 4"
proof -
  have "unat (i AND 3 :: u8) < 4"
  proof -
    have "(3 :: u8) = mask 2" by (simp add: mask_eq_exp_minus_1)
    hence "i AND 3 = take_bit 2 i" by (simp only: take_bit_eq_mask)
    thus ?thesis by (simp add: take_bit_eq_mod unat_mod_distrib)
  qed
  hence "unat (i AND 3) \<in> {0, 1, 2, 3}" by auto
  hence "(of_nat (unat (i AND 3)) :: u8) \<in> of_nat ` {0, 1, 2, 3}" by blast
  hence "i AND 3 \<in> {0, 1, 2, 3}" by simp
  thus ?thesis by (auto simp: buf_offs_def dm_layout)
qed

text \<open>For a block in the CPU's own RAM the sender and the block address the same element.\<close>

lemma cmd_elem_own:
  assumes "tg AND NOT (ram_size s - 1) = int_base_adr s" "aligned tg" "p < 3"
  shows "cmd_elem tg p s =
    (let bl = rd32 s (tg + 12 + of_nat p * 4); i = wr_idx s tg p
     in rd32 s (bl + buf_offs i) + el_offs i)"
  using assms rd8_idx(1)[OF assms(2), of p s]
  by (simp add: cmd_elem_def Let_def wr_idx_def dm_layout del: bit.conj_disj_distrib)

lemma block_elem_alt:
  assumes "aligned n" "p < 3"
  shows "block_elem n p s =
    (let bl = rd32 s (n + 12 + of_nat p * 4); i = rd_idx s n p
     in rd32 s (bl + buf_offs i) + el_offs i)"
  using assms rd8_idx(2)[OF assms(1), of p s] by (simp add: block_elem_def Let_def rd_idx_def dm_layout)

text \<open>The buffer list \<open>bl\<close> of queue \<open>p\<close> overlaps neither node nor element.\<close>

definition list_ok :: "dm_state \<Rightarrow> u32 \<Rightarrow> u32 \<Rightarrow> nat \<Rightarrow> u32 \<Rightarrow> bool" where
  "list_ok s n tg p e \<longleftrightarrow> (let bl = rd32 s (tg + 12 + of_nat p * 4)
     in apart bl 8 n 52 \<and> apart bl 8 tg 52 \<and> apart bl 8 e 20)"

lemma elem_after_cmd:
  assumes r: "cmd_ready s n thr tg p e" and l: "list_ok s n tg p e"
    and own: "tg AND NOT (ram_size s - 1) = int_base_adr s"
    and empty: "rd_idx s tg p = wr_idx s tg p"
  shows "block_elem tg p (paint tg (snd (cmd n thr s))) = e"
proof -
  have tg: "aligned tg" "p < 3" and e: "e = cmd_elem tg p (paint n s)"
    and sep: "node_sep n tg" "elem_sep tg e"
    using r unfolding cmd_ready_def by blast+
  let ?bl = "rd32 s (tg + 12 + of_nat p * 4)" and ?i = "wr_idx s tg p"
  let ?s' = "paint tg (snd (cmd n thr s))"
  have la: "apart ?bl 8 n 52" "apart ?bl 8 tg 52" "apart ?bl 8 e 20"
    using l by (simp_all add: list_ok_def Let_def)
  have p4: "12 + of_nat p * 4 = (of_nat (12 + p * 4) :: u32)" by simp
  have ptr: "n + 44 \<noteq> tg + of_nat (12 + p * 4)" "tg + 24 \<noteq> tg + of_nat (12 + p * 4)"
    "tg + 44 \<noteq> tg + of_nat (12 + p * 4)"
    using apart_neq[OF sep(1), of 44 "12 + p * 4"] tg(2) of_nat32_inj[of 24 "12 + p * 4"]
      of_nat32_inj[of 44 "12 + p * 4"] by auto
  have ptr': "e + of_nat k \<noteq> tg + of_nat (12 + p * 4)" if "k < 20" for k
    using apart_neq[OF sep(2) that, of "12 + p * 4"] tg(2) by simp
  have ptr'': "e \<noteq> tg + of_nat (12 + p * 4)" "e + 4 \<noteq> tg + of_nat (12 + p * 4)"
    "e + 8 \<noteq> tg + of_nat (12 + p * 4)" "e + 12 \<noteq> tg + of_nat (12 + p * 4)"
    "e + 16 \<noteq> tg + of_nat (12 + p * 4)"
    using ptr'[of 0] ptr'[of 4] ptr'[of 8] ptr'[of 12] ptr'[of 16] by simp_all
  have bo: "buf_offs ?i = 0 \<or> buf_offs ?i = 4" by (rule buf_offs_val)
  have bl: "?bl + buf_offs ?i \<noteq> n + 44 \<and> ?bl + buf_offs ?i \<noteq> tg + 24 \<and> ?bl + buf_offs ?i \<noteq> tg + 44 \<and>
      ?bl + buf_offs ?i \<noteq> e \<and> ?bl + buf_offs ?i \<noteq> e + 4 \<and> ?bl + buf_offs ?i \<noteq> e + 8 \<and>
      ?bl + buf_offs ?i \<noteq> e + 12 \<and> ?bl + buf_offs ?i \<noteq> e + 16"
    using bo
  proof
    assume "buf_offs ?i = 0"
    thus ?thesis by (simp only: add_0_right) (intro conjI apart_num[OF la(1)] apart_num[OF la(2)]
        apart_num[OF la(3)]; simp)
  next
    assume "buf_offs ?i = 4"
    thus ?thesis by (simp only:) (intro conjI apart_num[OF la(1)] apart_num[OF la(2)]
        apart_num[OF la(3)]; simp)
  qed
  have own': "tg AND NOT (ram_size (paint n s) - 1) = int_base_adr (paint n s)"
    using own by (simp add: paint_def wr32_def)
  have nt: "n + 44 \<noteq> tg + 24" "n + 44 \<noteq> tg + 28" by (rule apart_num(1)[OF sep(1)]; simp)+
  have et: "e \<noteq> tg + 28" "e + 4 \<noteq> tg + 28" "e + 8 \<noteq> tg + 28" "e + 12 \<noteq> tg + 28" "e + 16 \<noteq> tg + 28"
    by (rule apart_num[OF sep(2)]; simp)+
  have m: "mem ?s' a = mem s a"
    if "a \<noteq> n + 44" "a \<noteq> tg + 24" "a \<noteq> tg + 44" "a \<noteq> e" "a \<noteq> e + 4" "a \<noteq> e + 8" "a \<noteq> e + 12" "a \<noteq> e + 16" for a
    using that unfolding cmd_run[OF r] by (simp add: paint_mem mem_simps)
  have p4': "tg + 12 + of_nat p * 4 = tg + of_nat (12 + p * 4)" by simp
  have bl': "rd32 ?s' (tg + 12 + of_nat p * 4) = ?bl"
    unfolding rd32_def p4' by (rule m; (rule ptr[symmetric] ptr''[symmetric])?)
  have i': "rd_idx ?s' tg p = ?i"
    using empty m[of "tg + 28"] nt et by (simp add: rd_idx_def)
  have el: "mem ?s' (?bl + buf_offs ?i) = mem s (?bl + buf_offs ?i)"
    using m[of "?bl + buf_offs ?i"] bl by blast
  have "e = rd32 (paint n s) (rd32 (paint n s) (tg + 12 + of_nat p * 4) + buf_offs (wr_idx (paint n s) tg p))
      + el_offs (wr_idx (paint n s) tg p)"
    using e cmd_elem_own[OF own' tg(1,2)] by (simp add: Let_def)
  moreover have "rd32 (paint n s) (tg + 12 + of_nat p * 4) = ?bl"
    unfolding rd32_def p4' using ptr(1) by (simp add: paint_mem)
  moreover have "wr_idx (paint n s) tg p = ?i" using nt by (simp add: wr_idx_def paint_mem)
  moreover have "rd32 (paint n s) (?bl + buf_offs ?i) = rd32 s (?bl + buf_offs ?i)"
    using bl by (simp add: rd32_def paint_mem)
  ultimately show ?thesis
    using block_elem_alt[OF tg, of ?s'] bl' i' el by (simp add: Let_def rd32_def)
qed

lemma bit_256: "\<not> bit (256 :: u32) (20 + q)"
  using bit_exp_iff[where 'a = "32 word", of 8 "20 + q"] by simp

text \<open>
  C12. From command node to block: a flow command sent to a block whose queues are empty is the one
  the block executes once its valid time has come; the block continues at the flow's destination
  and its queues are empty again.
\<close>

theorem cmd_then_block:
  assumes r: "cmd_ready s n thr tg p e" and l: "list_ok s n tg p e"
    and own: "tg AND NOT (ram_size s - 1) = int_base_adr s"
    and empty: "\<forall>q < 3. rd_idx s tg q = wr_idx s tg q" "wr_idx s tg p < 8"
    and flow: "drop_bit 20 (rd32 s (n + CMD_ACT)) AND ACT_TYPE_MSK = 2"
      "rd32 s (n + CMD_ACT) AND ACT_QTY_MSK = 1"
    and dnr: "rd32 s (tg + BLOCK_CMDQ_FLAGS) AND BLOCK_CMDQ_DNR_SMSK = 0"
    and time: "\<forall>k \<le> 3. cmd_valid s n thr \<le> clk s (ticks s + k)"
  shows "\<exists>s2. block tg thr' (snd (cmd n thr s)) = Inr (rd32 s (n + CMD_ACT + 4), s2) \<and>
    (\<forall>q < 3. rd_idx s2 tg q = wr_idx s2 tg q)"
proof -
  let ?act = "rd32 s (n + 20)"
  have tg: "aligned tg" "p < 3" "has_q s tg p" and sep: "elem_sep tg e" "node_sep n tg"
    using r unfolding cmd_ready_def by blast+
  obtain s1 where s1: "cmd n thr s = (rd32 s (n + 48), s1)"
    and el: "rd64 s1 e = cmd_valid s n thr" "rd32 s1 (e + 8) = ?act" "rd32 s1 (e + 12) = rd32 s (n + 24)"
    and wp: "wr_idx s1 tg p = (wr_idx s tg p + 1) AND 7"
    and wq: "\<And>q. q < 3 \<Longrightarrow> q \<noteq> p \<Longrightarrow> wr_idx s1 tg q = wr_idx s tg q"
    and rq: "\<And>q. q < 3 \<Longrightarrow> rd_idx s1 tg q = rd_idx s tg q"
    and keep: "mem s1 (tg + 32) = mem s (tg + 32)" "mem s1 (tg + 44) = mem s (tg + 44)"
      "clk s1 = clk s" "ticks s1 = ticks s"
    using cmd_effect[OF r] by blast
  let ?s1 = "paint tg s1"
  have be: "block_elem tg p ?s1 = e"
    using elem_after_cmd[OF r l own] empty(1) tg(2) by (simp add: s1)
  have idx: "rd_idx ?s1 tg q = rd_idx s1 tg q" "wr_idx ?s1 tg q = wr_idx s1 tg q"
    "has_q ?s1 tg q = has_q s tg q" if "q < 3" for q
    using bit_256 keep(2) by (auto simp: rd_idx_def wr_idx_def has_q_def paint_mem bit_or_iff)
  have te: "tg + 44 \<noteq> e" "tg + 44 \<noteq> e + 4" "tg + 44 \<noteq> e + 8" "tg + 44 \<noteq> e + 12" "tg + 44 \<noteq> e + 16"
    by (rule not_sym, rule apart_num[OF sep(1)]; simp)+
  have vt: "valid_time ?s1 tg p = cmd_valid s n thr"
    using el(1) te by (simp add: valid_time_def be rd64_def paint_mem)
  have pend: "pending ?s1 tg q \<longleftrightarrow> q = p" if "q < 3" for q
  proof (cases "q = p")
    case True
    have "wr_idx s tg p \<noteq> (wr_idx s tg p + 1) AND 7"
      using idx_step_neq[OF empty(2)] by metis
    thus ?thesis using True tg(3) idx[OF tg(2)] rq[OF tg(2)] wp empty(1) tg(2) by (simp add: pending_def)
  next
    case False
    thus ?thesis using idx[OF that] rq[OF that] wq[OF that False] empty(1) that by (simp add: pending_def)
  qed
  have le: "cmd_valid s n thr \<le> clk s (ticks s + k)" if "k \<le> 3" for k
    using time that by blast
  have st: "stable ?s1 tg"
    unfolding stable_def
  proof (intro ballI impI)
    fix q k assume q: "q \<in> set [0, 1, 2]" "pending ?s1 tg q" and "k \<in> set [0, 1, 2, 3 :: nat]"
    hence "k \<le> 3" by auto
    have "q = p" using pend q by auto
    thus "(valid_time ?s1 tg q \<le> clk ?s1 (ticks ?s1 + k)) = (valid_time ?s1 tg q \<le> clk ?s1 (ticks ?s1))"
      using vt le[OF \<open>k \<le> 3\<close>] le[of 0] keep by simp
  qed
  have "takeable ?s1 tg q \<longleftrightarrow> q = p" if "q < 3" for q
    using pend[OF that] vt le[of 0] keep by (auto simp: takeable_def)
  hence "filter (takeable ?s1 tg) [2, 1, 0] = filter (\<lambda>q. q = p) [2, 1, 0]"
    by (intro filter_cong) auto
  also have "\<dots> = [p]" using tg(2) by (auto simp: less_Suc_eq numeral_3_eq_3)
  finally have f: "filter (takeable ?s1 tg) [2, 1, 0] = [p]" .
  have dnr': "rd32 s1 (tg + BLOCK_CMDQ_FLAGS) AND BLOCK_CMDQ_DNR_SMSK = 0"
    using dnr keep(1) by (simp add: rd32_def dm_layout)
  obtain j where j: "block tg thr' s1 = block_exec tg thr' (idx_adr tg 28 p) (block_elem tg p ?s1)
      (rd32 s1 (tg + 48)) (tick j ?s1)"
    using block_take[OF tg(1) st dnr' f] by blast
  let ?t = "tick j ?s1"
  have rt: "rd32 ?t (e + 8) = ?act" "rd32 ?t (e + 12) = rd32 s (n + 24)"
    using el te by (simp_all add: rd32_def paint_mem)
  have a: "?act AND ACT_QTY_MSK = 1" "drop_bit 20 ?act AND ACT_TYPE_MSK = 2"
    using flow by (simp_all add: dm_layout)
  have tk: "rd_idx ?t tg q = rd_idx ?s1 tg q" "wr_idx ?t tg q = wr_idx ?s1 tg q" for q
    by (simp_all add: rd_idx_def wr_idx_def)
  have a0: "?act AND ACT_QTY_MSK \<noteq> 0" using a(1) by simp
  obtain s2 where s2: "block_exec tg thr' (idx_adr tg 28 p) e (rd32 s1 (tg + 48)) ?t
      = Inr (rd32 s (n + 24), s2)"
    and r2: "rd_idx s2 tg p = next_rd 1 (rd_idx ?t tg p)"
      "\<forall>q < 3. q \<noteq> p \<longrightarrow> rd_idx s2 tg q = rd_idx ?t tg q"
      "\<forall>q < 3. wr_idx s2 tg q = wr_idx ?t tg q"
    using flow_exec[OF tg(1,2) sep(1) rt(1) a0 a(2), of thr' "rd32 s1 (tg + 48)"]
    unfolding rt(2) a(1) by blast
  have "rd_idx s2 tg q = wr_idx s2 tg q" if "q < 3" for q
  proof (cases "q = p")
    case True
    have "next_rd 1 (rd_idx s tg p) = (wr_idx s tg p + 1) AND 7"
      using empty(1) tg(2) by (simp add: next_rd_def dm_layout)
    thus ?thesis using r2 True that tk idx rq wp by simp
  next
    case False
    thus ?thesis using r2 that tk idx rq wq empty(1) by simp
  qed
  moreover have "block tg thr' s1 = Inr (rd32 s (n + 24), s2)" using j s2 by (simp add: be)
  ultimately show ?thesis by (intro exI[of _ s2]) (simp add: s1 dm_layout ac_simps)
qed

section \<open>A command that becomes valid in the middle of the search\<close>

lemma paint_queue:
  "rd_idx (paint n s) n q = rd_idx s n q" "wr_idx (paint n s) n q = wr_idx s n q"
  "has_q (paint n s) n q = has_q s n q" "pending (paint n s) n q = pending s n q"
  using bit_256 by (auto simp: rd_idx_def wr_idx_def has_q_def pending_def paint_mem bit_or_iff)

text \<open>
  The search reads the clock once per pending command, and once more after it.  When the only
  pending command, in the interlock queue of a block that also has the low priority queue, becomes
  valid between the two reads, it is executed, but the index that advances is that of the low
  priority queue: the executed command stays in its queue and the empty queue reports a command.
\<close>

theorem block_race:
  assumes "aligned n" "rd32 s (n + BLOCK_CMDQ_FLAGS) AND BLOCK_CMDQ_DNR_SMSK = 0"
    and q: "has_q s n 0" "pending s n 2" "rd_idx s n 0 = wr_idx s n 0" "rd_idx s n 1 = wr_idx s n 1"
    and c: "block_elem n 2 (paint n s) = c" "elem_sep n c"
    and flow: "drop_bit 20 (rd32 s (c + T_CMD_ACT)) AND ACT_TYPE_MSK = 2"
      "rd32 s (c + T_CMD_ACT) AND ACT_QTY_MSK = 1"
    and time: "clk s (ticks s) < rd64 s (c + T_CMD_TIME)" "rd64 s (c + T_CMD_TIME) \<le> clk s (ticks s + 1)"
  shows "\<exists>s'. block n thr s = Inr (rd32 s (c + T_CMD_FLOW_DEST), s') \<and>
    rd_idx s' n 2 = rd_idx s n 2 \<and> rd_idx s' n 0 = (rd_idx s n 0 + 1) AND 7 \<and>
    (\<forall>q < 3. wr_idx s' n q = wr_idx s n q)"
proof -
  let ?s1 = "paint n s"
  have ne: "n + 44 \<noteq> c" "n + 44 \<noteq> c + 4" "n + 44 \<noteq> c + 8" "n + 44 \<noteq> c + 12"
    by (rule not_sym, rule apart_num[OF c(2)]; simp)+
  have vt: "valid_time ?s1 n 2 = rd64 s c"
    using ne by (simp add: valid_time_def c(1) rd64_def paint_mem)
  have np: "\<not> pending ?s1 n 1" "\<not> pending ?s1 n 0" "pending ?s1 n 2" "has_q ?s1 n 0"
    using q by (simp_all add: paint_queue pending_def)
  have t: "clk s (ticks s) < rd64 s c" "rd64 s c \<le> clk s (Suc (ticks s))"
    using time by (simp_all add: dm_layout)
  have less: "(2::nat) < 3" "(1::nat) < 3" "(0::nat) < 3" by simp_all
  have scan: "block_scan [2, 1, 0] n None None (tick 0 ?s1)
      = (Some (idx_adr n 28 0), Some c, tick 1 ?s1)"
    unfolding block_scan_step[OF assms(1) less(1)] block_scan_step[OF assms(1) less(2)]
      block_scan_step[OF assms(1) less(3)]
    using np by (simp add: vt c(1) t(1)[unfolded not_le[symmetric]])
  let ?t = "tick 2 ?s1"
  have b: "block n thr s = block_exec n thr (idx_adr n 28 0) c (rd32 s (n + 48)) ?t"
    unfolding block_unfold[OF less(1) np(3) assms(2)] scan
    using ne by (simp add: getSysTime_tick dm_layout rd64_def paint_mem numeral_2_eq_2
        t(2)[unfolded not_less[symmetric] rd64_def])
  have f: "rd32 ?t (c + 8) = rd32 s (c + 8)" "rd32 ?t (c + 12) = rd32 s (c + 12)"
    using ne by (simp_all add: rd32_def paint_mem)
  have a: "rd32 s (c + 8) AND ACT_QTY_MSK = 1" "drop_bit 20 (rd32 s (c + 8)) AND ACT_TYPE_MSK = 2"
    "rd32 s (c + 8) AND ACT_QTY_MSK \<noteq> 0"
    using flow by (simp_all add: dm_layout)
  have tk: "rd_idx ?t n q = rd_idx s n q" "wr_idx ?t n q = wr_idx s n q" for q
    using paint_queue(1,2)[of n s q] by (simp_all add: rd_idx_def wr_idx_def)
  obtain s' where "block_exec n thr (idx_adr n 28 0) c (rd32 s (n + 48)) ?t = Inr (rd32 s (c + 12), s')"
    and "rd_idx s' n 0 = next_rd 1 (rd_idx s n 0)"
      "\<forall>q < 3. q \<noteq> 0 \<longrightarrow> rd_idx s' n q = rd_idx s n q"
      "\<forall>q < 3. wr_idx s' n q = wr_idx s n q"
    using flow_exec[OF assms(1) less(3) c(2) f(1) a(3,2), of thr "rd32 s (n + 48)"]
    unfolding f(2) a(1) tk by blast
  thus ?thesis unfolding b by (intro exI[of _ s']) (simp add: dm_layout next_rd_def)
qed

section \<open>Examples\<close>

text \<open>A command node at 0x10003000 that sends a flow command to the low priority queue of the block
  at 0x10002000, whose three queues are empty.  The buffer list of that queue is at 0x10002100, its
  first buffer at 0x10002200.\<close>

definition q_mem :: "u32 \<Rightarrow> u32" where
  "q_mem a =
     (if a = 0x10003008 then 0x10002000 else if a = 0x10003010 then 5
      else if a = 0x10003014 then 0x04200001 else if a = 0x10003018 then 0x10002300
      else if a = 0x10003030 then 0x10002400
      else if a = 0x1000200c then 0x10002100 else if a = 0x10002100 then 0x10002200
      else if a = 0x10002014 then 0x10002140 else if a = 0x10002140 then 0x10002280
      else if a = 0x1000202c then 0x00700007 else if a = 0x10002030 then 0x10002500
      else 0)"

definition q_example :: dm_state where
  "q_example = dm_blank\<lparr>mem := q_mem, clk := (\<lambda>_. 1000)\<rparr>"

text \<open>The same block with a flow command pending in the low priority queue.\<close>

definition q_flow_example :: dm_state where
  "q_flow_example = q_example\<lparr>mem := q_mem(0x10002018 := 1, 0x10002208 := 0x00200001, 0x1000220c := 0x10002300)\<rparr>"

text \<open>The same block with a flush of the low priority queue pending in that queue, one or two times.\<close>

definition q_flush_example :: "u32 \<Rightarrow> dm_state" where
  "q_flush_example qty = q_example\<lparr>mem := q_mem(0x10002018 := 1, 0x10002208 := 0x10300000 OR qty)\<rparr>"

lemma q_example_sel:
  "mem q_example = q_mem" "mem q_flow_example = q_mem(0x10002018 := 1, 0x10002208 := 0x00200001, 0x1000220c := 0x10002300)"
  "mem (q_flush_example k) = q_mem(0x10002018 := 1, 0x10002208 := 0x10300000 OR k)"
  "clk q_example = (\<lambda>_. 1000)" "clk q_flow_example = (\<lambda>_. 1000)"
  "int_base_adr q_example = 0x10000000" "ram_size q_example = 0x20000"
  by (simp_all add: q_example_def q_flow_example_def q_flush_example_def dm_blank_def)

lemmas q_defs = q_example_sel q_mem_def
  rd32_def rd64_def rd_idx_def wr_idx_def getbyte_def aligned_def apart_def dm_layout

lemma block_default_witness:
  "block 0x10002000 0x1214 q_example = Inr (0x10002500, paint 0x10002000 q_example)"
proof -
  have "\<forall>p < 3. wr_idx q_example 0x10002000 p = rd_idx q_example 0x10002000 p"
    by (simp add: q_defs)
  from block_default[OF disjI2[OF this]] show ?thesis by (simp add: q_defs)
qed

lemma q_flow_facts:
  "aligned 0x10002000" "pending (paint 0x10002000 q_flow_example) 0x10002000 0"
  "stable (paint 0x10002000 q_flow_example) 0x10002000"
  "rd32 q_flow_example (0x10002000 + BLOCK_CMDQ_FLAGS) AND BLOCK_CMDQ_DNR_SMSK = 0"
  "filter (takeable (paint 0x10002000 q_flow_example) 0x10002000) [2, 1, 0] = [0]"
  "filter (pending (paint 0x10002000 q_flow_example) 0x10002000) [2, 1, 0] = [0]"
proof -
  have e: "block_elem 0x10002000 0 (paint 0x10002000 q_flow_example) = 0x10002200"
    by (simp add: block_elem_alt q_defs paint_mem buf_offs_def el_offs_def)
  show "pending (paint 0x10002000 q_flow_example) 0x10002000 0"
    by (simp add: pending_def has_q_def q_defs paint_mem bit_iff_odd_drop_bit)
  show "stable (paint 0x10002000 q_flow_example) 0x10002000"
    by (simp add: stable_def q_defs)
  show "filter (takeable (paint 0x10002000 q_flow_example) 0x10002000) [2, 1, 0] = [0]"
    by (simp add: takeable_def pending_def valid_time_def e has_q_def q_defs paint_mem
        bit_iff_odd_drop_bit mk64_def)
  show "filter (pending (paint 0x10002000 q_flow_example) 0x10002000) [2, 1, 0] = [0]"
    by (simp add: pending_def has_q_def q_defs paint_mem bit_iff_odd_drop_bit)
qed (simp_all add: q_defs)

lemma block_selects_witness:
  "\<exists>j \<le> 4. block 0x10002000 0x1214 q_flow_example =
     block_exec 0x10002000 0x1214 0x1000201f 0x10002200 0x10002500
       (tick j (paint 0x10002000 q_flow_example))"
proof -
  have e: "block_elem 0x10002000 0 (paint 0x10002000 q_flow_example) = 0x10002200"
    by (simp add: block_elem_alt q_defs paint_mem buf_offs_def el_offs_def)
  show ?thesis
    using block_selects[OF q_flow_facts(1,3), of "0x1214", unfolded q_flow_facts(5,6)]
    by (simp add: e idx_adr_def q_defs)
qed

lemma block_exec_flow_witness:
  "\<exists>s'. block_exec 0x10002000 0x1214 0x1000201f 0x10002200 0 q_flow_example = Inr (0x10002300, s') \<and>
     rd_idx s' 0x10002000 0 = 1"
  using block_exec_flow[of "0x10002000" 0 "0x10002200" q_flow_example "0x00200001" "0x1214" 0]
  by (simp add: q_defs idx_adr_def next_rd_def) metis

lemma block_exec_flush_witness:
  "\<exists>r s'. block_exec 0x10002000 0x1214 0x1000201f 0x10002200 0 (q_flush_example 1) = Inr (r, s') \<and>
     rd_idx s' 0x10002000 0 = 1"
proof -
  let ?s = "q_flush_example 1"
  have h: "aligned 0x10002000" "(0::nat) < 3" "elem_sep 0x10002000 0x10002200"
    "rd32 ?s (0x10002200 + T_CMD_ACT) = 0x10300001" "0x10300001 AND ACT_QTY_MSK = 1"
    "drop_bit 20 0x10300001 AND ACT_TYPE_MSK = 3" "act_prio 0x10300001 = 0"
    by (simp_all add: q_defs act_prio_def)
  obtain r s' where "block_exec 0x10002000 0x1214 (idx_adr 0x10002000 BLOCK_CMDQ_RD_IDXS 0) 0x10002200 0 ?s
      = Inr (r, s')" and "rd_idx s' 0x10002000 0 = wr_idx ?s 0x10002000 0 AND 7"
    using block_exec_flush[OF h, of "0x1214" 0] by (force simp: flushes_def bit_iff_odd_drop_bit)
  thus ?thesis by (simp add: idx_adr_def wr_idx_def getbyte_def q_defs)
qed

lemma block_exec_flush_repeat_witness:
  "\<exists>r s'. block_exec 0x10002000 0x1214 0x1000201f 0x10002200 0 (q_flush_example 2) = Inr (r, s') \<and>
     rd_idx s' 0x10002000 0 = 0 \<and> wr_idx s' 0x10002000 0 \<noteq> 0"
  using block_exec_flush_repeat[of "0x10002000" 0 "0x10002200" "q_flush_example 2" "0x10300002" "0x1214" 0]
  by (simp add: q_defs idx_adr_def act_prio_def flushes_def bit_iff_odd_drop_bit) metis

lemma q_cmd_ready: "cmd_ready q_example 0x10003000 0x1214 0x10002000 0 0x10002200"
proof -
  have "cmd_elem 0x10002000 0 (paint 0x10003000 q_example) = 0x10002200"
    by (simp add: cmd_elem_def idx_adr_def rd8_def q_defs paint_mem buf_offs_def el_offs_def)
  thus ?thesis
    by (simp add: cmd_ready_def act_prio_def has_q_def q_defs bit_iff_odd_drop_bit)
qed

lemma cmd_enqueue_witness:
  "\<exists>s'. cmd 0x10003000 0x1214 q_example = (0x10002400, s') \<and> rd64 s' 0x10002200 = 5 \<and>
     wr_idx s' 0x10002000 0 = 1"
  using cmd_enqueue[OF q_cmd_ready]
  by (simp add: q_defs cmd_valid_def mk64_def) metis

lemma cmd_then_block_witness:
  "\<exists>s2. block 0x10002000 0x1234 (snd (cmd 0x10003000 0x1214 q_example)) = Inr (0x10002300, s2) \<and>
     (\<forall>q < 3. rd_idx s2 0x10002000 q = wr_idx s2 0x10002000 q)"
proof -
  have "list_ok q_example 0x10003000 0x10002000 0 0x10002200"
    by (simp add: list_ok_def q_defs)
  from cmd_then_block[OF q_cmd_ready this, of "0x1234"] show ?thesis
    by (simp add: q_defs cmd_valid_def mk64_def) 
qed

text \<open>An interlock command that becomes valid at 100, seen at 99 and at 100.\<close>

definition q_race_example :: dm_state where
  "q_race_example = q_example\<lparr>clk := (\<lambda>k. 99 + of_nat k),
     mem := q_mem(0x10002018 := 0x10000, 0x10002284 := 100, 0x10002288 := 0x02200001, 0x1000228c := 0x10002300)\<rparr>"

lemma block_race_witness:
  "\<exists>s'. block 0x10002000 0x1214 q_race_example = Inr (0x10002300, s') \<and>
     rd_idx s' 0x10002000 2 = 0 \<and> wr_idx s' 0x10002000 2 = 1 \<and>
     rd_idx s' 0x10002000 0 = 1 \<and> wr_idx s' 0x10002000 0 = 0"
proof -
  let ?s = q_race_example
  have sel: "mem ?s = q_mem(0x10002018 := 0x10000, 0x10002284 := 100, 0x10002288 := 0x02200001, 0x1000228c := 0x10002300)"
    "clk ?s = (\<lambda>k. 99 + of_nat k)" "ticks ?s = 0"
    by (simp_all add: q_race_example_def q_example_def dm_blank_def)
  have e: "block_elem 0x10002000 2 (paint 0x10002000 ?s) = 0x10002280"
    by (simp add: block_elem_alt q_defs sel paint_mem buf_offs_def el_offs_def)
  have "pending ?s 0x10002000 2" "has_q ?s 0x10002000 0"
    by (simp_all add: pending_def has_q_def q_defs sel bit_iff_odd_drop_bit)
  from block_race[OF _ _ this(2,1) _ _ e, of "0x1214"]
  obtain s' where "block 0x10002000 0x1214 ?s = Inr (0x10002300, s')" "rd_idx s' 0x10002000 2 = 0"
    "rd_idx s' 0x10002000 0 = 1" and w: "\<And>q. q < 3 \<Longrightarrow> wr_idx s' 0x10002000 q = wr_idx ?s 0x10002000 q"
    by (auto simp: q_defs sel mk64_def)
  moreover have "wr_idx ?s 0x10002000 2 = 1" "wr_idx ?s 0x10002000 0 = 0"
    by (simp_all add: q_defs sel)
  ultimately show ?thesis using w[of 2] w[of 0] by auto
qed

end
