(* ===== verification/Fw_Env.thy ===== *)
theory Fw_Env
  imports Prelude
begin

text \<open>
  The world of an LM32 firmware built on modules/common-libs: White Rabbit time,
  the Wishbone devices it reads and writes, the ECA queue that feeds it timing
  messages, and the shared memory it exchanges with the host.  Time, device
  registers and the ECA queue are streams given from outside (the n-th read
  returns the n-th value); every device write is appended to a log.  Addresses of
  devices come from the SDB search of the platform, which is not under src/.
\<close>

section \<open>Devices\<close>

text \<open>Device registers.  The register maps of the EB master and of the ECA are generated or in a
  submodule; their registers carry the names the code uses.  \<open>EBM_SLAVE\<close> is the operation window
  of the EB master, addressed by a byte offset; \<open>IOC\<close> registers
  carry the offsets of ioctl.h and wb_slaves.h, \<open>SCUBUS\<close> registers the offset in 16-bit words from
  the bus master (slot in the upper half, register in the lower), \<open>MIL\<close> registers the offset in 32-bit
  words from the MIL piggy.\<close>

datatype reg =
    EBM_SRC_MAC_RW_0 | EBM_SRC_MAC_RW_1 | EBM_SRC_IP_RW | EBM_SRC_PORT_RW
  | EBM_DST_MAC_RW_0 | EBM_DST_MAC_RW_1 | EBM_DST_IP_RW | EBM_DST_PORT_RW
  | EBM_MTU_RW | EBM_ADR_HI_RW | EBM_EB_OPT_RW | EBM_CLEAR_OWR | EBM_FLUSH_OWR
  | EBM_UDP_DATA_OWR | EBM_UDP_RAW_RW
  | EBM_OWN_IP | EBM_OWN_MAC_LO | EBM_OWN_MAC_HI
  | EBM_SLAVE u32
  | EBC_SRC_IP | WREP_MACHI | WREP_MACLO
  | IOC u32
  | SCUBUS u32
  | MIL u32
  | ECAQ_ID | ECAQ_POP
  | ECACTL_CHANNEL | ECACTL_NUM | ECACTL_CODE | ECACTL_VALID | ECACTL_OVERFLOW | ECACTL_FAILED
  | ECA_IN
  | OLED_OWR
  | TMR_PRESET | TMR_CONFIG | TMR_COUNTER | TMR_TICKLEN

datatype device =
  DEV_PPSGEN | DEV_WREP | DEV_IOCTRL | DEV_ECAQ | DEV_MILPIGGY | DEV_OLED | DEV_SBMASTER
  | DEV_WRINFO | DEV_EBM | DEV_EBM_LAST | DEV_EBCFG | DEV_ECACTL

text \<open>One action at the head of the ECA queue of the LM32.\<close>

record eca_action =
  ea_id :: u64
  ea_deadline :: u64
  ea_tag :: u32
  ea_param :: u64
  ea_tef :: u32
  ea_late :: bool
  ea_early :: bool
  ea_conflict :: bool
  ea_delayed :: bool

section \<open>The state of a firmware\<close>

text \<open>\<open>dev_adr\<close> holds the device pointers (pECAQ, pWREp, ...), zero when not found; \<open>sdb\<close> is what
  the device search answers, and \<open>eca_queues\<close> the address and channel of each ECA queue.  \<open>shm_on\<close> tells whether \<open>fwlib_init\<close> has set the pointers into the
  shared memory; before that they are null, and \<open>stray\<close> logs what is written through them.\<close>

record fw =
  wr_time :: "nat \<Rightarrow> u64"
  time_cnt :: nat
  dev_rd :: "reg \<Rightarrow> nat \<Rightarrow> u32"
  rd_cnt :: nat
  dev_out :: "(reg \<times> u32) list"
  eca_in :: "nat \<Rightarrow> eca_action option"
  polls :: nat
  sdb :: "device \<Rightarrow> u32"
  eca_queues :: "(u32 \<times> u32) list"
  dev_adr :: "device \<Rightarrow> u32"
  shm :: "u32 \<Rightarrow> u32"
  shm_on :: bool
  ram_ext :: u32
  stray :: "u32 list"
  EBM_OFFS_DAT :: u32
  EBM_OFFS_WR :: u32
  EBM_ADR_MASK :: u32
  EBM_WRITE :: u32
  EBM_READ :: u32
  nBadStatus :: u32
  nBadState :: u32
  flagRecover :: u32
  wr_time_prev :: u64

definition sys_time :: "'a fw_scheme \<Rightarrow> u64 \<times> 'a fw_scheme" where
  "sys_time s = (wr_time s (time_cnt s), s\<lparr>time_cnt := Suc (time_cnt s)\<rparr>)"

definition rd_dev :: "reg \<Rightarrow> 'a fw_scheme \<Rightarrow> u32 \<times> 'a fw_scheme" where
  "rd_dev r s = (dev_rd s r (rd_cnt s), s\<lparr>rd_cnt := Suc (rd_cnt s)\<rparr>)"

definition wr_dev :: "reg \<Rightarrow> u32 \<Rightarrow> 'a fw_scheme \<Rightarrow> 'a fw_scheme" where
  "wr_dev r v s = s\<lparr>dev_out := dev_out s @ [(r, v)]\<rparr>"

text \<open>Shared memory words by their offset; a null pointer writes elsewhere.\<close>

definition sh_wr :: "u32 \<Rightarrow> u32 \<Rightarrow> 'a fw_scheme \<Rightarrow> 'a fw_scheme" where
  "sh_wr off v s =
     (if shm_on s then s\<lparr>shm := (shm s)(off := v)\<rparr> else s\<lparr>stray := stray s @ [v]\<rparr>)"

definition sh_wr64 :: "u32 \<Rightarrow> u64 \<Rightarrow> 'a fw_scheme \<Rightarrow> 'a fw_scheme" where
  "sh_wr64 off v s = sh_wr (off + 4) (loW v) (sh_wr off (hiW v) s)"

definition sh_rd64 :: "'a fw_scheme \<Rightarrow> u32 \<Rightarrow> u64" where
  "sh_rd64 s off = mk64 (shm s off) (shm s (off + 4))"

fun sh_clear :: "u32 \<Rightarrow> nat \<Rightarrow> 'a fw_scheme \<Rightarrow> 'a fw_scheme" where
  "sh_clear off 0 s = s"
| "sh_clear off (Suc n) s = sh_clear (off + 4) n (sh_wr off 0 s)"

lemma sys_time_sel [simp]:
  "fst (sys_time s) = wr_time s (time_cnt s)" "snd (sys_time s) = s\<lparr>time_cnt := Suc (time_cnt s)\<rparr>"
  by (simp_all add: sys_time_def)

lemma wr_dev_sel [simp]:
  "dev_out (wr_dev r v s) = dev_out s @ [(r, v)]" "shm (wr_dev r v s) = shm s"
  "time_cnt (wr_dev r v s) = time_cnt s" "wr_time (wr_dev r v s) = wr_time s"
  "shm_on (wr_dev r v s) = shm_on s" "fw.more (wr_dev r v s) = fw.more s"
  "EBM_OFFS_DAT (wr_dev r v s) = EBM_OFFS_DAT s" "EBM_ADR_MASK (wr_dev r v s) = EBM_ADR_MASK s"
  "EBM_WRITE (wr_dev r v s) = EBM_WRITE s" "EBM_OFFS_WR (wr_dev r v s) = EBM_OFFS_WR s" "flagRecover (wr_dev r v s) = flagRecover s"
  "polls (wr_dev r v s) = polls s" "eca_in (wr_dev r v s) = eca_in s"
  by (simp_all add: wr_dev_def)

lemma sh_wr_sel [simp]:
  "time_cnt (sh_wr o' v s) = time_cnt s" "wr_time (sh_wr o' v s) = wr_time s"
  "dev_out (sh_wr o' v s) = dev_out s" "shm_on (sh_wr o' v s) = shm_on s"
  "fw.more (sh_wr o' v s) = fw.more s" "flagRecover (sh_wr o' v s) = flagRecover s"
  "polls (sh_wr o' v s) = polls s" "eca_in (sh_wr o' v s) = eca_in s"
  "shm (sh_wr o' v s) = (if shm_on s then (shm s)(o' := v) else shm s)"
  "stray (sh_wr o' v s) = (if shm_on s then stray s else stray s @ [v])"
  by (simp_all add: sh_wr_def)

lemma sh_clear_sel:
  "shm_on s \<Longrightarrow> shm_on (sh_clear off n s)" "dev_out (sh_clear off n s) = dev_out s"
  "fw.more (sh_clear off n s) = fw.more s" "time_cnt (sh_clear off n s) = time_cnt s"
  "wr_time (sh_clear off n s) = wr_time s" "flagRecover (sh_clear off n s) = flagRecover s"
  by (induction off n s rule: sh_clear.induct) simp_all

lemma sh_clear_other:
  assumes "\<And>i. i < n \<Longrightarrow> a \<noteq> off + 4 * of_nat i"
  shows "shm (sh_clear off n s) a = shm s a"
  using assms
proof (induction off n s rule: sh_clear.induct)
  case (2 off n s)
  have "a \<noteq> off" using 2(2)[of 0] by simp
  moreover have "a \<noteq> off + 4 + 4 * of_nat i" if "i < n" for i
    using 2(2)[of "Suc i"] that by (simp add: algebra_simps)
  ultimately show ?case using 2(1) by (simp add: sh_wr_def)
qed simp

lemma sh_clear_zero:
  assumes "shm_on s" "i < n" "n < 0x40000000"
  shows "shm (sh_clear off n s) (off + 4 * of_nat i) = 0"
  using assms
proof (induction off n s arbitrary: i rule: sh_clear.induct)
  case (2 off n s)
  let ?s = "sh_wr off 0 s"
  show ?case
  proof (cases i)
    case 0
    have "(off :: u32) \<noteq> off + 4 + 4 * of_nat j" if "j < n" for j
    proof
      assume "off = off + 4 + 4 * of_nat j"
      hence "of_nat (4 + 4 * j) = (0 :: u32)" by (simp add: algebra_simps)
      thus False using that 2(4) of_nat32_inj[of "4 + 4 * j" 0] by simp
    qed
    hence "shm (sh_clear (off + 4) n ?s) off = shm ?s off" by (intro sh_clear_other) simp
    thus ?thesis using 0 2(2) by simp
  next
    case (Suc j)
    have "shm (sh_clear (off + 4) n ?s) (off + 4 + 4 * of_nat j) = 0"
      using 2(1)[of j] 2(2-4) Suc by simp
    thus ?thesis using Suc by (simp add: algebra_simps)
  qed
qed simp

end
