(* ===== verification/Ebm.thy ===== *)
theory Ebm
  imports Fw_Env
begin

text \<open>
  The driver of the EtherBone master (modules/lm32-include/ebm.c).  An operation is
  one write into the window of the master: two address bits select the data area
  and the operation type, the bits below carry the low address bits of the slave,
  the high bits come from a register.  The address of the master and of the last
  word of its window come from the SDB search.
\<close>

section \<open>Configuration\<close>

definition ebm_init :: "'a fw_scheme \<Rightarrow> 'a fw_scheme" where
  "ebm_init s =
     (let ebmMask = dev_adr s DEV_EBM_LAST - dev_adr s DEV_EBM;
          dat = ebmMask XOR drop_bit 1 ebmMask;
          wr = drop_bit 1 dat
      in s\<lparr>EBM_ADR_MASK := drop_bit 2 ebmMask, EBM_OFFS_DAT := dat, EBM_OFFS_WR := wr,
           EBM_WRITE := wr, EBM_READ := 0\<rparr>)"

datatype target_t = SOURCE | DESTINATION

definition ebm_config_if :: "target_t \<Rightarrow> u64 \<Rightarrow> u32 \<Rightarrow> u16 \<Rightarrow> 'a fw_scheme \<Rightarrow> 'a fw_scheme" where
  "ebm_config_if conf mac ip port s =
     (let lo = (ucast mac :: u32); hi = (ucast (drop_bit 32 mac AND 0xffff) :: u32) in
      case conf of
        SOURCE \<Rightarrow>
          wr_dev EBM_SRC_PORT_RW (ucast port) (wr_dev EBM_SRC_IP_RW ip
          (wr_dev EBM_SRC_MAC_RW_1 hi (wr_dev EBM_SRC_MAC_RW_0 lo s)))
      | DESTINATION \<Rightarrow>
          wr_dev EBM_DST_PORT_RW (ucast port) (wr_dev EBM_DST_IP_RW ip
          (wr_dev EBM_DST_MAC_RW_1 hi (wr_dev EBM_DST_MAC_RW_0 lo s))))"

definition ebm_config_meta :: "u32 \<Rightarrow> u32 \<Rightarrow> u32 \<Rightarrow> 'a fw_scheme \<Rightarrow> 'a fw_scheme" where
  "ebm_config_meta mtu hi_bits eb_ops s =
     wr_dev EBM_EB_OPT_RW eb_ops (wr_dev EBM_ADR_HI_RW hi_bits (wr_dev EBM_MTU_RW mtu s))"

section \<open>Operations\<close>

definition ebm_hi :: "u32 \<Rightarrow> 'a fw_scheme \<Rightarrow> 'a fw_scheme" where
  "ebm_hi address s = wr_dev EBM_ADR_HI_RW address s"

text \<open>The C code divides the offset by four to index words: the two low bits are dropped.\<close>

definition ebm_op :: "u32 \<Rightarrow> u32 \<Rightarrow> u32 \<Rightarrow> 'a fw_scheme \<Rightarrow> 'a fw_scheme" where
  "ebm_op address val optype s =
     (let offset = EBM_OFFS_DAT s + ((address AND EBM_ADR_MASK s) + optype)
      in wr_dev (EBM_SLAVE (push_bit 2 (drop_bit 2 offset))) val s)"

definition ebm_clr :: "'a fw_scheme \<Rightarrow> 'a fw_scheme" where
  "ebm_clr s = wr_dev EBM_CLEAR_OWR 1 s"

definition ebm_flush :: "'a fw_scheme \<Rightarrow> 'a fw_scheme" where
  "ebm_flush s = wr_dev EBM_FLUSH_OWR 1 s"

definition ebm_udp :: "u32 \<Rightarrow> 'a fw_scheme \<Rightarrow> 'a fw_scheme" where
  "ebm_udp val s = wr_dev EBM_UDP_DATA_OWR val s"

definition ebm_udp_start :: "'a fw_scheme \<Rightarrow> 'a fw_scheme" where
  "ebm_udp_start s = wr_dev EBM_UDP_RAW_RW 1 s"

definition ebm_udp_end :: "'a fw_scheme \<Rightarrow> 'a fw_scheme" where
  "ebm_udp_end s = wr_dev EBM_UDP_RAW_RW 0 (ebm_flush s)"

end
