(* ===== verification/Fwlib.thy ===== *)
theory Fwlib
  imports Ebm "HOL-Library.Signed_Division"
begin

text \<open>
  The common firmware library (modules/common-libs/fw/common-fwlib.c): sub-nanosecond
  time, the network interface, EtherBone transfers, timing messages, the ECA queue,
  the shared memory published to the host, and the state machine every firmware of
  the family runs (S0, IDLE, CONFIGURED, OPREADY, STOPPING, ERROR, FATAL).  What an
  application contributes to a transition are parameters of \<open>fwlib_changeState\<close>.
\<close>

section \<open>Constants of common-defs.h\<close>

definition COMMON_AHEADT :: u64 where "COMMON_AHEADT = 500000"
definition COMMON_LATELIMIT :: u64 where "COMMON_LATELIMIT = 250000"
definition COMMON_ECA_ADDRESS :: u32 where "COMMON_ECA_ADDRESS = 0x7ffffff0"
definition COMMON_LATENCYBOGUS :: u32 where "COMMON_LATENCYBOGUS = 3142"
definition COMMON_EB_HACKISH :: u32 where "COMMON_EB_HACKISH = 0x12345678"

definition COMMON_STATUS_OK :: u32 where "COMMON_STATUS_OK = 0"
definition COMMON_STATUS_ERROR :: u32 where "COMMON_STATUS_ERROR = 1"
definition COMMON_STATUS_TIMEDOUT :: u32 where "COMMON_STATUS_TIMEDOUT = 2"
definition COMMON_STATUS_OUTOFRANGE :: u32 where "COMMON_STATUS_OUTOFRANGE = 3"
definition COMMON_STATUS_NOIP :: u32 where "COMMON_STATUS_NOIP = 5"
definition COMMON_STATUS_EBREADTIMEDOUT :: u32 where "COMMON_STATUS_EBREADTIMEDOUT = 7"
definition COMMON_STATUS_WRBADSYNC :: u32 where "COMMON_STATUS_WRBADSYNC = 8"
definition COMMON_STATUS_AUTORECOVERY :: nat where "COMMON_STATUS_AUTORECOVERY = 9"

definition COMMON_CMD_CONFIGURE :: u32 where "COMMON_CMD_CONFIGURE = 1"
definition COMMON_CMD_STARTOP :: u32 where "COMMON_CMD_STARTOP = 2"
definition COMMON_CMD_STOPOP :: u32 where "COMMON_CMD_STOPOP = 3"
definition COMMON_CMD_IDLE :: u32 where "COMMON_CMD_IDLE = 4"
definition COMMON_CMD_RECOVER :: u32 where "COMMON_CMD_RECOVER = 5"
definition COMMON_CMD_CLEARDIAG :: u32 where "COMMON_CMD_CLEARDIAG = 6"
definition COMMON_CMD_RESERVEDTILHERE :: u32 where "COMMON_CMD_RESERVEDTILHERE = 10"

definition COMMON_STATE_UNKNOWN :: u32 where "COMMON_STATE_UNKNOWN = 0"
definition COMMON_STATE_S0 :: u32 where "COMMON_STATE_S0 = 1"
definition COMMON_STATE_IDLE :: u32 where "COMMON_STATE_IDLE = 2"
definition COMMON_STATE_CONFIGURED :: u32 where "COMMON_STATE_CONFIGURED = 3"
definition COMMON_STATE_OPREADY :: u32 where "COMMON_STATE_OPREADY = 4"
definition COMMON_STATE_STOPPING :: u32 where "COMMON_STATE_STOPPING = 5"
definition COMMON_STATE_ERROR :: u32 where "COMMON_STATE_ERROR = 6"
definition COMMON_STATE_FATAL :: u32 where "COMMON_STATE_FATAL = 7"

definition COMMON_ECADO_TIMEOUT :: u32 where "COMMON_ECADO_TIMEOUT = 0"

named_theorems fw_consts "values of the common constants"

lemmas common_status [fw_consts] = COMMON_STATUS_OK_def COMMON_STATUS_ERROR_def COMMON_STATUS_TIMEDOUT_def
  COMMON_STATUS_OUTOFRANGE_def COMMON_STATUS_NOIP_def COMMON_STATUS_EBREADTIMEDOUT_def
  COMMON_STATUS_WRBADSYNC_def COMMON_STATUS_AUTORECOVERY_def COMMON_ECADO_TIMEOUT_def
  COMMON_AHEADT_def COMMON_LATELIMIT_def

lemmas common_states [fw_consts] = COMMON_STATE_UNKNOWN_def COMMON_STATE_S0_def COMMON_STATE_IDLE_def
  COMMON_STATE_CONFIGURED_def COMMON_STATE_OPREADY_def COMMON_STATE_STOPPING_def
  COMMON_STATE_ERROR_def COMMON_STATE_FATAL_def

lemmas common_cmds [fw_consts] = COMMON_CMD_CONFIGURE_def COMMON_CMD_STARTOP_def COMMON_CMD_STOPOP_def
  COMMON_CMD_IDLE_def COMMON_CMD_RECOVER_def COMMON_CMD_CLEARDIAG_def COMMON_CMD_RESERVEDTILHERE_def

text \<open>Offsets of the shared memory, in bytes; \<open>COMMON_DATA4EBSIZE\<close> is 20 words, and the region
  reserved for it is four times as large.\<close>

definition COMMON_DATA4EBSIZE :: nat where "COMMON_DATA4EBSIZE = 80"
definition COMMON_SHARED_STATUSLO :: u32 where "COMMON_SHARED_STATUSLO = 0x00"
definition COMMON_SHARED_STATUSHI :: u32 where "COMMON_SHARED_STATUSHI = 0x04"
definition COMMON_SHARED_CMD :: u32 where "COMMON_SHARED_CMD = 0x08"
definition COMMON_SHARED_STATE :: u32 where "COMMON_SHARED_STATE = 0x0c"
definition COMMON_SHARED_VERSION :: u32 where "COMMON_SHARED_VERSION = 0x10"
definition COMMON_SHARED_MACHI :: u32 where "COMMON_SHARED_MACHI = 0x14"
definition COMMON_SHARED_MACLO :: u32 where "COMMON_SHARED_MACLO = 0x18"
definition COMMON_SHARED_IP :: u32 where "COMMON_SHARED_IP = 0x1c"
definition COMMON_SHARED_NBADSTATUS :: u32 where "COMMON_SHARED_NBADSTATUS = 0x20"
definition COMMON_SHARED_NBADSTATE :: u32 where "COMMON_SHARED_NBADSTATE = 0x24"
definition COMMON_SHARED_TDIAGHI :: u32 where "COMMON_SHARED_TDIAGHI = 0x28"
definition COMMON_SHARED_TDIAGLO :: u32 where "COMMON_SHARED_TDIAGLO = 0x2c"
definition COMMON_SHARED_TS0HI :: u32 where "COMMON_SHARED_TS0HI = 0x30"
definition COMMON_SHARED_TS0LO :: u32 where "COMMON_SHARED_TS0LO = 0x34"
definition COMMON_SHARED_NTRANSFER :: u32 where "COMMON_SHARED_NTRANSFER = 0x38"
definition COMMON_SHARED_DATA_4EB :: u32 where "COMMON_SHARED_DATA_4EB = 0x8c"
definition COMMON_SHARED_USEDSIZE :: u32 where "COMMON_SHARED_USEDSIZE = 0x1cc"
definition COMMON_SHARED_END :: nat where "COMMON_SHARED_END = 0x1d0"

lemmas common_shared [fw_consts] = COMMON_DATA4EBSIZE_def COMMON_SHARED_STATUSLO_def COMMON_SHARED_STATUSHI_def
  COMMON_SHARED_CMD_def COMMON_SHARED_STATE_def COMMON_SHARED_VERSION_def COMMON_SHARED_MACHI_def
  COMMON_SHARED_MACLO_def COMMON_SHARED_IP_def COMMON_SHARED_NBADSTATUS_def COMMON_SHARED_NBADSTATE_def
  COMMON_SHARED_TDIAGHI_def COMMON_SHARED_TDIAGLO_def COMMON_SHARED_TS0HI_def COMMON_SHARED_TS0LO_def
  COMMON_SHARED_NTRANSFER_def COMMON_SHARED_DATA_4EB_def COMMON_SHARED_USEDSIZE_def COMMON_SHARED_END_def

section \<open>Times with picoseconds\<close>

text \<open>\<open>b2bt_t\<close>: nanoseconds, a signed picosecond fraction, an uncertainty.\<close>

record b2bt =
  b_ns :: u64
  b_ps :: u32
  b_dps :: u32

function clean_up :: "b2bt \<Rightarrow> b2bt" where
  "clean_up t = (if sint (b_ps t) < - 500 then clean_up (t\<lparr>b_ns := b_ns t - 1, b_ps := b_ps t + 1000\<rparr>) else t)"
  by auto

termination
proof (relation "measure (\<lambda>t. nat (- sint (b_ps t)))", goal_cases)
  case (2 t)
  have "sint (b_ps t + 1000) = sint (b_ps t) + 1000"
    using 2 sint_ge[of "b_ps t"] by (simp add: signed_take_bit_int_eq_self sint_word_ariths(1))
  thus ?case using 2 by simp
qed simp

function clean_down :: "b2bt \<Rightarrow> b2bt" where
  "clean_down t = (if sint (b_ps t) \<ge> 500 then clean_down (t\<lparr>b_ns := b_ns t + 1, b_ps := b_ps t - 1000\<rparr>) else t)"
  by auto

termination
proof (relation "measure (\<lambda>t. nat (sint (b_ps t) + 500))", goal_cases)
  case (2 t)
  have "sint (b_ps t - 1000) = sint (b_ps t) - 1000"
    using 2 sint_lt[of "b_ps t"] by (simp add: signed_take_bit_int_eq_self sint_word_ariths(2))
  thus ?case using 2 by simp
qed simp

declare clean_up.simps [simp del] clean_down.simps [simp del]

definition fwlib_cleanB2bt :: "b2bt \<Rightarrow> b2bt" where
  "fwlib_cleanB2bt t = clean_down (clean_up t)"

definition fwlib_tns2tps :: "u64 \<Rightarrow> b2bt" where
  "fwlib_tns2tps t_ns = \<lparr>b_ns = t_ns, b_ps = 0, b_dps = 0\<rparr>"

definition fwlib_tps2tns :: "b2bt \<Rightarrow> u64" where
  "fwlib_tps2tns t = b_ns (fwlib_cleanB2bt t)"

text \<open>Advance \<open>t2\<close> by full periods from \<open>t1\<close>; the comparison of the C code with the fraction is
  unsigned, the division by 1000000 signed.\<close>

definition fwlib_advanceTimePs :: "b2bt \<Rightarrow> b2bt \<Rightarrow> u64 \<Rightarrow> b2bt" where
  "fwlib_advanceTimePs t1 t2 T_as =
     (let nineO = 1000000000 :: u64 in
      if T_as = 0 \<or> b_ns t2 < b_ns t1 \<or> b_ns t2 - b_ns t1 > nineO then \<lparr>b_ns = 0, b_ps = 0, b_dps = 0\<rparr>
      else
        let dt_ps = (b_ns t2 - b_ns t1) * 1000 + scast (b_ps t2 - b_ps t1);
            dt_as = dt_ps * 1000000;
            nPeriods = dt_as div T_as + 1;
            interval_as = nPeriods * T_as;
            half = drop_bit 1 nineO;
            interval_ns = interval_as div nineO;
            fraction_as = interval_as mod nineO;
            up = (fraction_as > half);
            interval_ns' = (if up then interval_ns + 1 else interval_ns);
            fraction_as' = (if up then fraction_as - nineO else fraction_as)
        in \<lparr>b_ns = b_ns t1 + interval_ns', b_ps = b_ps t1 + word_of_int (sint fraction_as' sdiv 1000000), b_dps = b_dps t1\<rparr>)"

section \<open>Finding devices\<close>

definition find_dev :: "device \<Rightarrow> 'a fw_scheme \<Rightarrow> u32 \<times> 'a fw_scheme" where
  "find_dev d s =
     (let s1 = s\<lparr>dev_adr := (dev_adr s)(d := sdb s d)\<rparr>
      in (if dev_adr s1 d = 0 then COMMON_STATUS_ERROR else COMMON_STATUS_OK, s1))"

text \<open>The last of up to four ECA queues whose channel is that of the LM32.\<close>

definition ECACHANNELFORLM32 :: u32 where "ECACHANNELFORLM32 = 2"

definition findECAQueue :: "'a fw_scheme \<Rightarrow> u32 \<times> 'a fw_scheme" where
  "findECAQueue s =
     (let qs = filter (\<lambda>q. snd q = ECACHANNELFORLM32) (take 4 (eca_queues s));
          a = (if qs = [] then 0 else fst (last qs))
      in (if a = 0 then COMMON_STATUS_ERROR else COMMON_STATUS_OK,
          s\<lparr>dev_adr := (dev_adr s)(DEV_ECAQ := a)\<rparr>))"

section \<open>Network interface\<close>

definition fwlib_wrGetMac :: "'a fw_scheme \<Rightarrow> u64 \<times> 'a fw_scheme" where
  "fwlib_wrGetMac s =
     (case find_dev DEV_WRINFO s of (st, s1) \<Rightarrow>
        case (if st = COMMON_STATUS_OK
              then (if dev_adr s1 DEV_EBM \<noteq> 0
                    then case rd_dev EBM_OWN_MAC_HI s1 of (h, s2) \<Rightarrow>
                         case rd_dev EBM_OWN_MAC_LO s2 of (l, s3) \<Rightarrow> (h AND 0xffff, l, s3)
                    else (0, 0, s1))
              else if dev_adr s1 DEV_WREP \<noteq> 0
                   then case rd_dev WREP_MACHI s1 of (h, s2) \<Rightarrow>
                        case rd_dev WREP_MACLO s2 of (l, s3) \<Rightarrow> (h AND 0xffff, l, s3)
                   else (0, 0, s1)) of
          (macHi, macLo, s4) \<Rightarrow> (push_bit 32 (ucast macHi) + ucast macLo, s4))"

definition fwlib_wrGetIP :: "'a fw_scheme \<Rightarrow> u32 \<times> 'a fw_scheme" where
  "fwlib_wrGetIP s =
     (case find_dev DEV_WRINFO s of (st, s1) \<Rightarrow>
        if st = COMMON_STATUS_OK
        then (if dev_adr s1 DEV_EBM \<noteq> 0 then rd_dev EBM_OWN_IP s1 else (0, s1))
        else if dev_adr s1 DEV_EBCFG \<noteq> 0 then rd_dev EBC_SRC_IP s1 else (0, s1))"

definition fwlib_publishNICData :: "'a fw_scheme \<Rightarrow> 'a fw_scheme" where
  "fwlib_publishNICData s =
     (case fwlib_wrGetMac s of (mac, s1) \<Rightarrow>
        let s2 = sh_wr COMMON_SHARED_MACHI (hiW mac AND 0xffff) s1;
            s3 = sh_wr COMMON_SHARED_MACLO (loW mac) s2
        in case fwlib_wrGetIP s3 of (ip, s4) \<Rightarrow> sh_wr COMMON_SHARED_IP ip s4)"

definition IO_CTRL_LVDSINGATESETLOW :: u32 where "IO_CTRL_LVDSINGATESETLOW = 0x2000"
definition IO_CTRL_LVDSINGATERESETLOW :: u32 where "IO_CTRL_LVDSINGATERESETLOW = 0x2008"

definition fwlib_ioCtrlSetGate :: "u32 \<Rightarrow> u32 \<Rightarrow> 'a fw_scheme \<Rightarrow> u32 \<times> 'a fw_scheme" where
  "fwlib_ioCtrlSetGate enable io s =
     (if enable \<noteq> 1 \<and> enable \<noteq> 0 then (COMMON_STATUS_OUTOFRANGE, s)
      else if io > 31 then (COMMON_STATUS_OUTOFRANGE, s)
      else (COMMON_STATUS_OK,
        wr_dev (IOC (if enable \<noteq> 0 then IO_CTRL_LVDSINGATESETLOW else IO_CTRL_LVDSINGATERESETLOW))
          (push_bit (unat io) 1) s))"

section \<open>EtherBone transfers\<close>

definition EBC_DEFAULT_IP :: u32 where "EBC_DEFAULT_IP = 0xc0a80064"

definition ebmClearSharedMem :: "'a fw_scheme \<Rightarrow> 'a fw_scheme" where
  "ebmClearSharedMem s = sh_clear COMMON_SHARED_DATA_4EB (COMMON_DATA4EBSIZE div 4) s"

text \<open>The loop of \<open>fwlib_ebmInit\<close> that waits for an address: it runs while the timeout lies in the
  past.\<close>

partial_function (option) ebm_wait_ip :: "u64 \<Rightarrow> 'a fw_scheme \<Rightarrow> 'a fw_scheme option" where
  "ebm_wait_ip timeoutT s =
     (case sys_time s of (now, s1) \<Rightarrow>
        if timeoutT < now
        then case fwlib_wrGetIP s1 of (ip, s2) \<Rightarrow>
               if ip = EBC_DEFAULT_IP then ebm_wait_ip timeoutT s2 else Some s2
        else Some s1)"

definition fwlib_ebmInit :: "u32 \<Rightarrow> u64 \<Rightarrow> u32 \<Rightarrow> u32 \<Rightarrow> 'a fw_scheme \<Rightarrow> (u32 \<times> 'a fw_scheme) option" where
  "fwlib_ebmInit msTimeout dstMac dstIp eb_ops s =
     (case sys_time s of (now, s1) \<Rightarrow>
        case ebm_wait_ip (now + ucast msTimeout * 1000000) s1 of
          None \<Rightarrow> None
        | Some s2 \<Rightarrow>
            (case fwlib_wrGetIP s2 of (ip, s3) \<Rightarrow>
               if ip = EBC_DEFAULT_IP then Some (COMMON_STATUS_NOIP, s3)
               else case fwlib_wrGetMac (ebm_config_if DESTINATION dstMac dstIp 0xebd0 (ebm_init s3)) of
                 (mac, s4) \<Rightarrow>
                 case fwlib_wrGetIP s4 of (ip', s5) \<Rightarrow>
                 Some (COMMON_STATUS_OK,
                   ebm_clr (ebm_config_meta 1500 0 eb_ops (ebm_config_if SOURCE mac ip' 0xebd0 s5)))))"

fun ebm_write_ops :: "u32 \<Rightarrow> u32 list \<Rightarrow> 'a fw_scheme \<Rightarrow> 'a fw_scheme" where
  "ebm_write_ops address [] s = s"
| "ebm_write_ops address (d # ds) s = ebm_write_ops (address + 4) ds (ebm_op address d (EBM_WRITE s) s)"

definition fwlib_ebmWriteN :: "u32 \<Rightarrow> u32 list \<Rightarrow> 'a fw_scheme \<Rightarrow> u32 \<times> 'a fw_scheme" where
  "fwlib_ebmWriteN address data s =
     (if COMMON_DATA4EBSIZE div 4 < length data then (COMMON_STATUS_OUTOFRANGE, s)
      else if length data = 0 then (COMMON_STATUS_OUTOFRANGE, s)
      else
        let s1 = ebm_hi address (ebmClearSharedMem s);
            s2 = ebm_write_ops address data s1;
            s3 = (if length data = 1 then ebm_op address (data ! 0) (EBM_WRITE s2) s2 else s2)
        in (COMMON_STATUS_OK, ebm_flush s3))"

text \<open>Reading: the slave is asked to write its answer into this CPU's shared memory.  The reply
  is what the network has written there by the n-th look at it: \<open>reply n i\<close> is word \<open>i\<close> then.
  The words it may occupy are \<open>pSharedData4EB[0 .. n + 1]\<close>.\<close>

definition ext_4eb :: "'a fw_scheme \<Rightarrow> nat \<Rightarrow> u32" where
  "ext_4eb s i = ram_ext s + of_nat (4 * i)"

fun ebm_read_ops :: "u32 \<Rightarrow> nat \<Rightarrow> nat \<Rightarrow> 'a fw_scheme \<Rightarrow> 'a fw_scheme" where
  "ebm_read_ops address i 0 s = s"
| "ebm_read_ops address i (Suc k) s =
     ebm_read_ops address (Suc i) k (ebm_op (address + of_nat (4 * i)) (ext_4eb s i) (EBM_READ s) s)"

partial_function (option) ebm_wait_data ::
  "(nat \<Rightarrow> nat \<Rightarrow> u32) \<Rightarrow> u64 \<Rightarrow> nat \<Rightarrow> nat \<Rightarrow> 'a fw_scheme \<Rightarrow> (u32 list option \<times> 'a fw_scheme) option"
where
  "ebm_wait_data reply timeoutT n k s =
     (case sys_time s of (now, s1) \<Rightarrow>
        if now < timeoutT
        then if reply k (n + 1) \<noteq> COMMON_EB_HACKISH
             then Some (Some (map (reply k) [0..<n]), s1)
             else ebm_wait_data reply timeoutT n (Suc k) s1
        else Some (None, s1))"

definition fwlib_ebmReadN ::
  "(nat \<Rightarrow> nat \<Rightarrow> u32) \<Rightarrow> u32 \<Rightarrow> u32 \<Rightarrow> nat \<Rightarrow> 'a fw_scheme \<Rightarrow> (u32 \<times> u32 list \<times> 'a fw_scheme) option"
where
  "fwlib_ebmReadN reply msTimeout address n s =
     (if COMMON_DATA4EBSIZE div 4 \<le> n then Some (COMMON_STATUS_OUTOFRANGE, [], s)
      else if n = 0 then Some (COMMON_STATUS_OUTOFRANGE, [], s)
      else if \<not> shm_on s then Some (COMMON_STATUS_OUTOFRANGE, [], s)
      else
        let s1 = sh_wr (COMMON_SHARED_DATA_4EB + of_nat (4 * (n + 1))) COMMON_EB_HACKISH (ebmClearSharedMem s);
            s2 = ebm_read_ops address 0 n (ebm_hi address s1);
            s3 = ebm_flush (ebm_op address (ext_4eb s2 (n + 1)) (EBM_READ s2) s2)
        in case sys_time s3 of (now, s4) \<Rightarrow>
           (case ebm_wait_data reply (now + ucast msTimeout * 1000000) n 0 s4 of
              None \<Rightarrow> None
            | Some (Some d, s5) \<Rightarrow> Some (COMMON_STATUS_OK, d, s5)
            | Some (None, s5) \<Rightarrow> Some (COMMON_STATUS_EBREADTIMEDOUT, replicate n 0, s5)))"

section \<open>Timing messages\<close>

definition fwlib_buildEvtidV1 :: "u32 \<Rightarrow> u32 \<Rightarrow> u32 \<Rightarrow> u32 \<Rightarrow> u32 \<Rightarrow> u32 \<Rightarrow> u64" where
  "fwlib_buildEvtidV1 gid evtno flags sid bpid reserved =
     0x1000000000000000
     OR push_bit 48 (ucast (gid AND 0x0fff)) OR push_bit 36 (ucast (evtno AND 0x0fff))
     OR push_bit 32 (ucast (flags AND 0x000f)) OR push_bit 20 (ucast (sid AND 0x0fff))
     OR push_bit 6 (ucast (bpid AND 0x3fff)) OR ucast (reserved AND 0x003f)"

text \<open>A message due too soon is sent later, with a status that says so, unless sending it late is
  asked for.\<close>

definition tm_deadline :: "u64 \<Rightarrow> u32 \<Rightarrow> 'a fw_scheme \<Rightarrow> u64 \<times> u32 \<times> 'a fw_scheme" where
  "tm_deadline deadline flagForceLate s =
     (case sys_time s of (now, s1) \<Rightarrow>
        if deadline < now + COMMON_LATELIMIT \<and> flagForceLate = 0
        then case sys_time s1 of (now', s2) \<Rightarrow> (now' + COMMON_AHEADT, COMMON_STATUS_OUTOFRANGE, s2)
        else (deadline, COMMON_STATUS_OK, s1))"

definition tm_words :: "u64 \<Rightarrow> u64 \<Rightarrow> u64 \<Rightarrow> u32 \<Rightarrow> u32 list" where
  "tm_words deadline evtId param tef =
     [hiW evtId, loW evtId, hiW param, loW param, 0, tef, hiW deadline, loW deadline]"

definition fwlib_ebmWriteTM :: "u64 \<Rightarrow> u64 \<Rightarrow> u64 \<Rightarrow> u32 \<Rightarrow> u32 \<Rightarrow> 'a fw_scheme \<Rightarrow> u32 \<times> 'a fw_scheme" where
  "fwlib_ebmWriteTM deadline evtId param tef flagForceLate s =
     (case tm_deadline deadline flagForceLate s of (dl, st, s1) \<Rightarrow>
        (st, ebm_flush (fold (\<lambda>w s. ebm_op COMMON_ECA_ADDRESS w (EBM_WRITE s) s)
               (tm_words dl evtId param tef) (ebm_hi COMMON_ECA_ADDRESS s1))))"

definition fwlib_ecaWriteTM :: "u64 \<Rightarrow> u64 \<Rightarrow> u64 \<Rightarrow> u32 \<Rightarrow> u32 \<Rightarrow> 'a fw_scheme \<Rightarrow> u32 \<times> 'a fw_scheme" where
  "fwlib_ecaWriteTM deadline evtId param tef flagForceLate s =
     (case tm_deadline deadline flagForceLate s of (dl, st, s1) \<Rightarrow>
        (st, fold (wr_dev ECA_IN) (tm_words dl evtId param tef) s1))"

definition WHITERABBIT_MIN_TIME :: u64 where "WHITERABBIT_MIN_TIME = 0x188298e369bb0c80"

definition fwlib_wrCheckSyncState :: "'a fw_scheme \<Rightarrow> u32 \<times> 'a fw_scheme" where
  "fwlib_wrCheckSyncState s =
     (case sys_time s of (now, s1) \<Rightarrow>
        if now > wr_time_prev s1 \<and> now > WHITERABBIT_MIN_TIME
        then (COMMON_STATUS_OK, s1\<lparr>wr_time_prev := now\<rparr>)
        else (COMMON_STATUS_WRBADSYNC, s1))"

section \<open>The ECA queue\<close>

text \<open>What \<open>fwlib_wait4ECAEvent2\<close> returns through its pointers.\<close>

record eca_event =
  ev_tag :: u32
  ev_action :: eca_action
  ev_slow :: bool
  ev_offs :: u32
  ev_lat :: u32

partial_function (option) eca_poll ::
  "u64 \<Rightarrow> 'a fw_scheme \<Rightarrow> (eca_action option \<times> 'a fw_scheme) option"
where
  "eca_poll timeoutT s =
     (case sys_time s of (now, s1) \<Rightarrow>
        if now < timeoutT
        then (case eca_in s1 (polls s1) of
                Some a \<Rightarrow> Some (Some a, wr_dev ECAQ_POP 1 (s1\<lparr>polls := Suc (polls s1)\<rparr>))
              | None \<Rightarrow> eca_poll timeoutT (s1\<lparr>polls := Suc (polls s1)\<rparr>))
        else Some (None, s1))"

definition eca_monitor :: "eca_action \<Rightarrow> u64 \<Rightarrow> u64 \<Rightarrow> eca_event" where
  "eca_monitor a startT stopT =
     (if ea_deadline a < startT
      then \<lparr>ev_tag = ea_tag a, ev_action = a, ev_slow = True, ev_offs = ucast (startT - ea_deadline a),
            ev_lat = (if ea_late a \<or> ea_delayed a then COMMON_LATENCYBOGUS else ucast (stopT - startT))\<rparr>
      else \<lparr>ev_tag = ea_tag a, ev_action = a, ev_slow = False, ev_offs = 0,
            ev_lat = (if stopT \<ge> ea_deadline a then ucast (stopT - ea_deadline a) else COMMON_LATENCYBOGUS)\<rparr>)"

definition no_action :: eca_action where
  "no_action = \<lparr>ea_id = 0, ea_deadline = 0, ea_tag = 0, ea_param = 0, ea_tef = 0,
     ea_late = False, ea_early = False, ea_conflict = False, ea_delayed = False\<rparr>"

definition fwlib_wait4ECAEvent2 :: "u32 \<Rightarrow> 'a fw_scheme \<Rightarrow> (eca_event \<times> 'a fw_scheme) option" where
  "fwlib_wait4ECAEvent2 timeout_us s =
     (let timeout = push_bit 10 (ucast timeout_us + 1) in
      case sys_time s of (startT, s1) \<Rightarrow>
        (case eca_poll (startT + timeout) s1 of
           None \<Rightarrow> None
         | Some (Some a, s2) \<Rightarrow>
             (case sys_time s2 of (stopT, s3) \<Rightarrow> Some (eca_monitor a startT stopT, s3))
         | Some (None, s2) \<Rightarrow>
             Some (\<lparr>ev_tag = COMMON_ECADO_TIMEOUT, ev_action = no_action, ev_slow = False,
                    ev_offs = 0, ev_lat = 0\<rparr>, s2)))"

definition fwlib_wait4ECAEvent :: "u32 \<Rightarrow> 'a fw_scheme \<Rightarrow> (u32 \<times> eca_action \<times> 'a fw_scheme) option" where
  "fwlib_wait4ECAEvent timeout_us s =
     (case fwlib_wait4ECAEvent2 timeout_us s of
        None \<Rightarrow> None
      | Some (ev, s1) \<Rightarrow> Some (ev_tag ev, ev_action ev, s1))"

section \<open>What the host sees\<close>

definition fwlib_publishSharedSize :: "u32 \<Rightarrow> 'a fw_scheme \<Rightarrow> 'a fw_scheme" where
  "fwlib_publishSharedSize sz s = sh_wr COMMON_SHARED_USEDSIZE sz s"

text \<open>\<open>fwlib_init\<close>: set the pointers, clear the common region, publish size and version.\<close>

definition fwlib_init :: "u32 \<Rightarrow> u32 \<Rightarrow> u32 \<Rightarrow> u32 \<Rightarrow> 'a fw_scheme \<Rightarrow> 'a fw_scheme" where
  "fwlib_init cpuRamExternal sharedOffs sharedSize fwVersion s =
     (let s0 = (if cpuRamExternal \<noteq> 0
                then s\<lparr>ram_ext := cpuRamExternal + (COMMON_SHARED_DATA_4EB + sharedOffs)\<rparr> else s);
          s1 = sh_clear 0 (COMMON_SHARED_END div 4) (s0\<lparr>shm_on := True\<rparr>);
          s2 = fwlib_publishSharedSize sharedSize s1;
          s3 = ebmClearSharedMem s2;
          s4 = sh_wr COMMON_SHARED_VERSION fwVersion s3;
          s5 = sh_wr COMMON_SHARED_NBADSTATE 0 (sh_wr COMMON_SHARED_NBADSTATUS 0 s4)
      in s5\<lparr>flagRecover := 0\<rparr>)"

definition fwlib_publishState :: "u32 \<Rightarrow> 'a fw_scheme \<Rightarrow> 'a fw_scheme" where
  "fwlib_publishState st s = sh_wr COMMON_SHARED_STATE st s"

definition fwlib_publishStatusArray :: "u64 \<Rightarrow> 'a fw_scheme \<Rightarrow> 'a fw_scheme" where
  "fwlib_publishStatusArray arr s =
     (let b = push_bit COMMON_STATUS_AUTORECOVERY 1;
          arr' = (if flagRecover s \<noteq> 0 then arr OR b else arr AND NOT b)
      in sh_wr COMMON_SHARED_STATUSLO (loW arr') (sh_wr COMMON_SHARED_STATUSHI (hiW arr') s))"

text \<open>\<open>fwlib_publishTransferStatus2\<close>: seventeen consecutive words from \<open>COMMON_SHARED_NTRANSFER\<close>, in
  the order the layout has them.\<close>

fun sh_wr_list :: "u32 \<Rightarrow> u32 list \<Rightarrow> 'a fw_scheme \<Rightarrow> 'a fw_scheme" where
  "sh_wr_list off [] s = s"
| "sh_wr_list off (v # vs) s = sh_wr_list (off + 4) vs (sh_wr off v s)"

definition fwlib_publishTransferStatus2 ::
  "u32 \<Rightarrow> u32 \<Rightarrow> u32 \<Rightarrow> u32 \<Rightarrow> u32 \<Rightarrow> u32 \<Rightarrow> u32 \<Rightarrow> u32 \<Rightarrow> u32 \<Rightarrow> u32 \<Rightarrow> u32 \<Rightarrow> u32 \<Rightarrow> u32 \<Rightarrow> u32 \<Rightarrow>
   u32 \<Rightarrow> u32 \<Rightarrow> u32 \<Rightarrow> 'a fw_scheme \<Rightarrow> 'a fw_scheme"
where
  "fwlib_publishTransferStatus2 nTransfer nInject transStat nLate nEarly nConflict nDelayed nSlow
     offsSlow offsSlowMax offsSlowMin comLatency comLatencyMax comLatencyMin offsDone offsDoneMax offsDoneMin s =
     sh_wr_list COMMON_SHARED_NTRANSFER
       [nTransfer, nInject, transStat, nLate, nEarly, nConflict, nDelayed, nSlow, offsSlow, offsSlowMax,
        offsSlowMin, comLatency, comLatencyMax, comLatencyMin, offsDone, offsDoneMax, offsDoneMin] s"

definition fwlib_publishTransferStatus :: "u32 \<Rightarrow> u32 \<Rightarrow> u32 \<Rightarrow> u32 \<Rightarrow> u32 \<Rightarrow> u32 \<Rightarrow> 'a fw_scheme \<Rightarrow> 'a fw_scheme"
where
  "fwlib_publishTransferStatus nTransfer nInject transStat nLate offsDone comLatency =
     fwlib_publishTransferStatus2 nTransfer nInject transStat nLate 0 0 0 0 0 0 0 comLatency 0 0 offsDone 0 0"

definition fwlib_incBadStatusCnt :: "'a fw_scheme \<Rightarrow> 'a fw_scheme" where
  "fwlib_incBadStatusCnt s =
     (let n = nBadStatus s + 1 in sh_wr COMMON_SHARED_NBADSTATUS n (s\<lparr>nBadStatus := n\<rparr>))"

definition fwlib_incBadStateCnt :: "'a fw_scheme \<Rightarrow> 'a fw_scheme" where
  "fwlib_incBadStateCnt s =
     (let n = nBadState s + 1 in sh_wr COMMON_SHARED_NBADSTATE n (s\<lparr>nBadState := n\<rparr>))"

section \<open>Commands and the state machine\<close>

definition fwlib_initCmds :: "'a fw_scheme \<Rightarrow> 'a fw_scheme" where
  "fwlib_initCmds s = sh_wr COMMON_SHARED_CMD 0 s"

text \<open>\<open>clearDiag\<close> is the application's own part.\<close>

definition fwlib_clearDiag :: "('a fw_scheme \<Rightarrow> 'a fw_scheme) \<Rightarrow> 'a fw_scheme \<Rightarrow> 'a fw_scheme" where
  "fwlib_clearDiag clearDiag s =
     (let s1 = (clearDiag s)\<lparr>nBadStatus := 0, nBadState := 0\<rparr>
      in case sys_time s1 of (now, s2) \<Rightarrow>
           sh_wr COMMON_SHARED_TDIAGLO (loW now) (sh_wr COMMON_SHARED_TDIAGHI (hiW now) s2))"

definition fwlib_doActionS0 :: "'a fw_scheme \<Rightarrow> u32 \<times> 'a fw_scheme" where
  "fwlib_doActionS0 s =
     (case findECAQueue s of (e1, s1) \<Rightarrow>
      case find_dev DEV_PPSGEN s1 of (e2, s2) \<Rightarrow>
      case find_dev DEV_WREP s2 of (e3, s3) \<Rightarrow>
      case find_dev DEV_IOCTRL s3 of (e4, s4) \<Rightarrow>
      case find_dev DEV_OLED s4 of (_, s5) \<Rightarrow>
      case find_dev DEV_MILPIGGY s5 of (_, s6) \<Rightarrow>
      case find_dev DEV_SBMASTER s6 of (_, s7) \<Rightarrow>
      case sys_time s7 of (now, s8) \<Rightarrow>
        let s9 = sh_wr COMMON_SHARED_TS0LO (loW now) (sh_wr COMMON_SHARED_TS0HI (hiW now) s8)
        in (if \<exists>e \<in> set [e1, e2, e3, e4]. e \<noteq> COMMON_STATUS_OK then COMMON_STATUS_ERROR
            else COMMON_STATUS_OK,
            fwlib_initCmds (fwlib_publishNICData s9)))"

definition fwlib_cmdHandler ::
  "('a fw_scheme \<Rightarrow> 'a fw_scheme) \<Rightarrow> u32 \<Rightarrow> 'a fw_scheme \<Rightarrow> u32 \<times> u32 \<times> 'a fw_scheme"
where
  "fwlib_cmdHandler clearDiag reqState s =
     (let cmd = shm s COMMON_SHARED_CMD in
      if cmd \<noteq> 0
      then let reqState' =
                 (if cmd = COMMON_CMD_CONFIGURE then COMMON_STATE_CONFIGURED
                  else if cmd = COMMON_CMD_STARTOP then COMMON_STATE_OPREADY
                  else if cmd = COMMON_CMD_STOPOP then COMMON_STATE_STOPPING
                  else if cmd = COMMON_CMD_IDLE then COMMON_STATE_IDLE
                  else if cmd = COMMON_CMD_RECOVER then COMMON_STATE_IDLE
                  else reqState);
               s1 = (if cmd = COMMON_CMD_CLEARDIAG then fwlib_clearDiag clearDiag s else s)
           in (reqState', cmd, sh_wr COMMON_SHARED_CMD 0 s1)
      else (reqState, cmd, s))"

text \<open>The application's entry and exit actions; the entry actions may not return.\<close>

record 'a hooks =
  entryActionConfigured :: "'a fw_scheme \<Rightarrow> (u32 \<times> 'a fw_scheme) option"
  entryActionOperation :: "'a fw_scheme \<Rightarrow> (u32 \<times> 'a fw_scheme) option"
  exitActionOperation :: "'a fw_scheme \<Rightarrow> u32 \<times> 'a fw_scheme"

definition exitActionError :: "'a fw_scheme \<Rightarrow> u32 \<times> 'a fw_scheme" where
  "exitActionError s = (COMMON_STATUS_OK, s)"

text \<open>The next state, the status of the transition and the state after the actions.  In
  STOPPING the code falls through to the case of ERROR.\<close>

definition next_state ::
  "'a hooks \<Rightarrow> u32 \<Rightarrow> u32 \<Rightarrow> 'a fw_scheme \<Rightarrow> (u32 \<times> u32 \<times> 'a fw_scheme) option"
where
  "next_state h act req s =
     (if act = COMMON_STATE_S0
      then Some (if req = COMMON_STATE_IDLE then req else act, COMMON_STATUS_OK, s)
      else if act = COMMON_STATE_IDLE
      then (if req = COMMON_STATE_CONFIGURED
            then map_option (\<lambda>(st, s1). (req, st, s1)) (entryActionConfigured h s)
            else Some (act, COMMON_STATUS_OK, s))
      else if act = COMMON_STATE_CONFIGURED
      then (if req = COMMON_STATE_IDLE then Some (req, COMMON_STATUS_OK, s)
            else if req = COMMON_STATE_CONFIGURED
            then map_option (\<lambda>(st, s1). (req, st, s1)) (entryActionConfigured h s)
            else if req = COMMON_STATE_OPREADY
            then map_option (\<lambda>(st, s1). (req, st, s1)) (entryActionOperation h s)
            else Some (act, COMMON_STATUS_OK, s))
      else if act = COMMON_STATE_OPREADY
      then (if req = COMMON_STATE_STOPPING
            then case exitActionOperation h s of (st, s1) \<Rightarrow> Some (req, st, s1)
            else Some (act, COMMON_STATUS_OK, s))
      else if act = COMMON_STATE_STOPPING \<or> act = COMMON_STATE_ERROR
      then (if req = COMMON_STATE_IDLE
            then case exitActionError s of (st, s1) \<Rightarrow> Some (req, st, s1)
            else Some (if act = COMMON_STATE_STOPPING then COMMON_STATE_CONFIGURED else act,
                       COMMON_STATUS_OK, s))
      else Some (COMMON_STATE_S0, COMMON_STATUS_OK, s))"

definition fwlib_changeState ::
  "'a hooks \<Rightarrow> u32 \<Rightarrow> u32 \<Rightarrow> u32 \<Rightarrow> 'a fw_scheme \<Rightarrow> (u32 \<times> u32 \<times> u32 \<times> 'a fw_scheme) option"
where
  "fwlib_changeState h actState reqState actStatus s =
     (case (if reqState = COMMON_STATE_ERROR \<or> reqState = COMMON_STATE_FATAL
            then Some (reqState, actStatus, s) else next_state h actState reqState s) of
        None \<Rightarrow> None
      | Some (nextState, statusTransition, s1) \<Rightarrow>
          let nextState' = (if statusTransition \<noteq> COMMON_STATUS_OK \<and> nextState \<noteq> COMMON_STATE_FATAL
                            then COMMON_STATE_ERROR else nextState);
              status = (if actState \<noteq> nextState' then statusTransition else actStatus)
          in Some (nextState', COMMON_STATE_UNKNOWN, status, s1))"

definition fwlib_doAutoRecovery :: "u32 \<Rightarrow> u32 \<Rightarrow> 'a fw_scheme \<Rightarrow> u32 \<times> 'a fw_scheme" where
  "fwlib_doAutoRecovery actState reqState s =
     (if actState = COMMON_STATE_ERROR then (COMMON_STATE_IDLE, s)
      else if actState = COMMON_STATE_IDLE then (COMMON_STATE_CONFIGURED, s)
      else if actState = COMMON_STATE_CONFIGURED then (COMMON_STATE_OPREADY, s\<lparr>flagRecover := 0\<rparr>)
      else (reqState, s))"

text \<open>The do actions of the states other than OPREADY; FATAL never returns.  The waits (no-operation
  loops, \<open>uwait\<close>) have no effect on this state.\<close>

definition fwlib_doActionState ::
  "u32 \<Rightarrow> u32 \<Rightarrow> u32 \<Rightarrow> 'a fw_scheme \<Rightarrow> (u32 \<times> u32 \<times> 'a fw_scheme) option"
where
  "fwlib_doActionState reqState actState status s =
     (if actState = COMMON_STATE_FATAL then None
      else
        let (req1, st1, s1) =
              (if actState = COMMON_STATE_S0
               then (case fwlib_doActionS0 s of (st, s') \<Rightarrow>
                       (if st \<noteq> COMMON_STATUS_OK then COMMON_STATE_FATAL else COMMON_STATE_IDLE, st, s'))
               else if actState = COMMON_STATE_ERROR then (reqState, status, s\<lparr>flagRecover := 1\<rparr>)
               else (reqState, status, s));
            (req2, s2) = (if flagRecover s1 \<noteq> 0 then fwlib_doAutoRecovery actState req1 s1 else (req1, s1))
        in Some (req2, st1, s2))"

end
