(* ===== verification/Fbas_Timer.thy ===== *)
theory Fbas_Timer
  imports Prelude
begin

text \<open>
  The software timers of the FBAS firmware (modules/fbas/fw/timer.c): a table of
  eight timers that the 1 ms interrupt advances, and the statistics of its period.
  A timer is named by its index; the null pointer of \<open>timerRegister\<close> is None.
\<close>

definition N_TIMERS :: nat where "N_TIMERS = 8"

record timer_s =
  period_ms :: u32
  elapsed_ms :: u32
  in_use :: bool
  running :: bool

definition timer0 :: timer_s where
  "timer0 = \<lparr>period_ms = 0, elapsed_ms = 0, in_use = False, running = False\<rparr>"

definition timerInitTimers :: "timer_s list \<Rightarrow> timer_s list" where
  "timerInitTimers ts = map (\<lambda>t. t\<lparr>in_use := False, running := False\<rparr>) ts"

definition timerTickTimers :: "timer_s list \<Rightarrow> timer_s list" where
  "timerTickTimers ts = map (\<lambda>t. if running t then t\<lparr>elapsed_ms := elapsed_ms t + 1\<rparr> else t) ts"

definition timerInit :: "u64 \<Rightarrow> timer_s \<Rightarrow> timer_s" where
  "timerInit p t = t\<lparr>period_ms := ucast p, elapsed_ms := 0, running := False, in_use := False\<rparr>"

definition timerStart :: "nat \<Rightarrow> timer_s list \<Rightarrow> timer_s list" where
  "timerStart i ts = (if in_use (ts ! i) then ts[i := (ts ! i)\<lparr>elapsed_ms := 0, running := True\<rparr>] else ts)"

definition timerStop :: "nat \<Rightarrow> timer_s list \<Rightarrow> timer_s list" where
  "timerStop i ts = (if in_use (ts ! i) then ts[i := (ts ! i)\<lparr>running := False\<rparr>] else ts)"

definition timerUnregister :: "nat \<Rightarrow> timer_s list \<Rightarrow> timer_s list" where
  "timerUnregister i ts =
     (if in_use (ts ! i) then ts[i := (ts ! i)\<lparr>in_use := False, running := False\<rparr>] else ts)"

fun first_free :: "nat \<Rightarrow> timer_s list \<Rightarrow> nat option" where
  "first_free i [] = None"
| "first_free i (t # ts) = (if \<not> in_use t then Some i else first_free (Suc i) ts)"

definition timerRegister :: "u32 \<Rightarrow> timer_s list \<Rightarrow> nat option \<times> timer_s list" where
  "timerRegister p ts =
     (case first_free 0 ts of
        None \<Rightarrow> (None, ts)
      | Some i \<Rightarrow> (Some i, ts[i := (timerInit (ucast p) (ts ! i))\<lparr>in_use := True\<rparr>]))"

definition timerIsExpired :: "nat \<Rightarrow> timer_s list \<Rightarrow> bool \<times> timer_s list" where
  "timerIsExpired i ts =
     (let t = ts ! i in
      if running t \<and> period_ms t \<le> elapsed_ms t then (True, ts[i := t\<lparr>running := False\<rparr>]) else (False, ts))"

text \<open>Statistics of the period: signed 64-bit values, a 32-bit count; C division truncates toward
  zero.\<close>

record timer_dbg_s =
  dbg_avg :: u64
  dbg_min :: u64
  dbg_max :: u64
  dbg_last :: u64
  dbg_cnt :: u32

definition timerInitDbg :: timer_dbg_s where
  "timerInitDbg = \<lparr>dbg_avg = 0, dbg_min = 0, dbg_max = 0, dbg_last = 0, dbg_cnt = 0\<rparr>"

definition sdiv_trunc :: "int \<Rightarrow> int \<Rightarrow> int" where
  "sdiv_trunc a b = sgn a * sgn b * (\<bar>a\<bar> div \<bar>b\<bar>)"

definition timerUpdateDbg :: "u64 \<Rightarrow> timer_dbg_s \<Rightarrow> timer_dbg_s" where
  "timerUpdateDbg now d =
     (if dbg_last d \<noteq> 0
      then let elapsed = now - dbg_last d;
               d1 = d\<lparr>dbg_avg := word_of_int (sdiv_trunc (sint (elapsed + ucast (dbg_cnt d) * dbg_avg d))
                                               (uint (dbg_cnt d + 1))),
                      dbg_cnt := dbg_cnt d + 1\<rparr>;
               d2 = (if sint elapsed > sint (dbg_max d1) then d1\<lparr>dbg_max := elapsed\<rparr> else d1);
               d3 = (if sint elapsed < sint (dbg_min d2) \<or> dbg_min d2 = 0 then d2\<lparr>dbg_min := elapsed\<rparr> else d2)
           in d3\<lparr>dbg_last := now\<rparr>
      else d\<lparr>dbg_last := now\<rparr>)"

section \<open>Registration\<close>

lemma first_free_None: "first_free i ts = None \<longleftrightarrow> (\<forall>t \<in> set ts. in_use t)"
  by (induction i ts rule: first_free.induct) auto

lemma first_free_Some:
  "first_free i ts = Some k \<Longrightarrow> \<exists>j < length ts. k = i + j \<and> \<not> in_use (ts ! j) \<and> (\<forall>m < j. in_use (ts ! m))"
proof (induction i ts rule: first_free.induct)
  case (2 i t ts)
  show ?case
  proof (cases "in_use t")
    case True
    then obtain j where "j < length ts" "k = Suc i + j" "\<not> in_use (ts ! j)" "\<forall>m < j. in_use (ts ! m)"
      using 2 by auto
    thus ?thesis using True by (intro exI[of _ "Suc j"]) (auto simp: less_Suc_eq_0_disj)
  next
    case False
    thus ?thesis using 2 by (intro exI[of _ 0]) auto
  qed
qed simp

text \<open>Registering succeeds exactly when a timer is free, takes the first free one, and leaves all
  others alone.\<close>

lemma timerRegister_spec:
  "timerRegister p ts = (r, ts') \<Longrightarrow>
   (r = None \<longleftrightarrow> (\<forall>t \<in> set ts. in_use t)) \<and> length ts' = length ts \<and>
   (\<forall>i. r = Some i \<longrightarrow> i < length ts \<and> \<not> in_use (ts ! i) \<and>
      ts' ! i = \<lparr>period_ms = p, elapsed_ms = 0, in_use = True, running = False\<rparr>) \<and>
   (\<forall>j < length ts. r \<noteq> Some j \<longrightarrow> ts' ! j = ts ! j)"
proof -
  assume r: "timerRegister p ts = (r, ts')"
  show ?thesis
  proof (cases "first_free 0 ts")
    case None
    thus ?thesis using r first_free_None[of 0 ts] by (auto simp: timerRegister_def)
  next
    case (Some i)
    have i: "i < length ts" "\<not> in_use (ts ! i)" using first_free_Some[OF Some] by auto
    have "r = Some i" "ts' = ts[i := (timerInit (ucast p) (ts ! i))\<lparr>in_use := True\<rparr>]"
      using r Some by (auto simp: timerRegister_def)
    moreover have "(timerInit (ucast p) (ts ! i))\<lparr>in_use := True\<rparr>
        = \<lparr>period_ms = p, elapsed_ms = 0, in_use = True, running = False\<rparr>"
      by (cases "ts ! i") (simp add: timerInit_def)
    ultimately show ?thesis using i first_free_None[of 0 ts] Some by auto
  qed
qed

text \<open>How many timers are taken.\<close>

definition used :: "timer_s list \<Rightarrow> nat" where
  "used ts = length (filter in_use ts)"

lemma used_update: "i < length ts \<Longrightarrow> \<not> in_use (ts ! i) \<Longrightarrow> in_use t \<Longrightarrow> used (ts[i := t]) = Suc (used ts)"
  by (induction ts arbitrary: i) (auto simp: used_def split: nat.split)

lemma used_all: "used ts = length ts \<longleftrightarrow> (\<forall>t \<in> set ts. in_use t)"
  unfolding used_def by (metis filter_True length_filter_less less_irrefl)

lemma register_used:
  "fst (timerRegister p ts) = None \<longleftrightarrow> used ts = length ts"
  "used (snd (timerRegister p ts)) = (if used ts = length ts then used ts else Suc (used ts))"
  "length (snd (timerRegister p ts)) = length ts"
proof -
  have n: "first_free 0 ts = None \<longleftrightarrow> used ts = length ts" by (simp add: first_free_None used_all)
  show "fst (timerRegister p ts) = None \<longleftrightarrow> used ts = length ts"
    by (simp add: timerRegister_def n[symmetric] split: option.split)
  show "used (snd (timerRegister p ts)) = (if used ts = length ts then used ts else Suc (used ts))"
    using first_free_Some[of 0 ts] n by (auto simp: timerRegister_def used_update split: option.split)
  show "length (snd (timerRegister p ts)) = length ts" by (simp add: timerRegister_def split: option.split)
qed

section \<open>Expiry\<close>

lemma tick_nth: "i < length ts \<Longrightarrow> timerTickTimers ts ! i =
    (if running (ts ! i) then (ts ! i)\<lparr>elapsed_ms := elapsed_ms (ts ! i) + 1\<rparr> else ts ! i)"
  by (simp add: timerTickTimers_def)

lemma tick_length [simp]: "length (timerTickTimers ts) = length ts"
  by (simp add: timerTickTimers_def)

lemma funpow_tick_length [simp]: "length ((timerTickTimers ^^ n) ts) = length ts"
  by (induction n) simp_all

text \<open>\<open>n\<close> interrupts after a start.\<close>

lemma funpow_tick_nth:
  "i < length ts \<Longrightarrow> running (ts ! i) \<Longrightarrow> (timerTickTimers ^^ n) ts ! i = (ts ! i)\<lparr>elapsed_ms := elapsed_ms (ts ! i) + of_nat n\<rparr>"
  by (induction n) (simp_all add: tick_nth add.assoc)

text \<open>
  A started timer expires exactly when as many milliseconds have passed as its period says
  (within the 32-bit range of the counter), and expiry stops it.
\<close>

theorem timer_expiry:
  assumes "i < length ts" "in_use (ts ! i)" "n < 4294967296"
  shows "timerIsExpired i ((timerTickTimers ^^ n) (timerStart i ts)) =
    (let ts' = (timerTickTimers ^^ n) (timerStart i ts)
     in if unat (period_ms (ts ! i)) \<le> n then (True, ts'[i := (ts' ! i)\<lparr>running := False\<rparr>]) else (False, ts'))"
proof -
  let ?ts' = "(timerTickTimers ^^ n) (timerStart i ts)"
  have "timerStart i ts ! i = (ts ! i)\<lparr>elapsed_ms := 0, running := True\<rparr>" "i < length (timerStart i ts)"
    using assms by (simp_all add: timerStart_def)
  hence n: "?ts' ! i = (ts ! i)\<lparr>elapsed_ms := of_nat n, running := True\<rparr>"
    using funpow_tick_nth[of i "timerStart i ts" n] by simp
  have "period_ms (ts ! i) \<le> of_nat n \<longleftrightarrow> unat (period_ms (ts ! i)) \<le> n"
    using assms(3) by (simp add: word_le_nat_alt unat_of_nat32)
  thus ?thesis by (simp add: timerIsExpired_def Let_def n)
qed

theorem timer_expiry_witness:
  "\<not> fst (timerIsExpired 0 ((timerTickTimers ^^ 2) (timerStart 0 [timer0\<lparr>period_ms := 3, in_use := True\<rparr>]))) \<and>
   fst (timerIsExpired 0 ((timerTickTimers ^^ 3) (timerStart 0 [timer0\<lparr>period_ms := 3, in_use := True\<rparr>])))"
  using timer_expiry[of 0 "[timer0\<lparr>period_ms := 3, in_use := True\<rparr>]" 2]
    timer_expiry[of 0 "[timer0\<lparr>period_ms := 3, in_use := True\<rparr>]" 3]
  by (simp add: Let_def)

end
