(* ===== verification/Fbas_Measure.thy ===== *)
theory Fbas_Measure
  imports Fw_Env
begin

text \<open>
  Statistics of the FBAS firmware (modules/fbas/fw/measure.c): for each measured item
  the cumulative average, minimum, maximum and counts, the outliers above the item's
  threshold, the event counters, and the histogram of actions per main loop.
\<close>

datatype msr_item =
  MSR_ECA_DLY | MSR_TX_DLY | MSR_RX_DLY | MSR_SG_LTY | MSR_MSG_DLY | MSR_MSG_RATE | MSR_TTL
  | MSR_ML_PRD | MSR_DIOB_DLY

definition msr_items :: "msr_item list" where
  "msr_items = [MSR_ECA_DLY, MSR_TX_DLY, MSR_RX_DLY, MSR_SG_LTY, MSR_MSG_DLY, MSR_MSG_RATE, MSR_TTL,
     MSR_ML_PRD, MSR_DIOB_DLY]"

datatype msr_cnt = RX_EVT_CNT | TX_EVT_CNT | ECA_VLD_ACT | ECA_OVF_ACT | BAD_MSG_CNT | OLD_MSG_CNT

record sum_stats =
  st_ts :: u64
  st_avg :: u64
  st_min :: u64
  st_max :: u64
  st_valid :: u32
  st_total :: u32

definition stats0 :: sum_stats where
  "stats0 = \<lparr>st_ts = 0, st_avg = 0, st_min = 0, st_max = 0, st_valid = 0, st_total = 0\<rparr>"

fun outlier_threshold :: "msr_item \<Rightarrow> u32" where
  "outlier_threshold MSR_ECA_DLY = 10000"
| "outlier_threshold MSR_TX_DLY = 20000"
| "outlier_threshold MSR_RX_DLY = 20000"
| "outlier_threshold MSR_SG_LTY = 200000"
| "outlier_threshold MSR_MSG_DLY = 200000"
| "outlier_threshold MSR_MSG_RATE = 10000000"
| "outlier_threshold MSR_TTL = 101000000"
| "outlier_threshold MSR_ML_PRD = 200000"
| "outlier_threshold MSR_DIOB_DLY = 20000"

definition MAX_ACTIONS :: nat where "MAX_ACTIONS = 8"

record measure =
  sumStats :: "msr_item \<Rightarrow> sum_stats"
  outlierCnt :: "msr_item \<Rightarrow> u32"
  msrCnt :: "msr_cnt \<Rightarrow> u32"
  actionCnt :: "u32 list"

definition measureCountEvt :: "msr_cnt \<Rightarrow> u32 \<Rightarrow> measure \<Rightarrow> u32 \<times> measure" where
  "measureCountEvt name v m =
     (let n = msrCnt m name + v in (n, m\<lparr>msrCnt := (msrCnt m)(name := n)\<rparr>))"

definition measureSetCounter :: "msr_cnt \<Rightarrow> u32 \<Rightarrow> measure \<Rightarrow> u32 \<times> measure" where
  "measureSetCounter name v m = (v, m\<lparr>msrCnt := (msrCnt m)(name := v)\<rparr>)"

definition measureActionRate :: "u32 \<Rightarrow> measure \<Rightarrow> measure" where
  "measureActionRate n m =
     (if n = 0 then m
      else let i = (if unat n < MAX_ACTIONS then unat n else 0)
           in m\<lparr>actionCnt := (actionCnt m)[i := actionCnt m ! i + 1]\<rparr>)"

text \<open>Export to shared memory: each counter is written and reset.\<close>

definition measureExportActionRate :: "u32 \<Rightarrow> measure \<Rightarrow> 'a fw_scheme \<Rightarrow> measure \<times> 'a fw_scheme" where
  "measureExportActionRate base m s =
     (m\<lparr>actionCnt := replicate MAX_ACTIONS 0\<rparr>,
      fold (\<lambda>i. sh_wr (base + of_nat (4 * i)) (actionCnt m ! i)) [0..<MAX_ACTIONS] s)"

text \<open>\<open>calculateSumStats\<close>: the value is a signed 64-bit integer; average and maximum are unsigned,
  the divisor is the 32-bit count plus one.\<close>

definition calculateSumStats :: "u64 \<Rightarrow> sum_stats \<Rightarrow> u32 \<times> sum_stats" where
  "calculateSumStats v st =
     (let st1 = (if 0 <s v
                 then let n = st_valid st;
                          a = (v + ucast n * st_avg st) div ucast (n + 1);
                          st' = st\<lparr>st_avg := a, st_valid := n + 1\<rparr>;
                          st'' = (if v > st_max st' then st'\<lparr>st_max := v\<rparr> else st')
                      in if v <s st_min st'' \<or> st_min st'' = 0 then st''\<lparr>st_min := v\<rparr> else st''
                 else st);
          st2 = st1\<lparr>st_total := st_total st1 + 1\<rparr>
      in (st_total st2, st2))"

definition measurePutTimestamp :: "msr_item \<Rightarrow> u64 \<Rightarrow> measure \<Rightarrow> measure" where
  "measurePutTimestamp it t m = m\<lparr>sumStats := (sumStats m)(it := (sumStats m it)\<lparr>st_ts := t\<rparr>)\<rparr>"

definition measureGetTimestamp :: "msr_item \<Rightarrow> measure \<Rightarrow> u64" where
  "measureGetTimestamp it m = st_ts (sumStats m it)"

definition measureSummarize :: "msr_item \<Rightarrow> u64 \<Rightarrow> u64 \<Rightarrow> measure \<Rightarrow> measure" where
  "measureSummarize it t_from now m =
     (let period = now - t_from;
          m1 = m\<lparr>sumStats := (sumStats m)(it := snd (calculateSumStats period (sumStats m it)))\<rparr>
      in if sint period > uint (outlier_threshold it)
         then m1\<lparr>outlierCnt := (outlierCnt m1)(it := outlierCnt m1 it + 1)\<rparr> else m1)"

definition measureExportSummary :: "msr_item \<Rightarrow> u32 \<Rightarrow> measure \<Rightarrow> 'a fw_scheme \<Rightarrow> 'a fw_scheme" where
  "measureExportSummary it off m s =
     (let st = sumStats m it
      in sh_wr (off + 28) (st_total st) (sh_wr (off + 24) (st_valid st)
         (sh_wr64 (off + 16) (st_max st) (sh_wr64 (off + 8) (st_min st) (sh_wr64 off (st_avg st) s)))))"

text \<open>\<open>measureClearSummary\<close>: None stands for \<open>N_MSR_ITEMS\<close>, all items.  For a single item the C
  loop runs from the item up to, and not including, the item.\<close>

definition clear_range :: "msr_item option \<Rightarrow> msr_item list" where
  "clear_range it = (case it of None \<Rightarrow> msr_items | Some i \<Rightarrow> [])"

definition measureClearSummary :: "msr_item option \<Rightarrow> measure \<Rightarrow> measure" where
  "measureClearSummary it m =
     fold (\<lambda>i m. m\<lparr>sumStats := (sumStats m)(i := stats0), outlierCnt := (outlierCnt m)(i := 0)\<rparr>)
       (clear_range it) m"

section \<open>The statistics are statistics\<close>

definition stats_of :: "u64 list \<Rightarrow> sum_stats" where
  "stats_of vs = fold (\<lambda>v st. snd (calculateSumStats v st)) vs stats0"

text \<open>What one step keeps: the count, bounds of the average, and the extreme values so far.\<close>

definition stats_inv :: "u64 list \<Rightarrow> sum_stats \<Rightarrow> bool" where
  "stats_inv vs st \<longleftrightarrow> unat (st_valid st) = length vs \<and>
     (if vs = [] then st_avg st = 0 \<and> st_min st = 0 \<and> st_max st = 0
      else st_min st = Min (set vs) \<and> st_max st = Max (set vs) \<and>
           st_min st \<le> st_avg st \<and> st_avg st \<le> st_max st)"

lemma mean_bounds:
  fixes n a v lo hi :: nat
  assumes "n = 0 \<or> lo \<le> a \<and> a \<le> hi" "lo \<le> v" "v \<le> hi"
  shows "lo \<le> (v + n * a) div (n + 1)" "(v + n * a) div (n + 1) \<le> hi"
proof -
  have "n * lo \<le> n * a" "n * a \<le> n * hi" using assms(1) by auto
  hence "lo + n * lo \<le> v + n * a" "v + n * a \<le> hi + n * hi"
    using assms(2,3) by (simp_all only: add_mono)
  moreover have "k * (n + 1) = k + n * k" for k by (simp add: algebra_simps)
  ultimately have "lo * (n + 1) \<le> v + n * a" "v + n * a \<le> hi * (n + 1)" by (simp_all only:)
  hence "lo * (n + 1) div (n + 1) \<le> (v + n * a) div (n + 1)"
    "(v + n * a) div (n + 1) \<le> hi * (n + 1) div (n + 1)"
    by (blast intro: div_le_mono)+
  thus "lo \<le> (v + n * a) div (n + 1)" "(v + n * a) div (n + 1) \<le> hi"
    by (simp_all only: nonzero_mult_div_cancel_right add_is_0 one_neq_zero simp_thms not_False_eq_True)
qed

text \<open>A measured time: positive and below 2.1 seconds.\<close>

definition timely :: "u64 \<Rightarrow> bool" where
  "timely v \<longleftrightarrow> 0 < v \<and> v < 0x80000000"

lemma timely_unat: "timely v \<Longrightarrow> 0 < unat v \<and> unat v < 0x80000000"
  by (simp add: timely_def word_less_nat_alt)

lemma stats_inv_small:
  assumes "stats_inv vs st" "\<forall>x \<in> set vs. timely x"
  shows "unat (st_avg st) < 0x80000000" "unat (st_min st) < 0x80000000" "st_min st = 0 \<longleftrightarrow> vs = []"
proof -
  have "vs \<noteq> [] \<Longrightarrow> timely (Min (set vs)) \<and> timely (Max (set vs))" using assms(2) by simp
  hence ne: "vs \<noteq> [] \<Longrightarrow> timely (st_min st) \<and> timely (st_max st)" using assms(1) by (simp add: stats_inv_def)
  have "unat (st_avg st) \<le> unat (st_max st)" if "vs \<noteq> []"
    unfolding word_le_nat_alt[symmetric] using assms(1) that by (auto simp: stats_inv_def)
  thus "unat (st_avg st) < 0x80000000"
    using ne timely_unat[of "st_max st"] assms(1) by (cases "vs = []") (auto simp: stats_inv_def)
  show "unat (st_min st) < 0x80000000" "st_min st = 0 \<longleftrightarrow> vs = []"
    using ne timely_unat[of "st_min st"] assms(1) by (cases "vs = []"; auto simp: stats_inv_def)+
qed

lemma stats_step:
  assumes inv: "stats_inv vs st" and v: "\<forall>x \<in> set (vs @ [v]). timely x" and n: "length vs < 0xffffffff"
  shows "stats_inv (vs @ [v]) (snd (calculateSumStats v st))"
proof -
  let ?n = "st_valid st" and ?a = "st_avg st" and ?avg = "(v + ucast (st_valid st) * st_avg st) div ucast (st_valid st + 1)"
  have nn: "unat ?n = length vs" using inv by (simp add: stats_inv_def)
  have small: "unat ?a < 0x80000000" "unat (st_min st) < 0x80000000" "st_min st = 0 \<longleftrightarrow> vs = []"
    using stats_inv_small[OF inv] v by simp_all
  have v31: "0 < unat v" "unat v < 0x80000000" using timely_unat[of v] v by simp_all
  have n1: "unat (?n + 1) = length vs + 1" using n nn by (simp add: unat_word_ariths)
  have "unat ?n * unat ?a \<le> 0xffffffff * 0x80000000"
    using small n nn by (intro mult_mono) auto
  hence na: "unat (ucast ?n * ?a) = length vs * unat ?a" "length vs * unat ?a \<le> 0x7fffffff80000000"
    using unat64_mult[of "ucast ?n" ?a] nn by simp_all
  have "unat (v + ucast ?n * ?a) = unat v + length vs * unat ?a"
    using unat64_add[of v "ucast ?n * ?a"] na v31 by simp
  hence avg: "unat ?avg = (unat v + length vs * unat ?a) div (length vs + 1)"
    using n1 by (simp add: unat_div_distrib)
  have s: "x <s y \<longleftrightarrow> x < y" if "unat x < 0x80000000" "unat y < 0x80000000" for x y :: u64
    using that by (simp add: word_sless_alt sint64_small word_less_nat_alt del: of_nat_unat)
  have pos: "0 <s v" using s[of 0 v] v31 by (simp add: word_less_nat_alt)
  have st: "snd (calculateSumStats v st) = st\<lparr>st_avg := ?avg, st_valid := ?n + 1,
      st_max := max (st_max st) v, st_min := (if v < st_min st \<or> st_min st = 0 then v else st_min st),
      st_total := st_total st + 1\<rparr>"
    using pos s[OF v31(2) small(2)] by (cases st) (auto simp: calculateSumStats_def Let_def max_def)
  show ?thesis
  proof (cases "vs = []")
    case True
    have "unat ?avg = unat v" using avg True by simp
    hence "?avg = v" by (rule unsigned_word_eqI)
    thus ?thesis using True inv nn n1 unfolding st by (auto simp: stats_inv_def)
  next
    case False
    have ext: "st_min st = Min (set vs)" "st_max st = Max (set vs)" "st_min st \<le> ?a" "?a \<le> st_max st"
      using inv False by (auto simp: stats_inv_def)
    have mx: "max (st_max st) v = Max (set (vs @ [v]))"
      using False ext(2) by (simp add: max.commute)
    have mn: "(if v < st_min st \<or> st_min st = 0 then v else st_min st) = Min (set (vs @ [v]))"
    proof -
      have "Min (set (vs @ [v])) = min v (Min (set vs))"
        using False Min_insert[of "set vs" v] by simp
      moreover have "st_min st \<noteq> 0" using False small(3) by simp
      ultimately show ?thesis unfolding ext(1) by (simp only: min_def) (auto simp: not_le)
    qed
    have lo: "Min (set (vs @ [v])) \<le> v" "Min (set (vs @ [v])) \<le> ?a"
      "v \<le> Max (set (vs @ [v]))" "?a \<le> Max (set (vs @ [v]))"
      using False ext by (auto simp: min_le_iff_disj le_max_iff_disj)
    have "unat (Min (set (vs @ [v]))) \<le> unat ?avg" "unat ?avg \<le> unat (Max (set (vs @ [v])))"
      unfolding avg using lo by (intro mean_bounds; simp add: word_le_nat_alt)+
    thus ?thesis using n1 mx mn unfolding st by (auto simp: stats_inv_def word_le_nat_alt)
  qed
qed

lemma stats_of_inv:
  assumes "\<forall>x \<in> set vs. timely x" "length vs < 0x100000000"
  shows "stats_inv vs (stats_of vs)"
  using assms
proof (induction vs rule: rev_induct)
  case Nil
  show ?case by (simp add: stats_inv_def stats_of_def stats0_def)
next
  case (snoc v vs)
  have "stats_inv vs (stats_of vs)" using snoc by simp
  thus ?case using stats_step[of vs "stats_of vs" v] snoc.prems by (simp add: stats_of_def)
qed

text \<open>
  The summary of a series of measured times (positive, below 2^31 ns) has their number, their least
  and greatest value, and an average between the two; no intermediate result overflows.
\<close>

theorem summary_of_series:
  assumes "\<forall>x \<in> set vs. timely x" "length vs < 0x100000000" "vs \<noteq> []"
  defines "st \<equiv> fold (\<lambda>v st. snd (calculateSumStats v st)) vs stats0"
  shows "unat (st_valid st) = length vs \<and> st_min st = Min (set vs) \<and> st_max st = Max (set vs) \<and>
    st_min st \<le> st_avg st \<and> st_avg st \<le> st_max st"
proof -
  have "stats_inv vs st" using stats_of_inv[OF assms(1,2)] by (simp add: stats_of_def st_def)
  thus ?thesis unfolding stats_inv_def if_not_P[OF assms(3)] by blast
qed

theorem summary_of_series_witness:
  "let st = fold (\<lambda>v st. snd (calculateSumStats v st)) [30, 10, 20] stats0
   in unat (st_valid st) = 3 \<and> st_min st = 10 \<and> st_max st = 30 \<and> 10 \<le> st_avg st \<and> st_avg st \<le> 30"
proof -
  have t: "\<forall>x \<in> set [30, 10, 20]. timely x" "length [30, 10, 20 :: u64] < 0x100000000" "[30, 10, 20 :: u64] \<noteq> []"
    by (simp_all add: timely_def)
  have m: "Min (set [30, 10, 20 :: u64]) = 10" "Max (set [30, 10, 20 :: u64]) = 30" "length [30, 10, 20 :: u64] = 3" by simp_all
  show ?thesis using summary_of_series[OF t] unfolding Let_def m by (elim conjE, intro conjI) (simp_all only:)
qed

end
