(* ===== verification/Fbas_State.thy ===== *)
theory Fbas_State
  imports Fwlib Fbas_Timer Fbas_Measure
begin

text \<open>
  Data of the FBAS firmware (fast beam abort system, modules/fbas): the MPS messages
  exchanged between emitters (TX nodes) and a collector (RX node), the controller
  of periodic messaging, the output ports, and the global state of the firmware,
  which extends the state of the common library.
\<close>

section \<open>Constants (fbas_common.h, fbas.h, tmessage.h)\<close>

definition TIM_1_MS :: u64 where "TIM_1_MS = 1000000"
definition TIM_52_MS :: u64 where "TIM_52_MS = TIM_1_MS * 52"
definition TIM_100_MS :: u64 where "TIM_100_MS = TIM_1_MS * 100"
definition N_MAX_TX_NODES :: nat where "N_MAX_TX_NODES = 16"
definition N_MPS_CHANNELS :: nat where "N_MPS_CHANNELS = 1"
definition N_MAX_MPS_CHANNELS :: nat where "N_MAX_MPS_CHANNELS = N_MAX_TX_NODES * N_MPS_CHANNELS"
definition N_EXTRA_MPS_NOK :: nat where "N_EXTRA_MPS_NOK = 0"
definition BROADCAST_MAC :: u64 where "BROADCAST_MAC = 0xffffffffffff"
definition BROADCAST_IP :: u32 where "BROADCAST_IP = 0xffffffff"

definition MPS_FLAG_OK :: "4 word" where "MPS_FLAG_OK = 0"
definition MPS_FLAG_NOK :: "4 word" where "MPS_FLAG_NOK = 1"
definition MPS_FLAG_TEST :: "4 word" where "MPS_FLAG_TEST = 2"
definition BIC_MSK :: u8 where "BIC_MSK = 0xff"
definition CH_MSK :: u8 where "CH_MSK = 0xf"
definition FLAG_MSK :: u8 where "FLAG_MSK = 0xf"
definition REG_REQ :: u8 where "REG_REQ = 0xf"
definition REG_RSP :: u8 where "REG_RSP = 0xe"

definition FBAS_AHEAD_TIME :: u64 where "FBAS_AHEAD_TIME = 0"

definition eid :: "u64 \<Rightarrow> u64 \<Rightarrow> u64" where
  "eid gid evtno = push_bit 60 1 OR push_bit 48 gid OR push_bit 36 evtno"

definition FBAS_FLG_EID :: u64 where "FBAS_FLG_EID = eid 0xfcb 0xfcb"
definition FBAS_EVT_EID :: u64 where "FBAS_EVT_EID = eid 0xfcc 0xfcc"
definition FBAS_REG_EID :: u64 where "FBAS_REG_EID = eid 0xfcd 0xfcd"

definition txMsgRates :: "u32 list" where
  "txMsgRates = [33333, 100000, 50000, 20000, 10000, 5000, 3333, 2500, 2000, 1250, 1000, 833, 666, 555,
     500, 333, 250, 200, 166, 143, 125]"

definition TSK_TX_MPS_FLAGS :: u32 where "TSK_TX_MPS_FLAGS = 0x10000000"
definition TSK_TX_MPS_EVENTS :: u32 where "TSK_TX_MPS_EVENTS = 0x20000000"
definition TSK_MONIT_MPS_TTL :: u32 where "TSK_MONIT_MPS_TTL = 0x40000000"
definition TSK_EVAL_MPS_TTL :: u32 where "TSK_EVAL_MPS_TTL = 0x80000000"
definition TSK_REG_COMPLETE :: u32 where "TSK_REG_COMPLETE = 0x01000000"
definition TSK_REG_PER_OVER :: u32 where "TSK_REG_PER_OVER = 0x02000000"

definition FBAS_GEN_EVT :: u32 where "FBAS_GEN_EVT = 0x42"
definition FBAS_TLU_EVT :: u32 where "FBAS_TLU_EVT = 0x43"
definition FBAS_NODE_REG :: u32 where "FBAS_NODE_REG = 0x45"
definition FBAS_WR_EVT :: u32 where "FBAS_WR_EVT = 0x24"
definition FBAS_WR_FLG :: u32 where "FBAS_WR_FLG = 0x25"
definition FBAS_AUX_NEWCYCLE :: u32 where "FBAS_AUX_NEWCYCLE = 0x26"
definition FBAS_AUX_OPMODE :: u32 where "FBAS_AUX_OPMODE = 0x27"

text \<open>Offsets of the application's shared memory (fbas.h).\<close>

definition FBAS_SHARED_C2_MSG_BEGIN :: u32 where "FBAS_SHARED_C2_MSG_BEGIN = 0x300"
definition FBAS_SHARED_BEGIN :: u32 where "FBAS_SHARED_BEGIN = 0x400"
definition FBAS_SHARED_SET_NODETYPE :: u32 where "FBAS_SHARED_SET_NODETYPE = FBAS_SHARED_BEGIN + 8"
definition FBAS_SHARED_GET_NODETYPE :: u32 where "FBAS_SHARED_GET_NODETYPE = FBAS_SHARED_BEGIN + 24"
definition FBAS_SHARED_TX_MSG_CNT :: u32 where "FBAS_SHARED_TX_MSG_CNT = FBAS_SHARED_BEGIN + 284"
definition FBAS_SHARED_OLD_MSG_CNT :: u32 where "FBAS_SHARED_OLD_MSG_CNT = FBAS_SHARED_TX_MSG_CNT + 4"
definition FBAS_SHARED_BAD_MSG_CNT :: u32 where "FBAS_SHARED_BAD_MSG_CNT = FBAS_SHARED_TX_MSG_CNT + 8"
definition FBAS_SHARED_GET_AVG :: u32 where "FBAS_SHARED_GET_AVG = FBAS_SHARED_TX_MSG_CNT + 60"
definition FBAS_SHARED_ECA_VLD :: u32 where "FBAS_SHARED_ECA_VLD = FBAS_SHARED_GET_AVG + 40"
definition FBAS_SHARED_ECA_OVF :: u32 where "FBAS_SHARED_ECA_OVF = FBAS_SHARED_ECA_VLD + 4"
definition FBAS_SHARED_SENDERID :: u32 where "FBAS_SHARED_SENDERID = FBAS_SHARED_ECA_VLD + 8"
definition FBAS_SHARED_ECA_DLY_AVG :: u32 where "FBAS_SHARED_ECA_DLY_AVG = FBAS_SHARED_SENDERID + 8"
definition FBAS_SHARED_TX_DLY_AVG :: u32 where "FBAS_SHARED_TX_DLY_AVG = FBAS_SHARED_ECA_DLY_AVG + 32"
definition FBAS_SHARED_RX_DLY_AVG :: u32 where "FBAS_SHARED_RX_DLY_AVG = FBAS_SHARED_TX_DLY_AVG + 32"
definition FBAS_SHARED_SG_LTY_AVG :: u32 where "FBAS_SHARED_SG_LTY_AVG = FBAS_SHARED_RX_DLY_AVG + 32"
definition FBAS_SHARED_MSG_DLY_AVG :: u32 where "FBAS_SHARED_MSG_DLY_AVG = FBAS_SHARED_SG_LTY_AVG + 32"
definition FBAS_SHARED_MSG_RATE_AVG :: u32 where "FBAS_SHARED_MSG_RATE_AVG = FBAS_SHARED_MSG_DLY_AVG + 32"
definition FBAS_SHARED_TTL_PRD_AVG :: u32 where "FBAS_SHARED_TTL_PRD_AVG = FBAS_SHARED_MSG_RATE_AVG + 32"
definition FBAS_SHARED_ML_PRD_AVG :: u32 where "FBAS_SHARED_ML_PRD_AVG = FBAS_SHARED_TTL_PRD_AVG + 32"
definition FBAS_SHARED_ACT_RATE :: u32 where "FBAS_SHARED_ACT_RATE = FBAS_SHARED_ML_PRD_AVG + 32"
definition FBAS_SHARED_ERROR_FLAG :: u32 where "FBAS_SHARED_ERROR_FLAG = FBAS_SHARED_ACT_RATE + 32"
definition FBAS_SHARED_END :: u32 where "FBAS_SHARED_END = FBAS_SHARED_ERROR_FLAG + 4"

section \<open>Messages\<close>

text \<open>\<open>mpsProtocol_t\<close>: the union with \<open>param\<close> is read big endian; \<open>mps_param\<close> packs it,
  and a received word is taken apart by \<open>raw_addr\<close>, \<open>raw_bic\<close>, \<open>raw_ch\<close> and \<open>raw_flag\<close>.\<close>

type_synonym mac = "48 word"

record mps_msg =
  addr :: mac
  bic_id :: u8
  ch_id :: "4 word"
  flag :: "4 word"
  tsRx :: u64
  ttl :: u8
  pending :: u8

definition mps_param :: "mps_msg \<Rightarrow> u64" where
  "mps_param m = push_bit 16 (ucast (addr m)) OR push_bit 8 (ucast (bic_id m))
     OR push_bit 4 (ucast (ch_id m)) OR ucast (flag m)"

definition raw_addr :: "u64 \<Rightarrow> mac" where "raw_addr raw = ucast (drop_bit 16 raw)"
definition raw_bic :: "u64 \<Rightarrow> u8" where "raw_bic raw = ucast (drop_bit 8 raw) AND BIC_MSK"
definition raw_ch :: "u64 \<Rightarrow> u8" where "raw_ch raw = ucast (drop_bit 4 raw) AND CH_MSK"
definition raw_flag :: "u64 \<Rightarrow> u8" where "raw_flag raw = ucast raw AND FLAG_MSK"

record msg_ctrl =
  ctrl_total :: u8
  ctrl_last :: u64
  ctrl_period :: u64
  ctrl_ttl :: u8

section \<open>The global state\<close>

datatype node_t = FBAS_NODE_TX | FBAS_NODE_RX | FBAS_NODE_CM | FBAS_NODE_UNDEF

definition node_of :: "u32 \<Rightarrow> node_t" where
  "node_of v = (if v = 0 then FBAS_NODE_TX else if v = 1 then FBAS_NODE_RX else if v = 2 then FBAS_NODE_CM
                else FBAS_NODE_UNDEF)"

definition node_num :: "node_t \<Rightarrow> u32" where
  "node_num t = (case t of FBAS_NODE_TX \<Rightarrow> 0 | FBAS_NODE_RX \<Rightarrow> 1 | FBAS_NODE_CM \<Rightarrow> 2 | FBAS_NODE_UNDEF \<Rightarrow> 3)"

datatype op_mode = FBAS_OPMODE_DEF | FBAS_OPMODE_TEST

datatype dst_addr = DST_ADDR_EBM | DST_ADDR_RXNODE | DST_ADDR_BROADCAST

record io_port =
  io_type :: u8
  io_idx :: u8

record out_port_cfg =
  cfg_type :: u8
  cfg_total :: u8

text \<open>\<open>crashed\<close> is set when the code dereferences a null pointer; what it does from then on is not
  described.  Timer pointers are indices, None is the null pointer.  \<open>sb_last\<close> is the value last
  sent by \<open>sbPutMpsFlags\<close>, None before the first.\<close>

record fbas = fw +
  senders :: "mac list"
  bufMpsMsg :: "mps_msg list"
  mpsMsgCtrl :: msg_ctrl
  timers :: "timer_s list"
  timerDbg :: timer_dbg_s
  pTimerMpsTtl :: "nat option"
  pTimerRegistr :: "nat option"
  pTimerConsole :: "nat option"
  wbTimer :: bool
  msr :: measure
  outPortCfg :: out_port_cfg
  EffLogOut :: "io_port list"
  sbSlaves :: u32
  sbDiobs :: u32
  sb_last :: "u16 option"
  myMac :: u64
  myIdx :: u8
  myBic :: u8
  nodeType :: node_t
  opMode :: op_mode
  cntCmd :: u32
  mpsTask :: u32
  dstMac :: "dst_addr \<Rightarrow> u64"
  dstIp :: "dst_addr \<Rightarrow> u32"
  statusArray :: u32
  crashed :: bool

end
