(* ===== verification/Fbas_Message.thy ===== *)
theory Fbas_Message
  imports Fbas_State
begin

text \<open>
  MPS messages (modules/fbas/fw/tmessage.c): sending the flag and events of the power
  converter, storing what arrives from registered senders, the lifetime of a stored
  flag, and the table of senders.
\<close>

section \<open>The messaging controller\<close>

definition msgInitMsgCtrl :: "u8 \<Rightarrow> u64 \<Rightarrow> u32 \<Rightarrow> msg_ctrl \<Rightarrow> msg_ctrl" where
  "msgInitMsgCtrl tot now period c =
     (let c1 = c\<lparr>ctrl_total := tot, ctrl_last := now, ctrl_period := ucast (txMsgRates ! 0)\<rparr>
      in if period \<noteq> 0 \<and> tot \<noteq> 0
         then c1\<lparr>ctrl_period := ucast (period * 1000), ctrl_ttl := ucast (TIM_100_MS div TIM_1_MS + 1)\<rparr>
         else c1)"

text \<open>\<open>msgSendPcFlag\<close>: one message per period, sent when the period is over.\<close>

definition msgSendPcFlag :: "u64 \<Rightarrow> fbas \<Rightarrow> u32 \<times> fbas" where
  "msgSendPcFlag evtId s =
     (case sys_time s of (now, s1) \<Rightarrow>
        let c = mpsMsgCtrl s1;
            deadline = (if ctrl_last c = 0 then now else ctrl_last c + ctrl_period c)
        in if deadline \<le> now
           then let param = mps_param (bufMpsMsg s1 ! 0);
                    s2 = fold (\<lambda>w s. ebm_op COMMON_ECA_ADDRESS w (EBM_WRITE s) s)
                      (tm_words (now + FBAS_AHEAD_TIME) evtId param 0) (ebm_hi COMMON_ECA_ADDRESS s1);
                    s3 = ebm_flush s2
                in (1, s3\<lparr>mpsMsgCtrl := c\<lparr>ctrl_last := now\<rparr>\<rparr>)
           else (0, s1))"

fun send_extra :: "u64 \<Rightarrow> u64 \<Rightarrow> u64 \<Rightarrow> nat \<Rightarrow> u32 \<Rightarrow> fbas \<Rightarrow> u32 \<times> fbas" where
  "send_extra deadline evtid param 0 cnt s = (cnt, s)"
| "send_extra deadline evtid param (Suc n) cnt s =
     (case fwlib_ebmWriteTM deadline evtid param 0 1 s of (st, s1) \<Rightarrow>
        send_extra deadline evtid param n (if st = COMMON_STATUS_OK then cnt + 1 else cnt) s1)"

definition msgSendPcEvent :: "nat \<Rightarrow> u64 \<Rightarrow> nat \<Rightarrow> fbas \<Rightarrow> u32 \<times> fbas" where
  "msgSendPcEvent i evtid extra s =
     (case sys_time s of (now, s1) \<Rightarrow>
        if ctrl_last (mpsMsgCtrl s1) \<ge> now then (0, s1)
        else let buf = bufMpsMsg s1 ! i; deadline = tsRx buf + FBAS_AHEAD_TIME
             in case fwlib_ebmWriteTM deadline evtid (mps_param buf) 0 1 s1 of (st, s2) \<Rightarrow>
                let cnt = (if st = COMMON_STATUS_OK then 1 else 0)
                in if flag buf = MPS_FLAG_NOK
                   then send_extra deadline evtid (mps_param buf) extra cnt s2
                   else (cnt, s2))"

section \<open>Storing what arrives\<close>

text \<open>\<open>bufPcEvent\<close> is the head of the message buffer, index 0.\<close>

definition msgStorePcEvent :: "u64 \<Rightarrow> u64 \<Rightarrow> fbas \<Rightarrow> fbas" where
  "msgStorePcEvent evt t s =
     (let b = (ucast evt :: u8);
          f = (if b = ucast MPS_FLAG_OK then MPS_FLAG_OK else if b = ucast MPS_FLAG_NOK then MPS_FLAG_NOK
               else MPS_FLAG_TEST)
      in s\<lparr>bufMpsMsg := (bufMpsMsg s)[0 := (bufMpsMsg s ! 0)\<lparr>flag := f, tsRx := t\<rparr>]\<rparr>)"

text \<open>\<open>msgStoreMpsMsg\<close>: the result is the channel, \<open>N_MAX_MPS_CHANNELS\<close> for a repeated message, or
  None where the C code returns a negative number.\<close>

definition msgStoreMpsMsg :: "u64 \<Rightarrow> u64 \<Rightarrow> msg_ctrl \<Rightarrow> fbas \<Rightarrow> nat option \<times> fbas" where
  "msgStoreMpsMsg raw t ctrl s =
     (let c = unat (raw_ch raw) in
      if N_MAX_MPS_CHANNELS \<le> c then (None, s)
      else let m = bufMpsMsg s ! c in
        if raw_addr raw = addr m \<and> ucast (ch_id m) = raw_ch raw \<and> bic_id m = raw_bic raw
        then if t \<noteq> tsRx m
             then (Some c, s\<lparr>bufMpsMsg := (bufMpsMsg s)[c := m\<lparr>pending := ucast (flag m) XOR raw_flag raw,
                     flag := ucast (raw_flag raw), ttl := ctrl_ttl ctrl, tsRx := t\<rparr>]\<rparr>)
             else (Some N_MAX_MPS_CHANNELS, s)
        else (None, s))"

text \<open>\<open>evalMpsMsgTtl\<close>: one step of the lifetime; true when it ends with this step.\<close>

definition eval_ttl :: "mps_msg \<Rightarrow> bool \<times> mps_msg" where
  "eval_ttl m =
     (if ttl m \<noteq> 0
      then let m1 = m\<lparr>ttl := ttl m - 1\<rparr>
           in if ttl m1 = 0 then (True, m1\<lparr>flag := MPS_FLAG_NOK\<rparr>) else (False, m1)
      else (False, m))"

definition evalMpsMsgTtl :: "nat \<Rightarrow> fbas \<Rightarrow> bool \<times> fbas" where
  "evalMpsMsgTtl i s =
     (case eval_ttl (bufMpsMsg s ! i) of (e, m) \<Rightarrow> (e, s\<lparr>bufMpsMsg := (bufMpsMsg s)[i := m]\<rparr>))"

section \<open>The buffer and the senders\<close>

definition msgResetMpsBuf :: "nat \<Rightarrow> mac option \<Rightarrow> 4 word \<Rightarrow> fbas \<Rightarrow> fbas" where
  "msgResetMpsBuf c pId f s =
     s\<lparr>bufMpsMsg := (bufMpsMsg s)[c := (bufMpsMsg s ! c)\<lparr>addr := (case pId of Some a \<Rightarrow> a | None \<Rightarrow> 0),
         flag := f, ch_id := of_nat c, ttl := 0, tsRx := 0\<rparr>]\<rparr>"

definition msgInitMpsMsgBuf :: "u64 \<Rightarrow> fbas \<Rightarrow> fbas" where
  "msgInitMpsMsgBuf mac s =
     fold (\<lambda>i. msgResetMpsBuf i (Some (ucast mac)) MPS_FLAG_TEST) [0..<N_MAX_TX_NODES] s"

definition msgInitPcEventBuf :: "u64 \<Rightarrow> u8 \<Rightarrow> u8 \<Rightarrow> fbas \<Rightarrow> fbas" where
  "msgInitPcEventBuf mac bic ch s =
     s\<lparr>bufMpsMsg := (bufMpsMsg s)[0 := (bufMpsMsg s ! 0)\<lparr>addr := ucast mac, flag := MPS_FLAG_TEST,
         bic_id := bic, ch_id := ucast ch, ttl := 0, tsRx := 0\<rparr>]\<rparr>"

definition force_high :: "mps_msg \<Rightarrow> mps_msg" where
  "force_high m = m\<lparr>pending := ucast (flag m) XOR ucast MPS_FLAG_OK, flag := MPS_FLAG_OK, ttl := 0, tsRx := 0\<rparr>"

text \<open>Through a null pointer the C code overwrites the first bytes of the RAM.\<close>

definition msgForceHigh :: "nat option \<Rightarrow> fbas \<Rightarrow> fbas" where
  "msgForceHigh buf s =
     (case buf of None \<Rightarrow> s\<lparr>crashed := True\<rparr>
      | Some i \<Rightarrow> s\<lparr>bufMpsMsg := fold (\<lambda>k b. b[i + k := force_high (b ! (i + k))]) [0..<N_MAX_TX_NODES] (bufMpsMsg s)\<rparr>)"

text \<open>\<open>msgUpdateMpsBuf\<close>: the host's word holds the channel in its top byte and the MAC address in
  the lower 48 bits.  An address already registered is removed first.\<close>

definition remove_sender :: "mac \<Rightarrow> nat \<Rightarrow> fbas \<Rightarrow> fbas" where
  "remove_sender a i s =
     (let s1 = (if senders s ! i = a then s\<lparr>senders := (senders s)[i := 0]\<rparr> else s)
      in if addr (bufMpsMsg s1 ! i) = a then msgResetMpsBuf i None MPS_FLAG_TEST s1 else s1)"

definition msgUpdateMpsBuf :: "u64 \<Rightarrow> fbas \<Rightarrow> fbas" where
  "msgUpdateMpsBuf w s =
     (let c = unat (drop_bit 56 w); a = (ucast w :: mac);
          s1 = fold (remove_sender a) [0..<N_MAX_TX_NODES] s;
          s2 = msgResetMpsBuf c (Some a) MPS_FLAG_OK (s1\<lparr>senders := (senders s1)[c := a]\<rparr>)
      in s2\<lparr>bufMpsMsg := (bufMpsMsg s2)[c := (bufMpsMsg s2 ! c)\<lparr>ch_id := of_nat c\<rparr>]\<rparr>)"

definition msgSetBic :: "u8 \<Rightarrow> fbas \<Rightarrow> fbas" where
  "msgSetBic b s = s\<lparr>bufMpsMsg := map (\<lambda>m. m\<lparr>bic_id := b\<rparr>) (bufMpsMsg s)\<rparr>"

fun find_sender :: "mac \<Rightarrow> nat \<Rightarrow> mac list \<Rightarrow> nat option" where
  "find_sender a i [] = None"
| "find_sender a i (x # xs) = (if x = a then Some i else find_sender a (Suc i) xs)"

definition msgGetSenderIndex :: "u64 \<Rightarrow> fbas \<Rightarrow> nat option" where
  "msgGetSenderIndex w s = find_sender (ucast w) 0 (senders s)"

definition msgRegisterNode :: "u64 \<Rightarrow> u8 \<Rightarrow> u8 \<Rightarrow> u8 \<Rightarrow> fbas \<Rightarrow> u32 \<times> fbas" where
  "msgRegisterNode node_id bic ch f s =
     (case sys_time s of (now, s1) \<Rightarrow>
        fwlib_ebmWriteTM (now + FBAS_AHEAD_TIME) FBAS_REG_EID
          (push_bit 16 node_id OR push_bit 8 (ucast bic) OR push_bit 4 (ucast ch) OR ucast f) 0 1 s1)"

text \<open>One bit per channel, set when its flag is NOK.\<close>

definition msgRepresentMpsFlags :: "fbas \<Rightarrow> u32" where
  "msgRepresentMpsFlags s =
     fold (\<lambda>i f. if flag (bufMpsMsg s ! i) = MPS_FLAG_NOK then f OR push_bit i 1 else f) [0..<N_MAX_TX_NODES] 0"

section \<open>The protocol word\<close>

lemma raw_param [simp]:
  "raw_addr (mps_param m) = addr m" "raw_bic (mps_param m) = bic_id m"
  "raw_ch (mps_param m) = ucast (ch_id m)" "raw_flag (mps_param m) = ucast (flag m)"
proof -
  have m: "(0xff :: u8) = mask 8" "(0xf :: u8) = mask 4" by (simp_all add: mask_eq_exp_minus_1)
  show "raw_addr (mps_param m) = addr m" "raw_bic (mps_param m) = bic_id m"
    "raw_ch (mps_param m) = ucast (ch_id m)" "raw_flag (mps_param m) = ucast (flag m)"
    unfolding raw_addr_def raw_bic_def raw_ch_def raw_flag_def mps_param_def BIC_MSK_def CH_MSK_def
      FLAG_MSK_def m
    by (rule bit_word_eqI; auto simp: bit_simps dest: bit_imp_le_length)+
qed

section \<open>The table of senders\<close>

text \<open>Every registered sender has its own channel, and the message buffer of that channel expects
  messages from it.\<close>

definition registry :: "fbas \<Rightarrow> bool" where
  "registry s \<longleftrightarrow> length (senders s) = 16 \<and> length (bufMpsMsg s) = 16 \<and>
     (\<forall>i < 16. senders s ! i \<noteq> 0 \<longrightarrow> addr (bufMpsMsg s ! i) = senders s ! i \<and> ch_id (bufMpsMsg s ! i) = of_nat i) \<and>
     (\<forall>i < 16. \<forall>j < 16. senders s ! i = senders s ! j \<and> senders s ! i \<noteq> 0 \<longrightarrow> i = j)"

lemma remove_sender_sel:
  assumes "length (senders s) = 16" "length (bufMpsMsg s) = 16"
  shows "senders (remove_sender a i s) = (if senders s ! i = a then (senders s)[i := 0] else senders s)"
    and "length (bufMpsMsg (remove_sender a i s)) = 16"
    and "j < 16 \<Longrightarrow> bufMpsMsg (remove_sender a i s) ! j =
      (if j = i \<and> addr (bufMpsMsg s ! i) = a
       then (bufMpsMsg s ! i)\<lparr>addr := 0, flag := MPS_FLAG_TEST, ch_id := of_nat i, ttl := 0, tsRx := 0\<rparr>
       else bufMpsMsg s ! j)"
  using assms by (auto simp: remove_sender_def msgResetMpsBuf_def)

lemma remove_senders:
  assumes "length (senders s) = 16" "length (bufMpsMsg s) = 16" "n \<le> 16" "a \<noteq> 0"
  defines "s' \<equiv> fold (remove_sender a) [0..<n] s"
  shows "length (senders s') = 16 \<and> length (bufMpsMsg s') = 16 \<and>
    (\<forall>j < 16. senders s' ! j = (if j < n \<and> senders s ! j = a then 0 else senders s ! j)) \<and>
    (\<forall>j < 16. bufMpsMsg s' ! j = (if j < n \<and> addr (bufMpsMsg s ! j) = a
       then (bufMpsMsg s ! j)\<lparr>addr := 0, flag := MPS_FLAG_TEST, ch_id := of_nat j, ttl := 0, tsRx := 0\<rparr>
       else bufMpsMsg s ! j))"
  using assms(1-3) unfolding s'_def
proof (induction n)
  case (Suc n)
  let ?t = "fold (remove_sender a) [0..<n] s"
  have ih: "length (senders ?t) = 16" "length (bufMpsMsg ?t) = 16"
    "\<And>j. j < 16 \<Longrightarrow> senders ?t ! j = (if j < n \<and> senders s ! j = a then 0 else senders s ! j)"
    "\<And>j. j < 16 \<Longrightarrow> bufMpsMsg ?t ! j = (if j < n \<and> addr (bufMpsMsg s ! j) = a
       then (bufMpsMsg s ! j)\<lparr>addr := 0, flag := MPS_FLAG_TEST, ch_id := of_nat j, ttl := 0, tsRx := 0\<rparr>
       else bufMpsMsg s ! j)"
    using Suc by auto
  note r = remove_sender_sel[OF ih(1,2)]
  have "fold (remove_sender a) [0..<Suc n] s = remove_sender a n ?t" by simp
  thus ?case
    using r ih Suc.prems(3) by (auto simp: less_Suc_eq nth_list_update)
qed simp

text \<open>Registering an address on a channel keeps the table consistent, moves the address to that
  channel, and makes it the one that is found.\<close>

lemma update_sel:
  assumes "length (senders s) = 16" "length (bufMpsMsg s) = 16"
    and c: "unat (drop_bit 56 w) = c" "c < 16" and a: "ucast w = a" "a \<noteq> 0"
  shows "length (senders (msgUpdateMpsBuf w s)) = 16" "length (bufMpsMsg (msgUpdateMpsBuf w s)) = 16"
    and "j < 16 \<Longrightarrow> senders (msgUpdateMpsBuf w s) ! j =
      (if j = c then a else if senders s ! j = a then 0 else senders s ! j)"
    and "j < 16 \<Longrightarrow> bufMpsMsg (msgUpdateMpsBuf w s) ! j =
      (if j = c then (bufMpsMsg s ! c)\<lparr>addr := a, flag := MPS_FLAG_OK, ch_id := of_nat c, ttl := 0, tsRx := 0\<rparr>
       else if addr (bufMpsMsg s ! j) = a
       then (bufMpsMsg s ! j)\<lparr>addr := 0, flag := MPS_FLAG_TEST, ch_id := of_nat j, ttl := 0, tsRx := 0\<rparr>
       else bufMpsMsg s ! j)"
proof -
  have "(16 :: nat) \<le> 16" by simp
  note r = remove_senders[OF assms(1,2) this a(2)]
  let ?t = "fold (remove_sender a) [0..<16] s"
  have u: "msgUpdateMpsBuf w s = (let s2 = msgResetMpsBuf c (Some a) MPS_FLAG_OK (?t\<lparr>senders := (senders ?t)[c := a]\<rparr>)
      in s2\<lparr>bufMpsMsg := (bufMpsMsg s2)[c := (bufMpsMsg s2 ! c)\<lparr>ch_id := of_nat c\<rparr>]\<rparr>)"
    using c a by (simp add: msgUpdateMpsBuf_def Let_def N_MAX_TX_NODES_def del: upt_rec_numeral)
  have b: "(bufMpsMsg ?t ! c)\<lparr>addr := a, flag := MPS_FLAG_OK, ch_id := of_nat c, ttl := 0, tsRx := 0\<rparr>
      = (bufMpsMsg s ! c)\<lparr>addr := a, flag := MPS_FLAG_OK, ch_id := of_nat c, ttl := 0, tsRx := 0\<rparr>"
    using r c(2) by simp
  show "length (senders (msgUpdateMpsBuf w s)) = 16" "length (bufMpsMsg (msgUpdateMpsBuf w s)) = 16"
    using r unfolding u Let_def msgResetMpsBuf_def by (simp_all del: upt_rec_numeral)
  show "j < 16 \<Longrightarrow> senders (msgUpdateMpsBuf w s) ! j =
      (if j = c then a else if senders s ! j = a then 0 else senders s ! j)"
    using r c(2) unfolding u Let_def msgResetMpsBuf_def
    by (simp add: nth_list_update del: upt_rec_numeral)
  show "j < 16 \<Longrightarrow> bufMpsMsg (msgUpdateMpsBuf w s) ! j =
      (if j = c then (bufMpsMsg s ! c)\<lparr>addr := a, flag := MPS_FLAG_OK, ch_id := of_nat c, ttl := 0, tsRx := 0\<rparr>
       else if addr (bufMpsMsg s ! j) = a
       then (bufMpsMsg s ! j)\<lparr>addr := 0, flag := MPS_FLAG_TEST, ch_id := of_nat j, ttl := 0, tsRx := 0\<rparr>
       else bufMpsMsg s ! j)"
    using r c(2) unfolding u Let_def msgResetMpsBuf_def
    by (simp add: nth_list_update b del: upt_rec_numeral)
qed

lemma registry_update:
  assumes "registry s" "unat (drop_bit 56 w) = c" "c < 16" "ucast w = (a :: mac)" "a \<noteq> 0"
  shows "registry (msgUpdateMpsBuf w s)"
proof -
  have l: "length (senders s) = 16" "length (bufMpsMsg s) = 16" using assms(1) by (simp_all add: registry_def)
  note u = update_sel[OF l assms(2-5)]
  show ?thesis
    unfolding registry_def using u assms(1) unfolding registry_def
    by (simp add: nth_list_update) (metis (no_types, lifting))
qed

lemma find_sender_spec:
  "find_sender a i xs = Some k \<longleftrightarrow> (\<exists>j < length xs. k = i + j \<and> xs ! j = a \<and> (\<forall>m < j. xs ! m \<noteq> a))"
proof (induction a i xs arbitrary: k rule: find_sender.induct)
  case (2 a i x xs)
  show ?case
  proof (cases "x = a")
    case True
    thus ?thesis by (auto intro: exI[of _ 0]) (metis nth_Cons_0 zero_less_iff_neq_zero)
  next
    case False
    hence "find_sender a i (x # xs) = find_sender a (Suc i) xs" by simp
    also have "\<dots> = Some k \<longleftrightarrow> (\<exists>j < length xs. k = Suc i + j \<and> xs ! j = a \<and> (\<forall>m < j. xs ! m \<noteq> a))"
      using 2 False by simp
    also have "\<dots> \<longleftrightarrow> (\<exists>j < length (x # xs). k = i + j \<and> (x # xs) ! j = a \<and> (\<forall>m < j. (x # xs) ! m \<noteq> a))"
      using False by (fastforce simp: less_Suc_eq_0_disj)
    finally show ?thesis .
  qed
qed simp

lemma registered_found:
  assumes "registry s" "i < 16" "senders s ! i = a" "a \<noteq> 0" "ucast w = a"
  shows "msgGetSenderIndex w s = Some i"
proof -
  have "length (senders s) = 16" "\<forall>m < 16. senders s ! m = a \<longrightarrow> m = i"
    using assms by (auto simp: registry_def)
  thus ?thesis
    unfolding msgGetSenderIndex_def find_sender_spec using assms(2,3,5)
    by (intro exI[of _ i]) (metis add_0 less_trans nat_neq_iff)
qed

text \<open>
  C27. The host registers a sender: the table of senders stays consistent (every address at most
  once, each channel expecting its own sender), the address is found under the new channel, and
  every other registered sender keeps its channel, but for the one that had this channel and is displaced.
\<close>

theorem sender_registered:
  assumes "registry s" "unat (drop_bit 56 w) = c" "c < 16" "ucast w = (a :: mac)" "a \<noteq> 0"
  shows "registry (msgUpdateMpsBuf w s) \<and> msgGetSenderIndex w (msgUpdateMpsBuf w s) = Some c \<and>
    (\<forall>w'. ucast w' \<noteq> a \<and> ucast w' \<noteq> (0 :: mac) \<and> msgGetSenderIndex w' s \<noteq> Some c \<longrightarrow>
       msgGetSenderIndex w' (msgUpdateMpsBuf w s) = msgGetSenderIndex w' s)"
proof -
  have l: "length (senders s) = 16" "length (bufMpsMsg s) = 16" using assms(1) by (simp_all add: registry_def)
  note u = update_sel[OF l assms(2-5)]
  have r: "registry (msgUpdateMpsBuf w s)" by (rule registry_update[OF assms])
  have "msgGetSenderIndex w' (msgUpdateMpsBuf w s) = msgGetSenderIndex w' s"
    if w': "ucast w' \<noteq> a" "ucast w' \<noteq> (0 :: mac)" "msgGetSenderIndex w' s \<noteq> Some c" for w'
  proof (cases "msgGetSenderIndex w' s")
    case (Some i)
    hence i: "i < 16" "senders s ! i = ucast w'" "i \<noteq> c"
      using l w'(3) by (auto simp: msgGetSenderIndex_def find_sender_spec)
    hence "senders (msgUpdateMpsBuf w s) ! i = ucast w'" using u(3)[OF i(1)] w'(1) by simp
    thus ?thesis using registered_found[OF r i(1) _ w'(2)] Some by simp
  next
    case None
    have "senders (msgUpdateMpsBuf w s) ! j \<noteq> ucast w'" if "j < 16" for j
    proof
      assume e: "senders (msgUpdateMpsBuf w s) ! j = ucast w'"
      hence "senders s ! j = ucast w'" using u(3)[OF that] w' by (auto split: if_splits)
      hence "msgGetSenderIndex w' s = Some j" by (intro registered_found[OF assms(1) that _ w'(2)]) simp_all
      thus False using None by simp
    qed
    thus ?thesis
      unfolding None using u(1)
      by (cases "msgGetSenderIndex w' (msgUpdateMpsBuf w s)") (auto simp: msgGetSenderIndex_def find_sender_spec)
  qed
  moreover have "msgGetSenderIndex w (msgUpdateMpsBuf w s) = Some c"
    using u(3)[OF assms(3)] by (intro registered_found[OF r assms(3) _ assms(5,4)]) simp
  ultimately show ?thesis using r by blast
qed

section \<open>From the wire into the buffer\<close>

lemma chan_cast:
  assumes "c < 16"
  shows "ucast (of_nat c :: 4 word) = (of_nat c :: u8)" "unat (of_nat c :: u8) = c"
  using assms by (simp_all add: word_unat_eq_iff unsigned_ucast_eq unat_of_nat take_bit_nat_eq_self)

lemma xor_0_iff: "a XOR b = 0 \<longleftrightarrow> a = (b :: 'a :: len word)"
  by (auto simp: bit_eq_iff bit_xor_iff)

lemma ucast_4_8: "(ucast x :: u8) = ucast y \<longleftrightarrow> x = (y :: 4 word)"
proof -
  have "unat (ucast z :: u8) = unat z" for z :: "4 word"
  proof -
    have "unat z < 2 ^ LENGTH(4)" by (rule unsigned_less)
    thus ?thesis by (simp add: unsigned_ucast_eq take_bit_nat_eq_self)
  qed
  thus ?thesis by (metis word_unat_eq_iff)
qed

lemma u8_small: "j < 256 \<Longrightarrow> (of_nat j :: u8) = 0 \<longleftrightarrow> j = 0"
  by (simp add: word_unat_eq_iff unat_of_nat take_bit_nat_eq_self)

lemma u8_pred: "n < k \<Longrightarrow> (of_nat (k - n) :: u8) - 1 = of_nat (k - Suc n)"
  by (simp add: of_nat_diff Suc_leI)

lemma store_sel:
  assumes "length (bufMpsMsg s) = 16" "raw_addr raw = addr (bufMpsMsg s ! c)"
    "raw_bic raw = bic_id (bufMpsMsg s ! c)" "raw_ch raw = of_nat c" "ch_id (bufMpsMsg s ! c) = of_nat c" "c < 16"
    "t \<noteq> tsRx (bufMpsMsg s ! c)"
  shows "msgStoreMpsMsg raw t ctrl s = (Some c, s\<lparr>bufMpsMsg := (bufMpsMsg s)[c :=
    (bufMpsMsg s ! c)\<lparr>pending := ucast (flag (bufMpsMsg s ! c)) XOR raw_flag raw,
      flag := ucast (raw_flag raw), ttl := ctrl_ttl ctrl, tsRx := t\<rparr>]\<rparr>)"
proof -
  note c = chan_cast[OF assms(6)]
  show ?thesis
    using assms c
    by (simp add: msgStoreMpsMsg_def Let_def N_MAX_MPS_CHANNELS_def N_MAX_TX_NODES_def N_MPS_CHANNELS_def)
qed

text \<open>
  C28. A message that a registered emitter sends arrives: the collector stores its flag, its time
  and the lifetime under the emitter's channel, and marks it pending exactly when the flag changed;
  the same message once more (the same time stamp) is recognised and changes nothing.
\<close>

theorem mps_message_stored:
  assumes "registry s" "c < 16" "senders s ! c \<noteq> 0"
    and m: "addr m = senders s ! c" "ch_id m = of_nat c" "bic_id m = bic_id (bufMpsMsg s ! c)"
    and t: "t \<noteq> tsRx (bufMpsMsg s ! c)"
  shows "\<exists>s'. msgStoreMpsMsg (mps_param m) t ctrl s = (Some c, s') \<and>
    flag (bufMpsMsg s' ! c) = flag m \<and> tsRx (bufMpsMsg s' ! c) = t \<and> ttl (bufMpsMsg s' ! c) = ctrl_ttl ctrl \<and>
    (pending (bufMpsMsg s' ! c) \<noteq> 0 \<longleftrightarrow> flag (bufMpsMsg s ! c) \<noteq> flag m) \<and>
    (\<forall>i < 16. i \<noteq> c \<longrightarrow> bufMpsMsg s' ! i = bufMpsMsg s ! i) \<and>
    msgStoreMpsMsg (mps_param m) t ctrl s' = (Some N_MAX_MPS_CHANNELS, s')"
proof -
  have l: "length (bufMpsMsg s) = 16" "addr (bufMpsMsg s ! c) = senders s ! c" "ch_id (bufMpsMsg s ! c) = of_nat c"
    using assms(1-3) by (auto simp: registry_def)
  note cu = chan_cast[OF assms(2)]
  have fl: "ucast (ucast (flag m) :: u8) = flag m" by (rule bit_word_eqI) (auto simp: bit_simps)
  have up: "(ucast x :: u8) XOR ucast y \<noteq> 0 \<longleftrightarrow> x \<noteq> y" for x y :: "4 word"
    using ucast_4_8[of x y] by (simp add: xor_0_iff)
  let ?m' = "(bufMpsMsg s ! c)\<lparr>pending := ucast (flag (bufMpsMsg s ! c)) XOR ucast (flag m),
      flag := flag m, ttl := ctrl_ttl ctrl, tsRx := t\<rparr>"
  have st: "msgStoreMpsMsg (mps_param m) t ctrl s = (Some c, s\<lparr>bufMpsMsg := (bufMpsMsg s)[c := ?m']\<rparr>)"
    using store_sel[of s "mps_param m" c t ctrl] l m cu(1) assms(2) t fl by simp
  have "msgStoreMpsMsg (mps_param m) t ctrl (s\<lparr>bufMpsMsg := (bufMpsMsg s)[c := ?m']\<rparr>)
      = (Some N_MAX_MPS_CHANNELS, s\<lparr>bufMpsMsg := (bufMpsMsg s)[c := ?m']\<rparr>)"
    using l m cu assms(2)
    by (simp add: msgStoreMpsMsg_def Let_def N_MAX_MPS_CHANNELS_def N_MAX_TX_NODES_def N_MPS_CHANNELS_def)
  thus ?thesis using st l(1) assms(2) up by (intro exI[of _ "s\<lparr>bufMpsMsg := (bufMpsMsg s)[c := ?m']\<rparr>"]) simp
qed

section \<open>The lifetime of a flag\<close>

lemma eval_ttl_iter:
  assumes "k = unat (ttl m)"
  shows "((snd \<circ> eval_ttl) ^^ n) m =
    (if n < k then m\<lparr>ttl := of_nat (k - n)\<rparr>
     else if k = 0 then m else m\<lparr>ttl := 0, flag := MPS_FLAG_NOK\<rparr>)"
proof (induction n)
  case 0
  have "of_nat (unat (ttl m)) = ttl m" by simp
  thus ?case using assms by (simp add: unat_eq_zero)
next
  case (Suc n)
  have k: "k < 256" using assms unsigned_less[of "ttl m"] by simp
  have nz: "(of_nat (k - n) :: u8) \<noteq> 0" if "n < k"
    using that k u8_small[of "k - n"] by (simp del: of_nat_diff)
  have z: "(of_nat (k - Suc n) :: u8) = 0 \<longleftrightarrow> \<not> Suc n < k"
    using k u8_small[of "k - Suc n"] by (simp del: of_nat_diff) arith
  show ?case
    using Suc nz u8_pred[of n k] z assms by (auto simp: eval_ttl_def Let_def unat_eq_zero simp del: of_nat_diff)
qed

lemma evalMpsMsgTtl_iter:
  assumes "i < length (bufMpsMsg s)"
  shows "((snd \<circ> evalMpsMsgTtl i) ^^ n) s =
    s\<lparr>bufMpsMsg := (bufMpsMsg s)[i := ((snd \<circ> eval_ttl) ^^ n) (bufMpsMsg s ! i)]\<rparr>"
  using assms by (induction n) (simp_all add: evalMpsMsgTtl_def split: prod.split)

text \<open>
  C29. A flag stored with a lifetime of k evaluations keeps its value for k - 1 of them; the k-th one,
  and only that one, reports the loss of the emitter and sets the flag to NOK.
\<close>

theorem mps_lifetime:
  assumes "i < length (bufMpsMsg s)" "k = unat (ttl (bufMpsMsg s ! i))" "0 < k"
  defines "after \<equiv> \<lambda>n. ((snd \<circ> evalMpsMsgTtl i) ^^ n) s"
  shows "(fst (evalMpsMsgTtl i (after n)) \<longleftrightarrow> Suc n = k) \<and>
    flag (bufMpsMsg (after n) ! i) = (if n < k then flag (bufMpsMsg s ! i) else MPS_FLAG_NOK)"
proof -
  let ?m = "bufMpsMsg s ! i"
  have k: "k < 256" using assms(2) unsigned_less[of "ttl ?m"] by simp
  have a: "bufMpsMsg (after n) ! i = (if n < k then ?m\<lparr>ttl := of_nat (k - n)\<rparr> else ?m\<lparr>ttl := 0, flag := MPS_FLAG_NOK\<rparr>)"
    using assms(1,3) eval_ttl_iter[OF assms(2), of n] by (simp add: after_def evalMpsMsgTtl_iter)
  have "fst (eval_ttl (bufMpsMsg (after n) ! i)) \<longleftrightarrow> Suc n = k"
    using k u8_small[of "k - n"] u8_small[of "k - Suc n"] u8_pred[of n k]
    by (auto simp: a eval_ttl_def Let_def simp del: of_nat_diff)
  moreover have "fst (evalMpsMsgTtl i (after n)) = fst (eval_ttl (bufMpsMsg (after n) ! i))"
    by (simp add: evalMpsMsgTtl_def split_beta)
  ultimately show ?thesis using a by simp
qed

end
