(* ===== verification/Fbas_Io.thy ===== *)
theory Fbas_Io
  imports Fbas_State
begin

text \<open>
  Output ports of the FBAS firmware (modules/fbas/fw/ioctl.c) and the counters of the
  ECA channel and the destination of the EB master (modules/fbas/fw/fwlib.c).
\<close>

definition IO_CFG_CHANNEL_GPIO :: u8 where "IO_CFG_CHANNEL_GPIO = 0"
definition IO_CFG_CHANNEL_LVDS :: u8 where "IO_CFG_CHANNEL_LVDS = 1"
definition IO_GPIO_OE_SETLOW :: u32 where "IO_GPIO_OE_SETLOW = 0x0200"
definition IO_GPIO_OE_RESETLOW :: u32 where "IO_GPIO_OE_RESETLOW = 0x0208"
definition IO_LVDS_OE_SETLOW :: u32 where "IO_LVDS_OE_SETLOW = 0x0300"
definition IO_LVDS_OE_RESETLOW :: u32 where "IO_LVDS_OE_RESETLOW = 0x0308"
definition IO_GPIO_SET_OUTBEGIN :: u32 where "IO_GPIO_SET_OUTBEGIN = 0xa000"
definition IO_LVDS_SET_OUTBEGIN :: u32 where "IO_LVDS_SET_OUTBEGIN = 0xb000"
definition MPS_SIGNAL_INVALID :: u8 where "MPS_SIGNAL_INVALID = 2"

definition ioInitPortMap :: "fbas \<Rightarrow> fbas" where
  "ioInitPortMap s =
     s\<lparr>EffLogOut := map (\<lambda>p. p\<lparr>io_idx := of_nat N_MAX_TX_NODES\<rparr>) (EffLogOut s)\<rparr>"

text \<open>The C code shifts a signed one by the port index, which stays below the number of ports.\<close>

definition ioSetOutEnable :: "u8 \<Rightarrow> bool \<Rightarrow> fbas \<Rightarrow> u32 \<times> fbas" where
  "ioSetOutEnable idx enable s =
     (if idx \<ge> cfg_total (outPortCfg s) then (COMMON_STATUS_ERROR, s)
      else if cfg_type (outPortCfg s) = IO_CFG_CHANNEL_GPIO
      then (COMMON_STATUS_OK,
            wr_dev (IOC (if enable then IO_GPIO_OE_SETLOW else IO_GPIO_OE_RESETLOW)) (push_bit (unat idx) 1) s)
      else if cfg_type (outPortCfg s) = IO_CFG_CHANNEL_LVDS
      then (COMMON_STATUS_OK,
            wr_dev (IOC (if enable then IO_LVDS_OE_SETLOW else IO_LVDS_OE_RESETLOW)) (push_bit (unat idx) 1) s)
      else (COMMON_STATUS_ERROR, s))"

definition ioIsOutEnabled :: "u8 \<Rightarrow> fbas \<Rightarrow> u32 option \<times> fbas" where
  "ioIsOutEnabled idx s =
     (if idx \<ge> cfg_total (outPortCfg s) then (None, s)
      else if cfg_type (outPortCfg s) = IO_CFG_CHANNEL_GPIO
      then (case rd_dev (IOC IO_GPIO_OE_SETLOW) s of (v, s1) \<Rightarrow> (Some (v AND push_bit (unat idx) 1), s1))
      else if cfg_type (outPortCfg s) = IO_CFG_CHANNEL_LVDS
      then (case rd_dev (IOC IO_LVDS_OE_SETLOW) s of (v, s1) \<Rightarrow> (Some (v AND push_bit (unat idx) 1), s1))
      else (None, s))"

definition driveOutPort :: "io_port \<Rightarrow> u8 \<Rightarrow> fbas \<Rightarrow> u32 \<times> fbas" where
  "driveOutPort p v s =
     (if v = MPS_SIGNAL_INVALID then (COMMON_STATUS_ERROR, s)
      else if io_type p = IO_CFG_CHANNEL_GPIO
      then (COMMON_STATUS_OK,
            wr_dev (IOC (IO_GPIO_SET_OUTBEGIN + 4 * ucast (io_idx p))) (if v \<noteq> 0 then 0x01 else 0) s)
      else if io_type p = IO_CFG_CHANNEL_LVDS
      then (COMMON_STATUS_OK,
            wr_dev (IOC (IO_LVDS_SET_OUTBEGIN + 4 * ucast (io_idx p))) (if v \<noteq> 0 then 0xff else 0) s)
      else (COMMON_STATUS_ERROR, s))"

text \<open>\<open>ioDriveOutput\<close> returns in its first statement; the code after it is never reached.\<close>

definition ioDriveOutput :: "nat option \<Rightarrow> nat \<Rightarrow> fbas \<Rightarrow> u32 \<times> fbas" where
  "ioDriveOutput buf i s = (COMMON_STATUS_OK, s)"

definition ioMapOutput :: "u8 \<Rightarrow> u8 \<Rightarrow> fbas \<Rightarrow> u32 \<times> fbas" where
  "ioMapOutput bufIdx portIdx s =
     (if unat bufIdx \<ge> N_MAX_TX_NODES then (COMMON_STATUS_ERROR, s)
      else if portIdx \<ge> cfg_total (outPortCfg s) then (COMMON_STATUS_ERROR, s)
      else (COMMON_STATUS_OK, s\<lparr>EffLogOut := (EffLogOut s)[unat bufIdx :=
              \<lparr>io_type = cfg_type (outPortCfg s), io_idx = portIdx\<rparr>]\<rparr>))"

text \<open>\<open>findOutPort\<close>; the bound admits the index one past the end of the map, whose content is then
  not of the map.\<close>

definition findOutPort :: "(nat \<Rightarrow> io_port) \<Rightarrow> u8 \<Rightarrow> fbas \<Rightarrow> io_port option" where
  "findOutPort beyond bufIdx s =
     (if unat bufIdx > N_MAX_TX_NODES then None
      else let p = (if unat bufIdx < length (EffLogOut s) then EffLogOut s ! unat bufIdx else beyond (unat bufIdx))
           in if (io_type p = IO_CFG_CHANNEL_GPIO \<or> io_type p = IO_CFG_CHANNEL_LVDS) \<and>
                 io_idx p < cfg_total (outPortCfg s)
              then Some p else None)"

section \<open>Extensions of the common library\<close>

definition fwlib_getEcaCnt :: "reg \<Rightarrow> fbas \<Rightarrow> u32 option \<times> fbas" where
  "fwlib_getEcaCnt r s =
     (if dev_adr s DEV_ECACTL \<noteq> 0
      then case rd_dev ECAQ_ID s of (q, s1) \<Rightarrow>
           case rd_dev r (wr_dev ECACTL_NUM 0 (wr_dev ECACTL_CHANNEL (q + 1) s1)) of (n, s2) \<Rightarrow> (Some n, s2)
      else (None, s))"

definition fwlib_getEcaValidCnt :: "fbas \<Rightarrow> u32 option \<times> fbas" where
  "fwlib_getEcaValidCnt = fwlib_getEcaCnt ECACTL_VALID"

definition fwlib_getEcaOverflowCnt :: "fbas \<Rightarrow> u32 option \<times> fbas" where
  "fwlib_getEcaOverflowCnt = fwlib_getEcaCnt ECACTL_OVERFLOW"

text \<open>The failure codes late, early, conflict and delayed come from a submodule: parameters.\<close>

definition fwlib_getEcaFailureCnt :: "u32 set \<Rightarrow> u32 \<Rightarrow> fbas \<Rightarrow> u32 option \<times> fbas" where
  "fwlib_getEcaFailureCnt codes f s =
     (if f \<notin> codes \<or> dev_adr s DEV_ECACTL = 0 then (None, s)
      else case rd_dev ECAQ_ID s of (q, s1) \<Rightarrow>
           case rd_dev ECACTL_FAILED
             (wr_dev ECACTL_CODE f (wr_dev ECACTL_NUM 0 (wr_dev ECACTL_CHANNEL (q + 1) s1))) of
             (n, s2) \<Rightarrow> (Some n, s2))"

definition fwlib_setEbmDstAddr :: "u64 \<Rightarrow> u32 \<Rightarrow> fbas \<Rightarrow> fbas" where
  "fwlib_setEbmDstAddr mac ip s =
     ebm_clr (ebm_config_meta 1500 0 (push_bit 28 1) (ebm_config_if DESTINATION mac ip 0xebd0 (ebm_init s)))"

end
