(* ===== verification/Fbas_Sb.thy ===== *)
theory Fbas_Sb
  imports Fbas_State
begin

text \<open>
  The SCU bus as the FBAS firmware uses it (modules/fbas/fw/sbctl.c): probing the
  slots for slaves of a kind, exporting the configuration of the first one, and
  writing the bit-wise MPS flags to the echo register of every DIOB card.
\<close>

definition N_SB_SLOTS :: nat where "N_SB_SLOTS = 12"
definition CID_SYS_DIOB :: u16 where "CID_SYS_DIOB = 55"
definition CID_GRP_DIOB :: u16 where "CID_GRP_DIOB = 26"
definition SBS_CID_NO_EXT :: u16 where "SBS_CID_NO_EXT = 0xdead"
definition SBS_CID_SYS :: u32 where "SBS_CID_SYS = 0x04"
definition SBS_CID_GRP :: u32 where "SBS_CID_GRP = 0x05"
definition SBS_EXT_CID_SYS :: u32 where "SBS_EXT_CID_SYS = 0x07"
definition SBS_EXT_CID_GRP :: u32 where "SBS_EXT_CID_GRP = 0x08"
definition SBS_ECHO :: u32 where "SBS_ECHO = 0x10"
definition FBAS_SHARED_SET_SBSLAVES :: u32 where "FBAS_SHARED_SET_SBSLAVES = 0x40c"
definition FBAS_SHARED_GET_SBSLAVES :: u32 where "FBAS_SHARED_GET_SBSLAVES = 0x41c"
definition FBAS_SHARED_GET_SBSTDBEGIN :: u32 where "FBAS_SHARED_GET_SBSTDBEGIN = 0x420"
definition FBAS_SHARED_GET_SBCFGDIOB :: u32 where "FBAS_SHARED_GET_SBCFGDIOB = 0x4e4"
definition FBAS_SHARED_GET_SBSTSDIOB :: u32 where "FBAS_SHARED_GET_SBSTSDIOB = 0x4ec"

text \<open>The base of a slot, in 16-bit words from the master.\<close>

definition slot_base :: "nat \<Rightarrow> u32" where
  "slot_base slot = push_bit 16 (of_nat slot)"

definition sb_rd :: "u32 \<Rightarrow> fbas \<Rightarrow> u16 \<times> fbas" where
  "sb_rd o' s = (case rd_dev (SCUBUS o') s of (v, s1) \<Rightarrow> (ucast v, s1))"

text \<open>\<open>readSbSlaveReg\<close>: a null slave is an error.\<close>

fun sb_rd_seq :: "u32 \<Rightarrow> nat \<Rightarrow> fbas \<Rightarrow> u16 list \<times> fbas" where
  "sb_rd_seq o' 0 s = ([], s)"
| "sb_rd_seq o' (Suc n) s =
     (case sb_rd o' s of (v, s1) \<Rightarrow> case sb_rd_seq (o' + 1) n s1 of (vs, s2) \<Rightarrow> (v # vs, s2))"

definition readSbSlaveReg :: "u32 \<Rightarrow> u32 \<Rightarrow> u32 \<Rightarrow> nat \<Rightarrow> fbas \<Rightarrow> u16 list \<times> fbas" where
  "readSbSlaveReg slave base offset len s = sb_rd_seq (slave + base + offset) len s"

fun sb_wr_seq :: "u32 \<Rightarrow> u16 list \<Rightarrow> fbas \<Rightarrow> fbas" where
  "sb_wr_seq o' [] s = s"
| "sb_wr_seq o' (v # vs) s = sb_wr_seq (o' + 1) vs (wr_dev (SCUBUS o') (ucast v) s)"

definition writeSbSlaveReg :: "u32 \<Rightarrow> u32 \<Rightarrow> u32 \<Rightarrow> u16 list \<Rightarrow> fbas \<Rightarrow> fbas" where
  "writeSbSlaveReg slave base offset data s = sb_wr_seq (slave + base + offset) data s"

text \<open>\<open>probeSbSlaveExt\<close>: here the slot is turned into a bit before it becomes the upper half of the
  address.\<close>

definition ext_base :: "nat \<Rightarrow> u32" where
  "ext_base slot = push_bit 16 (push_bit slot 1)"

definition probeSbSlaveExt :: "nat \<Rightarrow> fbas \<Rightarrow> fbas" where
  "probeSbSlaveExt slot s =
     (case sb_rd (ext_base slot + SBS_EXT_CID_SYS) s of (sys, s1) \<Rightarrow>
      case sb_rd (ext_base slot + SBS_EXT_CID_GRP) s1 of (grp, s2) \<Rightarrow>
        if sys \<noteq> SBS_CID_NO_EXT
        then sh_wr (FBAS_SHARED_GET_SBSTDBEGIN + 4 * (SBS_EXT_CID_SYS + of_nat slot - 1))
               (push_bit 16 (ucast sys) OR ucast grp) s2
        else s2)"

text \<open>The registers \<open>probeSbSlaves\<close> prints for a slave it has found.\<close>

definition info_regs :: "u32 list" where
  "info_regs = [0x01, 0x02, 0x03, 0x06, 0x09, 0x07, 0x08, 0x10, 0x11]"

fun probe_slots :: "nat list \<Rightarrow> u16 \<Rightarrow> u16 \<Rightarrow> u32 \<Rightarrow> fbas \<Rightarrow> u32 \<times> fbas" where
  "probe_slots [] sysId grpId found s = (found, s)"
| "probe_slots (slot # slots) sysId grpId found s =
     (case sb_rd (slot_base slot + SBS_CID_SYS) s of (sys, s1) \<Rightarrow>
      case sb_rd (slot_base slot + SBS_CID_GRP) s1 of (grp, s2) \<Rightarrow>
        if sys = sysId \<and> grp = grpId
        then let s3 = fold (\<lambda>r s. snd (sb_rd (slot_base slot + r) s)) info_regs s2
             in probe_slots slots sysId grpId (found OR push_bit slot 1) (probeSbSlaveExt slot s3)
        else probe_slots slots sysId grpId found s2)"

text \<open>None for bad arguments (no master, zero IDs).\<close>

definition probeSbSlaves :: "u16 \<Rightarrow> u16 \<Rightarrow> u32 \<Rightarrow> fbas \<Rightarrow> (u32 \<times> fbas) option" where
  "probeSbSlaves sysId grpId slaves s =
     (if dev_adr s DEV_SBMASTER = 0 \<or> sysId = 0 \<or> grpId = 0 then None
      else Some (probe_slots [1..<Suc N_SB_SLOTS] sysId grpId slaves s))"

text \<open>\<open>exportSbSlaveConfig\<close>: only the first slave, of the slots below the last.  The destination adds
  two offsets that both count from the begin of the shared memory.\<close>

definition exportSbSlaveConfig :: "u32 \<Rightarrow> fbas \<Rightarrow> fbas" where
  "exportSbSlaveConfig slaves s =
     (if dev_adr s DEV_SBMASTER = 0 \<or> slaves = 0 then s
      else case filter (\<lambda>i. bit slaves i) [1..<N_SB_SLOTS] of
        [] \<Rightarrow> s
      | i # _ \<Rightarrow>
          (case readSbSlaveReg (slot_base i) 0 0 2 s of (cfg, s1) \<Rightarrow>
           case readSbSlaveReg (slot_base i) 0 2 2 s1 of (sts, s2) \<Rightarrow>
             sh_wr_list (FBAS_SHARED_GET_SBSTDBEGIN + FBAS_SHARED_GET_SBSTSDIOB) (map ucast sts)
             (sh_wr_list (FBAS_SHARED_GET_SBSTDBEGIN + FBAS_SHARED_GET_SBCFGDIOB) (map ucast cfg) s2)))"

definition FBAS_CMD_PROBE_SB_DIOB :: u32 where "FBAS_CMD_PROBE_SB_DIOB = 0x20"
definition FBAS_CMD_PROBE_SB_USER :: u32 where "FBAS_CMD_PROBE_SB_USER = 0x21"

definition sbCmdHandler :: "u32 \<Rightarrow> fbas \<Rightarrow> fbas" where
  "sbCmdHandler cmd s =
     (if cmd = 0 \<or> dev_adr s DEV_SBMASTER = 0 then s
      else if cmd \<noteq> FBAS_CMD_PROBE_SB_DIOB \<and> cmd \<noteq> FBAS_CMD_PROBE_SB_USER then s
      else let w = shm s FBAS_SHARED_SET_SBSLAVES;
               (sys, grp) = (if cmd = FBAS_CMD_PROBE_SB_DIOB then (CID_SYS_DIOB, CID_GRP_DIOB)
                             else (ucast w, ucast (drop_bit 16 w)))
           in if sys \<noteq> 0 \<and> grp \<noteq> 0
              then (case probeSbSlaves sys grp (sbSlaves s) s of
                      None \<Rightarrow> s
                    | Some (found, s1) \<Rightarrow>
                        exportSbSlaveConfig found
                          (sh_wr FBAS_SHARED_GET_SBSLAVES found (s1\<lparr>sbSlaves := found\<rparr>)))
              else s)"

definition writeDiobReg :: "u16 \<Rightarrow> u32 \<Rightarrow> fbas \<Rightarrow> u32 \<times> fbas" where
  "writeDiobReg data r s =
     (if sbDiobs s = 0 then (COMMON_STATUS_ERROR, s)
      else (COMMON_STATUS_OK,
        fold (\<lambda>i s. wr_dev (SCUBUS (slot_base i + r)) (ucast data) s)
          (filter (\<lambda>i. bit (sbDiobs s) i) [1..<Suc N_SB_SLOTS]) s))"

definition sbInit :: "fbas \<Rightarrow> fbas" where
  "sbInit s =
     (let s1 = (case probeSbSlaves CID_SYS_DIOB CID_GRP_DIOB (sbDiobs s) s of
                  None \<Rightarrow> s | Some (found, s') \<Rightarrow> s'\<lparr>sbDiobs := found\<rparr>)
      in snd (writeDiobReg 0xfba5 SBS_ECHO s1))"

definition sbPutMpsFlags :: "u16 \<Rightarrow> fbas \<Rightarrow> u32 \<times> fbas" where
  "sbPutMpsFlags v s =
     (if sb_last s \<noteq> Some v then writeDiobReg v SBS_ECHO (s\<lparr>sb_last := Some v\<rparr>)
      else (COMMON_STATUS_OK, s))"

end
