(* ===== verification/Fbas.thy ===== *)
theory Fbas
  imports Fbas_Message Fbas_Io Fbas_Sb
begin

text \<open>
  The FBAS firmware proper (modules/fbas/fw/fbas.c): initialisation, the handler of
  ECA actions, the entry and exit actions of the state machine, the commands of the
  host, the timer interrupt, the do action of the operation state and one iteration
  of the main loop.
\<close>

section \<open>Pointers to timers\<close>

definition fb_timerStart :: "nat option \<Rightarrow> fbas \<Rightarrow> fbas" where
  "fb_timerStart p s = (case p of None \<Rightarrow> s\<lparr>crashed := True\<rparr> | Some i \<Rightarrow> s\<lparr>timers := timerStart i (timers s)\<rparr>)"

definition fb_timerIsExpired :: "nat option \<Rightarrow> fbas \<Rightarrow> bool \<times> fbas" where
  "fb_timerIsExpired p s =
     (case p of None \<Rightarrow> (False, s\<lparr>crashed := True\<rparr>)
      | Some i \<Rightarrow> (case timerIsExpired i (timers s) of (e, ts) \<Rightarrow> (e, s\<lparr>timers := ts\<rparr>)))"

text \<open>Statistics: summarise an item, export it.\<close>

definition summarize :: "msr_item \<Rightarrow> u32 \<Rightarrow> u64 \<Rightarrow> u64 \<Rightarrow> fbas \<Rightarrow> fbas" where
  "summarize it off t_from now s =
     (let s1 = s\<lparr>msr := measureSummarize it t_from now (msr s)\<rparr>
      in measureExportSummary it off (msr s1) s1)"

definition count_to :: "msr_cnt \<Rightarrow> u32 \<Rightarrow> u32 \<Rightarrow> fbas \<Rightarrow> fbas" where
  "count_to c n off s =
     (case measureCountEvt c n (msr s) of (v, m) \<Rightarrow> sh_wr off v (s\<lparr>msr := m\<rparr>))"

section \<open>Initialisation\<close>

definition convertMacToU64 :: "u32 \<Rightarrow> u32 \<Rightarrow> u64" where
  "convertMacToU64 hi lo = push_bit 32 (ucast (hi AND 0xffff)) + ucast lo"

definition initCounters :: "fbas \<Rightarrow> fbas" where
  "initCounters s =
     sh_wr FBAS_SHARED_BAD_MSG_CNT 0 (sh_wr FBAS_SHARED_OLD_MSG_CNT 0 (sh_wr FBAS_SHARED_TX_MSG_CNT 0 s))"

text \<open>\<open>initSharedMem\<close>; \<open>rams\<close> is the number of CPU RAMs found, \<open>adr\<close> their addresses.\<close>

definition FBAS_FW_VERSION :: u32 where "FBAS_FW_VERSION = 0x010502"

definition initSharedMem :: "nat \<Rightarrow> (nat \<Rightarrow> u32) \<Rightarrow> nat \<Rightarrow> u32 \<Rightarrow> fbas \<Rightarrow> u32 \<times> fbas" where
  "initSharedMem rams adr cpuId sharedOffs s =
     (if rams < cpuId then (COMMON_STATUS_ERROR, s)
      else let ext = adr cpuId AND 0x7fffffff;
               s1 = fwlib_init ext sharedOffs FBAS_SHARED_END FBAS_FW_VERSION s
           in (COMMON_STATUS_OK, sh_clear 0 (unat FBAS_SHARED_END div 4) s1))"

definition initMpsData :: "fbas \<Rightarrow> fbas" where
  "initMpsData s =
     (let s1 = s\<lparr>mpsTask := 0,
            myMac := convertMacToU64 (shm s COMMON_SHARED_MACHI) (shm s COMMON_SHARED_MACLO)\<rparr>;
          s2 = msgInitPcEventBuf (myMac s1) 0 0 (msgInitMpsMsgBuf (myMac s1) s1);
          s3 = sh_clear FBAS_SHARED_C2_MSG_BEGIN (4 * N_MAX_TX_NODES) s2;
          s4 = s3\<lparr>mpsMsgCtrl := msgInitMsgCtrl (of_nat N_MPS_CHANNELS) 0 (txMsgRates ! 0) (mpsMsgCtrl s3)\<rparr>;
          s5 = s4\<lparr>msr := measureClearSummary None (msr s4)\<rparr>
      in snd (find_dev DEV_ECACTL (initCounters s5)))"

definition initTimers :: "fbas \<Rightarrow> u32 \<times> fbas" where
  "initTimers s =
     (case timerRegister 1 (timers s) of (p1, ts1) \<Rightarrow>
      case timerRegister 1000 ts1 of (p2, ts2) \<Rightarrow>
      case timerRegister 60000 ts2 of (p3, ts3) \<Rightarrow>
        (if p1 \<noteq> None \<and> p2 \<noteq> None \<and> p3 \<noteq> None then COMMON_STATUS_OK else COMMON_STATUS_ERROR,
         s\<lparr>timers := ts3, pTimerMpsTtl := p1, pTimerRegistr := p2, pTimerConsole := p3,
           timerDbg := timerInitDbg\<rparr>))"

definition timerSetupHw :: "u32 \<Rightarrow> fbas \<Rightarrow> u32 \<times> fbas" where
  "timerSetupHw interval_ns s =
     (if wbTimer s
      then case rd_dev TMR_TICKLEN s of (l, s1) \<Rightarrow> (COMMON_STATUS_OK, wr_dev TMR_PRESET (interval_ns div l) s1)
      else (COMMON_STATUS_ERROR, s))"

definition timerEnableHw :: "fbas \<Rightarrow> u32 \<times> fbas" where
  "timerEnableHw s =
     (if wbTimer s then (COMMON_STATUS_OK, wr_dev TMR_CONFIG 1 s) else (COMMON_STATUS_ERROR, s))"

definition timerDisableHw :: "fbas \<Rightarrow> u32 \<times> fbas" where
  "timerDisableHw s =
     (if wbTimer s then (COMMON_STATUS_OK, wr_dev TMR_CONFIG 0 s) else (COMMON_STATUS_ERROR, s))"

section \<open>Destination of the EB master\<close>

definition setEndpDstAddr :: "dst_addr \<Rightarrow> fbas \<Rightarrow> u32 \<times> fbas" where
  "setEndpDstAddr d s =
     (if dstMac s DST_ADDR_EBM = dstMac s d then (COMMON_STATUS_OK, s)
      else let s1 = fwlib_setEbmDstAddr (dstMac s d) (dstIp s d) s
           in (COMMON_STATUS_OK, s1\<lparr>dstMac := (dstMac s1)(DST_ADDR_EBM := dstMac s1 d)\<rparr>))"

text \<open>\<open>readNodeId\<close>: the channel of a new sender must be one of the sixteen.\<close>

definition readNodeId :: "u32 \<Rightarrow> fbas \<Rightarrow> u32 \<times> fbas" where
  "readNodeId off s =
     (let w = sh_rd64 s off; i = (ucast (drop_bit 56 w) :: u8)
      in if \<not> unat i < N_MAX_TX_NODES then (COMMON_STATUS_ERROR, s)
         else case ioSetOutEnable i True (msgUpdateMpsBuf w s) of (st, s1) \<Rightarrow>
              (COMMON_STATUS_OK, if st = COMMON_STATUS_OK then snd (ioMapOutput i i s1) else s1))"

definition setOpMode :: "u64 \<Rightarrow> fbas \<Rightarrow> fbas" where
  "setOpMode m s = s\<lparr>opMode := (if m \<noteq> 0 then FBAS_OPMODE_TEST else FBAS_OPMODE_DEF)\<rparr>"

section \<open>ECA actions\<close>

text \<open>\<open>buf\<close> is the pointer \<open>*head\<close> to the message buffer, None when it is null.  One definition per tag.\<close>

definition eca_newcycle :: "nat option \<Rightarrow> u64 \<Rightarrow> fbas \<Rightarrow> fbas" where
  "eca_newcycle buf now s =
     (let s1 = (if nodeType s = FBAS_NODE_TX
                then let s' = msgForceHigh buf s
                     in s'\<lparr>mpsMsgCtrl := msgInitMsgCtrl (of_nat N_MPS_CHANNELS) (now + TIM_52_MS)
                             (txMsgRates ! 0) (mpsMsgCtrl s')\<rparr>
                else if nodeType s = FBAS_NODE_RX then msgForceHigh buf s else s)
      in snd (sys_time s1))"

definition eca_gen_evt :: "eca_action \<Rightarrow> nat option \<Rightarrow> u64 \<Rightarrow> fbas \<Rightarrow> nat option \<times> fbas" where
  "eca_gen_evt a buf now s =
     (if nodeType s \<noteq> FBAS_NODE_TX then (buf, s)
      else
        let s1 = msgStorePcEvent (ea_id a) (ea_deadline a) s
        in if mpsTask s1 AND TSK_TX_MPS_EVENTS \<noteq> 0
           then let d = (if mpsTask s1 AND TSK_REG_COMPLETE = 0 \<or> flag (bufMpsMsg s1 ! 0) = MPS_FLAG_NOK
                         then DST_ADDR_BROADCAST else DST_ADDR_RXNODE)
                in case setEndpDstAddr d s1 of (st, s2) \<Rightarrow>
                   if st \<noteq> COMMON_STATUS_OK then (Some 0, s2)
                   else case msgSendPcEvent 0 (FBAS_FLG_EID + ucast (myIdx s2)) N_EXTRA_MPS_NOK s2 of
                     (n, s3) \<Rightarrow>
                     let s4 = count_to TX_EVT_CNT n FBAS_SHARED_TX_MSG_CNT s3;
                         s5 = summarize MSR_ECA_DLY FBAS_SHARED_ECA_DLY_AVG (ea_deadline a) now s4
                     in case sys_time s5 of (t, s6) \<Rightarrow>
                        (Some 0, summarize MSR_TX_DLY FBAS_SHARED_TX_DLY_AVG now t s6)
           else (Some 0, s1))"

definition eca_wr_msg :: "eca_action \<Rightarrow> nat option \<Rightarrow> u64 \<Rightarrow> fbas \<Rightarrow> fbas" where
  "eca_wr_msg a buf now s =
     (if nodeType s \<noteq> FBAS_NODE_RX then s
      else
        let s1 = (case msgStoreMpsMsg (ea_param a) (ea_deadline a) (mpsMsgCtrl s) s of
                    (Some i, s') \<Rightarrow>
                      let s2 = (if i < N_MAX_MPS_CHANNELS
                                then case ioDriveOutput buf i s' of (st, s'') \<Rightarrow>
                                     if st = COMMON_STATUS_OK
                                     then case sys_time s'' of (t, s3) \<Rightarrow>
                                          summarize MSR_MSG_DLY FBAS_SHARED_MSG_DLY_AVG now t s3
                                     else count_to OLD_MSG_CNT 1 FBAS_SHARED_OLD_MSG_CNT s''
                                else s')
                      in (case sys_time s2 of (t, s3) \<Rightarrow>
                            summarize MSR_RX_DLY FBAS_SHARED_RX_DLY_AVG now t s3)
                  | (None, s') \<Rightarrow> count_to BAD_MSG_CNT 1 FBAS_SHARED_BAD_MSG_CNT s');
            s4 = count_to ECA_VLD_ACT 1 FBAS_SHARED_ECA_VLD s1;
            s5 = (case fwlib_getEcaOverflowCnt s4 of
                    (Some n, s') \<Rightarrow> count_to ECA_OVF_ACT n FBAS_SHARED_ECA_OVF s'
                  | (None, s') \<Rightarrow> s');
            s6 = summarize MSR_ECA_DLY FBAS_SHARED_ECA_DLY_AVG (ea_deadline a) now s5
        in if ea_id a AND 0xfffffffffffffff0 = FBAS_FLG_EID
           then let t = measureGetTimestamp MSR_MSG_RATE (msr s6);
                    s7 = (if t \<noteq> 0 then summarize MSR_MSG_RATE FBAS_SHARED_MSG_RATE_AVG t (ea_deadline a) s6 else s6)
                in s7\<lparr>msr := measurePutTimestamp MSR_MSG_RATE (ea_deadline a) (msr s7)\<rparr>
           else s6)"

definition eca_node_reg :: "eca_action \<Rightarrow> fbas \<Rightarrow> fbas" where
  "eca_node_reg a s =
     (if mpsTask s AND TSK_TX_MPS_EVENTS = 0 then s
      else
        let node_id = drop_bit 16 (ea_param a); bic = raw_bic (ea_param a);
            ch = raw_ch (ea_param a); f = raw_flag (ea_param a)
        in if nodeType s = FBAS_NODE_RX
           then (if f = REG_REQ
                 then (case msgGetSenderIndex node_id s of
                         Some i \<Rightarrow> snd (msgRegisterNode (myMac s) (myBic s) (of_nat i) REG_RSP
                                      (fwlib_setEbmDstAddr node_id BROADCAST_IP s))
                       | None \<Rightarrow> s)
                 else s)
           else if nodeType s = FBAS_NODE_TX
           then (if f = REG_RSP
                 then (msgInitPcEventBuf (myMac s) bic ch
                        (s\<lparr>dstMac := (dstMac s)(DST_ADDR_RXNODE := node_id), myIdx := ch\<rparr>))
                      \<lparr>mpsTask := mpsTask s OR TSK_REG_COMPLETE\<rparr>
                 else s)
           else s)"

definition eca_dispatch :: "u32 \<Rightarrow> eca_action \<Rightarrow> nat option \<Rightarrow> u64 \<Rightarrow> fbas \<Rightarrow> nat option \<times> fbas" where
  "eca_dispatch tag a buf now s =
     (if tag = FBAS_AUX_NEWCYCLE then (buf, eca_newcycle buf now s)
      else if tag = FBAS_AUX_OPMODE then (buf, snd (sys_time (setOpMode (ea_param a) s)))
      else if tag = FBAS_GEN_EVT then eca_gen_evt a buf now s
      else if tag = FBAS_TLU_EVT then (buf, s)
      else if tag = FBAS_WR_EVT \<or> tag = FBAS_WR_FLG then (buf, eca_wr_msg a buf now s)
      else if tag = FBAS_NODE_REG then (buf, eca_node_reg a s)
      else (buf, s))"

definition handleEcaEvent :: "u32 \<Rightarrow> nat option \<Rightarrow> fbas \<Rightarrow> (u32 \<times> nat option \<times> fbas) option" where
  "handleEcaEvent pollTimeout buf s =
     (case fwlib_wait4ECAEvent pollTimeout s of
        None \<Rightarrow> None
      | Some (tag, a, s1) \<Rightarrow>
          let (buf', s3) = (if tag \<noteq> COMMON_ECADO_TIMEOUT
                           then case sys_time s1 of (now, s2) \<Rightarrow> eca_dispatch tag a buf now s2
                           else (buf, s1))
          in Some (tag, if tag \<noteq> FBAS_GEN_EVT then None else buf', s3))"

section \<open>Entry and exit actions\<close>

text \<open>\<open>pci\<close> tells whether the firmware was built for the platform \<open>pcicontrol\<close>.  Every configuration
  registers three timers.\<close>

definition configure_io :: "bool \<Rightarrow> fbas \<Rightarrow> fbas" where
  "configure_io pci s =
     (let s1 = (if pci then s\<lparr>outPortCfg := \<lparr>cfg_type = IO_CFG_CHANNEL_LVDS, cfg_total = 3\<rparr>\<rparr> else s);
          s2 = snd (fwlib_ioCtrlSetGate 0 2 (sbInit s1));
          s3 = fold (\<lambda>i s. snd (ioSetOutEnable (of_nat i) False s)) [0..<unat (cfg_total (outPortCfg s2))]
                 (ioInitPortMap s2);
          s4 = fwlib_publishNICData s3
      in s4\<lparr>dstMac := (dstMac s4)(DST_ADDR_BROADCAST := BROADCAST_MAC),
            dstIp := (dstIp s4)(DST_ADDR_BROADCAST := BROADCAST_IP)\<rparr>)"

definition configure_timers :: "fbas \<Rightarrow> fbas" where
  "configure_timers s =
     (if wbTimer s
      then snd (timerEnableHw (snd (timerSetupHw (ucast TIM_1_MS) (snd (initTimers s)))))
      else s)"

definition extern_entryActionConfigured :: "bool \<Rightarrow> fbas \<Rightarrow> u32 \<times> fbas" where
  "extern_entryActionConfigured pci s =
     (case setEndpDstAddr DST_ADDR_BROADCAST (configure_io pci s) of (status, s1) \<Rightarrow>
        if status \<noteq> COMMON_STATUS_OK then (status, s1)
        else (status, initMpsData (configure_timers s1)))"

text \<open>The loop that empties the ECA queue ends with the first timeout.\<close>

partial_function (option) flush_eca :: "fbas \<Rightarrow> fbas option" where
  "flush_eca s =
     (case fwlib_wait4ECAEvent 1000 s of
        None \<Rightarrow> None
      | Some (tag, a, s1) \<Rightarrow> if tag \<noteq> COMMON_ECADO_TIMEOUT then flush_eca s1 else Some s1)"

definition send_reg_request :: "fbas \<Rightarrow> fbas" where
  "send_reg_request s =
     (case setEndpDstAddr DST_ADDR_BROADCAST s of (st, s1) \<Rightarrow>
        if st = COMMON_STATUS_OK then snd (msgRegisterNode (myMac s1) BIC_MSK CH_MSK REG_REQ s1) else s1)"

definition enter_operation :: "fbas \<Rightarrow> fbas" where
  "enter_operation s =
     (let s1 = (if nodeType s = FBAS_NODE_TX \<and> mpsTask s AND TSK_REG_COMPLETE = 0
                then send_reg_request s else s);
          s2 = s1\<lparr>mpsTask := mpsTask s1 OR TSK_TX_MPS_FLAGS OR TSK_TX_MPS_EVENTS OR TSK_MONIT_MPS_TTL\<rparr>;
          s3 = fb_timerStart (pTimerRegistr s2) (fb_timerStart (pTimerMpsTtl s2) s2)
      in case sys_time s3 of (now, s4) \<Rightarrow>
           initCounters (s4\<lparr>msr := measureClearSummary None (measurePutTimestamp MSR_ML_PRD now (msr s4)),
             mpsMsgCtrl := (mpsMsgCtrl s4)\<lparr>ctrl_last := 0, ctrl_ttl := 0\<rparr>\<rparr>))"

definition extern_entryActionOperation :: "fbas \<Rightarrow> (u32 \<times> fbas) option" where
  "extern_entryActionOperation s =
     (case flush_eca s of None \<Rightarrow> None | Some s1 \<Rightarrow> Some (COMMON_STATUS_OK, enter_operation s1))"

definition extern_exitActionOperation :: "fbas \<Rightarrow> u32 \<times> fbas" where
  "extern_exitActionOperation s =
     (COMMON_STATUS_OK,
      fb_timerStart (pTimerConsole s) (s\<lparr>mpsTask := mpsTask s AND NOT TSK_TX_MPS_FLAGS AND
        NOT TSK_TX_MPS_EVENTS AND NOT TSK_MONIT_MPS_TTL AND NOT TSK_REG_COMPLETE\<rparr>))"

section \<open>Commands of the host\<close>

text \<open>The commands that print one item and export it to the general slots.\<close>

definition print_cmds :: "(u32 \<times> msr_item) list" where
  "print_cmds = [(0x32, MSR_TX_DLY), (0x39, MSR_RX_DLY), (0x34, MSR_SG_LTY), (0x33, MSR_MSG_DLY),
     (0x3e, MSR_MSG_RATE), (0x35, MSR_TTL), (0x37, MSR_ECA_DLY), (0x3a, MSR_ML_PRD), (0x3d, MSR_DIOB_DLY)]"

definition handleAppCmd :: "u32 \<Rightarrow> fbas \<Rightarrow> fbas" where
  "handleAppCmd cmd s0 =
     (if cmd = 0 then s0
      else
        let s = s0\<lparr>cntCmd := cntCmd s0 + 1\<rparr> in
        case map_of print_cmds cmd of
          Some it \<Rightarrow> measureExportSummary it FBAS_SHARED_GET_AVG (msr s) s
        | None \<Rightarrow>
            if cmd = 0x15
            then (let v = shm s FBAS_SHARED_SET_NODETYPE in
                  if v < 3 then sh_wr FBAS_SHARED_GET_NODETYPE v (s\<lparr>nodeType := node_of v\<rparr>) else s)
            else if cmd = 0x19 then msgSetBic (myBic s) (snd (readNodeId FBAS_SHARED_SENDERID s))
            else if cmd = 0x16 then snd (ioSetOutEnable 0 True s)
            else if cmd = 0x17 then snd (ioIsOutEnabled 0 s)
            else if cmd = 0x18
            then snd (driveOutPort \<lparr>io_type = cfg_type (outPortCfg s), io_idx = 0\<rparr> (ucast (cntCmd s AND 1)) s)
            else if cmd = 0x3b
            then (case measureExportActionRate FBAS_SHARED_ACT_RATE (msr s) s of (m, s1) \<Rightarrow> s1\<lparr>msr := m\<rparr>)
            else if cmd = 0x38 then s\<lparr>msr := measureClearSummary None (msr s)\<rparr>
            else if cmd = 0x3c
            then (let v = shm s FBAS_SHARED_SET_NODETYPE in
                  if unat v < length txMsgRates
                  then s\<lparr>mpsMsgCtrl := msgInitMsgCtrl (of_nat N_MPS_CHANNELS) 0 (txMsgRates ! unat v) (mpsMsgCtrl s)\<rparr>
                  else s)
            else if cmd = 0x20 \<or> cmd = 0x21 then sbCmdHandler cmd s
            else s)"

definition cmdHandler :: "u32 \<Rightarrow> u32 \<Rightarrow> fbas \<Rightarrow> fbas" where
  "cmdHandler actState cmd s =
     (if cmd = 0 then s
      else if cmd > COMMON_CMD_RESERVEDTILHERE \<and> actState = COMMON_STATE_CONFIGURED
      then handleAppCmd cmd s else s)"

section \<open>Interrupt and operation\<close>

text \<open>The timer interrupt; \<open>now\<close> is the CPU's own time.\<close>

definition timerHandler :: "u64 \<Rightarrow> fbas \<Rightarrow> fbas" where
  "timerHandler now s =
     s\<lparr>timerDbg := timerUpdateDbg now (timerDbg s), timers := timerTickTimers (timers s)\<rparr>"

text \<open>Handle actions until the time is over; \<open>n\<close> counts the MPS messages.\<close>

partial_function (option) op_actions :: "u64 \<Rightarrow> nat option \<Rightarrow> u16 \<Rightarrow> fbas \<Rightarrow> (u16 \<times> fbas) option" where
  "op_actions until buf n s =
     (case sys_time s of (now, s1) \<Rightarrow>
        if now < until
        then (case handleEcaEvent 15 buf s1 of
                None \<Rightarrow> None
              | Some (tag, buf', s2) \<Rightarrow>
                  op_actions until buf' (if tag = FBAS_WR_FLG \<or> tag = FBAS_WR_EVT then n + 1 else n) s2)
        else Some (n, s1))"

definition op_timers :: "fbas \<Rightarrow> fbas" where
  "op_timers s =
     (let s1 = (if mpsTask s AND TSK_MONIT_MPS_TTL \<noteq> 0
                then (case fb_timerIsExpired (pTimerMpsTtl s) s of (e, s') \<Rightarrow>
                        if e then fb_timerStart (pTimerMpsTtl s') (s'\<lparr>mpsTask := mpsTask s' OR TSK_EVAL_MPS_TTL\<rparr>)
                        else s')
                else s)
      in case fb_timerIsExpired (pTimerRegistr s1) s1 of (e, s2) \<Rightarrow>
           if e then fb_timerStart (pTimerRegistr s2) (s2\<lparr>mpsTask := mpsTask s2 OR TSK_REG_PER_OVER\<rparr>) else s2)"

definition op_tx :: "fbas \<Rightarrow> fbas" where
  "op_tx s =
     (if mpsTask s AND TSK_TX_MPS_FLAGS \<noteq> 0
      then if mpsTask s AND TSK_REG_COMPLETE = 0
           then (if mpsTask s AND TSK_REG_PER_OVER \<noteq> 0
                 then send_reg_request (s\<lparr>mpsTask := mpsTask s AND NOT TSK_REG_PER_OVER\<rparr>) else s)
           else (case setEndpDstAddr DST_ADDR_RXNODE s of (st, s1) \<Rightarrow>
                 if st \<noteq> COMMON_STATUS_OK then s1
                 else case msgSendPcFlag (FBAS_FLG_EID + ucast (myIdx s1)) s1 of (n, s2) \<Rightarrow>
                   let s3 = count_to TX_EVT_CNT n FBAS_SHARED_TX_MSG_CNT s2
                   in if n = 0 then s3
                      else let t = measureGetTimestamp MSR_MSG_RATE (msr s3); l = ctrl_last (mpsMsgCtrl s3);
                               s4 = (if t \<noteq> 0 \<and> l \<noteq> 0
                                     then summarize MSR_MSG_RATE FBAS_SHARED_MSG_RATE_AVG t l s3 else s3)
                           in s4\<lparr>msr := measurePutTimestamp MSR_MSG_RATE l (msr s4)\<rparr>)
      else (case fb_timerIsExpired (pTimerConsole s) s of (e, s1) \<Rightarrow>
              if e then fb_timerStart (pTimerConsole s1) (snd (sys_time s1)) else s1))"

definition op_eval :: "u64 \<Rightarrow> nat \<Rightarrow> fbas \<Rightarrow> fbas" where
  "op_eval now i s =
     (case evalMpsMsgTtl i s of (e, s1) \<Rightarrow>
        if e then let s2 = snd (ioDriveOutput (Some i) i s1)
                  in if ttl (bufMpsMsg s2 ! i) = 0
                     then summarize MSR_TTL FBAS_SHARED_TTL_PRD_AVG (tsRx (bufMpsMsg s2 ! i)) now s2 else s2
        else s1)"

definition op_rx :: "fbas \<Rightarrow> fbas" where
  "op_rx s =
     (if mpsTask s AND TSK_EVAL_MPS_TTL \<noteq> 0
      then case sys_time (s\<lparr>mpsTask := mpsTask s AND NOT TSK_EVAL_MPS_TTL\<rparr>) of (now, s1) \<Rightarrow>
           case sys_time (fold (op_eval now) [0..<N_MAX_MPS_CHANNELS] s1) of (now', s2) \<Rightarrow>
           case sbPutMpsFlags (ucast (msgRepresentMpsFlags s2)) s2 of (_, s3) \<Rightarrow>
           case sys_time s3 of (t, s4) \<Rightarrow> s4\<lparr>msr := measureSummarize MSR_DIOB_DLY now' t (msr s4)\<rparr>
      else s)"

definition op_period :: "fbas \<Rightarrow> fbas" where
  "op_period s =
     (case sys_time s of (now, s1) \<Rightarrow>
        let last = measureGetTimestamp MSR_ML_PRD (msr s1);
            s2 = (if last \<noteq> 0 then summarize MSR_ML_PRD FBAS_SHARED_ML_PRD_AVG last now s1 else s1)
        in s2\<lparr>msr := measurePutTimestamp MSR_ML_PRD now (msr s2)\<rparr>)"

definition doActionOperation :: "u32 \<Rightarrow> fbas \<Rightarrow> (u32 \<times> fbas) option" where
  "doActionOperation actStatus s =
     (case sys_time s of (now, s1) \<Rightarrow>
        case op_actions (now + 92160) (Some 0) 0 s1 of
          None \<Rightarrow> None
        | Some (n, s2) \<Rightarrow>
            let s3 = op_timers (s2\<lparr>msr := measureActionRate (ucast n) (msr s2)\<rparr>);
                s4 = (if nodeType s3 = FBAS_NODE_TX then op_tx s3
                      else if nodeType s3 = FBAS_NODE_RX then op_rx s3 else s3)
            in Some (actStatus, op_period s4))"

section \<open>The main loop\<close>

definition fbas_hooks where
  "fbas_hooks pci = \<lparr>entryActionConfigured = (\<lambda>s. Some (extern_entryActionConfigured pci s)),
     entryActionOperation = extern_entryActionOperation, exitActionOperation = extern_exitActionOperation\<rparr>"

text \<open>\<open>extern_clearDiag\<close> of this firmware is empty.\<close>

definition extern_clearDiag :: "fbas \<Rightarrow> fbas" where
  "extern_clearDiag s = s"

text \<open>The sum status: bit 0 says that all is well; the first bad status after a good one is counted.\<close>

definition update_status :: "u32 \<Rightarrow> fbas \<Rightarrow> fbas" where
  "update_status status s =
     (if status = COMMON_STATUS_OK then s\<lparr>statusArray := statusArray s OR 1\<rparr>
      else let s1 = (if bit (statusArray s) 0 then fwlib_incBadStatusCnt s else s)
           in s1\<lparr>statusArray := (statusArray s1 AND NOT 1) OR push_bit (unat status) 1\<rparr>)"

text \<open>One pass of the loop: requested, actual and published state, then the rest.\<close>

definition fbas_iter :: "bool \<Rightarrow> u32 \<times> u32 \<times> u32 \<times> fbas \<Rightarrow> (u32 \<times> u32 \<times> u32 \<times> fbas) option" where
  "fbas_iter pci = (\<lambda>(reqState, actState, pubState, s).
     case fwlib_cmdHandler extern_clearDiag reqState s of (req1, cmd, s1) \<Rightarrow>
     case fwlib_changeState (fbas_hooks pci) actState req1 COMMON_STATUS_OK (cmdHandler actState cmd s1) of
       None \<Rightarrow> None
     | Some (act, req2, status, s2) \<Rightarrow>
         (case (if act = COMMON_STATE_OPREADY
                then map_option (\<lambda>(st, s'). (if st = COMMON_STATUS_WRBADSYNC \<or> st = COMMON_STATUS_ERROR
                                             then COMMON_STATE_ERROR else req2, st, s'))
                       (doActionOperation status s2)
                else fwlib_doActionState req2 act status s2) of
            None \<Rightarrow> None
          | Some (req3, status', s3) \<Rightarrow>
              let s4 = update_status status' s3;
                  s5 = (if pubState = COMMON_STATE_OPREADY \<and> act \<noteq> COMMON_STATE_OPREADY
                        then fwlib_incBadStateCnt s4 else s4);
                  s6 = fwlib_publishState act (fwlib_publishStatusArray (ucast (statusArray s5)) s5)
              in Some (req3, act, act, s6)))"

text \<open>Start of the firmware: the diagnostics are cleared before the shared memory is set up; None when
  it gives up.\<close>

definition fbas_start :: "nat \<Rightarrow> (nat \<Rightarrow> u32) \<Rightarrow> nat \<Rightarrow> u32 \<Rightarrow> fbas \<Rightarrow> (u32 \<times> u32 \<times> u32 \<times> fbas) option" where
  "fbas_start rams adr cpuId sharedOffs s =
     (case initSharedMem rams adr cpuId sharedOffs (fwlib_clearDiag extern_clearDiag s) of (status, s1) \<Rightarrow>
        if status = COMMON_STATUS_ERROR then None
        else Some (COMMON_STATE_S0, COMMON_STATE_UNKNOWN, COMMON_STATE_UNKNOWN, s1))"

end
