(* ===== verification/Fw_Frame.thy ===== *)
theory Fw_Frame
  imports Fwlib
begin

text \<open>
  What the operations of the common library leave alone: they work on the extensible state and cannot
  touch the part an application adds to it.
\<close>

section \<open>The common library keeps the application's part\<close>

named_theorems more_simps "operations that keep the extension of the state"

lemma more_basic [more_simps]:
  "fw.more (snd (sys_time s)) = fw.more s" "fw.more (snd (rd_dev r s)) = fw.more s"
  "fw.more (wr_dev r v s) = fw.more s" "fw.more (sh_wr off w s) = fw.more s"
  "fw.more (sh_wr64 off d s) = fw.more s" "fw.more (sh_clear off n s) = fw.more s"
  by (simp_all add: sys_time_def rd_dev_def sh_wr64_def sh_clear_sel)

lemma more_ebm [more_simps]:
  "fw.more (ebm_init s) = fw.more s" "fw.more (ebm_config_if c mac ip port s) = fw.more s"
  "fw.more (ebm_config_meta a b c' s) = fw.more s" "fw.more (ebm_hi x s) = fw.more s"
  "fw.more (ebm_op x v t s) = fw.more s" "fw.more (ebm_flush s) = fw.more s" "fw.more (ebm_clr s) = fw.more s"
  by (simp_all add: ebm_init_def ebm_config_if_def ebm_config_meta_def ebm_hi_def ebm_op_def ebm_flush_def
      ebm_clr_def Let_def more_simps split: target_t.split)

lemma more_fold [more_simps]:
  "(\<And>x s. fw.more (f x s) = fw.more s) \<Longrightarrow> fw.more (fold f xs s) = fw.more s"
  by (induction xs arbitrary: s) simp_all

lemma more_find [more_simps]:
  "fw.more (snd (find_dev d s)) = fw.more s" "fw.more (snd (findECAQueue s)) = fw.more s"
  by (simp_all add: find_dev_def findECAQueue_def Let_def)

lemma more_net [more_simps]:
  "fw.more (snd (fwlib_wrGetMac s)) = fw.more s" "fw.more (snd (fwlib_wrGetIP s)) = fw.more s"
  "fw.more (fwlib_publishNICData s) = fw.more s"
  "fw.more (snd (fwlib_ioCtrlSetGate e io s)) = fw.more s"
proof -
  show m: "fw.more (snd (fwlib_wrGetMac s)) = fw.more s" for s :: "'a fw_scheme"
    by (simp add: fwlib_wrGetMac_def find_dev_def rd_dev_def Let_def split: prod.split)
  show i: "fw.more (snd (fwlib_wrGetIP s)) = fw.more s" for s :: "'a fw_scheme"
    by (simp add: fwlib_wrGetIP_def find_dev_def rd_dev_def Let_def split: prod.split)
  show "fw.more (fwlib_publishNICData s) = fw.more s"
    using m[of s] i by (auto simp: fwlib_publishNICData_def Let_def more_simps split_beta)
  show "fw.more (snd (fwlib_ioCtrlSetGate e io s)) = fw.more s"
    by (simp add: fwlib_ioCtrlSetGate_def more_simps)
qed

lemma more_tm [more_simps]:
  "fw.more (snd (fwlib_ebmWriteTM dl i p t f s)) = fw.more s"
  "fw.more (snd (fwlib_ecaWriteTM dl i p t f s)) = fw.more s"
proof -
  have d: "fw.more (snd (snd (tm_deadline dl f s))) = fw.more s"
    by (simp add: tm_deadline_def sys_time_def)
  show "fw.more (snd (fwlib_ebmWriteTM dl i p t f s)) = fw.more s"
    using d by (simp add: fwlib_ebmWriteTM_def split_beta more_simps)
  show "fw.more (snd (fwlib_ecaWriteTM dl i p t f s)) = fw.more s"
    using d by (simp add: fwlib_ecaWriteTM_def split_beta more_simps)
qed

lemma more_list [more_simps]: "fw.more (sh_wr_list off vs s) = fw.more s"
  by (induction off vs s rule: sh_wr_list.induct) simp_all

lemma more_publish [more_simps]:
  "fw.more (fwlib_init a b c d s) = fw.more s" "fw.more (fwlib_publishState st s) = fw.more s"
  "fw.more (fwlib_publishStatusArray arr s) = fw.more s" "fw.more (fwlib_incBadStatusCnt s) = fw.more s"
  "fw.more (fwlib_incBadStateCnt s) = fw.more s" "fw.more (fwlib_initCmds s) = fw.more s"
  by (simp_all add: fwlib_init_def fwlib_publishState_def fwlib_publishStatusArray_def fwlib_incBadStatusCnt_def
      fwlib_incBadStateCnt_def fwlib_initCmds_def fwlib_publishSharedSize_def ebmClearSharedMem_def Let_def
      more_simps)

lemma more_s0 [more_simps]: "fw.more (snd (fwlib_doActionS0 s)) = fw.more s"
  unfolding fwlib_doActionS0_def Let_def split_beta snd_conv
  by (simp only: more_simps)

lemma more_eca_poll:
  assumes "eca_poll t s = Some r"
  shows "fw.more (snd r) = fw.more s"
  by (rule eca_poll.raw_induct[where P = "\<lambda>t s r. fw.more (snd r) = fw.more s", OF _ assms])
    (auto simp: sys_time_def wr_dev_def split: if_splits option.splits)

lemma more_wait:
  assumes "fwlib_wait4ECAEvent us s = Some (tag, a, s')"
  shows "fw.more s' = fw.more s"
  using assms more_eca_poll
  by (fastforce simp: fwlib_wait4ECAEvent_def fwlib_wait4ECAEvent2_def Let_def sys_time_def
      split: option.splits prod.splits)

lemma more_wait_ip: "ebm_wait_ip T s = Some s' \<Longrightarrow> fw.more s' = fw.more s"
proof (rule ebm_wait_ip.raw_induct[where P = "\<lambda>T s s'. fw.more s' = fw.more s"])
  fix f :: "u64 \<Rightarrow> 'a fw_scheme \<Rightarrow> 'a fw_scheme option" and T s s'
  assume IH: "\<And>T s s'. f T s = Some s' \<Longrightarrow> fw.more s' = fw.more s"
    and e: "(case sys_time s of (now, s1) \<Rightarrow>
        if T < now
        then case fwlib_wrGetIP s1 of (ip, s2) \<Rightarrow> if ip = EBC_DEFAULT_IP then f T s2 else Some s2
        else Some s1) = Some s'"
  show "fw.more s' = fw.more s"
  proof -
    obtain ip s2 where g: "fwlib_wrGetIP (s\<lparr>time_cnt := Suc (time_cnt s)\<rparr>) = (ip, s2)" by fastforce
    have "fw.more s2 = fw.more s" using more_net(2)[of "s\<lparr>time_cnt := Suc (time_cnt s)\<rparr>"] by (simp add: g)
    thus ?thesis using e IH[of T s2 s'] by (auto simp: sys_time_def g split: if_splits)
  qed
qed

lemma more_ebmInit: "fwlib_ebmInit ms mac ip ops s = Some (st, s') \<Longrightarrow> fw.more s' = fw.more s"
  by (auto simp: fwlib_ebmInit_def more_simps split_beta dest!: more_wait_ip split: option.splits if_splits)

end
