(* ===== verification/Fbas_Frame.thy ===== *)
theory Fbas_Frame
  imports Fbas Fw_Frame
begin

text \<open>
  What the operations of the FBAS firmware leave alone: they keep the message buffer, the messaging
  controller and the node type unless it is their job to change them.
\<close>

section \<open>What the application keeps\<close>

text \<open>The message buffer, the messaging controller, the node type and the table of senders.\<close>

definition kept :: "fbas \<Rightarrow> mps_msg list \<times> msg_ctrl \<times> node_t \<times> mac list" where
  "kept s = (bufMpsMsg s, mpsMsgCtrl s, nodeType s, senders s)"

lemma kept_more: "fw.more s' = fw.more s \<Longrightarrow> kept s' = kept s"
  by (cases s; cases s') (simp add: kept_def)

lemma kept_sel:
  "kept s' = kept s \<Longrightarrow> bufMpsMsg s' = bufMpsMsg s \<and> mpsMsgCtrl s' = mpsMsgCtrl s \<and> nodeType s' = nodeType s \<and>
   senders s' = senders s"
  by (simp add: kept_def)

named_theorems kept_simps "operations that keep message buffer, controller and node type"

lemma kept_basic [kept_simps]:
  "kept (snd (sys_time s)) = kept s" "kept (snd (rd_dev r s)) = kept s" "kept (wr_dev r v s) = kept s"
  "kept (sh_wr off w s) = kept s" "kept (sh_clear off n s) = kept s" "kept (snd (find_dev d s)) = kept s"
  "kept (sh_wr64 off x s) = kept s" "kept (sh_wr_list off vs s) = kept s"
  "kept (fwlib_publishNICData s) = kept s" "kept (snd (fwlib_ioCtrlSetGate e io s)) = kept s"
  "kept (fwlib_publishState st s) = kept s" "kept (fwlib_publishStatusArray arr s) = kept s"
  "kept (fwlib_incBadStatusCnt s) = kept s" "kept (fwlib_incBadStateCnt s) = kept s"
  "kept (snd (fwlib_doActionS0 s)) = kept s" "kept (snd (fwlib_ebmWriteTM dl i p t f s)) = kept s"
  "kept (fwlib_init a b c d' s) = kept s"
  by (rule kept_more, simp only: more_simps)+

lemma kept_upd [kept_simps]:
  "kept (s\<lparr>msr := m\<rparr>) = kept s" "kept (s\<lparr>mpsTask := k\<rparr>) = kept s" "kept (s\<lparr>timers := ts\<rparr>) = kept s"
  "kept (s\<lparr>dstMac := dm\<rparr>) = kept s" "kept (s\<lparr>dstIp := di\<rparr>) = kept s" "kept (s\<lparr>crashed := True\<rparr>) = kept s"
  "kept (s\<lparr>outPortCfg := oc\<rparr>) = kept s" "kept (s\<lparr>EffLogOut := el\<rparr>) = kept s" "kept (s\<lparr>opMode := om\<rparr>) = kept s"
  "kept (s\<lparr>cntCmd := cc\<rparr>) = kept s" "kept (s\<lparr>sbSlaves := sb\<rparr>) = kept s" "kept (s\<lparr>sbDiobs := sb\<rparr>) = kept s"
  "kept (s\<lparr>sb_last := sl\<rparr>) = kept s" "kept (s\<lparr>myMac := mm\<rparr>) = kept s" "kept (s\<lparr>myIdx := mi\<rparr>) = kept s"
  "kept (s\<lparr>statusArray := sa\<rparr>) = kept s" "kept (s\<lparr>timerDbg := td\<rparr>) = kept s"
  "kept (s\<lparr>pTimerMpsTtl := p1\<rparr>) = kept s" "kept (s\<lparr>pTimerRegistr := p1\<rparr>) = kept s"
  "kept (s\<lparr>pTimerConsole := p1\<rparr>) = kept s" "kept (s\<lparr>flagRecover := fr\<rparr>) = kept s"
  "kept (s\<lparr>time_cnt := tc\<rparr>) = kept s" "kept (s\<lparr>rd_cnt := tc\<rparr>) = kept s" "kept (s\<lparr>shm := sh\<rparr>) = kept s"
  "kept (s\<lparr>nBadStatus := ns\<rparr>) = kept s" "kept (s\<lparr>nBadState := ns\<rparr>) = kept s"
  by (simp_all add: kept_def)

lemma kept_fold [kept_simps]:
  "(\<And>x s. kept (f x s) = kept s) \<Longrightarrow> kept (fold f xs s) = kept s"
  by (induction xs arbitrary: s) simp_all

lemma kept_stat [kept_simps]:
  "kept (measureExportSummary it off m s) = kept s" "kept (summarize it off x y s) = kept s"
  "kept (count_to c n off s) = kept s"
  by (simp_all add: measureExportSummary_def summarize_def count_to_def measureCountEvt_def Let_def kept_simps
      split: prod.split)

lemma kept_timer [kept_simps]:
  "kept (fb_timerStart p s) = kept s" "kept (snd (fb_timerIsExpired p s)) = kept s"
  by (simp_all add: fb_timerStart_def fb_timerIsExpired_def kept_simps split: option.split prod.split)

lemma kept_dst [kept_simps]:
  "kept (fwlib_setEbmDstAddr mac ip s) = kept s" "kept (snd (setEndpDstAddr d s)) = kept s"
proof -
  show k: "kept (fwlib_setEbmDstAddr mac ip s) = kept s" for mac ip s
    by (rule kept_more) (simp add: fwlib_setEbmDstAddr_def more_simps)
  show "kept (snd (setEndpDstAddr d s)) = kept s"
    by (simp add: setEndpDstAddr_def Let_def k kept_simps)
qed

lemma kept_io [kept_simps]:
  "kept (snd (ioSetOutEnable i e s)) = kept s" "kept (snd (ioIsOutEnabled i s)) = kept s"
  "kept (snd (driveOutPort p v s)) = kept s" "kept (snd (ioDriveOutput b j s)) = kept s"
  "kept (snd (ioMapOutput i i' s)) = kept s" "kept (ioInitPortMap s) = kept s"
  "kept (snd (fwlib_getEcaCnt r s)) = kept s"
  by (auto simp: ioSetOutEnable_def ioIsOutEnabled_def driveOutPort_def ioDriveOutput_def ioMapOutput_def
      ioInitPortMap_def fwlib_getEcaCnt_def rd_dev_def wr_dev_def kept_def)

lemma kept_sb_rd [kept_simps]: "kept (snd (sb_rd o' s)) = kept s"
  by (simp add: sb_rd_def rd_dev_def kept_def)

lemma kept_sb_seq [kept_simps]: "kept (snd (sb_rd_seq o' n s)) = kept s"
proof (induction o' n s rule: sb_rd_seq.induct)
  case (2 o' n s)
  have "kept (snd (sb_rd_seq (o' + 1) n (snd (sb_rd o' s)))) = kept (snd (sb_rd o' s))"
    by (rule 2[OF prod.collapse])
  thus ?case using kept_sb_rd[of o' s] by (simp add: split_beta)
qed simp

lemma kept_ext [kept_simps]: "kept (probeSbSlaveExt slot s) = kept s"
  by (simp add: probeSbSlaveExt_def split_beta kept_simps)

lemma kept_probe [kept_simps]: "kept (snd (probe_slots slots a b f s)) = kept s"
proof (induction slots arbitrary: f s)
  case (Cons slot slots)
  show ?case by (simp add: split_beta Let_def Cons kept_simps)
qed simp

lemma kept_sb [kept_simps]:
  "kept (exportSbSlaveConfig sl s) = kept s" "kept (sbCmdHandler c s) = kept s"
  "kept (snd (writeDiobReg d r s)) = kept s" "kept (sbInit s) = kept s" "kept (snd (sbPutMpsFlags v s)) = kept s"
proof -
  show e: "kept (exportSbSlaveConfig sl s) = kept s" for sl s
    by (simp add: exportSbSlaveConfig_def readSbSlaveReg_def split_beta kept_simps split: list.split)
  have p: "probeSbSlaves a b f s = Some r \<Longrightarrow> kept (snd r) = kept s" for a b f s r
    by (auto simp: probeSbSlaves_def kept_simps split: if_splits simp del: upt_Suc)
  show "kept (sbCmdHandler c s) = kept s"
    by (auto simp: sbCmdHandler_def Let_def e kept_simps dest: p split: option.split prod.split)
  show w: "kept (snd (writeDiobReg d r s)) = kept s" for d r s
    by (simp add: writeDiobReg_def kept_simps del: upt_Suc)
  show "kept (sbInit s) = kept s"
    by (auto simp: sbInit_def Let_def w kept_simps dest: p split: option.split prod.split)
  show "kept (snd (sbPutMpsFlags v s)) = kept s"
    by (simp add: sbPutMpsFlags_def w kept_simps)
qed

lemma kept_configure [kept_simps]: "kept (configure_io pci s) = kept s" "kept (configure_timers s) = kept s"
  by (simp_all add: configure_io_def configure_timers_def timerEnableHw_def timerSetupHw_def initTimers_def
      Let_def split_beta kept_simps)

end
