(* ===== verification/Fw_States.thy ===== *)
theory Fw_States
  imports Fwlib
begin

text \<open>
  The state machine of the firmware family: the transitions that common-defs.h
  documents, what happens when an action fails, and the contract between the state
  machine and an application: what every entry and exit action keeps, every
  transition keeps.
\<close>

section \<open>Allowed transitions\<close>

text \<open>The comments beside the states in common-defs.h; every state may also go to ERROR or FATAL.\<close>

definition documented :: "(u32 \<times> u32) list" where
  "documented = [(COMMON_STATE_S0, COMMON_STATE_IDLE), (COMMON_STATE_IDLE, COMMON_STATE_CONFIGURED),
     (COMMON_STATE_CONFIGURED, COMMON_STATE_IDLE), (COMMON_STATE_CONFIGURED, COMMON_STATE_CONFIGURED),
     (COMMON_STATE_CONFIGURED, COMMON_STATE_OPREADY), (COMMON_STATE_OPREADY, COMMON_STATE_STOPPING),
     (COMMON_STATE_STOPPING, COMMON_STATE_CONFIGURED), (COMMON_STATE_ERROR, COMMON_STATE_IDLE)]"

definition proper_state :: "u32 \<Rightarrow> bool" where
  "proper_state a \<longleftrightarrow> a \<in> {COMMON_STATE_S0, COMMON_STATE_IDLE, COMMON_STATE_CONFIGURED, COMMON_STATE_OPREADY,
     COMMON_STATE_STOPPING, COMMON_STATE_ERROR, COMMON_STATE_FATAL}"

lemma next_state_cases:
  assumes "next_state h act req s = Some (nxt, st, s')"
  shows "nxt = act \<and> act \<noteq> COMMON_STATE_STOPPING \<or>
    (act, nxt) \<in> set documented \<and> (req = nxt \<or> act = COMMON_STATE_STOPPING) \<or>
    act = COMMON_STATE_STOPPING \<and> nxt = COMMON_STATE_IDLE \<and> req = COMMON_STATE_IDLE \<or>
    (act = COMMON_STATE_FATAL \<or> \<not> proper_state act) \<and> nxt = COMMON_STATE_S0"
  using assms
  by (auto simp: next_state_def documented_def proper_state_def common_states exitActionError_def
      split: if_splits prod.splits)

text \<open>
  C31. What one call of the state machine can do.  It follows a documented transition that is requested (or is the
  automatic one of STOPPING), stays where it is (never in STOPPING), or goes to ERROR (on request, or because an
  action failed) or to FATAL (on request only).  Three transitions beyond the comments in common-defs.h are possible
  as well: from STOPPING to IDLE on request, because that case falls through to the one of ERROR; and, by the default
  case, to S0 from a value that is no state, and from FATAL, which the comment calls final.  In a main loop
  the last one does not come about: a call that ends in FATAL is followed by the do action, which does not return
  then.  The request is used up.
\<close>

theorem transitions_allowed:
  assumes "fwlib_changeState h act req st s = Some (act', req', st', s')"
  shows "req' = COMMON_STATE_UNKNOWN \<and>
    (act' = act \<and> act \<noteq> COMMON_STATE_STOPPING \<or>
     (act, act') \<in> set documented \<and> (req = act' \<or> act = COMMON_STATE_STOPPING) \<or>
     act' = COMMON_STATE_ERROR \<and> (req = COMMON_STATE_ERROR \<or> st' \<noteq> COMMON_STATUS_OK) \<or>
     act' = COMMON_STATE_FATAL \<and> req = COMMON_STATE_FATAL \<or>
     act = COMMON_STATE_STOPPING \<and> act' = COMMON_STATE_IDLE \<and> req = COMMON_STATE_IDLE \<or>
     act = COMMON_STATE_FATAL \<and> act' = COMMON_STATE_S0 \<or>
     \<not> proper_state act \<and> act' = COMMON_STATE_S0) \<and>
    (act' = COMMON_STATE_FATAL \<longrightarrow> fwlib_doActionState req' act' st' s' = None)"
proof -
  have fatal: "act' = COMMON_STATE_FATAL \<longrightarrow> fwlib_doActionState req' act' st' s' = None"
    by (simp add: fwlib_doActionState_def)
  show ?thesis
  proof (cases "req = COMMON_STATE_ERROR \<or> req = COMMON_STATE_FATAL")
    case True
    thus ?thesis using assms fatal by (auto simp: fwlib_changeState_def Let_def common_states split: if_splits)
  next
    case False
    then obtain nxt t where n: "next_state h act req s = Some (nxt, t, s')"
      and a: "act' = (if t \<noteq> COMMON_STATUS_OK \<and> nxt \<noteq> COMMON_STATE_FATAL then COMMON_STATE_ERROR else nxt)"
        "st' = (if act \<noteq> act' then t else st)" "req' = COMMON_STATE_UNKNOWN"
      using assms by (auto simp: fwlib_changeState_def Let_def split: option.splits)
    have "act \<noteq> COMMON_STATE_STOPPING" if "act = COMMON_STATE_ERROR" using that by (simp add: common_states)
    moreover have "act' = COMMON_STATE_ERROR \<and> (act' = act \<or> st' \<noteq> COMMON_STATUS_OK) \<or> act' = nxt" using a by auto
    ultimately show ?thesis using next_state_cases[OF n] a(3) fatal by metis
  qed
qed

theorem transitions_allowed_witness:
  "\<exists>h :: unit hooks. \<exists>s s'. fwlib_changeState h COMMON_STATE_STOPPING COMMON_STATE_IDLE COMMON_STATUS_OK s
     = Some (COMMON_STATE_IDLE, COMMON_STATE_UNKNOWN, COMMON_STATUS_OK, s') \<and>
   (COMMON_STATE_STOPPING, COMMON_STATE_IDLE) \<notin> set documented"
proof -
  fix h :: "unit hooks" and s
  have r: "fwlib_changeState h COMMON_STATE_STOPPING COMMON_STATE_IDLE COMMON_STATUS_OK s
      = Some (COMMON_STATE_IDLE, COMMON_STATE_UNKNOWN, COMMON_STATUS_OK, s)"
    by (simp add: fwlib_changeState_def next_state_def exitActionError_def common_states Let_def)
  have "(COMMON_STATE_STOPPING, COMMON_STATE_IDLE) \<notin> set documented"
    by (simp add: documented_def common_states)
  thus ?thesis using transitions_allowed[OF r] r by blast
qed

text \<open>
  C32. An entry or exit action that fails takes the machine to ERROR with the status of the action:
  nothing of the requested state is entered.
\<close>

theorem failed_action_is_error:
  assumes "e \<noteq> COMMON_STATUS_OK"
    and "act \<in> {COMMON_STATE_IDLE, COMMON_STATE_CONFIGURED} \<and> req = COMMON_STATE_CONFIGURED \<and>
           entryActionConfigured h s = Some (e, s') \<or>
         act = COMMON_STATE_CONFIGURED \<and> req = COMMON_STATE_OPREADY \<and> entryActionOperation h s = Some (e, s') \<or>
         act = COMMON_STATE_OPREADY \<and> req = COMMON_STATE_STOPPING \<and> exitActionOperation h s = (e, s')"
  shows "fwlib_changeState h act req st s = Some (COMMON_STATE_ERROR, COMMON_STATE_UNKNOWN, e, s')"
  using assms(2)
proof (elim disjE conjE)
  assume "act \<in> {COMMON_STATE_IDLE, COMMON_STATE_CONFIGURED}" "req = COMMON_STATE_CONFIGURED"
    "entryActionConfigured h s = Some (e, s')"
  thus ?thesis using assms(1) by (auto simp: fwlib_changeState_def next_state_def common_states Let_def)
qed (use assms(1) in \<open>simp_all add: fwlib_changeState_def next_state_def common_states Let_def\<close>)

theorem failed_action_is_error_witness:
  "\<exists>h :: unit hooks. \<exists>s. fwlib_changeState h COMMON_STATE_IDLE COMMON_STATE_CONFIGURED COMMON_STATUS_OK s
     = Some (COMMON_STATE_ERROR, COMMON_STATE_UNKNOWN, COMMON_STATUS_ERROR, s)"
proof -
  fix s :: "fw"
  let ?h = "\<lparr>entryActionConfigured = (\<lambda>s. Some (COMMON_STATUS_ERROR, s)), entryActionOperation = (\<lambda>s. None),
     exitActionOperation = Pair COMMON_STATUS_OK\<rparr> :: unit hooks"
  have "fwlib_changeState ?h COMMON_STATE_IDLE COMMON_STATE_CONFIGURED COMMON_STATUS_OK s
     = Some (COMMON_STATE_ERROR, COMMON_STATE_UNKNOWN, COMMON_STATUS_ERROR, s)"
    by (rule failed_action_is_error) (simp_all add: common_status)
  thus ?thesis by blast
qed

section \<open>What an application promises to the state machine\<close>

text \<open>The contract: every action of the application keeps the property \<open>inv\<close> of its state, and the
  actions of the library, which know nothing of it, keep it as well.\<close>

locale fw_application =
  fixes h :: "'a hooks" and inv :: "'a fw_scheme \<Rightarrow> bool"
  assumes entry_configured: "inv s \<Longrightarrow> entryActionConfigured h s = Some (st, s') \<Longrightarrow> inv s'"
    and entry_operation: "inv s \<Longrightarrow> entryActionOperation h s = Some (st, s') \<Longrightarrow> inv s'"
    and exit_operation: "inv s \<Longrightarrow> inv (snd (exitActionOperation h s))"
    and library: "fw.more s' = fw.more s \<Longrightarrow> inv s \<Longrightarrow> inv s'"
begin

lemma next_state_keeps:
  assumes "next_state h act req s = Some (nxt, st, s')" "inv s"
  shows "inv s'"
proof -
  have "s' = s \<or> entryActionConfigured h s = Some (st, s') \<or> entryActionOperation h s = Some (st, s') \<or>
    exitActionOperation h s = (st, s')"
    using assms(1) by (auto simp: next_state_def exitActionError_def split: if_splits prod.splits)
  thus ?thesis
    using assms(2) entry_configured entry_operation exit_operation by (metis snd_conv)
qed

lemma change_keeps: "fwlib_changeState h act req st s = Some (act', req', st', s') \<Longrightarrow> inv s \<Longrightarrow> inv s'"
  using next_state_keeps[of act req s]
  by (auto simp: fwlib_changeState_def Let_def split: if_splits option.splits)

end

end
