(* ===== verification/Fbas_Reach.thy ===== *)
theory Fbas_Reach
  imports Fbas_Frame Fw_States
begin

text \<open>
  The states a FBAS node can get into: from power-on through any number of passes of
  the main loop, timer interrupts and writes of the host into the shared memory.
  Proved over them: the lifetime monitoring of the collector never expires a flag.
\<close>

section \<open>Power-on\<close>

definition msg0 :: mps_msg where
  "msg0 = \<lparr>addr = 0, bic_id = 0, ch_id = 0, flag = 0, tsRx = 0, ttl = 0, pending = 0\<rparr>"

definition ctrl0 :: msg_ctrl where
  "ctrl0 = \<lparr>ctrl_total = 0, ctrl_last = 0, ctrl_period = 0, ctrl_ttl = 0\<rparr>"

text \<open>The static variables of tmessage.c, timer.c and fbas.c are zero (or have their initialiser)
  when the firmware starts.\<close>

definition power_on :: "fbas \<Rightarrow> bool" where
  "power_on s \<longleftrightarrow> senders s = replicate N_MAX_TX_NODES 0 \<and> bufMpsMsg s = replicate N_MAX_MPS_CHANNELS msg0 \<and>
     mpsMsgCtrl s = ctrl0 \<and> timers s = replicate N_TIMERS timer0 \<and> mpsTask s = 0 \<and>
     nodeType s = FBAS_NODE_TX \<and> \<not> crashed s"

text \<open>Requested, actual and published state, and the rest.  The interrupt and the host act between
  passes of the loop.\<close>

inductive fbas_reach :: "bool \<Rightarrow> u32 \<times> u32 \<times> u32 \<times> fbas \<Rightarrow> bool" for pci where
  start: "power_on s \<Longrightarrow> fbas_start rams adr cpu offs s = Some c \<Longrightarrow> fbas_reach pci c"
| pass: "fbas_reach pci c \<Longrightarrow> fbas_iter pci c = Some c' \<Longrightarrow> fbas_reach pci c'"
| tick: "fbas_reach pci (req, act, pub, s) \<Longrightarrow> fbas_reach pci (req, act, pub, timerHandler now s)"
| host: "fbas_reach pci (req, act, pub, s) \<Longrightarrow> fbas_reach pci (req, act, pub, s\<lparr>shm := m\<rparr>)"

section \<open>No flag ever has a lifetime\<close>

definition settled :: "fbas \<Rightarrow> bool" where
  "settled s \<longleftrightarrow> length (bufMpsMsg s) = N_MAX_MPS_CHANNELS \<and> (\<forall>m \<in> set (bufMpsMsg s). ttl m = 0)"

definition quiet :: "fbas \<Rightarrow> bool" where
  "quiet s \<longleftrightarrow> settled s \<and> (nodeType s = FBAS_NODE_RX \<longrightarrow> ctrl_ttl (mpsMsgCtrl s) = 0)"

lemma quiet_kept: "kept s' = kept s \<Longrightarrow> quiet s' = quiet s" "kept s' = kept s \<Longrightarrow> settled s' = settled s"
  by (simp_all add: quiet_def settled_def kept_def)

lemma settled_upd:
  "settled s \<Longrightarrow> (i < length (bufMpsMsg s) \<Longrightarrow> ttl m = 0) \<Longrightarrow>
   settled (s\<lparr>bufMpsMsg := (bufMpsMsg s)[i := m]\<rparr>)"
proof (cases "i < length (bufMpsMsg s)")
  case True
  assume "settled s" "i < length (bufMpsMsg s) \<Longrightarrow> ttl m = 0"
  thus ?thesis using True set_update_subset_insert[of "bufMpsMsg s" i m] by (auto simp: settled_def)
next
  case False
  hence "(bufMpsMsg s)[i := m] = bufMpsMsg s" by (intro list_update_beyond) simp
  moreover assume "settled s"
  ultimately show ?thesis by (simp add: settled_def)
qed

lemma settled_nth: "settled s \<Longrightarrow> i < length (bufMpsMsg s) \<Longrightarrow> ttl (bufMpsMsg s ! i) = 0"
  by (simp add: settled_def)

lemma settled_fold: "(\<And>x s. settled s \<Longrightarrow> settled (f x s)) \<Longrightarrow> settled s \<Longrightarrow> settled (fold f xs s)"
  by (induction xs arbitrary: s) simp_all

lemma settled_init:
  "settled s \<Longrightarrow> settled (msgResetMpsBuf c p f s)" "settled s \<Longrightarrow> settled (msgInitMpsMsgBuf mac s)"
  "settled s \<Longrightarrow> settled (msgInitPcEventBuf mac b ch s)" "settled s \<Longrightarrow> settled (msgSetBic b s)"
proof -
  show r: "settled s \<Longrightarrow> settled (msgResetMpsBuf c p f s)" for c p f s
    by (simp add: msgResetMpsBuf_def settled_upd)
  show "settled s \<Longrightarrow> settled (msgInitMpsMsgBuf mac s)"
    unfolding msgInitMpsMsgBuf_def by (rule settled_fold[OF r])
  show "settled s \<Longrightarrow> settled (msgInitPcEventBuf mac b ch s)"
    by (simp add: msgInitPcEventBuf_def settled_upd)
  show "settled s \<Longrightarrow> settled (msgSetBic b s)"
    by (simp add: msgSetBic_def settled_def)
qed

lemma settled_update: "settled s \<Longrightarrow> settled (msgUpdateMpsBuf w s)"
proof -
  have m: "settled (s\<lparr>senders := x\<rparr>) = settled s" for s x by (simp add: settled_def)
  have "settled s \<Longrightarrow> settled (remove_sender a i s)" for a i s
    by (simp add: remove_sender_def Let_def m settled_init)
  hence "settled s \<Longrightarrow> settled (fold (remove_sender a) xs s)" for a xs by (rule settled_fold)
  thus "settled s \<Longrightarrow> settled (msgUpdateMpsBuf w s)"
    unfolding msgUpdateMpsBuf_def Let_def by (intro settled_upd settled_init) (simp_all add: settled_init m settled_nth)
qed

text \<open>Within the operation state of a collector.\<close>

lemma quiet_ttl:
  "quiet s \<Longrightarrow> (i < length (bufMpsMsg s) \<Longrightarrow> ttl m = 0) \<Longrightarrow> quiet (s\<lparr>bufMpsMsg := (bufMpsMsg s)[i := m]\<rparr>)"
  by (simp add: quiet_def settled_upd)

lemma force_list:
  "\<forall>m \<in> set b. ttl m = 0 \<Longrightarrow>
   length (fold (\<lambda>k b. b[i + k := force_high (b ! (i + k))]) ks b) = length b \<and> (\<forall>m \<in> set (fold (\<lambda>k b. b[i + k := force_high (b ! (i + k))]) ks b). ttl m = 0)"
proof (induction ks arbitrary: b)
  case (Cons k ks)
  have "\<forall>m \<in> set (b[i + k := force_high (b ! (i + k))]). ttl m = 0"
    using Cons.prems set_update_subset_insert[of b "i + k" "force_high (b ! (i + k))"]
    by (auto simp: force_high_def)
  thus ?case using Cons.IH by simp
qed simp

lemma quiet_force: "quiet s \<Longrightarrow> quiet (msgForceHigh buf s)"
  using force_list[of "bufMpsMsg s"]
  by (cases buf) (simp_all add: msgForceHigh_def quiet_def settled_def)

lemma quiet_store: "quiet s \<Longrightarrow> nodeType s = FBAS_NODE_RX \<Longrightarrow> quiet (snd (msgStoreMpsMsg raw t (mpsMsgCtrl s) s))"
  by (auto simp: msgStoreMpsMsg_def Let_def intro!: quiet_ttl) (simp add: quiet_def)

lemma quiet_eval: "quiet s \<Longrightarrow> i < N_MAX_MPS_CHANNELS \<Longrightarrow> evalMpsMsgTtl i s = (False, s)"
  using settled_nth[of s i] by (simp add: evalMpsMsgTtl_def eval_ttl_def quiet_def settled_def)

lemma quiet_op_eval: "quiet s \<Longrightarrow> i < N_MAX_MPS_CHANNELS \<Longrightarrow> op_eval now i s = s"
  by (simp add: op_eval_def quiet_eval)

lemma quiet_op_evals: "quiet s \<Longrightarrow> \<forall>i \<in> set is. i < N_MAX_MPS_CHANNELS \<Longrightarrow> fold (op_eval now) is s = s"
  by (induction "is") (simp_all add: quiet_op_eval)

text \<open>Sending.\<close>

lemma kept_msg [kept_simps]:
  "kept (snd (msgRegisterNode n b c f s)) = kept s" "kept (snd (msgSendPcEvent i e x s)) = kept s"
  "kept (send_reg_request s) = kept s"
proof -
  show r: "kept (snd (msgRegisterNode n b c f s)) = kept s" for n b c f s
    by (simp add: msgRegisterNode_def split_beta kept_simps)
  have e: "kept (snd (send_extra dl e p n c s)) = kept s" for dl e p n c s
    by (induction n arbitrary: c s) (simp_all add: split_beta kept_simps)
  show "kept (snd (msgSendPcEvent i e x s)) = kept s"
    by (simp add: msgSendPcEvent_def Let_def split_beta e kept_simps)
  show "kept (send_reg_request s) = kept s"
    by (simp add: send_reg_request_def split_beta r kept_simps)
qed

text \<open>The ECA actions.\<close>

lemma quiet_newcycle: "quiet s \<Longrightarrow> quiet (eca_newcycle buf now s)"
proof -
  assume q: "quiet s"
  have n: "nodeType (msgForceHigh buf s) = nodeType s" by (cases buf) (simp_all add: msgForceHigh_def)
  show ?thesis
    using quiet_force[OF q, of buf] q n
    by (auto simp: eca_newcycle_def quiet_def settled_def Let_def)
qed

lemma quiet_gen_evt: "quiet s \<Longrightarrow> quiet (snd (eca_gen_evt a buf now s))"
proof -
  assume q: "quiet s"
  have k: "kept (snd (eca_gen_evt a buf now s)) =
      kept (if nodeType s = FBAS_NODE_TX then msgStorePcEvent (ea_id a) (ea_deadline a) s else s)"
    by (simp add: eca_gen_evt_def Let_def split_beta kept_simps)
  have "quiet (msgStorePcEvent e t s)" for e t
    using settled_nth[of s 0] q by (auto simp: msgStorePcEvent_def Let_def quiet_def intro!: settled_upd)
  thus ?thesis using quiet_kept(1)[OF k] q by simp
qed

lemma quiet_wr_msg: "quiet s \<Longrightarrow> quiet (eca_wr_msg a buf now s)"
proof -
  assume q: "quiet s"
  have k: "kept (eca_wr_msg a buf now s) = kept (if nodeType s = FBAS_NODE_RX
      then snd (msgStoreMpsMsg (ea_param a) (ea_deadline a) (mpsMsgCtrl s) s) else s)"
  proof (cases "msgStoreMpsMsg (ea_param a) (ea_deadline a) (mpsMsgCtrl s) s")
    case (Pair i s')
    show ?thesis
      by (cases i; simp add: eca_wr_msg_def Pair Let_def split_beta kept_simps fwlib_getEcaOverflowCnt_def
          split: option.split)
  qed
  show ?thesis using quiet_kept(1)[OF k] q quiet_store[OF q] by simp
qed

lemma quiet_node_reg: "quiet s \<Longrightarrow> quiet (eca_node_reg a s)"
proof -
  assume q: "quiet s"
  have "quiet (s\<lparr>dstMac := x, myIdx := y\<rparr>)" for x y using q by (simp add: quiet_def settled_def)
  hence "quiet (msgInitPcEventBuf m b c (s\<lparr>dstMac := x, myIdx := y\<rparr>))" for m b c x y
    by (simp add: quiet_def settled_init) (simp add: msgInitPcEventBuf_def)
  hence "quiet ((msgInitPcEventBuf m b c (s\<lparr>dstMac := x, myIdx := y\<rparr>))\<lparr>mpsTask := z\<rparr>)" for m b c x y z
    by (simp add: quiet_def settled_def)
  moreover have "quiet (snd (msgRegisterNode n b c f (fwlib_setEbmDstAddr m ip s)))" for n b c f m ip
    using q quiet_kept(1)[of "snd (msgRegisterNode n b c f (fwlib_setEbmDstAddr m ip s))" s] by (simp add: kept_simps)
  ultimately show ?thesis using q by (simp add: eca_node_reg_def Let_def split: option.split)
qed

lemma quiet_dispatch: "quiet s \<Longrightarrow> quiet (snd (eca_dispatch tag a buf now s))"
proof -
  assume q: "quiet s"
  have "quiet (snd (sys_time (setOpMode m s)))" for m
    using q quiet_kept(1)[of "snd (sys_time (setOpMode m s))" s] by (simp add: setOpMode_def kept_simps)
  thus ?thesis
    using q by (simp add: eca_dispatch_def quiet_newcycle quiet_gen_evt quiet_wr_msg quiet_node_reg)
qed

lemma quiet_handle:
  assumes "handleEcaEvent us buf s = Some (tag, buf', s')" "quiet s"
  shows "quiet s'"
proof -
  obtain t a s1 where w: "fwlib_wait4ECAEvent us s = Some (t, a, s1)"
    using assms(1) by (auto simp: handleEcaEvent_def split: option.splits)
  have q: "quiet s1" using quiet_kept(1)[OF kept_more[OF more_wait[OF w]]] assms(2) by simp
  moreover have "quiet (snd (sys_time s1))" using q quiet_kept(1)[of "snd (sys_time s1)" s1] by (simp add: kept_simps)
  ultimately show ?thesis
    using assms(1) w quiet_dispatch[of "snd (sys_time s1)" t a buf "fst (sys_time s1)"]
    by (auto simp: handleEcaEvent_def split_beta Let_def split: if_splits prod.splits)
qed

lemma quiet_actions:
  assumes "op_actions t buf n s = Some r" "quiet s"
  shows "quiet (snd r)"
proof -
  have "quiet s \<longrightarrow> quiet (snd r)"
  proof (rule op_actions.raw_induct[where P = "\<lambda>t buf n s r. quiet s \<longrightarrow> quiet (snd r)", OF _ assms(1)], goal_cases)
    case (1 rec t buf n s r)
    have c: "quiet (snd (sys_time s)) = quiet s" by (rule quiet_kept(1)) (simp add: kept_simps)
    show ?case
    proof (cases "fst (sys_time s) < t")
      case True
      then obtain tag b' s2 n' where "handleEcaEvent 15 buf (snd (sys_time s)) = Some (tag, b', s2)"
          "rec t b' n' s2 = Some r"
        using 1(2) by (auto simp: split_beta split: option.splits prod.splits)
      thus ?thesis using 1(1) c quiet_handle by blast
    next
      case False
      thus ?thesis using 1(2) c by (auto simp: split_beta)
    qed
  qed
  thus ?thesis using assms(2) by simp
qed

section \<open>The do action of the operation state\<close>

lemma kept_op [kept_simps]: "kept (op_timers s) = kept s" "kept (op_period s) = kept s"
  by (simp_all add: op_timers_def op_period_def Let_def split_beta kept_simps)

lemma quiet_tx: "quiet s \<Longrightarrow> nodeType s = FBAS_NODE_TX \<Longrightarrow> quiet (op_tx s)"
proof -
  assume q: "quiet s" and n: "nodeType s = FBAS_NODE_TX"
  have tx: "quiet x \<longleftrightarrow> settled x" if "nodeType x = FBAS_NODE_TX" for x using that by (simp add: quiet_def)
  have f: "bufMpsMsg (snd (msgSendPcFlag e x)) = bufMpsMsg x" "nodeType (snd (msgSendPcFlag e x)) = nodeType x" for e x
  proof -
    have "kept (snd (msgSendPcFlag e x)) = (bufMpsMsg x, mpsMsgCtrl (snd (msgSendPcFlag e x)), nodeType x, senders x)"
    proof -
      define y where "y = ebm_flush (fold (\<lambda>w s. ebm_op COMMON_ECA_ADDRESS w (EBM_WRITE s) s)
          (tm_words (fst (sys_time x) + FBAS_AHEAD_TIME) e (mps_param (bufMpsMsg (snd (sys_time x)) ! 0)) 0)
          (ebm_hi COMMON_ECA_ADDRESS (snd (sys_time x))))"
      have "kept y = kept x" unfolding y_def by (rule kept_more) (simp add: more_simps del: sys_time_sel)
      moreover have "kept (snd (sys_time x)) = kept x" by (simp add: kept_simps)
      ultimately show ?thesis
        unfolding msgSendPcFlag_def Let_def split_beta y_def[symmetric] by (auto simp: kept_def)
    qed
    thus "bufMpsMsg (snd (msgSendPcFlag e x)) = bufMpsMsg x" "nodeType (snd (msgSendPcFlag e x)) = nodeType x"
      by (simp_all add: kept_def)
  qed
  have k: "bufMpsMsg x = bufMpsMsg s \<and> nodeType x = nodeType s" if "kept x = kept s" for x
    using that by (simp add: kept_def)
  have d: "kept (snd (setEndpDstAddr d s)) = kept s" for d by (simp add: kept_simps)
  have m: "bufMpsMsg (x\<lparr>msr := z\<rparr>) = bufMpsMsg x" "nodeType (x\<lparr>msr := z\<rparr>) = nodeType x" for x z by simp_all
  have su: "bufMpsMsg (summarize i o' a b x) = bufMpsMsg x \<and> nodeType (summarize i o' a b x) = nodeType x"
    and ct: "bufMpsMsg (count_to c n o' x) = bufMpsMsg x \<and> nodeType (count_to c n o' x) = nodeType x" for i o' a b c n x
    using kept_stat(2)[of i o' a b x] kept_stat(3)[of c n o' x] by (simp_all add: kept_def)
  have "bufMpsMsg (op_tx s) = bufMpsMsg s \<and> nodeType (op_tx s) = nodeType s"
  proof (cases "mpsTask s AND TSK_TX_MPS_FLAGS \<noteq> 0 \<and> mpsTask s AND TSK_REG_COMPLETE \<noteq> 0")
    case True
    thus ?thesis
      using k[OF d[of DST_ADDR_RXNODE]] f su ct by (simp add: op_tx_def Let_def split_beta)
  next
    case False
    hence "kept (op_tx s) = kept s" by (auto simp: op_tx_def split_beta kept_simps)
    thus ?thesis by (rule k)
  qed
  thus ?thesis using q n by (simp add: quiet_def settled_def)
qed

lemma quiet_rx: "quiet s \<Longrightarrow> quiet (op_rx s)"
proof -
  assume q: "quiet s"
  let ?s1 = "snd (sys_time (s\<lparr>mpsTask := mpsTask s AND NOT TSK_EVAL_MPS_TTL\<rparr>))"
  have k1: "kept ?s1 = kept s" by (simp add: kept_simps)
  have "fold (op_eval now) [0..<N_MAX_MPS_CHANNELS] ?s1 = ?s1" for now
    using quiet_kept(1)[OF k1] q by (intro quiet_op_evals) auto
  hence "kept (op_rx s) = kept s"
    unfolding op_rx_def split_beta by (simp add: kept_simps del: sys_time_sel)
  thus ?thesis using q quiet_kept(1) by blast
qed

lemma quiet_operation:
  assumes "doActionOperation st s = Some (st', s')" "quiet s"
  shows "quiet s'"
proof -
  have c: "quiet (snd (sys_time s)) = quiet s" by (rule quiet_kept(1)) (simp add: kept_simps)
  obtain n s2 where a: "op_actions (fst (sys_time s) + 92160) (Some 0) 0 (snd (sys_time s)) = Some (n, s2)"
    and s': "s' = op_period (let s3 = op_timers (s2\<lparr>msr := measureActionRate (ucast n) (msr s2)\<rparr>) in
      if nodeType s3 = FBAS_NODE_TX then op_tx s3 else if nodeType s3 = FBAS_NODE_RX then op_rx s3 else s3)"
    using assms(1) by (auto simp: doActionOperation_def split_beta Let_def split: option.splits)
  have q2: "quiet s2" using quiet_actions[OF a] c assms(2) by simp
  define s3 where "s3 = op_timers (s2\<lparr>msr := measureActionRate (ucast n) (msr s2)\<rparr>)"
  have "kept s3 = kept s2" unfolding s3_def by (simp add: kept_simps)
  hence "quiet s3" using q2 quiet_kept(1) by blast
  moreover have "quiet (op_period x) = quiet x" for x by (rule quiet_kept(1)) (simp add: kept_simps)
  ultimately show ?thesis unfolding s' s3_def[symmetric] Let_def by (simp add: quiet_tx quiet_rx)
qed

section \<open>The state machine\<close>

lemma settled_kept: "kept s' = kept s \<Longrightarrow> settled s \<Longrightarrow> settled s'"
  using quiet_kept(2) by blast

lemma settled_ctrl: "settled (s\<lparr>mpsMsgCtrl := c\<rparr>) = settled s"
  by (simp add: settled_def)

lemma settled_configured: "settled s \<Longrightarrow> settled (snd (extern_entryActionConfigured pci s))"
proof -
  assume q: "settled s"
  have i: "settled x \<Longrightarrow> settled (initMpsData x)" for x
  proof -
    assume x: "settled x"
    define s1 where "s1 = x\<lparr>mpsTask := 0,
            myMac := convertMacToU64 (shm x COMMON_SHARED_MACHI) (shm x COMMON_SHARED_MACLO)\<rparr>"
    define s2 where "s2 = msgInitPcEventBuf (myMac s1) 0 0 (msgInitMpsMsgBuf (myMac s1) s1)"
    define s3 where "s3 = sh_clear FBAS_SHARED_C2_MSG_BEGIN (4 * N_MAX_TX_NODES) s2"
    define s4 where "s4 = s3\<lparr>mpsMsgCtrl := msgInitMsgCtrl (of_nat N_MPS_CHANNELS) 0 (txMsgRates ! 0) (mpsMsgCtrl s3)\<rparr>"
    have "settled s1" using x by (simp add: s1_def settled_def)
    hence "settled s2" by (simp add: s2_def settled_init)
    moreover have "kept s3 = kept s2" by (simp add: s3_def kept_simps)
    ultimately have "settled s3" using settled_kept by blast
    hence "settled s4" by (simp add: s4_def settled_ctrl)
    moreover have "kept (initMpsData x) = kept s4"
      unfolding initMpsData_def Let_def s1_def[symmetric] s2_def[symmetric] s3_def[symmetric] s4_def[symmetric]
      by (simp add: initCounters_def kept_simps)
    ultimately show ?thesis using settled_kept by blast
  qed
  have "kept (configure_timers (snd (setEndpDstAddr d (configure_io pci s)))) = kept s" for d
    by (simp add: kept_simps)
  hence "settled (configure_timers (snd (setEndpDstAddr d (configure_io pci s))))" for d
    using q settled_kept by blast
  moreover have "kept (snd (setEndpDstAddr d (configure_io pci s))) = kept s" for d by (simp add: kept_simps)
  hence "settled (snd (setEndpDstAddr d (configure_io pci s)))" for d using q settled_kept by blast
  ultimately show ?thesis
    by (simp add: extern_entryActionConfigured_def split_beta i)
qed

lemma flush_kept:
  assumes "flush_eca s = Some s'"
  shows "kept s' = kept s"
proof (rule flush_eca.raw_induct[where P = "\<lambda>s s'. kept s' = kept s", OF _ assms], goal_cases)
  case (1 rec s s')
  obtain tag a s1 where w: "fwlib_wait4ECAEvent 1000 s = Some (tag, a, s1)"
    and r: "(if tag \<noteq> COMMON_ECADO_TIMEOUT then rec s1 else Some s1) = Some s'"
    using 1(2) by (auto split: option.splits)
  have "kept s1 = kept s" by (rule kept_more[OF more_wait[OF w]])
  thus ?case using r 1(1)[of s1 s'] by (auto split: if_splits)
qed

lemma quiet_entered:
  assumes "settled s"
  shows "quiet (enter_operation s)"
proof -
  define s1 where "s1 = (if nodeType s = FBAS_NODE_TX \<and> mpsTask s AND TSK_REG_COMPLETE = 0 then send_reg_request s else s)"
  define s2 where "s2 = s1\<lparr>mpsTask := mpsTask s1 OR TSK_TX_MPS_FLAGS OR TSK_TX_MPS_EVENTS OR TSK_MONIT_MPS_TTL\<rparr>"
  define s3 where "s3 = fb_timerStart (pTimerRegistr s2) (fb_timerStart (pTimerMpsTtl s2) s2)"
  define s4 where "s4 = snd (sys_time s3)"
  define s5 where "s5 = s4\<lparr>msr := measureClearSummary None (measurePutTimestamp MSR_ML_PRD (fst (sys_time s3)) (msr s4)),
      mpsMsgCtrl := (mpsMsgCtrl s4)\<lparr>ctrl_last := 0, ctrl_ttl := 0\<rparr>\<rparr>"
  have "kept s4 = kept s" by (simp add: s4_def s3_def s2_def s1_def kept_simps)
  hence "settled s4" using assms settled_kept by blast
  hence "quiet s5" by (simp add: s5_def quiet_def settled_def)
  moreover have "kept (enter_operation s) = kept s5"
    unfolding enter_operation_def Let_def s1_def[symmetric] s2_def[symmetric] s3_def[symmetric] split_beta
      s4_def[symmetric] s5_def[symmetric] by (simp add: initCounters_def kept_simps)
  ultimately show ?thesis using quiet_kept(1) by blast
qed

lemma settled_node: "settled (s\<lparr>nodeType := t\<rparr>) = settled s" "settled (s\<lparr>cntCmd := t'\<rparr>) = settled s"
  by (simp_all add: settled_def)

lemma kept_rate: "kept (snd (measureExportActionRate base m s)) = kept s"
  by (simp add: measureExportActionRate_def kept_simps)

lemma if_I: "(b \<Longrightarrow> P x) \<Longrightarrow> (\<not> b \<Longrightarrow> P y) \<Longrightarrow> P (if b then x else y)" by simp

lemma settled_app: "settled s \<Longrightarrow> settled (handleAppCmd cmd s)"
proof -
  assume q0: "settled s"
  define t where "t = s\<lparr>cntCmd := cntCmd s + 1\<rparr>"
  have q: "settled t" using q0 by (simp add: t_def settled_node)
  have nid: "settled (snd (readNodeId off t))" for off
  proof -
    let ?u = "msgUpdateMpsBuf (sh_rd64 t off) t"
    have "kept (snd (ioSetOutEnable i True ?u)) = kept ?u"
      "kept (snd (ioMapOutput i i (snd (ioSetOutEnable i True ?u)))) = kept ?u" for i by (simp_all add: kept_simps)
    hence "settled (snd (ioSetOutEnable i True ?u)) \<and> settled (snd (ioMapOutput i i (snd (ioSetOutEnable i True ?u))))" for i
      using settled_update[OF q] settled_kept by blast
    thus ?thesis using q by (simp add: readNodeId_def Let_def split_beta)
  qed
  have rest: "settled (measureExportSummary it off m t)" "settled (snd (ioSetOutEnable 0 True t))"
    "settled (snd (ioIsOutEnabled 0 t))" "settled (snd (driveOutPort p v t))" "settled (sbCmdHandler cmd t)"
    "settled ((snd (measureExportActionRate base m t))\<lparr>msr := m'\<rparr>)" "settled (t\<lparr>msr := m'\<rparr>)"
    "settled (sh_wr off w (t\<lparr>nodeType := nt\<rparr>))" for it off m p v base m' w nt
  proof -
    show "settled (sh_wr off w (t\<lparr>nodeType := nt\<rparr>))"
      by (rule settled_kept[OF kept_basic(4)]) (simp add: settled_node q)
  qed (rule settled_kept[OF _ q], simp add: kept_simps kept_rate)+
  show ?thesis
    unfolding handleAppCmd_def t_def[symmetric] Let_def
    by (cases "map_of print_cmds cmd"; simp only: option.case; intro if_I[of _ settled];
        simp add: q q0 rest nid settled_init settled_ctrl split_beta)
qed

lemma settled_cmd: "settled s \<Longrightarrow> settled (cmdHandler act cmd s)"
  by (simp add: cmdHandler_def settled_app)

lemma cmd_only_configured: "act \<noteq> COMMON_STATE_CONFIGURED \<Longrightarrow> cmdHandler act cmd s = s"
  by (simp add: cmdHandler_def)

definition lifetime_inv :: "u32 \<times> u32 \<times> u32 \<times> fbas \<Rightarrow> bool" where
  "lifetime_inv = (\<lambda>(req, act, pub, s). settled s \<and> (act = COMMON_STATE_OPREADY \<longrightarrow> quiet s))"

lemma quiet_settled: "quiet s \<Longrightarrow> settled s"
  by (simp add: quiet_def)

text \<open>The application keeps its side of the contract with the state machine.\<close>

interpretation fbas_settled: fw_application "fbas_hooks pci" settled for pci
proof
  fix s s' :: fbas and st
  show "settled s'" if "settled s" "entryActionConfigured (fbas_hooks pci) s = Some (st, s')"
    using that settled_configured[of s pci] by (auto simp: fbas_hooks_def)
  show "settled s'" if "settled s" "entryActionOperation (fbas_hooks pci) s = Some (st, s')"
    using that quiet_settled[OF quiet_entered] flush_kept settled_kept
    by (auto simp: fbas_hooks_def extern_entryActionOperation_def split: option.splits)
  show "settled (snd (exitActionOperation (fbas_hooks pci) s))" if "settled s"
    using that by (simp add: fbas_hooks_def extern_exitActionOperation_def) (rule settled_kept[rotated], simp_all add: kept_simps)
  show "settled s'" if "fw.more s' = fw.more s" "settled s"
    using that kept_more settled_kept by blast
qed

text \<open>Only two ways lead into the operation state: staying in it, and entering it.\<close>

lemma enter_operation_only:
  assumes "fwlib_changeState h act req st s = Some (COMMON_STATE_OPREADY, req', st', s')"
  shows "act = COMMON_STATE_OPREADY \<and> s' = s \<or> (\<exists>st. entryActionOperation h s = Some (st, s'))"
  using assms
  by (auto simp: fwlib_changeState_def next_state_def exitActionError_def common_states Let_def
      split: if_splits option.splits prod.splits)

lemma lifetime_change:
  assumes "fwlib_changeState (fbas_hooks pci) act req st s = Some (act', req', st', s')" "settled s"
    "act = COMMON_STATE_OPREADY \<longrightarrow> quiet s"
  shows "settled s' \<and> (act' = COMMON_STATE_OPREADY \<longrightarrow> quiet s')"
proof -
  have "quiet s''" if e: "entryActionOperation (fbas_hooks pci) s = Some (x, s'')" for x s''
  proof -
    obtain s1 where f: "flush_eca s = Some s1" "s'' = enter_operation s1"
      using e by (auto simp: fbas_hooks_def extern_entryActionOperation_def split: option.splits)
    have "settled s1" by (rule settled_kept[OF flush_kept[OF f(1)] assms(2)])
    thus ?thesis using f(2) quiet_entered by simp
  qed
  thus ?thesis
    using fbas_settled.change_keeps[OF assms(1,2)] enter_operation_only[of "fbas_hooks pci" act req st s req' st' s']
      assms(1,3) by blast
qed

lemma kept_do:
  assumes "fwlib_doActionState req act st s = Some (req', st', s')"
  shows "kept s' = kept s"
proof -
  have f: "kept (s\<lparr>flagRecover := x\<rparr>) = kept s" for s x by (rule kept_upd)
  show ?thesis
    using assms kept_basic(15)[of s]
    by (auto simp: fwlib_doActionState_def fwlib_doAutoRecovery_def f split_beta Let_def split: if_splits)
qed

lemma kept_status [kept_simps]: "kept (update_status st s) = kept s"
  by (simp add: update_status_def Let_def kept_simps)

lemma kept_cmd: "kept (snd (snd (fwlib_cmdHandler extern_clearDiag req s))) = kept s"
  by (auto simp: fwlib_cmdHandler_def fwlib_clearDiag_def extern_clearDiag_def Let_def kept_simps split_beta)

lemma lifetime_iter:
  assumes "fbas_iter pci c = Some c'" "lifetime_inv c"
  shows "lifetime_inv c'"
proof -
  obtain req act pub s where c: "c = (req, act, pub, s)" by (cases c)
  obtain req1 cmd s1 where h: "fwlib_cmdHandler extern_clearDiag req s = (req1, cmd, s1)"
    by (cases "fwlib_cmdHandler extern_clearDiag req s")
  have k1: "kept s1 = kept s" using kept_cmd[of req s] h by simp
  have i: "settled s" "act = COMMON_STATE_OPREADY \<longrightarrow> quiet s" using assms(2) by (simp_all add: c lifetime_inv_def)
  have "settled s1" "act = COMMON_STATE_OPREADY \<longrightarrow> quiet s1" using i k1 settled_kept quiet_kept(1) by blast+
  hence j: "settled (cmdHandler act cmd s1)" "act = COMMON_STATE_OPREADY \<longrightarrow> quiet (cmdHandler act cmd s1)"
    using cmd_only_configured[of act cmd s1] by (auto simp: settled_cmd common_states)
  obtain act' req2 st s2 where ch: "fwlib_changeState (fbas_hooks pci) act req1 COMMON_STATUS_OK (cmdHandler act cmd s1)
      = Some (act', req2, st, s2)"
    using assms(1) by (cases "fwlib_changeState (fbas_hooks pci) act req1 COMMON_STATUS_OK (cmdHandler act cmd s1)")
      (auto simp: fbas_iter_def c h)
  note l = lifetime_change[OF ch j]
  obtain req3 st' s3 where d: "(if act' = COMMON_STATE_OPREADY
      then map_option (\<lambda>(st, s'). (if st = COMMON_STATUS_WRBADSYNC \<or> st = COMMON_STATUS_ERROR
                                             then COMMON_STATE_ERROR else req2, st, s')) (doActionOperation st s2)
      else fwlib_doActionState req2 act' st s2) = Some (req3, st', s3)"
    and c': "c' = (req3, act', act', fwlib_publishState act' (let s4 = update_status st' s3;
        s5 = (if pub = COMMON_STATE_OPREADY \<and> act' \<noteq> COMMON_STATE_OPREADY then fwlib_incBadStateCnt s4 else s4)
        in fwlib_publishStatusArray (ucast (statusArray s5)) s5))"
    using assms(1) unfolding fbas_iter_def c prod.case h ch option.case Let_def by (auto split: option.splits)
  have "settled s3 \<and> (act' = COMMON_STATE_OPREADY \<longrightarrow> quiet s3)"
  proof (cases "act' = COMMON_STATE_OPREADY")
    case True
    then obtain z where "doActionOperation st s2 = Some (z, s3)" using d by (auto split: if_splits)
    thus ?thesis using quiet_operation l True quiet_settled by blast
  next
    case False
    thus ?thesis using kept_do[of req2 act' st s2 req3 st' s3] d l settled_kept by auto
  qed
  moreover have "kept (snd (snd (snd c'))) = kept s3" by (simp add: c' Let_def kept_simps)
  moreover obtain s6 where c6: "c' = (req3, act', act', s6)" using c' by blast
  ultimately have "settled s6 \<and> (act' = COMMON_STATE_OPREADY \<longrightarrow> quiet s6)"
    using settled_kept[of s6 s3] quiet_kept(1)[of s6 s3] by simp
  thus ?thesis by (simp add: c6 lifetime_inv_def)
qed

lemma lifetime_reach: "fbas_reach pci c \<Longrightarrow> lifetime_inv c"
proof (induction rule: fbas_reach.induct)
  case (start s rams adr cpu offs c)
  have "kept (snd (initSharedMem rams adr cpu offs (fwlib_clearDiag extern_clearDiag s))) = kept s"
    by (simp add: initSharedMem_def fwlib_clearDiag_def extern_clearDiag_def Let_def split_beta kept_simps)
  moreover have "settled s" using start(1) by (simp add: power_on_def settled_def msg0_def)
  ultimately have "settled (snd (initSharedMem rams adr cpu offs (fwlib_clearDiag extern_clearDiag s)))"
    using settled_kept by blast
  thus ?case
    using start(2) by (auto simp: fbas_start_def lifetime_inv_def common_states split: if_splits prod.splits)
next
  case (pass c c')
  thus ?case using lifetime_iter by blast
next
  case (tick req act pub s now)
  thus ?case by (simp add: lifetime_inv_def timerHandler_def quiet_def settled_def)
next
  case (host req act pub s m)
  thus ?case by (simp add: lifetime_inv_def quiet_def settled_def)
qed

text \<open>
  C30. The collector's watch over its emitters is without effect: entering the operation state clears
  the lifetime that every stored flag gets, so in every reachable state no flag has a lifetime left,
  and the evaluation of the lifetimes changes nothing - no lost emitter is ever noticed.
\<close>

theorem lifetime_never_expires:
  assumes "fbas_reach pci (req, act, pub, s)"
  shows "(\<forall>m \<in> set (bufMpsMsg s). ttl m = 0) \<and>
    (act = COMMON_STATE_OPREADY \<and> nodeType s = FBAS_NODE_RX \<longrightarrow>
       (\<forall>now. fold (op_eval now) [0..<N_MAX_MPS_CHANNELS] s = s))"
proof -
  have "lifetime_inv (req, act, pub, s)" by (rule lifetime_reach[OF assms])
  thus ?thesis using quiet_op_evals[of s] by (auto simp: lifetime_inv_def settled_def)
qed

section \<open>A concrete node\<close>

text \<open>A node at power-on: the clock advances by one microsecond with every look at it, the ECA queue is
  empty, every device register reads zero.\<close>

definition fbas_blank :: fbas where
  "fbas_blank = \<lparr>wr_time = (\<lambda>n. of_nat (1000 * n)), time_cnt = 1, dev_rd = (\<lambda>r n. 0), rd_cnt = 0, dev_out = [],
     eca_in = (\<lambda>n. None), polls = 0, sdb = (\<lambda>d. 1), eca_queues = [(1, 2)], dev_adr = (\<lambda>d. 0), shm = (\<lambda>a. 0),
     shm_on = False, ram_ext = 0, stray = [], EBM_OFFS_DAT = 0, EBM_OFFS_WR = 0, EBM_ADR_MASK = 0, EBM_WRITE = 0,
     EBM_READ = 0, nBadStatus = 0, nBadState = 0, flagRecover = 0, wr_time_prev = 0,
     senders = replicate N_MAX_TX_NODES 0, bufMpsMsg = replicate N_MAX_MPS_CHANNELS msg0, mpsMsgCtrl = ctrl0,
     timers = replicate N_TIMERS timer0, timerDbg = timerInitDbg, pTimerMpsTtl = None, pTimerRegistr = None,
     pTimerConsole = None, wbTimer = True,
     msr = \<lparr>sumStats = (\<lambda>i. stats0), outlierCnt = (\<lambda>i. 0), msrCnt = (\<lambda>c. 0), actionCnt = replicate MAX_ACTIONS 0\<rparr>,
     outPortCfg = \<lparr>cfg_type = IO_CFG_CHANNEL_GPIO, cfg_total = 2\<rparr>,
     EffLogOut = replicate N_MAX_TX_NODES \<lparr>io_type = 0, io_idx = 0\<rparr>, sbSlaves = 0, sbDiobs = 0, sb_last = None,
     myMac = 0, myIdx = 0, myBic = 0, nodeType = FBAS_NODE_TX, opMode = FBAS_OPMODE_DEF, cntCmd = 0, mpsTask = 0,
     dstMac = (\<lambda>d. 0), dstIp = (\<lambda>d. 0), statusArray = 0, crashed = False\<rparr>"

lemma blank_power_on: "power_on fbas_blank"
  by (simp add: power_on_def fbas_blank_def)

lemma blank_registry: "registry fbas_blank"
  by (simp add: registry_def fbas_blank_def N_MAX_TX_NODES_def N_MAX_MPS_CHANNELS_def N_MPS_CHANNELS_def)

text \<open>Node 0x1234 registered on channel 3.\<close>

definition fbas_one :: fbas where
  "fbas_one = msgUpdateMpsBuf 0x0300000000001234 fbas_blank"

definition one_msg :: mps_msg where
  "one_msg = \<lparr>addr = 0x1234, bic_id = 0, ch_id = 3, flag = MPS_FLAG_NOK, tsRx = 0, ttl = 0, pending = 0\<rparr>"

theorem sender_registered_witness:
  "registry fbas_one \<and> msgGetSenderIndex 0x0300000000001234 fbas_one = Some 3"
  using sender_registered[of fbas_blank "0x0300000000001234" 3 "0x1234"] blank_registry
  unfolding fbas_one_def by simp

lemma one_registry: "registry fbas_one" "senders fbas_one ! 3 = 0x1234" "bic_id (bufMpsMsg fbas_one ! 3) = 0"
  "tsRx (bufMpsMsg fbas_one ! 3) = 0"
proof -
  have l: "length (senders fbas_blank) = 16" "length (bufMpsMsg fbas_blank) = 16"
    using blank_registry by (simp_all add: registry_def)
  note u = update_sel[OF l, of "0x0300000000001234" 3 "0x1234"]
  show "registry fbas_one"
    unfolding fbas_one_def by (rule registry_update[OF blank_registry, of _ 3 "0x1234"]) simp_all
  show "senders fbas_one ! 3 = 0x1234" "tsRx (bufMpsMsg fbas_one ! 3) = 0" "bic_id (bufMpsMsg fbas_one ! 3) = 0"
    unfolding fbas_one_def using u(3)[of 3] u(4)[of 3]
    by (simp_all add: fbas_blank_def msg0_def N_MAX_MPS_CHANNELS_def N_MPS_CHANNELS_def N_MAX_TX_NODES_def)
qed

lemma sender_one: "msgGetSenderIndex 0x0300000000001234 fbas_one = Some 3"
  using one_registry by (intro registered_found[of _ _ "0x1234"]) simp_all

theorem mps_message_stored_witness:
  "\<exists>s'. msgStoreMpsMsg (mps_param one_msg) 7 ctrl0 fbas_one = (Some 3, s') \<and>
     flag (bufMpsMsg s' ! 3) = MPS_FLAG_NOK \<and> tsRx (bufMpsMsg s' ! 3) = 7"
  using mps_message_stored[OF one_registry(1), where c = 3 and m = one_msg and t = 7 and ctrl = ctrl0] one_registry
  by (auto simp: one_msg_def)

theorem mps_lifetime_witness:
  "fst (evalMpsMsgTtl 0 (((snd \<circ> evalMpsMsgTtl 0) ^^ 100)
     (fbas_blank\<lparr>bufMpsMsg := [msg0\<lparr>ttl := 101\<rparr>]\<rparr>)))"
  using mps_lifetime[where i = 0 and k = 101 and n = 100 and s = "fbas_blank\<lparr>bufMpsMsg := [msg0\<lparr>ttl := 101\<rparr>]\<rparr>"] by simp

theorem lifetime_never_expires_witness:
  "\<exists>c. fbas_reach False c \<and> (\<forall>m \<in> set (bufMpsMsg (snd (snd (snd c)))). ttl m = 0)"
proof -
  let ?s = "snd (initSharedMem 1 (\<lambda>i. 0x84000000) 0 0 (fwlib_clearDiag extern_clearDiag fbas_blank))"
  have r: "fbas_start 1 (\<lambda>i. 0x84000000) 0 0 fbas_blank
      = Some (COMMON_STATE_S0, COMMON_STATE_UNKNOWN, COMMON_STATE_UNKNOWN, ?s)"
    by (simp add: fbas_start_def initSharedMem_def Let_def split_beta common_status)
  have "fbas_reach False (COMMON_STATE_S0, COMMON_STATE_UNKNOWN, COMMON_STATE_UNKNOWN, ?s)"
    by (rule fbas_reach.start[OF blank_power_on r])
  thus ?thesis using lifetime_never_expires by fastforce
qed

end
