(* ===== verification/Fbas_Recovery.thy ===== *)
theory Fbas_Recovery
  imports Fbas_Reach
begin

text \<open>
  Automatic recovery of a FBAS node: from the state ERROR the main loop leads back
  into operation in four passes without the host, provided no command arrives and the
  ECA queue gets empty.  The price: configuring resets the message buffer but not the
  table of senders, so a recovered collector answers the registration of its emitters
  and rejects their messages.
\<close>

section \<open>The command word is the host's\<close>

text \<open>The command word and the request for recovery.\<close>

definition cmdw :: "'a fw_scheme \<Rightarrow> u32 \<times> u32" where
  "cmdw s = (shm s COMMON_SHARED_CMD, flagRecover s)"

named_theorems cmd_simps "operations that keep the command word"

lemma cmdw_upd [cmd_simps]:
  "cmdw (s\<lparr>time_cnt := a\<rparr>) = cmdw s" "cmdw (s\<lparr>rd_cnt := a\<rparr>) = cmdw s" "cmdw (s\<lparr>dev_out := b\<rparr>) = cmdw s"
  "cmdw (s\<lparr>polls := a\<rparr>) = cmdw s" "cmdw (s\<lparr>nBadStatus := c\<rparr>) = cmdw s"
  "cmdw (s\<lparr>nBadState := c\<rparr>) = cmdw s"
  by (simp_all add: cmdw_def)

lemma cmdw_fbas_upd [cmd_simps]:
  fixes s :: fbas
  shows "cmdw (s\<lparr>msr := m\<rparr>) = cmdw s" "cmdw (s\<lparr>mpsTask := k\<rparr>) = cmdw s" "cmdw (s\<lparr>timers := ts\<rparr>) = cmdw s"
  "cmdw (s\<lparr>dstMac := dm\<rparr>) = cmdw s" "cmdw (s\<lparr>dstIp := di\<rparr>) = cmdw s" "cmdw (s\<lparr>crashed := True\<rparr>) = cmdw s"
  "cmdw (s\<lparr>outPortCfg := oc\<rparr>) = cmdw s" "cmdw (s\<lparr>EffLogOut := el\<rparr>) = cmdw s" "cmdw (s\<lparr>sbDiobs := sb\<rparr>) = cmdw s"
  "cmdw (s\<lparr>myMac := mm\<rparr>) = cmdw s" "cmdw (s\<lparr>statusArray := sa\<rparr>) = cmdw s" "cmdw (s\<lparr>timerDbg := td\<rparr>) = cmdw s"
  "cmdw (s\<lparr>pTimerMpsTtl := p1\<rparr>) = cmdw s" "cmdw (s\<lparr>pTimerRegistr := p1\<rparr>) = cmdw s"
  "cmdw (s\<lparr>pTimerConsole := p1\<rparr>) = cmdw s" "cmdw (s\<lparr>bufMpsMsg := bm\<rparr>) = cmdw s" "cmdw (s\<lparr>mpsMsgCtrl := mc\<rparr>) = cmdw s"
  by (simp_all add: cmdw_def)

lemma cmdw_wr: "off \<noteq> COMMON_SHARED_CMD \<Longrightarrow> cmdw (sh_wr off v s) = cmdw s"
  by (simp add: cmdw_def sh_wr_def)

lemma cmdw_clear: "(\<And>i. i < n \<Longrightarrow> COMMON_SHARED_CMD \<noteq> off + 4 * of_nat i) \<Longrightarrow> cmdw (sh_clear off n s) = cmdw s"
  by (simp add: cmdw_def sh_clear_other sh_clear_sel)

lemma cmdw_fold [cmd_simps]: "(\<And>x s. cmdw (f x s) = cmdw s) \<Longrightarrow> cmdw (fold f xs s) = cmdw s"
  by (induction xs arbitrary: s) simp_all

lemma cmdw_dev [cmd_simps]:
  "cmdw (snd (sys_time s)) = cmdw s" "cmdw (snd (rd_dev r s)) = cmdw s" "cmdw (wr_dev r v s) = cmdw s"
  "cmdw (snd (find_dev d s)) = cmdw s" "cmdw (snd (findECAQueue s)) = cmdw s"
  "cmdw (ebm_init s) = cmdw s" "cmdw (ebm_config_if c mac ip port s) = cmdw s"
  "cmdw (ebm_config_meta x y z s) = cmdw s" "cmdw (ebm_hi w s) = cmdw s" "cmdw (ebm_op w v t s) = cmdw s"
  "cmdw (ebm_flush s) = cmdw s" "cmdw (ebm_clr s) = cmdw s"
  by (simp_all add: cmdw_def rd_dev_def find_dev_def findECAQueue_def ebm_init_def ebm_config_if_def
      ebm_config_meta_def ebm_hi_def ebm_op_def ebm_flush_def ebm_clr_def Let_def split: target_t.split)

lemma cmdw_net [cmd_simps]:
  "cmdw (snd (fwlib_wrGetMac s)) = cmdw s" "cmdw (snd (fwlib_wrGetIP s)) = cmdw s"
  "cmdw (fwlib_publishNICData s) = cmdw s" "cmdw (snd (fwlib_ioCtrlSetGate e io s)) = cmdw s"
  "cmdw (snd (fwlib_ebmWriteTM dl i p t f s)) = cmdw s"
proof -
  have m: "cmdw (snd (fwlib_wrGetMac s)) = cmdw s" for s :: "'a fw_scheme"
    unfolding fwlib_wrGetMac_def split_beta by (simp add: cmd_simps)
  have i: "cmdw (snd (fwlib_wrGetIP s)) = cmdw s" for s :: "'a fw_scheme"
    unfolding fwlib_wrGetIP_def split_beta by (simp add: cmd_simps)
  have "cmdw (snd (snd (tm_deadline dl f s))) = cmdw s"
    by (simp add: tm_deadline_def split_beta cmd_simps)
  thus "cmdw (snd (fwlib_ebmWriteTM dl i p t f s)) = cmdw s"
    by (simp add: fwlib_ebmWriteTM_def split_beta cmd_simps)
  show "cmdw (snd (fwlib_wrGetMac s)) = cmdw s" "cmdw (snd (fwlib_wrGetIP s)) = cmdw s" by (rule m i)+
  show "cmdw (fwlib_publishNICData s) = cmdw s"
    by (simp add: fwlib_publishNICData_def split_beta Let_def m i cmdw_wr common_shared)
  show "cmdw (snd (fwlib_ioCtrlSetGate e io s)) = cmdw s"
    by (simp add: fwlib_ioCtrlSetGate_def cmd_simps)
qed

lemma cmdw_publish [cmd_simps]:
  "cmdw (fwlib_publishState st s) = cmdw s" "cmdw (fwlib_publishStatusArray arr s) = cmdw s"
  "cmdw (fwlib_incBadStatusCnt s) = cmdw s" "cmdw (fwlib_incBadStateCnt s) = cmdw s"
  by (simp_all add: fwlib_publishState_def fwlib_publishStatusArray_def fwlib_incBadStatusCnt_def
      fwlib_incBadStateCnt_def Let_def cmd_simps cmdw_wr common_shared)

lemma cmdw_timer [cmd_simps]:
  "cmdw (configure_timers s) = cmdw s" "cmdw (snd (setEndpDstAddr d s)) = cmdw s"
  "cmdw (initCounters s) = cmdw s"
  by (simp_all add: configure_timers_def timerEnableHw_def timerSetupHw_def initTimers_def setEndpDstAddr_def
      fwlib_setEbmDstAddr_def initCounters_def Let_def split_beta cmd_simps cmdw_wr
      common_shared FBAS_SHARED_BAD_MSG_CNT_def FBAS_SHARED_OLD_MSG_CNT_def FBAS_SHARED_TX_MSG_CNT_def FBAS_SHARED_BEGIN_def)

lemma cmdw_io [cmd_simps]: "cmdw (snd (ioSetOutEnable i e s)) = cmdw s" "cmdw (ioInitPortMap s) = cmdw s"
  by (auto simp: ioSetOutEnable_def ioInitPortMap_def cmd_simps)

text \<open>Probing the bus writes the extension's identity into the register set.\<close>

lemma cmdw_sb_rd [cmd_simps]: "cmdw (snd (sb_rd o' s)) = cmdw s"
  by (simp add: sb_rd_def split_beta cmd_simps)

lemma cmdw_probe:
  "\<forall>slot \<in> set slots. slot < 100 \<Longrightarrow> cmdw (snd (probe_slots slots a b f s)) = cmdw s"
proof (induction slots arbitrary: f s)
  case (Cons slot slots)
  have "FBAS_SHARED_GET_SBSTDBEGIN + 4 * (SBS_EXT_CID_SYS + of_nat slot - 1) \<noteq> COMMON_SHARED_CMD"
  proof
    assume "FBAS_SHARED_GET_SBSTDBEGIN + 4 * (SBS_EXT_CID_SYS + of_nat slot - 1) = COMMON_SHARED_CMD"
    hence "(of_nat (0x438 + 4 * slot) :: u32) = of_nat 8"
      by (simp add: FBAS_SHARED_GET_SBSTDBEGIN_def SBS_EXT_CID_SYS_def common_shared algebra_simps)
    thus False using Cons.prems of_nat32_inj[of "0x438 + 4 * slot" 8] by simp
  qed
  hence e: "cmdw (probeSbSlaveExt slot s) = cmdw s" for s
    by (simp add: probeSbSlaveExt_def split_beta cmd_simps cmdw_wr)
  show ?case using Cons by (simp add: split_beta Let_def cmd_simps e)
qed simp

lemma cmdw_sbInit [cmd_simps]: "cmdw (sbInit s) = cmdw s"
proof -
  have w: "cmdw (snd (writeDiobReg d r s)) = cmdw s" for d r s
    by (simp add: writeDiobReg_def cmd_simps del: upt_Suc)
  have "probeSbSlaves a b f s = Some (x, s') \<Longrightarrow> cmdw s' = cmdw s" for a b f s x s'
    using cmdw_probe[of "[1..<Suc N_SB_SLOTS]" a b f s]
    by (auto simp: probeSbSlaves_def N_SB_SLOTS_def split: if_splits simp del: upt_Suc)
  thus ?thesis
    by (auto simp: sbInit_def Let_def w cmd_simps split: option.split prod.split)
qed

lemma cmdw_configure [cmd_simps]: "cmdw (snd (extern_entryActionConfigured pci s)) = cmdw s"
proof -
  have f: "cmdw (msgResetMpsBuf c p f s) = cmdw s" "cmdw (msgInitPcEventBuf m b c' s) = cmdw s" for c p f m b c' s
    by (simp_all add: msgResetMpsBuf_def msgInitPcEventBuf_def cmd_simps)
  have "cmdw (sh_clear FBAS_SHARED_C2_MSG_BEGIN (4 * N_MAX_TX_NODES) s) = cmdw s" for s :: fbas
  proof (rule cmdw_clear)
    fix i :: nat assume "i < 4 * N_MAX_TX_NODES"
    hence "i < 64" by (simp add: N_MAX_TX_NODES_def)
    hence "of_nat 8 \<noteq> (of_nat (0x300 + 4 * i) :: u32)"
      using of_nat32_inj[of 8 "0x300 + 4 * i"] by auto
    thus "COMMON_SHARED_CMD \<noteq> FBAS_SHARED_C2_MSG_BEGIN + 4 * of_nat i"
      by (simp add: common_shared FBAS_SHARED_C2_MSG_BEGIN_def)
  qed
  hence "cmdw (initMpsData s) = cmdw s" for s
    by (simp add: initMpsData_def msgInitMpsMsgBuf_def Let_def cmd_simps f del: upt_rec_numeral)
  moreover have "cmdw (configure_io pci s) = cmdw s" for pci s
    by (simp add: configure_io_def Let_def cmd_simps)
  ultimately show ?thesis
    by (simp add: extern_entryActionConfigured_def split_beta cmd_simps)
qed

lemma setEndp_ok: "fst (setEndpDstAddr d s) = COMMON_STATUS_OK"
  by (simp add: setEndpDstAddr_def Let_def)

lemma configure_ok: "fst (extern_entryActionConfigured pci s) = COMMON_STATUS_OK"
  by (simp add: extern_entryActionConfigured_def split_beta setEndp_ok)

section \<open>Recovery\<close>

primrec passes :: "bool \<Rightarrow> nat \<Rightarrow> u32 \<times> u32 \<times> u32 \<times> fbas \<Rightarrow> (u32 \<times> u32 \<times> u32 \<times> fbas) option" where
  "passes pci 0 c = Some c"
| "passes pci (Suc n) c = (case fbas_iter pci c of None \<Rightarrow> None | Some c' \<Rightarrow> passes pci n c')"

lemma cmdw_status [cmd_simps]: "cmdw (update_status st s) = cmdw s"
  by (simp add: update_status_def Let_def cmd_simps)

text \<open>A pass without a command, outside of the operation state.\<close>

lemma quiet_pass:
  assumes "shm s COMMON_SHARED_CMD = 0"
    and "fwlib_changeState (fbas_hooks pci) act req COMMON_STATUS_OK s = Some (act', req2, st, s2)"
    and "act' \<noteq> COMMON_STATE_OPREADY" "fwlib_doActionState req2 act' st s2 = Some (req3, st3, s3)"
  shows "\<exists>s4. fbas_iter pci (req, act, pub, s) = Some (req3, act', act', s4) \<and> cmdw s4 = cmdw s3"
proof -
  have h: "fwlib_cmdHandler extern_clearDiag req s = (req, 0, s)"
    using assms(1) by (simp add: fwlib_cmdHandler_def)
  have c: "cmdHandler act 0 s = s" by (simp add: cmdHandler_def)
  let ?s4 = "fwlib_publishState act' (let s4 = update_status st3 s3;
        s5 = (if pub = COMMON_STATE_OPREADY \<and> act' \<noteq> COMMON_STATE_OPREADY then fwlib_incBadStateCnt s4 else s4)
        in fwlib_publishStatusArray (ucast (statusArray s5)) s5)"
  have "fbas_iter pci (req, act, pub, s) = Some (req3, act', act', ?s4)"
    using assms(3) unfolding fbas_iter_def prod.case h c assms(2) option.case by (simp add: assms(4) Let_def)
  moreover have "cmdw ?s4 = cmdw s3" by (simp add: Let_def cmd_simps)
  ultimately show ?thesis by blast
qed

text \<open>
  C33. Recovery without the host: from the state ERROR, with no command pending, three passes of the
  main loop lead over IDLE to CONFIGURED with operation requested and the request for recovery
  withdrawn; if the fourth pass comes to an end, the node is in operation.
\<close>

theorem error_recovers:
  assumes "shm s COMMON_SHARED_CMD = 0"
  shows "\<exists>s3. passes pci 3 (COMMON_STATE_UNKNOWN, COMMON_STATE_ERROR, pub, s)
      = Some (COMMON_STATE_OPREADY, COMMON_STATE_CONFIGURED, COMMON_STATE_CONFIGURED, s3) \<and>
    flagRecover s3 = 0 \<and> shm s3 COMMON_SHARED_CMD = 0 \<and>
    (\<forall>c. passes pci 4 (COMMON_STATE_UNKNOWN, COMMON_STATE_ERROR, pub, s) = Some c \<longrightarrow>
         fst (snd c) = COMMON_STATE_OPREADY)"
proof -
  note st = fwlib_changeState_def next_state_def exitActionError_def common_states Let_def
  note da = fwlib_doActionState_def fwlib_doAutoRecovery_def common_states
  let ?h = "fbas_hooks pci"
  have a1: "fwlib_changeState ?h 6 0 COMMON_STATUS_OK s = Some (6, 0, COMMON_STATUS_OK, s)" by (simp add: st)
  have b1: "fwlib_doActionState 0 6 COMMON_STATUS_OK s = Some (2, COMMON_STATUS_OK, s\<lparr>flagRecover := 1\<rparr>)"
    by (simp add: da)
  obtain s1 where 1: "fbas_iter pci (0, 6, pub, s) = Some (2, 6, 6, s1)" "cmdw s1 = cmdw (s\<lparr>flagRecover := 1\<rparr>)"
    using quiet_pass[OF assms a1 _ b1, of pub] by (auto simp: common_states)
  have c1: "shm s1 COMMON_SHARED_CMD = 0" "flagRecover s1 = 1" using 1(2) assms by (simp_all add: cmdw_def)
  have a2: "fwlib_changeState ?h 6 2 COMMON_STATUS_OK s1 = Some (2, 0, COMMON_STATUS_OK, s1)"
    by (simp add: st common_status)
  have b2: "fwlib_doActionState 0 2 COMMON_STATUS_OK s1 = Some (3, COMMON_STATUS_OK, s1)"
    using c1 by (simp add: da)
  obtain s2 where 2: "fbas_iter pci (2, 6, 6, s1) = Some (3, 2, 2, s2)" "cmdw s2 = cmdw s1"
    using quiet_pass[OF c1(1) a2 _ b2, of 6] by (auto simp: common_states)
  have c2: "shm s2 COMMON_SHARED_CMD = 0" "flagRecover s2 = 1" using 2(2) c1 by (simp_all add: cmdw_def)
  let ?e = "snd (extern_entryActionConfigured pci s2)"
  have e: "cmdw ?e = cmdw s2" by (simp add: cmd_simps)
  have c3: "flagRecover ?e = 1" "shm ?e COMMON_SHARED_CMD = 0" using e c2 by (simp_all add: cmdw_def)
  have a3: "fwlib_changeState ?h 2 3 COMMON_STATUS_OK s2 = Some (3, 0, COMMON_STATUS_OK, ?e)"
    using configure_ok[of pci s2] by (simp add: st split_beta fbas_hooks_def common_status)
  have b3: "fwlib_doActionState 0 3 COMMON_STATUS_OK ?e = Some (4, COMMON_STATUS_OK, ?e\<lparr>flagRecover := 0\<rparr>)"
    using c3 by (simp add: da)
  obtain s3 where 3: "fbas_iter pci (3, 2, 2, s2) = Some (4, 3, 3, s3)" "cmdw s3 = cmdw (?e\<lparr>flagRecover := 0\<rparr>)"
    using quiet_pass[OF c2(1) a3 _ b3, of 2] by (auto simp: common_states)
  have c4: "shm s3 COMMON_SHARED_CMD = 0" "flagRecover s3 = 0" using 3(2) c3 by (simp_all add: cmdw_def)
  have h: "fwlib_cmdHandler extern_clearDiag 4 s3 = (4, 0, s3)" "cmdHandler 3 0 s3 = s3"
    using c4 by (simp_all add: fwlib_cmdHandler_def cmdHandler_def)
  have "fst (snd c) = 4" if "fbas_iter pci (4, 3, 3, s3) = Some c" for c
    using that unfolding fbas_iter_def prod.case h
    by (auto simp: st fbas_hooks_def extern_entryActionOperation_def common_status split: option.splits)
  moreover have "passes pci 3 (0, 6, pub, s) = Some (4, 3, 3, s3)"
    using 1 2 3 by (simp add: numeral_eq_Suc)
  moreover have "passes pci 4 (0, 6, pub, s) = fbas_iter pci (4, 3, 3, s3)"
    using 1 2 3 by (simp add: numeral_eq_Suc split: option.split)
  ultimately show ?thesis
    using c4 by (intro exI[of _ s3]) (simp add: common_states)
qed

section \<open>What recovery forgets\<close>

lemma reset_all:
  assumes "length (bufMpsMsg s) = 16" "n \<le> 16"
  shows "length (bufMpsMsg (fold (\<lambda>i. msgResetMpsBuf i (Some a) f) [0..<n] s)) = 16 \<and>
    senders (fold (\<lambda>i. msgResetMpsBuf i (Some a) f) [0..<n] s) = senders s \<and>
    myMac (fold (\<lambda>i. msgResetMpsBuf i (Some a) f) [0..<n] s) = myMac s \<and>
    (\<forall>i < n. addr (bufMpsMsg (fold (\<lambda>i. msgResetMpsBuf i (Some a) f) [0..<n] s) ! i) = a)"
  using assms(2)
proof (induction n)
  case (Suc n)
  thus ?case by (auto simp: msgResetMpsBuf_def nth_list_update less_Suc_eq)
qed (simp add: assms(1))

lemma myMac_more: "fw.more s' = fw.more s \<Longrightarrow> myMac s' = myMac s"
  by (cases s; cases s') simp

lemma initMpsData_buf:
  assumes "length (bufMpsMsg s) = 16"
  defines "s' \<equiv> initMpsData s"
  shows "senders s' = senders s \<and> length (bufMpsMsg s') = 16 \<and>
    (\<forall>i < 16. addr (bufMpsMsg s' ! i) = ucast (myMac s'))"
proof -
  define s1 where "s1 = s\<lparr>mpsTask := 0,
          myMac := convertMacToU64 (shm s COMMON_SHARED_MACHI) (shm s COMMON_SHARED_MACLO)\<rparr>"
  define s2 where "s2 = msgInitPcEventBuf (myMac s1) 0 0 (msgInitMpsMsgBuf (myMac s1) s1)"
  have "length (bufMpsMsg s1) = 16" using assms by (simp add: s1_def)
  note r = reset_all[OF this, of 16 "ucast (myMac s1)" MPS_FLAG_TEST]
  have 2: "senders s2 = senders s" "length (bufMpsMsg s2) = 16" "myMac s2 = myMac s1"
    "\<forall>i < 16. addr (bufMpsMsg s2 ! i) = ucast (myMac s1)"
    using r unfolding s2_def msgInitMpsMsgBuf_def N_MAX_TX_NODES_def
    by (simp_all add: msgInitPcEventBuf_def nth_list_update s1_def del: upt_rec_numeral)
  define s3 where "s3 = sh_clear FBAS_SHARED_C2_MSG_BEGIN (4 * N_MAX_TX_NODES) s2"
  have m3: "fw.more s3 = fw.more s2" by (simp add: s3_def more_simps)
  define s5 where "s5 = s3\<lparr>mpsMsgCtrl := msgInitMsgCtrl (of_nat N_MPS_CHANNELS) 0 (txMsgRates ! 0) (mpsMsgCtrl s3),
      msr := measureClearSummary None (msr s3)\<rparr>"
  have "s' = snd (find_dev DEV_ECACTL (initCounters s5))"
    unfolding s'_def initMpsData_def Let_def s1_def[symmetric] s2_def[symmetric] s3_def[symmetric] by (simp add: s5_def)
  hence m5: "fw.more s' = fw.more s5" by (simp add: initCounters_def more_simps)
  have "bufMpsMsg s' = bufMpsMsg s2" "senders s' = senders s2" "myMac s' = myMac s2"
    using kept_more[OF m5] kept_more[OF m3] myMac_more[OF m5] myMac_more[OF m3]
    by (simp_all add: kept_def s5_def)
  thus ?thesis using 2 by simp
qed

text \<open>
  Configuring a collector - by command or in the course of recovery - makes every channel expect
  the node's own address but keeps the table of senders: a sender registered before is still found,
  and so answered when it asks for registration, while every message that does not carry the
  collector's own address is rejected.
\<close>

theorem configure_forgets_senders:
  fixes pci
  assumes "length (bufMpsMsg s) = 16"
  defines "s' \<equiv> snd (extern_entryActionConfigured pci s)"
  shows "msgGetSenderIndex w s' = msgGetSenderIndex w s \<and>
    (raw_addr raw \<noteq> ucast (myMac s') \<longrightarrow> msgStoreMpsMsg raw t ctrl s' = (None, s'))"
proof -
  let ?x = "configure_timers (snd (setEndpDstAddr DST_ADDR_BROADCAST (configure_io pci s)))"
  have k: "kept ?x = kept s" by (simp add: kept_simps)
  hence x: "bufMpsMsg ?x = bufMpsMsg s" "senders ?x = senders s" by (simp_all add: kept_def)
  have "s' = initMpsData ?x"
    by (simp add: s'_def extern_entryActionConfigured_def split_beta setEndp_ok)
  hence "senders s' = senders s" and a: "\<forall>i < 16. addr (bufMpsMsg s' ! i) = ucast (myMac s')"
    using initMpsData_buf[of ?x] x assms(1) by simp_all
  moreover have "msgStoreMpsMsg raw t ctrl s' = (None, s')" if "raw_addr raw \<noteq> ucast (myMac s')"
  proof (cases "N_MAX_MPS_CHANNELS \<le> unat (raw_ch raw)")
    case True
    thus ?thesis by (simp add: msgStoreMpsMsg_def)
  next
    case False
    hence "addr (bufMpsMsg s' ! unat (raw_ch raw)) = ucast (myMac s')"
      using a by (simp add: N_MAX_MPS_CHANNELS_def N_MPS_CHANNELS_def N_MAX_TX_NODES_def)
    thus ?thesis using that False by (simp add: msgStoreMpsMsg_def Let_def)
  qed
  ultimately show ?thesis by (simp add: msgGetSenderIndex_def)
qed

theorem configure_forgets_senders_witness:
  "msgGetSenderIndex 0x0300000000001234 (snd (extern_entryActionConfigured False fbas_one)) = Some 3"
  using configure_forgets_senders[of fbas_one "0x0300000000001234" False] sender_one one_registry(1)
  by (simp add: registry_def)

theorem error_recovers_witness:
  "\<exists>s3. passes False 3 (COMMON_STATE_UNKNOWN, COMMON_STATE_ERROR, 0, fbas_blank)
      = Some (COMMON_STATE_OPREADY, COMMON_STATE_CONFIGURED, COMMON_STATE_CONFIGURED, s3)"
  using error_recovers[of fbas_blank False 0] by (auto simp: fbas_blank_def)

end
