(* ===== verification/Fbas_Operation.thy ===== *)
theory Fbas_Operation
  imports Fbas_Recovery
begin

text \<open>
  What a FBAS node does at start, on commands, with its timers and with the actions of
  the ECA queue: the registration of an emitter with a collector, the way of a NOK
  flag onto the SCU bus, and the states in which the code goes wrong.
\<close>

section \<open>Commands\<close>

text \<open>
  A command of the application that arrives in any other state than CONFIGURED is taken from the
  command register and otherwise ignored: the pass goes on exactly as if there had been none.
\<close>

theorem app_command_denied:
  assumes "shm_on s" "COMMON_CMD_RESERVEDTILHERE < shm s COMMON_SHARED_CMD" "act \<noteq> COMMON_STATE_CONFIGURED"
  shows "fbas_iter pci (req, act, pub, s)
    = fbas_iter pci (req, act, pub, s\<lparr>shm := (shm s)(COMMON_SHARED_CMD := 0)\<rparr>)"
proof -
  let ?s0 = "s\<lparr>shm := (shm s)(COMMON_SHARED_CMD := 0)\<rparr>"
  have c: "shm s COMMON_SHARED_CMD > 10" using assms(2) by (simp add: common_cmds)
  hence n: "shm s COMMON_SHARED_CMD \<notin> {0, 1, 2, 3, 4, 5, 6}" by auto
  have "fwlib_cmdHandler extern_clearDiag req s = (req, shm s COMMON_SHARED_CMD, ?s0)"
    using n assms(1) by (simp add: fwlib_cmdHandler_def Let_def common_cmds sh_wr_def)
  moreover have "fwlib_cmdHandler extern_clearDiag req ?s0 = (req, 0, ?s0)"
    by (simp add: fwlib_cmdHandler_def)
  moreover have "cmdHandler act cmd x = x" for cmd x using assms(3) by (rule cmd_only_configured)
  ultimately show ?thesis by (simp add: fbas_iter_def)
qed

theorem app_command_denied_witness:
  "fbas_iter False (0, COMMON_STATE_IDLE, 0, fbas_blank\<lparr>shm_on := True, shm := (\<lambda>a. 0x15)\<rparr>)
     = fbas_iter False (0, COMMON_STATE_IDLE, 0,
         fbas_blank\<lparr>shm_on := True, shm := (\<lambda>a. 0x15)(COMMON_SHARED_CMD := 0)\<rparr>)"
  using app_command_denied[of "fbas_blank\<lparr>shm_on := True, shm := (\<lambda>a. 0x15)\<rparr>" COMMON_STATE_IDLE False 0 0]
  by (simp add: common_cmds common_states)

section \<open>Start\<close>

lemma sh_clear_stray: "shm_on s \<Longrightarrow> stray (sh_clear off n s) = stray s"
  by (induction off n s rule: sh_clear.induct) simp_all

lemma fwlib_init_sel: "shm_on (fwlib_init a b c d s)" "stray (fwlib_init a b c d s) = stray s"
  by (simp_all add: fwlib_init_def fwlib_publishSharedSize_def ebmClearSharedMem_def Let_def sh_wr_def sh_clear_sel
      sh_clear_stray)

text \<open>
  At start the firmware writes the time of the diagnostics through two pointers that are not set
  yet, and it clears the common part of the shared memory once more after the common library has
  published version and size there: both are zero when the main loop begins.
\<close>

theorem start_loses_version:
  assumes "fbas_start rams adr cpu offs s = Some (req, act, pub, s')" "\<not> shm_on s"
  shows "shm s' COMMON_SHARED_VERSION = 0 \<and> shm s' COMMON_SHARED_USEDSIZE = 0 \<and>
    (\<exists>hi lo. stray s' = stray s @ [hi, lo])"
proof -
  define s1 where "s1 = fwlib_clearDiag extern_clearDiag s"
  define s2 where "s2 = fwlib_init (adr cpu AND 0x7fffffff) offs FBAS_SHARED_END FBAS_FW_VERSION s1"
  have "\<not> rams < cpu" "s' = sh_clear 0 (unat FBAS_SHARED_END div 4) s2"
    using assms(1)
    by (auto simp: fbas_start_def initSharedMem_def Let_def s1_def s2_def common_status split: if_splits)
  moreover have n: "unat FBAS_SHARED_END div 4 = 429"
    by (simp add: FBAS_SHARED_END_def FBAS_SHARED_ERROR_FLAG_def FBAS_SHARED_ACT_RATE_def FBAS_SHARED_ML_PRD_AVG_def
        FBAS_SHARED_TTL_PRD_AVG_def FBAS_SHARED_MSG_RATE_AVG_def FBAS_SHARED_MSG_DLY_AVG_def FBAS_SHARED_SG_LTY_AVG_def
        FBAS_SHARED_RX_DLY_AVG_def FBAS_SHARED_TX_DLY_AVG_def FBAS_SHARED_ECA_DLY_AVG_def FBAS_SHARED_SENDERID_def
        FBAS_SHARED_ECA_VLD_def FBAS_SHARED_GET_AVG_def FBAS_SHARED_TX_MSG_CNT_def FBAS_SHARED_BEGIN_def)
  ultimately have s': "s' = sh_clear 0 429 s2" by simp
  have on: "shm_on s2" by (simp add: s2_def fwlib_init_sel)
  have "shm s' (0 + 4 * of_nat 4) = 0" "shm s' (0 + 4 * of_nat 115) = 0"
    unfolding s' by (rule sh_clear_zero[OF on]; simp)+
  moreover have "stray s' = stray s1" unfolding s' s2_def
    by (simp add: sh_clear_stray[OF on, unfolded s2_def] fwlib_init_sel)
  moreover have "\<exists>hi lo. stray s1 = stray s @ [hi, lo]"
    using assms(2) by (simp add: s1_def fwlib_clearDiag_def extern_clearDiag_def split_beta)
  ultimately show ?thesis by (simp add: common_shared)
qed

lemma blank_starts: "\<exists>s'. fbas_start 1 (\<lambda>i. 0x84000000) 0 0 fbas_blank
    = Some (COMMON_STATE_S0, COMMON_STATE_UNKNOWN, COMMON_STATE_UNKNOWN, s')"
  by (simp add: fbas_start_def initSharedMem_def Let_def split_beta common_status)

theorem start_loses_version_witness:
  "\<exists>s'. fbas_start 1 (\<lambda>i. 0x84000000) 0 0 fbas_blank
      = Some (COMMON_STATE_S0, COMMON_STATE_UNKNOWN, COMMON_STATE_UNKNOWN, s') \<and>
    shm s' COMMON_SHARED_VERSION = 0"
proof -
  obtain s' where r: "fbas_start 1 (\<lambda>i. 0x84000000) 0 0 fbas_blank
      = Some (COMMON_STATE_S0, COMMON_STATE_UNKNOWN, COMMON_STATE_UNKNOWN, s')" using blank_starts by blast
  have "\<not> shm_on fbas_blank" by (simp add: fbas_blank_def)
  thus ?thesis using start_loses_version[OF r] r by blast
qed

section \<open>Timers\<close>

text \<open>The timer table, whether there is a hardware timer, and the pointer to the console's timer.\<close>

definition tbl :: "fbas \<Rightarrow> timer_s list \<times> bool \<times> nat option" where
  "tbl s = (timers s, wbTimer s, pTimerConsole s)"

named_theorems tbl_simps "operations that keep the timer table"

lemma tbl_more: "fw.more s' = fw.more s \<Longrightarrow> tbl s' = tbl s"
  by (cases s; cases s') (simp add: tbl_def)

lemma tbl_upd [tbl_simps]:
  "tbl (s\<lparr>outPortCfg := a\<rparr>) = tbl s" "tbl (s\<lparr>EffLogOut := b\<rparr>) = tbl s" "tbl (s\<lparr>sbDiobs := c\<rparr>) = tbl s"
  "tbl (s\<lparr>dstMac := d\<rparr>) = tbl s" "tbl (s\<lparr>dstIp := e\<rparr>) = tbl s" "tbl (s\<lparr>mpsTask := f\<rparr>) = tbl s"
  "tbl (s\<lparr>myMac := g\<rparr>) = tbl s" "tbl (s\<lparr>msr := h\<rparr>) = tbl s" "tbl (s\<lparr>mpsMsgCtrl := i\<rparr>) = tbl s"
  "tbl (s\<lparr>bufMpsMsg := j\<rparr>) = tbl s"
  by (simp_all add: tbl_def)

lemma tbl_fold [tbl_simps]: "(\<And>x s. tbl (f x s) = tbl s) \<Longrightarrow> tbl (fold f xs s) = tbl s"
  by (induction xs arbitrary: s) simp_all

lemma tbl_lib [tbl_simps]:
  "tbl (snd (sys_time s)) = tbl s" "tbl (snd (rd_dev r s)) = tbl s" "tbl (wr_dev r v s) = tbl s"
  "tbl (sh_wr off w s) = tbl s" "tbl (sh_clear off n s) = tbl s" "tbl (snd (find_dev d s)) = tbl s"
  "tbl (fwlib_publishNICData s) = tbl s" "tbl (snd (fwlib_ioCtrlSetGate e io s)) = tbl s"
  by (rule tbl_more, simp only: more_simps)+

lemma tbl_sb [tbl_simps]: "tbl (sbInit s) = tbl s"
proof -
  have r: "tbl (snd (sb_rd o' s)) = tbl s" for o' s by (simp add: sb_rd_def split_beta tbl_simps)
  have x: "tbl (probeSbSlaveExt slot s) = tbl s" for slot s
    by (simp add: probeSbSlaveExt_def split_beta r tbl_simps)
  have "tbl (snd (probe_slots slots a b f s)) = tbl s" for slots a b f s
    by (induction slots arbitrary: f s) (simp_all add: split_beta Let_def r x tbl_simps)
  hence p: "probeSbSlaves a b f s = Some (y, s') \<Longrightarrow> tbl s' = tbl s" for a b f s y s'
    unfolding probeSbSlaves_def by (metis option.distinct(1) option.inject snd_conv)
  have "tbl (snd (writeDiobReg d r s)) = tbl s" for d r s
    by (simp add: writeDiobReg_def tbl_simps del: upt_Suc)
  thus ?thesis using p by (auto simp: sbInit_def Let_def tbl_simps split: option.split prod.split)
qed

lemma tbl_configure [tbl_simps]:
  "tbl (configure_io pci s) = tbl s" "tbl (snd (setEndpDstAddr d s)) = tbl s" "tbl (initMpsData s) = tbl s"
proof -
  have o: "tbl (snd (ioSetOutEnable i e s)) = tbl s" for i e s by (simp add: ioSetOutEnable_def tbl_simps)
  show "tbl (configure_io pci s) = tbl s"
    by (simp add: configure_io_def Let_def ioInitPortMap_def o tbl_simps)
  have "tbl (fwlib_setEbmDstAddr m ip s) = tbl s" for m ip s
    by (rule tbl_more) (simp add: fwlib_setEbmDstAddr_def more_simps)
  thus "tbl (snd (setEndpDstAddr d s)) = tbl s" by (simp add: setEndpDstAddr_def Let_def tbl_simps)
  show "tbl (initMpsData s) = tbl s"
    by (simp add: initMpsData_def msgInitMpsMsgBuf_def msgResetMpsBuf_def msgInitPcEventBuf_def initCounters_def
        Let_def tbl_simps del: upt_rec_numeral)
qed

text \<open>What configuring does to the table.\<close>

lemma configured_timers:
  assumes "wbTimer s"
  shows "tbl (snd (extern_entryActionConfigured pci s)) =
    (case timerRegister 60000 (snd (timerRegister 1000 (snd (timerRegister 1 (timers s))))) of (p, ts) \<Rightarrow> (ts, True, p))"
proof -
  let ?x = "snd (setEndpDstAddr DST_ADDR_BROADCAST (configure_io pci s))"
  have "tbl ?x = tbl s" by (simp add: tbl_simps)
  hence x: "timers ?x = timers s" "wbTimer ?x" using assms by (simp_all add: tbl_def)
  have "tbl (snd (timerEnableHw (snd (timerSetupHw n y)))) = tbl y" for n y
    by (simp add: timerEnableHw_def timerSetupHw_def split_beta tbl_simps)
  hence "tbl (configure_timers ?x) = tbl (snd (initTimers ?x))"
    using x by (simp add: configure_timers_def)
  moreover have "snd (extern_entryActionConfigured pci s) = initMpsData (configure_timers ?x)"
    by (simp add: extern_entryActionConfigured_def split_beta setEndp_ok)
  ultimately show ?thesis
    by (simp add: tbl_simps) (simp add: initTimers_def split_beta tbl_def x)
qed

lemma configured_used:
  fixes pci
  assumes "wbTimer s"
  defines "s' \<equiv> snd (extern_entryActionConfigured pci s)"
  shows "wbTimer s' \<and> length (timers s') = length (timers s) \<and>
    (used (timers s) + 3 \<le> length (timers s) \<longrightarrow> used (timers s') = used (timers s) + 3) \<and>
    (used (timers s) + 2 = length (timers s) \<longrightarrow> pTimerConsole s' = None)"
proof -
  let ?ts = "snd (timerRegister 1000 (snd (timerRegister 1 (timers s))))"
  have "timers s' = snd (timerRegister 60000 ?ts)" "wbTimer s'" "pTimerConsole s' = fst (timerRegister 60000 ?ts)"
    using configured_timers[OF assms(1), of pci] by (simp_all add: s'_def tbl_def split_beta)
  thus ?thesis by (auto simp: register_used)
qed

text \<open>
  Every configuration takes three of the eight timers and none is ever returned: the third one
  gets no console timer - it still reports success - and the node crashes (it writes through the null
  pointer) as soon as it leaves the operation state.
\<close>

theorem third_configuration_crashes:
  fixes pci
  assumes "wbTimer s" "length (timers s) = N_TIMERS" "\<forall>t \<in> set (timers s). \<not> in_use t"
  defines "s3 \<equiv> ((\<lambda>s. snd (extern_entryActionConfigured pci s)) ^^ 3) s"
  shows "pTimerConsole s3 = None \<and> crashed (snd (extern_exitActionOperation s3)) \<and>
    fst (extern_entryActionConfigured pci (((\<lambda>s. snd (extern_entryActionConfigured pci s)) ^^ 2) s)) = COMMON_STATUS_OK"
proof -
  let ?c = "\<lambda>s. snd (extern_entryActionConfigured pci s)"
  have 0: "used (timers s) = 0" "length (timers s) = 8"
    using assms(2,3) by (simp_all add: used_def N_TIMERS_def)
  have 1: "wbTimer (?c s)" "used (timers (?c s)) = 3" "length (timers (?c s)) = 8"
    using configured_used[OF assms(1), of pci] 0 by simp_all
  have 2: "wbTimer (?c (?c s))" "used (timers (?c (?c s))) = 6" "length (timers (?c (?c s))) = 8"
    using configured_used[OF 1(1), of pci] 1 by simp_all
  have "pTimerConsole (?c (?c (?c s))) = None"
    using configured_used[OF 2(1), of pci] 2 by simp
  moreover have "s3 = ?c (?c (?c s))" by (simp add: s3_def numeral_eq_Suc)
  ultimately show ?thesis
    by (simp add: extern_exitActionOperation_def fb_timerStart_def configure_ok)
qed

theorem third_configuration_crashes_witness:
  "crashed (snd (extern_exitActionOperation (((\<lambda>s. snd (extern_entryActionConfigured False s)) ^^ 3) fbas_blank)))"
  using third_configuration_crashes[of fbas_blank False]
  by (simp add: fbas_blank_def N_TIMERS_def timer0_def)

section \<open>Actions after a pause\<close>

lemma nodeType_wait: fixes s :: fbas shows "fwlib_wait4ECAEvent us s = Some (tag, a, s') \<Longrightarrow> nodeType s' = nodeType s"
  using more_wait[of us s tag a s'] kept_more[of s' s] by (simp add: kept_def)

text \<open>
  Between two passes the pointer to the message buffer survives only an event of the power
  converter: after any other result, a timeout included, it is null, and a new cycle handled next
  by an emitter or a collector writes through it.
\<close>

theorem newcycle_after_pause_crashes:
  assumes "handleEcaEvent us buf s = Some (tag, buf', s1)" "tag \<noteq> FBAS_GEN_EVT"
    and "handleEcaEvent us' buf' s1 = Some (FBAS_AUX_NEWCYCLE, buf'', s2)"
    and "nodeType s1 = FBAS_NODE_TX \<or> nodeType s1 = FBAS_NODE_RX"
  shows "crashed s2"
proof -
  have b: "buf' = None" using assms(1,2) by (auto simp: handleEcaEvent_def split: option.splits prod.splits)
  obtain a s1' where w: "fwlib_wait4ECAEvent us' s1 = Some (FBAS_AUX_NEWCYCLE, a, s1')"
    and s2: "s2 = eca_newcycle None (fst (sys_time s1')) (snd (sys_time s1'))"
    using assms(3) unfolding b
    by (auto simp: handleEcaEvent_def eca_dispatch_def split_beta COMMON_ECADO_TIMEOUT_def FBAS_AUX_NEWCYCLE_def
        FBAS_GEN_EVT_def split: option.splits if_splits)
  have "nodeType (snd (sys_time s1')) = nodeType s1" using nodeType_wait[OF w] by simp
  thus ?thesis using assms(4) by (auto simp: s2 eca_newcycle_def msgForceHigh_def Let_def)
qed

text \<open>An emitter whose queue is empty at the first look and holds a new cycle at the second.\<close>

definition newcycle_node :: fbas where
  "newcycle_node = fbas_blank\<lparr>eca_in := (\<lambda>n. if n = 0 then None else Some (no_action\<lparr>ea_tag := FBAS_AUX_NEWCYCLE\<rparr>))\<rparr>"

lemma newcycle_sel:
  "wr_time newcycle_node n = of_nat (1000 * n)" "time_cnt newcycle_node = 1" "polls newcycle_node = 0"
  "eca_in newcycle_node 0 = None" "eca_in newcycle_node 1 = Some (no_action\<lparr>ea_tag := FBAS_AUX_NEWCYCLE\<rparr>)"
  "nodeType newcycle_node = FBAS_NODE_TX"
  by (simp_all add: newcycle_node_def fbas_blank_def)

theorem newcycle_after_pause_crashes_witness:
  "\<exists>s1 s2 buf''. handleEcaEvent 0 (Some 0) newcycle_node = Some (COMMON_ECADO_TIMEOUT, None, s1) \<and>
     handleEcaEvent 0 None s1 = Some (FBAS_AUX_NEWCYCLE, buf'', s2) \<and> crashed s2"
proof -
  let ?s1 = "newcycle_node\<lparr>time_cnt := 4, polls := 1\<rparr>"
  note e = handleEcaEvent_def fwlib_wait4ECAEvent_def fwlib_wait4ECAEvent2_def newcycle_sel sys_time_def
    COMMON_ECADO_TIMEOUT_def FBAS_GEN_EVT_def FBAS_AUX_NEWCYCLE_def Let_def
  have p1: "eca_poll 2024 (newcycle_node\<lparr>time_cnt := Suc (Suc 0)\<rparr>) = Some (None, ?s1)"
    by (subst eca_poll.simps, subst eca_poll.simps) (simp add: sys_time_def newcycle_sel)
  have h1: "handleEcaEvent 0 (Some 0) newcycle_node = Some (COMMON_ECADO_TIMEOUT, None, ?s1)"
    using p1 by (simp add: e)
  have p2: "\<exists>s'. eca_poll 5024 (newcycle_node\<lparr>polls := Suc 0, time_cnt := 5\<rparr>)
      = Some (Some (no_action\<lparr>ea_tag := FBAS_AUX_NEWCYCLE\<rparr>), s')"
    by (subst eca_poll.simps) (simp add: sys_time_def newcycle_sel[simplified])
  have h2: "\<exists>b s2. handleEcaEvent 0 None ?s1 = Some (FBAS_AUX_NEWCYCLE, b, s2)"
    using p2 by (auto simp: e eca_monitor_def split_beta)
  have "COMMON_ECADO_TIMEOUT \<noteq> FBAS_GEN_EVT" by (simp add: COMMON_ECADO_TIMEOUT_def FBAS_GEN_EVT_def)
  thus ?thesis
    using h2 h1 newcycle_after_pause_crashes[OF h1] newcycle_sel(6) by fastforce
qed

section \<open>From the collector's buffer onto the SCU bus\<close>

lemma represent_bits:
  "bit (msgRepresentMpsFlags s) i \<longleftrightarrow> i < 16 \<and> flag (bufMpsMsg s ! i) = MPS_FLAG_NOK"
  by (auto simp: msgRepresentMpsFlags_def N_MAX_TX_NODES_def fold_bits simp del: upt_rec_numeral)

lemma dev_fold_wr: "dev_out (fold (\<lambda>i. wr_dev (r i) v) xs s) = dev_out s @ map (\<lambda>i. (r i, v)) xs"
  by (induction xs arbitrary: s) simp_all

text \<open>
  C34. What a collector knows of its emitters reaches the cards on the SCU bus: when the lifetimes are
  due and the flags differ from those sent last, every DIOB card found gets exactly one write of its
  echo register, with one bit per channel, set exactly for the channels whose flag is NOK.
\<close>

theorem flags_reach_bus:
  assumes "quiet s" "mpsTask s AND TSK_EVAL_MPS_TTL \<noteq> 0" "sbDiobs s \<noteq> 0"
    and "sb_last s \<noteq> Some (ucast (msgRepresentMpsFlags s))"
  shows "\<exists>v :: u16. dev_out (op_rx s) = dev_out s @
      map (\<lambda>slot. (SCUBUS (slot_base slot + SBS_ECHO), ucast v)) (filter (bit (sbDiobs s)) [1..<Suc N_SB_SLOTS]) \<and>
    (\<forall>c < 16. bit v c \<longleftrightarrow> flag (bufMpsMsg s ! c) = MPS_FLAG_NOK) \<and> sb_last (op_rx s) = Some v"
proof -
  let ?v = "ucast (msgRepresentMpsFlags s) :: u16"
  define s1 where "s1 = snd (sys_time (s\<lparr>mpsTask := mpsTask s AND NOT TSK_EVAL_MPS_TTL\<rparr>))"
  have "kept s1 = kept s" by (simp add: s1_def kept_simps)
  hence b: "bufMpsMsg s1 = bufMpsMsg s" and q: "quiet s1"
    using quiet_kept(1)[of s1 s] assms(1) by (simp_all only: kept_def prod.inject)
  have f: "fold (op_eval now) [0..<N_MAX_MPS_CHANNELS] s1 = s1" for now
    by (rule quiet_op_evals[OF q]) simp
  define s2 where "s2 = snd (sys_time s1)"
  have v: "msgRepresentMpsFlags s2 = msgRepresentMpsFlags s" by (simp add: msgRepresentMpsFlags_def b s2_def)
  have l: "sbDiobs s2 = sbDiobs s" "sb_last s2 = sb_last s" "dev_out s2 = dev_out s"
    by (simp_all add: s1_def s2_def)
  define s3 where "s3 = snd (sbPutMpsFlags ?v s2)"
  have e: "dev_out (op_rx s) = dev_out s3" "sb_last (op_rx s) = sb_last s3"
    using assms(2) unfolding op_rx_def split_beta s1_def[symmetric] f s2_def[symmetric] v s3_def[symmetric]
    by simp_all
  have lst: "sb_last (fold (\<lambda>i. wr_dev (r i) w) xs x) = sb_last x" for r w xs and x :: fbas
    by (induction xs arbitrary: x) (simp_all add: wr_dev_def)
  have "dev_out s3 = dev_out s @ map (\<lambda>slot. (SCUBUS (slot_base slot + SBS_ECHO), ucast ?v))
      (filter (bit (sbDiobs s)) [1..<Suc N_SB_SLOTS])" "sb_last s3 = Some ?v"
    using assms(3,4) unfolding s3_def
    by (simp_all add: sbPutMpsFlags_def writeDiobReg_def dev_fold_wr lst l del: upt_Suc)
  moreover note e
  moreover have "bit ?v c \<longleftrightarrow> flag (bufMpsMsg s ! c) = MPS_FLAG_NOK" if "c < 16" for c
    using that by (simp add: bit_ucast_iff represent_bits)
  ultimately show ?thesis by (intro exI[of _ ?v]) simp
qed

text \<open>One card, in slot 2, and channel 3 reports NOK.\<close>

definition bus_node :: fbas where
  "bus_node = fbas_blank\<lparr>mpsTask := TSK_EVAL_MPS_TTL, sbDiobs := 4,
     bufMpsMsg := (replicate N_MAX_MPS_CHANNELS msg0)[3 := msg0\<lparr>flag := MPS_FLAG_NOK\<rparr>]\<rparr>"

theorem flags_reach_bus_witness:
  "\<exists>v :: u16. SCUBUS (slot_base 2 + SBS_ECHO) \<in> fst ` set (dev_out (op_rx bus_node)) \<and> bit v 3 \<and> sb_last (op_rx bus_node) = Some v"
proof -
  have "quiet bus_node"
    by (auto simp: quiet_def settled_def bus_node_def fbas_blank_def msg0_def
        N_MAX_MPS_CHANNELS_def N_MPS_CHANNELS_def N_MAX_TX_NODES_def dest: set_update_subset_insert[THEN subsetD])
  moreover have "mpsTask bus_node AND TSK_EVAL_MPS_TTL \<noteq> 0" "sbDiobs bus_node \<noteq> 0" "sb_last bus_node = None"
    "dev_out bus_node = []" "flag (bufMpsMsg bus_node ! 3) = MPS_FLAG_NOK"
    by (simp_all add: bus_node_def TSK_EVAL_MPS_TTL_def fbas_blank_def
        N_MAX_MPS_CHANNELS_def N_MPS_CHANNELS_def N_MAX_TX_NODES_def)
  ultimately obtain v :: u16 where v: "dev_out (op_rx bus_node) =
      map (\<lambda>slot. (SCUBUS (slot_base slot + SBS_ECHO), ucast v)) (filter (bit (sbDiobs bus_node)) [1..<Suc N_SB_SLOTS])"
    "\<forall>c < 16. bit v c \<longleftrightarrow> flag (bufMpsMsg bus_node ! c) = MPS_FLAG_NOK" "sb_last (op_rx bus_node) = Some v"
    using flags_reach_bus[of bus_node] by fastforce
  have "2 \<in> set (filter (bit (sbDiobs bus_node)) [1..<Suc N_SB_SLOTS])"
    by (simp add: bus_node_def N_SB_SLOTS_def bit_iff_odd)
  hence "SCUBUS (slot_base 2 + SBS_ECHO) \<in> fst ` set (dev_out (op_rx bus_node))" unfolding v(1) by force
  thus ?thesis using v \<open>flag (bufMpsMsg bus_node ! 3) = MPS_FLAG_NOK\<close> by (intro exI[of _ v]) simp
qed

end
