(* ===== verification/Fw_Transfer.thy ===== *)
theory Fw_Transfer
  imports Fw_Frame
begin

text \<open>
  What the common library promises about transfers: the address window of the
  EtherBone master, writing and reading blocks of a remote device, timing messages
  and their event numbers, and waiting for the ECA.
\<close>

section \<open>The window of the EB master\<close>

text \<open>\<open>ebm_init\<close> splits a window of \<open>2 ^ k\<close> bytes: the top address bit selects the data area, the next
  one tells a write from a read, the rest is the address in the slave.\<close>

lemma ebm_init_sel:
  assumes "dev_adr s DEV_EBM_LAST - dev_adr s DEV_EBM = mask k" "2 \<le> k" "k \<le> 32"
  shows "EBM_OFFS_DAT (ebm_init s) = push_bit (k - 1) 1" "EBM_WRITE (ebm_init s) = push_bit (k - 2) 1"
    "EBM_READ (ebm_init s) = 0" "EBM_ADR_MASK (ebm_init s) = mask (k - 2)"
proof -
  have d: "(mask k :: u32) XOR drop_bit 1 (mask k) = push_bit (k - 1) 1"
    using assms(2,3) by (intro bit_word_eqI) (auto simp: bit_simps)
  have w: "drop_bit 1 (push_bit (k - 1) (1 :: u32)) = push_bit (k - 2) 1"
    using assms(2,3) by (intro bit_word_eqI) (auto simp: bit_simps)
  have m: "drop_bit 2 (mask k :: u32) = mask (k - 2)"
    using assms(2,3) by (intro bit_word_eqI) (auto simp: bit_simps)
  show "EBM_OFFS_DAT (ebm_init s) = push_bit (k - 1) 1" "EBM_WRITE (ebm_init s) = push_bit (k - 2) 1"
    "EBM_READ (ebm_init s) = 0" "EBM_ADR_MASK (ebm_init s) = mask (k - 2)"
    unfolding ebm_init_def Let_def assms(1) d w m by simp_all
qed

lemma ebm_offset_bits:
  assumes "2 \<le> k" "k \<le> 32"
  defines "dat \<equiv> push_bit (k - 1) (1 :: u32)" and "wr \<equiv> push_bit (k - 2) 1"
  shows "dat + ((a AND mask (k - 2)) + wr) = dat OR wr OR (a AND mask (k - 2))"
    "dat + ((a AND mask (k - 2)) + 0) = dat OR (a AND mask (k - 2))"
proof -
  have "(a AND mask (k - 2)) + wr = (a AND mask (k - 2)) OR wr"
    using assms by (intro disjunctive_add_eq_or bit_word_eqI) (auto simp: bit_simps)
  moreover have "dat + ((a AND mask (k - 2)) OR wr) = dat OR ((a AND mask (k - 2)) OR wr)"
    using assms by (intro disjunctive_add_eq_or bit_word_eqI) (auto simp: bit_simps)
  ultimately show "dat + ((a AND mask (k - 2)) + wr) = dat OR wr OR (a AND mask (k - 2))"
    by (simp add: ac_simps)
  show "dat + ((a AND mask (k - 2)) + 0) = dat OR (a AND mask (k - 2))"
    using assms by (simp, intro disjunctive_add_eq_or bit_word_eqI) (auto simp: bit_simps)
qed

text \<open>
  From the offset at which an operation hits the window its parts can be read back: the word
  address in the slave, whether it was a write or a read, and that it is in the data area.
\<close>

theorem ebm_window:
  assumes "dev_adr s DEV_EBM_LAST - dev_adr s DEV_EBM = mask k" "4 \<le> k" "k \<le> 32"
    and "w \<in> {EBM_WRITE (ebm_init s), EBM_READ (ebm_init s)}"
  shows "\<exists>x. dev_out (ebm_op a v w (ebm_init s)) = dev_out s @ [(EBM_SLAVE x, v)] \<and>
    (x AND EBM_ADR_MASK (ebm_init s)) = (a AND EBM_ADR_MASK (ebm_init s) AND NOT 3) \<and>
    (bit x (k - 2) \<longleftrightarrow> w = EBM_WRITE (ebm_init s)) \<and> bit x (k - 1) \<and> x \<le> mask k"
proof -
  have k: "2 \<le> k" using assms(2) by simp
  note i = ebm_init_sel[OF assms(1) k assms(3)] and o = ebm_offset_bits[OF k assms(3)]
  let ?o = "push_bit (k - 1) 1 OR w OR (a AND mask (k - 2)) :: u32"
  let ?x = "push_bit 2 (drop_bit 2 ?o)"
  have w: "w = push_bit (k - 2) 1 \<or> w = 0" using assms(4) i by auto
  have "dev_out (ebm_init s) = dev_out s" by (simp add: ebm_init_def Let_def)
  hence d: "dev_out (ebm_op a v w (ebm_init s)) = dev_out s @ [(EBM_SLAVE ?x, v)]"
    using w unfolding ebm_op_def i Let_def by (elim disjE) (simp_all only: o or.right_neutral or.left_neutral wr_dev_sel)
  have n: "(push_bit (k - 2) 1 :: u32) \<noteq> 0" using assms(3) by (simp add: push_bit_of_1 exp_eq_zero_iff)
  have m3: "bit (3 :: u32) n \<longleftrightarrow> n < 2" for n
    using bit_mask_iff[of 2 n, where 'a = u32] by (auto simp: mask_eq_exp_minus_1)
  have e: "(?x AND mask (k - 2)) = (a AND mask (k - 2) AND NOT 3)"
  proof (rule bit_word_eqI)
    fix n assume "n < LENGTH(32)"
    hence n: "n < 32" by simp
    have w0: "\<not> bit w n" if "n < k - 2" using w that by (elim disjE) (simp_all add: bit_exp_iff)
    show "bit (?x AND mask (k - 2)) n = bit (a AND mask (k - 2) AND NOT 3) n"
    proof (cases "n < 2")
      case False
      moreover have "bit (push_bit 2 (drop_bit 2 y)) n \<longleftrightarrow> 2 \<le> n \<and> bit y n" for y :: u32
        using n le_add_diff_inverse[of 2 n] by (auto simp: bit_push_bit_iff bit_drop_bit_eq simp del: add_2_eq_Suc add_2_eq_Suc')
      ultimately have "bit ?x n = bit (push_bit (k - 1) 1 OR w OR (a AND mask (k - 2)) :: u32) n"
        by (simp only: not_less simp_thms)
      thus ?thesis using n w0 False assms(2,3) m3[of n] by (auto simp: bit_simps)
    next
      case True
      thus ?thesis unfolding bit_and_iff bit_push_bit_iff bit_not_iff m3 by simp
    qed
  qed
  have "bit ?x (k - 2) \<longleftrightarrow> w = push_bit (k - 2) 1" "bit ?x (k - 1)"
    using w n assms(2,3) by (auto simp: bit_simps)
  moreover have "?x AND mask k = ?x" using w assms(2,3) by (intro bit_word_eqI) (auto simp: bit_simps)
  hence "?x \<le> mask k" by (metis word_and_le1)
  ultimately show ?thesis using d e by (auto simp: i)
qed

text \<open>A window of 16 MB.\<close>

definition fw_16m :: fw where
  "fw_16m = \<lparr>wr_time = (\<lambda>n. of_nat (1000 * n)), time_cnt = 1, dev_rd = (\<lambda>r n. 0), rd_cnt = 0, dev_out = [],
     eca_in = (\<lambda>n. None), polls = 0, sdb = (\<lambda>d. 1), eca_queues = [(1, 2)],
     dev_adr = (\<lambda>d. if d = DEV_EBM_LAST then 0xffffff else 0), shm = (\<lambda>a. 7),
     shm_on = True, ram_ext = 0, stray = [], EBM_OFFS_DAT = 0x800000, EBM_OFFS_WR = 0x400000,
     EBM_ADR_MASK = 0x3fffff, EBM_WRITE = 0x400000,
     EBM_READ = 0, nBadStatus = 0, nBadState = 0, flagRecover = 0, wr_time_prev = 0\<rparr>"

theorem ebm_window_witness:
  "\<exists>x. dev_out (ebm_op 0x20000004 9 (EBM_WRITE (ebm_init fw_16m)) (ebm_init fw_16m)) = [(EBM_SLAVE x, 9)] \<and>
     (x AND EBM_ADR_MASK (ebm_init fw_16m)) = 4 \<and> bit x 22 \<and> bit x 23"
proof -
  have d: "dev_adr fw_16m DEV_EBM_LAST - dev_adr fw_16m DEV_EBM = mask 24" "dev_out fw_16m = []"
    by (simp_all add: fw_16m_def mask_eq_exp_minus_1)
  have m: "EBM_ADR_MASK (ebm_init fw_16m) = 0x3fffff" by (simp add: ebm_init_def fw_16m_def Let_def)
  show ?thesis
    using ebm_window[OF d(1), of "EBM_WRITE (ebm_init fw_16m)" "0x20000004" 9] unfolding m d(2) by auto
qed

section \<open>Blocks\<close>

definition win :: "'a fw_scheme \<Rightarrow> u32 \<Rightarrow> u32 \<Rightarrow> reg" where
  "win s a w = EBM_SLAVE (push_bit 2 (drop_bit 2 (EBM_OFFS_DAT s + ((a AND EBM_ADR_MASK s) + w))))"

lemma ebm_op_win: "ebm_op a v w s = wr_dev (win s a w) v s"
  by (simp add: ebm_op_def win_def)

text \<open>What no operation changes.\<close>

definition ebm_frame ::
  "'a fw_scheme \<Rightarrow> u32 \<times> u32 \<times> u32 \<times> u32 \<times> (u32 \<Rightarrow> u32) \<times> bool \<times> u32 \<times> (nat \<Rightarrow> u64) \<times> nat"
where
  "ebm_frame s = (EBM_OFFS_DAT s, EBM_ADR_MASK s, EBM_WRITE s, EBM_READ s, shm s, shm_on s, ram_ext s,
     wr_time s, time_cnt s)"

lemma ebm_frame_wr [simp]: "ebm_frame (wr_dev r v s) = ebm_frame s"
  by (simp add: ebm_frame_def wr_dev_def)

lemma ebm_frame_win: "ebm_frame s' = ebm_frame s \<Longrightarrow> win s' = win s \<and> EBM_WRITE s' = EBM_WRITE s \<and> EBM_READ s' = EBM_READ s \<and> shm s' = shm s \<and>
     ram_ext s' = ram_ext s \<and> wr_time s' = wr_time s \<and> time_cnt s' = time_cnt s"
  by (simp add: ebm_frame_def win_def fun_eq_iff)

lemma ebm_write_ops_out:
  "ebm_frame (ebm_write_ops a ds s) = ebm_frame s \<and>
   dev_out (ebm_write_ops a ds s) = dev_out s @ map (\<lambda>i. (win s (a + 4 * of_nat i) (EBM_WRITE s), ds ! i)) [0..<length ds]"
proof (induction ds arbitrary: a s)
  case (Cons d ds)
  let ?s = "ebm_op a d (EBM_WRITE s) s"
  have f: "ebm_frame ?s = ebm_frame s" by (simp add: ebm_op_win)
  hence w: "win ?s = win s" "EBM_WRITE ?s = EBM_WRITE s" using ebm_frame_win by blast+
  have "map (\<lambda>i. (win s (a + 4 * of_nat i) (EBM_WRITE s), (d # ds) ! i)) [0..<length (d # ds)]
      = (win s a (EBM_WRITE s), d) #
        map (\<lambda>i. (win s (a + 4 + 4 * of_nat i) (EBM_WRITE s), ds ! i)) [0..<length ds]"
    by (simp add: upt_conv_Cons map_Suc_upt[symmetric] o_def algebra_simps del: upt_Suc)
  thus ?case using Cons[of "a + 4" ?s] f w by (simp add: ebm_op_win)
qed simp

lemma ebm_frame_clear: "ebm_frame (sh_clear off n s) =
   (EBM_OFFS_DAT s, EBM_ADR_MASK s, EBM_WRITE s, EBM_READ s, shm (sh_clear off n s), shm_on s, ram_ext s, wr_time s, time_cnt s)"
  by (induction off n s rule: sh_clear.induct) (simp_all add: ebm_frame_def sh_wr_def)

text \<open>What writing a block at \<open>a\<close> does to the devices; a single word goes out twice.\<close>

definition write_log :: "'a fw_scheme \<Rightarrow> u32 \<Rightarrow> u32 list \<Rightarrow> (reg \<times> u32) list" where
  "write_log s a ds = [(EBM_ADR_HI_RW, a)] @
     map (\<lambda>i. (win s (a + 4 * of_nat i) (EBM_WRITE s), ds ! i)) [0..<length ds] @
     (if length ds = 1 then [(win s a (EBM_WRITE s), ds ! 0)] else []) @ [(EBM_FLUSH_OWR, 1)]"

text \<open>The set-up of the window and the extension of the state.\<close>

definition setup_of :: "'a fw_scheme \<Rightarrow> u32 \<times> u32 \<times> u32 \<times> 'a" where
  "setup_of s = (EBM_OFFS_DAT s, EBM_ADR_MASK s, EBM_WRITE s, fw.more s)"

lemma write_log_setup: "setup_of s' = setup_of s \<Longrightarrow> write_log s' = write_log s"
  by (simp add: setup_of_def write_log_def win_def fun_eq_iff)

lemma ebm_write_ops_more [more_simps]: "fw.more (ebm_write_ops a ds s) = fw.more s"
  by (induction a ds s rule: ebm_write_ops.induct) (simp_all add: more_simps)

lemma ebmWriteN_run:
  assumes "1 \<le> length ds" "length ds \<le> 20"
  shows "\<exists>s'. fwlib_ebmWriteN a ds s = (COMMON_STATUS_OK, s') \<and> dev_out s' = dev_out s @ write_log s a ds \<and>
    setup_of s' = setup_of s \<and> shm s' = shm (ebmClearSharedMem s)"
proof -
  let ?c = "ebmClearSharedMem s" and ?h = "ebm_hi a (ebmClearSharedMem s)"
  have c: "win ?h = win s" "EBM_WRITE ?h = EBM_WRITE s" "shm ?h = shm ?c" "dev_out ?h = dev_out s @ [(EBM_ADR_HI_RW, a)]"
    "setup_of ?h = setup_of s"
    using ebm_frame_clear[of COMMON_SHARED_DATA_4EB 20 s]
    by (simp_all add: ebm_frame_def win_def fun_eq_iff ebm_hi_def ebmClearSharedMem_def COMMON_DATA4EBSIZE_def
        sh_clear_sel setup_of_def wr_dev_def)
  let ?w = "ebm_write_ops a ds ?h"
  note o = ebm_write_ops_out[of a ds ?h, unfolded c]
  note ebm_frame_win[OF conjunct1[OF o]]
  hence w: "win ?w = win s" "EBM_WRITE ?w = EBM_WRITE s" "shm ?w = shm ?c" using c by simp_all
  have wm: "setup_of ?w = setup_of s"
    using conjunct1[OF o] c(5) by (simp add: setup_of_def ebm_frame_def more_simps)
  let ?s3 = "if length ds = 1 then ebm_op a (ds ! 0) (EBM_WRITE ?w) ?w else ?w"
  have "fwlib_ebmWriteN a ds s = (COMMON_STATUS_OK, ebm_flush ?s3)"
    using assms by (auto simp: fwlib_ebmWriteN_def COMMON_DATA4EBSIZE_def Let_def)
  moreover have "dev_out (ebm_flush ?s3) = dev_out s @ write_log s a ds"
    using o w by (simp add: ebm_flush_def ebm_op_win write_log_def)
  moreover have "setup_of (ebm_flush ?s3) = setup_of s" "shm (ebm_flush ?s3) = shm ?c"
    using w wm by (simp_all add: ebm_flush_def ebm_op_win setup_of_def wr_dev_def)
  ultimately show ?thesis by blast
qed

text \<open>
  C35. A block of one to twenty words is written to the device: the address' high bits are set once,
  then there is one operation per word, at consecutive word addresses and in order - a single word is
  written twice - and the message is flushed at the end; the data area of the shared memory is
  cleared and nothing else of it touched.  Other sizes are refused without any effect.
\<close>

theorem ebmWriteN_effect:
  assumes "shm_on s"
  shows "(1 \<le> length ds \<and> length ds \<le> 20 \<longrightarrow>
     (\<exists>s'. fwlib_ebmWriteN a ds s = (COMMON_STATUS_OK, s') \<and>
       dev_out s' = dev_out s @ [(EBM_ADR_HI_RW, a)] @
         map (\<lambda>i. (win s (a + 4 * of_nat i) (EBM_WRITE s), ds ! i)) [0..<length ds] @
         (if length ds = 1 then [(win s a (EBM_WRITE s), ds ! 0)] else []) @ [(EBM_FLUSH_OWR, 1)] \<and>
       (\<forall>i < 20. shm s' (COMMON_SHARED_DATA_4EB + 4 * of_nat i) = 0) \<and>
       (\<forall>x. (\<forall>i < 20. x \<noteq> COMMON_SHARED_DATA_4EB + 4 * of_nat i) \<longrightarrow> shm s' x = shm s x))) \<and>
    (length ds = 0 \<or> 20 < length ds \<longrightarrow> fwlib_ebmWriteN a ds s = (COMMON_STATUS_OUTOFRANGE, s))"
proof (intro conjI impI)
  assume n: "1 \<le> length ds \<and> length ds \<le> 20"
  let ?c = "ebmClearSharedMem s"
  have "shm ?c (COMMON_SHARED_DATA_4EB + 4 * of_nat i) = 0" if "i < 20" for i
    using sh_clear_zero[OF assms, of i 20] that by (simp add: ebmClearSharedMem_def COMMON_DATA4EBSIZE_def)
  moreover have "shm ?c x = shm s x" if "\<forall>i < 20. x \<noteq> COMMON_SHARED_DATA_4EB + 4 * of_nat i" for x
    using sh_clear_other[of 20 x COMMON_SHARED_DATA_4EB s] that by (simp add: ebmClearSharedMem_def COMMON_DATA4EBSIZE_def)
  ultimately show "\<exists>s'. fwlib_ebmWriteN a ds s = (COMMON_STATUS_OK, s') \<and>
       dev_out s' = dev_out s @ [(EBM_ADR_HI_RW, a)] @
         map (\<lambda>i. (win s (a + 4 * of_nat i) (EBM_WRITE s), ds ! i)) [0..<length ds] @
         (if length ds = 1 then [(win s a (EBM_WRITE s), ds ! 0)] else []) @ [(EBM_FLUSH_OWR, 1)] \<and>
       (\<forall>i < 20. shm s' (COMMON_SHARED_DATA_4EB + 4 * of_nat i) = 0) \<and>
       (\<forall>x. (\<forall>i < 20. x \<noteq> COMMON_SHARED_DATA_4EB + 4 * of_nat i) \<longrightarrow> shm s' x = shm s x)"
    using ebmWriteN_run[of ds a s] n unfolding write_log_def by auto
qed (auto simp: fwlib_ebmWriteN_def COMMON_DATA4EBSIZE_def)

theorem ebmWriteN_effect_witness:
  "\<exists>s'. fwlib_ebmWriteN 0x100 [5] fw_16m = (COMMON_STATUS_OK, s') \<and> length (dev_out s') = 4 \<and> shm s' 0x8c = 0 \<and> shm s' 0 = 7"
proof -
  have s: "shm_on fw_16m" "dev_out fw_16m = []" "shm fw_16m = (\<lambda>a. 7)" by (simp_all add: fw_16m_def)
  have x: "\<forall>i < 20. (0 :: u32) \<noteq> COMMON_SHARED_DATA_4EB + 4 * of_nat i"
  proof (intro allI impI)
    fix i :: nat assume "i < 20"
    moreover have "COMMON_SHARED_DATA_4EB + 4 * of_nat i = of_nat (140 + 4 * i)"
      by (simp add: COMMON_SHARED_DATA_4EB_def)
    ultimately show "(0 :: u32) \<noteq> COMMON_SHARED_DATA_4EB + 4 * of_nat i"
      using of_nat32_inj[of 0 "140 + 4 * i"] by simp
  qed
  obtain s' where "fwlib_ebmWriteN 0x100 [5] fw_16m = (COMMON_STATUS_OK, s')" "length (dev_out s') = 4"
    "\<forall>i < 20. shm s' (COMMON_SHARED_DATA_4EB + 4 * of_nat i) = 0"
    "\<forall>x. (\<forall>i < 20. x \<noteq> COMMON_SHARED_DATA_4EB + 4 * of_nat i) \<longrightarrow> shm s' x = shm fw_16m x"
    using ebmWriteN_effect[OF s(1), of "[5]" "0x100"] s(2) by auto
  thus ?thesis using x s(3) by (intro exI[of _ s']) (force simp: COMMON_SHARED_DATA_4EB_def)
qed

lemma ebm_read_ops_out:
  "ebm_frame (ebm_read_ops a i k s) = ebm_frame s \<and>
   dev_out (ebm_read_ops a i k s) = dev_out s @ map (\<lambda>j. (win s (a + of_nat (4 * j)) (EBM_READ s), ext_4eb s j)) [i..<i + k]"
proof (induction a i k s rule: ebm_read_ops.induct)
  case (2 a i k s)
  let ?s = "ebm_op (a + of_nat (4 * i)) (ext_4eb s i) (EBM_READ s) s"
  have f: "ebm_frame ?s = ebm_frame s" by (simp add: ebm_op_win)
  hence w: "win ?s = win s" "EBM_READ ?s = EBM_READ s" "ext_4eb ?s = ext_4eb s"
    using ebm_frame_win by (blast, blast, simp add: ext_4eb_def ebm_frame_def fun_eq_iff)
  have "map (\<lambda>j. (win s (a + of_nat (4 * j)) (EBM_READ s), ext_4eb s j)) [i..<i + Suc k]
      = (win s (a + of_nat (4 * i)) (EBM_READ s), ext_4eb s i) #
        map (\<lambda>j. (win s (a + of_nat (4 * j)) (EBM_READ s), ext_4eb s j)) [Suc i..<Suc i + k]"
    by (simp add: upt_conv_Cons del: upt_Suc)
  thus ?case using 2 f w by (simp add: ebm_op_win del: upt_Suc)
qed simp

lemma ebm_wait_stop:
  assumes "\<forall>j < k. wr_time s (time_cnt s + j) < T \<and> reply (i + j) (n + 1) = COMMON_EB_HACKISH"
    and "\<not> (wr_time s (time_cnt s + k) < T \<and> reply (i + k) (n + 1) = COMMON_EB_HACKISH)"
  shows "ebm_wait_data reply T n i s =
    Some (if wr_time s (time_cnt s + k) < T then Some (map (reply (i + k)) [0..<n]) else None,
          s\<lparr>time_cnt := time_cnt s + Suc k\<rparr>)"
  using assms
proof (induction k arbitrary: i s)
  case 0
  thus ?case by (subst ebm_wait_data.simps) (simp add: sys_time_def)
next
  case (Suc k)
  let ?s = "s\<lparr>time_cnt := Suc (time_cnt s)\<rparr>"
  have 0: "wr_time s (time_cnt s) < T" "reply i (n + 1) = COMMON_EB_HACKISH" using Suc.prems(1)[rule_format, of 0] by auto
  have "ebm_wait_data reply T n i s = ebm_wait_data reply T n (Suc i) ?s"
    using 0 by (subst ebm_wait_data.simps) (simp add: sys_time_def)
  moreover have "wr_time s (time_cnt s + Suc j) < T \<and> reply (i + Suc j) (n + 1) = COMMON_EB_HACKISH" if "j < k" for j
    using Suc.prems(1)[rule_format, of "Suc j"] that by simp
  ultimately show ?case using Suc.IH[of ?s "Suc i"] Suc.prems(2) by simp
qed

text \<open>A successful read returns what the network had written when the handshake word changed.\<close>

lemma ebm_wait_data_some:
  assumes "ebm_wait_data reply T n k s = Some r"
  shows "fw.more (snd r) = fw.more s \<and>
    (\<forall>d. fst r = Some d \<longrightarrow> (\<exists>j. d = map (reply j) [0..<n] \<and> reply j (n + 1) \<noteq> COMMON_EB_HACKISH))"
  by (rule ebm_wait_data.raw_induct[where P = "\<lambda>reply T n k s r. fw.more (snd r) = fw.more s \<and>
      (\<forall>d. fst r = Some d \<longrightarrow> (\<exists>j. d = map (reply j) [0..<n] \<and> reply j (n + 1) \<noteq> COMMON_EB_HACKISH))", OF _ assms])
    (auto simp: sys_time_def split: if_splits)

lemma ebm_read_ops_more [more_simps]: "fw.more (ebm_read_ops a i n s) = fw.more s"
  by (induction a i n s rule: ebm_read_ops.induct) (simp_all add: more_simps)

lemma ebmReadN_some:
  assumes "fwlib_ebmReadN reply ms a n s = Some (st, d, s')"
  shows "fw.more s' = fw.more s \<and> (st = COMMON_STATUS_OK \<longrightarrow>
    (\<exists>j. d = map (reply j) [0..<n] \<and> reply j (n + 1) \<noteq> COMMON_EB_HACKISH))"
proof (cases "COMMON_DATA4EBSIZE div 4 \<le> n \<or> n = 0 \<or> \<not> shm_on s")
  case True
  hence "fwlib_ebmReadN reply ms a n s = Some (COMMON_STATUS_OUTOFRANGE, [], s)"
    unfolding fwlib_ebmReadN_def by (elim disjE) simp_all
  thus ?thesis using assms by (simp add: common_status)
next
  case False
  let ?s1 = "sh_wr (COMMON_SHARED_DATA_4EB + of_nat (4 * (n + 1))) COMMON_EB_HACKISH (ebmClearSharedMem s)"
  let ?s2 = "ebm_read_ops a 0 n (ebm_hi a ?s1)"
  let ?s3 = "ebm_flush (ebm_op a (ext_4eb ?s2 (n + 1)) (EBM_READ ?s2) ?s2)"
  have m: "fw.more (snd (sys_time ?s3)) = fw.more s"
    by (simp only: more_simps ebmClearSharedMem_def)
  obtain r where r: "ebm_wait_data reply (fst (sys_time ?s3) + ucast ms * 1000000) n 0 (snd (sys_time ?s3)) = Some r"
    and e: "(case r of (Some d, s5) \<Rightarrow> Some (COMMON_STATUS_OK, d, s5)
            | (None, s5) \<Rightarrow> Some (COMMON_STATUS_EBREADTIMEDOUT, replicate n 0, s5)) = Some (st, d, s')"
    using assms False by (auto simp: fwlib_ebmReadN_def Let_def split_beta split: option.splits)
  show ?thesis using ebm_wait_data_some[OF r] e m
    by (auto simp: common_status split: prod.splits option.splits)
qed

text \<open>A read that starts: the result, the messages sent, and the time that has passed.\<close>

lemma ebmReadN_run:
  fixes s :: "'a fw_scheme" and k ms
  assumes "\<forall>j < k. wr_time s (time_cnt s + Suc j) < wr_time s (time_cnt s) + ucast ms * 1000000 \<and>
      reply j (n + 1) = COMMON_EB_HACKISH"
    and "\<not> (wr_time s (time_cnt s + Suc k) < wr_time s (time_cnt s) + ucast ms * 1000000 \<and>
      reply k (n + 1) = COMMON_EB_HACKISH)" and n: "shm_on s" "0 < n" "n < 20"
  defines "ok \<equiv> wr_time s (time_cnt s + Suc k) < wr_time s (time_cnt s) + ucast ms * 1000000"
  shows "\<exists>s'. fwlib_ebmReadN reply ms a n s = Some (if ok then COMMON_STATUS_OK else COMMON_STATUS_EBREADTIMEDOUT,
              if ok then map (reply k) [0..<n] else replicate n 0, s') \<and>
            dev_out s' = dev_out s @ [(EBM_ADR_HI_RW, a)] @
              map (\<lambda>i. (win s (a + of_nat (4 * i)) (EBM_READ s), ram_ext s + of_nat (4 * i))) [0..<n] @
              [(win s a (EBM_READ s), ram_ext s + of_nat (4 * (n + 1))), (EBM_FLUSH_OWR, 1)] \<and>
            wr_time s' = wr_time s \<and> time_cnt s' = time_cnt s + k + 2 \<and> shm_on s'"
proof -
  let ?s1 = "sh_wr (COMMON_SHARED_DATA_4EB + of_nat (4 * (n + 1))) COMMON_EB_HACKISH (ebmClearSharedMem s)"
  let ?h = "ebm_hi a ?s1"
  let ?s2 = "ebm_read_ops a 0 n ?h"
  let ?s3 = "ebm_flush (ebm_op a (ext_4eb ?s2 (n + 1)) (EBM_READ ?s2) ?s2)"
  have c: "win ?h = win s" "EBM_READ ?h = EBM_READ s" "ram_ext ?h = ram_ext s" "wr_time ?h = wr_time s"
    "time_cnt ?h = time_cnt s" "dev_out ?h = dev_out s @ [(EBM_ADR_HI_RW, a)]"
    using ebm_frame_clear[of COMMON_SHARED_DATA_4EB 20 s]
    by (simp_all add: ebm_frame_def win_def fun_eq_iff ebm_hi_def ebmClearSharedMem_def COMMON_DATA4EBSIZE_def
        sh_clear_sel sh_wr_def wr_dev_def)
  note o = ebm_read_ops_out[of a 0 n ?h]
  have on: "shm_on ?s2" using conjunct1[OF o] n(1) by (simp add: ebm_frame_def ebm_hi_def wr_dev_def sh_wr_def ebmClearSharedMem_def sh_clear_sel)
  note w = ebm_frame_win[OF conjunct1[OF o], unfolded c]
  have t: "wr_time ?s3 = wr_time s" "time_cnt ?s3 = time_cnt s" using w by (simp_all add: ebm_flush_def ebm_op_win)
  have d: "dev_out ?s3 = dev_out s @ [(EBM_ADR_HI_RW, a)] @
      map (\<lambda>i. (win s (a + of_nat (4 * i)) (EBM_READ s), ram_ext s + of_nat (4 * i))) [0..<n] @
      [(win s a (EBM_READ s), ram_ext s + of_nat (4 * (n + 1))), (EBM_FLUSH_OWR, 1)]"
    using w conjunct2[OF o] c by (simp add: ebm_flush_def ebm_op_win ext_4eb_def)
  let ?s4 = "?s3\<lparr>time_cnt := Suc (time_cnt s)\<rparr>"
  let ?T = "wr_time s (time_cnt s) + ucast ms * 1000000"
  have r: "ebm_wait_data reply ?T n 0 ?s4 =
      Some (if ok then Some (map (reply k) [0..<n]) else None, ?s4\<lparr>time_cnt := Suc (time_cnt s) + Suc k\<rparr>)"
    using ebm_wait_stop[of k ?s4 ?T reply 0 n] assms(1,2) t by (simp add: ok_def)
  have "fwlib_ebmReadN reply ms a n s = (case ebm_wait_data reply ?T n 0 ?s4 of
              None \<Rightarrow> None
            | Some (Some d, s5) \<Rightarrow> Some (COMMON_STATUS_OK, d, s5)
            | Some (None, s5) \<Rightarrow> Some (COMMON_STATUS_EBREADTIMEDOUT, replicate n 0, s5))"
    using n t unfolding fwlib_ebmReadN_def Let_def by (simp add: COMMON_DATA4EBSIZE_def sys_time_def)
  thus ?thesis using d t on unfolding r by (cases ok) (simp_all add: ebm_flush_def ebm_op_def)
qed

text \<open>
  C36. Reading a block of up to 19 words ends at the first look at which the reply has come or the time is
  over.  In the first case the words the network has written are returned; in the second the data is
  zero and the status says so.  The requests name one word after the other of the device, the addresses
  in this CPU's memory the answers go to, and last the word that serves as handshake.  Other sizes, and
  a firmware without shared memory, get an error and no message is sent.
\<close>

theorem ebmReadN_result:
  fixes s :: "'a fw_scheme" and k ms
  assumes "\<forall>j < k. wr_time s (time_cnt s + Suc j) < wr_time s (time_cnt s) + ucast ms * 1000000 \<and>
      reply j (n + 1) = COMMON_EB_HACKISH"
    and "\<not> (wr_time s (time_cnt s + Suc k) < wr_time s (time_cnt s) + ucast ms * 1000000 \<and>
      reply k (n + 1) = COMMON_EB_HACKISH)"
  defines "ok \<equiv> wr_time s (time_cnt s + Suc k) < wr_time s (time_cnt s) + ucast ms * 1000000"
  shows "(if shm_on s \<and> 0 < n \<and> n < 20
     then \<exists>s'. fwlib_ebmReadN reply ms a n s = Some (if ok then COMMON_STATUS_OK else COMMON_STATUS_EBREADTIMEDOUT,
              if ok then map (reply k) [0..<n] else replicate n 0, s') \<and>
            dev_out s' = dev_out s @ [(EBM_ADR_HI_RW, a)] @
              map (\<lambda>i. (win s (a + of_nat (4 * i)) (EBM_READ s), ram_ext s + of_nat (4 * i))) [0..<n] @
              [(win s a (EBM_READ s), ram_ext s + of_nat (4 * (n + 1))), (EBM_FLUSH_OWR, 1)]
     else fwlib_ebmReadN reply ms a n s = Some (COMMON_STATUS_OUTOFRANGE, [], s))"
  using ebmReadN_run[of k s ms reply n a, OF assms(1,2), folded ok_def] by (auto simp: fwlib_ebmReadN_def COMMON_DATA4EBSIZE_def)

text \<open>The reply comes with the third look.\<close>

theorem ebmReadN_result_witness:
  "\<exists>s'. fwlib_ebmReadN (\<lambda>(k :: nat) i. if k < 2 then COMMON_EB_HACKISH else of_nat i) 1 0x100 3 fw_16m
     = Some (COMMON_STATUS_OK, [0, 1, 2], s')"
proof -
  let ?r = "\<lambda>(k :: nat) i. if k < 2 then COMMON_EB_HACKISH else of_nat i :: u32"
  have s: "wr_time fw_16m = (\<lambda>n. of_nat (1000 * n))" "time_cnt fw_16m = 1" "shm_on fw_16m" by (simp_all add: fw_16m_def)
  have "wr_time fw_16m (time_cnt fw_16m + Suc j) < wr_time fw_16m (time_cnt fw_16m) + ucast (1 :: u32) * 1000000 \<and>
      ?r j (3 + 1) = COMMON_EB_HACKISH" if "j < 2" for j
  proof -
    have "j = 0 \<or> j = 1" using that by linarith
    thus ?thesis by (elim disjE) (simp_all add: s)
  qed
  moreover have "\<not> (wr_time fw_16m (time_cnt fw_16m + Suc 2) < wr_time fw_16m (time_cnt fw_16m) + ucast (1 :: u32) * 1000000 \<and>
      ?r 2 (3 + 1) = COMMON_EB_HACKISH)"
    by (simp add: COMMON_EB_HACKISH_def)
  moreover have "wr_time fw_16m (time_cnt fw_16m + Suc 2) < wr_time fw_16m (time_cnt fw_16m) + ucast (1 :: u32) * 1000000"
    by (simp add: s)
  ultimately show ?thesis
    using ebmReadN_result[of 2 fw_16m 1 ?r 3 "0x100", OF allI[OF impI]] s(3) by (auto simp: upt_rec)
qed

section \<open>Timing messages\<close>

lemma ebm_tm_out:
  "ebm_frame (fold (\<lambda>w s. ebm_op a w (EBM_WRITE s) s) ws s) = ebm_frame s \<and>
   dev_out (fold (\<lambda>w s. ebm_op a w (EBM_WRITE s) s) ws s) = dev_out s @ map (Pair (win s a (EBM_WRITE s))) ws"
proof (induction ws arbitrary: s)
  case (Cons w ws)
  let ?s = "ebm_op a w (EBM_WRITE s) s"
  have f: "ebm_frame ?s = ebm_frame s" by (simp add: ebm_op_win)
  hence "win ?s = win s" "EBM_WRITE ?s = EBM_WRITE s" using ebm_frame_win by blast+
  thus ?case using Cons[of ?s] f by (simp add: ebm_op_win)
qed simp

lemma eca_tm_out: "dev_out (fold (wr_dev r) ws s) = dev_out s @ map (Pair r) ws"
  by (induction ws arbitrary: s) simp_all

text \<open>What one timing message is for the EB master, and the deadline it gets.\<close>

definition tm_ops :: "'a fw_scheme \<Rightarrow> u64 \<Rightarrow> u64 \<Rightarrow> u64 \<Rightarrow> u32 \<Rightarrow> (reg \<times> u32) list" where
  "tm_ops s dl e p tef =
     [(EBM_ADR_HI_RW, COMMON_ECA_ADDRESS)] @ map (Pair (win s COMMON_ECA_ADDRESS (EBM_WRITE s))) (tm_words dl e p tef)
     @ [(EBM_FLUSH_OWR, 1)]"

definition tm_late :: "u64 \<Rightarrow> u32 \<Rightarrow> 'a fw_scheme \<Rightarrow> bool" where
  "tm_late deadline forced s \<longleftrightarrow> deadline < wr_time s (time_cnt s) + COMMON_LATELIMIT \<and> forced = 0"

definition tm_dl :: "u64 \<Rightarrow> u32 \<Rightarrow> 'a fw_scheme \<Rightarrow> u64" where
  "tm_dl deadline forced s =
     (if tm_late deadline forced s then wr_time s (Suc (time_cnt s)) + COMMON_AHEADT else deadline)"

lemma tm_deadline_cases:
  "\<exists>s1. tm_deadline deadline forced s =
     (tm_dl deadline forced s, if tm_late deadline forced s then COMMON_STATUS_OUTOFRANGE else COMMON_STATUS_OK, s1) \<and>
   ebm_hi COMMON_ECA_ADDRESS s1 = ebm_hi COMMON_ECA_ADDRESS s\<lparr>time_cnt := time_cnt s1\<rparr> \<and> dev_out s1 = dev_out s"
  by (cases "tm_late deadline forced s")
    (auto simp: tm_deadline_def sys_time_def tm_late_def tm_dl_def ebm_hi_def wr_dev_def)

lemma writeTM_out:
  "dev_out (snd (fwlib_ebmWriteTM deadline e p tef forced s)) = dev_out s @ tm_ops s (tm_dl deadline forced s) e p tef"
proof -
  obtain s1 st where d: "tm_deadline deadline forced s = (tm_dl deadline forced s, st, s1)" "ebm_hi COMMON_ECA_ADDRESS s1 =
      ebm_hi COMMON_ECA_ADDRESS s\<lparr>time_cnt := time_cnt s1\<rparr>" "dev_out s1 = dev_out s"
    using tm_deadline_cases[of deadline forced s] by auto
  let ?h = "ebm_hi COMMON_ECA_ADDRESS s1"
  have "win ?h = win s" "EBM_WRITE ?h = EBM_WRITE s" "dev_out ?h = dev_out s @ [(EBM_ADR_HI_RW, COMMON_ECA_ADDRESS)]"
    unfolding d(2) by (simp_all add: win_def fun_eq_iff ebm_hi_def wr_dev_def)
  thus ?thesis
    using conjunct2[OF ebm_tm_out[of COMMON_ECA_ADDRESS "tm_words (tm_dl deadline forced s) e p tef" ?h]]
    by (simp add: fwlib_ebmWriteTM_def d(1) ebm_flush_def tm_ops_def)
qed

text \<open>
  C37. A timing message is the same whether it goes to the network or into this node's own ECA: eight
  words from which event number, parameter, TEF and deadline can be read back.  The deadline is the
  one asked for, or, when that is too soon and being late was not asked for, the present time and
  the lead of 500 us, and then the status says so.
\<close>

theorem tm_remote_local:
  fixes s :: "'a fw_scheme" and deadline forced
  defines "late \<equiv> deadline < wr_time s (time_cnt s) + COMMON_LATELIMIT \<and> forced = 0"
  shows "\<exists>ws. fst (fwlib_ebmWriteTM deadline e p tef forced s) = (if late then COMMON_STATUS_OUTOFRANGE else COMMON_STATUS_OK) \<and>
    fst (fwlib_ecaWriteTM deadline e p tef forced s) = fst (fwlib_ebmWriteTM deadline e p tef forced s) \<and>
    dev_out (snd (fwlib_ebmWriteTM deadline e p tef forced s)) = dev_out s @ [(EBM_ADR_HI_RW, COMMON_ECA_ADDRESS)] @
      map (Pair (win s COMMON_ECA_ADDRESS (EBM_WRITE s))) ws @ [(EBM_FLUSH_OWR, 1)] \<and>
    dev_out (snd (fwlib_ecaWriteTM deadline e p tef forced s)) = dev_out s @ map (Pair ECA_IN) ws \<and>
    length ws = 8 \<and> mk64 (ws ! 0) (ws ! 1) = e \<and> mk64 (ws ! 2) (ws ! 3) = p \<and> ws ! 5 = tef \<and>
    mk64 (ws ! 6) (ws ! 7) = (if late then wr_time s (Suc (time_cnt s)) + COMMON_AHEADT else deadline)"
proof -
  let ?ws = "tm_words (tm_dl deadline forced s) e p tef"
  have l: "tm_late deadline forced s = late" "tm_dl deadline forced s =
      (if late then wr_time s (Suc (time_cnt s)) + COMMON_AHEADT else deadline)"
    by (simp_all add: tm_late_def tm_dl_def late_def)
  obtain s1 where d: "tm_deadline deadline forced s =
      (tm_dl deadline forced s, if late then COMMON_STATUS_OUTOFRANGE else COMMON_STATUS_OK, s1)" "dev_out s1 = dev_out s"
    using tm_deadline_cases[of deadline forced s] by (auto simp: l(1))
  show ?thesis
    using writeTM_out[of deadline e p tef forced s]
    by (intro exI[of _ ?ws] conjI)
      (simp_all add: fwlib_ebmWriteTM_def fwlib_ecaWriteTM_def d eca_tm_out tm_ops_def tm_words_def, simp_all add: l(2))
qed

text \<open>
  The event number of a timing message carries its fields: each can be read back, cut to the
  width it has, whatever the other fields are, and the format is 1.
\<close>

theorem evtid_fields:
  fixes gid evtno flags sid bpid res :: u32
  defines "x \<equiv> fwlib_buildEvtidV1 gid evtno flags sid bpid res"
  shows "drop_bit 60 x = 1 \<and> drop_bit 48 x AND mask 12 = ucast (gid AND mask 12) \<and>
    drop_bit 36 x AND mask 12 = ucast (evtno AND mask 12) \<and> drop_bit 32 x AND mask 4 = ucast (flags AND mask 4) \<and>
    drop_bit 20 x AND mask 12 = ucast (sid AND mask 12) \<and> drop_bit 6 x AND mask 14 = ucast (bpid AND mask 14) \<and>
    x AND mask 6 = ucast (res AND mask 6)"
proof -
  have m: "(0xfff :: u32) = mask 12" "(0xf :: u32) = mask 4" "(0x3fff :: u32) = mask 14" "(0x3f :: u32) = mask 6"
    by (simp_all add: mask_eq_exp_minus_1)
  have f: "bit (0x1000000000000000 :: u64) n \<longleftrightarrow> n = 60" for n
  proof -
    have "(0x1000000000000000 :: u64) = push_bit 60 1" by simp
    thus ?thesis by (simp only: bit_push_bit_iff bit_1_iff possible_bit_word) auto
  qed
  note x = x_def fwlib_buildEvtidV1_def m bit_or_iff bit_push_bit_iff bit_and_iff bit_mask_iff bit_ucast_iff f possible_bit_word
  have y: "n < 12 \<Longrightarrow> bit x (48 + n) = bit gid n" "n < 12 \<Longrightarrow> bit x (36 + n) = bit evtno n"
    "n < 4 \<Longrightarrow> bit x (32 + n) = bit flags n" "n < 12 \<Longrightarrow> bit x (20 + n) = bit sid n"
    "n < 14 \<Longrightarrow> bit x (6 + n) = bit bpid n" "n < 6 \<Longrightarrow> bit x n = bit res n" "bit x (60 + n) = (n = 0)" for n
    unfolding x by simp_all
  note b = bit_and_iff bit_drop_bit_eq comp_def bit_mask_iff bit_ucast_iff possible_bit_word
  show ?thesis
    by (intro conjI bit_word_eqI; unfold b; auto simp: y bit_1_iff)
qed

section \<open>Waiting for the ECA\<close>

lemma eca_poll_stop:
  assumes "\<forall>j < k. wr_time s (time_cnt s + j) < T \<and> eca_in s (polls s + j) = None"
    and "\<not> (wr_time s (time_cnt s + k) < T \<and> eca_in s (polls s + k) = None)"
  shows "eca_poll T s = Some (
    if wr_time s (time_cnt s + k) < T
    then (eca_in s (polls s + k), wr_dev ECAQ_POP 1 (s\<lparr>time_cnt := time_cnt s + Suc k, polls := polls s + Suc k\<rparr>))
    else (None, s\<lparr>time_cnt := time_cnt s + Suc k, polls := polls s + k\<rparr>))"
  using assms
proof (induction k arbitrary: s)
  case 0
  thus ?case by (subst eca_poll.simps) (auto simp: sys_time_def)
next
  case (Suc k)
  let ?s = "s\<lparr>time_cnt := Suc (time_cnt s), polls := Suc (polls s)\<rparr>"
  have 0: "wr_time s (time_cnt s) < T" "eca_in s (polls s) = None" using Suc.prems(1)[rule_format, of 0] by auto
  have "eca_poll T s = eca_poll T ?s" using 0 by (subst eca_poll.simps) (simp add: sys_time_def)
  moreover have "wr_time s (time_cnt s + Suc j) < T \<and> eca_in s (polls s + Suc j) = None" if "j < k" for j
    using Suc.prems(1)[rule_format, of "Suc j"] that by simp
  ultimately show ?case using Suc.IH[of ?s] Suc.prems(2) by simp
qed

text \<open>
  C40. Waiting for the ECA ends with the first action that is there before the time is over, which is
  taken from the queue by one pop, or when the time is over, and then the queue is as it was.
\<close>

theorem wait_takes_first:
  fixes s :: "'a fw_scheme" and us :: u32 and k
  defines "T \<equiv> wr_time s (time_cnt s) + push_bit 10 (ucast us + 1)"
  assumes "\<forall>j < k. wr_time s (time_cnt s + Suc j) < T \<and> eca_in s (polls s + j) = None"
    and "\<not> (wr_time s (time_cnt s + Suc k) < T \<and> eca_in s (polls s + k) = None)"
  shows "\<exists>s'. (if wr_time s (time_cnt s + Suc k) < T
     then \<exists>a. eca_in s (polls s + k) = Some a \<and> fwlib_wait4ECAEvent us s = Some (ea_tag a, a, s') \<and>
            polls s' = polls s + Suc k \<and> dev_out s' = dev_out s @ [(ECAQ_POP, 1)]
     else fwlib_wait4ECAEvent us s = Some (COMMON_ECADO_TIMEOUT, no_action, s') \<and>
            polls s' = polls s + k \<and> dev_out s' = dev_out s)"
proof -
  let ?s = "s\<lparr>time_cnt := Suc (time_cnt s)\<rparr>"
  have p: "eca_poll T ?s = Some (
    if wr_time s (time_cnt s + Suc k) < T
    then (eca_in s (polls s + k), wr_dev ECAQ_POP 1 (s\<lparr>time_cnt := time_cnt s + Suc (Suc k), polls := polls s + Suc k\<rparr>))
    else (None, s\<lparr>time_cnt := time_cnt s + Suc (Suc k), polls := polls s + k\<rparr>))"
    using eca_poll_stop[of k ?s T] assms(2,3) by simp
  have w: "fwlib_wait4ECAEvent us s = (case eca_poll T ?s of
           None \<Rightarrow> None
         | Some (Some a, s2) \<Rightarrow> Some (ea_tag a, a, snd (sys_time s2))
         | Some (None, s2) \<Rightarrow> Some (COMMON_ECADO_TIMEOUT, no_action, s2))"
    unfolding fwlib_wait4ECAEvent_def fwlib_wait4ECAEvent2_def T_def Let_def
    by (auto simp: sys_time_def eca_monitor_def split: option.split prod.split)
  show ?thesis
  proof (cases "wr_time s (time_cnt s + Suc k) < T")
    case True
    then obtain a where "eca_in s (polls s + k) = Some a" using assms(3) by auto
    thus ?thesis using True w unfolding p by simp
  qed (use w in \<open>simp add: p\<close>)
qed

text \<open>An action that comes with the second look.\<close>

theorem wait_takes_first_witness:
  "\<exists>s'. fwlib_wait4ECAEvent 10 (fw_16m\<lparr>eca_in := (\<lambda>n. if n = 0 then None else Some (no_action\<lparr>ea_tag := 0x42\<rparr>))\<rparr>)
     = Some (0x42, no_action\<lparr>ea_tag := 0x42\<rparr>, s') \<and> polls s' = Suc 1 \<and> dev_out s' = [(ECAQ_POP, 1)]"
proof -
  let ?s = "fw_16m\<lparr>eca_in := (\<lambda>n. if n = 0 then None else Some (no_action\<lparr>ea_tag := 0x42\<rparr>))\<rparr>"
  have s: "wr_time ?s = (\<lambda>n. of_nat (1000 * n))" "time_cnt ?s = 1" "polls ?s = 0" "dev_out ?s = []" by (simp_all add: fw_16m_def)
  show ?thesis using wait_takes_first[of 1 ?s 10] unfolding s by (simp add: push_bit_eq_mult)
qed

end
