(* ===== verification/Fbas_Registration.thy ===== *)
theory Fbas_Registration
  imports Fbas_Operation Fw_Transfer
begin

text \<open>
  The registration of an emitter with the collector: request, response, and what the
  emitter sends from then on.  The two nodes are two states of the same firmware; what
  travels between them is the parameter of a timing message.
\<close>

section \<open>The parameter of the registration messages\<close>

definition reg_param :: "u64 \<Rightarrow> u8 \<Rightarrow> u8 \<Rightarrow> u8 \<Rightarrow> u64" where
  "reg_param node_id bic ch f = push_bit 16 node_id OR push_bit 8 (ucast bic) OR push_bit 4 (ucast ch) OR ucast f"

lemma low_bits: "(x :: 'a :: len word) < 2 ^ k \<Longrightarrow> bit x n \<Longrightarrow> n < k"
  using less_mask_eq[of x k] bit_and_iff[of x "mask k" n] bit_mask_iff[of k n, where 'a = "'a word"] by auto

lemma reg_param_node: "node < 2 ^ 48 \<Longrightarrow> ch < 2 ^ 4 \<Longrightarrow> f < 2 ^ 4 \<Longrightarrow> drop_bit 16 (reg_param node bic ch f) = node"
  using low_bits[of node 48] low_bits[of ch 4] low_bits[of f 4] unfolding reg_param_def
  by (intro bit_word_eqI) (auto simp: bit_simps dest: bit_imp_le_length)

lemma reg_param_mps:
  assumes "ch < 2 ^ 4" "f < 2 ^ 4"
  shows "raw_bic (reg_param node bic ch f) = bic" "raw_ch (reg_param node bic ch f) = ch"
    "raw_flag (reg_param node bic ch f) = f"
proof -
  have m: "(0xff :: u8) = mask 8" "(0xf :: u8) = mask 4" by (simp_all add: mask_eq_exp_minus_1)
  show "raw_bic (reg_param node bic ch f) = bic" "raw_ch (reg_param node bic ch f) = ch"
    "raw_flag (reg_param node bic ch f) = f"
    unfolding raw_bic_def raw_ch_def raw_flag_def reg_param_def BIC_MSK_def CH_MSK_def FLAG_MSK_def m
    using low_bits[OF assms(1)] low_bits[OF assms(2)]
    by (intro bit_word_eqI; auto simp: bit_simps dest: bit_imp_le_length)+
qed

text \<open>What one registration message puts on the network.\<close>

lemma register_out:
  "\<exists>pre w dl. dev_out (snd (msgRegisterNode n b c f s)) =
     pre @ map (Pair w) (tm_words dl FBAS_REG_EID (reg_param n b c f) 0) @ [(EBM_FLUSH_OWR, 1)]"
proof -
  obtain now s1 where "sys_time s = (now, s1)" by fastforce
  moreover obtain dl st s2 where "tm_deadline (now + FBAS_AHEAD_TIME) 1 s1 = (dl, st, s2)" by (metis prod_cases3)
  ultimately show ?thesis
    using ebm_tm_out[of COMMON_ECA_ADDRESS "tm_words dl FBAS_REG_EID (reg_param n b c f) 0" "ebm_hi COMMON_ECA_ADDRESS s2"]
    unfolding msgRegisterNode_def fwlib_ebmWriteTM_def reg_param_def by (auto simp: ebm_flush_def)
qed

section \<open>The handshake\<close>

lemma node_reg_rx:
  assumes "nodeType s = FBAS_NODE_RX" "mpsTask s AND TSK_TX_MPS_EVENTS \<noteq> 0"
    and "ea_param a = reg_param node bic ch REG_REQ" "node < 2 ^ 48" "ch < 2 ^ 4" "msgGetSenderIndex node s = Some i"
  shows "eca_node_reg a s = snd (msgRegisterNode (myMac s) (myBic s) (of_nat i) REG_RSP (fwlib_setEbmDstAddr node BROADCAST_IP s))"
proof -
  have "REG_REQ < 2 ^ 4" by (simp add: REG_REQ_def)
  thus ?thesis
    using assms reg_param_node[of node ch REG_REQ bic] reg_param_mps[of ch REG_REQ node bic] by (simp add: eca_node_reg_def)
qed

lemma node_reg_tx:
  assumes "nodeType s = FBAS_NODE_TX" "mpsTask s AND TSK_TX_MPS_EVENTS \<noteq> 0"
    and "ea_param a = reg_param node bic ch REG_RSP" "node < 2 ^ 48" "ch < 2 ^ 4"
  shows "eca_node_reg a s = (msgInitPcEventBuf (myMac s) bic ch (s\<lparr>dstMac := (dstMac s)(DST_ADDR_RXNODE := node), myIdx := ch\<rparr>))
    \<lparr>mpsTask := mpsTask s OR TSK_REG_COMPLETE\<rparr>"
proof -
  have "REG_RSP < 2 ^ 4" by (simp add: REG_RSP_def)
  thus ?thesis
    using assms reg_param_node[of node ch REG_RSP bic] reg_param_mps[of ch REG_RSP node bic] by (simp add: eca_node_reg_def)
qed

lemma setEndp_mac: "myMac (snd (setEndpDstAddr d s)) = myMac s"
proof -
  have "myMac (fwlib_setEbmDstAddr m i s) = myMac s" for m i by (rule myMac_more) (simp add: fwlib_setEbmDstAddr_def more_simps)
  thus ?thesis by (simp add: setEndpDstAddr_def Let_def)
qed

text \<open>
  C38. An emitter registers: its request names its address; the collector, which knows the address
  on channel c, answers with its own address and the channel; with the answer the emitter is
  registered, addresses the collector directly, and what it sends from then on is stored by the
  collector on channel c.  (The collector must have set the channel's BIC to its own, which the
  command that registers a sender does.)
\<close>

theorem registration_handshake:
  fixes tx rx :: fbas and c req rsp
  assumes rx: "registry rx" "nodeType rx = FBAS_NODE_RX" "mpsTask rx AND TSK_TX_MPS_EVENTS \<noteq> 0" "myMac rx < 2 ^ 48"
      "c < 16" "senders rx ! c = ucast (myMac tx)" "bic_id (bufMpsMsg rx ! c) = myBic rx"
    and tx: "nodeType tx = FBAS_NODE_TX" "mpsTask tx AND TSK_TX_MPS_EVENTS \<noteq> 0" "myMac tx < 2 ^ 48"
      "ucast (myMac tx) \<noteq> (0 :: mac)" "bufMpsMsg tx \<noteq> []"
    and req: "ea_param req = reg_param (myMac tx) BIC_MSK CH_MSK REG_REQ"
    and rsp: "ea_param rsp = reg_param (myMac rx) (myBic rx) (of_nat c) REG_RSP"
  defines "rx' \<equiv> eca_node_reg req rx" and "tx' \<equiv> eca_node_reg rsp tx"
  shows "(\<exists>pre w dl. dev_out (send_reg_request tx) =
      pre @ map (Pair w) (tm_words dl FBAS_REG_EID (ea_param req) 0) @ [(EBM_FLUSH_OWR, 1)]) \<and>
    (\<exists>pre w dl. dev_out rx' = pre @ map (Pair w) (tm_words dl FBAS_REG_EID (ea_param rsp) 0) @ [(EBM_FLUSH_OWR, 1)]) \<and>
    mpsTask tx' AND TSK_REG_COMPLETE \<noteq> 0 \<and> myIdx tx' = of_nat c \<and> dstMac tx' DST_ADDR_RXNODE = myMac rx \<and>
    (\<forall>t ctrl. t \<noteq> tsRx (bufMpsMsg rx ! c) \<longrightarrow>
       fst (msgStoreMpsMsg (mps_param (bufMpsMsg tx' ! 0)) t ctrl rx') = Some c)"
proof -
  have f: "msgGetSenderIndex (myMac tx) rx = Some c" using rx(1,5,6) tx(4) by (intro registered_found) simp_all
  have ch: "CH_MSK < 2 ^ 4" by (simp add: CH_MSK_def)
  have "unat (of_nat c :: u8) < 16" using chan_cast(2)[OF rx(5)] rx(5) by simp
  hence c: "(of_nat c :: u8) < 2 ^ 4" by (simp add: word_less_nat_alt)
  have r: "rx' = snd (msgRegisterNode (myMac rx) (myBic rx) (of_nat c) REG_RSP (fwlib_setEbmDstAddr (myMac tx) BROADCAST_IP rx))"
    unfolding rx'_def using rx(2,3) req tx(3) ch f by (rule node_reg_rx)
  have t: "tx' = (msgInitPcEventBuf (myMac tx) (myBic rx) (of_nat c) (tx\<lparr>dstMac := (dstMac tx)(DST_ADDR_RXNODE := myMac rx), myIdx := of_nat c\<rparr>))
      \<lparr>mpsTask := mpsTask tx OR TSK_REG_COMPLETE\<rparr>"
    unfolding tx'_def using tx(1,2) rsp rx(4) c by (rule node_reg_tx)
  have "kept rx' = kept rx" unfolding r by (simp add: kept_simps)
  hence b: "bufMpsMsg rx' = bufMpsMsg rx" by (simp add: kept_def)
  let ?m = "bufMpsMsg tx' ! 0"
  have m: "addr ?m = ucast (myMac tx)" "bic_id ?m = myBic rx" "ch_id ?m = of_nat c"
  proof -
    have "(ucast (of_nat c :: u8) :: 4 word) = of_nat c"
      using rx(5) by (simp add: word_unat_eq_iff unsigned_ucast_eq unat_of_nat take_bit_nat_eq_self)
    thus "addr ?m = ucast (myMac tx)" "bic_id ?m = myBic rx" "ch_id ?m = of_nat c"
      using tx(5) unfolding t by (simp_all add: msgInitPcEventBuf_def)
  qed
  have l: "length (bufMpsMsg rx) = 16" "addr (bufMpsMsg rx ! c) = senders rx ! c" "ch_id (bufMpsMsg rx ! c) = of_nat c"
    using rx(1,5,6) tx(4) by (auto simp: registry_def)
  have st: "fst (msgStoreMpsMsg (mps_param ?m) t' ctrl rx') = Some c" if "t' \<noteq> tsRx (bufMpsMsg rx ! c)" for t' ctrl
    using store_sel[of rx' "mps_param ?m" c t' ctrl] that l m b rx(5,6,7) chan_cast(1)[OF rx(5)] by simp
  have bits: "(x OR TSK_REG_COMPLETE) AND TSK_REG_COMPLETE = TSK_REG_COMPLETE" for x
    by (metis word_ao_absorbs(1) or.commute and.commute)
  hence "mpsTask tx' AND TSK_REG_COMPLETE \<noteq> 0" unfolding t by (simp add: TSK_REG_COMPLETE_def)
  moreover have "myIdx tx' = of_nat c" "dstMac tx' DST_ADDR_RXNODE = myMac rx"
    unfolding t by (simp_all add: msgInitPcEventBuf_def)
  moreover have "\<exists>pre w dl. dev_out (send_reg_request tx) =
      pre @ map (Pair w) (tm_words dl FBAS_REG_EID (ea_param req) 0) @ [(EBM_FLUSH_OWR, 1)]"
  proof -
    obtain s1 where "setEndpDstAddr DST_ADDR_BROADCAST tx = (COMMON_STATUS_OK, s1)" "myMac s1 = myMac tx"
      using setEndp_ok[of DST_ADDR_BROADCAST tx] setEndp_mac[of DST_ADDR_BROADCAST tx]
      by (cases "setEndpDstAddr DST_ADDR_BROADCAST tx") auto
    thus ?thesis using register_out[of "myMac tx" BIC_MSK CH_MSK REG_REQ s1] by (simp add: send_reg_request_def req)
  qed
  moreover have "\<exists>pre w dl. dev_out rx' = pre @ map (Pair w) (tm_words dl FBAS_REG_EID (ea_param rsp) 0) @ [(EBM_FLUSH_OWR, 1)]"
    unfolding r rsp by (rule register_out)
  ultimately show ?thesis using st by blast
qed

text \<open>The emitter 0x1234 and a collector that knows it on channel 3.\<close>

definition tx_node :: fbas where
  "tx_node = fbas_blank\<lparr>myMac := 0x1234, mpsTask := TSK_TX_MPS_EVENTS\<rparr>"

definition rx_node :: fbas where
  "rx_node = fbas_one\<lparr>myMac := 0x99, myBic := 0, nodeType := FBAS_NODE_RX, mpsTask := TSK_TX_MPS_EVENTS\<rparr>"

theorem registration_handshake_witness:
  "\<exists>req rsp. myIdx (eca_node_reg rsp tx_node) = 3 \<and> dstMac (eca_node_reg rsp tx_node) DST_ADDR_RXNODE = 0x99 \<and>
     fst (msgStoreMpsMsg (mps_param (bufMpsMsg (eca_node_reg rsp tx_node) ! 0)) 7 ctrl0 (eca_node_reg req rx_node)) = Some 3"
proof -
  have r: "registry rx_node" "nodeType rx_node = FBAS_NODE_RX" "mpsTask rx_node AND TSK_TX_MPS_EVENTS \<noteq> 0" "myMac rx_node = 0x99"
    "senders rx_node ! 3 = 0x1234" "bic_id (bufMpsMsg rx_node ! 3) = 0" "tsRx (bufMpsMsg rx_node ! 3) = 0" "myBic rx_node = 0"
  proof -
    have "registry rx_node = registry fbas_one" by (simp add: rx_node_def registry_def)
    thus "registry rx_node" using one_registry(1) by simp
  qed (use one_registry in \<open>simp_all add: rx_node_def TSK_TX_MPS_EVENTS_def\<close>)
  have t: "nodeType tx_node = FBAS_NODE_TX" "mpsTask tx_node AND TSK_TX_MPS_EVENTS \<noteq> 0" "myMac tx_node = 0x1234" "bufMpsMsg tx_node \<noteq> []"
    by (simp_all add: tx_node_def fbas_blank_def TSK_TX_MPS_EVENTS_def N_MAX_MPS_CHANNELS_def N_MPS_CHANNELS_def N_MAX_TX_NODES_def)
  let ?req = "no_action\<lparr>ea_param := reg_param (myMac tx_node) BIC_MSK CH_MSK REG_REQ\<rparr>"
  let ?rsp = "no_action\<lparr>ea_param := reg_param (myMac rx_node) (myBic rx_node) (of_nat 3) REG_RSP\<rparr>"
  show ?thesis
    using registration_handshake[of rx_node 3 tx_node ?req ?rsp] r t by (intro exI[of _ ?req] exI[of _ ?rsp]) simp
qed

end
