(* ===== verification/Fbas_Senders.thy ===== *)
theory Fbas_Senders
  imports Fbas_Recovery
begin

text \<open>
  The table of senders over the life of the firmware: only the command that registers a
  sender changes it, and it never holds an address twice, so that looking up an address
  is well defined.
\<close>

section \<open>Who changes the table\<close>

lemma senders_kept: "kept s' = kept s \<Longrightarrow> senders s' = senders s"
  by (simp add: kept_def)

lemmas senders_simps = kept_basic[THEN senders_kept] kept_stat[THEN senders_kept] kept_timer[THEN senders_kept]
  kept_dst[THEN senders_kept] kept_io[THEN senders_kept] kept_sb[THEN senders_kept] kept_configure[THEN senders_kept]
  kept_op[THEN senders_kept] kept_msg[THEN senders_kept] kept_status[THEN senders_kept] kept_cmd[THEN senders_kept]

lemma senders_fold: "(\<And>x s. senders (f x s) = senders s) \<Longrightarrow> senders (fold f xs s) = senders s"
  by (induction xs arbitrary: s) simp_all

lemma senders_msg:
  "senders (msgForceHigh b s) = senders s" "senders (msgStorePcEvent e t s) = senders s"
  "senders (snd (msgStoreMpsMsg r t ct s)) = senders s" "senders (msgResetMpsBuf c i f s) = senders s"
  "senders (msgInitPcEventBuf m bi ch s) = senders s" "senders (msgSetBic bi s) = senders s"
  "senders (snd (evalMpsMsgTtl k s)) = senders s" "senders (msgInitMpsMsgBuf m s) = senders s"
proof -
  show r: "senders (msgResetMpsBuf c i f s) = senders s" for c i f s by (simp add: msgResetMpsBuf_def)
  show "senders (msgInitMpsMsgBuf m s) = senders s" unfolding msgInitMpsMsgBuf_def by (rule senders_fold) (rule r)
qed (simp_all add: msgForceHigh_def msgStorePcEvent_def msgStoreMpsMsg_def msgInitPcEventBuf_def msgSetBic_def
    evalMpsMsgTtl_def Let_def split: option.split prod.split)

lemma senders_eca:
  "senders (eca_newcycle buf now s) = senders s" "senders (snd (eca_gen_evt a buf now s)) = senders s"
  "senders (eca_wr_msg a buf now s) = senders s" "senders (eca_node_reg a s) = senders s"
proof -
  note sm = senders_simps senders_msg
  show "senders (eca_newcycle buf now s) = senders s"
    by (simp add: eca_newcycle_def Let_def senders_msg)
  show "senders (snd (eca_gen_evt a buf now s)) = senders s"
    by (simp add: eca_gen_evt_def Let_def split_beta sm del: sys_time_sel)
  show "senders (eca_node_reg a s) = senders s"
    by (simp add: eca_node_reg_def Let_def sm split: option.split)
  have o: "senders (snd (fwlib_getEcaOverflowCnt s)) = senders s" for s
    by (simp add: fwlib_getEcaOverflowCnt_def sm)
  show "senders (eca_wr_msg a buf now s) = senders s"
    by (simp add: eca_wr_msg_def Let_def split_beta sm o del: sys_time_sel split: option.split prod.split)
qed

lemma senders_dispatch: "senders (snd (eca_dispatch tag a buf now s)) = senders s"
  by (simp add: eca_dispatch_def senders_eca setOpMode_def)

lemma senders_handle:
  assumes "handleEcaEvent us buf s = Some (tag, buf', s')"
  shows "senders s' = senders s"
proof -
  obtain t a s1 where w: "fwlib_wait4ECAEvent us s = Some (t, a, s1)"
    using assms by (auto simp: handleEcaEvent_def split: option.splits)
  have "senders s1 = senders s" by (rule senders_kept[OF kept_more[OF more_wait[OF w]]])
  thus ?thesis
    using assms w senders_dispatch[of t a buf "fst (sys_time s1)" "snd (sys_time s1)"]
    by (auto simp: handleEcaEvent_def split_beta Let_def split: if_splits prod.splits)
qed

lemma senders_actions: "op_actions t buf n s = Some r \<Longrightarrow> senders (snd r) = senders s"
proof (erule op_actions.raw_induct[where P = "\<lambda>t buf n s r. senders (snd r) = senders s", rotated], goal_cases)
  case (1 rec t buf n s r)
  have c: "senders (snd (sys_time s)) = senders s" by simp
  show ?case
  proof (cases "fst (sys_time s) < t")
    case True
    then obtain tag b' s2 n' where "handleEcaEvent 15 buf (snd (sys_time s)) = Some (tag, b', s2)"
        "rec t b' n' s2 = Some r"
      using 1(2) by (auto simp: split_beta split: option.splits prod.splits)
    thus ?thesis using 1(1) c senders_handle by metis
  qed (use 1(2) c in \<open>auto simp: split_beta\<close>)
qed

lemma senders_op: "senders (op_tx s) = senders s" "senders (op_rx s) = senders s"
proof -
  note sm = senders_simps senders_msg
  have f: "senders (snd (msgSendPcFlag e x)) = senders x" for e x
  proof -
    define y where "y = ebm_flush (fold (\<lambda>w s. ebm_op COMMON_ECA_ADDRESS w (EBM_WRITE s) s)
        (tm_words (fst (sys_time x) + FBAS_AHEAD_TIME) e (mps_param (bufMpsMsg (snd (sys_time x)) ! 0)) 0)
        (ebm_hi COMMON_ECA_ADDRESS (snd (sys_time x))))"
    have "senders y = senders (snd (sys_time x))"
      unfolding y_def by (rule senders_kept, rule kept_more) (simp add: more_simps del: sys_time_sel)
    hence "senders y = senders x" by simp
    thus ?thesis unfolding msgSendPcFlag_def Let_def split_beta y_def[symmetric] by simp
  qed
  show "senders (op_tx s) = senders s"
    by (auto simp: op_tx_def Let_def split_beta f sm simp del: sys_time_sel)
  have e: "senders (op_eval now i s) = senders s" for now i s
    by (simp add: op_eval_def Let_def split_beta sm)
  hence "senders (fold (op_eval now) xs s) = senders s" for now xs s by (rule senders_fold)
  thus "senders (op_rx s) = senders s" by (simp add: op_rx_def split_beta sm)
qed

lemma senders_operation:
  assumes "doActionOperation st s = Some (st', s')"
  shows "senders s' = senders s"
proof -
  obtain n s2 where a: "op_actions (fst (sys_time s) + 92160) (Some 0) 0 (snd (sys_time s)) = Some (n, s2)"
    and s': "s' = op_period (let s3 = op_timers (s2\<lparr>msr := measureActionRate (ucast n) (msr s2)\<rparr>) in
      if nodeType s3 = FBAS_NODE_TX then op_tx s3 else if nodeType s3 = FBAS_NODE_RX then op_rx s3 else s3)"
    using assms by (auto simp: doActionOperation_def split_beta Let_def split: option.splits)
  have "senders s2 = senders s" using senders_actions[OF a] by simp
  thus ?thesis unfolding s' Let_def by (simp add: senders_op senders_simps)
qed

lemma senders_configured: "senders (snd (extern_entryActionConfigured pci s)) = senders s"
proof -
  have "senders (initMpsData x) = senders x" for x
    by (simp add: initMpsData_def Let_def initCounters_def senders_simps senders_msg)
  thus ?thesis by (simp add: extern_entryActionConfigured_def split_beta senders_simps)
qed

lemma senders_entered: "senders (enter_operation s) = senders s"
  by (simp add: enter_operation_def Let_def initCounters_def senders_simps split_beta)

section \<open>The table is a dictionary\<close>

definition unique :: "mac list \<Rightarrow> bool" where
  "unique xs \<longleftrightarrow> length xs = 16 \<and> (\<forall>i < 16. \<forall>j < 16. xs ! i = xs ! j \<and> xs ! i \<noteq> 0 \<longrightarrow> i = j)"

definition table_ok :: "fbas \<Rightarrow> bool" where
  "table_ok s \<longleftrightarrow> unique (senders s) \<and> length (bufMpsMsg s) = 16"

lemma table_senders: "senders s' = senders s \<Longrightarrow> length (bufMpsMsg s') = 16 \<Longrightarrow> table_ok s \<Longrightarrow> table_ok s'"
  by (simp add: table_ok_def)

text \<open>Also without any assumption on the channel: out of range nothing is entered, and the address
  0 only makes room.\<close>

lemma unique_update:
  assumes "table_ok s" "unat (drop_bit 56 w) < 16"
  shows "table_ok (msgUpdateMpsBuf w s)"
proof -
  have l: "length (senders s) = 16" "length (bufMpsMsg s) = 16" using assms(1) by (simp_all add: table_ok_def unique_def)
  show ?thesis
  proof (cases "(ucast w :: mac) = 0")
    case False
    note u = update_sel[OF l refl assms(2) refl False]
    show ?thesis
      unfolding table_ok_def unique_def using u assms unfolding table_ok_def unique_def
      by (simp add: nth_list_update) (metis (no_types, lifting))
  next
    case True
    have r: "length (senders x) = 16 \<Longrightarrow> length (bufMpsMsg x) = 16 \<Longrightarrow> length (senders (remove_sender 0 i x)) = 16 \<and>
        length (bufMpsMsg (remove_sender 0 i x)) = 16 \<and> (\<forall>j < 16. senders (remove_sender 0 i x) ! j = senders x ! j)" for i x
    proof -
      have "senders x ! i = 0 \<Longrightarrow> (senders x)[i := 0] = senders x" by (metis list_update_id)
      thus "length (senders x) = 16 \<Longrightarrow> length (bufMpsMsg x) = 16 \<Longrightarrow> length (senders (remove_sender 0 i x)) = 16 \<and>
          length (bufMpsMsg (remove_sender 0 i x)) = 16 \<and> (\<forall>j < 16. senders (remove_sender 0 i x) ! j = senders x ! j)"
        by (auto simp: remove_sender_def msgResetMpsBuf_def)
    qed
    have f: "length (senders x) = 16 \<Longrightarrow> length (bufMpsMsg x) = 16 \<Longrightarrow>
        length (senders (fold (remove_sender 0) is x)) = 16 \<and> length (bufMpsMsg (fold (remove_sender 0) is x)) = 16 \<and>
        (\<forall>j < 16. senders (fold (remove_sender 0) is x) ! j = senders x ! j)" for "is" x
      using r by (induction "is" arbitrary: x) (simp, fastforce)
    have "unique (xs[c := 0])" if "length xs = 16" "\<forall>j < 16. xs ! j = senders s ! j" "c < 16" for xs c
      using that assms(1) by (auto simp: table_ok_def unique_def nth_list_update split: if_splits)
    thus ?thesis
      using f[OF l, of "[0..<N_MAX_TX_NODES]"] True assms(2)
      by (simp add: msgUpdateMpsBuf_def Let_def msgResetMpsBuf_def table_ok_def)
  qed
qed

lemma table_app:
  assumes "unique (senders s)" "settled s"
  shows "unique (senders (handleAppCmd cmd s))"
proof -
  define t where "t = s\<lparr>cntCmd := cntCmd s + 1\<rparr>"
  have t: "senders t = senders s" "table_ok t" using assms
    by (simp_all add: t_def table_ok_def settled_def N_MAX_MPS_CHANNELS_def N_MPS_CHANNELS_def N_MAX_TX_NODES_def)
  have n: "unique (senders (snd (readNodeId off t)))" for off
  proof (cases "unat (ucast (drop_bit 56 (sh_rd64 t off)) :: u8) < N_MAX_TX_NODES")
    case True
    have "unat (drop_bit 56 (sh_rd64 t off)) = unat (ucast (drop_bit 56 (sh_rd64 t off)) :: u8)"
    proof -
      have "unat (drop_bit 56 x) < 256" for x :: u64
        using unat64_less[of x] by (simp add: drop_bit_eq_div unat_div_distrib less_mult_imp_div_less)
      thus ?thesis by (simp add: unsigned_ucast_eq take_bit_nat_eq_self)
    qed
    hence "table_ok (msgUpdateMpsBuf (sh_rd64 t off) t)"
      using True by (intro unique_update[OF t(2)]) (simp add: N_MAX_TX_NODES_def)
    thus ?thesis using True by (simp add: readNodeId_def Let_def split_beta senders_simps table_ok_def)
  qed (use t assms in \<open>simp add: readNodeId_def Let_def\<close>)
  have r: "senders (snd (measureExportActionRate b m t)) = senders t" for b m by (rule senders_kept[OF kept_rate])
  show ?thesis
    unfolding handleAppCmd_def t_def[symmetric] Let_def
    by (cases "map_of print_cmds cmd"; simp only: option.case; intro if_I[of _ "\<lambda>s. unique (senders s)"];
        simp add: n t(1) assms r senders_simps senders_msg split_beta)
qed

text \<open>The application keeps the table in every transition.\<close>

interpretation fbas_table: fw_application "fbas_hooks pci" "\<lambda>s. unique (senders s)" for pci
proof
  fix s s' :: fbas and st
  show "unique (senders s')" if "unique (senders s)" "entryActionConfigured (fbas_hooks pci) s = Some (st, s')"
    using that senders_configured[of pci s] by (auto simp: fbas_hooks_def)
  show "unique (senders s')" if "unique (senders s)" "entryActionOperation (fbas_hooks pci) s = Some (st, s')"
    using that flush_kept[THEN senders_kept]
    by (auto simp: fbas_hooks_def extern_entryActionOperation_def senders_entered split: option.splits)
  show "unique (senders (snd (exitActionOperation (fbas_hooks pci) s)))" if "unique (senders s)"
    using that by (simp add: fbas_hooks_def extern_exitActionOperation_def senders_simps)
  show "unique (senders s')" if "fw.more s' = fw.more s" "unique (senders s)"
    using that senders_kept[OF kept_more[OF that(1)]] by simp
qed

lemma table_iter:
  assumes "fbas_iter pci c = Some c'" "unique (senders (snd (snd (snd c))))" "settled (snd (snd (snd c)))"
  shows "unique (senders (snd (snd (snd c'))))"
proof -
  obtain req act pub s where c: "c = (req, act, pub, s)" by (cases c)
  obtain req1 cmd s1 where h: "fwlib_cmdHandler extern_clearDiag req s = (req1, cmd, s1)"
    by (cases "fwlib_cmdHandler extern_clearDiag req s")
  have k: "kept s1 = kept s" using kept_cmd[of req s] h by simp
  have 1: "unique (senders s1)" "settled s1"
    using assms(2,3) settled_kept[OF k] senders_kept[OF k] by (simp_all add: c)
  hence 2: "unique (senders (cmdHandler act cmd s1))" by (simp add: cmdHandler_def table_app)
  obtain act' req2 st s2 where ch: "fwlib_changeState (fbas_hooks pci) act req1 COMMON_STATUS_OK (cmdHandler act cmd s1)
      = Some (act', req2, st, s2)"
    using assms(1) by (cases "fwlib_changeState (fbas_hooks pci) act req1 COMMON_STATUS_OK (cmdHandler act cmd s1)")
      (auto simp: fbas_iter_def c h)
  have 3: "unique (senders s2)" by (rule fbas_table.change_keeps[OF ch 2])
  obtain req3 st' s3 where d: "(if act' = COMMON_STATE_OPREADY
      then map_option (\<lambda>(st, s'). (if st = COMMON_STATUS_WRBADSYNC \<or> st = COMMON_STATUS_ERROR
                                             then COMMON_STATE_ERROR else req2, st, s')) (doActionOperation st s2)
      else fwlib_doActionState req2 act' st s2) = Some (req3, st', s3)"
    and c': "c' = (req3, act', act', fwlib_publishState act' (let s4 = update_status st' s3;
        s5 = (if pub = COMMON_STATE_OPREADY \<and> act' \<noteq> COMMON_STATE_OPREADY then fwlib_incBadStateCnt s4 else s4)
        in fwlib_publishStatusArray (ucast (statusArray s5)) s5))"
    using assms(1) unfolding fbas_iter_def c prod.case h ch option.case Let_def by (auto split: option.splits)
  have "senders s3 = senders s2"
  proof (cases "act' = COMMON_STATE_OPREADY")
    case True
    then obtain z where "doActionOperation st s2 = Some (z, s3)" using d by (auto split: if_splits)
    thus ?thesis by (rule senders_operation)
  next
    case False
    hence "fwlib_doActionState req2 act' st s2 = Some (req3, st', s3)" using d by simp
    thus ?thesis by (rule senders_kept[OF kept_do])
  qed
  thus ?thesis using 3 by (simp add: c' Let_def senders_simps)
qed

lemma table_reach: "fbas_reach pci c \<Longrightarrow> unique (senders (snd (snd (snd c))))"
proof (induction rule: fbas_reach.induct)
  case (start s rams adr cpu offs c)
  have "senders (snd (initSharedMem rams adr cpu offs (fwlib_clearDiag extern_clearDiag s))) = senders s"
    by (simp add: initSharedMem_def fwlib_clearDiag_def extern_clearDiag_def Let_def split_beta senders_simps)
  moreover have "unique (senders s)" using start(1) by (simp add: power_on_def unique_def N_MAX_TX_NODES_def)
  ultimately show ?case using start(2) by (auto simp: fbas_start_def split: if_splits prod.splits)
next
  case (pass c c')
  obtain req act pub s where "c = (req, act, pub, s)" by (cases c)
  hence "settled (snd (snd (snd c)))" using lifetime_reach[OF pass(1)] by (simp add: lifetime_inv_def)
  thus ?case using table_iter[OF pass(2)] pass(3) by simp
qed (simp_all add: timerHandler_def)

text \<open>
  C39. In every reachable state the arrays have their sixteen entries and the table of senders is a
  dictionary: the look-up of an address finds channel i exactly when the table has it there.
\<close>

theorem sender_lookup:
  assumes "fbas_reach pci (req, act, pub, s)"
  shows "length (senders s) = N_MAX_TX_NODES \<and> length (bufMpsMsg s) = N_MAX_MPS_CHANNELS \<and>
    (\<forall>w i. ucast w \<noteq> (0 :: mac) \<longrightarrow>
       (msgGetSenderIndex w s = Some i \<longleftrightarrow> i < N_MAX_TX_NODES \<and> senders s ! i = ucast w))"
proof -
  have u: "unique (senders s)" using table_reach[OF assms] by simp
  have "length (bufMpsMsg s) = N_MAX_MPS_CHANNELS" using lifetime_reach[OF assms] by (simp add: lifetime_inv_def settled_def)
  moreover have "msgGetSenderIndex w s = Some i \<longleftrightarrow> i < 16 \<and> senders s ! i = ucast w" if "ucast w \<noteq> (0 :: mac)" for w i
  proof
    assume "msgGetSenderIndex w s = Some i"
    thus "i < 16 \<and> senders s ! i = ucast w" using u by (auto simp: msgGetSenderIndex_def find_sender_spec unique_def)
  next
    assume i: "i < 16 \<and> senders s ! i = ucast w"
    have "\<forall>m < i. senders s ! m \<noteq> ucast w"
      using u i that unfolding unique_def by (metis less_trans less_irrefl)
    thus "msgGetSenderIndex w s = Some i"
      using i u by (auto simp: msgGetSenderIndex_def find_sender_spec unique_def)
  qed
  ultimately show ?thesis using u by (simp add: N_MAX_TX_NODES_def unique_def)
qed

theorem sender_lookup_witness:
  "\<exists>c. fbas_reach False c \<and> length (senders (snd (snd (snd c)))) = N_MAX_TX_NODES"
proof -
  let ?s = "snd (initSharedMem 1 (\<lambda>i. 0x84000000) 0 0 (fwlib_clearDiag extern_clearDiag fbas_blank))"
  have "fbas_start 1 (\<lambda>i. 0x84000000) 0 0 fbas_blank
      = Some (COMMON_STATE_S0, COMMON_STATE_UNKNOWN, COMMON_STATE_UNKNOWN, ?s)"
    by (simp add: fbas_start_def initSharedMem_def Let_def split_beta common_status)
  hence "fbas_reach False (COMMON_STATE_S0, COMMON_STATE_UNKNOWN, COMMON_STATE_UNKNOWN, ?s)"
    by (rule fbas_reach.start[OF blank_power_on])
  thus ?thesis using sender_lookup by fastforce
qed

end
