(* ===== verification/Fw_Float.thy ===== *)
theory Fw_Float
  imports Fwlib
begin

text \<open>
  Floating point numbers of the firmware: what the C operators and conversions on \<open>float\<close> and
  \<open>double\<close> compute (IEEE 754, binary32 and binary64, rounding to nearest, ties to even; all operands
  and results are bit patterns), and the routines of the library that use them: times in nanoseconds as
  \<open>float\<close> (modules/common-libs/fw/common-fwlib.c) and the 16-bit half precision of the timing messages
  (modules/common-libs/include/common-core.c).  What C leaves undefined, the conversion of a number to an
  integer type that does not hold it, is an argument of the operations that may meet it.
\<close>

section \<open>Numbers\<close>

text \<open>A finite number is \<open>(-1)^s * m * 2^e\<close>.\<close>

datatype fnum = Nan | Inf bool | Num bool nat int

fun bitlen :: "nat \<Rightarrow> nat" where
  "bitlen n = (if n = 0 then 0 else Suc (bitlen (n div 2)))"

declare bitlen.simps [simp del]

text \<open>The exponent of the least bit of a subnormal number and the largest exponent, for a precision of \<open>p\<close>
  bits and an exponent field of \<open>w\<close> bits.\<close>

definition fl_min :: "nat \<Rightarrow> nat \<Rightarrow> int" where
  "fl_min p w = 3 - 2 ^ (w - 1) - int p"

definition fl_max :: "nat \<Rightarrow> nat \<Rightarrow> int" where
  "fl_max p w = 2 ^ (w - 1) - int p"

definition fl_unpack :: "nat \<Rightarrow> nat \<Rightarrow> nat \<Rightarrow> fnum" where
  "fl_unpack p w n =
     (let m = n mod 2 ^ (p - 1); e = n div 2 ^ (p - 1) mod 2 ^ w; s = odd (n div 2 ^ (p - 1 + w))
      in if e = 2 ^ w - 1 then (if m = 0 then Inf s else Nan)
         else if e = 0 then Num s m (fl_min p w)
         else Num s (2 ^ (p - 1) + m) (fl_min p w + int e - 1))"

text \<open>The pattern of a number with at most \<open>p\<close> bits, which has all of them above the smallest exponent.\<close>

definition fl_pack :: "nat \<Rightarrow> nat \<Rightarrow> fnum \<Rightarrow> nat" where
  "fl_pack p w x =
     (case x of
        Nan \<Rightarrow> (2 ^ w - 1) * 2 ^ (p - 1) + 2 ^ (p - 2)
      | Inf s \<Rightarrow> of_bool s * 2 ^ (p - 1 + w) + (2 ^ w - 1) * 2 ^ (p - 1)
      | Num s m e \<Rightarrow> of_bool s * 2 ^ (p - 1 + w) +
          (if m < 2 ^ (p - 1) then m else nat (e - fl_min p w + 1) * 2 ^ (p - 1) + (m - 2 ^ (p - 1))))"

section \<open>Rounding\<close>

definition nearest :: "nat \<Rightarrow> nat \<Rightarrow> nat" where
  "nearest a b =
     (let q = a div b; r = a mod b in if 2 * r > b \<or> 2 * r = b \<and> odd q then q + 1 else q)"

text \<open>\<open>n / d * 2^e\<close> in units of \<open>2^k\<close>.\<close>

definition scaled :: "(nat \<Rightarrow> nat \<Rightarrow> nat) \<Rightarrow> nat \<Rightarrow> nat \<Rightarrow> int \<Rightarrow> int \<Rightarrow> nat" where
  "scaled f n d e k = f (n * 2 ^ nat (e - k)) (d * 2 ^ nat (k - e))"

definition fl_round :: "nat \<Rightarrow> nat \<Rightarrow> bool \<Rightarrow> nat \<Rightarrow> nat \<Rightarrow> int \<Rightarrow> fnum" where
  "fl_round p w s n d e =
     (if n = 0 then Num s 0 (fl_min p w)
      else
        let k = max (fl_min p w) (e + int (bitlen n) - int (bitlen d) - int p);
            k1 = (if scaled (div) n d e k < 2 ^ p then k else k + 1);
            q = scaled nearest n d e k1;
            (m, k2) = (if q = 2 ^ p then (2 ^ (p - 1), k1 + 1) else (q, k1))
        in if k2 > fl_max p w then Inf s else Num s m k2)"

section \<open>Operations\<close>

definition fl_mul :: "nat \<Rightarrow> nat \<Rightarrow> fnum \<Rightarrow> fnum \<Rightarrow> fnum" where
  "fl_mul p w x y =
     (case (x, y) of
        (Num s m e, Num t n f) \<Rightarrow> fl_round p w (s \<noteq> t) (m * n) 1 (e + f)
      | (Inf s, Num t n f) \<Rightarrow> if n = 0 then Nan else Inf (s \<noteq> t)
      | (Num s m e, Inf t) \<Rightarrow> if m = 0 then Nan else Inf (s \<noteq> t)
      | (Inf s, Inf t) \<Rightarrow> Inf (s \<noteq> t)
      | _ \<Rightarrow> Nan)"

definition fl_div :: "nat \<Rightarrow> nat \<Rightarrow> fnum \<Rightarrow> fnum \<Rightarrow> fnum" where
  "fl_div p w x y =
     (case (x, y) of
        (Num s m e, Num t n f) \<Rightarrow>
          if n = 0 then (if m = 0 then Nan else Inf (s \<noteq> t)) else fl_round p w (s \<noteq> t) m n (e - f)
      | (Inf s, Num t n f) \<Rightarrow> Inf (s \<noteq> t)
      | (Num s m e, Inf t) \<Rightarrow> Num (s \<noteq> t) 0 (fl_min p w)
      | _ \<Rightarrow> Nan)"

definition fl_add :: "nat \<Rightarrow> nat \<Rightarrow> fnum \<Rightarrow> fnum \<Rightarrow> fnum" where
  "fl_add p w x y =
     (case (x, y) of
        (Num s m e, Num t n f) \<Rightarrow>
          let k = min e f;
              z = (if s then - 1 else 1) * int m * 2 ^ nat (e - k) + (if t then - 1 else 1) * int n * 2 ^ nat (f - k)
          in if z = 0 then Num (s \<and> t) 0 (fl_min p w) else fl_round p w (z < 0) (nat \<bar>z\<bar>) 1 k
      | (Inf s, Num _ _ _) \<Rightarrow> Inf s
      | (Num _ _ _, Inf t) \<Rightarrow> Inf t
      | (Inf s, Inf t) \<Rightarrow> if s = t then Inf s else Nan
      | _ \<Rightarrow> Nan)"

fun fl_neg :: "fnum \<Rightarrow> fnum" where
  "fl_neg Nan = Nan"
| "fl_neg (Inf s) = Inf (\<not> s)"
| "fl_neg (Num s m e) = Num (\<not> s) m e"

definition fl_conv :: "nat \<Rightarrow> nat \<Rightarrow> fnum \<Rightarrow> fnum" where
  "fl_conv p w x = (case x of Num s m e \<Rightarrow> fl_round p w s m 1 e | _ \<Rightarrow> x)"

text \<open>The number without its fraction.\<close>

fun fl_trunc :: "fnum \<Rightarrow> int option" where
  "fl_trunc (Num s m e) = Some ((if s then - 1 else 1) * int (m * 2 ^ nat e div 2 ^ nat (- e)))"
| "fl_trunc _ = None"

section \<open>float and double\<close>

definition f_num :: "u32 \<Rightarrow> fnum" where "f_num x = fl_unpack 24 8 (unat x)"
definition f_bits :: "fnum \<Rightarrow> u32" where "f_bits x = of_nat (fl_pack 24 8 x)"
definition d_num :: "u64 \<Rightarrow> fnum" where "d_num x = fl_unpack 53 11 (unat x)"
definition d_bits :: "fnum \<Rightarrow> u64" where "d_bits x = of_nat (fl_pack 53 11 x)"

definition f_of_u64 :: "u64 \<Rightarrow> u32" where
  "f_of_u64 n = f_bits (fl_round 24 8 False (unat n) 1 0)"

definition f_of_i32 :: "u32 \<Rightarrow> u32" where
  "f_of_i32 n = f_bits (fl_round 24 8 (sint n < 0) (nat \<bar>sint n\<bar>) 1 0)"

definition d_of_f :: "u32 \<Rightarrow> u64" where "d_of_f x = d_bits (fl_conv 53 11 (f_num x))"
definition f_of_d :: "u64 \<Rightarrow> u32" where "f_of_d x = f_bits (fl_conv 24 8 (d_num x))"

definition f_add :: "u32 \<Rightarrow> u32 \<Rightarrow> u32" where "f_add x y = f_bits (fl_add 24 8 (f_num x) (f_num y))"
definition f_sub :: "u32 \<Rightarrow> u32 \<Rightarrow> u32" where "f_sub x y = f_bits (fl_add 24 8 (f_num x) (fl_neg (f_num y)))"
definition d_mul :: "u64 \<Rightarrow> u64 \<Rightarrow> u64" where "d_mul x y = d_bits (fl_mul 53 11 (d_num x) (d_num y))"
definition d_div :: "u64 \<Rightarrow> u64 \<Rightarrow> u64" where "d_div x y = d_bits (fl_div 53 11 (d_num x) (d_num y))"

definition f_to_u64 :: "(u32 \<Rightarrow> u64) \<Rightarrow> u32 \<Rightarrow> u64" where
  "f_to_u64 undef x =
     (case fl_trunc (f_num x) of
        Some i \<Rightarrow> if 0 \<le> i \<and> i < 2 ^ 64 then word_of_int i else undef x
      | None \<Rightarrow> undef x)"

definition f_to_u32 :: "(u32 \<Rightarrow> u32) \<Rightarrow> u32 \<Rightarrow> u32" where
  "f_to_u32 undef x =
     (case fl_trunc (f_num x) of
        Some i \<Rightarrow> if 0 \<le> i \<and> i < 2 ^ 32 then word_of_int i else undef x
      | None \<Rightarrow> undef x)"

definition d_to_i32 :: "(u64 \<Rightarrow> u32) \<Rightarrow> u64 \<Rightarrow> u32" where
  "d_to_i32 undef x =
     (case fl_trunc (d_num x) of
        Some i \<Rightarrow> if - (2 ^ 31) \<le> i \<and> i < 2 ^ 31 then word_of_int i else undef x
      | None \<Rightarrow> undef x)"

text \<open>The constants of the code: 1000.0, 1000000000.0 and -360.0.\<close>

definition d_1000 :: u64 where "d_1000 = 0x408f400000000000"
definition d_1e9 :: u64 where "d_1e9 = 0x41cdcd6500000000"
definition d_m360 :: u64 where "d_m360 = 0xc076800000000000"

section \<open>Nanoseconds as float\<close>

text \<open>The conversions that are undefined in C, and the uncertainty, which the code leaves unset.\<close>

definition fwlib_tfns2tps :: "(u32 \<Rightarrow> u64) \<Rightarrow> (u64 \<Rightarrow> u32) \<Rightarrow> u32 \<Rightarrow> u32 \<Rightarrow> b2bt" where
  "fwlib_tfns2tps u1 u2 dps t_ns =
     (let n = f_to_u64 u1 t_ns;
          p = d_to_i32 u2 (d_mul (d_of_f (f_sub t_ns (f_of_u64 n))) d_1000)
      in fwlib_cleanB2bt \<lparr>b_ns = n, b_ps = p, b_dps = dps\<rparr>)"

definition fwlib_tps2tfns :: "b2bt \<Rightarrow> u32" where
  "fwlib_tps2tfns t = f_add (f_of_u64 (b_ns t)) (f_of_d (d_div (d_of_f (f_of_i32 (b_ps t))) d_1000))"

section \<open>Half precision\<close>

text \<open>The helper that is to give the bits of a \<open>float\<close> returns \<open>float\<close>: what comes back is the
  number that the bits stand for as an unsigned integer, rounded to 24 bits, and the caller converts that to an integer
  again.\<close>

definition comcore_f2u :: "u32 \<Rightarrow> u32" where
  "comcore_f2u f = f_of_u64 (ucast f)"

definition comcore_float2half :: "(u32 \<Rightarrow> u32) \<Rightarrow> u32 \<Rightarrow> u16" where
  "comcore_float2half u f =
     (let x = f_to_u32 u (comcore_f2u f) in
      if x = 0 then 0
      else if x = 0x80000000 then 0x8000
      else if x = 0xffc00001 then 0xfcff
      else if x = 0xff800001 then 0xfcff
      else if x = 0x7fc00000 then 0xfcff
      else if x = 0x7f800000 then 0x7c00
      else if x = 0xff800000 then 0xfc00
      else
        let x1 = x + 0x1000;
            s = ucast (drop_bit 16 x1) AND 0x8000 :: u16;
            e = ucast (drop_bit 23 x1) AND 0xff :: u16
        in if e > 127 + 15 then 0x7c00
           else if e < 127 - 14 then 0x8000
           else s OR push_bit 10 (e - 127 + 15) OR (ucast (drop_bit 13 x1) AND 0x03ff))"

definition comcore_half2float :: "u16 \<Rightarrow> u32" where
  "comcore_half2float h =
     (if h = 0 then 0
      else if h = 0x8000 then 0x80000000
      else if h = 0xfcff then 0x7fc00000
      else if h = 0x7c00 then 0x7f800000
      else if h = 0xfc00 then 0xff800000
      else push_bit 16 (ucast (h AND 0x8000))
           OR push_bit 23 ((ucast (drop_bit 10 h) AND 0x1f) + 0x7f - 0x0f)
           OR push_bit 13 (ucast (h AND 0x03ff)))"

definition fwlib_float2half :: "(u32 \<Rightarrow> u32) \<Rightarrow> u32 \<Rightarrow> u16" where "fwlib_float2half u f = comcore_float2half u f"
definition fwlib_half2float :: "u16 \<Rightarrow> u32" where "fwlib_half2float h = comcore_half2float h"

text \<open>Microseconds in half precision of a \<open>float\<close> with nanoseconds, as the messages carry them.\<close>

definition half_us :: "(u32 \<Rightarrow> u32) \<Rightarrow> u32 \<Rightarrow> u16" where
  "half_us u f = fwlib_float2half u (f_of_d (d_div (d_of_f f) d_1000))"

end
