(* ===== verification/Fw_Half.thy ===== *)
theory Fw_Half
  imports Fw_Float
begin

text \<open>
  Half precision (modules/common-libs/include/common-core.c): what the conversions from and to \<open>float\<close> keep.
\<close>

section \<open>Bits as a number\<close>

lemma bitlen_bounds: "0 < n \<Longrightarrow> 2 ^ (bitlen n - 1) \<le> n \<and> n < 2 ^ bitlen n \<and> 0 < bitlen n"
proof (induction n rule: bitlen.induct)
  case (1 n)
  show ?case
  proof (cases "n div 2 = 0")
    case True
    hence n: "n = 1" using "1.prems" by linarith
    show ?thesis unfolding n by (simp add: bitlen.simps)
  next
    case False
    hence h: "2 ^ (bitlen (n div 2) - 1) \<le> n div 2" "n div 2 < 2 ^ bitlen (n div 2)" "0 < bitlen (n div 2)"
      using "1.IH" "1.prems" by auto
    have b: "bitlen n = Suc (bitlen (n div 2))" using "1.prems" by (subst bitlen.simps) simp
    obtain j where j: "bitlen (n div 2) = Suc j" using h(3) gr0_implies_Suc by blast
    have "2 * 2 ^ j \<le> n" "n < 2 * 2 ^ Suc j" using h(1,2) unfolding j by simp_all
    thus ?thesis unfolding b j by simp
  qed
qed

lemma nearest_near:
  assumes "0 < b"
  shows "2 * \<bar>int (nearest a b * b) - int a\<bar> \<le> int b" "b dvd a \<Longrightarrow> nearest a b = a div b"
proof -
  have a: "int a = int (a div b) * int b + int (a mod b)" by (metis div_mult_mod_eq of_nat_add of_nat_mult)
  have l: "a mod b < b" using assms by simp
  show "2 * \<bar>int (nearest a b * b) - int a\<bar> \<le> int b"
  proof (cases "nearest a b = a div b")
    case True
    hence "2 * (a mod b) \<le> b" by (auto simp: nearest_def Let_def split: if_splits)
    moreover have "int (nearest a b * b) - int a = - int (a mod b)" unfolding True using a by simp
    ultimately show ?thesis by simp
  next
    case False
    hence n: "nearest a b = a div b + 1" "b \<le> 2 * (a mod b)" by (auto simp: nearest_def Let_def split: if_splits)
    have "int (nearest a b * b) - int a = int b - int (a mod b)" unfolding n(1) using a by (simp add: algebra_simps)
    thus ?thesis using n(2) l by simp
  qed
  show "b dvd a \<Longrightarrow> nearest a b = a div b" using assms by (simp add: nearest_def Let_def dvd_eq_mod_eq_0)
qed

lemma unat_32: "z < 2 ^ 32 \<Longrightarrow> unat (of_nat z :: u32) = z"
  by (simp add: unsigned_of_nat take_bit_nat_eq_self)

lemma pack_unpack:
  assumes "2 ^ 23 \<le> m" "m < 2 ^ 24" "- 149 \<le> k" "k \<le> 100"
  shows "f_num (f_bits (Num False m k)) = Num False m k"
proof -
  define e where "e = nat (k + 150)"
  have e: "0 < e" "e < 255" "k = int e - 150" using assms by (simp_all add: e_def)
  have p: "fl_pack 24 8 (Num False m k) = e * 2 ^ 23 + (m - 2 ^ 23)"
    using assms by (simp add: fl_pack_def fl_min_def e_def)
  have l: "m - 2 ^ 23 < 2 ^ 23" using assms by simp
  have "e * 2 ^ 23 + (m - 2 ^ 23) < 2 ^ 32" using e(2) l by simp
  hence u: "unat (f_bits (Num False m k)) = e * 2 ^ 23 + (m - 2 ^ 23)"
    unfolding f_bits_def p by (rule unat_32)
  have d: "(e * 2 ^ 23 + (m - 2 ^ 23)) mod 2 ^ 23 = m - 2 ^ 23" "(e * 2 ^ 23 + (m - 2 ^ 23)) div 2 ^ 23 = e"
    using l by simp_all
  have "(e * 2 ^ 23 + (m - 2 ^ 23)) div 2 ^ 31 = (e * 2 ^ 23 + (m - 2 ^ 23)) div (2 ^ 23 * 2 ^ 8)" by simp
  also have "\<dots> = e div 2 ^ 8" unfolding div_mult2_eq d(2) ..
  finally have s: "(e * 2 ^ 23 + (m - 2 ^ 23)) div 2 ^ 31 = 0" using e(2) by simp
  have c: "(24 :: nat) - 1 = 23" "(23 :: nat) + 8 = 31" by simp_all
  show ?thesis
    unfolding f_num_def u fl_unpack_def c d s using e assms(1) by (simp add: fl_min_def)
qed

lemma round_24:
  assumes "0 < n" "n < 2 ^ 32"
  shows "\<exists>m k. fl_round 24 8 False n 1 0 = Num False m k \<and> 2 ^ 23 \<le> m \<and> m < 2 ^ 24 \<and> - 149 \<le> k \<and> k \<le> 100 \<and>
    \<bar>int (m * 2 ^ nat k div 2 ^ nat (- k)) - int n\<bar> \<le> 128 \<and> (2 ^ 8 dvd n \<longrightarrow> m * 2 ^ nat k div 2 ^ nat (- k) = n)"
proof -
  define L where "L = bitlen n"
  have L: "2 ^ (L - 1) \<le> n" "n < 2 ^ L" "0 < L" using bitlen_bounds[OF assms(1)] by (simp_all add: L_def)
  have "2 ^ (L - 1) < (2 :: nat) ^ 32" using L(1) assms(2) by linarith
  hence "L - 1 < 32" by (rule power_less_imp_less_exp[rotated]) simp
  hence L32: "L \<le> 32" by simp
  have b1: "bitlen (Suc 0) = 1" by (simp add: bitlen.simps)
  have k0: "max (fl_min 24 8) (0 + int (bitlen n) - int (bitlen 1) - int 24) = int L - 25"
    using L(3) by (simp add: b1 L_def fl_min_def)
  have g: "\<not> scaled (div) n 1 0 (int L - 25) < 2 ^ 24"
  proof (cases "25 \<le> L")
    case True
    have "24 + (L - 25) = L - 1" using True by simp
    hence "(2 :: nat) ^ 24 * 2 ^ (L - 25) = 2 ^ (L - 1)" by (metis power_add)
    hence "2 ^ 24 * 2 ^ (L - 25) \<le> n" using L(1) by simp
    hence "2 ^ 24 \<le> n div 2 ^ (L - 25)" by (simp add: less_eq_div_iff_mult_less_eq)
    moreover have "nat (int L - 25) = L - 25" "nat (0 - (int L - 25)) = 0" using True by simp_all
    ultimately show ?thesis by (simp add: scaled_def)
  next
    case False
    have "(2 :: nat) ^ (L - 1) * 2 ^ (25 - L) = 2 ^ 24" using False L(3) by (simp add: power_add[symmetric])
    hence "2 ^ 24 \<le> n * 2 ^ (25 - L)" using L(1) mult_le_mono1[of "2 ^ (L - 1)" n "2 ^ (25 - L)"] by simp
    moreover have "nat (int L - 25) = 0" "nat (0 - (int L - 25)) = 25 - L" using False by simp_all
    ultimately show ?thesis by (simp add: scaled_def)
  qed
  define k where "k = int L - 24"
  define q where "q = scaled nearest n 1 0 k"
  have f: "fl_round 24 8 False n 1 0 = (if q = 2 ^ 24 then Num False (2 ^ 23) (k + 1) else Num False q k)"
    using assms(1) L32 g unfolding fl_round_def Let_def k0
    by (simp add: q_def k_def fl_max_def)
  show ?thesis
  proof (cases "24 \<le> L")
    case True
    define b where "b = (2 :: nat) ^ (L - 24)"
    have n: "nat k = L - 24" "nat (- k) = 0" "nat (0 - k) = 0" using True by (simp_all add: k_def)
    have "L - 24 \<le> 8" using L32 by simp
    hence "b dvd 2 ^ 8" unfolding b_def by (rule le_imp_power_dvd)
    hence b: "0 < b" "b \<le> 2 ^ 8" "b dvd 2 ^ 8" by (simp_all add: b_def dvd_imp_le)
    have q: "q = nearest n b" by (simp add: q_def scaled_def n b_def)
    have near: "2 * \<bar>int (q * b) - int n\<bar> \<le> int b" "b dvd n \<Longrightarrow> q * b = n"
      unfolding q using nearest_near[OF b(1)] by simp_all
    have "24 + (L - 24) = L" "23 + (L - 24) = L - 1" using True by simp_all
    hence e: "2 ^ 24 * b = 2 ^ L" "2 ^ 23 * b = 2 ^ (L - 1)" unfolding b_def by (metis power_add)+
    have "2 ^ 23 * b \<le> n" "n < 2 ^ 24 * b" using L e by simp_all
    hence r: "2 ^ 23 \<le> q" "q \<le> 2 ^ 24"
    proof -
      have "2 ^ 23 \<le> n div b" "n div b < 2 ^ 24" using \<open>2 ^ 23 * b \<le> n\<close> \<open>n < 2 ^ 24 * b\<close> b(1)
        by (simp_all add: less_eq_div_iff_mult_less_eq less_mult_imp_div_less)
      moreover have "n div b \<le> q" "q \<le> n div b + 1" unfolding q nearest_def Let_def by simp_all
      ultimately show "2 ^ 23 \<le> q" "q \<le> 2 ^ 24" by linarith+
    qed
    have "2 * \<bar>D\<bar> \<le> int b \<Longrightarrow> \<bar>D\<bar> \<le> 128" for D using b(2) by (cases "0 \<le> D") simp_all
    hence v: "\<bar>int (q * b) - int n\<bar> \<le> 128" using near(1) by blast
    have x: "2 ^ 8 dvd n \<longrightarrow> q * b = n" using near(2) b(3) dvd_trans by blast
    have W: ?thesis if "fl_round 24 8 False n 1 0 = Num False m k'" "2 ^ 23 \<le> m" "m < 2 ^ 24" "- 149 \<le> k'" "k' \<le> 100"
      "m * 2 ^ nat k' div 2 ^ nat (- k') = q * b" for m k'
      by (rule exI[of _ m], rule exI[of _ k'], unfold that(6), intro conjI that v x)
    have k: "- 149 \<le> k" "k + 1 \<le> 100" using L32 \<open>24 \<le> L\<close> by (simp_all add: k_def)
    show ?thesis
    proof (cases "q = 2 ^ 24")
      case True
      have "nat (k + 1) = Suc (L - 24)" "nat (- (k + 1)) = 0" using \<open>24 \<le> L\<close> by (simp_all add: k_def)
      hence "2 ^ 23 * 2 ^ nat (k + 1) div 2 ^ nat (- (k + 1)) = q * b"
        using True by (simp add: b_def)
      moreover have "fl_round 24 8 False n 1 0 = Num False (2 ^ 23) (k + 1)" unfolding f if_P[OF True] ..
      ultimately show ?thesis using k by (intro W[of "2 ^ 23" "k + 1"]) simp_all
    next
      case False
      hence "q < 2 ^ 24" using r by simp
      moreover have "q * 2 ^ nat k div 2 ^ nat (- k) = q * b" by (simp add: n b_def)
      moreover have "fl_round 24 8 False n 1 0 = Num False q k" unfolding f if_not_P[OF False] ..
      ultimately show ?thesis using k r by (intro W[of q k]) simp_all
    qed
  next
    case False
    have n: "nat k = 0" "nat (- k) = 24 - L" "nat (0 - k) = 24 - L" using False by (simp_all add: k_def)
    have q: "q = n * 2 ^ (24 - L)" by (simp add: q_def scaled_def n nearest_def)
    have e: "(2 :: nat) ^ L * 2 ^ (24 - L) = 2 ^ 24" "(2 :: nat) ^ (L - 1) * 2 ^ (24 - L) = 2 ^ 23"
      using False L(3) by (simp_all add: power_add[symmetric])
    have "n * 2 ^ (24 - L) < 2 ^ L * 2 ^ (24 - L)" using L(2) by simp
    moreover have "2 ^ (L - 1) * 2 ^ (24 - L) \<le> n * 2 ^ (24 - L)" using L(1) mult_le_mono1 by blast
    ultimately have "q < 2 ^ 24" "2 ^ 23 \<le> q" unfolding q e .
    moreover have "q * 2 ^ nat k div 2 ^ nat (- k) = n" by (simp add: n q)
    ultimately show ?thesis using f False L(3) by (intro exI[of _ q] exI[of _ k]) (simp add: k_def)
  qed
qed

lemma f2u_number:
  fixes u :: "u32 \<Rightarrow> u32" and x :: u32
  defines "y \<equiv> f_to_u32 u (comcore_f2u x)"
  shows "x AND mask 8 = 0 \<Longrightarrow> y = x" "uint x < 2 ^ 32 - 128 \<Longrightarrow> \<bar>uint y - uint x\<bar> \<le> 128"
proof -
  have c: "unat (ucast x :: u64) = unat x" by (simp add: unsigned_ucast_eq take_bit_nat_eq_self)
  have n: "unat x < 2 ^ 32" using unsigned_less[of x] by simp
  have "(x AND mask 8 = 0 \<longrightarrow> y = x) \<and> (uint x < 2 ^ 32 - 128 \<longrightarrow> \<bar>uint y - uint x\<bar> \<le> 128)"
  proof (cases "unat x = 0")
    case True
    have "comcore_f2u x = 0" unfolding comcore_f2u_def f_of_u64_def c True by (simp add: fl_round_def f_bits_def fl_pack_def)
    moreover have "f_to_u32 u 0 = 0" by (simp add: f_to_u32_def f_num_def fl_unpack_def)
    ultimately show ?thesis using True by (simp add: y_def unat_eq_zero)
  next
    case False
    obtain m k where r: "fl_round 24 8 False (unat x) 1 0 = Num False m k" "2 ^ 23 \<le> m" "m < 2 ^ 24" "- 149 \<le> k" "k \<le> 100"
      and v: "\<bar>int (m * 2 ^ nat k div 2 ^ nat (- k)) - int (unat x)\<bar> \<le> 128"
        "2 ^ 8 dvd unat x \<longrightarrow> m * 2 ^ nat k div 2 ^ nat (- k) = unat x"
      using round_24[of "unat x"] False n by auto
    define V where "V = m * 2 ^ nat k div 2 ^ nat (- k)"
    have "f_num (comcore_f2u x) = Num False m k"
      unfolding comcore_f2u_def f_of_u64_def c r(1) by (rule pack_unpack[OF r(2-5)])
    hence y: "y = (if V < 2 ^ 32 then of_nat V else u (comcore_f2u x))"
      by (simp add: y_def f_to_u32_def V_def del: of_nat_mult of_nat_power of_nat_div)
    have "x AND mask 8 = 0 \<Longrightarrow> 2 ^ 8 dvd unat x"
      by (metis and_mask_dvd_nat)
    hence 1: "x AND mask 8 = 0 \<longrightarrow> V = unat x" using v(2) by (simp only: V_def) blast
    have 2: "\<bar>int V - int (unat x)\<bar> \<le> 128" using v(1) by (simp only: V_def)
    have 3: "V < 2 ^ 32 \<Longrightarrow> unat y = V" using unat_32[of V] y by simp
    have "x AND mask 8 = 0 \<longrightarrow> y = x" using 1 3 n by (metis word_unat_eq_iff)
    moreover have "uint x < 2 ^ 32 - 128 \<Longrightarrow> \<bar>uint y - uint x\<bar> \<le> 128"
    proof -
      assume l: "uint x < 2 ^ 32 - 128"
      have "int V < 2 ^ 32" using 2 l unfolding uint_nat by simp
      hence "V < 2 ^ 32" by simp
      thus ?thesis using 2 3 unfolding uint_nat by simp
    qed
    ultimately show ?thesis by blast
  qed
  thus "x AND mask 8 = 0 \<Longrightarrow> y = x" "uint x < 2 ^ 32 - 128 \<Longrightarrow> \<bar>uint y - uint x\<bar> \<le> 128" by blast+
qed

section \<open>Half precision\<close>

text \<open>The fields of a half precision number.\<close>

definition half_of :: "u16 \<Rightarrow> u16 \<Rightarrow> u16 \<Rightarrow> u16" where
  "half_of s e m = push_bit 15 (s AND mask 1) OR push_bit 10 (e AND mask 5) OR (m AND mask 10)"

definition wide_of :: "u16 \<Rightarrow> u16 \<Rightarrow> u16 \<Rightarrow> u32" where
  "wide_of s e m = push_bit 31 (ucast (s AND mask 1)) OR push_bit 23 (ucast ((e AND mask 5) + 112)) OR push_bit 13 (ucast (m AND mask 10))"

lemma half_of_fields: "half_of (drop_bit 15 h) (drop_bit 10 h) h = h"
proof (rule bit_word_eqI)
  fix n assume "n < LENGTH(16)"
  hence "n < 10 \<or> 10 \<le> n \<and> n < 15 \<or> n = 15" by auto
  thus "bit (half_of (drop_bit 15 h) (drop_bit 10 h) h) n = bit h n"
    unfolding half_of_def by (auto simp: bit_simps)
qed

lemma half_parts:
  "drop_bit 15 (half_of s e m) AND mask 1 = s AND mask 1" "drop_bit 10 (half_of s e m) AND mask 5 = e AND mask 5"
  "half_of s e m AND mask 10 = m AND mask 10" "half_of s e m AND push_bit 15 (mask 1) = push_bit 15 (s AND mask 1)"
  unfolding half_of_def
  by (rule bit_word_eqI, auto simp: bit_simps simp del: mask_1 mask_Suc_0 One_nat_def)+

lemma half_of_inject:
  "half_of s e m = half_of s' e' m' \<longleftrightarrow>
     s AND mask 1 = s' AND mask 1 \<and> e AND mask 5 = e' AND mask 5 \<and> m AND mask 10 = m' AND mask 10"
proof
  assume h: "half_of s e m = half_of s' e' m'"
  thus "s AND mask 1 = s' AND mask 1 \<and> e AND mask 5 = e' AND mask 5 \<and> m AND mask 10 = m' AND mask 10"
    by (metis half_parts(1-3))
next
  assume "s AND mask 1 = s' AND mask 1 \<and> e AND mask 5 = e' AND mask 5 \<and> m AND mask 10 = m' AND mask 10"
  thus "half_of s e m = half_of s' e' m'" by (simp add: half_of_def)
qed

lemma half_of_special:
  "half_of 0 0 0 = 0" "half_of 1 0 0 = 0x8000" "half_of 1 31 255 = 0xfcff" "half_of 0 31 0 = 0x7c00" "half_of 1 31 0 = 0xfc00"
  by (simp_all add: half_of_def mask_numeral)

lemma half_normal:
  assumes "e AND mask 5 \<noteq> 0" "e AND mask 5 \<noteq> 31"
  shows "half_of s e m \<noteq> 0" "half_of s e m \<noteq> 0x8000" "half_of s e m \<noteq> 0xfcff" "half_of s e m \<noteq> 0x7c00"
    "half_of s e m \<noteq> 0xfc00"
  using assms half_of_inject[of s e m 0 0 0] half_of_inject[of s e m 1 0 0] half_of_inject[of s e m 1 31 255]
    half_of_inject[of s e m 0 31 0] half_of_inject[of s e m 1 31 0]
  by (auto simp: half_of_special mask_numeral)

lemma plus_112:
  assumes "(a :: u16) < 32"
  shows "uint (a + 112) = uint a + 112" "ucast (a + 112) = ucast a + (112 :: u32)"
proof -
  show u: "uint (a + 112) = uint a + 112" using assms by (simp add: uint_plus_if' word_less_def)
  show "ucast (a + 112) = ucast a + (112 :: u32)" by (simp only: ucast_eq u of_int_add of_int_numeral)
qed

lemma uint_field: "(a :: u16) AND mask 5 < 32"
  using and_mask_less'[of 5 a] by simp

lemma half2float_fields:
  assumes "e AND mask 5 \<noteq> 0" "e AND mask 5 \<noteq> 31"
  shows "comcore_half2float (half_of s e m) = wide_of s e m"
proof -
  let ?h = "half_of s e m"
  have m: "0x1f = (mask 5 :: u32)" "0x3ff = (mask 10 :: u16)" "0x8000 = (push_bit 15 (mask 1) :: u16)"
    by (simp_all add: mask_numeral)
  have "ucast (drop_bit 10 ?h) AND mask 5 = (ucast (drop_bit 10 ?h AND mask 5) :: u32)"
    by (rule bit_word_eqI) (auto simp: bit_simps)
  also have "drop_bit 10 ?h AND mask 5 = e AND mask 5" by (rule half_parts)
  finally have e: "ucast (drop_bit 10 ?h) AND mask 5 = (ucast (e AND mask 5) :: u32)" .
  have e': "ucast (e AND mask 5) + 0x7f - 0x0f = (ucast ((e AND mask 5) + 112) :: u32)" by (simp add: plus_112 uint_field)
  have s: "push_bit 16 (ucast (push_bit 15 (s AND mask 1) :: u16)) = (push_bit 31 (ucast (s AND mask 1)) :: u32)"
    by (cases "odd s") (simp_all add: and_one_eq mod_2_eq_odd)
  have "comcore_half2float ?h = push_bit 16 (ucast (?h AND push_bit 15 (mask 1)))
           OR push_bit 23 ((ucast (drop_bit 10 ?h) AND mask 5) + 0x7f - 0x0f)
           OR push_bit 13 (ucast (?h AND mask 10))"
    unfolding comcore_half2float_def m using half_normal[OF assms, of s m, unfolded m(3)] by (simp only: if_False)
  thus ?thesis unfolding wide_of_def half_parts e e' s .
qed

lemma float2half_fields:
  fixes f :: u32 and u :: "u32 \<Rightarrow> u32"
  defines "x \<equiv> f_to_u32 u (comcore_f2u f)"
  defines "x1 \<equiv> x + 0x1000"
  assumes e: "113 \<le> drop_bit 23 x1 AND mask 8" "drop_bit 23 x1 AND mask 8 \<le> 142"
  shows "comcore_float2half u f =
    half_of (ucast (drop_bit 31 x1)) (ucast (drop_bit 23 x1 AND mask 8) - 112) (ucast (drop_bit 13 x1))"
proof -
  have n: "x \<noteq> 0" "x \<noteq> 0x80000000" "x \<noteq> 0xffc00001" "x \<noteq> 0xff800001" "x \<noteq> 0x7fc00000" "x \<noteq> 0x7f800000"
    "x \<noteq> 0xff800000"
    using e unfolding x1_def by (auto simp: mask_numeral)
  have m: "0xff = (mask 8 :: u16)" "0x3ff = (mask 10 :: u16)" "0x8000 = (push_bit 15 (mask 1) :: u16)"
    by (simp_all add: mask_numeral)
  let ?E = "drop_bit 23 x1 AND mask 8"
  have E: "ucast (drop_bit 23 x1) AND mask 8 = (ucast ?E :: u16)"
    by (rule bit_word_eqI) (auto simp: bit_simps)
  obtain k where k: "uint ?E = k" "113 \<le> k" "k \<le> 142" using e by (simp add: word_le_def)
  hence uE: "uint (ucast ?E :: u16) = k"
    using k by (simp only: unsigned_ucast_eq take_bit_int_eq_self) (simp add: take_bit_eq_mod)
  hence c: "\<not> (ucast ?E :: u16) > 127 + 15" "\<not> (ucast ?E :: u16) < 127 - 14" using k by (simp_all add: word_less_def)
  have "uint ((ucast ?E :: u16) - 112) = k - 112" using uE k by (simp add: uint_sub_if')
  hence l: "((ucast ?E :: u16) - 112) AND mask 5 = ucast ?E - 112"
    using k by (intro less_mask_eq) (simp add: word_less_def)
  have s: "ucast (drop_bit 16 x1) AND push_bit 15 (mask 1) = (push_bit 15 (ucast (drop_bit 31 x1) AND mask 1) :: u16)"
  proof (rule bit_word_eqI)
    fix n assume "n < LENGTH(16)"
    hence "n < 15 \<or> n = 15" by auto
    thus "bit (ucast (drop_bit 16 x1) AND push_bit 15 (mask 1) :: u16) n =
        bit (push_bit 15 (ucast (drop_bit 31 x1) AND mask 1) :: u16) n"
      by (auto simp: bit_simps simp del: mask_1 mask_Suc_0 One_nat_def)
  qed
  have "(ucast ?E :: u16) - 127 + 15 = ucast ?E - 112" by simp
  hence "comcore_float2half u f = (ucast (drop_bit 16 x1) AND push_bit 15 (mask 1)) OR push_bit 10 (ucast ?E - 112)
     OR (ucast (drop_bit 13 x1) AND mask 10)"
    unfolding comcore_float2half_def m Let_def x_def[symmetric] x1_def[symmetric] E
    using n[unfolded m] c by (simp only: if_False)
  thus ?thesis unfolding half_of_def l s .
qed


text \<open>What the bits of a number stand for, rounded to the precision of a half.\<close>

lemma wide_of_half:
  assumes "uint (drop_bit 23 (y :: u32) AND mask 8) = k" "113 \<le> k" "k \<le> 142"
  shows "comcore_half2float (half_of (ucast (drop_bit 31 y)) (ucast (drop_bit 23 y AND mask 8) - 112) (ucast (drop_bit 13 y)))
     = y AND NOT (mask 13)"
proof -
  let ?E = "drop_bit 23 y AND mask 8" and ?e = "ucast (drop_bit 23 y AND mask 8) - 112 :: u16"
  have u: "uint (ucast ?E :: u16) = k"
    using assms by (simp only: unsigned_ucast_eq take_bit_int_eq_self) (simp add: take_bit_eq_mod)
  hence l0: "uint ?e = k - 112" using assms by (simp add: uint_sub_if')
  hence l: "?e AND mask 5 = ?e" using assms by (intro less_mask_eq) (simp add: word_less_def)
  have ne: "?e \<noteq> 0" "?e \<noteq> 31" using l0 assms by auto
  have a: "?e + 112 = ucast ?E" by simp
  have "push_bit 31 (ucast (ucast (drop_bit 31 y) AND mask 1 :: u16)) OR push_bit 23 (ucast (ucast ?E :: u16))
      OR push_bit 13 (ucast (ucast (drop_bit 13 y) AND mask 10 :: u16)) = y AND NOT (mask 13)"
  proof (rule bit_word_eqI)
    fix n assume "n < LENGTH(32)"
    hence "n < 13 \<or> 13 \<le> n \<and> n < 23 \<or> 23 \<le> n \<and> n < 31 \<or> n = 31" by auto
    thus "bit (push_bit 31 (ucast (ucast (drop_bit 31 y) AND mask 1 :: u16)) OR push_bit 23 (ucast (ucast ?E :: u16))
      OR push_bit 13 (ucast (ucast (drop_bit 13 y) AND mask 10 :: u16)) :: u32) n = bit (y AND NOT (mask 13)) n"
      by (elim disjE conjE)
        (auto simp add: bit_or_iff bit_and_iff bit_push_bit_iff bit_drop_bit_eq bit_unsigned_iff bit_not_iff bit_mask_iff
          simp del: mask_1 mask_Suc_0 One_nat_def)
  qed
  thus ?thesis using half2float_fields[of ?e] l ne by (simp add: wide_of_def a)
qed

text \<open>
  Going to half precision and back rounds a \<open>float\<close> to ten bits of mantissa: adding half of the last bit kept
  and cutting, for every number whose rounded exponent the format can hold.  A tie is rounded away
  from zero, not to even as a comment in the code says, and what is rounded is not the number itself but one that
  differs from it by up to 128 units in the last place of a \<open>float\<close>.
\<close>

lemma half_precision:
  fixes f :: u32 and u :: "u32 \<Rightarrow> u32"
  defines "x \<equiv> f_to_u32 u (comcore_f2u f)"
  assumes "113 \<le> drop_bit 23 (x + 0x1000) AND mask 8" "drop_bit 23 (x + 0x1000) AND mask 8 \<le> 142"
  shows "comcore_half2float (comcore_float2half u f) = (x + 0x1000) AND NOT (mask 13)"
    "f AND mask 8 = 0 \<Longrightarrow> x = f" "uint f < 2 ^ 32 - 128 \<Longrightarrow> \<bar>uint x - uint f\<bar> \<le> 128"
proof -
  show "comcore_half2float (comcore_float2half u f) = (x + 0x1000) AND NOT (mask 13)"
    unfolding float2half_fields[OF assms(2,3)[unfolded x_def]] x_def[symmetric]
    by (rule wide_of_half[OF refl]) (use assms(2,3) in \<open>simp_all add: word_le_def\<close>)
  show "f AND mask 8 = 0 \<Longrightarrow> x = f" "uint f < 2 ^ 32 - 128 \<Longrightarrow> \<bar>uint x - uint f\<bar> \<le> 128"
    unfolding x_def by (rule f2u_number; simp)+
qed

text \<open>One of the patterns for "not a number" comes out as infinity.\<close>

lemma half_nan: "comcore_float2half u 0xffc00001 = 0x7c00"
proof -
  have "fl_round 24 8 False 4290772993 1 0 = Num False 0xffc000 8"
    by (simp add: fl_round_def scaled_def nearest_def bitlen.simps fl_min_def fl_max_def Let_def)
  hence "comcore_f2u 0xffc00001 = 0x4f7fc000"
    by (simp add: comcore_f2u_def f_of_u64_def f_bits_def fl_pack_def fl_min_def)
  moreover have "f_to_u32 u 0x4f7fc000 = 0xffc00000" by (simp add: f_to_u32_def f_num_def fl_unpack_def fl_min_def)
  ultimately show ?thesis by (simp add: comcore_float2half_def)
qed

text \<open>
  C26. A number in half precision survives the way to \<open>float\<close> and back: every normal one of either sign, both
  zeros, both infinities and the pattern used for "not a number".  Subnormal numbers are not supported.
\<close>

theorem half_roundtrip:
  assumes "drop_bit 10 h AND mask 5 \<noteq> 0 \<and> drop_bit 10 h AND mask 5 \<noteq> 31 \<or> h \<in> {0, 0x8000, 0x7c00, 0xfc00, 0xfcff}"
  shows "comcore_float2half u (comcore_half2float h) = h"
proof (cases "h \<in> {0, 0x8000, 0x7c00, 0xfc00, 0xfcff}")
  case True
  have "comcore_half2float h AND mask 8 = 0" using True by (auto simp: comcore_half2float_def mask_numeral)
  thus ?thesis using True by (auto simp: comcore_float2half_def f2u_number(1) comcore_half2float_def)
next
  case False
  let ?s = "drop_bit 15 h" and ?e = "drop_bit 10 h"
  have e: "?e AND mask 5 \<noteq> 0" "?e AND mask 5 \<noteq> 31" using assms False by auto
  define a where "a = (?e AND mask 5) + 112"
  have ua: "uint a = uint (?e AND mask 5) + 112" unfolding a_def by (simp only: plus_112 uint_field)
  have b: "113 \<le> uint a" "uint a \<le> 142"
    unfolding ua using e uint_field[of ?e] uint_ge_0[of "?e AND mask 5"]
    by (simp_all add: word_less_def word_uint_eq_iff del: uint_ge_0 unsigned_greater_eq)
  have "a AND mask 8 = a" using b by (intro less_mask_eq) (simp add: word_less_def)
  hence w: "comcore_half2float h =
      push_bit 31 (ucast (?s AND mask 1)) OR push_bit 23 (ucast (a AND mask 8)) OR push_bit 13 (ucast (h AND mask 10))"
    using half2float_fields[OF e, of ?s h] by (simp only: half_of_fields wide_of_def a_def)
  let ?y = "comcore_half2float h + 0x1000"
  have "comcore_half2float h AND mask 8 = 0"
    unfolding w by (rule bit_word_eqI) (auto simp: bit_or_iff bit_and_iff bit_push_bit_iff bit_mask_iff
        simp del: mask_1 mask_Suc_0 One_nat_def)
  hence x: "f_to_u32 u (comcore_f2u (comcore_half2float h)) = comcore_half2float h" by (rule f2u_number(1))
  have m: "(0x1000 :: u32) = push_bit 12 (mask 1)" by simp
  have y: "?y = comcore_half2float h OR push_bit 12 (mask 1)"
    unfolding m w
    by (rule disjunctive_add) (auto simp: bit_or_iff bit_and_iff bit_push_bit_iff bit_mask_iff
        simp del: mask_1 mask_Suc_0 One_nat_def)
  have f: "ucast (drop_bit 31 ?y) AND mask 1 = (?s AND mask 1 :: u16)"
    "drop_bit 23 ?y AND mask 8 = (ucast (a AND mask 8) :: u32)"
    "ucast (drop_bit 13 ?y) AND mask 10 = (h AND mask 10 :: u16)"
    unfolding y unfolding w
    by (rule bit_word_eqI, auto simp: bit_or_iff bit_and_iff bit_push_bit_iff bit_drop_bit_eq bit_unsigned_iff bit_mask_iff
        simp del: mask_1 mask_Suc_0 One_nat_def)+
  have E: "uint (ucast (a AND mask 8) :: u32) = uint a"
    using b by (simp add: \<open>a AND mask 8 = a\<close> unsigned_ucast_eq take_bit_eq_mod)
  have "comcore_float2half u (comcore_half2float h) =
     half_of (ucast (drop_bit 31 ?y)) (ucast (ucast (a AND mask 8) :: u32) - 112) (ucast (drop_bit 13 ?y))"
    using float2half_fields[of u "comcore_half2float h", unfolded x f(2)] E b by (simp add: word_le_def)
  also have "\<dots> = half_of ?s ?e h"
  proof -
    have "(ucast (ucast (a AND mask 8) :: u32) :: u16) = a"
      by (simp only: \<open>a AND mask 8 = a\<close>) (rule bit_word_eqI, simp add: bit_unsigned_iff)
    hence "(ucast (ucast (a AND mask 8) :: u32) - 112 :: u16) = ?e AND mask 5" by (simp add: a_def)
    thus ?thesis unfolding half_of_inject f by (simp add: and.assoc)
  qed
  finally show ?thesis by (simp only: half_of_fields)
qed

theorem half_roundtrip_witness:
  "comcore_float2half (\<lambda>_. 0) (comcore_half2float 0xc500) = 0xc500"
  using half_roundtrip[of "0xc500"] by (simp add: mask_numeral)

end
