(* ===== verification/Mil.thy ===== *)
theory Mil
  imports Fwlib
begin

text \<open>
  The MIL bus library (top/gsi_scu/scu_mil.c and scu_mil.h) and the routines of the common
  library on the MIL piggy (modules/common-libs/fw/common-fwlib.c).  Two hardware variants share the
  register layout: the piggy, a Wishbone device with registers of 32 bits, and a SIO card in a slot of
  the SCU bus with registers of 16 bits.  The device bus carries commands and data to interface
  boards; the event bus delivers events into a FIFO behind a filter RAM.  The busy waits of
  \<open>uwait\<close> have no effect on this state.
\<close>

section \<open>Constants (scu_mil.h)\<close>

definition FC_WR_IFC_ECHO :: u16 where "FC_WR_IFC_ECHO = 0x13"
definition FC_RD_IFC_ECHO :: u16 where "FC_RD_IFC_ECHO = 0x89"
definition MIL_SIO3_TX_DATA :: u32 where "MIL_SIO3_TX_DATA = 0x400"
definition MIL_SIO3_TX_CMD :: u32 where "MIL_SIO3_TX_CMD = 0x401"
definition MIL_SIO3_STAT :: u32 where "MIL_SIO3_STAT = 0x402"
definition MIL_SIO3_RST :: u32 where "MIL_SIO3_RST = 0x412"
definition MIL_SIO3_RX_TASK1 :: u32 where "MIL_SIO3_RX_TASK1 = 0xd01"
definition MIL_SIO3_TX_TASK1 :: u32 where "MIL_SIO3_TX_TASK1 = 0xc01"
definition MIL_SIO3_RX_TASK2 :: u32 where "MIL_SIO3_RX_TASK2 = 0xd02"
definition MIL_SIO3_TX_TASK2 :: u32 where "MIL_SIO3_TX_TASK2 = 0xc02"
definition MIL_SIO3_D_RCVD :: u32 where "MIL_SIO3_D_RCVD = 0xe00"
definition MIL_SIO3_D_ERR :: u32 where "MIL_SIO3_D_ERR = 0xe10"
definition MIL_SIO3_TX_REQ :: u32 where "MIL_SIO3_TX_REQ = 0xe20"
definition CALC_OFFS :: "nat \<Rightarrow> u32" where "CALC_OFFS slot = of_nat slot * 0x10000"
definition MAX_SCU_SLAVES :: nat where "MAX_SCU_SLAVES = 12"
definition TASKMIN :: u8 where "TASKMIN = 1"
definition TASKMAX :: u8 where "TASKMAX = 254"
definition BLOCK_TIMEOUT :: nat where "BLOCK_TIMEOUT = 150"

definition OKAY :: int where "OKAY = 1"
definition RCV_ERROR :: int where "RCV_ERROR = - 2"
definition RCV_TIMEOUT :: int where "RCV_TIMEOUT = - 3"
definition RCV_TASK_ERR :: int where "RCV_TASK_ERR = - 4"
definition RCV_PARITY :: int where "RCV_PARITY = - 5"
definition ERROR :: int where "ERROR = - 6"
definition RCV_TASK_BSY :: int where "RCV_TASK_BSY = - 7"
definition MIL_STAT_OK :: int where "MIL_STAT_OK = OKAY"
definition MIL_STAT_ERROR :: int where "MIL_STAT_ERROR = - 4"
definition MIL_STAT_OUT_OF_RANGE :: int where "MIL_STAT_OUT_OF_RANGE = - 5"

text \<open>The registers of the event bus; the header gives them as byte offsets, the code divides by four.\<close>

definition MIL_WR_RD_STATUS :: u32 where "MIL_WR_RD_STATUS = 0x402"
definition RD_CLR_EV_FIFO :: u32 where "RD_CLR_EV_FIFO = 0x405"
definition MIL_WR_RD_LEMO_CONF :: u32 where "MIL_WR_RD_LEMO_CONF = 0x409"
definition MIL_WR_RD_LEMO_DAT :: u32 where "MIL_WR_RD_LEMO_DAT = 0x40a"
definition MIL_WR_EVT_ERR_CNT :: u32 where "MIL_WR_EVT_ERR_CNT = 0x415"
definition EV_FILT_FIRST :: u32 where "EV_FILT_FIRST = 0x1000"
definition EV_FILT_LAST :: u32 where "EV_FILT_LAST = 0x1fff"

definition MIL_CTRL_STAT_EV_FIFO_NE :: u32 where "MIL_CTRL_STAT_EV_FIFO_NE = 0x8"
definition MIL_CTRL_STAT_PULS1_FRAME :: u32 where "MIL_CTRL_STAT_PULS1_FRAME = 0x400"
definition MIL_CTRL_STAT_PULS2_FRAME :: u32 where "MIL_CTRL_STAT_PULS2_FRAME = 0x800"
definition MIL_CTRL_STAT_INTR_DEB_ON :: u32 where "MIL_CTRL_STAT_INTR_DEB_ON = 0x1000"
definition MIL_CTRL_STAT_EV_FILTER_ON :: u32 where "MIL_CTRL_STAT_EV_FILTER_ON = 0x2000"
definition MIL_CTRL_STAT_ENDECODER_FPGA :: u32 where "MIL_CTRL_STAT_ENDECODER_FPGA = 0x8000"
definition MIL_FILTER_EV_TO_FIFO :: u32 where "MIL_FILTER_EV_TO_FIFO = 1"
definition MIL_FILTER_EV_PULS1_S :: u32 where "MIL_FILTER_EV_PULS1_S = 4"

definition MIL_LEMO_OUT_EN :: "u32 \<Rightarrow> u32" where
  "MIL_LEMO_OUT_EN lemo = (if 1 \<le> lemo \<and> lemo \<le> 4 then push_bit (unat lemo - 1) 1 else 0)"

definition MIL_LEMO_EVENT_EN :: "u32 \<Rightarrow> u32" where
  "MIL_LEMO_EVENT_EN lemo = push_bit 4 (MIL_LEMO_OUT_EN lemo)"

lemmas mil_status = OKAY_def RCV_ERROR_def RCV_TIMEOUT_def RCV_TASK_ERR_def RCV_PARITY_def ERROR_def
  RCV_TASK_BSY_def MIL_STAT_OK_def MIL_STAT_ERROR_def MIL_STAT_OUT_OF_RANGE_def

section \<open>Device bus, first part of the library\<close>

text \<open>Registers of the card in a slot of the SCU bus.\<close>

definition sio :: "nat \<Rightarrow> u32 \<Rightarrow> reg" where
  "sio slot r = SCUBUS (CALC_OFFS slot + r)"

text \<open>A signed short written to a register of the piggy is extended with its sign.\<close>

definition write_mil :: "u16 \<Rightarrow> u16 \<Rightarrow> 'a fw_scheme \<Rightarrow> int \<times> 'a fw_scheme" where
  "write_mil data fc_ifc_addr s =
     (OKAY, wr_dev (MIL MIL_SIO3_TX_CMD) (scast fc_ifc_addr) (wr_dev (MIL MIL_SIO3_TX_DATA) (scast data) s))"

text \<open>\<open>data\<close> has at least six elements.\<close>

definition write_mil_blk :: "u16 list \<Rightarrow> u16 \<Rightarrow> 'a fw_scheme \<Rightarrow> int \<times> 'a fw_scheme" where
  "write_mil_blk data fc_ifc_addr s =
     (OKAY, fold (\<lambda>i s. wr_dev (MIL MIL_SIO3_TX_DATA) (scast (data ! i)) s) [1..<6]
       (wr_dev (MIL MIL_SIO3_TX_CMD) (scast fc_ifc_addr) (wr_dev (MIL MIL_SIO3_TX_DATA) (scast (data ! 0)) s)))"

definition scub_write_mil :: "nat \<Rightarrow> u16 \<Rightarrow> u16 \<Rightarrow> 'a fw_scheme \<Rightarrow> int \<times> 'a fw_scheme" where
  "scub_write_mil slot data fc_ifc_addr s =
     (OKAY, wr_dev (sio slot MIL_SIO3_TX_CMD) (ucast fc_ifc_addr) (wr_dev (sio slot MIL_SIO3_TX_DATA) (ucast data) s))"

definition scub_write_mil_blk :: "nat \<Rightarrow> u16 list \<Rightarrow> u16 \<Rightarrow> 'a fw_scheme \<Rightarrow> int \<times> 'a fw_scheme" where
  "scub_write_mil_blk slot data fc_ifc_addr s =
     (OKAY, fold (\<lambda>i s. wr_dev (sio slot MIL_SIO3_TX_DATA) (ucast (data ! i)) s) [1..<6]
       (wr_dev (sio slot MIL_SIO3_TX_CMD) (ucast fc_ifc_addr) (wr_dev (sio slot MIL_SIO3_TX_DATA) (ucast (data ! 0)) s)))"

definition rd16 :: "reg \<Rightarrow> 'a fw_scheme \<Rightarrow> u16 \<times> 'a fw_scheme" where
  "rd16 r s = (case rd_dev r s of (v, s1) \<Rightarrow> (ucast v, s1))"

definition status_mil :: "'a fw_scheme \<Rightarrow> int \<times> u16 \<times> 'a fw_scheme" where
  "status_mil s = (case rd16 (MIL MIL_SIO3_STAT) s of (v, s1) \<Rightarrow> (OKAY, v, s1))"

text \<open>The status of a slot that does not exist is not read.\<close>

definition scub_status_mil :: "int \<Rightarrow> u16 \<Rightarrow> 'a fw_scheme \<Rightarrow> int \<times> u16 \<times> 'a fw_scheme" where
  "scub_status_mil slot old s =
     (if 1 \<le> slot \<and> slot \<le> int MAX_SCU_SLAVES
      then case rd16 (sio (nat slot) MIL_SIO3_STAT) s of (v, s1) \<Rightarrow> (OKAY, v, s1)
      else (ERROR, old, s))"

text \<open>Bit 2 of the request and of the available register belongs to task slot 2.  \<open>mil_poll\<close> is one of
  the two loops: it reads the register again while the bit is not set and the common counter is
  below its limit; the result is the value last read and the counter.\<close>

function mil_poll :: "reg \<Rightarrow> u16 \<Rightarrow> nat \<Rightarrow> 'a fw_scheme \<Rightarrow> u16 \<times> nat \<times> 'a fw_scheme" where
  "mil_poll r v timeout s =
     (if v AND 4 = 0 \<and> timeout < BLOCK_TIMEOUT
      then case rd16 r s of (v', s1) \<Rightarrow> mil_poll r v' (timeout + 1) s1
      else (v, timeout, s))"
  by auto

termination by (relation "measure (\<lambda>(r, v, timeout, s). BLOCK_TIMEOUT - timeout)") auto

declare mil_poll.simps [simp del]

text \<open>The part that both variants share, over the registers \<open>r\<close> of the card: None when a loop is left by
  its time-out, otherwise the available bits and whether an error is flagged.\<close>

definition mil_wait :: "(u32 \<Rightarrow> reg) \<Rightarrow> 'a fw_scheme \<Rightarrow> (u16 \<times> u16) option \<times> 'a fw_scheme" where
  "mil_wait r s =
     (case rd16 (r MIL_SIO3_TX_REQ) s of (rx_req, s1) \<Rightarrow>
      case mil_poll (r MIL_SIO3_TX_REQ) rx_req 0 s1 of (_, timeout, s2) \<Rightarrow>
        if BLOCK_TIMEOUT < timeout then (None, s2)
        else
          case rd16 (r MIL_SIO3_D_RCVD) s2 of (avail, s3) \<Rightarrow>
          case mil_poll (r MIL_SIO3_D_RCVD) avail timeout s3 of (avail', timeout', s4) \<Rightarrow>
            if BLOCK_TIMEOUT < timeout' then (None, s4)
            else case rd16 (r MIL_SIO3_D_ERR) s4 of (err, s5) \<Rightarrow> (Some (avail', err), s5))"

text \<open>\<open>data\<close> is what the caller's variable holds before; it is returned as it is then.\<close>

definition read_mil :: "u16 \<Rightarrow> u16 \<Rightarrow> 'a fw_scheme \<Rightarrow> int \<times> u16 \<times> 'a fw_scheme" where
  "read_mil data fc_ifc_addr s =
     (case mil_wait MIL (wr_dev (MIL MIL_SIO3_TX_TASK2) (scast fc_ifc_addr) s) of
        (None, s1) \<Rightarrow> (RCV_TIMEOUT, data, s1)
      | (Some (avail, err), s1) \<Rightarrow>
          (case rd16 (MIL MIL_SIO3_RX_TASK2) s1 of (v, s2) \<Rightarrow>
             (if avail AND 4 \<noteq> 0 \<and> err AND 4 = 0 then OKAY else RCV_TIMEOUT, v, s2)))"

definition scub_read_mil :: "nat \<Rightarrow> u16 \<Rightarrow> u16 \<Rightarrow> 'a fw_scheme \<Rightarrow> int \<times> u16 \<times> 'a fw_scheme" where
  "scub_read_mil slot data fc_ifc_addr s =
     (case mil_wait (sio slot) (wr_dev (sio slot MIL_SIO3_TX_TASK2) (ucast fc_ifc_addr) s) of
        (None, s1) \<Rightarrow> (RCV_TIMEOUT, data, s1)
      | (Some (avail, err), s1) \<Rightarrow>
          (case rd16 (sio slot MIL_SIO3_RX_TASK2) s1 of (v, s2) \<Rightarrow>
             if avail AND 4 \<noteq> 0 \<and> err AND 4 = 0 then (OKAY, v, s2) else (RCV_TIMEOUT, data, s2)))"

definition set_task_mil :: "u8 \<Rightarrow> u16 \<Rightarrow> 'a fw_scheme \<Rightarrow> int \<times> 'a fw_scheme" where
  "set_task_mil task fc_ifc_addr s =
     (if task < TASKMIN \<or> task > TASKMAX then (RCV_TASK_ERR, s)
      else (OKAY, wr_dev (MIL (MIL_SIO3_TX_TASK1 + ucast task - 1)) (scast fc_ifc_addr) s))"

definition scub_set_task_mil :: "nat \<Rightarrow> u8 \<Rightarrow> u16 \<Rightarrow> 'a fw_scheme \<Rightarrow> int \<times> 'a fw_scheme" where
  "scub_set_task_mil slot task fc_ifc_addr s =
     (if task < TASKMIN \<or> task > TASKMAX then (RCV_TASK_ERR, s)
      else (OKAY, wr_dev (sio slot (MIL_SIO3_TX_TASK1 + ucast task - 1)) (ucast fc_ifc_addr) s))"

text \<open>\<open>get_task_mil\<close> and \<open>scub_get_task_mil\<close> differ in their registers only.\<close>

definition get_task :: "(u32 \<Rightarrow> reg) \<Rightarrow> u8 \<Rightarrow> u16 \<Rightarrow> 'a fw_scheme \<Rightarrow> int \<times> u16 \<times> 'a fw_scheme" where
  "get_task r task data s =
     (if task < TASKMIN \<or> task > TASKMAX then (RCV_TASK_ERR, data, s)
      else
        let reg_offset = ucast (task div 16); bit_offset = unat (task mod 16)
        in case rd16 (r (MIL_SIO3_D_RCVD + reg_offset)) s of (avail, s1) \<Rightarrow>
             if \<not> bit avail bit_offset then (RCV_TASK_BSY, data, s1)
             else
               case rd16 (r (MIL_SIO3_D_ERR + reg_offset)) s1 of (err, s2) \<Rightarrow>
               case rd16 (r (MIL_SIO3_RX_TASK1 + ucast task - 1)) s2 of (v, s3) \<Rightarrow>
                 (if \<not> bit err bit_offset then OKAY
                  else if v = 0xdead then RCV_TIMEOUT
                  else if v = 0xbabe then RCV_PARITY
                  else RCV_ERROR, v, s3))"

definition get_task_mil :: "u8 \<Rightarrow> u16 \<Rightarrow> 'a fw_scheme \<Rightarrow> int \<times> u16 \<times> 'a fw_scheme" where
  "get_task_mil = get_task MIL"

definition scub_get_task_mil :: "nat \<Rightarrow> u8 \<Rightarrow> u16 \<Rightarrow> 'a fw_scheme \<Rightarrow> int \<times> u16 \<times> 'a fw_scheme" where
  "scub_get_task_mil slot = get_task (sio slot)"

definition reset_mil :: "'a fw_scheme \<Rightarrow> int \<times> 'a fw_scheme" where
  "reset_mil s = (OKAY, wr_dev (MIL MIL_SIO3_RST) 0xff (wr_dev (MIL MIL_SIO3_RST) 0 s))"

definition scub_reset_mil :: "nat \<Rightarrow> 'a fw_scheme \<Rightarrow> int \<times> 'a fw_scheme" where
  "scub_reset_mil slot s = (OKAY, wr_dev (sio slot MIL_SIO3_RST) 0xff (wr_dev (sio slot MIL_SIO3_RST) 0 s))"

section \<open>Device bus, second part of the library\<close>

text \<open>Slot 0 is the piggy, the others are SIO cards.  The function code becomes the upper byte.\<close>

definition fc_ifb :: "u16 \<Rightarrow> u16 \<Rightarrow> u16" where
  "fc_ifb ifbAddr fctCode = ifbAddr OR push_bit 8 fctCode"

definition writeDevMil :: "u16 \<Rightarrow> u16 \<Rightarrow> u16 \<Rightarrow> u16 \<Rightarrow> 'a fw_scheme \<Rightarrow> int \<times> 'a fw_scheme" where
  "writeDevMil scubSlot ifbAddr fctCode data s =
     (if scubSlot = 0 then write_mil data (fc_ifb ifbAddr fctCode) s
      else scub_write_mil (unat scubSlot) data (fc_ifb ifbAddr fctCode) s)"

definition readDevMil :: "u16 \<Rightarrow> u16 \<Rightarrow> u16 \<Rightarrow> u16 \<Rightarrow> 'a fw_scheme \<Rightarrow> int \<times> u16 \<times> 'a fw_scheme" where
  "readDevMil scubSlot ifbAddr fctCode data s =
     (if scubSlot = 0 then read_mil data (fc_ifb ifbAddr fctCode) s
      else scub_read_mil (unat scubSlot) data (fc_ifb ifbAddr fctCode) s)"

definition echoTestDevMil :: "u16 \<Rightarrow> u16 \<Rightarrow> u16 \<Rightarrow> 'a fw_scheme \<Rightarrow> int \<times> 'a fw_scheme" where
  "echoTestDevMil scubSlot ifbAddr data s =
     (case writeDevMil scubSlot ifbAddr FC_WR_IFC_ECHO data s of (st, s1) \<Rightarrow>
        if st \<noteq> MIL_STAT_OK then (st, s1)
        else case readDevMil scubSlot ifbAddr FC_RD_IFC_ECHO 0 s1 of (st', rData, s2) \<Rightarrow>
          if st' \<noteq> MIL_STAT_OK then (st', s2)
          else (if data \<noteq> rData then MIL_STAT_ERROR else MIL_STAT_OK, s2))"

definition resetDevMil :: "u16 \<Rightarrow> 'a fw_scheme \<Rightarrow> int \<times> 'a fw_scheme" where
  "resetDevMil scubSlot s =
     (case (if scubSlot = 0 then reset_mil s else scub_reset_mil (unat scubSlot) s) of (st, s1) \<Rightarrow>
        (if st \<noteq> OKAY then MIL_STAT_ERROR else MIL_STAT_OK, s1))"

section \<open>Event bus: filter and FIFO\<close>

text \<open>SIO cards are not implemented for the event bus.\<close>

definition clearFilterEvtMil :: "u16 \<Rightarrow> 'a fw_scheme \<Rightarrow> int \<times> 'a fw_scheme" where
  "clearFilterEvtMil scubSlot s =
     (if scubSlot > 0 then (MIL_STAT_OUT_OF_RANGE, s)
      else (MIL_STAT_OK, fold (\<lambda>i s. wr_dev (MIL (EV_FILT_FIRST + of_nat i)) 0 s)
              [0..<unat (EV_FILT_LAST - EV_FILT_FIRST + 1)] s))"

definition setFilterEvtMil :: "u16 \<Rightarrow> u16 \<Rightarrow> u16 \<Rightarrow> u32 \<Rightarrow> 'a fw_scheme \<Rightarrow> int \<times> 'a fw_scheme" where
  "setFilterEvtMil scubSlot evtCode virtAcc v s =
     (if scubSlot > 0 then (MIL_STAT_OUT_OF_RANGE, s)
      else if virtAcc > 15 then (MIL_STAT_OUT_OF_RANGE, s)
      else (MIL_STAT_OK, wr_dev (MIL (EV_FILT_FIRST + (ucast virtAcc * 256 + ucast evtCode))) v s))"

definition writeCtrlStatRegEvtMil :: "u16 \<Rightarrow> u32 \<Rightarrow> 'a fw_scheme \<Rightarrow> int \<times> 'a fw_scheme" where
  "writeCtrlStatRegEvtMil scubSlot v s =
     (if scubSlot > 0 then (MIL_STAT_OUT_OF_RANGE, s) else (MIL_STAT_OK, wr_dev (MIL MIL_WR_RD_STATUS) v s))"

text \<open>The value is the one the caller's variable holds before when nothing is read.\<close>

definition readCtrlStatRegEvtMil :: "u16 \<Rightarrow> u32 \<Rightarrow> 'a fw_scheme \<Rightarrow> int \<times> u32 \<times> 'a fw_scheme" where
  "readCtrlStatRegEvtMil scubSlot old s =
     (if scubSlot > 0 then (MIL_STAT_OUT_OF_RANGE, old, s)
      else case rd_dev (MIL MIL_WR_RD_STATUS) s of (v, s1) \<Rightarrow> (MIL_STAT_OK, v, s1))"

text \<open>Read the control register, change it, write it back.\<close>

definition ctrl_update :: "(u32 \<Rightarrow> u32) \<Rightarrow> 'a fw_scheme \<Rightarrow> 'a fw_scheme" where
  "ctrl_update f s =
     (case readCtrlStatRegEvtMil 0 0 s of (_, v, s1) \<Rightarrow> snd (writeCtrlStatRegEvtMil 0 (f v) s1))"

definition enableFilterEvtMil :: "u16 \<Rightarrow> 'a fw_scheme \<Rightarrow> int \<times> 'a fw_scheme" where
  "enableFilterEvtMil scubSlot s =
     (if scubSlot > 0 then (MIL_STAT_OUT_OF_RANGE, s)
      else (MIL_STAT_OK, ctrl_update (\<lambda>v. v OR MIL_CTRL_STAT_EV_FILTER_ON) s))"

text \<open>Here the mask is not inverted: the filter bit is the only one that stays.\<close>

definition disableFilterEvtMil :: "u16 \<Rightarrow> 'a fw_scheme \<Rightarrow> int \<times> 'a fw_scheme" where
  "disableFilterEvtMil scubSlot s =
     (if scubSlot > 0 then (MIL_STAT_OUT_OF_RANGE, s)
      else (MIL_STAT_OK, ctrl_update (\<lambda>v. v AND MIL_CTRL_STAT_EV_FILTER_ON) s))"

definition fifoNotemptyEvtMil :: "u16 \<Rightarrow> 'a fw_scheme \<Rightarrow> int \<times> 'a fw_scheme" where
  "fifoNotemptyEvtMil scubSlot s =
     (if scubSlot > 0 then (65536 + MIL_STAT_OUT_OF_RANGE, s)
      else case readCtrlStatRegEvtMil scubSlot 0 s of (_, v, s1) \<Rightarrow>
        (uint (ucast (v AND MIL_CTRL_STAT_EV_FIFO_NE) :: u16), s1))"

definition clearFifoEvtMil :: "u16 \<Rightarrow> 'a fw_scheme \<Rightarrow> int \<times> 'a fw_scheme" where
  "clearFifoEvtMil scubSlot s =
     (if scubSlot > 0 then (MIL_STAT_OUT_OF_RANGE, s) else (MIL_STAT_OK, wr_dev (MIL RD_CLR_EV_FIFO) 1 s))"

definition popFifoEvtMil :: "u16 \<Rightarrow> u32 \<Rightarrow> 'a fw_scheme \<Rightarrow> int \<times> u32 \<times> 'a fw_scheme" where
  "popFifoEvtMil scubSlot old s =
     (if scubSlot > 0 then (MIL_STAT_OUT_OF_RANGE, old, s)
      else case rd_dev (MIL RD_CLR_EV_FIFO) s of (v, s1) \<Rightarrow> (MIL_STAT_OK, v, s1))"

section \<open>Event bus: LEMO outputs and error counter\<close>

text \<open>The pulse or gate mode of outputs 1 and 2.\<close>

definition frame_bit :: "u32 \<Rightarrow> u32" where
  "frame_bit lemo = (if lemo = 1 then MIL_CTRL_STAT_PULS1_FRAME
     else if lemo = 2 then MIL_CTRL_STAT_PULS2_FRAME else 0)"

definition conf_update :: "(u32 \<Rightarrow> u32) \<Rightarrow> 'a fw_scheme \<Rightarrow> 'a fw_scheme" where
  "conf_update f s =
     (case rd_dev (MIL MIL_WR_RD_LEMO_CONF) s of (v, s1) \<Rightarrow> wr_dev (MIL MIL_WR_RD_LEMO_CONF) (f v) s1)"

definition configLemoPulseEvtMil :: "u16 \<Rightarrow> u32 \<Rightarrow> 'a fw_scheme \<Rightarrow> int \<times> 'a fw_scheme" where
  "configLemoPulseEvtMil scubSlot lemo s =
     (if scubSlot > 0 then (MIL_STAT_OUT_OF_RANGE, s)
      else if lemo > 4 then (MIL_STAT_OUT_OF_RANGE, s)
      else (MIL_STAT_OK, conf_update (\<lambda>v. v OR MIL_LEMO_OUT_EN lemo OR MIL_LEMO_EVENT_EN lemo)
              (ctrl_update (\<lambda>v. v AND NOT (frame_bit lemo)) s)))"

definition configLemoGateEvtMil :: "u16 \<Rightarrow> u32 \<Rightarrow> 'a fw_scheme \<Rightarrow> int \<times> 'a fw_scheme" where
  "configLemoGateEvtMil scubSlot lemo s =
     (if scubSlot > 0 then (MIL_STAT_OUT_OF_RANGE, s)
      else if lemo > 2 then (MIL_STAT_OUT_OF_RANGE, s)
      else (MIL_STAT_OK, conf_update (\<lambda>v. v OR MIL_LEMO_EVENT_EN lemo)
              (ctrl_update (\<lambda>v. v OR frame_bit lemo) s)))"

definition configLemoOutputEvtMil :: "u16 \<Rightarrow> u32 \<Rightarrow> 'a fw_scheme \<Rightarrow> int \<times> 'a fw_scheme" where
  "configLemoOutputEvtMil scubSlot lemo s =
     (if scubSlot > 0 then (MIL_STAT_OUT_OF_RANGE, s)
      else if lemo > 4 then (MIL_STAT_OUT_OF_RANGE, s)
      else (MIL_STAT_OK, conf_update (\<lambda>v. v OR MIL_LEMO_OUT_EN lemo)
              (ctrl_update (\<lambda>v. v AND NOT (frame_bit lemo)) s)))"

definition setLemoOutputEvtMil :: "u16 \<Rightarrow> u32 \<Rightarrow> u32 \<Rightarrow> 'a fw_scheme \<Rightarrow> int \<times> 'a fw_scheme" where
  "setLemoOutputEvtMil scubSlot lemo on s =
     (if scubSlot > 0 then (MIL_STAT_OUT_OF_RANGE, s)
      else if lemo > 4 then (MIL_STAT_OUT_OF_RANGE, s)
      else if on > 1 then (MIL_STAT_OUT_OF_RANGE, s)
      else case rd_dev (MIL MIL_WR_RD_LEMO_DAT) s of (v, s1) \<Rightarrow>
        (MIL_STAT_OK, wr_dev (MIL MIL_WR_RD_LEMO_DAT)
           (if on \<noteq> 0 then v OR MIL_LEMO_OUT_EN lemo else v AND NOT (MIL_LEMO_OUT_EN lemo)) s1))"

definition disableLemoEvtMil :: "u16 \<Rightarrow> u32 \<Rightarrow> 'a fw_scheme \<Rightarrow> int \<times> 'a fw_scheme" where
  "disableLemoEvtMil scubSlot lemo s =
     (if scubSlot > 0 then (MIL_STAT_OUT_OF_RANGE, s)
      else if lemo > 4 then (MIL_STAT_OUT_OF_RANGE, s)
      else (MIL_STAT_OK, conf_update (\<lambda>v. v AND NOT (MIL_LEMO_OUT_EN lemo) AND NOT (MIL_LEMO_EVENT_EN lemo))
              (ctrl_update (\<lambda>v. v AND NOT (frame_bit lemo)) s)))"

definition readEventErrCntMil :: "u16 \<Rightarrow> u32 \<Rightarrow> 'a fw_scheme \<Rightarrow> int \<times> u32 \<times> 'a fw_scheme" where
  "readEventErrCntMil scubSlot old s =
     (if scubSlot > 0 then (MIL_STAT_OUT_OF_RANGE, old, s)
      else case rd_dev (MIL MIL_WR_EVT_ERR_CNT) s of (v, s1) \<Rightarrow> (MIL_STAT_OK, v, s1))"

definition resetEventErrCntMil :: "u16 \<Rightarrow> 'a fw_scheme \<Rightarrow> int \<times> 'a fw_scheme" where
  "resetEventErrCntMil scubSlot s =
     (if scubSlot > 0 then (MIL_STAT_OUT_OF_RANGE, s) else (MIL_STAT_OK, wr_dev (MIL MIL_WR_EVT_ERR_CNT) 0 s))"

section \<open>The piggy in the common library\<close>

text \<open>A MIL event: code, virtual accelerator and data.\<close>

record mil_event =
  me_data :: u32
  me_code :: u32
  me_virtAcc :: u32

definition mil_event_of :: "u32 \<Rightarrow> mil_event" where
  "mil_event_of evtRec =
     \<lparr>me_data = drop_bit 12 evtRec AND 0xf, me_code = evtRec AND 0xff, me_virtAcc = drop_bit 8 evtRec AND 0xf\<rparr>"

text \<open>The inner loop of \<open>fwlib_wait4MILEvent\<close> takes events from the FIFO until one is valid (any event when the
  list of valid codes is empty) or the FIFO is empty; the outer loop looks until the time is over.\<close>

partial_function (option) mil_drain ::
  "u32 list \<Rightarrow> 'a fw_scheme \<Rightarrow> (mil_event option \<times> 'a fw_scheme) option"
where
  "mil_drain codes s =
     (case fifoNotemptyEvtMil 0 s of (ne, s1) \<Rightarrow>
        if ne \<noteq> 0
        then (case popFifoEvtMil 0 0 s1 of (_, evtRec, s2) \<Rightarrow>
                if codes = [] \<or> me_code (mil_event_of evtRec) \<in> set codes
                then Some (Some (mil_event_of evtRec), s2)
                else mil_drain codes s2)
        else Some (None, s1))"

partial_function (option) mil_poll_events ::
  "u64 \<Rightarrow> u32 list \<Rightarrow> 'a fw_scheme \<Rightarrow> (mil_event option \<times> 'a fw_scheme) option"
where
  "mil_poll_events timeoutT codes s =
     (case sys_time s of (now, s1) \<Rightarrow>
        if now < timeoutT
        then (case mil_drain codes s1 of
                None \<Rightarrow> None
              | Some (Some e, s2) \<Rightarrow> Some (Some e, s2)
              | Some (None, s2) \<Rightarrow> mil_poll_events timeoutT codes s2)
        else Some (None, s1))"

definition fwlib_wait4MILEvent ::
  "u32 \<Rightarrow> u32 list \<Rightarrow> 'a fw_scheme \<Rightarrow> (u32 \<times> mil_event \<times> 'a fw_scheme) option"
where
  "fwlib_wait4MILEvent usTimeout codes s =
     (case sys_time s of (now, s1) \<Rightarrow>
        case mil_poll_events (now + ucast usTimeout * 1000) codes s1 of
          None \<Rightarrow> None
        | Some (Some e, s2) \<Rightarrow> Some (COMMON_STATUS_OK, e, s2)
        | Some (None, s2) \<Rightarrow>
            Some (COMMON_STATUS_TIMEDOUT, \<lparr>me_data = 0xffff, me_code = 0xffff, me_virtAcc = 0xffff\<rparr>, s2))"

text \<open>Output \<open>nLemo\<close> on and, after a while, off.\<close>

definition fwlib_milPulseLemo :: "u32 \<Rightarrow> 'a fw_scheme \<Rightarrow> 'a fw_scheme" where
  "fwlib_milPulseLemo nLemo s =
     snd (setLemoOutputEvtMil 0 nLemo 0 (snd (setLemoOutputEvtMil 0 nLemo 1 s)))"

end
