(* ===== verification/Unipz_State.thy ===== *)
theory Unipz_State
  imports Mil Ftm_Common "HOL-Library.Monad_Syntax"
begin

text \<open>
  Data of the gateway between the UNILAC 'Pulszentrale' and the data master
  (modules/dm-unipz): its constants, the words exchanged with UNIPZ over the MIL device bus, the
  prepared commands and thread starts for the data master, and the global state, which extends the
  state of the common library.
\<close>

section \<open>Constants (dm-unipz.h)\<close>

definition DMUNIPZ_FW_VERSION :: u32 where "DMUNIPZ_FW_VERSION = 0x000902"
definition DMUNIPZ_UNITIMEOUT :: u32 where "DMUNIPZ_UNITIMEOUT = 2000"
definition DMUNIPZ_TKTIMEOUT :: u32 where "DMUNIPZ_TKTIMEOUT = 210"
definition DMUNIPZ_QUERYTIMEOUT :: u32 where "DMUNIPZ_QUERYTIMEOUT = 1"
definition DMUNIPZ_DMTIMEOUT :: u64 where "DMUNIPZ_DMTIMEOUT = 9000"
definition DMUNIPZ_MATCHWINDOW :: u64 where "DMUNIPZ_MATCHWINDOW = 200000"
definition DMUNIPZ_OFFSETTHRD :: u32 where "DMUNIPZ_OFFSETTHRD = 1500000"
definition DMUNIPZ_OFFSETINJECT :: u64 where "DMUNIPZ_OFFSETINJECT = 9980000"
definition DMUNIPZ_EVT_READY2SIS :: u32 where "DMUNIPZ_EVT_READY2SIS = 0x1e"
definition COMMON_DEFAULT_TIMEOUT :: u32 where "COMMON_DEFAULT_TIMEOUT = 100"

definition DMUNIPZ_CMD_RELEASETK :: u32 where "DMUNIPZ_CMD_RELEASETK = 6"
definition DMUNIPZ_CMD_RELEASEBEAM :: u32 where "DMUNIPZ_CMD_RELEASEBEAM = 7"
definition DMUNIPZ_CMD_DEBUGON :: u32 where "DMUNIPZ_CMD_DEBUGON = 8"
definition DMUNIPZ_CMD_DEBUGOFF :: u32 where "DMUNIPZ_CMD_DEBUGOFF = 9"

definition DMUNIPZ_STATUS_REQTKFAILED :: u32 where "DMUNIPZ_STATUS_REQTKFAILED = 16"
definition DMUNIPZ_STATUS_REQTKTIMEOUT :: u32 where "DMUNIPZ_STATUS_REQTKTIMEOUT = 17"
definition DMUNIPZ_STATUS_REQBEAMFAILED :: u32 where "DMUNIPZ_STATUS_REQBEAMFAILED = 18"
definition DMUNIPZ_STATUS_RELBEAMFAILED :: u32 where "DMUNIPZ_STATUS_RELBEAMFAILED = 20"
definition DMUNIPZ_STATUS_DEVBUSERROR :: u32 where "DMUNIPZ_STATUS_DEVBUSERROR = 21"
definition DMUNIPZ_STATUS_REQNOTOK :: u32 where "DMUNIPZ_STATUS_REQNOTOK = 22"
definition DMUNIPZ_STATUS_REQBEAMTIMEDOUT :: u32 where "DMUNIPZ_STATUS_REQBEAMTIMEDOUT = 23"
definition DMUNIPZ_STATUS_SAFETYMARGIN :: u32 where "DMUNIPZ_STATUS_SAFETYMARGIN = 25"
definition DMUNIPZ_STATUS_NOTIMESTAMP :: u32 where "DMUNIPZ_STATUS_NOTIMESTAMP = 26"
definition DMUNIPZ_STATUS_BADTIMESTAMP :: u32 where "DMUNIPZ_STATUS_BADTIMESTAMP = 27"
definition DMUNIPZ_STATUS_DMQNOTEMPTY :: u32 where "DMUNIPZ_STATUS_DMQNOTEMPTY = 28"
definition DMUNIPZ_STATUS_LATEEVENT :: u32 where "DMUNIPZ_STATUS_LATEEVENT = 29"
definition DMUNIPZ_STATUS_DMTIMEOUT :: u32 where "DMUNIPZ_STATUS_DMTIMEOUT = 31"
definition DMUNIPZ_STATUS_BADSYNC :: u32 where "DMUNIPZ_STATUS_BADSYNC = 32"
definition DMUNIPZ_STATUS_WAIT4UNIEVENT :: u32 where "DMUNIPZ_STATUS_WAIT4UNIEVENT = 33"
definition DMUNIPZ_STATUS_BADSCHEDULEA :: u32 where "DMUNIPZ_STATUS_BADSCHEDULEA = 34"
definition DMUNIPZ_STATUS_BADSCHEDULEB :: u32 where "DMUNIPZ_STATUS_BADSCHEDULEB = 35"
definition DMUNIPZ_STATUS_INVALIDBLKADDR :: u32 where "DMUNIPZ_STATUS_INVALIDBLKADDR = 36"
definition DMUNIPZ_STATUS_INVALIDTHRADDR :: u32 where "DMUNIPZ_STATUS_INVALIDTHRADDR = 38"
definition DMUNIPZ_STATUS_DELAYEDEVENT :: u32 where "DMUNIPZ_STATUS_DELAYEDEVENT = 39"

lemmas uz_status = DMUNIPZ_STATUS_REQTKFAILED_def DMUNIPZ_STATUS_REQTKTIMEOUT_def
  DMUNIPZ_STATUS_REQBEAMFAILED_def DMUNIPZ_STATUS_RELBEAMFAILED_def DMUNIPZ_STATUS_DEVBUSERROR_def
  DMUNIPZ_STATUS_REQNOTOK_def DMUNIPZ_STATUS_REQBEAMTIMEDOUT_def DMUNIPZ_STATUS_SAFETYMARGIN_def
  DMUNIPZ_STATUS_NOTIMESTAMP_def DMUNIPZ_STATUS_BADTIMESTAMP_def DMUNIPZ_STATUS_DMQNOTEMPTY_def
  DMUNIPZ_STATUS_LATEEVENT_def DMUNIPZ_STATUS_DMTIMEOUT_def DMUNIPZ_STATUS_BADSYNC_def
  DMUNIPZ_STATUS_WAIT4UNIEVENT_def DMUNIPZ_STATUS_BADSCHEDULEA_def DMUNIPZ_STATUS_BADSCHEDULEB_def
  DMUNIPZ_STATUS_INVALIDBLKADDR_def DMUNIPZ_STATUS_INVALIDTHRADDR_def DMUNIPZ_STATUS_DELAYEDEVENT_def

definition DMUNIPZ_ECADO_TIMEOUT :: u32 where "DMUNIPZ_ECADO_TIMEOUT = COMMON_ECADO_TIMEOUT"
definition DMUNIPZ_ECADO_REQTK :: u32 where "DMUNIPZ_ECADO_REQTK = 0x2"
definition DMUNIPZ_ECADO_REQBEAM :: u32 where "DMUNIPZ_ECADO_REQBEAM = 0x3"
definition DMUNIPZ_ECADO_RELTK :: u32 where "DMUNIPZ_ECADO_RELTK = 0x4"
definition DMUNIPZ_ECADO_READY2SIS :: u32 where "DMUNIPZ_ECADO_READY2SIS = 0x6"
definition DMUNIPZ_ECADO_MBTRIGGER :: u32 where "DMUNIPZ_ECADO_MBTRIGGER = 0x7"
definition DMUNIPZ_ECADO_PREPBEAM :: u32 where "DMUNIPZ_ECADO_PREPBEAM = 0x8"
definition DMUNIPZ_ECADO_REQBEAMNW :: u32 where "DMUNIPZ_ECADO_REQBEAMNW = 0x9"

lemmas uz_ecado = DMUNIPZ_ECADO_TIMEOUT_def DMUNIPZ_ECADO_REQTK_def DMUNIPZ_ECADO_REQBEAM_def
  DMUNIPZ_ECADO_RELTK_def DMUNIPZ_ECADO_READY2SIS_def DMUNIPZ_ECADO_MBTRIGGER_def
  DMUNIPZ_ECADO_PREPBEAM_def DMUNIPZ_ECADO_REQBEAMNW_def COMMON_ECADO_TIMEOUT_def

definition DMUNIPZ_TRANS_REQTK :: nat where "DMUNIPZ_TRANS_REQTK = 0"
definition DMUNIPZ_TRANS_REQTKOK :: nat where "DMUNIPZ_TRANS_REQTKOK = 1"
definition DMUNIPZ_TRANS_RELTK :: nat where "DMUNIPZ_TRANS_RELTK = 2"
definition DMUNIPZ_TRANS_REQBEAM :: nat where "DMUNIPZ_TRANS_REQBEAM = 3"
definition DMUNIPZ_TRANS_REQBEAMOK :: nat where "DMUNIPZ_TRANS_REQBEAMOK = 4"
definition DMUNIPZ_TRANS_RELBEAM :: nat where "DMUNIPZ_TRANS_RELBEAM = 5"
definition DMUNIPZ_TRANS_PREPBEAM :: nat where "DMUNIPZ_TRANS_PREPBEAM = 6"
definition DMUNIPZ_TRANS_UNPREPBEAM :: nat where "DMUNIPZ_TRANS_UNPREPBEAM = 7"

definition IFB_ADDRESS_SIS :: u16 where "IFB_ADDRESS_SIS = 0x20"
definition IO_MODULE_1 :: u16 where "IO_MODULE_1 = 1"
definition IO_MODULE_3 :: u16 where "IO_MODULE_3 = 3"
definition IFB_ADR_BUS_W :: u16 where "IFB_ADR_BUS_W = 0x11"
definition IFB_DATA_BUS_W :: u16 where "IFB_DATA_BUS_W = 0x10"
definition IFB_DATA_BUS_R :: u16 where "IFB_DATA_BUS_R = 0x90"
definition C_IO32_KANAL_0 :: u16 where "C_IO32_KANAL_0 = 0"

text \<open>Offsets of the shared memory: 24 words after the common part, in the order of the header.\<close>

definition uz_shared :: "nat \<Rightarrow> u32" where
  "uz_shared k = of_nat COMMON_SHARED_END + 4 * of_nat k"

definition DMUNIPZ_SHARED_NITERMAIN :: u32 where "DMUNIPZ_SHARED_NITERMAIN = uz_shared 2"
definition DMUNIPZ_SHARED_DSTMACHI :: u32 where "DMUNIPZ_SHARED_DSTMACHI = uz_shared 3"
definition DMUNIPZ_SHARED_DSTMACLO :: u32 where "DMUNIPZ_SHARED_DSTMACLO = uz_shared 4"
definition DMUNIPZ_SHARED_DSTIP :: u32 where "DMUNIPZ_SHARED_DSTIP = uz_shared 5"
definition DMUNIPZ_SHARED_OFFSETTHRD :: u32 where "DMUNIPZ_SHARED_OFFSETTHRD = uz_shared 6"
definition DMUNIPZ_SHARED_UNITIMEOUT :: u32 where "DMUNIPZ_SHARED_UNITIMEOUT = uz_shared 7"
definition DMUNIPZ_SHARED_TKTIMEOUT :: u32 where "DMUNIPZ_SHARED_TKTIMEOUT = uz_shared 8"
definition DMUNIPZ_SHARED_TRANSVIRTACC :: u32 where "DMUNIPZ_SHARED_TRANSVIRTACC = uz_shared 9"
definition DMUNIPZ_SHARED_TRANSNOBEAM :: u32 where "DMUNIPZ_SHARED_TRANSNOBEAM = uz_shared 10"
definition DMUNIPZ_SHARED_RECVIRTACC :: u32 where "DMUNIPZ_SHARED_RECVIRTACC = uz_shared 11"
definition DMUNIPZ_SHARED_DTSTART :: u32 where "DMUNIPZ_SHARED_DTSTART = uz_shared 12"
definition DMUNIPZ_SHARED_DTSYNC1 :: u32 where "DMUNIPZ_SHARED_DTSYNC1 = uz_shared 13"
definition DMUNIPZ_SHARED_DTINJECT :: u32 where "DMUNIPZ_SHARED_DTINJECT = uz_shared 14"
definition DMUNIPZ_SHARED_DTTRANSFER :: u32 where "DMUNIPZ_SHARED_DTTRANSFER = uz_shared 15"
definition DMUNIPZ_SHARED_DTTKREQ :: u32 where "DMUNIPZ_SHARED_DTTKREQ = uz_shared 16"
definition DMUNIPZ_SHARED_DTBREQ :: u32 where "DMUNIPZ_SHARED_DTBREQ = uz_shared 17"
definition DMUNIPZ_SHARED_DTREADY2SIS :: u32 where "DMUNIPZ_SHARED_DTREADY2SIS = uz_shared 18"
definition DMUNIPZ_SHARED_NR2STRANSFER :: u32 where "DMUNIPZ_SHARED_NR2STRANSFER = uz_shared 19"
definition DMUNIPZ_SHARED_NR2SCYCLE :: u32 where "DMUNIPZ_SHARED_NR2SCYCLE = uz_shared 20"
definition DMUNIPZ_SHARED_DTBPREP :: u32 where "DMUNIPZ_SHARED_DTBPREP = uz_shared 21"
definition DMUNIPZ_SHARED_NBOOSTER :: u32 where "DMUNIPZ_SHARED_NBOOSTER = uz_shared 22"
definition DMUNIPZ_SHARED_DTSYNC2 :: u32 where "DMUNIPZ_SHARED_DTSYNC2 = uz_shared 23"
definition DMUNIPZ_SHARED_END :: u32 where "DMUNIPZ_SHARED_END = uz_shared 24"

section \<open>Words exchanged with UNIPZ\<close>

text \<open>The bit fields of \<open>TPZSInfo5\<close> (written) and \<open>TPZSInfo1\<close> (read): position and width in the 16-bit
  word.  An assignment to a field keeps the low bits of the value.\<close>

definition put_bits :: "nat \<Rightarrow> nat \<Rightarrow> u32 \<Rightarrow> u16 \<Rightarrow> u16" where
  "put_bits pos len v w = (w AND NOT (push_bit pos (mask len))) OR push_bit pos (ucast v AND mask len)"

definition SIS_PrepReq :: nat where "SIS_PrepReq = 8"
definition ReqNoBeam :: nat where "ReqNoBeam = 7"
definition Req_not_ok_Ack :: nat where "Req_not_ok_Ack = 6"
definition SIS_Request :: nat where "SIS_Request = 5"
definition TK_Request :: nat where "TK_Request = 4"
definition SIS_Acc_Select :: nat where "SIS_Acc_Select = 0"
definition Req_not_ok :: nat where "Req_not_ok = 6"
definition SIS_Req_Ack :: nat where "SIS_Req_Ack = 5"
definition TK_Req_Ack :: nat where "TK_Req_Ack = 4"

lemmas pz_bits = SIS_PrepReq_def ReqNoBeam_def Req_not_ok_Ack_def SIS_Request_def TK_Request_def
  SIS_Acc_Select_def Req_not_ok_def SIS_Req_Ack_def TK_Req_Ack_def

section \<open>The global state\<close>

text \<open>\<open>dmComm\<close> and \<open>dmThrd\<close>: what is prepared for a block and for a thread of the data master.\<close>

record dm_comm =
  cm_dynpar :: u32
  cm_cmdAddr :: u32
  cm_cmdData :: "u32 list"
  cm_blockWrIdxsAddr :: u32
  cm_blockWrIdxs :: u32

record dm_thrd =
  th_dynpar :: u32
  th_cpuIdx :: u32
  th_thrIdx :: u32
  th_TSAddr :: u32
  th_TSData :: "u32 list"
  th_StartAddr :: u32
  th_StartData :: u32

definition REQTK :: nat where "REQTK = 0"
definition REQBEAM :: nat where "REQBEAM = 0"

text \<open>The arrays of commands and threads are functions of their index.  \<open>RAM_SIZE\<close>, \<open>SHARED_OFFS\<close>
  and \<open>INT_BASE_ADR\<close> come from generated headers.  \<open>dm_reply n\<close> is what the network delivers for the
  n-th block read from the data master, \<open>dm_reads\<close> counts these reads.  The last group are the local
  variables of \<open>main\<close> that its operations update.\<close>

record unipz = fw +
  RAM_SIZE :: u32
  SHARED_OFFS :: u32
  INT_BASE_ADR :: u32
  dm_reply :: "nat \<Rightarrow> nat \<Rightarrow> nat \<Rightarrow> u32"
  dm_reads :: nat
  writePZUData :: u16
  uz_statusArray :: u64
  statusTransfer :: u32
  nTransfer :: u32
  nMulti :: u32
  nBoost :: u32
  thrdOffset :: u32
  uniTimeout :: u32
  tkTimeout :: u32
  tReady2Sis :: u64
  tBreq :: u64
  tTkreq :: u64
  flagTkReq :: u32
  nR2sTransfer :: u32
  nR2sTotal :: u32
  nR2sLastTkrel :: u32
  nR2sCycle :: u32
  flagDebug :: u32
  dmCmds :: "nat \<Rightarrow> dm_comm"
  dmThrs :: "nat \<Rightarrow> dm_thrd"
  nLate :: u32
  offsDone :: u32
  comLatency :: u32
  maxComLatency :: u32
  maxOffsDone :: u32
  nIter :: u32
  virtAccReq :: u32
  virtAccRec :: u32
  noBeam :: u32
  dtStart :: u64
  dtSync1 :: u64
  dtSync2 :: u64
  dtInject :: u64
  dtTransfer :: u64
  dtTkreq :: u64
  dtBreq :: u64
  dtBprep :: u64
  dtReady2Sis :: u64

end
