(* ===== verification/Unipz_Dm.thy ===== *)
theory Unipz_Dm
  imports Unipz_State
begin

text \<open>
  What the gateway prepares for the data master and how it sends it
  (modules/dm-unipz/fw/dm-unipz.c): addresses of the data master seen from inside and outside, the
  start of a thread, and commands written into the queue of a block.  Blocks of the data master are
  read and written over the network by the transfers of the common library.
\<close>

section \<open>Addresses\<close>

text \<open>The RAM size rounded up to a power of two, as the code does it with shifts.\<close>

definition round_up_2n :: "u32 \<Rightarrow> u32" where
  "round_up_2n n =
     (let r0 = n - 1;
          r1 = r0 OR drop_bit 1 r0;
          r2 = r1 OR drop_bit 2 r1;
          r3 = r2 OR drop_bit 4 r2;
          r4 = r3 OR drop_bit 8 r3;
          r5 = r4 OR drop_bit 16 r4
      in r5 + 1)"

definition dmExt2BaseAddr :: "u32 \<Rightarrow> unipz \<Rightarrow> u32" where
  "dmExt2BaseAddr extAddr s = extAddr AND NOT (round_up_2n (RAM_SIZE s) - 1)"

definition dmExt2IntAddr :: "u32 \<Rightarrow> unipz \<Rightarrow> u32" where
  "dmExt2IntAddr extAddr s = extAddr - dmExt2BaseAddr extAddr s + INT_BASE_ADR s"

definition dmInt2ExtAddr :: "u32 \<Rightarrow> u32 \<Rightarrow> unipz \<Rightarrow> u32" where
  "dmInt2ExtAddr intAddr extBaseAddr s = intAddr - INT_BASE_ADR s + extBaseAddr"

section \<open>Threads\<close>

definition set_thr :: "nat \<Rightarrow> (dm_thrd \<Rightarrow> dm_thrd) \<Rightarrow> unipz \<Rightarrow> unipz" where
  "set_thr blk f s = s\<lparr>dmThrs := (dmThrs s)(blk := f (dmThrs s blk))\<rparr>"

definition dmCheckThr :: "nat \<Rightarrow> unipz \<Rightarrow> u32" where
  "dmCheckThr blk s =
     (let t = dmThrs s blk in
      if th_dynpar t = 0 then DMUNIPZ_STATUS_INVALIDTHRADDR
      else if th_TSAddr t = 0 then DMUNIPZ_STATUS_INVALIDTHRADDR
      else if th_StartAddr t = 0 then DMUNIPZ_STATUS_INVALIDTHRADDR
      else COMMON_STATUS_OK)"

definition dmClearThr :: "nat \<Rightarrow> unipz \<Rightarrow> u32 \<times> unipz" where
  "dmClearThr blk s =
     (COMMON_STATUS_OK, set_thr blk (\<lambda>t. t\<lparr>th_dynpar := 0, th_TSAddr := 0, th_StartAddr := 0\<rparr>) s)"

text \<open>The start bit is \<open>1 << thrIdx\<close>; a shift by 32 or more is undefined in C and gives 0 here.\<close>

definition dmPrepThrStart :: "nat \<Rightarrow> u64 \<Rightarrow> unipz \<Rightarrow> u32 \<times> unipz" where
  "dmPrepThrStart blk startTS s =
     (let t = dmThrs s blk;
          extBaseAddr = dmExt2BaseAddr (th_dynpar t) s;
          startTSAddr = extBaseAddr + SHARED_OFFS s + (SHCTL_THR_STA + th_thrIdx t * T_TS_SIZE + T_TS_STARTTIME);
          startCtlAddr = extBaseAddr + SHARED_OFFS s + (SHCTL_THR_CTL + T_TC_START)
      in (COMMON_STATUS_OK,
          set_thr blk (\<lambda>t. t\<lparr>th_TSAddr := startTSAddr, th_TSData := [hiW startTS, loW startTS],
            th_StartAddr := startCtlAddr, th_StartData := push_bit (unat (th_thrIdx t)) 1\<rparr>) s))"

text \<open>The copy of what is written, sent to the gateway's own ECA when debugging is on.\<close>

definition debug_id :: "u64 \<Rightarrow> u32 \<Rightarrow> u64" where
  "debug_id evtno adr = 0xcafe000000000000 OR push_bit 36 evtno OR ucast adr"

definition debug_pair :: "u64 \<Rightarrow> u64 \<Rightarrow> u32 \<Rightarrow> u64 \<Rightarrow> u64 \<Rightarrow> u32 \<Rightarrow> u64 \<Rightarrow> unipz \<Rightarrow> unipz" where
  "debug_pair TS e1 a1 p1 e2 a2 p2 s =
     (if flagDebug s \<noteq> 0
      then snd (fwlib_ecaWriteTM (TS + 8) (debug_id e2 a2) p2 0 1 (snd (fwlib_ecaWriteTM TS (debug_id e1 a1) p1 0 1 s)))
      else s)"

definition dmStartThread :: "nat \<Rightarrow> unipz \<Rightarrow> unipz" where
  "dmStartThread blk s =
     (let t = dmThrs s blk;
          s1 = snd (fwlib_ebmWriteN (th_TSAddr t) (take 2 (th_TSData t)) s);
          s2 = snd (fwlib_ebmWriteN (th_StartAddr t) [th_StartData t] s1)
      in debug_pair (mk64 (th_TSData t ! 0) (th_TSData t ! 1)) 0xfa0 (th_TSAddr t) 0
           0xfa1 (th_StartAddr t) (ucast (th_StartData t)) s2)"

section \<open>Commands\<close>

definition set_cmd :: "nat \<Rightarrow> (dm_comm \<Rightarrow> dm_comm) \<Rightarrow> unipz \<Rightarrow> unipz" where
  "set_cmd blk f s = s\<lparr>dmCmds := (dmCmds s)(blk := f (dmCmds s blk))\<rparr>"

definition dmCheckCmd :: "nat \<Rightarrow> unipz \<Rightarrow> u32" where
  "dmCheckCmd blk s =
     (if cm_dynpar (dmCmds s blk) = 0 then DMUNIPZ_STATUS_INVALIDBLKADDR
      else if cm_cmdAddr (dmCmds s blk) = 0 then DMUNIPZ_STATUS_INVALIDBLKADDR
      else COMMON_STATUS_OK)"

definition dmClearCmd :: "nat \<Rightarrow> unipz \<Rightarrow> u32 \<times> unipz" where
  "dmClearCmd blk s = (COMMON_STATUS_OK, set_cmd blk (\<lambda>c. c\<lparr>cm_dynpar := 0, cm_cmdAddr := 0\<rparr>) s)"

text \<open>A read from the data master, with the next reply of the network.\<close>

definition dm_read :: "u32 \<Rightarrow> nat \<Rightarrow> unipz \<Rightarrow> (u32 \<times> u32 list \<times> unipz) option" where
  "dm_read a n s = fwlib_ebmReadN (dm_reply s (dm_reads s)) 2000 a n (s\<lparr>dm_reads := Suc (dm_reads s)\<rparr>)"

text \<open>Word \<open>i\<close> of a block by its byte offset.\<close>

definition at_offs :: "u32 list \<Rightarrow> u32 \<Rightarrow> u32" where
  "at_offs ws o' = ws ! unat (drop_bit 2 o')"

text \<open>The index of the queue of priority \<open>prio\<close> is byte \<open>prio\<close> from below.\<close>

definition q_full :: "u8 \<Rightarrow> u8 \<Rightarrow> bool" where
  "q_full wrIdx rdIdx \<longleftrightarrow> wrIdx AND Q_IDX_MAX_OVF_MSK \<noteq> rdIdx AND Q_IDX_MAX_OVF_MSK \<and>
     wrIdx AND Q_IDX_MAX_MSK = rdIdx AND Q_IDX_MAX_MSK"

text \<open>The first part of \<open>dmPrepCmdCommon\<close>: read the block, and refuse when its queue is full or, on demand,
  not empty.  The result names the status and, if it is good, the block's data and the write index.\<close>

definition prep_block :: "nat \<Rightarrow> nat \<Rightarrow> bool \<Rightarrow> unipz \<Rightarrow> (u32 \<times> u32 list \<times> u8 \<times> unipz) option" where
  "prep_block blk prio checkEmptyQ s = do {
     (status, blockData, s1) \<leftarrow> dm_read (cm_dynpar (dmCmds s blk)) (unat (MEM_BLOCK_SIZE div 4)) s;
     let wrIdx = getbyte (at_offs blockData BLOCK_CMDQ_WR_IDXS) prio;
     let rdIdx = getbyte (at_offs blockData BLOCK_CMDQ_RD_IDXS) prio;
     Some (if status \<noteq> COMMON_STATUS_OK then status
           else if checkEmptyQ \<and> wrIdx \<noteq> rdIdx then DMUNIPZ_STATUS_DMQNOTEMPTY
           else if q_full wrIdx rdIdx then COMMON_STATUS_OUTOFRANGE
           else COMMON_STATUS_OK, blockData, wrIdx, s1)
   }"

text \<open>Where the element of the queue lies: offset in the list of buffers and offset in the buffer.\<close>

definition buffListAddrOffs :: "u8 \<Rightarrow> u32" where
  "buffListAddrOffs wrIdx = ucast (wrIdx AND Q_IDX_MAX_MSK) div (MEM_BLOCK_SIZE div T_CMD_SIZE) * 4"

definition cmdListAddrOffs :: "u8 \<Rightarrow> u32" where
  "cmdListAddrOffs wrIdx = ucast (wrIdx AND Q_IDX_MAX_MSK) mod (MEM_BLOCK_SIZE div T_CMD_SIZE) * T_CMD_SIZE"

definition buff_list :: "nat \<Rightarrow> u32 list \<Rightarrow> u32" where
  "buff_list prio blockData = at_offs blockData
     (if prio = 2 then BLOCK_CMDQ_IL_PTR else if prio = 1 then BLOCK_CMDQ_HI_PTR else BLOCK_CMDQ_LO_PTR)"

definition dmPrepCmdCommon :: "nat \<Rightarrow> nat \<Rightarrow> bool \<Rightarrow> u64 \<Rightarrow> unipz \<Rightarrow> (u32 \<times> unipz) option" where
  "dmPrepCmdCommon blk prio checkEmptyQ cmdValidTime s =
     (if 2 < prio then Some (COMMON_STATUS_OUTOFRANGE, s)
      else do {
        let blockAddr = cm_dynpar (dmCmds s blk);
        let extBaseAddr = dmExt2BaseAddr blockAddr s;
        (status, blockData, wrIdx, s1) \<leftarrow> prep_block blk prio checkEmptyQ s;
        if status \<noteq> COMMON_STATUS_OK then Some (status, s1)
        else do {
          let buffAddr = dmInt2ExtAddr (buff_list prio blockData) extBaseAddr s1 + buffListAddrOffs wrIdx;
          (status', d, s2) \<leftarrow> dm_read buffAddr 1 s1;
          if status' \<noteq> COMMON_STATUS_OK then Some (status', s2)
          else Some (COMMON_STATUS_OK,
            set_cmd blk (\<lambda>c. c\<lparr>
              cm_cmdAddr := dmInt2ExtAddr (d ! 0) extBaseAddr s2 + cmdListAddrOffs wrIdx,
              cm_cmdData := (replicate (unat T_CMD_SIZE) 0)[0 := hiW cmdValidTime, 1 := loW cmdValidTime],
              cm_blockWrIdxs := setbyte (at_offs blockData BLOCK_CMDQ_WR_IDXS) prio ((wrIdx + 1) AND Q_IDX_MAX_OVF_MSK),
              cm_blockWrIdxsAddr := blockAddr + BLOCK_CMDQ_WR_IDXS\<rparr>) s2)
        }
      })"

definition put_word :: "u32 \<Rightarrow> u32 \<Rightarrow> dm_comm \<Rightarrow> dm_comm" where
  "put_word o' v c = c\<lparr>cm_cmdData := (cm_cmdData c)[unat (drop_bit 2 o') := v]\<rparr>"

definition dmSetTValidCmdCommon :: "nat \<Rightarrow> u64 \<Rightarrow> unipz \<Rightarrow> u32 \<times> unipz" where
  "dmSetTValidCmdCommon blk cmdValidTime s =
     (COMMON_STATUS_OK,
      set_cmd blk (put_word (T_CMD_TIME + 4) (loW cmdValidTime) \<circ> put_word T_CMD_TIME (hiW cmdValidTime)) s)"

text \<open>The action words: type in bits 20 to 23, quantity in bits 0 to 19, priority in bits 24 and 25, the
  flushed priorities from bit 28.\<close>

definition action_word :: "u32 \<Rightarrow> u32 \<Rightarrow> u32 \<Rightarrow> u32" where
  "action_word ty qty prio =
     push_bit 20 (ty AND ACT_TYPE_MSK) OR (qty AND ACT_QTY_MSK) OR push_bit 24 (prio AND ACT_PRIO_MSK)"

definition dmPrepCmdFlow :: "nat \<Rightarrow> unipz \<Rightarrow> u32 \<times> unipz" where
  "dmPrepCmdFlow blk s =
     (COMMON_STATUS_OK,
      set_cmd blk (put_word (T_CMD_FLOW_DEST + 4) 0
        \<circ> put_word T_CMD_FLOW_DEST (dmExt2IntAddr (cm_dynpar (dmCmds s blk)) s)
        \<circ> put_word T_CMD_ACT (action_word 2 1 0)) s)"

definition dmPrepCmdFlush :: "nat \<Rightarrow> unipz \<Rightarrow> u32 \<times> unipz" where
  "dmPrepCmdFlush blk s =
     (COMMON_STATUS_OK,
      set_cmd blk (put_word T_CMD_FLUSH_OVR 0
        \<circ> put_word T_CMD_ACT (action_word 3 1 1 OR push_bit 28 (push_bit 0 1 AND ACT_FLUSH_PRIO_MSK))) s)"

definition dmChangeBlock :: "nat \<Rightarrow> unipz \<Rightarrow> unipz" where
  "dmChangeBlock blk s =
     (let c = dmCmds s blk;
          s1 = snd (fwlib_ebmWriteN (cm_cmdAddr c) (take (unat (T_CMD_SIZE div 4)) (cm_cmdData c)) s);
          s2 = snd (fwlib_ebmWriteN (cm_blockWrIdxsAddr c) [cm_blockWrIdxs c] s1)
      in debug_pair (mk64 (cm_cmdData c ! 0) (cm_cmdData c ! 1)) 0xfa2 (cm_cmdAddr c) (ucast (cm_cmdData c ! 0))
           0xfa3 (cm_blockWrIdxsAddr c) (ucast (cm_blockWrIdxs c)) s2)"

end
