(* ===== verification/Unipz_Pz.thy ===== *)
theory Unipz_Pz
  imports Unipz_State
begin

text \<open>
  The gateway's side to UNIPZ (modules/dm-unipz/fw/dm-unipz.c): words over the MIL device
  bus to and from the 'Pulszentrale' of the UNILAC, requests for the transfer channel (TK) and for
  beam with their acknowledgements, and the configuration of the event bus.  A wait that the clock never
  ends is None.
\<close>

section \<open>Words over the device bus\<close>

definition module_adr :: "u16 \<Rightarrow> u16" where
  "module_adr modAddr = push_bit 8 modAddr OR C_IO32_KANAL_0"

definition writeToPZU :: "u16 \<Rightarrow> u16 \<Rightarrow> u16 \<Rightarrow> unipz \<Rightarrow> int \<times> unipz" where
  "writeToPZU ifbAddr modAddr data s =
     (case writeDevMil 0 ifbAddr IFB_ADR_BUS_W (module_adr modAddr) s of (st, s1) \<Rightarrow>
        if st \<noteq> MIL_STAT_OK then (st, s1) else writeDevMil 0 ifbAddr IFB_DATA_BUS_W data s1)"

definition readFromPZU :: "u16 \<Rightarrow> u16 \<Rightarrow> u16 \<Rightarrow> unipz \<Rightarrow> int \<times> u16 \<times> unipz" where
  "readFromPZU ifbAddr modAddr data s =
     (case writeDevMil 0 ifbAddr IFB_ADR_BUS_W (module_adr modAddr) s of (st, s1) \<Rightarrow>
        if st \<noteq> MIL_STAT_OK then (st, data, s1)
        else case readDevMil 0 ifbAddr IFB_DATA_BUS_R 0 s1 of (st', rData, s2) \<Rightarrow>
          (st', if st' = MIL_STAT_OK then rData else data, s2))"

text \<open>Change the word for UNIPZ and send it; the status of the gateway says whether the bus worked.\<close>

definition send_pzu :: "(u16 \<Rightarrow> u16) \<Rightarrow> unipz \<Rightarrow> u32 \<times> unipz" where
  "send_pzu f s =
     (let w = f (writePZUData s) in
      case writeToPZU IFB_ADDRESS_SIS IO_MODULE_1 w (s\<lparr>writePZUData := w\<rparr>) of (st, s1) \<Rightarrow>
        (if st \<noteq> MIL_STAT_OK then DMUNIPZ_STATUS_DEVBUSERROR else COMMON_STATUS_OK, s1))"

definition read_pzu :: "unipz \<Rightarrow> u16 option \<times> unipz" where
  "read_pzu s =
     (case readFromPZU IFB_ADDRESS_SIS IO_MODULE_3 0 s of (st, v, s1) \<Rightarrow>
        (if st \<noteq> MIL_STAT_OK then None else Some v, s1))"

definition ms_from :: "u64 \<Rightarrow> u32 \<Rightarrow> u64" where
  "ms_from now msTimeout = now + ucast msTimeout * 1000000"

text \<open>The loops that query UNIPZ until a bit of its word decides or the time is over: \<open>verdict\<close> maps the word
  to the status to return, if any.  A failure of the bus ends the loop.\<close>

partial_function (option) pz_wait ::
  "u64 \<Rightarrow> (u16 \<Rightarrow> u32 option) \<Rightarrow> unipz \<Rightarrow> (u32 option \<times> unipz) option"
where
  "pz_wait timeoutT verdict s =
     (case sys_time s of (now, s1) \<Rightarrow>
        if now < timeoutT
        then (case read_pzu s1 of (v, s2) \<Rightarrow>
                case v of
                  None \<Rightarrow> Some (Some DMUNIPZ_STATUS_DEVBUSERROR, s2)
                | Some w \<Rightarrow>
                    (case verdict w of
                       Some st \<Rightarrow> Some (Some st, s2)
                     | None \<Rightarrow> pz_wait timeoutT verdict s2))
        else Some (None, s1))"

section \<open>Requests\<close>

text \<open>An error flag of UNIPZ is acknowledged; the acknowledgement is withdrawn when the flag is gone.\<close>

definition checkClearReqNotOk :: "u32 \<Rightarrow> unipz \<Rightarrow> (u32 \<times> unipz) option" where
  "checkClearReqNotOk msTimeout s =
     (case sys_time s of (now, s0) \<Rightarrow>
      case read_pzu s0 of
        (None, s1) \<Rightarrow> Some (DMUNIPZ_STATUS_DEVBUSERROR, s1)
      | (Some w, s1) \<Rightarrow>
          if \<not> bit w Req_not_ok then Some (COMMON_STATUS_OK, s1)
          else case send_pzu (\<lambda>_. put_bits Req_not_ok_Ack 1 1 0) s1 of (st, s2) \<Rightarrow>
            if st \<noteq> COMMON_STATUS_OK then Some (st, s2)
            else do {
              (r, s3) \<leftarrow> pz_wait (ms_from now msTimeout)
                (\<lambda>w. if \<not> bit w Req_not_ok then Some DMUNIPZ_STATUS_REQNOTOK else None) s2;
              Some (case r of
                None \<Rightarrow> (DMUNIPZ_STATUS_REQNOTOK, s3)
              | Some st' \<Rightarrow> (st', if st' = DMUNIPZ_STATUS_REQNOTOK
                                  then snd (send_pzu (put_bits Req_not_ok_Ack 1 0) s3) else s3))
            })"

text \<open>The first word sent carries the request only; an answer that shows neither acknowledgement nor refusal is
  waited for again.\<close>

definition tk_word :: "u32 \<Rightarrow> u32 \<Rightarrow> u16" where
  "tk_word virtAcc dryRunFlag =
     put_bits ReqNoBeam 1 dryRunFlag (put_bits SIS_Acc_Select 4 virtAcc (put_bits TK_Request 1 1 0))"

definition tk_verdict :: "u16 \<Rightarrow> u32 option" where
  "tk_verdict w =
     (if bit w TK_Req_Ack then Some COMMON_STATUS_OK
      else if bit w Req_not_ok then Some DMUNIPZ_STATUS_REQTKFAILED else None)"

definition requestTK :: "u32 \<Rightarrow> u32 \<Rightarrow> u32 \<Rightarrow> unipz \<Rightarrow> (u32 \<times> unipz) option" where
  "requestTK msTimeout virtAcc dryRunFlag s =
     (if virtAcc > 0xf then Some (COMMON_STATUS_OUTOFRANGE, s)
      else case sys_time s of (now, s1) \<Rightarrow>
           case send_pzu (\<lambda>_. tk_word virtAcc dryRunFlag) s1 of (st, s2) \<Rightarrow>
             if st \<noteq> COMMON_STATUS_OK then Some (st, s2)
             else do {
               (r, s3) \<leftarrow> pz_wait (ms_from now msTimeout) tk_verdict s2;
               Some (case r of None \<Rightarrow> DMUNIPZ_STATUS_REQTKTIMEOUT | Some st' \<Rightarrow> st', s3)
             })"

definition releaseTK :: "unipz \<Rightarrow> u32 \<times> unipz" where
  "releaseTK s = send_pzu (put_bits TK_Request 1 0) s"

definition beam_verdict :: "u16 \<Rightarrow> u32 option" where
  "beam_verdict w =
     (if bit w SIS_Req_Ack then Some COMMON_STATUS_OK
      else if bit w Req_not_ok then Some DMUNIPZ_STATUS_REQBEAMFAILED else None)"

definition requestBeam :: "u32 \<Rightarrow> u32 \<Rightarrow> unipz \<Rightarrow> (u32 \<times> unipz) option" where
  "requestBeam msTimeout dryRunFlag s =
     (case send_pzu (put_bits ReqNoBeam 1 dryRunFlag \<circ> put_bits SIS_Request 1 1) s of (st, s1) \<Rightarrow>
        if st \<noteq> COMMON_STATUS_OK then Some (st, s1)
        else case sys_time s1 of (now, s2) \<Rightarrow> do {
          (r, s3) \<leftarrow> pz_wait (ms_from now msTimeout) beam_verdict s2;
          Some (case r of None \<Rightarrow> DMUNIPZ_STATUS_REQBEAMTIMEDOUT | Some st' \<Rightarrow> st', s3)
        })"

definition releaseBeam :: "u32 \<Rightarrow> unipz \<Rightarrow> (u32 \<times> unipz) option" where
  "releaseBeam msTimeout s =
     (case send_pzu (put_bits ReqNoBeam 1 0 \<circ> put_bits SIS_Request 1 0) s of (st, s1) \<Rightarrow>
        if st \<noteq> COMMON_STATUS_OK then Some (st, s1)
        else case sys_time s1 of (now, s2) \<Rightarrow> do {
          (r, s3) \<leftarrow> pz_wait (ms_from now msTimeout)
            (\<lambda>w. if \<not> bit w SIS_Req_Ack then Some COMMON_STATUS_OK else None) s2;
          Some (case r of None \<Rightarrow> DMUNIPZ_STATUS_RELBEAMFAILED | Some st' \<Rightarrow> st', s3)
        })"

definition prepareBeam :: "unipz \<Rightarrow> u32 \<times> unipz" where
  "prepareBeam s = send_pzu (put_bits SIS_PrepReq 1 1) s"

definition unprepareBeam :: "unipz \<Rightarrow> u32 \<times> unipz" where
  "unprepareBeam s = send_pzu (put_bits SIS_PrepReq 1 0) s"

section \<open>Event bus\<close>

text \<open>A sequence of bus operations that ends with the first failure.\<close>

fun mil_seq :: "(unipz \<Rightarrow> int \<times> unipz) list \<Rightarrow> unipz \<Rightarrow> u32 \<times> unipz" where
  "mil_seq [] s = (COMMON_STATUS_OK, s)"
| "mil_seq (f # fs) s = (case f s of (st, s1) \<Rightarrow> if st \<noteq> MIL_STAT_OK then (COMMON_STATUS_ERROR, s1) else mil_seq fs s1)"

definition configMILEvent :: "u16 \<Rightarrow> unipz \<Rightarrow> u32 \<times> unipz" where
  "configMILEvent evtCode =
     mil_seq ([writeCtrlStatRegEvtMil 0 (MIL_CTRL_STAT_ENDECODER_FPGA OR MIL_CTRL_STAT_INTR_DEB_ON),
        disableLemoEvtMil 0 1, disableLemoEvtMil 0 2, disableFilterEvtMil 0, clearFilterEvtMil 0]
      @ map (\<lambda>i. setFilterEvtMil 0 evtCode (of_nat i) (MIL_FILTER_EV_TO_FIFO OR MIL_FILTER_EV_PULS1_S)) [0..<0xf + 1]
      @ [configLemoPulseEvtMil 0 1])"

end
