(* ===== verification/Unipz.thy ===== *)
theory Unipz
  imports Unipz_Dm Unipz_Pz
begin

text \<open>
  The gateway firmware (modules/dm-unipz/fw/dm-unipz.c): start, entry and exit actions, commands of the
  host, what it does for each action the ECA delivers, and one pass of the main loop.  In operation
  the gateway is driven by the data master: a request for the transfer channel, for preparation of
  beam, for beam (with a command to a waiting block, or, in booster mode, without), and the
  release.
\<close>

section \<open>Small helpers\<close>

definition trans_bit :: "nat \<Rightarrow> unipz \<Rightarrow> unipz" where
  "trans_bit k s = s\<lparr>statusTransfer := statusTransfer s OR push_bit k 1\<rparr>"

text \<open>The time since \<open>t\<close>.\<close>

definition since :: "u64 \<Rightarrow> unipz \<Rightarrow> u64 \<times> unipz" where
  "since t s = (case sys_time s of (now, s1) \<Rightarrow> (now - t, s1))"

text \<open>The communication latency is the low word of it.\<close>

definition put_latency :: "u64 \<Rightarrow> unipz \<Rightarrow> unipz" where
  "put_latency deadline s = (case since deadline s of (d, s1) \<Rightarrow> s1\<lparr>comLatency := ucast d\<rparr>)"

definition C_NOTIME :: u64 where "C_NOTIME = 0xffffffffffffffff"

section \<open>Transfer channel\<close>

text \<open>The handlers return whether the operation was left early, the status and the state.\<close>

definition do_reqtk :: "eca_action \<Rightarrow> unipz \<Rightarrow> (bool \<times> u32 \<times> unipz) option" where
  "do_reqtk a s0 =
     (let s = put_latency (ea_deadline a) s0 in
      if ea_late a then Some (True, DMUNIPZ_STATUS_LATEEVENT, s)
      else
        let virtAcc = ucast (ea_id a AND 0xf); dryRun = (if ea_id a AND 0x10 \<noteq> 0 then 1 else 0);
            s1 = (set_cmd REQTK (\<lambda>c. c\<lparr>cm_dynpar := ucast (ea_param a AND 0xffffffff)\<rparr>) s)\<lparr>
              nTransfer := nTransfer s + 1, virtAccReq := virtAcc, virtAccRec := 42, noBeam := dryRun,
              statusTransfer := push_bit DMUNIPZ_TRANS_REQTK 1, nMulti := 0, nBoost := 0,
              dtSync1 := C_NOTIME, dtSync2 := C_NOTIME, dtTransfer := C_NOTIME, dtInject := C_NOTIME,
              dtTkreq := C_NOTIME, dtBreq := C_NOTIME, dtBprep := C_NOTIME, dtReady2Sis := C_NOTIME,
              dtStart := C_NOTIME, flagTkReq := 1, tTkreq := ea_deadline a, nR2sTransfer := 0\<rparr>
        in do {
          (status, s2) \<leftarrow> requestTK (tkTimeout s1) virtAcc dryRun s1;
          (_, s3) \<leftarrow> checkClearReqNotOk (uniTimeout s2) s2;
          let (dt, s4) = since (ea_deadline a) s3;
          let s5 = s4\<lparr>dtTkreq := dt\<rparr>;
          Some (False, status, if status = COMMON_STATUS_OK then trans_bit DMUNIPZ_TRANS_REQTKOK s5 else s5)
        })"

definition do_prepbeam :: "eca_action \<Rightarrow> unipz \<Rightarrow> (bool \<times> u32 \<times> unipz) option" where
  "do_prepbeam a s0 =
     (let s = put_latency (ea_deadline a) s0 in
      if ea_late a then Some (True, DMUNIPZ_STATUS_LATEEVENT, s)
      else case prepareBeam s of (status, s1) \<Rightarrow>
        Some (False, status, if status = COMMON_STATUS_OK then trans_bit DMUNIPZ_TRANS_PREPBEAM s1 else s1))"

definition do_reltk :: "u32 \<Rightarrow> eca_action \<Rightarrow> unipz \<Rightarrow> (bool \<times> u32 \<times> unipz) option" where
  "do_reltk status a s0 =
     (let s = put_latency (ea_deadline a) s0;
          s1 = s\<lparr>dtSync2 := (if tReady2Sis s = 0 then C_NOTIME else ea_deadline a - tReady2Sis s)\<rparr>;
          s2 = snd (releaseTK (snd (dmClearCmd REQTK s1)))
      in do {
        (_, s3) \<leftarrow> checkClearReqNotOk (uniTimeout s2) s2;
        let s4 = trans_bit DMUNIPZ_TRANS_RELTK s3;
        Some (False, status, s4\<lparr>flagTkReq := 0, nR2sCycle := nR2sTotal s4 - nR2sLastTkrel s4,
          nR2sLastTkrel := nR2sTotal s4\<rparr>)
      })"

text \<open>Diagnostics at the trigger.  Two of the values for 'no valid time' have fifteen digits only.\<close>

definition do_mbtrigger :: "u32 \<Rightarrow> eca_action \<Rightarrow> unipz \<Rightarrow> (bool \<times> u32 \<times> unipz) option" where
  "do_mbtrigger status a s0 =
     (let s = put_latency (ea_deadline a) s0;
          dl = ea_deadline a;
          s1 = s\<lparr>dtSync1 := (if tReady2Sis s = 0 then C_NOTIME else dl - tReady2Sis s),
                dtInject := (if tBreq s = 0 then 0xfffffffffffffff else dl - tBreq s),
                dtTransfer := (if tTkreq s = 0 then 0xfffffffffffffff else dl - tTkreq s)\<rparr>;
          status1 = (if status = COMMON_STATUS_OK \<and> flagTkReq s1 \<noteq> 0 \<and>
                        (dtSync1 s1 < DMUNIPZ_OFFSETINJECT - DMUNIPZ_MATCHWINDOW \<or>
                         dtSync1 s1 > DMUNIPZ_OFFSETINJECT + DMUNIPZ_MATCHWINDOW)
                     then DMUNIPZ_STATUS_BADSYNC else status);
          status2 = (if status = COMMON_STATUS_OK \<and> flagTkReq s1 \<noteq> 0 \<and>
                        dtInject s1 < DMUNIPZ_OFFSETINJECT + DMUNIPZ_MATCHWINDOW
                     then DMUNIPZ_STATUS_BADSCHEDULEA else status1)
      in Some (False, status2, s1))"

definition do_ready2sis :: "u32 \<Rightarrow> eca_action \<Rightarrow> unipz \<Rightarrow> (bool \<times> u32 \<times> unipz) option" where
  "do_ready2sis status a s0 =
     (let s = put_latency (ea_deadline a) s0;
          s1 = (if flagTkReq s \<noteq> 0 then s\<lparr>nR2sTransfer := nR2sTransfer s + 1\<rparr> else s)
      in Some (False, status, s1\<lparr>nR2sTotal := nR2sTotal s1 + 1\<rparr>))"

section \<open>Beam request\<close>

text \<open>First part: take the parameters of the request.  The thread data of an earlier request is cleared in
  any case.\<close>

definition breq_begin :: "bool \<Rightarrow> eca_action \<Rightarrow> unipz \<Rightarrow> unipz" where
  "breq_begin booster a s =
     snd (dmClearThr REQBEAM
       (if booster then s\<lparr>nBoost := nBoost s + 1\<rparr> else s\<lparr>nMulti := nMulti s + 1\<rparr>))"

definition breq_init :: "eca_action \<Rightarrow> unipz \<Rightarrow> u64 \<times> unipz" where
  "breq_init a s =
     (let p = ea_param a;
          s1 = set_thr REQBEAM (\<lambda>t. t\<lparr>th_dynpar := hiW p, th_cpuIdx := ucast (drop_bit 8 p AND 0xff),
                 th_thrIdx := ucast (p AND 0xff)\<rparr>) s
      in case sys_time s1 of (tCmdValid, s2) \<Rightarrow> (tCmdValid, s2\<lparr>tBreq := ea_deadline a, tReady2Sis := 0\<rparr>))"

text \<open>Second part, when not in booster mode: prepare the command that ends the wait of the data master's block,
  with a second attempt after a lost packet.  The flag tells whether it was needed.\<close>

definition breq_block :: "u64 \<Rightarrow> unipz \<Rightarrow> (u32 \<times> bool \<times> unipz) option" where
  "breq_block tCmdValid s = do {
     (st, s1) \<leftarrow> dmPrepCmdCommon REQTK 1 True tCmdValid s;
     (st', s2) \<leftarrow> (if st = COMMON_STATUS_EBREADTIMEDOUT then dmPrepCmdCommon REQTK 1 True tCmdValid s1
                   else Some (st, s1));
     let again = (st = COMMON_STATUS_EBREADTIMEDOUT);
     if st' \<noteq> COMMON_STATUS_OK then Some (st', again, s2)
     else let s3 = snd (dmPrepCmdFlush REQTK s2) in Some (dmCheckCmd REQTK s3, again, s3)
   }"

text \<open>Third part: request beam and wait for EVT_READY_TO_SIS, first on the event bus and then as a time stamp from
  the ECA.  Besides the status it returns whether the event is valid and whether nothing may be sent to the
  data master.\<close>

definition breq_stamp :: "unipz \<Rightarrow> (u32 \<times> bool \<times> bool \<times> unipz) option" where
  "breq_stamp s = do {
     (tag, a, s1) \<leftarrow> fwlib_wait4ECAEvent (DMUNIPZ_QUERYTIMEOUT * 1000) s;
     let s2 = s1\<lparr>tReady2Sis := ea_deadline a\<rparr>;
     if tag = DMUNIPZ_ECADO_READY2SIS then
       case since (tReady2Sis s2) s2 of (d, s3) \<Rightarrow>
         let s4 = s3\<lparr>nR2sTransfer := nR2sTransfer s3 + 1, nR2sTotal := nR2sTotal s3 + 1\<rparr>
         in Some (if d < DMUNIPZ_MATCHWINDOW then COMMON_STATUS_OK else DMUNIPZ_STATUS_BADTIMESTAMP,
                  d < DMUNIPZ_MATCHWINDOW, False, s4)
     else if tag = DMUNIPZ_ECADO_TIMEOUT then Some (DMUNIPZ_STATUS_NOTIMESTAMP, False, False, s2)
     else Some (DMUNIPZ_STATUS_BADSCHEDULEB, False, True, s2)
   }"

definition breq_wait :: "u64 \<Rightarrow> u32 \<Rightarrow> unipz \<Rightarrow> (u32 \<times> bool \<times> bool \<times> unipz) option" where
  "breq_wait deadline dryRun s = do {
     (st, s1) \<leftarrow> requestBeam (uniTimeout s) dryRun s;
     let (dt, s2) = since deadline s1;
     let s3 = s2\<lparr>dtBreq := dt\<rparr>;
     if st \<noteq> COMMON_STATUS_OK then Some (st, False, False, s3)
     else do {
       (mil, e, s4) \<leftarrow> fwlib_wait4MILEvent (uniTimeout s3 * 1000) [DMUNIPZ_EVT_READY2SIS] s3;
       let s5 = s4\<lparr>virtAccRec := me_virtAcc e\<rparr>;
       if mil = COMMON_STATUS_OK then breq_stamp s5
       else Some (if mil = COMMON_STATUS_TIMEDOUT then DMUNIPZ_STATUS_WAIT4UNIEVENT else mil, False, False, s5)
     }
   }"

text \<open>Fourth part: the time at which the thread shall start.  Too little time left, or too late for the data
  master, changes the status.\<close>

definition breq_time :: "u64 \<Rightarrow> u32 \<Rightarrow> bool \<Rightarrow> bool \<Rightarrow> unipz \<Rightarrow> u64 \<times> u32 \<times> bool \<times> unipz" where
  "breq_time deadline status valid noCmd s =
     (let (t1, s1) = (if valid
            then (tReady2Sis s + ucast (thrdOffset s),
                  fwlib_milPulseLemo 2 (s\<lparr>dtReady2Sis := tReady2Sis s - deadline\<rparr>))
            else (case sys_time s of (now, s') \<Rightarrow> (now + ucast (thrdOffset s'), s')));
          (now, s2) = sys_time s1;
          (t2, st2, s3) = (if t1 < now + COMMON_AHEADT * 2
            then (case sys_time s2 of (now', s') \<Rightarrow> (now' + ucast (thrdOffset s'), DMUNIPZ_STATUS_SAFETYMARGIN, s'))
            else (t1, status, s2));
          (now3, s4) = sys_time s3
      in if now3 > deadline + DMUNIPZ_DMTIMEOUT * 1000000
         then (t2, DMUNIPZ_STATUS_DMTIMEOUT, True, s4) else (t2, st2, noCmd, s4))"

text \<open>Fifth part: what is sent to the data master, and the end of the request at UNIPZ.\<close>

definition breq_send :: "bool \<Rightarrow> u32 \<Rightarrow> bool \<Rightarrow> u64 \<Rightarrow> unipz \<Rightarrow> unipz" where
  "breq_send booster status noCmd tCmdThrd s =
     (if noCmd then s
      else let s1 = (if status = COMMON_STATUS_OK then dmStartThread REQBEAM s else s)
           in if booster then s1
              else dmChangeBlock REQTK (snd (dmSetTValidCmdCommon REQTK (tCmdThrd - 1000000) s1)))"

definition breq_end :: "u32 \<Rightarrow> bool \<Rightarrow> unipz \<Rightarrow> (u32 \<times> unipz) option" where
  "breq_end status again s = do {
     (_, s1) \<leftarrow> releaseBeam (uniTimeout s) s;
     let s2 = snd (unprepareBeam s1);
     (_, s3) \<leftarrow> checkClearReqNotOk (uniTimeout s2) s2;
     let s4 = snd (disableFilterEvtMil 0 s3);
     let s5 = trans_bit DMUNIPZ_TRANS_UNPREPBEAM (trans_bit DMUNIPZ_TRANS_RELBEAM s4);
     let s6 = (if status = COMMON_STATUS_OK then trans_bit DMUNIPZ_TRANS_REQBEAMOK s5 else s5);
     Some (if status = COMMON_STATUS_OK \<and> again then COMMON_STATUS_EBREADTIMEDOUT else status, s6)
   }"

text \<open>From the preparation of the thread start to the end.  A thread start that fails the check leaves the
  operation at once.\<close>

definition breq_reply :: "bool \<Rightarrow> bool \<Rightarrow> u32 \<Rightarrow> bool \<Rightarrow> u64 \<Rightarrow> unipz \<Rightarrow> (bool \<times> u32 \<times> unipz) option" where
  "breq_reply booster again status noCmd tCmdThrd s =
     (case dmPrepThrStart REQBEAM tCmdThrd s of (pst, s1) \<Rightarrow>
        if pst \<noteq> COMMON_STATUS_OK then Some (True, pst, s1)
        else if dmCheckThr REQBEAM s1 \<noteq> COMMON_STATUS_OK then Some (True, dmCheckThr REQBEAM s1, s1)
        else do {
          let (now, s2) = sys_time (breq_send booster status noCmd tCmdThrd s1);
          (st, s3) \<leftarrow> breq_end status again (s2\<lparr>dtStart := tCmdThrd - now\<rparr>);
          Some (False, st, s3)
        })"

text \<open>From arming the event bus on.\<close>

definition breq_run :: "bool \<Rightarrow> bool \<Rightarrow> eca_action \<Rightarrow> unipz \<Rightarrow> (bool \<times> u32 \<times> unipz) option" where
  "breq_run booster again a s = do {
     let s1 = snd (clearFifoEvtMil 0 (snd (enableFilterEvtMil 0 s)));
     let (dt, s2) = since (ea_deadline a) s1;
     (st, valid, noCmd, s3) \<leftarrow> breq_wait (ea_deadline a) (if ea_id a AND 0x10 \<noteq> 0 then 1 else 0)
       (trans_bit DMUNIPZ_TRANS_REQBEAM (s2\<lparr>dtBprep := dt\<rparr>));
     let (tCmdThrd, st2, noCmd2, s4) = breq_time (ea_deadline a) st valid noCmd s3;
     breq_reply booster again st2 noCmd2 tCmdThrd s4
   }"

definition do_reqbeam :: "bool \<Rightarrow> eca_action \<Rightarrow> unipz \<Rightarrow> (bool \<times> u32 \<times> unipz) option" where
  "do_reqbeam booster a s0 =
     (let s = put_latency (ea_deadline a) s0 in
      if ea_late a then Some (True, DMUNIPZ_STATUS_LATEEVENT, s)
      else
        let s1 = breq_begin booster a s in
        if ea_delayed a \<and> booster then Some (True, DMUNIPZ_STATUS_DELAYEDEVENT, s1)
        else case breq_init a s1 of (tCmdValid, s2) \<Rightarrow>
          if booster then breq_run True False a s2
          else do {
            (st, again, s3) \<leftarrow> breq_block tCmdValid s2;
            if st \<noteq> COMMON_STATUS_OK then Some (True, st, s3) else breq_run False again a s3
          })"

section \<open>Operation\<close>

definition uz_dispatch :: "u32 \<Rightarrow> u32 \<Rightarrow> eca_action \<Rightarrow> unipz \<Rightarrow> (bool \<times> u32 \<times> unipz) option" where
  "uz_dispatch status tag a s =
     (if tag = DMUNIPZ_ECADO_REQTK then do_reqtk a s
      else if tag = DMUNIPZ_ECADO_PREPBEAM then do_prepbeam a s
      else if tag = DMUNIPZ_ECADO_REQBEAM then do_reqbeam False a s
      else if tag = DMUNIPZ_ECADO_REQBEAMNW then do_reqbeam True a s
      else if tag = DMUNIPZ_ECADO_RELTK then do_reltk status a s
      else if tag = DMUNIPZ_ECADO_MBTRIGGER then do_mbtrigger status a s
      else if tag = DMUNIPZ_ECADO_READY2SIS then do_ready2sis status a s
      else case fwlib_wrCheckSyncState s of (st, s1) \<Rightarrow> Some (True, st, s1))"

definition doActionOperation_uz :: "u32 \<Rightarrow> unipz \<Rightarrow> (u32 \<times> unipz) option" where
  "doActionOperation_uz actStatus s = do {
     (tag, a, s1) \<leftarrow> fwlib_wait4ECAEvent (COMMON_DEFAULT_TIMEOUT * 1000) s;
     let s2 = (if ea_late a then s1\<lparr>nLate := nLate s1 + 1\<rparr> else s1);
     (early, status, s3) \<leftarrow> uz_dispatch actStatus tag a s2;
     if early then Some (status, s3)
     else case since (ea_deadline a) s3 of (d, s4) \<Rightarrow> Some (status, s4\<lparr>offsDone := ucast d\<rparr>)
   }"

end
