(* ===== verification/Unipz_Main.thy ===== *)
theory Unipz_Main
  imports Unipz
begin

text \<open>
  The frame of the gateway firmware (modules/dm-unipz/fw/dm-unipz.c): entry and exit actions of the
  states, commands of the host, set-up of the shared memory, one pass of the main loop and the start.
\<close>

section \<open>Entry and exit actions\<close>

partial_function (option) flush_eca_uz :: "unipz \<Rightarrow> unipz option" where
  "flush_eca_uz s =
     (case fwlib_wait4ECAEvent 1000 s of
        None \<Rightarrow> None
      | Some (tag, a, s1) \<Rightarrow> if tag \<noteq> DMUNIPZ_ECADO_TIMEOUT then flush_eca_uz s1 else Some s1)"

text \<open>The port number of EtherBone, which the code also passes as the options of the EB master.\<close>

definition EB_PORT :: u32 where "EB_PORT = 0xebd0"

text \<open>The last part of the configuration, once the buses work.\<close>

definition configure_end :: "unipz \<Rightarrow> unipz option" where
  "configure_end s =
     (let s1 = snd (configLemoOutputEvtMil 0 2 s) in do {
        (_, s2) \<leftarrow> checkClearReqNotOk (uniTimeout s1) s1;
        s3 \<leftarrow> flush_eca_uz (snd (send_pzu (\<lambda>_. 0) s2));
        Some (s3\<lparr>thrdOffset := shm s3 DMUNIPZ_SHARED_OFFSETTHRD, uniTimeout := shm s3 DMUNIPZ_SHARED_UNITIMEOUT,
          tkTimeout := shm s3 DMUNIPZ_SHARED_TKTIMEOUT\<rparr>)
      })"

definition extern_entryActionConfigured_uz :: "unipz \<Rightarrow> (u32 \<times> unipz) option" where
  "extern_entryActionConfigured_uz s = do {
     let dstMac = push_bit 32 (ucast (shm s DMUNIPZ_SHARED_DSTMACHI)) + ucast (shm s DMUNIPZ_SHARED_DSTMACLO);
     (st, s1) \<leftarrow> fwlib_ebmInit 2000 dstMac (shm s DMUNIPZ_SHARED_DSTIP) EB_PORT s;
     if st \<noteq> COMMON_STATUS_OK then Some (st, s1)
     else case resetDevMil 0 s1 of (r, s2) \<Rightarrow>
       if r \<noteq> MIL_STAT_OK then Some (DMUNIPZ_STATUS_DEVBUSERROR, s2)
       else case echoTestDevMil 0 IFB_ADDRESS_SIS 0xbabe s2 of (e, s3) \<Rightarrow>
         if e \<noteq> MIL_STAT_OK then Some (DMUNIPZ_STATUS_DEVBUSERROR, s3)
         else case configMILEvent (ucast DMUNIPZ_EVT_READY2SIS) s3 of (c, s4) \<Rightarrow>
           if c \<noteq> COMMON_STATUS_OK then Some (c, s4)
           else do { s5 \<leftarrow> configure_end s4; Some (c, s5) }
   }"

definition extern_clearDiag_uz :: "unipz \<Rightarrow> unipz" where
  "extern_clearDiag_uz s =
     s\<lparr>uz_statusArray := 0, statusTransfer := 0, nTransfer := 0, nMulti := 0, nBoost := 0, nLate := 0,
       maxComLatency := 0, maxOffsDone := 0\<rparr>"

definition extern_entryActionOperation_uz :: "unipz \<Rightarrow> (u32 \<times> unipz) option" where
  "extern_entryActionOperation_uz s = Some (COMMON_STATUS_OK, fwlib_clearDiag extern_clearDiag_uz s)"

definition extern_exitActionOperation_uz :: "unipz \<Rightarrow> u32 \<times> unipz" where
  "extern_exitActionOperation_uz s =
     (case disableFilterEvtMil 0 s of (st, s1) \<Rightarrow>
        if st \<noteq> MIL_STAT_OK then (COMMON_STATUS_ERROR, s1) else (COMMON_STATUS_OK, s1\<lparr>flagDebug := 0\<rparr>))"

definition uz_hooks where
  "uz_hooks = \<lparr>entryActionConfigured = extern_entryActionConfigured_uz,
     entryActionOperation = extern_entryActionOperation_uz, exitActionOperation = extern_exitActionOperation_uz\<rparr>"

section \<open>Commands of the host\<close>

definition cmdHandler_uz :: "u32 \<Rightarrow> unipz \<Rightarrow> unipz option" where
  "cmdHandler_uz cmd s =
     (if cmd = DMUNIPZ_CMD_RELEASETK then Some (trans_bit DMUNIPZ_TRANS_RELTK (snd (releaseTK s)))
      else if cmd = DMUNIPZ_CMD_RELEASEBEAM then do {
        (_, s1) \<leftarrow> releaseBeam (uniTimeout s) s;
        Some (trans_bit DMUNIPZ_TRANS_UNPREPBEAM (snd (unprepareBeam (trans_bit DMUNIPZ_TRANS_RELBEAM s1))))
      }
      else if cmd = DMUNIPZ_CMD_DEBUGON then Some (s\<lparr>flagDebug := 1\<rparr>)
      else if cmd = DMUNIPZ_CMD_DEBUGOFF then Some (s\<lparr>flagDebug := 0\<rparr>)
      else Some s)"

section \<open>Publishing\<close>

text \<open>Times are published in microseconds by way of a \<open>float\<close>: the nanoseconds rounded to 24 significant
  bits (to even on a tie), divided by 1000 and cut.  The quotient as \<open>double\<close> does not reach the next
  integer below 2^32, and above that value the conversion is not defined in C.\<close>

definition bit_length :: "nat \<Rightarrow> nat" where
  "bit_length n = length (takeWhile (\<lambda>k. 2 ^ k \<le> n) [0..<64])"

definition float_of :: "nat \<Rightarrow> nat" where
  "float_of n =
     (let k = bit_length n - 24; q = n div 2 ^ k; r = n mod 2 ^ k
      in (if 2 * r > 2 ^ k \<or> 2 * r = 2 ^ k \<and> odd q then q + 1 else q) * 2 ^ k)"

definition us_of :: "u64 \<Rightarrow> u32" where
  "us_of dt = (if dt = C_NOTIME then 0xffffffff else of_nat (float_of (unat dt) div 1000))"

definition publish_times :: "unipz \<Rightarrow> unipz" where
  "publish_times s =
     fold (\<lambda>(off, dt) s. sh_wr off (us_of dt) s)
       [(DMUNIPZ_SHARED_DTSTART, dtStart s), (DMUNIPZ_SHARED_DTSYNC1, dtSync1 s), (DMUNIPZ_SHARED_DTSYNC2, dtSync2 s),
        (DMUNIPZ_SHARED_DTTRANSFER, dtTransfer s), (DMUNIPZ_SHARED_DTINJECT, dtInject s),
        (DMUNIPZ_SHARED_DTTKREQ, dtTkreq s), (DMUNIPZ_SHARED_DTBREQ, dtBreq s), (DMUNIPZ_SHARED_DTBPREP, dtBprep s),
        (DMUNIPZ_SHARED_DTREADY2SIS, dtReady2Sis s)] s"

definition publish_uz :: "unipz \<Rightarrow> unipz" where
  "publish_uz s =
     (let s1 = (if sint (comLatency s) > sint (maxComLatency s) then s\<lparr>maxComLatency := comLatency s\<rparr> else s);
          s2 = (if offsDone s1 > maxOffsDone s1 then s1\<lparr>maxOffsDone := offsDone s1\<rparr> else s1);
          s3 = fwlib_publishTransferStatus (nTransfer s2) (nMulti s2) (statusTransfer s2) (nLate s2)
                 (maxOffsDone s2) (maxComLatency s2) s2;
          s4 = s3\<lparr>nIter := nIter s3 + 1\<rparr>;
          s5 = sh_wr DMUNIPZ_SHARED_TRANSNOBEAM (noBeam s4) (sh_wr DMUNIPZ_SHARED_RECVIRTACC (virtAccRec s4)
                 (sh_wr DMUNIPZ_SHARED_TRANSVIRTACC (virtAccReq s4) (sh_wr DMUNIPZ_SHARED_NITERMAIN (nIter s4) s4)))
      in sh_wr DMUNIPZ_SHARED_NBOOSTER (nBoost s5) (sh_wr DMUNIPZ_SHARED_NR2SCYCLE (nR2sCycle s5)
           (sh_wr DMUNIPZ_SHARED_NR2STRANSFER (nR2sTransfer s5) (publish_times s5))))"

section \<open>The main loop\<close>

text \<open>The sum status is cleared by a good pass outside a beam request.\<close>

definition update_status_uz :: "u32 \<Rightarrow> unipz \<Rightarrow> unipz" where
  "update_status_uz status s =
     (if status = COMMON_STATUS_OK
      then let s1 = (if bit (statusTransfer s) DMUNIPZ_TRANS_REQBEAM then s else s\<lparr>uz_statusArray := 0\<rparr>)
           in s1\<lparr>uz_statusArray := uz_statusArray s1 OR 1\<rparr>
      else let s1 = (if bit (uz_statusArray s) 0 then fwlib_incBadStatusCnt s else s)
           in s1\<lparr>uz_statusArray := (uz_statusArray s1 AND NOT 1) OR push_bit (unat status) 1\<rparr>)"

definition uz_act :: "u32 \<Rightarrow> u32 \<Rightarrow> u32 \<Rightarrow> unipz \<Rightarrow> (u32 \<times> u32 \<times> unipz) option" where
  "uz_act reqState actState status s =
     (if actState = COMMON_STATE_OPREADY
      then do {
        (st, s1) \<leftarrow> doActionOperation_uz status s;
        Some (if st = COMMON_STATUS_WRBADSYNC \<or> st = DMUNIPZ_STATUS_DEVBUSERROR \<or> st = COMMON_STATUS_ERROR
              then COMMON_STATE_ERROR else reqState, st, s1)
      }
      else fwlib_doActionState reqState actState status s)"

text \<open>One pass of the loop: requested, actual and published state, then the rest.\<close>

definition unipz_iter :: "u32 \<times> u32 \<times> u32 \<times> unipz \<Rightarrow> (u32 \<times> u32 \<times> u32 \<times> unipz) option" where
  "unipz_iter = (\<lambda>(reqState, actState, pubState, s). do {
     let (req1, cmd, s1) = fwlib_cmdHandler extern_clearDiag_uz reqState s;
     s2 \<leftarrow> cmdHandler_uz cmd s1;
     (act, req2, status, s3) \<leftarrow> fwlib_changeState uz_hooks actState req1 COMMON_STATUS_OK s2;
     (req3, status', s4) \<leftarrow> uz_act req2 act status s3;
     let s5 = update_status_uz status' s4;
     let s6 = (if pubState = COMMON_STATE_OPREADY \<and> act \<noteq> COMMON_STATE_OPREADY then fwlib_incBadStateCnt s5 else s5);
     let s7 = fwlib_publishState act (fwlib_publishStatusArray (uz_statusArray s6) s6);
     Some (req3, act, act, publish_uz s7)
   })"

section \<open>Start\<close>

text \<open>\<open>initSharedMem\<close>: \<open>clu\<close> and \<open>rams\<close> tell whether the cluster of CPUs and how many of their RAMs were found,
  \<open>adr\<close> their addresses.  The words behind the common part are cleared, three of them get default values.\<close>

definition own_wr :: "u32 \<Rightarrow> u32 \<Rightarrow> unipz \<Rightarrow> unipz" where
  "own_wr off v s = s\<lparr>shm := (shm s)(off := v)\<rparr>"

definition initSharedMem_uz ::
  "bool \<Rightarrow> nat \<Rightarrow> (nat \<Rightarrow> u32) \<Rightarrow> nat \<Rightarrow> u32 \<Rightarrow> unipz \<Rightarrow> u32 \<times> u32 \<times> u32 \<times> unipz"
where
  "initSharedMem_uz clu rams adr cpuId reqState s =
     (let req1 = (if \<not> clu \<or> rams = 0 then COMMON_STATE_FATAL else reqState);
          ext = (if rams = 0 then 0 else adr cpuId AND 0x7fffffff);
          s1 = fold (\<lambda>k s. own_wr (uz_shared k) 0 s) [1..<24] s
      in (req1, ext, DMUNIPZ_SHARED_END,
          own_wr DMUNIPZ_SHARED_TKTIMEOUT DMUNIPZ_TKTIMEOUT
          (own_wr DMUNIPZ_SHARED_UNITIMEOUT DMUNIPZ_UNITIMEOUT (own_wr DMUNIPZ_SHARED_OFFSETTHRD DMUNIPZ_OFFSETTHRD s1))))"

definition unipz_start :: "bool \<Rightarrow> nat \<Rightarrow> (nat \<Rightarrow> u32) \<Rightarrow> nat \<Rightarrow> unipz \<Rightarrow> u32 \<times> u32 \<times> u32 \<times> unipz" where
  "unipz_start clu rams adr cpuId s =
     (let s0 = s\<lparr>noBeam := 0xffffffff, dtStart := C_NOTIME, dtSync1 := C_NOTIME, dtSync2 := C_NOTIME,
            dtInject := C_NOTIME, dtTransfer := C_NOTIME, dtTkreq := C_NOTIME, dtBreq := C_NOTIME,
            dtBprep := C_NOTIME, dtReady2Sis := C_NOTIME, nR2sTransfer := 0, nR2sTotal := 0,
            nR2sLastTkrel := 0, nR2sCycle := 0, virtAccReq := 42, virtAccRec := 42, flagTkReq := 0,
            tBreq := 0, tReady2Sis := 0, nTransfer := 0, nMulti := 0, statusTransfer := 0, nIter := 0\<rparr>
      in case initSharedMem_uz clu rams adr cpuId COMMON_STATE_S0 s0 of (req, ext, sharedSize, s1) \<Rightarrow>
        (req, COMMON_STATE_UNKNOWN, COMMON_STATE_UNKNOWN,
         fwlib_clearDiag extern_clearDiag_uz (fwlib_init ext (SHARED_OFFS s1) sharedSize DMUNIPZ_FW_VERSION s1)))"

end
