(* ===== verification/Unipz_Queue.thy ===== *)
theory Unipz_Queue
  imports Unipz_Dm Fw_Transfer Dm_Queues Dm_Scheduling
begin

text \<open>
  The gateway and the data master together: a command that the gateway prepares and writes over the
  network is one the data master's block executes.  The data master's RAM is seen at two addresses, its
  own and the one of the network; the network delivers the words it finds there and stores the ones it
  is given.
\<close>

section \<open>The data master's RAM over the network\<close>

text \<open>A network address as an address of the data master, whose RAM starts at \<open>B\<close>.\<close>

definition int_adr :: "u32 \<Rightarrow> dm_state \<Rightarrow> u32 \<Rightarrow> u32" where
  "int_adr B m a = a - B + int_base_adr m"

text \<open>The \<open>k\<close>-th answer the gateway receives holds, once it is complete, the \<open>n\<close> words at \<open>a\<close>.\<close>

definition serves :: "u32 \<Rightarrow> dm_state \<Rightarrow> unipz \<Rightarrow> nat \<Rightarrow> u32 \<Rightarrow> nat \<Rightarrow> bool" where
  "serves B m g k a n \<longleftrightarrow> (\<forall>j. dm_reply g k j (n + 1) \<noteq> COMMON_EB_HACKISH \<longrightarrow>
     (\<forall>i < n. dm_reply g k j i = mem m (int_adr B m a + 4 * of_nat i)))"

text \<open>The RAM after a block of words has arrived.\<close>

definition remote_write :: "u32 \<Rightarrow> u32 \<Rightarrow> u32 list \<Rightarrow> dm_state \<Rightarrow> dm_state" where
  "remote_write B a ws m =
     m\<lparr>mem := fold (\<lambda>i f. f(int_adr B m a + 4 * of_nat i := ws ! i)) [0..<length ws] (mem m)\<rparr>"

lemma remote_write_sel [simp]:
  "clk (remote_write B a ws m) = clk m" "ticks (remote_write B a ws m) = ticks m"
  "int_base_adr (remote_write B a ws m) = int_base_adr m"
  by (simp_all add: remote_write_def)

lemma int_adr_same: "int_base_adr m' = int_base_adr m \<Longrightarrow> int_adr B m' = int_adr B m"
  by (simp add: int_adr_def fun_eq_iff)

lemma remote_write_1: "mem (remote_write B a [w] m) = (mem m)(int_adr B m a := w)"
  by (simp add: remote_write_def)

lemma remote_write_5:
  "mem (remote_write B a [v, w, x, y, z] m) = (let e = int_adr B m a
     in (mem m)(e := v, e + 4 := w, e + 8 := x, e + 12 := y, e + 16 := z))"
  by (simp add: remote_write_def upt_conv_Cons Let_def)

section \<open>Preparing a command\<close>

lemma set_cmd_sel [simp]:
  "dmCmds (set_cmd blk f g) blk = f (dmCmds g blk)" "setup_of (set_cmd blk f g) = (EBM_OFFS_DAT g, EBM_ADR_MASK g, EBM_WRITE g, fw.more (set_cmd blk f g))"
  by (simp_all add: set_cmd_def setup_of_def)

text \<open>The sender's offsets of an element are the ones of the block.\<close>

lemma elem_offsets: "buffListAddrOffs = buf_offs" "cmdListAddrOffs = el_offs"
  by (simp_all add: fun_eq_iff buffListAddrOffs_def buf_offs_def cmdListAddrOffs_def el_offs_def)

lemma dm_read_serves:
  assumes "dm_read a n g = Some (COMMON_STATUS_OK, d, g')" "serves B m g (dm_reads g) a n"
  shows "d = map (\<lambda>i. mem m (int_adr B m a + 4 * of_nat i)) [0..<n]"
    and "fw.more g' = fw.more (g\<lparr>dm_reads := Suc (dm_reads g)\<rparr>)"
proof -
  note r = ebmReadN_some[OF assms(1)[unfolded dm_read_def]]
  show "fw.more g' = fw.more (g\<lparr>dm_reads := Suc (dm_reads g)\<rparr>)" using r by blast
  obtain j where "d = map (dm_reply g (dm_reads g) j) [0..<n]"
    "dm_reply g (dm_reads g) j (n + 1) \<noteq> COMMON_EB_HACKISH" using r by blast
  thus "d = map (\<lambda>i. mem m (int_adr B m a + 4 * of_nat i)) [0..<n]"
    using assms(2) by (auto simp: serves_def)
qed

lemma uz_fields:
  assumes "fw.more g' = fw.more (g\<lparr>dm_reads := k\<rparr>)"
  shows "dmCmds g' = dmCmds g" "INT_BASE_ADR g' = INT_BASE_ADR g" "dm_reply g' = dm_reply g" "dm_reads g' = k"
    "RAM_SIZE g' = RAM_SIZE g" "flagDebug g' = flagDebug g"
  using assms by (cases g; cases g'; simp)+

lemma prio_cases: "p < 3 \<Longrightarrow> p = 0 \<or> p = 1 \<or> p = (2 :: nat)"
  by auto

text \<open>What a prepared command consists of, in terms of the data master's memory: \<open>n\<close> is the block, \<open>i\<close> the
  write index of its queue.\<close>

lemma prep_run:
  fixes g :: unipz
  defines "a \<equiv> \<lambda>blk. cm_dynpar (dmCmds g blk)"
  assumes prep: "dmPrepCmdCommon blk p True t0 g = Some (COMMON_STATUS_OK, g1)" and p: "p < 3"
    and B: "dmExt2BaseAddr (a blk) g = B" "INT_BASE_ADR g = int_base_adr m"
    and n: "n = int_adr B m (a blk)" and i: "i = wr_idx m n p" and l: "l = rd32 m (n + 12 + of_nat p * 4) + buf_offs i"
    and s1: "serves B m g (dm_reads g) (a blk) 13"
    and s2: "serves B m g (Suc (dm_reads g)) (l - int_base_adr m + B) 1"
  shows "rd_idx m n p = i" "dmCmds g1 blk = \<lparr>cm_dynpar = a blk, cm_cmdAddr = mem m l - int_base_adr m + B + el_offs i,
      cm_cmdData = (replicate 20 0)[0 := hiW t0, 1 := loW t0], cm_blockWrIdxsAddr = a blk + 24,
      cm_blockWrIdxs = setbyte (mem m (n + 24)) p ((i + 1) AND 7)\<rparr>" "flagDebug g1 = flagDebug g"
proof -
  obtain st ws wi g2 where pb: "prep_block blk p True g = Some (st, ws, wi, g2)"
    using prep p by (cases "prep_block blk p True g") (auto simp: dmPrepCmdCommon_def Let_def)
  hence st: "st = COMMON_STATUS_OK" using prep p by (auto simp: dmPrepCmdCommon_def Let_def split: if_splits)
  obtain st' where r1: "dm_read (a blk) 13 g = Some (st', ws, g2)"
    and wi: "wi = getbyte (at_offs ws BLOCK_CMDQ_WR_IDXS) p" and "st' = COMMON_STATUS_OK"
    and e: "wi = getbyte (at_offs ws BLOCK_CMDQ_RD_IDXS) p"
    using pb st by (auto simp: prep_block_def a_def dm_layout Let_def bind_eq_Some_conv common_status uz_status split: if_splits)
  hence r1: "dm_read (a blk) 13 g = Some (COMMON_STATUS_OK, ws, g2)" by simp
  note ws = dm_read_serves(1)[OF r1 s1, folded n] and g2 = uz_fields[OF dm_read_serves(2)[OF r1 s1]]
  have at: "at_offs ws o' = mem m (n + of_nat (4 * unat (drop_bit 2 o')))" if "unat (drop_bit 2 o') < 13" for o'
    using that by (simp add: at_offs_def ws)
  have w: "at_offs ws BLOCK_CMDQ_WR_IDXS = mem m (n + 24)" "at_offs ws BLOCK_CMDQ_RD_IDXS = mem m (n + 28)"
    using at[of 24] at[of 28] by (simp_all add: dm_layout)
  hence a24: "at_offs ws 24 = mem m (n + 24)" by (simp add: dm_layout)
  have wi: "wi = i" and rd: "rd_idx m n p = i" using w wi e i by (simp_all add: wr_idx_def rd_idx_def)
  have a3: "at_offs ws 12 = mem m (n + 12)" "at_offs ws 16 = mem m (n + 16)" "at_offs ws 20 = mem m (n + 20)"
    using at[of 12] at[of 16] at[of 20] by simp_all
  have bl: "buff_list p ws = rd32 m (n + 12 + of_nat p * 4)"
    using prio_cases[OF p] a3 by (elim disjE) (simp_all add: buff_list_def dm_layout rd32_def add.commute)
  have l': "dmInt2ExtAddr (buff_list p ws) B g2 + buffListAddrOffs wi = l - int_base_adr m + B"
    by (simp add: dmInt2ExtAddr_def g2 B(2) bl l wi elem_offsets)
  obtain st' d g3 where r2: "dm_read (l - int_base_adr m + B) 1 g2 = Some (st', d, g3)"
    and st': "st' = COMMON_STATUS_OK" and g1: "g1 = set_cmd blk (\<lambda>c. c\<lparr>
              cm_cmdAddr := dmInt2ExtAddr (d ! 0) B g3 + cmdListAddrOffs wi,
              cm_cmdData := (replicate (unat T_CMD_SIZE) 0)[0 := hiW t0, 1 := loW t0],
              cm_blockWrIdxs := setbyte (at_offs ws BLOCK_CMDQ_WR_IDXS) p ((wi + 1) AND Q_IDX_MAX_OVF_MSK),
              cm_blockWrIdxsAddr := a blk + BLOCK_CMDQ_WR_IDXS\<rparr>) g3"
    using prep p by (auto simp: dmPrepCmdCommon_def pb st Let_def bind_eq_Some_conv l'[unfolded B(1)[symmetric]] a_def B(1)[unfolded a_def] l' split: if_splits)
  have s2': "serves B m g2 (dm_reads g2) (l - int_base_adr m + B) 1" using s2 g2 by (simp add: serves_def)
  note d = dm_read_serves(1)[OF r2[unfolded st'] s2'] and g3 = uz_fields[OF dm_read_serves(2)[OF r2[unfolded st'] s2']]
  have "d ! 0 = mem m l" by (simp add: d int_adr_def)
  thus "dmCmds g1 blk = \<lparr>cm_dynpar = a blk, cm_cmdAddr = mem m l - int_base_adr m + B + el_offs i,
      cm_cmdData = (replicate 20 0)[0 := hiW t0, 1 := loW t0], cm_blockWrIdxsAddr = a blk + 24,
      cm_blockWrIdxs = setbyte (mem m (n + 24)) p ((i + 1) AND 7)\<rparr>"
    using a24 by (cases "dmCmds g blk") (simp add: g1 g2 g3 B(2) dmInt2ExtAddr_def wi elem_offsets dm_layout a_def)
  show "rd_idx m n p = i" by (rule rd)
  show "flagDebug g1 = flagDebug g" using g2(6) g3(6) by (simp add: g1) (simp add: set_cmd_def)
qed

text \<open>When the network answers in time and the queue is empty, the command is prepared.\<close>

lemma dm_read_now:
  assumes "shm_on g" "0 < n" "n < 20" "dm_reply g (dm_reads g) 0 (n + 1) \<noteq> COMMON_EB_HACKISH"
    "wr_time g (Suc (time_cnt g)) < wr_time g (time_cnt g) + 2000 * 1000000"
  shows "\<exists>g'. dm_read a n g = Some (COMMON_STATUS_OK, map (dm_reply g (dm_reads g) 0) [0..<n], g') \<and>
    fw.more g' = fw.more (g\<lparr>dm_reads := Suc (dm_reads g)\<rparr>) \<and> wr_time g' = wr_time g \<and> time_cnt g' = time_cnt g + 2 \<and> shm_on g'"
proof -
  let ?g = "g\<lparr>dm_reads := Suc (dm_reads g)\<rparr>"
  have s: "shm_on ?g" "wr_time ?g = wr_time g" "time_cnt ?g = time_cnt g" using assms(1) by simp_all
  obtain g' where g': "dm_read a n g = Some (COMMON_STATUS_OK, map (dm_reply g (dm_reads g) 0) [0..<n], g')"
    "wr_time g' = wr_time g" "time_cnt g' = time_cnt g + 2" "shm_on g'"
    using ebmReadN_run[of 0 ?g 2000 "dm_reply g (dm_reads g)" n a] assms s by (auto simp: dm_read_def)
  thus ?thesis using ebmReadN_some[OF g'(1)[unfolded dm_read_def]] by blast
qed

lemma prep_now:
  assumes "shm_on g" "p < 3"
    "dm_reply g (dm_reads g) 0 14 \<noteq> COMMON_EB_HACKISH" "dm_reply g (Suc (dm_reads g)) 0 2 \<noteq> COMMON_EB_HACKISH"
    "wr_time g (Suc (time_cnt g)) < wr_time g (time_cnt g) + 2000 * 1000000"
    "wr_time g (time_cnt g + 3) < wr_time g (time_cnt g + 2) + 2000 * 1000000"
    "getbyte (dm_reply g (dm_reads g) 0 6) p = getbyte (dm_reply g (dm_reads g) 0 7) p"
  shows "\<exists>g1. dmPrepCmdCommon blk p True t0 g = Some (COMMON_STATUS_OK, g1)"
proof -
  let ?d = "map (dm_reply g (dm_reads g) 0) [0..<13]"
  obtain g' where g': "dm_read (cm_dynpar (dmCmds g blk)) 13 g = Some (COMMON_STATUS_OK, ?d, g')"
    "fw.more g' = fw.more (g\<lparr>dm_reads := Suc (dm_reads g)\<rparr>)" "wr_time g' = wr_time g" "time_cnt g' = time_cnt g + 2" "shm_on g'"
    using dm_read_now[of g 13 "cm_dynpar (dmCmds g blk)"] assms by auto
  note u = uz_fields[OF g'(2)]
  have "prep_block blk p True g = Some (COMMON_STATUS_OK, ?d, getbyte (dm_reply g (dm_reads g) 0 6) p, g')"
    using g'(1) assms(7) by (simp add: prep_block_def dm_layout at_offs_def q_full_def Let_def del: upt_Suc)
  moreover obtain g2 d where "dm_read x 1 g' = Some (COMMON_STATUS_OK, d x, g2 x)" for x
    using dm_read_now[of g' 1] g' u assms by (auto simp: numeral_eq_Suc) metis
  ultimately show ?thesis using assms(2) by (simp add: dmPrepCmdCommon_def Let_def)
qed

section \<open>A block that gets a flush command from outside\<close>

text \<open>The words of a flush of the low priority queue, sent to the high priority queue.\<close>

definition flush_words :: "u64 \<Rightarrow> u32 list" where
  "flush_words t = [hiW t, loW t, 0x11300001, 0, 0]"

lemma flush_act:
  "0x11300001 AND ACT_QTY_MSK = 1" "drop_bit 20 0x11300001 AND ACT_TYPE_MSK = 3" "act_prio 0x11300001 = 1"
  "flushes 0x11300001 0" "\<not> flushes 0x11300001 1" "\<not> flushes 0x11300001 2"
  by (simp_all add: dm_layout act_prio_def flushes_def bit_iff_odd_drop_bit)

text \<open>What the writes need: block \<open>n\<close>, element \<open>e\<close> of its high priority queue, which is empty with index
  \<open>i\<close>; no interlock pending.\<close>

definition flushable :: "dm_state \<Rightarrow> u32 \<Rightarrow> u32 \<Rightarrow> u8 \<Rightarrow> bool" where
  "flushable m n e i \<longleftrightarrow> aligned n \<and> elem_sep n e \<and> has_q m n 1 \<and> \<not> pending m n 2 \<and>
     rd32 m (n + BLOCK_CMDQ_FLAGS) AND BLOCK_CMDQ_DNR_SMSK = 0 \<and>
     wr_idx m n 1 = i \<and> rd_idx m n 1 = i \<and> i < 8 \<and> wr_idx m n 0 < 8 \<and>
     (let bl = rd32 m (n + 16) in apart bl 8 n 52 \<and> apart bl 8 e 20 \<and> mem m (bl + buf_offs i) + el_offs i = e)"

text \<open>The two writes: first the element, then the indices.\<close>

definition elem_written :: "u32 \<Rightarrow> u32 list \<Rightarrow> dm_state \<Rightarrow> dm_state" where
  "elem_written e ws m = m\<lparr>mem := (mem m)(e := ws ! 0, e + 4 := ws ! 1, e + 8 := ws ! 2, e + 12 := ws ! 3, e + 16 := ws ! 4)\<rparr>"

lemma elem_written_out:
  assumes "elem_sep n e"
  shows "mem (elem_written e ws m) n = mem m n"
    "numeral k < (52 :: nat) \<Longrightarrow> mem (elem_written e ws m) (n + numeral k) = mem m (n + numeral k)"
proof -
  have "e \<noteq> n" "e + 4 \<noteq> n" "e + 8 \<noteq> n" "e + 12 \<noteq> n" "e + 16 \<noteq> n"
    by (rule apart_num[OF assms]; simp)+
  thus "mem (elem_written e ws m) n = mem m n" by (simp add: elem_written_def)
  assume k: "numeral k < (52 :: nat)"
  have "e \<noteq> n + numeral k" by (rule apart_num(2)[OF assms _ k]) simp
  moreover have "e + 4 \<noteq> n + numeral k" "e + 8 \<noteq> n + numeral k" "e + 12 \<noteq> n + numeral k" "e + 16 \<noteq> n + numeral k"
    by (rule apart_num(1)[OF assms _ k], simp)+
  ultimately show "mem (elem_written e ws m) (n + numeral k) = mem m (n + numeral k)"
    by (simp add: elem_written_def)
qed

lemma elem_written_idx:
  assumes "elem_sep n e"
  shows "rd_idx (elem_written e ws m) n q = rd_idx m n q" "wr_idx (elem_written e ws m) n q = wr_idx m n q"
    "has_q (elem_written e ws m) n q = has_q m n q" "pending (elem_written e ws m) n q = pending m n q"
  by (simp_all add: rd_idx_def wr_idx_def has_q_def pending_def elem_written_out[OF assms])

lemma block_flush_run:
  assumes f: "flushable m n e i" and ws: "ws = flush_words t"
    and w: "\<And>q. q < 3 \<Longrightarrow> getbyte w q = (if q = 1 then (i + 1) AND 7 else wr_idx m n q)"
    and time: "t \<le> clk m (ticks m)" "t \<le> clk m (ticks m + 1)"
  defines "m' \<equiv> wr32 (n + 24) w (elem_written e ws m)"
  shows "\<exists>s. block n thr m' = Inr (rd32 m (n + NODE_DEF_DEST_PTR), s) \<and>
    (\<forall>q \<in> {0, 1}. rd_idx s n q = wr_idx s n q) \<and> (\<forall>q < 3. q \<noteq> 1 \<longrightarrow> wr_idx s n q = wr_idx m n q) \<and>
    rd_idx s n 2 = rd_idx m n 2"
proof -
  let ?p = "paint n m'" and ?bl = "rd32 m (n + 16)"
  have n: "aligned n" "elem_sep n e" and hq: "has_q m n 1" "\<not> pending m n 2"
    and dnr: "rd32 m (n + BLOCK_CMDQ_FLAGS) AND BLOCK_CMDQ_DNR_SMSK = 0"
    and idx: "wr_idx m n 1 = i" "rd_idx m n 1 = i" "i < 8" "wr_idx m n 0 < 8"
    and bl: "apart ?bl 8 n 52" "apart ?bl 8 e 20" "mem m (?bl + buf_offs i) + el_offs i = e"
    using f by (simp_all add: flushable_def Let_def)
  have out: "mem (elem_written e ws m) (n + 16) = mem m (n + 16)" "mem (elem_written e ws m) (n + 32) = mem m (n + 32)"
    "mem (elem_written e ws m) (n + 48) = mem m (n + 48)"
    by (rule elem_written_out(2)[OF n(2)], simp)+
  note ei = elem_written_idx[OF n(2)]
  have e0: "e + 4 \<noteq> e" "e + 8 \<noteq> e" "e + 12 \<noteq> e" by simp_all
  have ne: "n + 24 \<noteq> e" "n + 24 \<noteq> e + 4" "n + 24 \<noteq> e + 8" "n + 24 \<noteq> e + 12" "n + 24 \<noteq> e + 16"
      "n + 44 \<noteq> e" "n + 44 \<noteq> e + 4" "n + 44 \<noteq> e + 8" "n + 44 \<noteq> e + 12" "n + 44 \<noteq> e + 16"
    by (rule not_sym, rule apart_num[OF n(2)]; simp)+
  have el: "mem ?p e = hiW t" "mem ?p (e + 4) = loW t" "mem ?p (e + 8) = 0x11300001" "mem ?p (e + 12) = 0"
    using ne by (auto simp: m'_def paint_mem mem_simps elem_written_def ws flush_words_def)
  have rd: "rd_idx ?p n q = rd_idx m n q" for q
    using ei by (simp add: m'_def rd_idx_def paint_mem mem_simps)
  have wr: "wr_idx ?p n q = (if q = 1 then (i + 1) AND 7 else wr_idx m n q)" if "q < 3" for q
    using w[OF that] by (simp add: m'_def wr_idx_def paint_mem mem_simps)
  have hqp: "has_q ?p n q = has_q m n q" for q
    using ei(3)[of ws m q] bit_256 by (auto simp: m'_def has_q_def paint_mem mem_simps bit_or_iff)
  have pend: "pending ?p n 1" "\<not> pending ?p n 2"
    using hq hqp rd wr[of 1] wr[of 2] idx idx_step_neq[OF idx(3)] by (simp_all add: pending_def)
  have bo: "buf_offs i = 0 \<or> buf_offs i = 4" by (rule buf_offs_val)
  have "?bl + buf_offs i \<notin> {n + 24, n + 44, e, e + 4, e + 8, e + 12, e + 16}"
  proof -
    have "x + 0 \<noteq> n + 24 \<and> x + 0 \<noteq> n + 44 \<and> x + 0 \<noteq> e \<and> x + 0 \<noteq> e + 4 \<and> x + 0 \<noteq> e + 8 \<and> x + 0 \<noteq> e + 12 \<and> x + 0 \<noteq> e + 16"
      "x + 4 \<noteq> n + 24 \<and> x + 4 \<noteq> n + 44 \<and> x + 4 \<noteq> e \<and> x + 4 \<noteq> e + 4 \<and> x + 4 \<noteq> e + 8 \<and> x + 4 \<noteq> e + 12 \<and> x + 4 \<noteq> e + 16"
      if "apart x 8 n 52" "apart x 8 e 20" for x
      by (simp only: add_0_right, intro conjI apart_num[OF that(1)] apart_num[OF that(2)]; simp)
        (intro conjI apart_num[OF that(1)] apart_num[OF that(2)]; simp)
    thus ?thesis using bo bl(1,2) by (elim disjE) (simp_all only: insert_iff empty_iff simp_thms)
  qed
  hence ptr: "mem ?p (?bl + buf_offs i) = mem m (?bl + buf_offs i)"
    by (simp add: m'_def paint_mem mem_simps elem_written_def)
  have "rd32 ?p (n + 16) = ?bl" using out by (simp add: rd32_def m'_def paint_mem mem_simps)
  hence be: "block_elem n 1 ?p = e"
    using block_elem_alt[OF n(1), of 1 ?p] rd[of 1] idx(2) ptr bl(3) by (simp add: Let_def rd32_def add.commute)
  have vt: "valid_time ?p n 1 = t" unfolding valid_time_def be using el by (simp add: rd64_def)
  have ck: "clk ?p = clk m" "ticks ?p = ticks m" by (simp_all add: m'_def mem_simps elem_written_def)
  have lt3: "1 < (3 :: nat)" by simp
  have scan: "block_scan [2, 1, 0] n None None (tick 0 ?p) = (Some (idx_adr n 28 1), Some e, tick 1 ?p)"
    using pend vt be ck time(1) by (simp add: block_scan_step[OF n(1)] del: block_scan.simps)
  have d': "rd32 m' (n + BLOCK_CMDQ_FLAGS) AND BLOCK_CMDQ_DNR_SMSK = 0"
    using dnr out by (simp add: rd32_def m'_def mem_simps dm_layout)
  have dst: "rd32 m' (n + 48) = rd32 m (n + 48)" "rd32 ?p (n + 48) = rd32 m (n + 48)"
    using out by (simp_all add: rd32_def m'_def mem_simps paint_mem)
  have "block n thr m' = block_exec n thr (idx_adr n 28 1) e (rd32 m (n + 48)) (tick 2 ?p)"
    unfolding block_unfold[OF lt3 pend(1) d'] scan
    using el ck time(2) by (simp add: getSysTime_tick dm_layout rd64_def dst(1) leD numeral_2_eq_2)
  moreover obtain r s where ex: "block_exec n thr (idx_adr n 28 1) e (rd32 m (n + 48)) (tick 2 ?p) = Inr (r, s)"
    and ri: "\<And>q. q < 3 \<Longrightarrow> rd_idx s n q = (let i = (if flushes 0x11300001 q then (wr_idx (tick 2 ?p) n q - (if act_prio 0x11300001 = q then 1 else 0)) AND 7
          else rd_idx (tick 2 ?p) n q) in if q = 1 then next_rd (0x11300001 AND ACT_QTY_MSK) i else i)"
    and wi: "\<And>q. q < 3 \<Longrightarrow> wr_idx s n q = wr_idx (tick 2 ?p) n q"
    and r: "r = (if rd32 (tick 2 ?p) (e + 12) \<noteq> 0 then rd32 (tick 2 ?p) (e + 12) else rd32 (tick 2 ?p) (n + 48))"
    using block_exec_flush_idx[OF n(1) _ n(2), of 1 "tick 2 ?p" "0x11300001" thr "rd32 m (n + 48)"] el(3) flush_act
    by (auto simp: rd32_def)
  have tk: "rd_idx (tick 2 ?p) n q = rd_idx m n q" "wr_idx (tick 2 ?p) n q = wr_idx ?p n q" for q
    using rd[of q] by (simp_all add: rd_idx_def wr_idx_def)
  have m8: "w AND 7 = w" if "w < 8" for w :: u8
  proof -
    have "unat w < 8" using that by (simp add: word_less_nat_alt)
    thus ?thesis by (simp add: word_unat_eq_iff and_7_unat)
  qed
  have "rd_idx s n q = wr_idx s n q" if "q \<in> {0, 1}" for q
    using that ri[of q] wi[of q] tk wr[of q] m8[OF idx(4)] idx(2) flush_act by (auto simp: next_rd_def dm_layout)
  moreover have "wr_idx s n q = wr_idx m n q" if "q < 3" "q \<noteq> 1" for q using wi[OF that(1)] tk wr[OF that(1)] that(2) by simp
  moreover have "rd_idx s n 2 = rd_idx m n 2" using ri[of 2] tk flush_act by simp
  moreover have "r = rd32 m (n + 48)" using r el(4) dst(2) by (simp add: rd32_def)
  ultimately show ?thesis using ex by (auto simp: dm_layout)
qed

section \<open>The gateway ends the wait of a block\<close>

text \<open>Between reading and writing, the data master goes on: \<open>m'\<close> has the same write indices of block \<open>n\<close> and
  the same way to the element.\<close>

definition undisturbed :: "dm_state \<Rightarrow> dm_state \<Rightarrow> u32 \<Rightarrow> bool" where
  "undisturbed m m' n \<longleftrightarrow> int_base_adr m' = int_base_adr m \<and> mem m' (n + 16) = mem m (n + 16) \<and>
     mem m' (n + 24) = mem m (n + 24) \<and>
     (let l = mem m (n + 16) + buf_offs (wr_idx m n 1) in mem m' l = mem m l)"

lemma write_log_set_cmd: "write_log (set_cmd blk f g) = write_log g"
  by (simp add: write_log_def win_def set_cmd_def fun_eq_iff)

lemma change_block_log:
  assumes "flagDebug g = 0" "dmCmds g blk = \<lparr>cm_dynpar = a, cm_cmdAddr = c, cm_cmdData = d, cm_blockWrIdxsAddr = x, cm_blockWrIdxs = w\<rparr>"
    "5 \<le> length d"
  shows "dev_out (dmChangeBlock blk g) = dev_out g @ write_log g c (take 5 d) @ write_log g x [w]"
proof -
  obtain s1 where s1: "fwlib_ebmWriteN c (take 5 d) g = (COMMON_STATUS_OK, s1)"
    "dev_out s1 = dev_out g @ write_log g c (take 5 d)" "setup_of s1 = setup_of g"
    using ebmWriteN_run[of "take 5 d" c g] assms(3) by auto
  obtain s2 where s2: "fwlib_ebmWriteN x [w] s1 = (COMMON_STATUS_OK, s2)"
    "dev_out s2 = dev_out s1 @ write_log s1 x [w]" "setup_of s2 = setup_of s1"
    using ebmWriteN_run[of "[w]" x s1] by auto
  have "flagDebug s2 = 0" using s1(3) s2(3) assms(1) by (cases g; cases s2; cases s1) (simp add: setup_of_def)
  thus ?thesis
    using s1 s2 write_log_setup[OF s1(3)]
    by (simp add: dmChangeBlock_def assms(2) dm_layout debug_pair_def Let_def)
qed

lemma flush_command:
  assumes "dmCmds g1 blk = \<lparr>cm_dynpar = a, cm_cmdAddr = c, cm_cmdData = (replicate 20 0)[0 := x, 1 := y], cm_blockWrIdxsAddr = b,
      cm_blockWrIdxs = w\<rparr>" "dmCmds g2 = dmCmds (snd (dmPrepCmdFlush blk g1))"
  shows "\<exists>d. dmCmds (snd (dmSetTValidCmdCommon blk t g2)) blk = \<lparr>cm_dynpar = a, cm_cmdAddr = c, cm_cmdData = d,
      cm_blockWrIdxsAddr = b, cm_blockWrIdxs = w\<rparr> \<and> take 5 d = flush_words t \<and> 5 \<le> length d"
proof -
  let ?d = "(replicate 20 0)[0 := x, 1 := y, 2 := 0x11300001, 3 := 0, 0 := hiW t, 1 := loW t]"
  have "dmCmds (snd (dmSetTValidCmdCommon blk t g2)) blk = \<lparr>cm_dynpar = a, cm_cmdAddr = c, cm_cmdData = ?d,
      cm_blockWrIdxsAddr = b, cm_blockWrIdxs = w\<rparr>"
    using assms(1) by (simp add: dmSetTValidCmdCommon_def assms(2) dmPrepCmdFlush_def put_word_def dm_layout action_word_def)
  moreover have "take 5 ?d = flush_words t" by (simp add: flush_words_def numeral_eq_Suc)
  ultimately show ?thesis by (intro exI[of _ ?d]) simp
qed

text \<open>Everything the gateway knows about the block when it has prepared the command: \<open>l\<close> is where the pointer
  to the element's buffer stands.\<close>

definition prepared :: "u32 \<Rightarrow> dm_state \<Rightarrow> u64 \<Rightarrow> unipz \<Rightarrow> unipz \<Rightarrow> u32 \<Rightarrow> u32 \<Rightarrow> bool" where
  "prepared B m t0 g g1 n l \<longleftrightarrow> (let a = cm_dynpar (dmCmds g REQTK) in
     dmPrepCmdCommon REQTK 1 True t0 g = Some (COMMON_STATUS_OK, g1) \<and>
     dmExt2BaseAddr a g = B \<and> INT_BASE_ADR g = int_base_adr m \<and> n = int_adr B m a \<and>
     l = rd32 m (n + BLOCK_CMDQ_HI_PTR) + buf_offs (wr_idx m n 1) \<and>
     serves B m g (dm_reads g) a 13 \<and> serves B m g (Suc (dm_reads g)) (l - int_base_adr m + B) 1)"

lemma prepared_run:
  assumes "prepared B m t0 g g1 n l"
  defines "a \<equiv> cm_dynpar (dmCmds g REQTK)" and "i \<equiv> wr_idx m n 1"
  shows "rd_idx m n 1 = i" "flagDebug g1 = flagDebug g" "n = int_adr B m a"
    "dmCmds g1 REQTK = \<lparr>cm_dynpar = a, cm_cmdAddr = mem m l - int_base_adr m + B + el_offs i,
      cm_cmdData = (replicate 20 0)[0 := hiW t0, 1 := loW t0], cm_blockWrIdxsAddr = a + 24,
      cm_blockWrIdxs = setbyte (mem m (n + 24)) 1 ((i + 1) AND 7)\<rparr>"
proof -
  have prep: "dmPrepCmdCommon REQTK 1 True t0 g = Some (COMMON_STATUS_OK, g1)"
    and B: "dmExt2BaseAddr (cm_dynpar (dmCmds g REQTK)) g = B" "INT_BASE_ADR g = int_base_adr m"
    and n: "n = int_adr B m (cm_dynpar (dmCmds g REQTK))" and l: "l = rd32 m (n + BLOCK_CMDQ_HI_PTR) + buf_offs (wr_idx m n 1)"
    and net: "serves B m g (dm_reads g) (cm_dynpar (dmCmds g REQTK)) 13"
      "serves B m g (Suc (dm_reads g)) (l - int_base_adr m + B) 1"
    using assms(1) unfolding prepared_def Let_def by blast+
  have l': "l = rd32 m (n + 12 + of_nat 1 * 4) + buf_offs (wr_idx m n 1)" using l by (simp add: dm_layout add.commute)
  note pr = prep_run[OF prep _ B n refl l' net]
  show "rd_idx m n 1 = i" "flagDebug g1 = flagDebug g" "n = int_adr B m a"
    "dmCmds g1 REQTK = \<lparr>cm_dynpar = a, cm_cmdAddr = mem m l - int_base_adr m + B + el_offs i,
      cm_cmdData = (replicate 20 0)[0 := hiW t0, 1 := loW t0], cm_blockWrIdxsAddr = a + 24,
      cm_blockWrIdxs = setbyte (mem m (n + 24)) 1 ((i + 1) AND 7)\<rparr>"
    using pr n unfolding a_def i_def by simp_all
qed

lemma gateway_writes:
  fixes g g1 g2 :: unipz
  assumes p: "prepared B m t0 g g1 n l"
    and g2: "dmCmds g2 = dmCmds (snd (dmPrepCmdFlush REQTK g1))" "flagDebug g2 = 0"
  defines "c \<equiv> mem m l - int_base_adr m + B + el_offs (wr_idx m n 1)"
    and "x \<equiv> cm_dynpar (dmCmds g REQTK) + BLOCK_CMDQ_WR_IDXS"
    and "w \<equiv> setbyte (mem m (n + 24)) 1 ((wr_idx m n 1 + 1) AND 7)"
  shows "dev_out (dmChangeBlock REQTK (snd (dmSetTValidCmdCommon REQTK t g2))) =
      dev_out g2 @ write_log g2 c (flush_words t) @ write_log g2 x [w]"
    and "int_adr B m c = mem m l + el_offs (wr_idx m n 1)" "int_adr B m x = n + 24"
    and "q < 3 \<Longrightarrow> getbyte w q = (if q = 1 then (wr_idx m n 1 + 1) AND 7 else wr_idx m n q)"
    and "rd_idx m n 1 = wr_idx m n 1"
proof -
  let ?g = "snd (dmSetTValidCmdCommon REQTK t g2)"
  note pr = prepared_run[OF p]
  have x: "x = cm_dynpar (dmCmds g REQTK) + 24" by (simp add: x_def dm_layout)
  show "rd_idx m n 1 = wr_idx m n 1" by (rule pr(1))
  obtain d where g3: "dmCmds ?g REQTK = \<lparr>cm_dynpar = cm_dynpar (dmCmds g REQTK), cm_cmdAddr = c, cm_cmdData = d,
      cm_blockWrIdxsAddr = x, cm_blockWrIdxs = w\<rparr>" and d: "take 5 d = flush_words t" "5 \<le> length d"
    using flush_command[OF pr(4) g2(1)] unfolding c_def x w_def by auto
  have lg: "write_log ?g = write_log g2" "dev_out ?g = dev_out g2" "flagDebug ?g = 0"
    using g2(2) write_log_set_cmd by (simp_all add: dmSetTValidCmdCommon_def) (simp_all add: set_cmd_def)
  show "dev_out (dmChangeBlock REQTK ?g) = dev_out g2 @ write_log g2 c (flush_words t) @ write_log g2 x [w]"
    using change_block_log[OF lg(3) g3 d(2)] by (simp add: lg d(1))
  show "int_adr B m c = mem m l + el_offs (wr_idx m n 1)" "int_adr B m x = n + 24"
    using pr(3) by (simp_all add: int_adr_def c_def x)
  show "q < 3 \<Longrightarrow> getbyte w q = (if q = 1 then (wr_idx m n 1 + 1) AND 7 else wr_idx m n q)"
    by (simp add: w_def wr_idx_def)
qed

text \<open>The data master's RAM after the two messages.\<close>

lemma two_writes:
  assumes "int_adr B m c = e" "int_adr B m x = n + 24"
  shows "remote_write B c (flush_words t) m = elem_written e (flush_words t) m"
    "remote_write B x [w] (elem_written e (flush_words t) m) = wr32 (n + 24) w (elem_written e (flush_words t) m)"
proof -
  have "mem (remote_write B c (flush_words t) m) = mem (elem_written e (flush_words t) m)"
    unfolding flush_words_def remote_write_5 assms(1) by (simp add: elem_written_def Let_def)
  thus "remote_write B c (flush_words t) m = elem_written e (flush_words t) m"
    by (simp add: remote_write_def elem_written_def)
  have "int_adr B (elem_written e (flush_words t) m) x = n + 24"
    using assms(2) by (simp add: int_adr_def elem_written_def)
  hence "mem (remote_write B x [w] (elem_written e (flush_words t) m)) = mem (wr32 (n + 24) w (elem_written e (flush_words t) m))"
    by (simp only: remote_write_1 mem_wr32)
  thus "remote_write B x [w] (elem_written e (flush_words t) m) = wr32 (n + 24) w (elem_written e (flush_words t) m)"
    by (simp add: remote_write_def wr32_def)
qed

text \<open>
  C6. The command the gateway prepared and sends refines the data master's own command to flush a queue: of
  the two messages on the network the first writes the element and does not change what is pending,
  the second the indices; then the block, which may have run on in between, executes the flush at once,
  continues at its default destination and so ends its wait, with the low and the high priority queue
  empty and the interlock queue as it was.
\<close>

theorem gateway_ends_wait:
  fixes g g1 g2 :: unipz
  assumes p: "prepared B m t0 g g1 n l"
    and g2: "dmCmds g2 = dmCmds (snd (dmPrepCmdFlush REQTK g1))" "flagDebug g2 = 0"
    and m': "undisturbed m m' n" "flushable m' n e i"
    and time: "t \<le> clk m' (ticks m')" "t \<le> clk m' (ticks m' + 1)"
  shows "\<exists>c x w. dev_out (dmChangeBlock REQTK (snd (dmSetTValidCmdCommon REQTK t g2))) =
      dev_out g2 @ write_log g2 c (flush_words t) @ write_log g2 x [w] \<and>
    (let m1 = remote_write B c (flush_words t) m'; m2 = remote_write B x [w] m1
     in (\<forall>q < 3. pending m1 n q = pending m' n q) \<and>
        (\<exists>s. block n thr m2 = Inr (rd32 m' (n + NODE_DEF_DEST_PTR), s) \<and>
           (\<forall>q \<in> {0, 1}. rd_idx s n q = wr_idx s n q) \<and> (\<forall>q < 3. q \<noteq> 1 \<longrightarrow> wr_idx s n q = wr_idx m' n q) \<and>
           rd_idx s n 2 = rd_idx m' n 2))"
proof -
  let ?c = "mem m l - int_base_adr m + B + el_offs (wr_idx m n 1)"
  let ?x = "cm_dynpar (dmCmds g REQTK) + BLOCK_CMDQ_WR_IDXS"
  let ?w = "setbyte (mem m (n + 24)) 1 ((wr_idx m n 1 + 1) AND 7)"
  note gw = gateway_writes[OF p g2]
  have "l = rd32 m (n + 16) + buf_offs (wr_idx m n 1)" using p by (simp add: prepared_def Let_def dm_layout)
  hence u: "int_base_adr m' = int_base_adr m" "wr_idx m' n = wr_idx m n" "mem m l + el_offs (wr_idx m n 1) = e"
    "i = wr_idx m n 1"
    using m' by (auto simp: undisturbed_def flushable_def wr_idx_def fun_eq_iff rd32_def Let_def)
  have sep: "elem_sep n e" using m'(2) by (simp add: flushable_def)
  have adr: "int_adr B m' ?c = e" "int_adr B m' ?x = n + 24"
    using gw(2,3) u(3) int_adr_same[OF u(1), of B] by simp_all
  have w: "getbyte ?w q = (if q = 1 then (i + 1) AND 7 else wr_idx m' n q)" if "q < 3" for q
    using gw(4)[OF that] by (simp add: u)
  obtain s where "block n thr (wr32 (n + 24) ?w (elem_written e (flush_words t) m')) = Inr (rd32 m' (n + NODE_DEF_DEST_PTR), s)"
    "\<forall>q \<in> {0, 1}. rd_idx s n q = wr_idx s n q" "\<forall>q < 3. q \<noteq> 1 \<longrightarrow> wr_idx s n q = wr_idx m' n q" "rd_idx s n 2 = rd_idx m' n 2"
    using block_flush_run[OF m'(2) refl w time] by blast
  note s = this
  show ?thesis
    unfolding Let_def
  proof (intro exI conjI)
    show "dev_out (dmChangeBlock REQTK (snd (dmSetTValidCmdCommon REQTK t g2))) =
      dev_out g2 @ write_log g2 ?c (flush_words t) @ write_log g2 ?x [?w]" by (rule gw(1))
    show "\<forall>q < 3. pending (remote_write B ?c (flush_words t) m') n q = pending m' n q"
      unfolding two_writes(1)[OF adr] by (simp add: elem_written_idx(4)[OF sep])
  qed (unfold two_writes[OF adr], (rule s)+)
qed

text \<open>
  C13. The gateway writes back the indices of all queues as it has read them, seconds earlier.  A command
  that somebody put meanwhile into another queue of the block is lost: the write index of that queue
  goes back to its old value and the command is not pending any more.
\<close>

theorem stale_index_loses_command:
  fixes g g1 g2 :: unipz
  assumes p: "prepared B m t0 g g1 n l"
    and g2: "dmCmds g2 = dmCmds (snd (dmPrepCmdFlush REQTK g1))" "flagDebug g2 = 0"
    and m': "int_base_adr m' = int_base_adr m" "elem_sep n (mem m l + el_offs (wr_idx m n 1))"
    and q: "q < 3" "q \<noteq> 1" "rd_idx m' n q = wr_idx m n q" "pending m' n q"
  shows "\<exists>c x w. dev_out (dmChangeBlock REQTK (snd (dmSetTValidCmdCommon REQTK t g2))) =
      dev_out g2 @ write_log g2 c (flush_words t) @ write_log g2 x [w] \<and>
    (let m2 = remote_write B x [w] (remote_write B c (flush_words t) m')
     in wr_idx m2 n q = wr_idx m n q \<and> wr_idx m2 n q \<noteq> wr_idx m' n q \<and> \<not> pending m2 n q)"
proof -
  let ?c = "mem m l - int_base_adr m + B + el_offs (wr_idx m n 1)"
  let ?x = "cm_dynpar (dmCmds g REQTK) + BLOCK_CMDQ_WR_IDXS"
  let ?w = "setbyte (mem m (n + 24)) 1 ((wr_idx m n 1 + 1) AND 7)"
  let ?e = "mem m l + el_offs (wr_idx m n 1)"
  note gw = gateway_writes[OF p g2]
  have adr: "int_adr B m' ?c = ?e" "int_adr B m' ?x = n + 24" using gw(2,3) int_adr_same[OF m'(1), of B] by simp_all
  let ?m1 = "elem_written ?e (flush_words t) m'"
  have "wr_idx (wr32 (n + 24) ?w ?m1) n q = wr_idx m n q" "rd_idx (wr32 (n + 24) ?w ?m1) n q = rd_idx m' n q"
    using gw(4)[OF q(1)] q(2) elem_written_idx(1)[OF m'(2), of "flush_words t" m' q]
    by (simp_all add: wr_idx_def rd_idx_def mem_simps)
  hence lost: "wr_idx (wr32 (n + 24) ?w ?m1) n q = wr_idx m n q \<and> wr_idx (wr32 (n + 24) ?w ?m1) n q \<noteq> wr_idx m' n q \<and>
      \<not> pending (wr32 (n + 24) ?w ?m1) n q"
    using q by (auto simp: pending_def)
  show ?thesis
    unfolding Let_def
  proof (intro exI conjI)
    show "dev_out (dmChangeBlock REQTK (snd (dmSetTValidCmdCommon REQTK t g2))) =
      dev_out g2 @ write_log g2 ?c (flush_words t) @ write_log g2 ?x [?w]" by (rule gw(1))
  qed (unfold two_writes[OF adr], (use lost in blast)+)
qed

section \<open>An example\<close>

text \<open>The block at 0x10002000 with an empty high priority queue and a command in the low priority queue; seen
  from the network it is at 0x02002000.\<close>

definition gw_dm :: dm_state where
  "gw_dm = q_example\<lparr>mem := q_mem(0x10002010 := 0x10002120, 0x10002120 := 0x10002240, 0x10002018 := 1)\<rparr>"

definition gw_example :: unipz where
  "gw_example = \<lparr>wr_time = (\<lambda>n. of_nat (1000 * n)), time_cnt = 1, dev_rd = (\<lambda>r n. 0), rd_cnt = 0, dev_out = [],
     eca_in = (\<lambda>n. None), polls = 0, sdb = (\<lambda>d. 1), eca_queues = [(1, 2)], dev_adr = (\<lambda>d. 1), shm = (\<lambda>a. 7),
     shm_on = True, ram_ext = 0, stray = [], EBM_OFFS_DAT = 0x800000, EBM_OFFS_WR = 0x400000,
     EBM_ADR_MASK = 0x3fffff, EBM_WRITE = 0x400000, EBM_READ = 0, nBadStatus = 0, nBadState = 0, flagRecover = 0,
     wr_time_prev = 0, RAM_SIZE = 0x20000, SHARED_OFFS = 0x500, INT_BASE_ADR = 0x10000000,
     dm_reply = (\<lambda>k j i. if k = 0 then if i < 13 then mem gw_dm (0x10002000 + 4 * of_nat i) else 0
       else if i = 0 then 0x10002240 else 0), dm_reads = 0,
     writePZUData = 0, uz_statusArray = 0, statusTransfer = 0, nTransfer = 0, nMulti = 0, nBoost = 0, thrdOffset = 1500000,
     uniTimeout = 2000, tkTimeout = 210, tReady2Sis = 0, tBreq = 0, tTkreq = 0, flagTkReq = 0, nR2sTransfer = 0,
     nR2sTotal = 0, nR2sLastTkrel = 0, nR2sCycle = 0, flagDebug = 0,
     dmCmds = (\<lambda>_. \<lparr>cm_dynpar = 0x02002000, cm_cmdAddr = 0, cm_cmdData = [], cm_blockWrIdxsAddr = 0, cm_blockWrIdxs = 0\<rparr>),
     dmThrs = (\<lambda>_. \<lparr>th_dynpar = 0x02003000, th_cpuIdx = 0, th_thrIdx = 2, th_TSAddr = 0, th_TSData = [], th_StartAddr = 0,
       th_StartData = 0\<rparr>), nLate = 0, offsDone = 0, comLatency = 0, maxComLatency = 0, maxOffsDone = 0, nIter = 0,
     virtAccReq = 0, virtAccRec = 0, noBeam = 0, dtStart = 0, dtSync1 = 0, dtSync2 = 0, dtInject = 0, dtTransfer = 0,
     dtTkreq = 0, dtBreq = 0, dtBprep = 0, dtReady2Sis = 0\<rparr>"

lemma gw_dm_sel: "mem gw_dm = q_mem(0x10002010 := 0x10002120, 0x10002120 := 0x10002240, 0x10002018 := 1)"
    "clk gw_dm = (\<lambda>_. 1000)" "int_base_adr gw_dm = 0x10000000" "ticks gw_dm = 0"
  by (simp_all add: gw_dm_def q_example_def dm_blank_def)

lemma gw_sel:
  "wr_time gw_example = (\<lambda>n. of_nat (1000 * n))" "time_cnt gw_example = 1" "shm_on gw_example" "dm_reads gw_example = 0"
  "cm_dynpar (dmCmds gw_example k) = 0x02002000" "INT_BASE_ADR gw_example = 0x10000000" "RAM_SIZE gw_example = 0x20000"
  "flagDebug gw_example = 0" "dm_reply gw_example = (\<lambda>k j i. if k = 0 then if i < 13 then mem gw_dm (0x10002000 + 4 * of_nat i) else 0
       else if i = 0 then 0x10002240 else 0)" "SHARED_OFFS gw_example = 0x500"
  "th_dynpar (dmThrs gw_example k) = 0x02003000" "th_thrIdx (dmThrs gw_example k) = 2"
  by (simp_all add: gw_example_def)

lemma gw_prepared:
  "\<exists>g1. prepared 0x02000000 gw_dm 0 gw_example g1 0x10002000 0x10002120 \<and> flagDebug (snd (dmPrepCmdFlush REQTK g1)) = 0"
proof -
  obtain g1 where g1: "dmPrepCmdCommon REQTK 1 True 0 gw_example = Some (COMMON_STATUS_OK, g1)"
    using prep_now[of gw_example 1 REQTK 0] by (auto simp: gw_sel gw_dm_sel q_mem_def COMMON_EB_HACKISH_def getbyte_def)
  have B: "dmExt2BaseAddr 0x02002000 gw_example = 0x02000000"
    by (simp add: dmExt2BaseAddr_def round_up_2n_def gw_sel Let_def)
  have n: "int_adr 0x02000000 gw_dm 0x02002000 = 0x10002000" by (simp add: int_adr_def gw_dm_sel)
  have l: "0x10002120 = rd32 gw_dm (0x10002000 + BLOCK_CMDQ_HI_PTR) + buf_offs (wr_idx gw_dm 0x10002000 1)"
    by (simp add: gw_dm_sel q_defs buf_offs_def)
  have s: "serves 0x02000000 gw_dm gw_example 0 0x02002000 13" "serves 0x02000000 gw_dm gw_example (Suc 0) 0x02002120 1"
    by (simp_all add: serves_def gw_sel int_adr_def gw_dm_sel q_mem_def)
  have p: "prepared 0x02000000 gw_dm 0 gw_example g1 0x10002000 0x10002120"
    using g1 B n l s by (simp add: prepared_def gw_sel gw_dm_sel Let_def)
  have "flagDebug g1 = 0" using prepared_run(2)[OF p] by (simp add: gw_sel)
  hence "flagDebug (snd (dmPrepCmdFlush REQTK g1)) = 0" unfolding dmPrepCmdFlush_def snd_conv by (simp add: set_cmd_def)
  thus ?thesis using p by blast
qed

lemma gw_flushable: "flushable gw_dm 0x10002000 0x10002240 0"
  by (simp add: flushable_def pending_def has_q_def q_defs gw_dm_sel buf_offs_def el_offs_def bit_iff_odd_drop_bit)

theorem gateway_ends_wait_witness:
  "\<exists>g1 c x w. prepared 0x02000000 gw_dm 0 gw_example g1 0x10002000 0x10002120 \<and>
     (let g2 = snd (dmPrepCmdFlush REQTK g1); m2 = remote_write 0x02000000 x [w] (remote_write 0x02000000 c (flush_words 500) gw_dm)
      in dev_out (dmChangeBlock REQTK (snd (dmSetTValidCmdCommon REQTK 500 g2))) =
           dev_out g2 @ write_log g2 c (flush_words 500) @ write_log g2 x [w] \<and>
         (\<exists>s. block 0x10002000 0x1214 m2 = Inr (0x10002500, s) \<and> rd_idx s 0x10002000 0 = wr_idx s 0x10002000 0))"
proof -
  obtain g1 where p: "prepared 0x02000000 gw_dm 0 gw_example g1 0x10002000 0x10002120"
    and d: "flagDebug (snd (dmPrepCmdFlush REQTK g1)) = 0" using gw_prepared by blast
  have u: "undisturbed gw_dm gw_dm 0x10002000" by (simp add: undisturbed_def Let_def)
  have t: "500 \<le> clk gw_dm (ticks gw_dm)" "500 \<le> clk gw_dm (ticks gw_dm + 1)" by (simp_all add: gw_dm_sel)
  have dst: "rd32 gw_dm (0x10002000 + NODE_DEF_DEST_PTR) = 0x10002500" by (simp add: q_defs gw_dm_sel)
  show ?thesis
    using gateway_ends_wait[OF p refl d u gw_flushable t, of "0x1214", unfolded dst Let_def] p
    unfolding Let_def by blast
qed

text \<open>Another command for the low priority queue arrives after the gateway has read the indices.\<close>

theorem stale_index_loses_command_witness:
  "\<exists>g1 c x w. prepared 0x02000000 gw_dm 0 gw_example g1 0x10002000 0x10002120 \<and>
     (let m' = gw_dm\<lparr>mem := (mem gw_dm)(0x10002018 := 2, 0x1000201c := 1)\<rparr>;
          m2 = remote_write 0x02000000 x [w] (remote_write 0x02000000 c (flush_words 500) m')
      in pending m' 0x10002000 0 \<and> \<not> pending m2 0x10002000 0)"
proof -
  let ?m = "gw_dm\<lparr>mem := (mem gw_dm)(0x10002018 := 2, 0x1000201c := 1)\<rparr>"
  obtain g1 where p: "prepared 0x02000000 gw_dm 0 gw_example g1 0x10002000 0x10002120"
    and d: "flagDebug (snd (dmPrepCmdFlush REQTK g1)) = 0" using gw_prepared by blast
  have e: "elem_sep 0x10002000 (mem gw_dm 0x10002120 + el_offs (wr_idx gw_dm 0x10002000 1))"
    by (simp add: q_defs gw_dm_sel el_offs_def)
  have q: "rd_idx ?m 0x10002000 0 = wr_idx gw_dm 0x10002000 0" "pending ?m 0x10002000 0"
    by (simp_all add: q_defs gw_dm_sel pending_def has_q_def bit_iff_odd_drop_bit)
  have "int_base_adr ?m = int_base_adr gw_dm" by simp
  from stale_index_loses_command[OF p refl d this e _ _ q, of 500] show ?thesis
    unfolding Let_def using p q(2) by auto
qed

end
