(* ===== verification/Unipz_Thread.thy ===== *)
theory Unipz_Thread
  imports Unipz_Queue
begin

text \<open>
  The gateway and the data master together, second part: the start of a thread that the gateway prepares and
  writes into the data master's staging area and start register is carried out by the next start
  phase of the data master's main loop.
\<close>

section \<open>Start requests at the data master\<close>

lemma bitmask_and: "i < 8 \<Longrightarrow> j < 8 \<Longrightarrow> bitmask i AND bitmask j = (if i = j then bitmask i else 0)"
  by (rule bit_word_eqI) (auto simp: bitmask_def bit_simps bit_1_iff)

lemma bitmask_not0: "i < 8 \<Longrightarrow> bitmask i \<noteq> 0"
  by (simp add: bitmask_def)

lemma start_loop_none: "rd32 s (start_adr s) = 0 \<Longrightarrow> start_loop xs s = Inr s"
  by (induction xs) simp_all

text \<open>With one start bit set, the loop over the threads starts that thread.\<close>

lemma start_loop_one:
  assumes "rd32 s (start_adr s) = bitmask i" "start_thread i s = Inr s'" "rd32 s' (start_adr s') = 0" "i < 8"
    "i \<in> set xs" "set xs \<subseteq> {..<8}"
  shows "start_loop xs s = Inr s'"
  using assms(5,6)
proof (induction xs)
  case (Cons j xs)
  show ?case
  proof (cases "j = i")
    case True
    thus ?thesis using assms bitmask_not0[OF assms(4)] start_loop_none[OF assms(3)] by simp
  next
    case False
    thus ?thesis using Cons assms(1) bitmask_and[OF assms(4), of j] by simp
  qed
qed simp

section \<open>The gateway's start\<close>

lemma remote_write_2: "mem (remote_write B a [v, w] m) = (mem m)(int_adr B m a := v, int_adr B m a + 4 := w)"
  by (simp add: remote_write_def upt_conv_Cons)

text \<open>The network address of the staged start time of thread \<open>i\<close> and of the start register.\<close>

definition staged_adr :: "u32 \<Rightarrow> unipz \<Rightarrow> u32 \<Rightarrow> u32" where
  "staged_adr B g i = B + SHARED_OFFS g + (SHCTL_THR_STA + i * T_TS_SIZE + T_TS_STARTTIME)"

definition startreg_adr :: "u32 \<Rightarrow> unipz \<Rightarrow> u32" where
  "startreg_adr B g = B + SHARED_OFFS g + (SHCTL_THR_CTL + T_TC_START)"

lemma set_thr_frame: "write_log (set_thr blk f g) = write_log g" "dev_out (set_thr blk f g) = dev_out g"
    "flagDebug (set_thr blk f g) = flagDebug g" "dmThrs (set_thr blk f g) blk = f (dmThrs g blk)"
  by (simp_all add: set_thr_def write_log_def win_def fun_eq_iff)

lemma start_log:
  assumes "flagDebug g = 0" "dmExt2BaseAddr (th_dynpar (dmThrs g blk)) g = B"
  shows "dev_out (dmStartThread blk (snd (dmPrepThrStart blk T g))) = dev_out g @
      write_log g (staged_adr B g (th_thrIdx (dmThrs g blk))) [hiW T, loW T] @
      write_log g (startreg_adr B g) [push_bit (unat (th_thrIdx (dmThrs g blk))) 1]"
proof -
  let ?g = "snd (dmPrepThrStart blk T g)" and ?x = "staged_adr B g (th_thrIdx (dmThrs g blk))" and ?y = "startreg_adr B g"
  have t: "th_TSAddr (dmThrs ?g blk) = ?x" "th_TSData (dmThrs ?g blk) = [hiW T, loW T]" "th_StartAddr (dmThrs ?g blk) = ?y"
    "th_StartData (dmThrs ?g blk) = push_bit (unat (th_thrIdx (dmThrs g blk))) 1"
    and f: "write_log ?g = write_log g" "dev_out ?g = dev_out g" "flagDebug ?g = 0"
    using assms by (simp_all add: dmPrepThrStart_def Let_def set_thr_frame staged_adr_def startreg_adr_def)
  obtain s1 where s1: "fwlib_ebmWriteN ?x [hiW T, loW T] ?g = (COMMON_STATUS_OK, s1)"
    "dev_out s1 = dev_out ?g @ write_log ?g ?x [hiW T, loW T]" "setup_of s1 = setup_of ?g"
    using ebmWriteN_run[of "[hiW T, loW T]" ?x ?g] by auto
  obtain s2 where s2: "fwlib_ebmWriteN ?y [th_StartData (dmThrs ?g blk)] s1 = (COMMON_STATUS_OK, s2)"
    "dev_out s2 = dev_out s1 @ write_log s1 ?y [th_StartData (dmThrs ?g blk)]" "setup_of s2 = setup_of s1"
    using ebmWriteN_run[of "[th_StartData (dmThrs ?g blk)]" ?y s1] by auto
  have "flagDebug s2 = 0" using s1(3) s2(3) f(3) by (cases ?g; cases s2; cases s1) (simp add: setup_of_def)
  thus ?thesis
    using s1 s2 write_log_setup[OF s1(3)] f t by (simp add: dmStartThread_def debug_pair_def Let_def)
qed

text \<open>
  C7. A thread that the gateway starts is started by the data master: the two messages put the start time
  into the staging area of the thread and the thread's bit into the start register, and the start
  phase then sets the thread's current time to that time, its cursor to the staged origin, its
  first deadline accordingly and its running bit.  The start register is overwritten as a whole: a start of
  another thread that was requested and not yet served is forgotten.
\<close>

theorem gateway_starts_thread:
  fixes g :: unipz
  assumes thr: "th_thrIdx (dmThrs g REQBEAM) = of_nat i" "i < 8" "dmExt2BaseAddr (th_dynpar (dmThrs g REQBEAM)) g = B"
    and dm: "startshared m = int_base_adr m + SHARED_OFFS g" "flagDebug g = 0" "T \<noteq> 0"
    and c: "rd32 m (thr_sta m i + T_TS_NODE_PTR) = c" "node_out m c"
      "is_event (getNodeType c m) \<or> is_block (getNodeType c m)"
  shows "\<exists>x y. dev_out (dmStartThread REQBEAM (snd (dmPrepThrStart REQBEAM T g))) =
      dev_out g @ write_log g x [hiW T, loW T] @ write_log g y [bitmask i] \<and>
    (let m2 = remote_write B y [bitmask i] (remote_write B x [hiW T, loW T] m)
     in rd32 m2 (start_adr m) = bitmask i \<and>
       (\<exists>s. start_loop [0..<THR_QTY] m2 = Inr s \<and> rd64 s (thr_dat m i + T_TD_CURRTIME) = T \<and>
          rd32 s (thr_dat m i + T_TD_NODE_PTR) = c \<and>
          DL s (thr_dat m i) = (if is_block (getNodeType c m) then T else T + rd64 m (c + EVT_OFFS_TIME)) \<and>
          rd32 s (running_adr m) = rd32 m (running_adr m) OR bitmask i \<and> rd32 s (start_adr m) = 0 \<and>
          (\<forall>j < 8. j \<noteq> i \<longrightarrow> DL s (thr_dat m j) = DL m (thr_dat m j))))"
proof -
  let ?x = "staged_adr B g (of_nat i)" and ?y = "startreg_adr B g"
  let ?m2 = "remote_write B ?y [bitmask i] (remote_write B ?x [hiW T, loW T] m)"
  have ti: "unat (th_thrIdx (dmThrs g REQBEAM)) = i" using thr(1,2) by (simp add: unat_of_nat32)
  have log: "dev_out (dmStartThread REQBEAM (snd (dmPrepThrStart REQBEAM T g))) =
      dev_out g @ write_log g ?x [hiW T, loW T] @ write_log g ?y [bitmask i]"
    using start_log[OF dm(2) thr(3), of T] ti thr(1) by (simp add: bitmask_def)
  have adr: "int_adr B m ?x = thr_sta m i + 8" "int_adr B m ?y = startshared m + 324"
    using dm(1) by (simp_all add: int_adr_def staged_adr_def startreg_adr_def thr_sta_def dm_layout algebra_simps)
  let ?st = "thr_sta m i"
  have m2: "mem ?m2 = (mem m)(?st + 8 := hiW T, ?st + 12 := loW T, startshared m + 324 := bitmask i)"
    unfolding remote_write_1 remote_write_2 adr(1)
    using adr(2) int_adr_same[of "remote_write B ?x [hiW T, loW T] m" m B] by (simp add: add.assoc)
  have sh: "startshared ?m2 = startshared m" by (simp add: remote_write_def)
  have same: "thr_sta ?m2 = thr_sta m" "thr_dat ?m2 = thr_dat m" "node_out ?m2 = node_out m"
    "start_adr ?m2 = startshared m + 324" "running_adr ?m2 = startshared m + 336"
    "start_adr m = startshared m + 324" "running_adr m = startshared m + 336"
    using sh by (simp_all add: thr_sta_def thr_dat_def node_out_def off_def adr_defs dm_layout fun_eq_iff)
  have out: "mem ?m2 a = mem m a" if "off m a \<noteq> 348 + 24 * i" "off m a \<noteq> 352 + 24 * i" "off m a \<noteq> 324" for a
  proof -
    have "a \<noteq> ?st + 8" "a \<noteq> ?st + 12" "a \<noteq> startshared m + 324"
      by (rule off_neq[of m], use that thr(2) in simp)+
    thus ?thesis by (simp add: m2)
  qed
  have nd: "mem ?m2 (c + of_nat k) = mem m (c + of_nat k)" if "k < 52" for k
    using node_out_field[OF c(2) that] thr(2) by (intro out) auto
  have st: "rd32 ?m2 (?st + T_TS_NODE_PTR) = c" using c(1) out[of "?st + 4"] thr(2) by (simp add: rd32_def dm_layout)
  have "?st + 8 \<noteq> startshared m + 324" "?st + 12 \<noteq> startshared m + 324"
    by (rule off_neq[of m], use thr(2) in simp)+
  hence time: "rd64 ?m2 (?st + T_TS_STARTTIME) = T"
    unfolding rd64_def m2 by (simp add: dm_layout add.assoc)
  hence T: "start_time i ?m2 = T" using dm(3) by (simp add: start_time_def same)
  have ty: "getNodeType c ?m2 = getNodeType c m" using nd[of 44] by (intro getNodeType_cong) simp
  have start: "rd32 ?m2 (start_adr ?m2) = bitmask i" by (simp add: rd32_def m2 same)
  have run0: "rd32 ?m2 (running_adr m) = rd32 m (running_adr m)" using out[of "startshared m + 336"] thr(2) by (auto simp: rd32_def same)
  have dl: "DL ?m2 (thr_dat m j) = DL m (thr_dat m j)" if "j < 8" for j
    using out[of "thr_dat m j + 16"] out[of "thr_dat m j + 20"] that thr(2) by (simp add: DL_def rd64_def dm_layout add.assoc)
  have o0: "rd64 ?m2 (c + EVT_OFFS_TIME) = rd64 m (c + EVT_OFFS_TIME)"
    using nd[of 0] nd[of 4] by (simp add: rd64_def dm_layout)
  obtain s where s: "start_thread i ?m2 = Inr s" "rd64 s (thr_dat m i + T_TD_CURRTIME) = T"
    "rd32 s (thr_dat m i + T_TD_NODE_PTR) = c" "startshared s = startshared m"
    "DL s (thr_dat m i) = (if is_block (getNodeType c m) then T else T + rd64 m (c + EVT_OFFS_TIME))"
    "rd32 s (running_adr m) = rd32 m (running_adr m) OR bitmask i" "rd32 s (start_adr m) = 0"
    "\<forall>j < 8. j \<noteq> i \<longrightarrow> DL s (thr_dat m j) = DL m (thr_dat m j)"
    using start_thread_run[OF thr(2), of ?m2 c] st c(2,3) T ty start run0 dl o0 sh by (auto simp: same)
  have "start_loop [0..<THR_QTY] ?m2 = Inr s"
    using s by (intro start_loop_one[OF start s(1) _ thr(2)]) (auto simp: adr_defs same dm_layout thr(2))
  thus ?thesis
    unfolding Let_def using log start s same by (intro exI conjI) auto
qed

text \<open>Thread 2, whose origin is a timing message at 0x10003100; a start of thread 5 is pending.\<close>

definition thr_dm :: dm_state where
  "thr_dm = gw_dm\<lparr>startshared := 0x10000500, mem := (\<lambda>_. 0)(0x10000688 := 0x10003100, 0x10003104 := 700, 0x1000312c := 2, 0x10000644 := 0x20)\<rparr>"

theorem gateway_starts_thread_witness:
  "\<exists>x y. let m2 = remote_write 0x02000000 y [bitmask 2] (remote_write 0x02000000 x [hiW 9000, loW 9000] thr_dm)
     in rd32 thr_dm (start_adr thr_dm) = bitmask 5 \<and> rd32 m2 (start_adr thr_dm) = bitmask 2 \<and>
       (\<exists>s. start_loop [0..<THR_QTY] m2 = Inr s \<and> DL s (thr_dat thr_dm 2) = 9700)"
proof -
  have sel: "startshared thr_dm = 0x10000500" "int_base_adr thr_dm = 0x10000000"
    "mem thr_dm = (\<lambda>_. 0)(0x10000688 := 0x10003100, 0x10003104 := 700, 0x1000312c := 2, 0x10000644 := 0x20)"
    by (simp_all add: thr_dm_def gw_dm_sel)
  have B: "dmExt2BaseAddr (th_dynpar (dmThrs gw_example REQBEAM)) gw_example = 0x02000000"
    by (simp add: dmExt2BaseAddr_def round_up_2n_def gw_sel Let_def)
  have t: "th_thrIdx (dmThrs gw_example REQBEAM) = of_nat 2" by (simp add: gw_sel)
  have sh: "startshared thr_dm = int_base_adr thr_dm + SHARED_OFFS gw_example" by (simp add: sel gw_sel)
  have c: "rd32 thr_dm (thr_sta thr_dm 2 + T_TS_NODE_PTR) = 0x10003100" by (simp add: thr_sta_def rd32_def sel dm_layout)
  have out: "node_out thr_dm 0x10003100" by (simp add: node_out_def off_def sel)
  have ty: "getNodeType 0x10003100 thr_dm = NODE_TYPE_TMSG"
    by (simp add: getNodeType_def sel rd32_def dm_layout node_type_of_def node_types_def Let_def)
  have ev: "is_event (getNodeType 0x10003100 thr_dm) \<or> is_block (getNodeType 0x10003100 thr_dm)" by (simp add: ty is_event_def)
  have "rd32 thr_dm (start_adr thr_dm) = bitmask 5" by (simp add: sel rd32_def adr_defs dm_layout bitmask_def)
  moreover have "rd64 thr_dm (0x10003100 + EVT_OFFS_TIME) = 700" by (simp add: rd64_def sel dm_layout mk64_def)
  ultimately show ?thesis
    using gateway_starts_thread[OF t _ B sh _ _ c out ev, of 9000] unfolding Let_def
    by (auto simp: gw_sel ty is_block_def)
qed

end
