(* ===== verification/Unipz_Frame.thy ===== *)
theory Unipz_Frame
  imports Unipz_Main Fw_Transfer
begin

text \<open>
  What the operations of the gateway leave alone.  The routines of the common library and of the MIL
  library change neither the streams from outside (time, device registers) nor the part of the state that an
  application adds; of the gateway's own operations only some change the word for UNIPZ and the
  prepared thread starts.
\<close>

section \<open>Operations of the libraries\<close>

definition fixed :: "'a fw_scheme \<Rightarrow> (nat \<Rightarrow> u64) \<times> (reg \<Rightarrow> nat \<Rightarrow> u32) \<times> 'a" where
  "fixed s = (wr_time s, dev_rd s, fw.more s)"

named_theorems fixed_simps "library operations that keep time, registers and the application's part"

lemma fixed_basic [fixed_simps]:
  "fixed (snd (sys_time s)) = fixed s" "fixed (snd (rd_dev r s)) = fixed s" "fixed (wr_dev r v s) = fixed s"
  "fixed (sh_wr off w s) = fixed s" "fixed (snd (rd16 r s)) = fixed s" "fixed (s\<lparr>polls := p\<rparr>) = fixed s"
  "fixed (s\<lparr>time_cnt := p\<rparr>) = fixed s" "fixed (s\<lparr>wr_time_prev := p'\<rparr>) = fixed s"
  by (simp_all add: fixed_def sys_time_def rd_dev_def wr_dev_def sh_wr_def rd16_def)

lemma fixed_fold [fixed_simps]:
  "(\<And>x s. fixed (f x s) = fixed s) \<Longrightarrow> fixed (fold f xs s) = fixed s"
  by (induction xs arbitrary: s) simp_all

lemma fixed_clear [fixed_simps]: "fixed (sh_clear off n s) = fixed s"
  by (induction off n s rule: sh_clear.induct) (simp_all add: fixed_simps)

lemma fixed_ebm [fixed_simps]:
  "fixed (ebm_hi x s) = fixed s" "fixed (ebm_op x v t s) = fixed s" "fixed (ebm_flush s) = fixed s"
  "fixed (ebmClearSharedMem s) = fixed s" "fixed (ebm_write_ops x ds s) = fixed s" "fixed (ebm_read_ops x i n s) = fixed s"
proof -
  show "fixed (ebm_hi x s) = fixed s" "fixed (ebm_op x v t s) = fixed s" "fixed (ebm_flush s) = fixed s" for x v t and s :: "'a fw_scheme"
    by (simp_all add: ebm_hi_def ebm_op_def ebm_flush_def fixed_simps Let_def)
  note e = this
  show "fixed (ebmClearSharedMem s) = fixed s" by (simp add: ebmClearSharedMem_def fixed_simps)
  show "fixed (ebm_write_ops x ds s) = fixed s" by (induction x ds s rule: ebm_write_ops.induct) (simp_all add: e)
  show "fixed (ebm_read_ops x i n s) = fixed s" by (induction x i n s rule: ebm_read_ops.induct) (simp_all add: e)
qed

lemma fixed_lib [fixed_simps]:
  "fixed (snd (fwlib_ebmWriteN x ds s)) = fixed s" "fixed (snd (fwlib_ecaWriteTM dl i p t f s)) = fixed s"
  "fixed (snd (fwlib_wrCheckSyncState s)) = fixed s"
  by (simp_all add: fwlib_ebmWriteN_def fwlib_ecaWriteTM_def tm_deadline_def fwlib_wrCheckSyncState_def Let_def
      fixed_simps split_beta)

lemma fixed_mil_poll [fixed_simps]: "fixed (snd (snd (mil_poll r v t s))) = fixed s"
  by (induction r v t s rule: mil_poll.induct) (subst mil_poll.simps, simp add: fixed_simps split_beta)

lemma fixed_mil_wait [fixed_simps]: "fixed (snd (mil_wait r s)) = fixed s"
  by (simp add: mil_wait_def fixed_simps split_beta)

lemma fixed_mil [fixed_simps]:
  "fixed (snd (writeDevMil slot ifb fc d s)) = fixed s" "fixed (snd (snd (readDevMil slot ifb fc d s))) = fixed s"
  "fixed (snd (echoTestDevMil slot ifb d s)) = fixed s" "fixed (snd (resetDevMil slot s)) = fixed s"
proof -
  show w: "fixed (snd (writeDevMil slot ifb fc d s)) = fixed s" for slot ifb fc d and s :: "'a fw_scheme"
    by (simp add: writeDevMil_def write_mil_def scub_write_mil_def fixed_simps)
  show r: "fixed (snd (snd (readDevMil slot ifb fc d s))) = fixed s" for slot ifb fc d and s :: "'a fw_scheme"
    using fixed_mil_wait[of MIL "wr_dev (MIL MIL_SIO3_TX_TASK2) (scast (fc_ifb ifb fc)) s"]
      fixed_mil_wait[of "sio (unat slot)" "wr_dev (sio (unat slot) MIL_SIO3_TX_TASK2) (ucast (fc_ifb ifb fc)) s"]
    by (auto simp: readDevMil_def read_mil_def scub_read_mil_def split_beta fixed_simps split: prod.split option.split)
  show "fixed (snd (echoTestDevMil slot ifb d s)) = fixed s"
    by (simp add: echoTestDevMil_def w r split_beta)
  show "fixed (snd (resetDevMil slot s)) = fixed s"
    by (simp add: resetDevMil_def reset_mil_def scub_reset_mil_def split_beta fixed_simps)
qed

lemma fixed_evt [fixed_simps]:
  "fixed (ctrl_update f s) = fixed s" "fixed (conf_update f s) = fixed s"
  "fixed (snd (clearFilterEvtMil slot s)) = fixed s" "fixed (snd (setFilterEvtMil slot c va v s)) = fixed s"
  "fixed (snd (writeCtrlStatRegEvtMil slot v' s)) = fixed s" "fixed (snd (clearFifoEvtMil slot s)) = fixed s"
  by (simp_all add: ctrl_update_def conf_update_def clearFilterEvtMil_def setFilterEvtMil_def
      writeCtrlStatRegEvtMil_def readCtrlStatRegEvtMil_def clearFifoEvtMil_def fixed_simps split_beta)

lemma fixed_lemo [fixed_simps]:
  "fixed (snd (enableFilterEvtMil slot s)) = fixed s" "fixed (snd (disableFilterEvtMil slot s)) = fixed s"
  "fixed (snd (configLemoPulseEvtMil slot l s)) = fixed s" "fixed (snd (configLemoOutputEvtMil slot l s)) = fixed s"
  "fixed (snd (disableLemoEvtMil slot l s)) = fixed s" "fixed (snd (setLemoOutputEvtMil slot l b s)) = fixed s"
  "fixed (fwlib_milPulseLemo l s) = fixed s"
  by (simp_all add: enableFilterEvtMil_def disableFilterEvtMil_def configLemoPulseEvtMil_def fwlib_milPulseLemo_def
      configLemoOutputEvtMil_def disableLemoEvtMil_def setLemoOutputEvtMil_def fixed_simps split_beta)

lemma fixed_fifo [fixed_simps]:
  "fixed (snd (fifoNotemptyEvtMil slot s)) = fixed s" "fixed (snd (snd (popFifoEvtMil slot v s))) = fixed s"
  by (simp_all add: fifoNotemptyEvtMil_def popFifoEvtMil_def readCtrlStatRegEvtMil_def fixed_simps split_beta)

text \<open>Words over the device bus do not look at the clock.\<close>

lemma time_mil_poll: "time_cnt (snd (snd (mil_poll r v t s))) = time_cnt s"
  by (induction r v t s rule: mil_poll.induct) (subst mil_poll.simps, simp add: rd16_def rd_dev_def split_beta)

lemma time_mil:
  "time_cnt (snd (writeDevMil slot ifb fc d s)) = time_cnt s" "time_cnt (snd (snd (readDevMil slot ifb fc d s))) = time_cnt s"
proof -
  have w: "time_cnt (snd (mil_wait r s)) = time_cnt s" for r and s :: "'a fw_scheme"
    by (simp add: mil_wait_def time_mil_poll split_beta) (simp add: rd16_def rd_dev_def time_mil_poll split_beta)
  show "time_cnt (snd (writeDevMil slot ifb fc d s)) = time_cnt s"
    by (simp add: writeDevMil_def write_mil_def scub_write_mil_def)
  show "time_cnt (snd (snd (readDevMil slot ifb fc d s))) = time_cnt s"
    using w[of MIL "wr_dev (MIL MIL_SIO3_TX_TASK2) (scast (fc_ifb ifb fc)) s"]
      w[of "sio (unat slot)" "wr_dev (sio (unat slot) MIL_SIO3_TX_TASK2) (ucast (fc_ifb ifb fc)) s"]
    by (auto simp: readDevMil_def read_mil_def scub_read_mil_def rd16_def rd_dev_def split_beta split: prod.split option.split)
qed

section \<open>Loops of the libraries that wait\<close>

text \<open>What they keep when they end.\<close>

lemma fixed_eca_poll: "eca_poll t s = Some r \<Longrightarrow> fixed (snd r) = fixed s"
  by (rule eca_poll.raw_induct[where P = "\<lambda>t s r. fixed (snd r) = fixed s"])
    (auto simp: sys_time_def fixed_simps split: if_splits option.splits)

lemma fixed_wait_eca: "fwlib_wait4ECAEvent us s = Some (tag, a, s') \<Longrightarrow> fixed s' = fixed s"
  using fixed_eca_poll
  by (fastforce simp: fwlib_wait4ECAEvent_def fwlib_wait4ECAEvent2_def Let_def sys_time_def fixed_simps
      split: option.splits prod.splits)

lemma fixed_wait_data: "ebm_wait_data reply t n k s = Some r \<Longrightarrow> fixed (snd r) = fixed s"
  by (rule ebm_wait_data.raw_induct[where P = "\<lambda>reply t n k s r. fixed (snd r) = fixed s"])
    (auto simp: sys_time_def fixed_simps split: if_splits)

lemma fixed_ebmReadN: "fwlib_ebmReadN reply ms a n s = Some (st, d, s') \<Longrightarrow> fixed s' = fixed s"
  by (auto simp: fwlib_ebmReadN_def Let_def split_beta fixed_simps dest!: fixed_wait_data split: if_splits option.splits)

lemma fixed_mil_drain: "mil_drain codes s = Some r \<Longrightarrow> fixed (snd r) = fixed s"
proof (rule mil_drain.raw_induct[where P = "\<lambda>codes s r. fixed (snd r) = fixed s"])
  fix f :: "u32 list \<Rightarrow> 'a fw_scheme \<Rightarrow> (mil_event option \<times> 'a fw_scheme) option" and codes s r
  assume IH: "\<And>codes s r. f codes s = Some r \<Longrightarrow> fixed (snd r) = fixed s"
    and e: "(case fifoNotemptyEvtMil 0 s of (ne, s1) \<Rightarrow>
        if ne \<noteq> 0
        then (case popFifoEvtMil 0 0 s1 of (_, evtRec, s2) \<Rightarrow>
                if codes = [] \<or> me_code (mil_event_of evtRec) \<in> set codes
                then Some (Some (mil_event_of evtRec), s2)
                else f codes s2)
        else Some (None, s1)) = Some r"
  show "fixed (snd r) = fixed s"
    using e by (auto simp: split_beta fixed_simps dest: IH split: if_splits)
qed

lemma fixed_mil_events: "mil_poll_events t codes s = Some r \<Longrightarrow> fixed (snd r) = fixed s"
  by (rule mil_poll_events.raw_induct[where P = "\<lambda>t codes s r. fixed (snd r) = fixed s"])
    (auto simp: sys_time_def fixed_simps dest: fixed_mil_drain split: if_splits option.splits)

lemma fixed_wait_mil: "fwlib_wait4MILEvent us codes s = Some (st, e, s') \<Longrightarrow> fixed s' = fixed s"
  by (auto simp: fwlib_wait4MILEvent_def sys_time_def fixed_simps dest!: fixed_mil_events split: option.splits prod.splits)

section \<open>They end when the clock runs\<close>

text \<open>From every look at the clock on, every time is reached; a clock that only wraps around does that.  The
  FIFO of the event bus is found empty after some number of events is taken from it (each event costs
  two reads).\<close>

definition clock_runs :: "(nat \<Rightarrow> u64) \<Rightarrow> bool" where
  "clock_runs clock \<longleftrightarrow> (\<forall>T n. \<exists>k. T \<le> clock (n + k))"

definition fifo_drains :: "(reg \<Rightarrow> nat \<Rightarrow> u32) \<Rightarrow> bool" where
  "fifo_drains rd \<longleftrightarrow> (\<forall>n. \<exists>k. rd (MIL MIL_WR_RD_STATUS) (n + 2 * k) AND MIL_CTRL_STAT_EV_FIFO_NE = 0)"

lemma eca_poll_ends: "T \<le> wr_time s (time_cnt s + k) \<Longrightarrow> eca_poll T s \<noteq> None"
proof (induction k arbitrary: s)
  case (Suc k)
  thus ?case using Suc.IH[of "s\<lparr>time_cnt := Suc (time_cnt s), polls := Suc (polls s)\<rparr>"]
    by (subst eca_poll.simps) (simp add: sys_time_def split: option.split)
qed (subst eca_poll.simps, simp add: sys_time_def leD)

lemma wait_eca_ends: "clock_runs (wr_time s) \<Longrightarrow> fwlib_wait4ECAEvent us s \<noteq> None"
proof -
  assume "clock_runs (wr_time s)"
  then obtain k where "wr_time s (time_cnt s) + push_bit 10 (ucast us + 1) \<le> wr_time s (Suc (time_cnt s) + k)"
    unfolding clock_runs_def by blast
  thus ?thesis using eca_poll_ends[of _ "s\<lparr>time_cnt := Suc (time_cnt s)\<rparr>" k]
    by (auto simp: fwlib_wait4ECAEvent_def fwlib_wait4ECAEvent2_def Let_def sys_time_def split: option.splits prod.splits)
qed

lemma wait_data_ends: "T \<le> wr_time s (time_cnt s + k) \<Longrightarrow> ebm_wait_data reply T n j s \<noteq> None"
proof (induction k arbitrary: s j)
  case (Suc k)
  thus ?case using Suc.IH[of "s\<lparr>time_cnt := Suc (time_cnt s)\<rparr>" "Suc j"]
    by (subst ebm_wait_data.simps) (simp add: sys_time_def)
qed (subst ebm_wait_data.simps, simp add: sys_time_def leD)

lemma ebmReadN_ends: "clock_runs (wr_time s) \<Longrightarrow> fwlib_ebmReadN reply ms a n s \<noteq> None"
proof -
  assume c: "clock_runs (wr_time s)"
  let ?s1 = "sh_wr (COMMON_SHARED_DATA_4EB + of_nat (4 * (n + 1))) COMMON_EB_HACKISH (ebmClearSharedMem s)"
  let ?s2 = "ebm_read_ops a 0 n (ebm_hi a ?s1)"
  let ?s3 = "ebm_flush (ebm_op a (ext_4eb ?s2 (n + 1)) (EBM_READ ?s2) ?s2)"
  let ?s4 = "snd (sys_time ?s3)"
  have "fixed ?s4 = fixed s" by (simp only: fixed_simps)
  hence w: "wr_time ?s4 = wr_time s" unfolding fixed_def by blast
  have "\<exists>k. T \<le> wr_time ?s4 (time_cnt ?s4 + k)" for T using c unfolding clock_runs_def w by blast
  then obtain r where r: "ebm_wait_data reply (fst (sys_time ?s3) + ucast ms * 1000000) n 0 ?s4 = Some r"
    using wait_data_ends by blast
  show ?thesis unfolding fwlib_ebmReadN_def Let_def split_beta r option.case by (auto split: option.splits)
qed

lemma fifo_reads:
  "fifoNotemptyEvtMil 0 s =
     (uint (ucast (dev_rd s (MIL MIL_WR_RD_STATUS) (rd_cnt s) AND MIL_CTRL_STAT_EV_FIFO_NE) :: u16), s\<lparr>rd_cnt := Suc (rd_cnt s)\<rparr>)"
  "popFifoEvtMil 0 v s = (MIL_STAT_OK, dev_rd s (MIL RD_CLR_EV_FIFO) (rd_cnt s), s\<lparr>rd_cnt := Suc (rd_cnt s)\<rparr>)"
  by (simp_all add: fifoNotemptyEvtMil_def popFifoEvtMil_def readCtrlStatRegEvtMil_def rd_dev_def)

lemma mil_drain_ends:
  "dev_rd s (MIL MIL_WR_RD_STATUS) (rd_cnt s + 2 * k) AND MIL_CTRL_STAT_EV_FIFO_NE = 0 \<Longrightarrow> mil_drain codes s \<noteq> None"
proof (induction k arbitrary: s)
  case (Suc k)
  thus ?case using Suc.IH[of "s\<lparr>rd_cnt := Suc (Suc (rd_cnt s))\<rparr>"]
    by (subst mil_drain.simps) (simp add: fifo_reads)
qed (subst mil_drain.simps, simp add: fifo_reads)

lemma time_mil_drain: "mil_drain codes s = Some r \<Longrightarrow> time_cnt (snd r) = time_cnt s"
  by (rule mil_drain.raw_induct[where P = "\<lambda>codes s r. time_cnt (snd r) = time_cnt s"])
    (auto simp: fifo_reads split: if_splits)

lemma mil_events_end:
  "T \<le> wr_time s (time_cnt s + k) \<Longrightarrow> fifo_drains (dev_rd s) \<Longrightarrow> mil_poll_events T codes s \<noteq> None"
proof (induction k arbitrary: s)
  case (Suc k)
  let ?s = "s\<lparr>time_cnt := Suc (time_cnt s)\<rparr>"
  obtain j where "dev_rd ?s (MIL MIL_WR_RD_STATUS) (rd_cnt ?s + 2 * j) AND MIL_CTRL_STAT_EV_FIFO_NE = 0"
    using Suc.prems(2) unfolding fifo_drains_def by auto
  from mil_drain_ends[OF this, of codes] obtain r where r: "mil_drain codes ?s = Some r" by blast
  note k = fixed_mil_drain[OF r] time_mil_drain[OF r]
  have "mil_poll_events T codes (snd r) \<noteq> None"
    using Suc.IH[of "snd r"] Suc.prems k by (simp add: fixed_def)
  thus ?case by (subst mil_poll_events.simps) (auto simp: sys_time_def r split: option.split prod.split)
qed (subst mil_poll_events.simps, simp add: sys_time_def leD)

lemma wait_mil_ends:
  "clock_runs (wr_time s) \<Longrightarrow> fifo_drains (dev_rd s) \<Longrightarrow> fwlib_wait4MILEvent us codes s \<noteq> None"
proof -
  assume c: "clock_runs (wr_time s)" and f: "fifo_drains (dev_rd s)"
  obtain k where "wr_time s (time_cnt s) + ucast us * 1000 \<le> wr_time s (Suc (time_cnt s) + k)"
    using c unfolding clock_runs_def by blast
  thus ?thesis using f mil_events_end[of _ "s\<lparr>time_cnt := Suc (time_cnt s)\<rparr>" k]
    by (auto simp: fwlib_wait4MILEvent_def sys_time_def split: option.splits)
qed

end
