(* ===== verification/Fw_Program.thy ===== *)
theory Fw_Program
  imports Fw_States Fw_Frame
begin

text \<open>
  A whole program on the common library: an application that also promises to keep its property when the
  diagnostics are cleared.  The library then keeps it through the host's commands, the actions of its
  states and everything it publishes.
\<close>

locale fw_program = fw_application h inv for h :: "'a hooks" and inv :: "'a fw_scheme \<Rightarrow> bool" +
  fixes clear :: "'a fw_scheme \<Rightarrow> 'a fw_scheme"
  assumes clear_diag: "inv s \<Longrightarrow> inv (clear s)"
begin

lemma clear_keeps: "inv s \<Longrightarrow> inv (fwlib_clearDiag clear s)"
  by (rule library[OF _ clear_diag]) (simp add: fwlib_clearDiag_def Let_def split_beta more_simps)

lemma command_keeps:
  assumes "fwlib_cmdHandler clear req s = (req', cmd, s')" "inv s"
  shows "inv s'"
proof -
  have w: "inv u \<Longrightarrow> inv (sh_wr off v u)" for off v u by (rule library) (simp_all add: more_simps)
  show ?thesis using assms clear_keeps w
    by (auto simp: fwlib_cmdHandler_def Let_def split: if_splits)
qed

lemma do_keeps:
  assumes "fwlib_doActionState req act st s = Some (req', st', s')" "inv s"
  shows "inv s'"
proof -
  have r: "inv u \<Longrightarrow> inv (u\<lparr>flagRecover := x\<rparr>)" for u x by (erule library[rotated]) simp
  have "inv (snd (fwlib_doActionS0 s))" by (rule library[OF more_s0 assms(2)])
  thus ?thesis using assms r
    by (auto simp: fwlib_doActionState_def fwlib_doAutoRecovery_def split_beta Let_def split: if_splits)
qed

lemma publish_keeps:
  "inv s \<Longrightarrow> inv (fwlib_publishState x s)" "inv s \<Longrightarrow> inv (fwlib_publishStatusArray arr s)"
  "inv s \<Longrightarrow> inv (fwlib_incBadStateCnt s)" "inv s \<Longrightarrow> inv (fwlib_incBadStatusCnt s)"
  "inv s \<Longrightarrow> inv (fwlib_publishTransferStatus2 a1 a2 a3 a4 a5 a6 a7 a8 a9 b1 b2 b3 b4 b5 b6 b7 b8 s)"
  "inv s \<Longrightarrow> inv (fwlib_init w x y z s)"
  by (erule library[rotated]; simp add: more_simps fwlib_publishTransferStatus2_def)+

end

end
