(* ===== verification/Unipz_Beam.thy ===== *)
theory Unipz_Beam
  imports Unipz_Frame Fw_Program
begin

text \<open>
  The request for beam: whatever happens in the gateway, when a pass of its main loop is over the
  request is withdrawn, but for one early return: that of a pass which has prepared a thread start that then
  fails the check.  The relation \<open>tacit\<close> says that an operation opens no request and leaves the data of the
  thread starts alone, \<open>calm\<close> that it also leaves the environment alone; they are shared by all operations that
  are not the request itself.
\<close>

section \<open>Operations that request no beam\<close>

definition beam_open :: "unipz \<Rightarrow> bool" where
  "beam_open s \<longleftrightarrow> bit (writePZUData s) SIS_Request"

definition env :: "unipz \<Rightarrow> (nat \<Rightarrow> u64) \<times> (reg \<Rightarrow> nat \<Rightarrow> u32)" where
  "env s = (wr_time s, dev_rd s)"

text \<open>The data of the thread start of the request, and where the memory of the data master is.\<close>

definition thr_data :: "unipz \<Rightarrow> (nat \<Rightarrow> dm_thrd) \<times> u32 \<times> u32" where
  "thr_data s = (dmThrs s, RAM_SIZE s, SHARED_OFFS s)"

definition tacit :: "unipz \<Rightarrow> unipz \<Rightarrow> bool" where
  "tacit s s' \<longleftrightarrow> thr_data s' = thr_data s \<and> (beam_open s' \<longrightarrow> beam_open s)"

definition calm :: "unipz \<Rightarrow> unipz \<Rightarrow> bool" where
  "calm s s' \<longleftrightarrow> env s' = env s \<and> tacit s s'"

lemma tacit_refl [simp]: "tacit s s" and calm_refl [simp]: "calm s s"
  by (simp_all add: calm_def tacit_def)

lemma tacit_trans [trans]: "tacit s t \<Longrightarrow> tacit t u \<Longrightarrow> tacit s u"
  by (simp add: tacit_def)

lemma calm_trans [trans]: "calm s t \<Longrightarrow> calm t u \<Longrightarrow> calm s u"
  by (simp add: calm_def tacit_def)

lemma calm_tacit: "calm s t \<Longrightarrow> tacit s t"
  by (simp add: calm_def)

lemma fixed_fields:
  fixes s s' :: unipz
  assumes "fixed s' = fixed s"
  shows "wr_time s' = wr_time s" "dev_rd s' = dev_rd s" "writePZUData s' = writePZUData s" "thr_data s' = thr_data s"
proof -
  have "wr_time s' = wr_time s \<and> dev_rd s' = dev_rd s \<and> writePZUData s' = writePZUData s \<and> thr_data s' = thr_data s"
    using assms by (cases s; cases s') (simp add: fixed_def thr_data_def)
  thus "wr_time s' = wr_time s" "dev_rd s' = dev_rd s" "writePZUData s' = writePZUData s" "thr_data s' = thr_data s"
    by simp_all
qed

lemma calm_fixed: "fixed s' = fixed s \<Longrightarrow> calm s s'"
  using fixed_fields[of s' s] by (simp add: calm_def tacit_def env_def beam_open_def)

lemma fixed_tacit: "fixed t = fixed s \<Longrightarrow> tacit s0 s \<Longrightarrow> tacit s0 t"
  using calm_tacit[OF calm_fixed] tacit_trans by blast

lemmas calm_unfold = calm_def tacit_def thr_data_def env_def beam_open_def

lemma thr_data_pzu: "thr_data (s\<lparr>writePZUData := w\<rparr>) = thr_data s"
  by (simp add: thr_data_def)

lemma bit_put_bits:
  "pos + len \<le> 16 \<Longrightarrow> bit (put_bits pos len v w) k \<longleftrightarrow> (if pos \<le> k \<and> k < pos + len then bit v (k - pos) else bit w k)"
proof (cases "k < 16")
  case True
  thus ?thesis by (auto simp: put_bits_def bit_simps)
next
  case False
  moreover assume "pos + len \<le> 16"
  ultimately show ?thesis by (auto dest: bit_imp_le_length)
qed

named_theorems calm_intros "operations that request no beam"

lemma send_pzu_fields:
  "env (snd (send_pzu f s)) = env s" "thr_data (snd (send_pzu f s)) = thr_data s"
  "writePZUData (snd (send_pzu f s)) = f (writePZUData s)"
proof -
  have "fixed (snd (writeToPZU a m d t)) = fixed t" for a m d and t :: unipz
    by (simp add: writeToPZU_def split_beta fixed_simps)
  note w = fixed_fields[OF this]
  show "env (snd (send_pzu f s)) = env s" "thr_data (snd (send_pzu f s)) = thr_data s"
    "writePZUData (snd (send_pzu f s)) = f (writePZUData s)"
    by (simp_all add: send_pzu_def Let_def split_beta w env_def thr_data_pzu)
qed

lemma calm_send:
  "(\<And>w. bit (f w) SIS_Request \<Longrightarrow> bit w SIS_Request) \<Longrightarrow> calm s (snd (send_pzu f s))"
  by (auto simp: calm_def tacit_def send_pzu_fields beam_open_def)

lemma calm_words [calm_intros]:
  "calm s (snd (send_pzu (\<lambda>_. 0) s))" "calm s (snd (send_pzu (\<lambda>_. tk_word va d) s))"
  "calm s (snd (send_pzu (\<lambda>_. put_bits Req_not_ok_Ack 1 1 0) s))"
  "calm s (snd (send_pzu (put_bits Req_not_ok_Ack 1 0) s))" "calm s (snd (releaseTK s))"
  "calm s (snd (prepareBeam s))" "calm s (snd (unprepareBeam s))"
  unfolding releaseTK_def prepareBeam_def unprepareBeam_def
  by (rule calm_send, simp add: tk_word_def pz_bits bit_put_bits)+

lemma fixed_read_pzu: "fixed (snd (read_pzu s)) = fixed s"
proof -
  have "fixed (snd (snd (readFromPZU a m d s))) = fixed s" for a m d
    by (simp add: readFromPZU_def split_beta fixed_simps)
  thus ?thesis by (simp add: read_pzu_def split_beta)
qed

lemma fixed_pz_wait: "pz_wait T verdict s = Some r \<Longrightarrow> fixed (snd r) = fixed s"
proof (rule pz_wait.raw_induct[where P = "\<lambda>T verdict s r. fixed (snd r) = fixed s"])
  fix f :: "u64 \<Rightarrow> (u16 \<Rightarrow> u32 option) \<Rightarrow> unipz \<Rightarrow> (u32 option \<times> unipz) option" and T verdict s r
  assume IH: "\<And>T verdict s r. f T verdict s = Some r \<Longrightarrow> fixed (snd r) = fixed s"
    and e: "(case sys_time s of (now, s1) \<Rightarrow>
        if now < T
        then (case read_pzu s1 of (v, s2) \<Rightarrow>
                case v of
                  None \<Rightarrow> Some (Some DMUNIPZ_STATUS_DEVBUSERROR, s2)
                | Some w \<Rightarrow> (case verdict w of Some st \<Rightarrow> Some (Some st, s2) | None \<Rightarrow> f T verdict s2))
        else Some (None, s1)) = Some r"
  show "fixed (snd r) = fixed s"
    using e fixed_read_pzu[of "s\<lparr>time_cnt := Suc (time_cnt s)\<rparr>"]
    by (auto simp: sys_time_def fixed_simps dest!: IH split: if_splits prod.splits option.splits)
qed

lemma calm_pz_wait: "pz_wait T verdict s = Some (r, s') \<Longrightarrow> calm s s'"
  using fixed_pz_wait calm_fixed by fastforce

lemma calm_time [calm_intros]: "calm s (snd (sys_time s))" "calm s (s\<lparr>time_cnt := n\<rparr>)" "calm s (snd (read_pzu s))"
  by (rule calm_fixed, simp add: fixed_simps fixed_read_pzu)+

lemma calm_check: "checkClearReqNotOk ms s = Some (st, s') \<Longrightarrow> calm s s'"
proof -
  assume a: "checkClearReqNotOk ms s = Some (st, s')"
  obtain now s0 where 0: "sys_time s = (now, s0)" by fastforce
  obtain v s1 where 1: "read_pzu s0 = (v, s1)" by fastforce
  obtain st2 s2 where 2: "send_pzu (\<lambda>_. put_bits Req_not_ok_Ack 1 1 0) s1 = (st2, s2)" by fastforce
  have c: "calm s s0" "calm s0 s1" "calm s1 s2"
    using calm_time(1)[of s] calm_time(3)[of s0] calm_words(3)[of s1] unfolding 0 1 2 snd_conv .
  have "s' = s1 \<or> s' = s2 \<or> (\<exists>T verdict r t. pz_wait T verdict s2 = Some (r, t) \<and>
      (s' = t \<or> s' = snd (send_pzu (put_bits Req_not_ok_Ack 1 0) t)))"
    using a unfolding checkClearReqNotOk_def 0 1 2 prod.case
    by (fastforce split: option.splits if_splits bind_splits)
  moreover have s2: "calm s s1" "calm s s2" using c calm_trans by blast+
  moreover have "calm s t" if "pz_wait T verdict s2 = Some (r, t)" for T verdict r t
    by (rule calm_trans[OF s2(2) calm_pz_wait[OF that]])
  ultimately show ?thesis using calm_trans[OF _ calm_words(4)] by blast
qed

lemma calm_requestTK: "requestTK ms va d s = Some (st, s') \<Longrightarrow> calm s s'"
proof -
  assume a: "requestTK ms va d s = Some (st, s')"
  obtain now s1 where 1: "sys_time s = (now, s1)" by fastforce
  obtain st2 s2 where 2: "send_pzu (\<lambda>_. tk_word va d) s1 = (st2, s2)" by fastforce
  have c: "calm s s1" "calm s1 s2" using calm_time(1)[of s] calm_words(2)[of s1 va d] unfolding 1 2 snd_conv .
  have "s' = s \<or> s' = s2 \<or> (\<exists>T verdict r. pz_wait T verdict s2 = Some (r, s'))"
    using a unfolding requestTK_def 1 2 prod.case by (fastforce split: option.splits if_splits bind_splits)
  moreover have s2: "calm s s2" by (rule calm_trans[OF c])
  moreover have "calm s t" if "pz_wait T verdict s2 = Some (r, t)" for T verdict r t
    by (rule calm_trans[OF s2 calm_pz_wait[OF that]])
  ultimately show ?thesis using calm_refl by blast
qed

text \<open>Releasing the beam closes the request whatever the bus and UNIPZ do.\<close>

lemma release_closes: "releaseBeam ms s = Some (st, s') \<Longrightarrow> calm s s' \<and> \<not> beam_open s'"
proof -
  assume a: "releaseBeam ms s = Some (st, s')"
  let ?f = "put_bits ReqNoBeam 1 0 \<circ> put_bits SIS_Request 1 0"
  obtain st1 s1 where 1: "send_pzu ?f s = (st1, s1)" by fastforce
  obtain now s2 where 2: "sys_time s1 = (now, s2)" by fastforce
  have c: "calm s s1" "\<not> beam_open s1" "calm s1 s2"
    using send_pzu_fields[of ?f s] calm_time(1)[of s1] unfolding 1 2 snd_conv
    by (simp_all add: calm_def tacit_def beam_open_def bit_put_bits pz_bits)
  have "s' = s1 \<or> (\<exists>T verdict r. pz_wait T verdict s2 = Some (r, s'))"
    using a unfolding releaseBeam_def 1 2 prod.case by (fastforce split: option.splits if_splits bind_splits)
  moreover have "calm s1 t" if "pz_wait T verdict s2 = Some (r, t)" for T verdict r t
    by (rule calm_trans[OF c(3) calm_pz_wait[OF that]])
  ultimately have "calm s1 s'" using calm_refl by blast
  thus ?thesis using c(1,2) calm_trans calm_def tacit_def by blast
qed

lemma calm_upd [calm_intros]:
  "calm s (set_cmd k f s)" "calm s (trans_bit k s)" "calm s (snd (since t s))" "calm s (put_latency t s)"
  "calm s (snd (dmClearCmd k s))" "calm s (debug_pair t e1 a1 p1 e2 a2 p2 s)" "calm s (dmStartThread k s)"
  "calm s (dmChangeBlock k s)" "calm s (snd (dmPrepCmdFlush k s))" "calm s (snd (dmSetTValidCmdCommon k v s))"
proof -
  show c: "calm s (set_cmd k f s)" for k f s by (simp add: set_cmd_def calm_unfold)
  show "calm s (trans_bit k s)" "calm s (snd (since t s))" "calm s (put_latency t s)"
    by (simp_all add: trans_bit_def since_def put_latency_def calm_unfold sys_time_def)
  show "calm s (snd (dmClearCmd k s))" "calm s (snd (dmPrepCmdFlush k s))" "calm s (snd (dmSetTValidCmdCommon k v s))"
    by (simp_all add: dmClearCmd_def dmPrepCmdFlush_def dmSetTValidCmdCommon_def c)
  show "calm s (debug_pair t e1 a1 p1 e2 a2 p2 s)" "calm s (dmStartThread k s)" "calm s (dmChangeBlock k s)"
    by (rule calm_fixed, simp add: debug_pair_def dmStartThread_def dmChangeBlock_def Let_def fixed_simps)+
qed

section \<open>The handlers\<close>

text \<open>Other fields of the state do not matter.\<close>

named_theorems calm_simps "fields and operations that do not matter"

lemma calm_fields [calm_simps]:
  "calm s (t\<lparr>nTransfer := v_nTransfer\<rparr>) = calm s t"
  "calm (s\<lparr>nTransfer := v_nTransfer\<rparr>) t = calm s t"
  "calm s (t\<lparr>virtAccReq := v_virtAccReq\<rparr>) = calm s t"
  "calm (s\<lparr>virtAccReq := v_virtAccReq\<rparr>) t = calm s t"
  "calm s (t\<lparr>virtAccRec := v_virtAccRec\<rparr>) = calm s t"
  "calm (s\<lparr>virtAccRec := v_virtAccRec\<rparr>) t = calm s t"
  "calm s (t\<lparr>noBeam := v_noBeam\<rparr>) = calm s t"
  "calm (s\<lparr>noBeam := v_noBeam\<rparr>) t = calm s t"
  "calm s (t\<lparr>statusTransfer := v_statusTransfer\<rparr>) = calm s t"
  "calm (s\<lparr>statusTransfer := v_statusTransfer\<rparr>) t = calm s t"
  "calm s (t\<lparr>nMulti := v_nMulti\<rparr>) = calm s t"
  "calm (s\<lparr>nMulti := v_nMulti\<rparr>) t = calm s t"
  "calm s (t\<lparr>nBoost := v_nBoost\<rparr>) = calm s t"
  "calm (s\<lparr>nBoost := v_nBoost\<rparr>) t = calm s t"
  "calm s (t\<lparr>dtSync1 := v_dtSync1\<rparr>) = calm s t"
  "calm (s\<lparr>dtSync1 := v_dtSync1\<rparr>) t = calm s t"
  "calm s (t\<lparr>dtSync2 := v_dtSync2\<rparr>) = calm s t"
  "calm (s\<lparr>dtSync2 := v_dtSync2\<rparr>) t = calm s t"
  "calm s (t\<lparr>dtTransfer := v_dtTransfer\<rparr>) = calm s t"
  "calm (s\<lparr>dtTransfer := v_dtTransfer\<rparr>) t = calm s t"
  "calm s (t\<lparr>dtInject := v_dtInject\<rparr>) = calm s t"
  "calm (s\<lparr>dtInject := v_dtInject\<rparr>) t = calm s t"
  "calm s (t\<lparr>dtTkreq := v_dtTkreq\<rparr>) = calm s t"
  "calm (s\<lparr>dtTkreq := v_dtTkreq\<rparr>) t = calm s t"
  "calm s (t\<lparr>dtBreq := v_dtBreq\<rparr>) = calm s t"
  "calm (s\<lparr>dtBreq := v_dtBreq\<rparr>) t = calm s t"
  "calm s (t\<lparr>dtBprep := v_dtBprep\<rparr>) = calm s t"
  "calm (s\<lparr>dtBprep := v_dtBprep\<rparr>) t = calm s t"
  "calm s (t\<lparr>dtReady2Sis := v_dtReady2Sis\<rparr>) = calm s t"
  "calm (s\<lparr>dtReady2Sis := v_dtReady2Sis\<rparr>) t = calm s t"
  "calm s (t\<lparr>dtStart := v_dtStart\<rparr>) = calm s t"
  "calm (s\<lparr>dtStart := v_dtStart\<rparr>) t = calm s t"
  "calm s (t\<lparr>flagTkReq := v_flagTkReq\<rparr>) = calm s t"
  "calm (s\<lparr>flagTkReq := v_flagTkReq\<rparr>) t = calm s t"
  "calm s (t\<lparr>tTkreq := v_tTkreq\<rparr>) = calm s t"
  "calm (s\<lparr>tTkreq := v_tTkreq\<rparr>) t = calm s t" "calm s (t\<lparr>tBreq := v_tBreq\<rparr>) = calm s t"
  "calm (s\<lparr>tBreq := v_tBreq\<rparr>) t = calm s t"
  "calm s (t\<lparr>tReady2Sis := v_tReady2Sis\<rparr>) = calm s t"
  "calm (s\<lparr>tReady2Sis := v_tReady2Sis\<rparr>) t = calm s t"
  "calm s (t\<lparr>nR2sTransfer := v_nR2sTransfer\<rparr>) = calm s t"
  "calm (s\<lparr>nR2sTransfer := v_nR2sTransfer\<rparr>) t = calm s t"
  "calm s (t\<lparr>nR2sTotal := v_nR2sTotal\<rparr>) = calm s t"
  "calm (s\<lparr>nR2sTotal := v_nR2sTotal\<rparr>) t = calm s t"
  "calm s (t\<lparr>nR2sCycle := v_nR2sCycle\<rparr>) = calm s t"
  "calm (s\<lparr>nR2sCycle := v_nR2sCycle\<rparr>) t = calm s t"
  "calm s (t\<lparr>nR2sLastTkrel := v_nR2sLastTkrel\<rparr>) = calm s t"
  "calm (s\<lparr>nR2sLastTkrel := v_nR2sLastTkrel\<rparr>) t = calm s t"
  "calm s (t\<lparr>comLatency := v_comLatency\<rparr>) = calm s t"
  "calm (s\<lparr>comLatency := v_comLatency\<rparr>) t = calm s t"
  "calm s (t\<lparr>time_cnt := v_time_cnt\<rparr>) = calm s t"
  "calm (s\<lparr>time_cnt := v_time_cnt\<rparr>) t = calm s t"
  "calm s (t\<lparr>dmCmds := v_dmCmds\<rparr>) = calm s t"
  "calm (s\<lparr>dmCmds := v_dmCmds\<rparr>) t = calm s t" "calm s (t\<lparr>nLate := v_nLate\<rparr>) = calm s t"
  "calm (s\<lparr>nLate := v_nLate\<rparr>) t = calm s t"
  "calm s (t\<lparr>offsDone := v_offsDone\<rparr>) = calm s t"
  "calm (s\<lparr>offsDone := v_offsDone\<rparr>) t = calm s t"
  "calm s (t\<lparr>flagDebug := v_flagDebug\<rparr>) = calm s t"
  "calm (s\<lparr>flagDebug := v_flagDebug\<rparr>) t = calm s t"
  by (simp_all add: calm_unfold)

lemma calm_ops [calm_simps]:
  "calm s (trans_bit k t) = calm s t" "calm (trans_bit k s) t = calm s t"
  "calm s (set_cmd k f t) = calm s t" "calm (set_cmd k f s) t = calm s t"
  "calm s (put_latency d t) = calm s t" "calm (put_latency d s) t = calm s t"
  "calm s (snd (dmClearCmd k t)) = calm s t" "calm (snd (dmClearCmd k s)) t = calm s t"
  "calm s (snd (since d t)) = calm s t" "calm (snd (since d s)) t = calm s t"
  by (simp_all add: trans_bit_def set_cmd_def put_latency_def since_def dmClearCmd_def sys_time_def calm_simps)

lemma calm_reqtk: "do_reqtk a s = Some (b, st, s') \<Longrightarrow> calm s s'"
  by (auto simp: do_reqtk_def Let_def calm_simps bind_eq_Some_conv split_beta split: if_splits
      dest!: calm_requestTK calm_check intro: calm_trans)

lemma calm_prepbeam: "do_prepbeam a s = Some (b, st, s') \<Longrightarrow> calm s s'"
  using calm_words(6)[of "put_latency (ea_deadline a) s"]
  by (auto simp: do_prepbeam_def Let_def calm_simps split: if_splits prod.splits)

lemma calm_release: "calm (snd (releaseTK s)) t \<Longrightarrow> calm s t"
  using calm_trans calm_words(5) by blast

lemma calm_reltk: "do_reltk st0 a s = Some (b, st, s') \<Longrightarrow> calm s s'"
  by (auto simp: do_reltk_def Let_def calm_simps bind_eq_Some_conv dest!: calm_check calm_release)

lemma calm_diag:
  "do_mbtrigger st0 a s = Some (b, st, s') \<Longrightarrow> calm s s'" "do_ready2sis st0 a s = Some (b, st, s') \<Longrightarrow> calm s s'"
  by (auto simp: do_mbtrigger_def do_ready2sis_def Let_def calm_simps)

section \<open>The request for beam\<close>

lemma calm_dm_read: "dm_read a n s = Some (st, d, s') \<Longrightarrow> calm s s'"
proof -
  assume "dm_read a n s = Some (st, d, s')"
  hence "calm (s\<lparr>dm_reads := Suc (dm_reads s)\<rparr>) s'" unfolding dm_read_def by (intro calm_fixed fixed_ebmReadN)
  thus ?thesis by (simp add: calm_unfold)
qed

lemma calm_prep: "dmPrepCmdCommon k prio e t s = Some (st, s') \<Longrightarrow> calm s s'"
  by (auto simp: dmPrepCmdCommon_def prep_block_def Let_def calm_simps bind_eq_Some_conv
      split: if_splits dest!: calm_dm_read intro: calm_trans)

lemma calm_flush [calm_simps]: "calm s (snd (dmPrepCmdFlush k t)) = calm s t"
  by (simp add: dmPrepCmdFlush_def calm_simps)

lemma calm_block: "breq_block t s = Some (st, again, s') \<Longrightarrow> calm s s'"
  by (auto simp: breq_block_def Let_def calm_simps bind_eq_Some_conv split: if_splits
      dest!: calm_prep intro: calm_trans)

lemma env_calm: "calm s s' \<Longrightarrow> env s' = env s"
  by (simp add: calm_def)

lemma env_fixed: "fixed s' = fixed s \<Longrightarrow> env s' = env (s :: unipz)"
  by (simp add: fixed_def env_def)

lemma env_upd [simp]:
  "env (s\<lparr>dtBreq := a1\<rparr>) = env s" "env (s\<lparr>virtAccRec := a2\<rparr>) = env s" "env (s\<lparr>tReady2Sis := a3\<rparr>) = env s"
  "env (s\<lparr>nR2sTransfer := a4\<rparr>) = env s" "env (s\<lparr>nR2sTotal := a5\<rparr>) = env s" "env (s\<lparr>dtReady2Sis := a6\<rparr>) = env s"
  "env (s\<lparr>dmThrs := a7\<rparr>) = env s" "env (s\<lparr>dtBprep := a8\<rparr>) = env s" "env (s\<lparr>time_cnt := a9\<rparr>) = env s"
  "env (s\<lparr>nBoost := b1\<rparr>) = env s" "env (s\<lparr>nMulti := b2\<rparr>) = env s" "env (s\<lparr>tBreq := b3\<rparr>) = env s"
  "env (s\<lparr>statusTransfer := b4\<rparr>) = env s" "env (s\<lparr>dtStart := b5\<rparr>) = env s" "env (s\<lparr>nLate := b6\<rparr>) = env s"
  "env (s\<lparr>offsDone := b7\<rparr>) = env s" "env (s\<lparr>flagDebug := b8\<rparr>) = env s"
  "env (snd (sys_time s)) = env s" "env (snd (since d s)) = env s" "env (put_latency d s) = env s"
  "env (trans_bit k s) = env s" "env (set_thr k f s) = env s" "env (fwlib_milPulseLemo l s) = env s"
proof -
  show "env (fwlib_milPulseLemo l s) = env s" by (rule env_fixed, simp only: fixed_simps)
qed (simp_all add: env_def since_def sys_time_def put_latency_def trans_bit_def set_thr_def)

lemma env_request: "requestBeam ms d s = Some (st, s') \<Longrightarrow> env s' = env s"
proof -
  assume a: "requestBeam ms d s = Some (st, s')"
  let ?f = "put_bits ReqNoBeam 1 d \<circ> put_bits SIS_Request 1 1"
  obtain st1 s1 where 1: "send_pzu ?f s = (st1, s1)" by fastforce
  obtain now s2 where 2: "sys_time s1 = (now, s2)" by fastforce
  have e: "env s1 = env s" "env s2 = env s1"
    using send_pzu_fields(1)[of ?f s] env_upd(18)[of s1] unfolding 1 2 by simp_all
  have "s' = s1 \<or> (\<exists>T verdict r. pz_wait T verdict s2 = Some (r, s'))"
    using a unfolding requestBeam_def 1 2 prod.case by (fastforce split: option.splits if_splits bind_splits)
  thus ?thesis using e calm_pz_wait env_calm by fastforce
qed

lemma env_stamp: "breq_stamp s = Some (st, v, n, s') \<Longrightarrow> env s' = env s"
  by (auto simp: breq_stamp_def Let_def bind_eq_Some_conv split_beta env_fixed[OF fixed_wait_eca] split: if_splits)

lemma env_wait: "breq_wait dl d s = Some (st, v, n, s') \<Longrightarrow> env s' = env s"
  by (auto simp: breq_wait_def Let_def bind_eq_Some_conv split_beta split: if_splits
      dest!: env_request env_fixed[OF fixed_wait_mil] env_stamp)

lemma env_time: "breq_time dl st v n s = (t, st', n', s') \<Longrightarrow> env s' = env s"
  by (auto simp: breq_time_def Let_def split_beta split: if_splits)

lemma send_end:
  "breq_end st again s = Some (st', s') \<Longrightarrow> calm s s' \<and> \<not> beam_open s'"
proof -
  assume a: "breq_end st again s = Some (st', s')"
  obtain st1 s1 where 1: "releaseBeam (uniTimeout s) s = Some (st1, s1)"
    using a by (auto simp: breq_end_def bind_eq_Some_conv)
  obtain st3 s3 where 3: "checkClearReqNotOk (uniTimeout (snd (unprepareBeam s1))) (snd (unprepareBeam s1)) = Some (st3, s3)"
    and s': "\<And>u. calm u s' = calm u (snd (disableFilterEvtMil 0 s3))"
    using a by (auto simp: breq_end_def bind_eq_Some_conv Let_def 1 calm_simps)
  have "calm s1 (snd (unprepareBeam s1))" by (rule calm_words)
  also have "calm \<dots> s3" by (rule calm_check[OF 3])
  also have "calm s3 (snd (disableFilterEvtMil 0 s3))" by (rule calm_fixed) (simp only: fixed_simps)
  finally have "calm s1 s'" by (simp add: s')
  thus ?thesis using release_closes[OF 1] calm_trans[of s s1 s'] by (auto simp: calm_def tacit_def)
qed

text \<open>The thread start of the request is prepared when its data hold what \<open>dmPrepThrStart\<close> computes.  One that
  is prepared and does not pass the check has failed.\<close>

definition prepared_start :: "unipz \<Rightarrow> bool" where
  "prepared_start s \<longleftrightarrow>
     (let t = dmThrs s REQBEAM; shared = dmExt2BaseAddr (th_dynpar t) s + SHARED_OFFS s
      in th_TSAddr t = shared + (SHCTL_THR_STA + th_thrIdx t * T_TS_SIZE + T_TS_STARTTIME) \<and>
         th_StartAddr t = shared + (SHCTL_THR_CTL + T_TC_START) \<and>
         th_StartData t = push_bit (unat (th_thrIdx t)) 1)"

definition failed_start :: "unipz \<Rightarrow> bool" where
  "failed_start s \<longleftrightarrow> prepared_start s \<and> dmCheckThr REQBEAM s \<noteq> COMMON_STATUS_OK"

lemma failed_tacit: "tacit s s' \<Longrightarrow> failed_start s' = failed_start s"
  by (simp add: tacit_def thr_data_def failed_start_def prepared_start_def dmCheckThr_def dmExt2BaseAddr_def Let_def)

text \<open>What a pass leaves behind: an open request was open before, or a thread start has failed.\<close>

definition withdrawn :: "unipz \<Rightarrow> unipz \<Rightarrow> bool" where
  "withdrawn s s' \<longleftrightarrow> (beam_open s' \<longrightarrow> beam_open s \<or> failed_start s')"

lemma tacit_withdrawn: "tacit s t \<Longrightarrow> withdrawn s t"
  by (simp add: tacit_def withdrawn_def)

lemma withdrawn_tacit: "tacit s t \<Longrightarrow> withdrawn t u \<Longrightarrow> tacit u v \<Longrightarrow> withdrawn s v"
  using failed_tacit[of u v] by (auto simp: tacit_def withdrawn_def)

lemma beam_reply:
  assumes "breq_reply booster again st noCmd t s = Some (b, st', s')"
  shows "env s' = env s \<and> (beam_open s' \<longrightarrow> failed_start s')"
proof -
  obtain s1 where p: "dmPrepThrStart REQBEAM t s = (COMMON_STATUS_OK, s1)" and e: "env s1 = env s"
    and pr: "prepared_start s1"
    by (simp add: dmPrepThrStart_def prepared_start_def set_thr_def dmExt2BaseAddr_def Let_def env_def)
  show ?thesis
  proof (cases "dmCheckThr REQBEAM s1 = COMMON_STATUS_OK")
    case False
    thus ?thesis using assms e pr by (simp add: breq_reply_def p failed_start_def)
  next
    case True
    let ?s2 = "breq_send booster st noCmd t s1"
    have "calm s1 (dmStartThread REQBEAM s1)" "\<And>u. calm u (dmChangeBlock REQTK (snd (dmSetTValidCmdCommon REQTK (t - 1000000) u)))"
      using calm_upd(7,8,10) calm_trans by blast+
    hence "calm s1 ?s2" using calm_trans by (auto simp: breq_send_def Let_def)
    moreover obtain s4 st4 where "breq_end st again ((snd (sys_time ?s2))\<lparr>dtStart := t - fst (sys_time ?s2)\<rparr>) = Some (st4, s')"
      using assms True by (auto simp: breq_reply_def p Let_def bind_eq_Some_conv split_beta)
    note send_end[OF this]
    hence "calm ?s2 s'" "\<not> beam_open s'" by (simp_all add: calm_simps)
    ultimately show ?thesis using e env_calm by simp
  qed
qed

lemma beam_run:
  assumes "breq_run booster again a s = Some (b, st, s')"
  shows "env s' = env s \<and> (beam_open s' \<longrightarrow> failed_start s')"
proof -
  let ?s1 = "snd (clearFifoEvtMil 0 (snd (enableFilterEvtMil 0 s)))"
  obtain dt s2 where 2: "since (ea_deadline a) ?s1 = (dt, s2)" by fastforce
  have "fixed ?s1 = fixed s" by (simp only: fixed_simps)
  from env_fixed[OF this] have e2: "env s2 = env s" using env_upd(19)[of "ea_deadline a" ?s1] by (simp add: 2)
  obtain st4 v n s4 where w: "breq_wait (ea_deadline a) (if ea_id a AND 0x10 \<noteq> 0 then 1 else 0)
      (trans_bit DMUNIPZ_TRANS_REQBEAM (s2\<lparr>dtBprep := dt\<rparr>)) = Some (st4, v, n, s4)"
    using assms by (auto simp: breq_run_def Let_def 2 bind_eq_Some_conv)
  obtain t5 st5 n5 s5 where 5: "breq_time (ea_deadline a) st4 v n s4 = (t5, st5, n5, s5)" by (cases "breq_time (ea_deadline a) st4 v n s4")
  have "breq_reply booster again st5 n5 t5 s5 = Some (b, st, s')"
    using assms unfolding breq_run_def Let_def 2 prod.case w bind.bind_lunit 5 .
  note beam_reply[OF this]
  thus ?thesis using env_wait[OF w] env_time[OF 5] e2 by simp
qed

text \<open>Clearing and taking the data of a new request leaves the request itself as it is.\<close>

lemma beam_request:
  assumes "do_reqbeam booster a s = Some (b, st, s')"
  shows "env s' = env s \<and> withdrawn s s'"
proof -
  let ?s = "put_latency (ea_deadline a) s"
  let ?s1 = "breq_begin booster a ?s"
  have 1: "env ?s1 = env s" "beam_open ?s1 = beam_open s"
    by (simp_all add: breq_begin_def dmClearThr_def, simp add: set_thr_def put_latency_def since_def sys_time_def beam_open_def)
  have late: "calm s ?s" by (simp add: calm_simps)
  obtain t2 s2 where 2: "breq_init a ?s1 = (t2, s2)" by fastforce
  have "env s2 = env ?s1" "beam_open s2 = beam_open ?s1"
    using 2 by (auto simp: breq_init_def sys_time_def set_thr_def beam_open_def Let_def)
  hence i2: "env s2 = env s" "beam_open s2 = beam_open s" using 1 by simp_all
  have block: "env s3 = env s \<and> (beam_open s3 \<longrightarrow> beam_open s)" if "breq_block t2 s2 = Some (st3, again, s3)" for st3 again s3
    using calm_block[OF that] i2 by (simp add: calm_def tacit_def)
  show ?thesis
  proof (cases "ea_late a \<or> ea_delayed a \<and> booster")
    case True
    thus ?thesis using assms late 1 env_calm[OF late] tacit_withdrawn[OF calm_tacit[OF late]]
      by (auto simp: do_reqbeam_def Let_def withdrawn_def split: if_splits)
  next
    case False
    have "(\<exists>again. breq_run booster again a s2 = Some (b, st, s')) \<or>
      (\<exists>st3 again s3. breq_block t2 s2 = Some (st3, again, s3) \<and> (s' = s3 \<or> breq_run booster again a s3 = Some (b, st, s')))"
      using assms False by (auto simp: do_reqbeam_def Let_def 2 bind_eq_Some_conv split: if_splits)
    thus ?thesis using beam_run block i2(1) unfolding withdrawn_def by (metis (no_types))
  qed
qed

lemma beam_dispatch:
  assumes "uz_dispatch st0 tag a s = Some (b, st, s')"
  shows "env s' = env s \<and> withdrawn s s'"
proof -
  have "fixed (snd (fwlib_wrCheckSyncState s)) = fixed s" by (rule fixed_simps)
  hence "calm s (snd (fwlib_wrCheckSyncState s))" by (rule calm_fixed)
  hence "calm s s' \<or> (\<exists>booster. do_reqbeam booster a s = Some (b, st, s'))"
    using assms calm_reqtk calm_prepbeam calm_reltk calm_diag
    by (fastforce simp: uz_dispatch_def split: if_splits prod.splits)
  thus ?thesis using beam_request env_calm calm_tacit tacit_withdrawn by blast
qed

lemma beam_operation:
  assumes "doActionOperation_uz st0 s = Some (st, s')"
  shows "withdrawn s s'"
proof -
  obtain tag a s1 where 1: "fwlib_wait4ECAEvent (COMMON_DEFAULT_TIMEOUT * 1000) s = Some (tag, a, s1)"
    using assms by (auto simp: doActionOperation_uz_def bind_eq_Some_conv)
  let ?s2 = "if ea_late a then s1\<lparr>nLate := nLate s1 + 1\<rparr> else s1"
  obtain early st3 s3 where 3: "uz_dispatch st0 tag a ?s2 = Some (early, st3, s3)"
    and s': "calm s3 s'"
    using assms by (auto simp: doActionOperation_uz_def bind_eq_Some_conv 1 Let_def split_beta calm_simps
      split: if_splits)
  have "calm s ?s2" using calm_fixed[OF fixed_wait_eca[OF 1]] by (simp add: calm_simps)
  thus ?thesis using beam_dispatch[OF 3] s' withdrawn_tacit calm_tacit by blast
qed

section \<open>Reachable states\<close>

lemma tacit_more: "fw.more s' = fw.more s \<Longrightarrow> tacit s s'"
proof -
  assume a: "fw.more s' = fw.more s"
  have "thr_data s' = thr_data s \<and> writePZUData s' = writePZUData s" using a by (cases s; cases s') (simp add: thr_data_def)
  thus "tacit s s'" by (simp add: tacit_def beam_open_def)
qed

lemma more_tacit: "fw.more s' = fw.more s \<Longrightarrow> tacit s0 s \<Longrightarrow> tacit s0 s'"
  using tacit_more tacit_trans by blast

lemma tacit_fields:
  "tacit s0 (s\<lparr>thrdOffset := a1, uniTimeout := a2, tkTimeout := a3\<rparr>) = tacit s0 s"
  "tacit s0 (s\<lparr>flagDebug := a4\<rparr>) = tacit s0 s" "tacit s0 (s\<lparr>uz_statusArray := a5\<rparr>) = tacit s0 s"
  "tacit s0 (s\<lparr>maxComLatency := a6\<rparr>) = tacit s0 s" "tacit s0 (s\<lparr>maxOffsDone := a7\<rparr>) = tacit s0 s"
  "tacit s0 (s\<lparr>nIter := a8\<rparr>) = tacit s0 s" "tacit s0 (extern_clearDiag_uz s) = tacit s0 s"
  "tacit s0 (s\<lparr>flagRecover := b1\<rparr>) = tacit s0 s" "tacit s0 (s\<lparr>nBadStatus := b2\<rparr>) = tacit s0 s"
  "tacit s0 (s\<lparr>nBadState := b2\<rparr>) = tacit s0 s" "tacit s0 (s\<lparr>shm := b3\<rparr>) = tacit s0 s"
  by (simp_all add: tacit_def thr_data_def beam_open_def extern_clearDiag_uz_def)

lemma fixed_seq: "(\<And>f t. f \<in> set fs \<Longrightarrow> fixed (snd (f t)) = fixed t) \<Longrightarrow> fixed (snd (mil_seq fs s)) = fixed s"
proof (induction fs arbitrary: s)
  case (Cons f fs)
  obtain st t where f: "f s = (st, t)" by fastforce
  have "fixed t = fixed s" using Cons.prems[of f s] by (simp add: f)
  thus ?case using Cons by (simp add: f)
qed simp

lemma fixed_config: "fixed (snd (configMILEvent c s)) = fixed s"
  unfolding configMILEvent_def by (rule fixed_seq) (auto simp: fixed_simps)

lemma fixed_flush: "flush_eca_uz s = Some s' \<Longrightarrow> fixed s' = fixed s"
  by (rule flush_eca_uz.raw_induct[where P = "\<lambda>s s'. fixed s' = fixed s"])
    (auto split: option.splits prod.splits if_splits dest: fixed_wait_eca)

lemma tacit_configure_end: "configure_end s = Some s' \<Longrightarrow> tacit s0 s \<Longrightarrow> tacit s0 s'"
proof -
  assume a: "configure_end s = Some s'" and i: "tacit s0 s"
  let ?s1 = "snd (configLemoOutputEvtMil 0 2 s)"
  obtain st s2 s3 where 2: "checkClearReqNotOk (uniTimeout ?s1) ?s1 = Some (st, s2)"
    and 3: "flush_eca_uz (snd (send_pzu (\<lambda>_. 0) s2)) = Some s3" and s': "tacit s0 s' = tacit s0 s3"
    using a by (auto simp: configure_end_def Let_def bind_eq_Some_conv tacit_fields)
  have "calm s ?s1" by (rule calm_fixed, simp only: fixed_simps)
  also have "calm ?s1 s2" by (rule calm_check[OF 2])
  also have "calm s2 (snd (send_pzu (\<lambda>_. 0) s2))" by (rule calm_words)
  also have "calm \<dots> s3" by (rule calm_fixed[OF fixed_flush[OF 3]])
  finally show ?thesis using i s' calm_tacit tacit_trans by blast
qed

lemma tacit_configured: "extern_entryActionConfigured_uz s = Some (st, s') \<Longrightarrow> tacit s0 s \<Longrightarrow> tacit s0 s'"
proof -
  assume a: "extern_entryActionConfigured_uz s = Some (st, s')" and i: "tacit s0 s"
  obtain st1 s1 mac where 1: "fwlib_ebmInit 2000 mac (shm s DMUNIPZ_SHARED_DSTIP) EB_PORT s = Some (st1, s1)"
    and r: "(if st1 \<noteq> COMMON_STATUS_OK then Some (st1, s1)
     else case resetDevMil 0 s1 of (r, s2) \<Rightarrow>
       if r \<noteq> MIL_STAT_OK then Some (DMUNIPZ_STATUS_DEVBUSERROR, s2)
       else case echoTestDevMil 0 IFB_ADDRESS_SIS 0xbabe s2 of (e, s3) \<Rightarrow>
         if e \<noteq> MIL_STAT_OK then Some (DMUNIPZ_STATUS_DEVBUSERROR, s3)
         else case configMILEvent (ucast DMUNIPZ_EVT_READY2SIS) s3 of (c, s4) \<Rightarrow>
           if c \<noteq> COMMON_STATUS_OK then Some (c, s4)
           else do { s5 \<leftarrow> configure_end s4; Some (c, s5) }) = Some (st, s')"
    using a by (auto simp: extern_entryActionConfigured_uz_def Let_def bind_eq_Some_conv)
  obtain r2 s2 where 2: "resetDevMil 0 s1 = (r2, s2)" by fastforce
  obtain r3 s3 where 3: "echoTestDevMil 0 IFB_ADDRESS_SIS 0xbabe s2 = (r3, s3)" by fastforce
  obtain r4 s4 where 4: "configMILEvent (ucast DMUNIPZ_EVT_READY2SIS) s3 = (r4, s4)" by fastforce
  have i1: "tacit s0 s1" using more_tacit[OF more_ebmInit[OF 1] i] .
  have f: "fixed s2 = fixed s1" "fixed s3 = fixed s2" "fixed s4 = fixed s3"
    using fixed_mil(4)[of 0 s1] fixed_mil(3)[of 0 IFB_ADDRESS_SIS "0xbabe" s2] fixed_config[of "ucast DMUNIPZ_EVT_READY2SIS" s3]
    unfolding 2 3 4 snd_conv .
  have q2: "tacit s0 s2" by (rule fixed_tacit[OF f(1) i1])
  have q3: "tacit s0 s3" by (rule fixed_tacit[OF f(2) q2])
  have q4: "tacit s0 s4" by (rule fixed_tacit[OF f(3) q3])
  have "tacit s0 u" if "configure_end s4 = Some u" for u using tacit_configure_end[OF that q4] .
  thus ?thesis using r i1 q2 q3 q4 unfolding 2 3 4 prod.case
    by (auto simp: bind_eq_Some_conv split: if_splits)
qed

text \<open>The gateway keeps its side of the contract with the state machine.\<close>

interpretation uz_beam: fw_application uz_hooks "tacit s0" for s0
proof
  fix s s' :: unipz and st
  show "tacit s0 s'" if "tacit s0 s" "entryActionConfigured uz_hooks s = Some (st, s')"
    using that tacit_configured by (simp add: uz_hooks_def)
  show "tacit s0 s'" if "tacit s0 s" "entryActionOperation uz_hooks s = Some (st, s')"
    using that more_tacit[of _ "extern_clearDiag_uz s"]
    by (auto simp: uz_hooks_def extern_entryActionOperation_uz_def fwlib_clearDiag_def Let_def split_beta more_simps tacit_fields)
  show "tacit s0 (snd (exitActionOperation uz_hooks s))" if "tacit s0 s"
    using that fixed_tacit[OF fixed_lemo(2)[of 0 s]]
    by (simp add: uz_hooks_def extern_exitActionOperation_uz_def tacit_fields split_beta)
  show "tacit s0 s'" if "fw.more s' = fw.more s" "tacit s0 s" by (rule more_tacit[OF that])
qed

interpretation uz_program: fw_program uz_hooks "tacit s0" extern_clearDiag_uz for s0
  by unfold_locales (simp add: tacit_fields)

text \<open>One pass of the main loop.\<close>

lemma calm_host: "cmdHandler_uz cmd s = Some s' \<Longrightarrow> calm s s'"
proof -
  assume a: "cmdHandler_uz cmd s = Some s'"
  have "calm s (snd (unprepareBeam (trans_bit k s1)))" if "releaseBeam ms s = Some (st, s1)" for ms st s1 k
    using release_closes[OF that] calm_trans[OF _ calm_words(7)] by (simp add: calm_simps)
  thus ?thesis using a calm_words(5)[of s]
    by (auto simp: cmdHandler_uz_def calm_simps bind_eq_Some_conv Let_def split: if_splits)
qed

lemma tacit_sh_wr: "tacit s0 (sh_wr off v s) = tacit s0 s"
  using more_tacit[of s "sh_wr off v s"] more_tacit[of "sh_wr off v s" s] by (auto simp: more_simps)

lemma tacit_publish: "tacit s0 s \<Longrightarrow> tacit s0 (publish_uz s)" "tacit s0 s \<Longrightarrow> tacit s0 (update_status_uz st s)"
proof -
  assume i: "tacit s0 s"
  have t: "fw.more (fwlib_publishTransferStatus a b c d e f u) = fw.more u" for a b c d e f and u :: unipz
    by (simp add: fwlib_publishTransferStatus_def fwlib_publishTransferStatus2_def more_simps)
  have p: "tacit s0 (publish_times u) = tacit s0 u" for u by (simp add: publish_times_def tacit_sh_wr)
  have q: "tacit s0 u \<Longrightarrow> tacit s0 (fwlib_publishTransferStatus a b c d e f u)" for a b c d e f u by (rule more_tacit[OF t])
  show "tacit s0 (publish_uz s)"
    unfolding publish_uz_def Let_def tacit_sh_wr p tacit_fields by (rule q) (simp add: i tacit_fields)
  have "tacit s0 (fwlib_incBadStatusCnt s)" by (simp add: fwlib_incBadStatusCnt_def Let_def tacit_sh_wr tacit_fields i)
  thus "tacit s0 (update_status_uz st s)" using i by (simp add: update_status_uz_def Let_def tacit_fields)
qed

lemma withdrawn_act:
  assumes "uz_act req act st s = Some (req', st', s')"
  shows "withdrawn s s'"
proof -
  have "doActionOperation_uz st s = Some (st', s') \<or> fwlib_doActionState req act st s = Some (req', st', s')"
    using assms by (auto simp: uz_act_def bind_eq_Some_conv split: if_splits)
  thus ?thesis using beam_operation uz_program.do_keeps[OF _ tacit_refl] tacit_withdrawn by blast
qed

text \<open>What is not the action of the state is tacit.\<close>

lemma pass_tacit:
  assumes "fwlib_cmdHandler extern_clearDiag_uz req s = (req1, cmd, s1)" "cmdHandler_uz cmd s1 = Some s2"
    "fwlib_changeState uz_hooks act req1 COMMON_STATUS_OK s2 = Some (act3, req3, st3, s3)"
    "uz_act req3 act3 st3 s3 = Some (req4, st4, s4)"
  shows "tacit s s3 \<and> (\<exists>c'. unipz_iter (req, act, pub, s) = Some c' \<and> tacit s4 (snd (snd (snd c'))) \<and>
    (tacit s s4 \<longrightarrow> tacit s (snd (snd (snd c')))))"
proof -
  have "tacit s s1" by (rule uz_program.command_keeps[OF assms(1) tacit_refl])
  also have "tacit s1 s2" by (rule calm_tacit[OF calm_host[OF assms(2)]])
  finally have before: "tacit s s3" by (rule uz_beam.change_keeps[OF assms(3)])
  have "tacit s4 (fwlib_publishState x u) = tacit s4 u" "tacit s4 (fwlib_publishStatusArray arr u) = tacit s4 u"
    "tacit s4 (fwlib_incBadStateCnt u) = tacit s4 u" for x arr u
    by (simp_all add: fwlib_publishState_def fwlib_publishStatusArray_def fwlib_incBadStateCnt_def Let_def tacit_sh_wr tacit_fields)
  hence "\<exists>c'. unipz_iter (req, act, pub, s) = Some c' \<and> tacit s4 (snd (snd (snd c')))"
    by (simp add: unipz_iter_def assms Let_def tacit_publish)
  thus ?thesis using before tacit_trans by blast
qed

lemma pass_withdraws:
  assumes "unipz_iter (req, act, pub, s) = Some c'"
  shows "withdrawn s (snd (snd (snd c')))"
proof -
  obtain req1 cmd s1 where 1: "fwlib_cmdHandler extern_clearDiag_uz req s = (req1, cmd, s1)" by (metis prod_cases3)
  obtain s2 where 2: "cmdHandler_uz cmd s1 = Some s2" using assms by (auto simp: unipz_iter_def 1 bind_eq_Some_conv)
  obtain act3 req3 st3 s3 where 3: "fwlib_changeState uz_hooks act req1 COMMON_STATUS_OK s2 = Some (act3, req3, st3, s3)"
    using assms by (auto simp: unipz_iter_def 1 2 bind_eq_Some_conv)
  obtain req4 st4 s4 where 4: "uz_act req3 act3 st3 s3 = Some (req4, st4, s4)"
    using assms by (auto simp: unipz_iter_def 1 2 3 bind_eq_Some_conv)
  have "tacit s s3" "tacit s4 (snd (snd (snd c')))" using pass_tacit[OF 1 2 3 4, of pub] assms by auto
  thus ?thesis using withdrawn_tacit[OF _ withdrawn_act[OF 4]] by blast
qed

text \<open>From power-on - the word for UNIPZ is a global variable and starts as zero - by passes of the main loop and writes of
  the host to the shared memory.\<close>

inductive unipz_reach :: "u32 \<times> u32 \<times> u32 \<times> unipz \<Rightarrow> bool" where
  start: "writePZUData s = 0 \<Longrightarrow> unipz_reach (unipz_start clu rams adr cpuId s)"
| pass: "unipz_reach c \<Longrightarrow> unipz_iter c = Some c' \<Longrightarrow> unipz_reach c'"
| host: "unipz_reach (req, act, pub, s) \<Longrightarrow> unipz_reach (req, act, pub, s\<lparr>shm := m\<rparr>)"

text \<open>The state of the gateway in a configuration, and one step of the program or of the host.\<close>

definition gateway :: "u32 \<times> u32 \<times> u32 \<times> unipz \<Rightarrow> unipz" where
  "gateway c = snd (snd (snd c))"

inductive unipz_step :: "u32 \<times> u32 \<times> u32 \<times> unipz \<Rightarrow> u32 \<times> u32 \<times> u32 \<times> unipz \<Rightarrow> bool" where
  pass: "unipz_iter c = Some c' \<Longrightarrow> unipz_step c c'"
| host: "unipz_step (req, act, pub, s) (req, act, pub, s\<lparr>shm := m\<rparr>)"

lemma start_closed: "writePZUData s = 0 \<Longrightarrow> \<not> beam_open (gateway (unipz_start clu rams adr cpuId s))"
proof -
  assume z: "writePZUData s = 0"
  have f: "writePZUData (fold (\<lambda>k. own_wr (uz_shared k) 0) ks u) = writePZUData u" for ks u
    by (induction ks arbitrary: u) (simp_all add: own_wr_def)
  have w: "writePZUData (own_wr off v u) = writePZUData u" for off v u by (simp add: own_wr_def)
  have c: "tacit u (fwlib_clearDiag extern_clearDiag_uz (fwlib_init a b c d u))" for a b c d and u :: unipz
    by (rule uz_program.clear_keeps[OF uz_program.publish_keeps(6)[OF tacit_refl]])
  have "\<not> beam_open u \<Longrightarrow> \<not> beam_open (fwlib_clearDiag extern_clearDiag_uz (fwlib_init a b c d u))" for a b c d and u :: unipz
    using c[of u] by (auto simp: tacit_def)
  thus ?thesis
    unfolding unipz_start_def initSharedMem_uz_def gateway_def Let_def prod.case snd_conv by (simp add: beam_open_def w f z)
qed

text \<open>The history of an open request.\<close>

lemma open_history:
  assumes "unipz_reach c" "beam_open (gateway c)"
  shows "\<exists>c0 c1. unipz_reach c0 \<and> \<not> beam_open (gateway c0) \<and> unipz_iter c0 = Some c1 \<and> failed_start (gateway c1) \<and>
    beam_open (gateway c1) \<and> (\<lambda>x y. unipz_step x y \<and> beam_open (gateway y))\<^sup>*\<^sup>* c1 c"
  using assms
proof (induction rule: unipz_reach.induct)
  case (pass c c')
  have "withdrawn (gateway c) (gateway c')"
    using pass_withdraws pass.hyps(2) by (cases c) (simp add: gateway_def)
  hence "beam_open (gateway c) \<or> failed_start (gateway c')" using pass.prems by (simp add: withdrawn_def)
  thus ?case
  proof (cases "beam_open (gateway c)")
    case True
    have "unipz_step c c' \<and> beam_open (gateway c')" using unipz_step.pass[OF pass.hyps(2)] pass.prems by simp
    thus ?thesis using pass.IH[OF True] rtranclp.rtrancl_into_rtrancl[of "\<lambda>x y. unipz_step x y \<and> beam_open (gateway y)" _ c c'] by blast
  next
    case False
    thus ?thesis using pass \<open>beam_open (gateway c) \<or> failed_start (gateway c')\<close> by blast
  qed
next
  case (host req act pub s m)
  let ?c = "(req, act, pub, s)" and ?c' = "(req, act, pub, s\<lparr>shm := m\<rparr>)"
  have "beam_open (gateway ?c)" using host.prems by (simp add: gateway_def beam_open_def)
  moreover have "unipz_step ?c ?c' \<and> beam_open (gateway ?c')" using unipz_step.host host.prems by simp
  ultimately show ?case
    using host.IH rtranclp.rtrancl_into_rtrancl[of "\<lambda>x y. unipz_step x y \<and> beam_open (gateway y)" _ ?c ?c'] by blast
qed (simp add: start_closed)


end
