(* ===== verification/Unipz_Live.thy ===== *)
theory Unipz_Live
  imports Unipz_Beam Unipz_Queue
begin

text \<open>
  The gateway does not hang: when the clock runs and the FIFO of the event bus can be drained, every handler,
  and so every pass of the main loop in operation, returns, whatever UNIPZ, the network and the data
  master answer or fail to answer.
\<close>

section \<open>Requests to UNIPZ\<close>

definition alive :: "unipz \<Rightarrow> bool" where
  "alive s \<longleftrightarrow> clock_runs (wr_time s) \<and> fifo_drains (dev_rd s)"

lemma alive_env: "env s' = env s \<Longrightarrow> alive s \<Longrightarrow> alive s'"
  by (simp add: alive_def env_def)

lemma alive_calm: "calm s s' \<Longrightarrow> alive s \<Longrightarrow> alive s'"
  using alive_env env_calm by blast

definition ends :: "'a option \<Rightarrow> bool" where
  "ends m \<longleftrightarrow> m \<noteq> None"

lemma ends_Some [simp]: "ends (Some x)"
  by (simp add: ends_def)

lemma ends_bind [intro]: "ends m \<Longrightarrow> (\<And>x. m = Some x \<Longrightarrow> ends (f x)) \<Longrightarrow> ends (Option.bind m f)"
  by (cases m) (simp_all add: ends_def)

lemma time_read_pzu: "time_cnt (snd (read_pzu s)) = time_cnt s"
  by (simp add: read_pzu_def readFromPZU_def split_beta time_mil)

lemma pz_wait_at: "T \<le> wr_time s (time_cnt s + k) \<Longrightarrow> pz_wait T verdict s \<noteq> None"
proof (induction k arbitrary: s)
  case (Suc k)
  let ?s = "s\<lparr>time_cnt := Suc (time_cnt s)\<rparr>"
  obtain v t where r: "read_pzu ?s = (v, t)" by fastforce
  have "wr_time t = wr_time s" "time_cnt t = Suc (time_cnt s)"
    using fixed_fields(1)[OF fixed_read_pzu[of ?s]] time_read_pzu[of ?s] by (simp_all add: r)
  hence "pz_wait T verdict t \<noteq> None" using Suc.IH[of t] Suc.prems by simp
  thus ?case by (subst pz_wait.simps) (simp add: sys_time_def r split: option.split)
qed (subst pz_wait.simps, simp add: sys_time_def leD)

lemma pz_wait_ends: "alive s \<Longrightarrow> ends (pz_wait T verdict s)"
proof -
  assume "alive s"
  then obtain k where "T \<le> wr_time s (time_cnt s + k)" unfolding alive_def clock_runs_def by blast
  thus ?thesis unfolding ends_def by (rule pz_wait_at)
qed

lemma send_ends:
  "alive (snd (send_pzu f s)) = alive s" "alive (snd (sys_time s)) = alive s" "alive (snd (read_pzu s)) = alive s"
  using send_pzu_fields(1)[of f s] env_calm[OF calm_time(1)[of s]] env_calm[OF calm_time(3)[of s]]
  by (simp_all add: alive_def env_def)

lemma check_ends: "alive s \<Longrightarrow> ends (checkClearReqNotOk ms s)"
proof -
  assume a: "alive s"
  obtain now s0 where 0: "sys_time s = (now, s0)" by fastforce
  obtain v s1 where 1: "read_pzu s0 = (v, s1)" by fastforce
  obtain st2 s2 where 2: "send_pzu (\<lambda>_. put_bits Req_not_ok_Ack 1 1 0) s1 = (st2, s2)" by fastforce
  have "alive s2"
    using a send_ends(2)[of s] send_ends(3)[of s0] send_ends(1)[of "\<lambda>_. put_bits Req_not_ok_Ack 1 1 0" s1]
    unfolding 0 1 2 snd_conv by blast
  thus ?thesis using pz_wait_ends unfolding checkClearReqNotOk_def 0 1 2 prod.case
    by (auto split: option.split)
qed

lemma requestTK_ends: "alive s \<Longrightarrow> ends (requestTK ms va d s)"
proof -
  assume a: "alive s"
  obtain now s1 where 1: "sys_time s = (now, s1)" by fastforce
  obtain st2 s2 where 2: "send_pzu (\<lambda>_. tk_word va d) s1 = (st2, s2)" by fastforce
  have "alive s2" using a send_ends(2)[of s] send_ends(1)[of "\<lambda>_. tk_word va d" s1] unfolding 1 2 snd_conv by blast
  thus ?thesis using pz_wait_ends unfolding requestTK_def 1 2 prod.case by auto
qed

lemma requestBeam_ends: "alive s \<Longrightarrow> ends (requestBeam ms d s)"
proof -
  assume a: "alive s"
  let ?f = "put_bits ReqNoBeam 1 d \<circ> put_bits SIS_Request 1 1"
  obtain st1 s1 where 1: "send_pzu ?f s = (st1, s1)" by fastforce
  obtain now s2 where 2: "sys_time s1 = (now, s2)" by fastforce
  have "alive s2" using a send_ends(1)[of ?f s] send_ends(2)[of s1] unfolding 1 2 snd_conv by blast
  thus ?thesis using pz_wait_ends unfolding requestBeam_def 1 2 prod.case by auto
qed

lemma releaseBeam_ends: "alive s \<Longrightarrow> ends (releaseBeam ms s)"
proof -
  assume a: "alive s"
  let ?f = "put_bits ReqNoBeam 1 0 \<circ> put_bits SIS_Request 1 0"
  obtain st1 s1 where 1: "send_pzu ?f s = (st1, s1)" by fastforce
  obtain now s2 where 2: "sys_time s1 = (now, s2)" by fastforce
  have "alive s2" using a send_ends(1)[of ?f s] send_ends(2)[of s1] unfolding 1 2 snd_conv by blast
  thus ?thesis using pz_wait_ends unfolding releaseBeam_def 1 2 prod.case by auto
qed

section \<open>Handlers\<close>

lemma alive_fields:
  "alive (trans_bit k s) = alive s" "alive (set_cmd k f s) = alive s" "alive (put_latency d s) = alive s"
  "alive (snd (since d s)) = alive s" "alive (s\<lparr>dm_reads := n\<rparr>) = alive s" "alive (s\<lparr>dtBreq := d\<rparr>) = alive s"
  "alive (s\<lparr>virtAccRec := v\<rparr>) = alive s" "alive (s\<lparr>dtSync2 := d\<rparr>) = alive s" "alive (s\<lparr>dtBprep := d\<rparr>) = alive s" "alive (s\<lparr>dtStart := d\<rparr>) = alive s"
  "alive (s\<lparr>time_cnt := n\<rparr>) = alive s" "alive (s\<lparr>nLate := v\<rparr>) = alive s" "alive (snd (dmClearCmd k s)) = alive s"
  by (simp_all add: alive_def trans_bit_def set_cmd_def put_latency_def since_def dmClearCmd_def sys_time_def)

lemma read_ends: "alive s \<Longrightarrow> ends (dm_read a n s)"
  unfolding ends_def dm_read_def by (rule ebmReadN_ends) (simp add: alive_def)

lemma prep_ends: "alive s \<Longrightarrow> ends (dmPrepCmdCommon k prio e t s)"
  by (auto simp: dmPrepCmdCommon_def prep_block_def Let_def bind_eq_Some_conv read_ends
      intro!: ends_bind read_ends dest!: calm_dm_read intro: alive_calm)

lemma block_ends: "alive s \<Longrightarrow> ends (breq_block t s)"
  by (auto simp: breq_block_def Let_def intro!: ends_bind prep_ends dest!: calm_prep intro: alive_calm)

lemma stamp_ends: "alive s \<Longrightarrow> ends (breq_stamp s)"
proof -
  assume "alive s"
  hence "ends (fwlib_wait4ECAEvent us s)" for us unfolding ends_def by (intro wait_eca_ends) (simp add: alive_def)
  thus ?thesis by (auto simp: breq_stamp_def Let_def split_beta intro!: ends_bind)
qed

lemma wait_ends: "alive s \<Longrightarrow> ends (breq_wait dl d s)"
proof -
  have m: "ends (fwlib_wait4MILEvent us codes u)" if "alive u" for us codes and u :: unipz
    using that unfolding ends_def by (intro wait_mil_ends) (simp_all add: alive_def)
  have e: "alive u'" if "requestBeam ms d u = Some (st, u')" "alive u" for ms u st u'
    using alive_env[OF env_request[OF that(1)] that(2)] .
  have f: "alive u'" if "fwlib_wait4MILEvent us codes u = Some (st, x, u')" "alive u" for us codes u st x u'
    using alive_calm[OF calm_fixed[OF fixed_wait_mil[OF that(1)]] that(2)] .
  assume "alive s"
  thus ?thesis
    by (auto simp: breq_wait_def Let_def split_beta alive_fields intro!: ends_bind requestBeam_ends m stamp_ends
        dest!: e f)
qed

lemma end_ends: "alive s \<Longrightarrow> ends (breq_end st again s)"
proof -
  have "alive (snd (unprepareBeam u'))" if "releaseBeam ms u = Some (st, u')" "alive u" for ms u st u'
    using alive_calm[OF calm_trans[OF conjunct1[OF release_closes[OF that(1)]] calm_words(7)] that(2)] .
  moreover assume "alive s"
  ultimately show ?thesis
    by (auto simp: breq_end_def Let_def intro!: ends_bind releaseBeam_ends check_ends)
qed

lemma reply_ends: "alive s \<Longrightarrow> ends (breq_reply booster again st noCmd t s)"
proof -
  assume a: "alive s"
  have c: "calm u (breq_send booster st noCmd t u)" for u
    using calm_upd(7)[of u REQBEAM] calm_trans[OF calm_upd(10) calm_upd(8)] calm_trans
    unfolding breq_send_def Let_def by (auto intro: calm_trans)
  have "alive (snd (dmPrepThrStart REQBEAM t s))"
    by (rule alive_env[OF _ a]) (simp add: dmPrepThrStart_def Let_def)
  hence "alive (snd (sys_time (breq_send booster st noCmd t (snd (dmPrepThrStart REQBEAM t s)))))"
    using alive_calm[OF c] by (simp add: alive_fields)
  thus ?thesis unfolding breq_reply_def Let_def split_beta
    by (auto simp: alive_fields intro!: ends_bind end_ends)
qed

lemma run_ends: "alive s \<Longrightarrow> ends (breq_run booster again a s)"
proof -
  assume a: "alive s"
  let ?s1 = "snd (clearFifoEvtMil 0 (snd (enableFilterEvtMil 0 s)))"
  have "fixed ?s1 = fixed s" by (simp only: fixed_simps)
  hence 1: "alive ?s1" using alive_calm[OF calm_fixed] a by blast
  have w: "alive u'" if "breq_wait dl d u = Some (st, v, n, u')" "alive u" for dl d u st v n u'
    using alive_env[OF env_wait[OF that(1)] that(2)] .
  have t: "alive (snd (snd (snd (breq_time dl st v n u))))" if "alive u" for dl st v n u
    using alive_env[OF env_time that] by (metis prod.collapse)
  show ?thesis unfolding breq_run_def Let_def split_beta
    by (rule ends_bind, rule wait_ends) (auto simp: alive_fields 1 intro!: reply_ends t dest: w)
qed

lemma request_ends: "alive s \<Longrightarrow> ends (do_reqbeam booster a s)"
proof -
  assume a: "alive s"
  let ?s1 = "breq_begin booster a (put_latency (ea_deadline a) s)"
  obtain t2 s2 where 2: "breq_init a ?s1 = (t2, s2)" by fastforce
  have "env s2 = env s" using 2
    by (auto simp: breq_init_def breq_begin_def dmClearThr_def sys_time_def Let_def)
  hence i: "alive s2" using a alive_env by blast
  have "alive s3" if "breq_block t2 s2 = Some (st, again, s3)" for st again s3
    by (rule alive_calm[OF calm_block[OF that] i])
  thus ?thesis using i
    by (auto simp: do_reqbeam_def Let_def 2 intro!: ends_bind block_ends run_ends)
qed

lemma reqtk_ends: "alive s \<Longrightarrow> ends (do_reqtk a s)"
proof -
  assume l: "alive s"
  show ?thesis
  proof (cases "ea_late a")
    case False
    show ?thesis unfolding do_reqtk_def Let_def split_beta if_not_P[OF False]
    proof (rule ends_bind[OF requestTK_ends], goal_cases)
      case 1
      show ?case by (rule alive_calm[OF _ l]) (simp add: calm_simps)
    next
      case (2 x)
      hence "calm s (snd x)" using calm_requestTK by (cases x) (fastforce simp: calm_simps)
      thus ?case using alive_calm[OF _ l] by (auto intro!: ends_bind check_ends)
    qed
  qed (simp add: do_reqtk_def Let_def)
qed

lemma dispatch_ends: "alive s \<Longrightarrow> ends (uz_dispatch st tag a s)"
proof -
  assume a: "alive s"
  have "ends (do_prepbeam a s)" by (simp add: do_prepbeam_def Let_def split_beta)
  moreover have "ends (do_reltk st a s)"
  proof -
    have "alive (snd (releaseTK (snd (dmClearCmd REQTK u))))" if "alive u" for u
      using alive_calm[OF calm_words(5)] that alive_fields(13) by blast
    thus ?thesis using a
      by (auto simp: do_reltk_def Let_def alive_fields intro!: ends_bind check_ends)
  qed
  moreover have "ends (do_mbtrigger st a s)" "ends (do_ready2sis st a s)"
    by (simp_all add: do_mbtrigger_def do_ready2sis_def Let_def)
  ultimately show ?thesis by (simp add: uz_dispatch_def request_ends reqtk_ends a split_beta)
qed

lemma operation_ends: "alive s \<Longrightarrow> ends (doActionOperation_uz st s)"
proof -
  assume a: "alive s"
  have "ends (fwlib_wait4ECAEvent us s)" for us using a unfolding ends_def by (intro wait_eca_ends) (simp add: alive_def)
  moreover have "alive s1" if "fwlib_wait4ECAEvent us s = Some (tag, x, s1)" for us tag x s1
    by (rule alive_calm[OF calm_fixed[OF fixed_wait_eca[OF that]] a])
  ultimately show ?thesis
    by (auto simp: doActionOperation_uz_def Let_def split_beta alive_fields intro!: ends_bind dispatch_ends)
qed

section \<open>A pass of the main loop\<close>

lemma fixed_host_cmd: "alive s \<Longrightarrow> alive (snd (snd (fwlib_cmdHandler extern_clearDiag_uz req s)))"
  by (simp add: fwlib_cmdHandler_def fwlib_clearDiag_def extern_clearDiag_uz_def alive_def sh_wr_def Let_def split_beta)

lemma host_ends: "alive s \<Longrightarrow> ends (cmdHandler_uz code s)"
  by (auto simp: cmdHandler_uz_def Let_def intro!: ends_bind releaseBeam_ends)

text \<open>From OPREADY only the exit action can be called.\<close>

lemma change_ends:
  assumes "alive s"
  shows "\<exists>act req' st' s'. fwlib_changeState uz_hooks COMMON_STATE_OPREADY req st s = Some (act, req', st', s') \<and>
    alive s' \<and> (act = COMMON_STATE_FATAL \<longrightarrow> req = COMMON_STATE_FATAL)"
proof -
  have f: "fixed (snd (disableFilterEvtMil 0 s)) = fixed s" by (rule fixed_simps)
  obtain st1 s1 where x: "extern_exitActionOperation_uz s = (st1, s1)" by fastforce
  have "env s1 = env s" using x env_fixed[OF f]
    by (auto simp: extern_exitActionOperation_uz_def split: prod.splits if_splits)
  hence "alive s1" using assms alive_env by blast
  thus ?thesis using assms x
    by (auto simp: fwlib_changeState_def next_state_def uz_hooks_def common_states Let_def)
qed

text \<open>
  C15. In operation a pass of the main loop always returns, with whatever the data master, UNIPZ, the network and
  the host do or do not do, as long as the clock runs and the event FIFO can be drained; the only exception is
  a request for the state FATAL, in which the firmware stops on purpose.
\<close>

theorem operation_pass_returns:
  assumes "clock_runs (wr_time s)" "fifo_drains (dev_rd s)" "req \<noteq> COMMON_STATE_FATAL"
  shows "\<exists>c'. unipz_iter (req, COMMON_STATE_OPREADY, pub, s) = Some c'"
proof -
  have a: "alive s" using assms by (simp add: alive_def)
  obtain req1 code s1 where 1: "fwlib_cmdHandler extern_clearDiag_uz req s = (req1, code, s1)" by (metis prod_cases3)
  have req1: "req1 \<noteq> COMMON_STATE_FATAL"
    using 1 assms(3) by (auto simp: fwlib_cmdHandler_def Let_def common_states split: if_splits)
  have a1: "alive s1" using fixed_host_cmd[OF a, of req] by (simp add: 1)
  obtain s2 where 2: "cmdHandler_uz code s1 = Some s2" using host_ends[OF a1, of code] by (auto simp: ends_def)
  have a2: "alive s2" by (rule alive_calm[OF calm_host[OF 2] a1])
  obtain act req3 st3 s3 where 3: "fwlib_changeState uz_hooks COMMON_STATE_OPREADY req1 COMMON_STATUS_OK s2 = Some (act, req3, st3, s3)"
    and a3: "alive s3" and act: "act \<noteq> COMMON_STATE_FATAL" using change_ends[OF a2, of req1] req1 by blast
  have "ends (uz_act req3 act st3 s3)"
    using operation_ends[OF a3, of st3] act
    by (auto simp: uz_act_def fwlib_doActionState_def split_beta Let_def intro!: ends_bind)
  then obtain r where 4: "uz_act req3 act st3 s3 = Some r" by (auto simp: ends_def)
  show ?thesis by (simp add: unipz_iter_def 1 2 3 4 Let_def split_beta)
qed

text \<open>A clock that advances by one with every look, and an event bus without events; everything else as in the example of
  the gateway.\<close>

definition uz_running :: unipz where
  "uz_running = gw_example\<lparr>wr_time := of_nat, dev_rd := (\<lambda>r n. 0)\<rparr>"

lemma running: "clock_runs (wr_time uz_running)" "fifo_drains (dev_rd uz_running)"
proof -
  have "T \<le> (of_nat (n + (unat T + (2 ^ 64 * n - n))) :: u64)" for T n
  proof -
    have "n \<le> 2 ^ 64 * n" by simp
    hence "n + (unat T + (2 ^ 64 * n - n)) = unat T + 2 ^ 64 * n" by linarith
    moreover have "(2 ^ 64 :: u64) = 0" by (subst exp_eq_zero_iff) simp
    hence "(of_nat (2 ^ 64 * n) :: u64) = 0" by (simp only: of_nat_mult of_nat_power of_nat_numeral mult_zero_left)
    ultimately show ?thesis by (simp only: of_nat_add) simp
  qed
  hence "\<exists>k. T \<le> (of_nat (n + k) :: u64)" for T n by blast
  thus "clock_runs (wr_time uz_running)" unfolding clock_runs_def uz_running_def by (simp del: of_nat_add)
  show "fifo_drains (dev_rd uz_running)" by (simp add: fifo_drains_def uz_running_def)
qed

theorem operation_pass_returns_witness:
  "\<exists>c'. unipz_iter (COMMON_STATE_UNKNOWN, COMMON_STATE_OPREADY, COMMON_STATE_OPREADY, uz_running) = Some c'"
  by (rule operation_pass_returns[OF running]) (simp add: common_states)

section \<open>The return that leaves a request open\<close>

lemma keep_fields:
  assumes "fixed s' = fixed (s :: unipz)"
  shows "dmThrs s' = dmThrs s" "writePZUData s' = writePZUData s"
  using fixed_fields[OF assms] by (simp_all add: thr_data_def)

lemma request_opens:
  "requestBeam ms d s = Some (st, s') \<Longrightarrow> bit (writePZUData s') SIS_Request \<and> dmThrs s' = dmThrs s"
proof -
  assume a: "requestBeam ms d s = Some (st, s')"
  let ?f = "put_bits ReqNoBeam 1 d \<circ> put_bits SIS_Request 1 1"
  obtain st1 s1 where 1: "send_pzu ?f s = (st1, s1)" by fastforce
  obtain now s2 where 2: "sys_time s1 = (now, s2)" by fastforce
  have o: "bit (writePZUData s1) SIS_Request" "dmThrs s1 = dmThrs s"
    using send_pzu_fields(2,3)[of ?f s] unfolding 1 snd_conv by (simp_all add: thr_data_def bit_put_bits pz_bits)
  have "fixed s2 = fixed s1" using fixed_basic(1)[of s1] unfolding 2 snd_conv .
  note k = keep_fields[OF this]
  have "s' = s1 \<or> (\<exists>T verdict r. pz_wait T verdict s2 = Some (r, s'))"
    using a unfolding requestBeam_def 1 2 prod.case by (fastforce split: option.splits if_splits bind_splits)
  moreover have "dmThrs t = dmThrs s2 \<and> writePZUData t = writePZUData s2" if "pz_wait T verdict s2 = Some (r, t)" for T verdict r t
    using keep_fields[OF fixed_pz_wait[OF that, unfolded snd_conv]] by simp
  ultimately show ?thesis using o k by metis
qed

lemma wait_keeps:
  "breq_wait dl d s = Some (st, v, n, s') \<Longrightarrow> bit (writePZUData s') SIS_Request \<and> dmThrs s' = dmThrs s"
proof -
  have m: "writePZUData u' = writePZUData u \<and> dmThrs u' = dmThrs u"
    if "fwlib_wait4MILEvent us codes u = Some (st, e, u')" for us codes st e and u u' :: unipz
    using keep_fields[OF fixed_wait_mil[OF that]] by simp
  have e: "writePZUData u' = writePZUData u \<and> dmThrs u' = dmThrs u"
    if "fwlib_wait4ECAEvent us u = Some (tag, a, u')" for us tag a and u u' :: unipz
    using keep_fields[OF fixed_wait_eca[OF that]] by simp
  have t: "writePZUData u' = writePZUData u \<and> dmThrs u' = dmThrs u"
    if "breq_stamp u = Some (st, v, n, u')" for u st v n u'
    using that by (auto simp: breq_stamp_def Let_def bind_eq_Some_conv split_beta since_def sys_time_def split: if_splits dest!: e)
  assume w: "breq_wait dl d s = Some (st, v, n, s')"
  then obtain st1 s1 where 1: "requestBeam (uniTimeout s) d s = Some (st1, s1)"
    by (auto simp: breq_wait_def bind_eq_Some_conv)
  obtain dt s2 where 2: "since dl s1 = (dt, s2)" by fastforce
  have s2: "writePZUData s2 = writePZUData s1" "dmThrs s2 = dmThrs s1" using 2 by (auto simp: since_def sys_time_def)
  have "(\<exists>x. s' = s2\<lparr>dtBreq := x\<rparr>) \<or> (\<exists>us codes mil e s4 x y. fwlib_wait4MILEvent us codes (s2\<lparr>dtBreq := x\<rparr>) = Some (mil, e, s4) \<and>
      (s' = s4\<lparr>virtAccRec := y\<rparr> \<or> breq_stamp (s4\<lparr>virtAccRec := y\<rparr>) = Some (st, v, n, s')))"
    using w by (auto simp: breq_wait_def Let_def 1 2 bind_eq_Some_conv split: if_splits) blast+
  hence "writePZUData s' = writePZUData s2 \<and> dmThrs s' = dmThrs s2"
    by (elim disjE exE conjE) (auto dest!: m t)
  thus ?thesis using request_opens[OF 1] s2 by simp
qed

lemma time_keeps:
  "breq_time dl st v n s = (t, st', n', s') \<Longrightarrow> writePZUData s' = writePZUData s \<and> dmThrs s' = dmThrs s"
proof -
  have l: "fixed (fwlib_milPulseLemo l u) = fixed u" for l and u :: unipz by (rule fixed_simps)
  assume "breq_time dl st v n s = (t, st', n', s')"
  thus ?thesis by (auto simp: breq_time_def Let_def split_beta sys_time_def keep_fields[OF l] split: if_splits)
qed

text \<open>
  A request for beam without wait whose parameter names no thread (its upper half, the address, is zero) requests beam
  from UNIPZ, waits for it, and then returns at once because the address does not pass the check: the
  request at UNIPZ is not withdrawn, nor is the preparation.
\<close>

theorem no_address_leaves_request:
  assumes "clock_runs (wr_time s)" "fifo_drains (dev_rd s)"
    and a: "\<not> ea_late a" "\<not> ea_delayed a" "hiW (ea_param a) = 0"
  shows "\<exists>s'. do_reqbeam True a s = Some (True, DMUNIPZ_STATUS_INVALIDTHRADDR, s') \<and> bit (writePZUData s') SIS_Request"
proof -
  let ?s1 = "breq_begin True a (put_latency (ea_deadline a) s)"
  obtain t2 s2 where 2: "breq_init a ?s1 = (t2, s2)" by fastforce
  have d2: "th_dynpar (dmThrs s2 REQBEAM) = 0"
    using 2 a(3) by (auto simp: breq_init_def sys_time_def set_thr_def Let_def)
  have "env s2 = env s" using 2 by (auto simp: breq_init_def breq_begin_def dmClearThr_def sys_time_def Let_def)
  moreover have "alive s" using assms(1,2) by (simp add: alive_def)
  ultimately have "ends (breq_run True False a s2)" using alive_env run_ends by blast
  then obtain b st s' where r: "breq_run True False a s2 = Some (b, st, s')" by (auto simp: ends_def)
  let ?u1 = "snd (clearFifoEvtMil 0 (snd (enableFilterEvtMil 0 s2)))"
  obtain dt u2 where u2: "since (ea_deadline a) ?u1 = (dt, u2)" by fastforce
  have "fixed ?u1 = fixed s2" by (simp only: fixed_simps)
  from keep_fields(1)[OF this] have t2: "dmThrs u2 = dmThrs s2" using u2 by (auto simp: since_def sys_time_def)
  obtain st4 v n s4 where w: "breq_wait (ea_deadline a) (if ea_id a AND 0x10 \<noteq> 0 then 1 else 0)
      (trans_bit DMUNIPZ_TRANS_REQBEAM (u2\<lparr>dtBprep := dt\<rparr>)) = Some (st4, v, n, s4)"
    using r by (auto simp: breq_run_def Let_def u2 bind_eq_Some_conv)
  obtain t5 st5 n5 s5 where 5: "breq_time (ea_deadline a) st4 v n s4 = (t5, st5, n5, s5)"
    by (cases "breq_time (ea_deadline a) st4 v n s4")
  have reply: "breq_reply True False st5 n5 t5 s5 = Some (b, st, s')"
    using r unfolding breq_run_def Let_def u2 prod.case w bind.bind_lunit 5 .
  have "bit (writePZUData s5) SIS_Request" "th_dynpar (dmThrs s5 REQBEAM) = 0"
    using wait_keeps[OF w] time_keeps[OF 5] t2 d2 by (simp_all add: trans_bit_def)
  hence "b" "st = DMUNIPZ_STATUS_INVALIDTHRADDR" "bit (writePZUData s') SIS_Request"
    using reply by (auto simp: breq_reply_def dmPrepThrStart_def dmCheckThr_def set_thr_def Let_def common_status uz_status
        split: if_splits)
  thus ?thesis using r a(1,2) by (simp add: do_reqbeam_def Let_def 2)
qed

theorem no_address_leaves_request_witness:
  "\<exists>s'. do_reqbeam True (no_action\<lparr>ea_tag := DMUNIPZ_ECADO_REQBEAMNW\<rparr>) uz_running =
     Some (True, DMUNIPZ_STATUS_INVALIDTHRADDR, s') \<and> bit (writePZUData s') SIS_Request"
  by (rule no_address_leaves_request[OF running]) (simp_all add: no_action_def hiW_def)

text \<open>A gateway that starts with the data of a thread start that passes the check: its first pass leads to S0 and
  leaves no request.\<close>

definition uz_thread :: unipz where
  "uz_thread = uz_running\<lparr>dmThrs := (\<lambda>k. \<lparr>th_dynpar = 0x02002000, th_cpuIdx = 0, th_thrIdx = 0, th_TSAddr = 0x02000120,
     th_TSData = [0, 0], th_StartAddr = 0x02000144, th_StartData = 1\<rparr>)\<rparr>"

lemma start_thrs: "dmThrs (gateway (unipz_start clu rams adr cpuId s)) = dmThrs s"
proof -
  have f: "dmThrs (fold (\<lambda>k. own_wr (uz_shared k) 0) ks u) = dmThrs u" for ks u
    by (induction ks arbitrary: u) (simp_all add: own_wr_def)
  have w: "dmThrs (own_wr off v u) = dmThrs u" for off v u by (simp add: own_wr_def)
  have "tacit u (fwlib_clearDiag extern_clearDiag_uz (fwlib_init a b c d u))" for a b c d and u :: unipz
    by (rule uz_program.clear_keeps[OF uz_program.publish_keeps(6)[OF tacit_refl]])
  hence d: "dmThrs (fwlib_clearDiag extern_clearDiag_uz (fwlib_init a b c d u)) = dmThrs u" for a b c d and u :: unipz
    by (simp add: tacit_def thr_data_def)
  show ?thesis
    unfolding unipz_start_def initSharedMem_uz_def gateway_def Let_def prod.case snd_conv by (simp add: d w f)
qed

lemma first_pass:
  assumes "shm s COMMON_SHARED_CMD = 0"
  shows "\<exists>c'. unipz_iter (COMMON_STATE_S0, COMMON_STATE_UNKNOWN, pub, s) = Some c' \<and> tacit s (gateway c')"
proof -
  have a: "COMMON_STATE_S0 \<noteq> COMMON_STATE_OPREADY" "COMMON_STATE_S0 \<noteq> COMMON_STATE_FATAL" by (simp_all add: common_states)
  have 1: "fwlib_cmdHandler extern_clearDiag_uz COMMON_STATE_S0 s = (COMMON_STATE_S0, 0, s)"
    by (simp add: fwlib_cmdHandler_def assms)
  have 2: "cmdHandler_uz 0 s = Some s" by (simp add: cmdHandler_uz_def DMUNIPZ_CMD_RELEASETK_def DMUNIPZ_CMD_RELEASEBEAM_def
        DMUNIPZ_CMD_DEBUGON_def DMUNIPZ_CMD_DEBUGOFF_def)
  have 3: "fwlib_changeState uz_hooks COMMON_STATE_UNKNOWN COMMON_STATE_S0 COMMON_STATUS_OK s =
      Some (COMMON_STATE_S0, COMMON_STATE_UNKNOWN, COMMON_STATUS_OK, s)"
    by (simp add: fwlib_changeState_def next_state_def common_states Let_def)
  obtain req4 st4 s4 where 4: "uz_act COMMON_STATE_UNKNOWN COMMON_STATE_S0 COMMON_STATUS_OK s = Some (req4, st4, s4)"
    using a by (simp add: uz_act_def fwlib_doActionState_def split_beta Let_def)
  hence "tacit s s4" using a uz_program.do_keeps[OF _ tacit_refl] by (simp add: uz_act_def)
  thus ?thesis using pass_tacit[OF 1 2 3 4, of pub] by (auto simp: gateway_def)
qed


end
