(* ===== verification/B2b_State.thy ===== *)
theory B2b_State
  imports Fw_Float
begin

text \<open>
  Data of the central unit of the bunch-to-bucket transfer (modules/b2b/include/b2b.h and the globals of
  modules/b2b/fw/b2b-cbu.c): its constants, the settings submitted for each sequence, and the global
  state, which extends the state of the common library.
\<close>

section \<open>Constants (b2b.h)\<close>

definition B2BCBU_FW_VERSION :: u32 where "B2BCBU_FW_VERSION = 0x000816"
definition B2B_STATUS_LATEMESSAGE :: u32 where "B2B_STATUS_LATEMESSAGE = 20"
definition B2B_STATUS_BADSETTING :: u32 where "B2B_STATUS_BADSETTING = 22"

definition B2B_ECADO_B2B_PMEXT :: u32 where "B2B_ECADO_B2B_PMEXT = 0x800"
definition B2B_ECADO_B2B_PMINJ :: u32 where "B2B_ECADO_B2B_PMINJ = 0x801"
definition B2B_ECADO_B2B_PREXT :: u32 where "B2B_ECADO_B2B_PREXT = 0x802"
definition B2B_ECADO_B2B_PRINJ :: u32 where "B2B_ECADO_B2B_PRINJ = 0x803"
definition B2B_ECADO_B2B_TRIGGEREXT :: u32 where "B2B_ECADO_B2B_TRIGGEREXT = 0x804"
definition B2B_ECADO_B2B_TRIGGERINJ :: u32 where "B2B_ECADO_B2B_TRIGGERINJ = 0x805"
definition B2B_ECADO_B2B_PSHIFTEXT :: u32 where "B2B_ECADO_B2B_PSHIFTEXT = 0x80a"
definition B2B_ECADO_B2B_PSHIFTINJ :: u32 where "B2B_ECADO_B2B_PSHIFTINJ = 0x80b"
definition B2B_ECADO_B2B_START :: u32 where "B2B_ECADO_B2B_START = 0x81f"

lemmas b2b_ecado = B2B_ECADO_B2B_PMEXT_def B2B_ECADO_B2B_PMINJ_def B2B_ECADO_B2B_PREXT_def
  B2B_ECADO_B2B_PRINJ_def B2B_ECADO_B2B_TRIGGEREXT_def B2B_ECADO_B2B_TRIGGERINJ_def
  B2B_ECADO_B2B_PSHIFTEXT_def B2B_ECADO_B2B_PSHIFTINJ_def B2B_ECADO_B2B_START_def

definition B2B_CMD_CONFSUBMIT :: u32 where "B2B_CMD_CONFSUBMIT = 11"
definition B2B_CMD_CONFCLEAR :: u32 where "B2B_CMD_CONFCLEAR = 12"

definition B2B_ERRFLAG_PMEXT :: u32 where "B2B_ERRFLAG_PMEXT = 0x1"
definition B2B_ERRFLAG_PMINJ :: u32 where "B2B_ERRFLAG_PMINJ = 0x4"
definition B2B_ERRFLAG_CBU :: u32 where "B2B_ERRFLAG_CBU = 0x10"

definition B2B_MODE_OFF :: u32 where "B2B_MODE_OFF = 0"
definition B2B_MODE_BSE :: u32 where "B2B_MODE_BSE = 1"
definition B2B_MODE_B2E :: u32 where "B2B_MODE_B2E = 2"
definition B2B_MODE_B2C :: u32 where "B2B_MODE_B2C = 3"
definition B2B_MODE_B2BFBEAT :: u32 where "B2B_MODE_B2BFBEAT = 4"
definition B2B_MODE_B2EPSHIFT :: u32 where "B2B_MODE_B2EPSHIFT = 5"
definition B2B_MODE_B2BPSHIFTE :: u32 where "B2B_MODE_B2BPSHIFTE = 6"
definition B2B_MODE_B2BPSHIFTI :: u32 where "B2B_MODE_B2BPSHIFTI = 7"

lemmas b2b_mode = B2B_MODE_OFF_def B2B_MODE_BSE_def B2B_MODE_B2E_def B2B_MODE_B2C_def
  B2B_MODE_B2BFBEAT_def B2B_MODE_B2EPSHIFT_def B2B_MODE_B2BPSHIFTE_def B2B_MODE_B2BPSHIFTI_def

definition B2B_FLAG_BEAMIN :: u32 where "B2B_FLAG_BEAMIN = 0x8"

definition B2B_MFSM_S0 :: u32 where "B2B_MFSM_S0 = 0x1"
definition B2B_MFSM_EXT_PMEAS_S :: u32 where "B2B_MFSM_EXT_PMEAS_S = 0x2"
definition B2B_MFSM_EXT_PMEAS_R :: u32 where "B2B_MFSM_EXT_PMEAS_R = 0x4"
definition B2B_MFSM_EXT_TKICK_C :: u32 where "B2B_MFSM_EXT_TKICK_C = 0x8"
definition B2B_MFSM_EXT_TNEXTRF_C :: u32 where "B2B_MFSM_EXT_TNEXTRF_C = 0x10"
definition B2B_MFSM_EXT_TFBEAT_C :: u32 where "B2B_MFSM_EXT_TFBEAT_C = 0x20"
definition B2B_MFSM_EXT_TRIG :: u32 where "B2B_MFSM_EXT_TRIG = 0x40"
definition B2B_MFSM_INJ_PMEAS_S :: u32 where "B2B_MFSM_INJ_PMEAS_S = 0x80"
definition B2B_MFSM_ALL_PMEAS_R :: u32 where "B2B_MFSM_ALL_PMEAS_R = 0x100"
definition B2B_MFSM_INJ_TRIG :: u32 where "B2B_MFSM_INJ_TRIG = 0x200"
definition B2B_MFSM_EXT_PSHIFT_S :: u32 where "B2B_MFSM_EXT_PSHIFT_S = 0x400"
definition B2B_MFSM_INJ_PSHIFT_S :: u32 where "B2B_MFSM_INJ_PSHIFT_S = 0x800"
definition B2B_MFSM_EXT_PSHIFT_C :: u32 where "B2B_MFSM_EXT_PSHIFT_C = 0x1000"
definition B2B_MFSM_INJ_PSHIFT_C :: u32 where "B2B_MFSM_INJ_PSHIFT_C = 0x2000"
definition B2B_MFSM_NOTHING :: u32 where "B2B_MFSM_NOTHING = 0x100000"

lemmas b2b_mfsm = B2B_MFSM_S0_def B2B_MFSM_EXT_PMEAS_S_def B2B_MFSM_EXT_PMEAS_R_def B2B_MFSM_EXT_TKICK_C_def
  B2B_MFSM_EXT_TNEXTRF_C_def B2B_MFSM_EXT_TFBEAT_C_def B2B_MFSM_EXT_TRIG_def B2B_MFSM_INJ_PMEAS_S_def
  B2B_MFSM_ALL_PMEAS_R_def B2B_MFSM_INJ_TRIG_def B2B_MFSM_EXT_PSHIFT_S_def B2B_MFSM_INJ_PSHIFT_S_def
  B2B_MFSM_EXT_PSHIFT_C_def B2B_MFSM_INJ_PSHIFT_C_def B2B_MFSM_NOTHING_def

definition GID_INVALID :: u32 where "GID_INVALID = 0x0"
definition SIS18_RING :: u32 where "SIS18_RING = 0x12c"
definition ESR_RING :: u32 where "ESR_RING = 0x154"
definition CRYRING_RING :: u32 where "CRYRING_RING = 0x0d2"
definition SIS100_RING :: u32 where "SIS100_RING = 0x136"
definition SIS18_B2B_EXTRACT :: u32 where "SIS18_B2B_EXTRACT = 0x3a0"
definition SIS18_B2B_ESR :: u32 where "SIS18_B2B_ESR = 0x3a1"
definition SIS18_B2B_SIS100 :: u32 where "SIS18_B2B_SIS100 = 0x3a2"
definition ESR_B2B_EXTRACT :: u32 where "ESR_B2B_EXTRACT = 0x3a5"
definition ESR_B2B_CRYRING :: u32 where "ESR_B2B_CRYRING = 0x3a6"
definition CRYRING_B2B_EXTRACT :: u32 where "CRYRING_B2B_EXTRACT = 0x3aa"
definition SIS100_B2B_EXTRACT :: u32 where "SIS100_B2B_EXTRACT = 0x3b0"

lemmas b2b_gid = GID_INVALID_def SIS18_RING_def ESR_RING_def CRYRING_RING_def SIS100_RING_def
  SIS18_B2B_EXTRACT_def SIS18_B2B_ESR_def SIS18_B2B_SIS100_def ESR_B2B_EXTRACT_def ESR_B2B_CRYRING_def
  CRYRING_B2B_EXTRACT_def SIS100_B2B_EXTRACT_def

definition B2B_TFLATTOP :: u64 where "B2B_TFLATTOP = 16000000"
definition B2B_PMOFFSET :: u64 where "B2B_PMOFFSET = 500000"
definition B2B_KICKOFFSETMIN :: u64 where "B2B_KICKOFFSETMIN = 2000000"
definition B2B_KICKOFFSETMAX :: u64 where "B2B_KICKOFFSETMAX = B2B_TFLATTOP"
definition B2B_PHASESHIFTTIME :: u64 where "B2B_PHASESHIFTTIME = 10000000"
definition B2B_TDIAGOBS :: u64 where "B2B_TDIAGOBS = B2B_TFLATTOP - 100000"
definition B2B_NSID :: nat where "B2B_NSID = 16"
definition EBM_NOREPLY :: u32 where "EBM_NOREPLY = push_bit 28 1"

lemmas b2b_times = B2B_TFLATTOP_def B2B_PMOFFSET_def B2B_KICKOFFSETMIN_def B2B_KICKOFFSETMAX_def
  B2B_PHASESHIFTTIME_def B2B_TDIAGOBS_def

text \<open>Offsets of the shared memory: 40 words after the common part, in the order of the header.\<close>

definition b2b_shared :: "nat \<Rightarrow> u32" where
  "b2b_shared k = of_nat COMMON_SHARED_END + 4 * of_nat k"

definition B2B_SHARED_SET_SIDEEXT :: u32 where "B2B_SHARED_SET_SIDEEXT = b2b_shared 1"
definition B2B_SHARED_SET_GIDEXT :: u32 where "B2B_SHARED_SET_GIDEXT = b2b_shared 2"
definition B2B_SHARED_SET_MODE :: u32 where "B2B_SHARED_SET_MODE = b2b_shared 3"
definition B2B_SHARED_SET_TH1EXTHI :: u32 where "B2B_SHARED_SET_TH1EXTHI = b2b_shared 4"
definition B2B_SHARED_SET_TH1EXTLO :: u32 where "B2B_SHARED_SET_TH1EXTLO = b2b_shared 5"
definition B2B_SHARED_SET_NHEXT :: u32 where "B2B_SHARED_SET_NHEXT = b2b_shared 6"
definition B2B_SHARED_SET_CTRIGEXT :: u32 where "B2B_SHARED_SET_CTRIGEXT = b2b_shared 7"
definition B2B_SHARED_SET_NBUCKEXT :: u32 where "B2B_SHARED_SET_NBUCKEXT = b2b_shared 8"
definition B2B_SHARED_SET_CPHASE :: u32 where "B2B_SHARED_SET_CPHASE = b2b_shared 9"
definition B2B_SHARED_SET_FFINTUNE :: u32 where "B2B_SHARED_SET_FFINTUNE = b2b_shared 10"
definition B2B_SHARED_SET_FMBTUNE :: u32 where "B2B_SHARED_SET_FMBTUNE = b2b_shared 11"
definition B2B_SHARED_SET_SIDEINJ :: u32 where "B2B_SHARED_SET_SIDEINJ = b2b_shared 12"
definition B2B_SHARED_SET_GIDINJ :: u32 where "B2B_SHARED_SET_GIDINJ = b2b_shared 13"
definition B2B_SHARED_SET_LSIDINJ :: u32 where "B2B_SHARED_SET_LSIDINJ = b2b_shared 14"
definition B2B_SHARED_SET_LBPIDINJ :: u32 where "B2B_SHARED_SET_LBPIDINJ = b2b_shared 15"
definition B2B_SHARED_SET_LPARAMINJHI :: u32 where "B2B_SHARED_SET_LPARAMINJHI = b2b_shared 16"
definition B2B_SHARED_SET_LPARAMINJLO :: u32 where "B2B_SHARED_SET_LPARAMINJLO = b2b_shared 17"
definition B2B_SHARED_SET_TH1INJHI :: u32 where "B2B_SHARED_SET_TH1INJHI = b2b_shared 18"
definition B2B_SHARED_SET_TH1INJLO :: u32 where "B2B_SHARED_SET_TH1INJLO = b2b_shared 19"
definition B2B_SHARED_SET_NHINJ :: u32 where "B2B_SHARED_SET_NHINJ = b2b_shared 20"
definition B2B_SHARED_SET_CTRIGINJ :: u32 where "B2B_SHARED_SET_CTRIGINJ = b2b_shared 21"
definition B2B_SHARED_SET_NBUCKINJ :: u32 where "B2B_SHARED_SET_NBUCKINJ = b2b_shared 22"
definition B2B_SHARED_GET_SID :: u32 where "B2B_SHARED_GET_SID = b2b_shared 23"
definition B2B_SHARED_GET_GID :: u32 where "B2B_SHARED_GET_GID = b2b_shared 24"
definition B2B_SHARED_GET_MODE :: u32 where "B2B_SHARED_GET_MODE = b2b_shared 25"
definition B2B_SHARED_GET_TH1EXTHI :: u32 where "B2B_SHARED_GET_TH1EXTHI = b2b_shared 26"
definition B2B_SHARED_GET_TH1EXTLO :: u32 where "B2B_SHARED_GET_TH1EXTLO = b2b_shared 27"
definition B2B_SHARED_GET_NHEXT :: u32 where "B2B_SHARED_GET_NHEXT = b2b_shared 28"
definition B2B_SHARED_GET_TH1INJHI :: u32 where "B2B_SHARED_GET_TH1INJHI = b2b_shared 29"
definition B2B_SHARED_GET_TH1INJLO :: u32 where "B2B_SHARED_GET_TH1INJLO = b2b_shared 30"
definition B2B_SHARED_GET_NHINJ :: u32 where "B2B_SHARED_GET_NHINJ = b2b_shared 31"
definition B2B_SHARED_GET_CPHASE :: u32 where "B2B_SHARED_GET_CPHASE = b2b_shared 32"
definition B2B_SHARED_GET_CTRIGEXT :: u32 where "B2B_SHARED_GET_CTRIGEXT = b2b_shared 33"
definition B2B_SHARED_GET_CTRIGINJ :: u32 where "B2B_SHARED_GET_CTRIGINJ = b2b_shared 34"
definition B2B_SHARED_GET_TBEATHI :: u32 where "B2B_SHARED_GET_TBEATHI = b2b_shared 35"
definition B2B_SHARED_GET_TBEATLO :: u32 where "B2B_SHARED_GET_TBEATLO = b2b_shared 36"
definition B2B_SHARED_END :: u32 where "B2B_SHARED_END = b2b_shared 41"

section \<open>Settings of a sequence\<close>

text \<open>One entry of the arrays \<open>set...\<close>; \<open>float\<close> values are bit patterns.\<close>

record b2b_set =
  setFlagValid :: u32
  setGid :: u32
  setMode :: u32
  setTH1Ext_as :: u64
  setNHExt :: u32
  setTH1Inj_as :: u64
  setNHInj :: u32
  setLSidInj :: u32
  setLBpidInj :: u32
  setLParamInj :: u64
  setCPhase :: u32
  setCTrigExt :: u32
  setCTrigInj :: u32
  setNBuckExt :: u32
  setNBuckInj :: u32
  setFFinTune :: u32
  setFMBTune :: u32

definition no_set :: b2b_set where
  "no_set = \<lparr>setFlagValid = 0, setGid = 0, setMode = 0, setTH1Ext_as = 0, setNHExt = 0, setTH1Inj_as = 0,
     setNHInj = 0, setLSidInj = 0, setLBpidInj = 0, setLParamInj = 0, setCPhase = 0, setCTrigExt = 0,
     setCTrigInj = 0, setNBuckExt = 0, setNBuckInj = 0, setFFinTune = 0, setFMBTune = 0\<rparr>"

section \<open>The global state\<close>

text \<open>Counters and extremes of the diagnostics.\<close>

record b2b_stat =
  nLate :: u32
  nEarly :: u32
  nConflict :: u32
  nDelayed :: u32
  nSlow :: u32
  offsSlow :: u32
  offsSlowMax :: u32
  offsSlowMin :: u32
  comLatency :: u32
  comLatencyMax :: u32
  comLatencyMin :: u32
  offsDone :: u32
  offsDoneMax :: u32
  offsDoneMin :: u32

text \<open>The local variables of \<open>doActionOperation\<close> that are set in one place and read in another.\<close>

record b2b_loc =
  tTrig :: b2bt
  cTrigExt_us :: u16
  cTrigInj_us :: u16
  cPhase_us :: u16

text \<open>\<open>stack\<close> is what these locals hold before they are set, \<open>undef_u64\<close>, \<open>undef_i32\<close> and \<open>undef_u32\<close> what
  the conversions give that C leaves undefined.  \<open>beyond_TBeat\<close> are the eight bytes behind \<open>TBeat_as\<close>, a cell
  of their own here: which variable lies there is up to the linker.  \<open>sets\<close> are the arrays of settings.\<close>

record b2b = fw +
  SHARED_OFFS :: u32
  stack :: b2b_loc
  undef_u64 :: "u32 \<Rightarrow> u64"
  undef_i32 :: "u64 \<Rightarrow> u32"
  undef_u32 :: "u32 \<Rightarrow> u32"
  sets :: "nat \<Rightarrow> b2b_set"
  b_gid :: u32
  b_sid :: u32
  b_mode :: u32
  TH1Ext_as :: u64
  nHExt :: u32
  TH1Inj_as :: u64
  nHInj :: u32
  TBeat_as :: u64
  beyond_TBeat :: u64
  cPhase_t :: b2bt
  cTrigExt_t :: b2bt
  cTrigInj_t :: b2bt
  nBucketExt :: u32
  nBucketInj :: u32
  TPhaseShift :: u64
  TPhaseShiftDDS :: u32
  kickOffsPShift :: u64
  fFineTune :: u32
  fMBTune :: u32
  tCBS :: u64
  offsetPrr_us :: u16
  nGExt :: u32
  nGInj :: u32
  pShiftExt :: b2bt
  pShiftInj :: b2bt
  tWantExt :: u64
  flagsExt :: u32
  sidExt :: u32
  bpidExt :: u32
  paramExt :: u64
  flagsInj :: u32
  sidInj :: u32
  bpidInj :: u32
  paramInj :: u64
  tH1Ext_t :: b2bt
  tH1Inj_t :: b2bt
  nPhaseResult :: u32
  b_statusArray :: u64
  b_nTransfer :: u32
  transStat :: u32
  mState :: u32
  stat :: b2b_stat
  flagClearAllSid :: u32
  errorFlags :: u32

definition no_b2bt :: b2bt where "no_b2bt = \<lparr>b_ns = 0, b_ps = 0, b_dps = 0\<rparr>"

text \<open>The constants that the code keeps in variables.\<close>

definition one_ns_as :: u64 where "one_ns_as = 1000000000"
definition one_ps_as :: u64 where "one_ps_as = 1000000"
definition one_s_ns :: u64 where "one_s_ns = 1000000000"

lemmas b2b_units = one_ns_as_def one_ps_as_def one_s_ns_def

text \<open>The state after power up: all variables are zero.  The environment in it is one example: a clock that
  advances by a millisecond with each reading, no timing message, no devices.\<close>

definition power_up :: b2b where
  "power_up = \<lparr>wr_time = (\<lambda>n. 2000000000000000000 + 1000000 * of_nat n), time_cnt = 0, dev_rd = (\<lambda>_ _. 0),
     rd_cnt = 0, dev_out = [], eca_in = (\<lambda>_. None), polls = 0, sdb = (\<lambda>_. 0), eca_queues = [],
     dev_adr = (\<lambda>_. 0), shm = (\<lambda>_. 0), shm_on = False, ram_ext = 0, stray = [], EBM_OFFS_DAT = 0x800000,
     EBM_OFFS_WR = 0x400000, EBM_ADR_MASK = 0x3fffff, EBM_WRITE = 1, EBM_READ = 0, nBadStatus = 0, nBadState = 0,
     flagRecover = 0, wr_time_prev = 0, SHARED_OFFS = 0x500,
     stack = \<lparr>tTrig = no_b2bt, cTrigExt_us = 0, cTrigInj_us = 0, cPhase_us = 0\<rparr>, undef_u64 = (\<lambda>_. 0),
     undef_i32 = (\<lambda>_. 0), undef_u32 = (\<lambda>_. 0), sets = (\<lambda>_. no_set), b_gid = 0, b_sid = 0, b_mode = 0, TH1Ext_as = 0, nHExt = 0,
     TH1Inj_as = 0, nHInj = 0, TBeat_as = 0, beyond_TBeat = 0, cPhase_t = no_b2bt, cTrigExt_t = no_b2bt,
     cTrigInj_t = no_b2bt, nBucketExt = 0, nBucketInj = 0, TPhaseShift = 0, TPhaseShiftDDS = 0, kickOffsPShift = 0,
     fFineTune = 0, fMBTune = 0, tCBS = 0, offsetPrr_us = 0, nGExt = 0, nGInj = 0, pShiftExt = no_b2bt,
     pShiftInj = no_b2bt, tWantExt = 0, flagsExt = 0, sidExt = 0, bpidExt = 0, paramExt = 0, flagsInj = 0,
     sidInj = 0, bpidInj = 0, paramInj = 0, tH1Ext_t = no_b2bt, tH1Inj_t = no_b2bt, nPhaseResult = 0,
     b_statusArray = 0, b_nTransfer = 0, transStat = 0, mState = 0, stat = \<lparr>nLate = 0, nEarly = 0, nConflict = 0,
     nDelayed = 0, nSlow = 0, offsSlow = 0, offsSlowMax = 0, offsSlowMin = 0, comLatency = 0, comLatencyMax = 0,
     comLatencyMin = 0, offsDone = 0, offsDoneMax = 0, offsDoneMin = 0\<rparr>, flagClearAllSid = 0, errorFlags = 0\<rparr>"

text \<open>The registers of the unit are set up before those of the library.\<close>

definition b2b_wr :: "u32 \<Rightarrow> u32 \<Rightarrow> b2b \<Rightarrow> b2b" where
  "b2b_wr off v s = s\<lparr>shm := (shm s)(off := v)\<rparr>"

end
