(* ===== verification/B2b_Match.thy ===== *)
theory B2b_Match
  imports B2b_State "HOL-Library.While_Combinator" "HOL-Library.Monad_Syntax"
begin

text \<open>
  The calculations of the central unit (modules/b2b/fw/b2b-cbu.c): which kicker a transfer triggers, the
  next zero crossing of the extraction ring, and the time at which the phases of both rings match.
  Loops are those of \<open>while_option\<close>: \<open>None\<close> is a loop that does not end.
\<close>

section \<open>Groups\<close>

definition getTrigGid :: "bool \<Rightarrow> b2b \<Rightarrow> u32" where
  "getTrigGid extFlag s =
     (if b_gid s = SIS18_B2B_EXTRACT then (if extFlag then SIS18_RING else GID_INVALID)
      else if b_gid s = SIS18_B2B_ESR then (if extFlag then SIS18_RING else ESR_RING)
      else if b_gid s = ESR_B2B_EXTRACT then (if extFlag then ESR_RING else GID_INVALID)
      else if b_gid s = ESR_B2B_CRYRING then (if extFlag then ESR_RING else CRYRING_RING)
      else if b_gid s = CRYRING_B2B_EXTRACT then (if extFlag then CRYRING_RING else GID_INVALID)
      else if b_gid s = SIS100_B2B_EXTRACT then (if extFlag then SIS100_RING else GID_INVALID)
      else GID_INVALID)"

definition getGeometricHarmonics :: "u32 \<Rightarrow> u32 \<times> u32" where
  "getGeometricHarmonics gid =
     (if gid = SIS18_B2B_ESR then (2, 1)
      else if gid = SIS18_B2B_SIS100 then (1, 5)
      else if gid = ESR_B2B_CRYRING then (2, 1)
      else (1, 1))"

section \<open>The next zero crossing\<close>

text \<open>The status, and the time that is passed by reference.\<close>

definition calcExtTime :: "b2bt \<Rightarrow> u64 \<Rightarrow> b2b \<Rightarrow> u32 \<times> b2bt" where
  "calcExtTime tExtract tWant s =
     (if TH1Ext_as s = 0 then (COMMON_STATUS_OUTOFRANGE, tExtract)
      else if nHExt s = 0 then (COMMON_STATUS_OUTOFRANGE, tExtract)
      else if b_ns (tH1Ext_t s) + one_s_ns < tWant then (COMMON_STATUS_OUTOFRANGE, tExtract)
      else
        let t = fwlib_cleanB2bt (fwlib_advanceTimePs (tH1Ext_t s) (fwlib_tns2tps tWant) (TH1Ext_as s))
        in (if b_ns t = 0 then COMMON_STATUS_OUTOFRANGE else COMMON_STATUS_OK, t))"

section \<open>Fine tuning\<close>

text \<open>The point of the grid \<open>t0 + n * T\<close> next to \<open>t\<close>; the code writes this out each time.\<close>

definition on_grid :: "u64 \<Rightarrow> u64 \<Rightarrow> u64 \<Rightarrow> u64" where
  "on_grid t0 T t =
     (let n = (t - t0) div T; n' = (if (t - t0) mod T > drop_bit 1 T then n + 1 else n) in t0 + n' * T)"

definition rfFineTune :: "u64 \<Rightarrow> u64 \<Rightarrow> u64 \<Rightarrow> b2b \<Rightarrow> u64 \<times> u64" where
  "rfFineTune tH1Ext_as tH1Inj_as tMatch_as s =
     (let ftTExt_as = TH1Ext_as s * ucast (nGInj s);
          ftTInj_as = TH1Inj_as s * ucast (nGExt s);
          ftMatchExt_as = on_grid tH1Ext_as (TH1Ext_as s) tMatch_as;
          ftMatchInj_as = on_grid tH1Inj_as (TH1Inj_as s) ftMatchExt_as;
          ftDtAs1 = (ftMatchExt_as - ftTExt_as) - (ftMatchInj_as - ftTInj_as);
          ftDtAs2 = ftMatchExt_as - ftMatchInj_as;
          ftDtAs3 = (ftMatchExt_as + ftTExt_as) - (ftMatchInj_as + ftTInj_as);
          r1 = (if \<bar>sint ftDtAs1\<bar> < \<bar>sint ftDtAs2\<bar> then (ftMatchExt_as - ftTExt_as, ftDtAs1) else (ftMatchExt_as, ftDtAs2))
      in if \<bar>sint ftDtAs3\<bar> < \<bar>sint ftDtAs2\<bar> then (ftMatchExt_as + ftTExt_as, ftDtAs3) else r1)"

section \<open>Phase match\<close>

definition LIMITMULTIBEAT :: u64 where "LIMITMULTIBEAT = 360"

text \<open>The checks at the start of \<open>calcPhaseMatch\<close>, with the periods of the radio frequencies.\<close>

definition match_refused :: "u64 \<Rightarrow> b2b \<Rightarrow> bool" where
  "match_refused tNow s \<longleftrightarrow>
     TH1Ext_as s = 0 \<or> TH1Inj_as s = 0 \<or> nHExt s = 0 \<or> nHInj s = 0 \<or> nGExt s = 0 \<or> nGInj s = 0 \<or>
     b_ns (tH1Ext_t s) + one_s_ns div 10 < tNow \<or> b_ns (tH1Inj_t s) + one_s_ns div 10 < tNow \<or>
     TH1Ext_as s div ucast (nGExt s) = TH1Inj_as s div ucast (nGInj s)"

text \<open>A measured phase in attoseconds since the epoch, advanced to about the time of the kick; the number of
  periods is held in 32 bits.\<close>

definition phase_as :: "u64 \<Rightarrow> u64 \<Rightarrow> b2bt \<Rightarrow> u64 \<Rightarrow> u64" where
  "phase_as epoch tMin t T =
     (let t0 = (b_ns t - epoch) * one_ns_as + scast (b_ps t) * one_ps_as;
          n = ucast (one_ns_as * (tMin - b_ns t) div T) :: u32
      in t0 + ucast n * T)"

text \<open>The fast signal is brought to follow the slow one by at most one period.\<close>

definition align_fast :: "u64 \<Rightarrow> u64 \<Rightarrow> u64 \<Rightarrow> u64 option" where
  "align_fast tSlow TFast tFast = do {
     t \<leftarrow> while_option (\<lambda>t. tSlow > t) (\<lambda>t. t + TFast) tFast;
     while_option (\<lambda>t. t - tSlow > TFast) (\<lambda>t. t - TFast) t
   }"

text \<open>The number of slow periods until the fast signal has caught up, and the beating period in slow
  periods.\<close>

definition match_count :: "u64 \<Rightarrow> u64 \<Rightarrow> u64 \<Rightarrow> u64 \<Rightarrow> u64" where
  "match_count tSlow TSlow tFast TFast =
     (let tD0 = tFast - tSlow; Tdiff = TSlow - TFast; n = tD0 div Tdiff
      in if tD0 mod Tdiff > drop_bit 1 Tdiff then n + 1 else n)"

text \<open>The beating period is written through a pointer.  Where the code means to round it up it increments
  the pointer instead, and from then on reads and writes what lies behind the variable.\<close>

definition set_TBeat :: "u64 \<Rightarrow> u64 \<Rightarrow> b2b \<Rightarrow> u64 \<times> b2b" where
  "set_TBeat TSlow Tdiff s =
     (let n = TSlow div Tdiff in
      if n mod Tdiff > drop_bit 1 Tdiff
      then let t = beyond_TBeat s * TSlow in (t, s\<lparr>TBeat_as := n, beyond_TBeat := t\<rparr>)
      else (n * TSlow, s\<lparr>TBeat_as := n * TSlow\<rparr>))"

text \<open>Both grids are met: first that of the extraction ring, then, where the injection ring is the larger,
  the next of its points.\<close>

definition match_grids :: "u64 \<Rightarrow> u64 \<Rightarrow> u64 \<Rightarrow> b2b \<Rightarrow> u64 option" where
  "match_grids tH1Ext_as tH1Inj_as tMatch_as s =
     (let t = on_grid tH1Ext_as (TH1Ext_as s) tMatch_as in
      if nGInj s > nGExt s
      then do {
        tTmp \<leftarrow> while_option (\<lambda>u. u < t) (\<lambda>u. u + TH1Inj_as s) (on_grid tH1Inj_as (TH1Inj_as s) t);
        while_option (\<lambda>u. tTmp + drop_bit 1 (TH1Ext_as s) > u) (\<lambda>u. u + TH1Ext_as s) t
      }
      else Some t)"

text \<open>The probes: the first argument is the number of iterations left, \<open>i\<close> the index, then the best time so
  far, its precision and its index.\<close>

fun probe ::
  "nat \<Rightarrow> nat \<Rightarrow> u64 \<Rightarrow> u64 \<Rightarrow> u64 \<Rightarrow> u64 \<Rightarrow> u64 \<Rightarrow> u64 \<Rightarrow> u64 \<times> u64 \<times> u64 \<Rightarrow> b2b \<Rightarrow> u64 \<times> b2b"
where
  "probe 0 i tH1Ext_as tH1Inj_as tMatch0_as beat tTimeout TBeat (tMatch_as, dt_as, iMatch) s = (tMatch_as, s)"
| "probe (Suc k) i tH1Ext_as tH1Inj_as tMatch0_as beat tTimeout TBeat (tMatch_as, dt_as, iMatch) s =
     (let (tMatchTmp_as, dtTmp_as) = rfFineTune tH1Ext_as tH1Inj_as (tMatch0_as + of_nat i * beat) s;
          (m, d, j) = (if \<bar>sint dtTmp_as\<bar> < \<bar>sint dt_as\<bar> then (tMatchTmp_as, dtTmp_as, of_nat i)
                       else (tMatch_as, dt_as, iMatch));
          (now, s1) = sys_time s
      in if now > tTimeout + j * TBeat then (m, s1)
         else probe k (Suc i) tH1Ext_as tH1Inj_as tMatch0_as beat tTimeout TBeat (m, d, j) s1)"

text \<open>How many probes, and the two times used with several of them.  With fine tuning alone these times are
  not set; there is one probe then, and they have no effect.  A division by zero does not return.\<close>

definition multi_beat :: "u64 \<Rightarrow> b2b \<Rightarrow> bool" where
  "multi_beat beat s \<longleftrightarrow>
     beat div (TH1Ext_as s div ucast (nGExt s)) < LIMITMULTIBEAT \<or> nGInj s > 1 \<or> fMBTune s \<noteq> 0"

definition n_probes :: "u64 \<Rightarrow> b2b \<Rightarrow> u32" where
  "n_probes beat s =
     (let n = (if fFineTune s \<noteq> 0 then 1 else 0) in
      if multi_beat beat s
      then let m = ucast (one_ns_as * (B2B_KICKOFFSETMAX - B2B_KICKOFFSETMIN) div beat)
           in if sint m > sint n then m else n
      else n)"

definition tune :: "u64 \<Rightarrow> u64 \<Rightarrow> u64 \<Rightarrow> u64 \<Rightarrow> u64 \<Rightarrow> b2b \<Rightarrow> (u64 \<times> b2b) option" where
  "tune tMin tH1Ext_as tH1Inj_as beat tMatch_as s =
     (if TH1Ext_as s div ucast (nGExt s) = 0 \<or> multi_beat beat s \<and> beat = 0 then None
      else
        let (tTimeout, TBeat) = (if multi_beat beat s then (tMin - COMMON_AHEADT, beat div one_ns_as) else (0, 0))
        in Some (probe (nat (sint (n_probes beat s))) 0 tH1Ext_as tH1Inj_as tMatch_as beat tTimeout TBeat
             (tMatch_as, 999999999999, 0) s))"

text \<open>Back to nanoseconds, and the window the time must lie in.\<close>

definition round_ns :: "u64 \<Rightarrow> u64" where
  "round_ns t = (let n = t div one_ns_as in if t mod one_ns_as > drop_bit 1 one_ns_as then n + 1 else n)"

definition in_window :: "u64 \<Rightarrow> u64 \<Rightarrow> bool" where
  "in_window ns tMin \<longleftrightarrow> (ucast (ns - tMin) :: u32) \<le> ucast (B2B_KICKOFFSETMAX - B2B_KICKOFFSETMIN)"

definition calcPhaseMatch :: "u64 \<Rightarrow> b2bt \<Rightarrow> b2b \<Rightarrow> (u32 \<times> b2bt \<times> b2b) option" where
  "calcPhaseMatch tMin tPhaseMatch s =
     (case sys_time s of (tNow, s1) \<Rightarrow>
        let epoch = tNow - one_s_ns in
        if match_refused tNow s1 then Some (COMMON_STATUS_OUTOFRANGE, tPhaseMatch, s1)
        else
          let TRfExt_as = TH1Ext_as s1 div ucast (nGExt s1);
              TRfInj_as = TH1Inj_as s1 div ucast (nGInj s1);
              tH1Ext_as = phase_as epoch tMin (tH1Ext_t s1) (TH1Ext_as s1);
              tH1Inj_as = phase_as epoch tMin (tH1Inj_t s1) (TH1Inj_as s1);
              (TSlow_as, tSlow_as, TFast_as, tFast0_as) =
                (if TRfExt_as > TRfInj_as then (TRfExt_as, tH1Ext_as, TRfInj_as, tH1Inj_as)
                 else (TRfInj_as, tH1Inj_as, TRfExt_as, tH1Ext_as))
          in do {
            tFast_as \<leftarrow> align_fast tSlow_as TFast_as tFast0_as;
            let tMatch0_as = match_count tSlow_as TSlow_as tFast_as TFast_as * TSlow_as + tSlow_as;
            let (beat, s2) = set_TBeat TSlow_as (TSlow_as - TFast_as) s1;
            tMatch1_as \<leftarrow> while_option (\<lambda>t. t div one_ns_as + epoch < tMin) (\<lambda>t. t + beat) tMatch0_as;
            tMatch2_as \<leftarrow> match_grids tH1Ext_as tH1Inj_as tMatch1_as s2;
            (tMatch_as, s3) \<leftarrow> tune tMin tH1Ext_as tH1Inj_as beat tMatch2_as s2;
            let ns = round_ns tMatch_as + epoch;
            Some (if in_window ns tMin then COMMON_STATUS_OK else COMMON_STATUS_OUTOFRANGE,
                  tPhaseMatch\<lparr>b_ns := ns\<rparr>, s3)
          })"

end
