(* ===== verification/B2b_Fsm.thy ===== *)
theory B2b_Fsm
  imports B2b_State
begin

text \<open>
  The mini state machine of the central unit (\<open>getNextMState\<close> of modules/b2b/fw/b2b-cbu.c), one table per
  mode of the transfer.  The state that receives the results of both phase measurements counts them.
\<close>

text \<open>A C \<open>switch\<close> over constants.\<close>

definition switch :: "(u32 \<times> u32) list \<Rightarrow> u32 \<Rightarrow> u32" where
  "switch table k = (case map_of table k of Some v \<Rightarrow> v | None \<Rightarrow> B2B_MFSM_NOTHING)"

definition mfsm_off :: "(u32 \<times> u32) list" where
  "mfsm_off = [(B2B_MFSM_S0, B2B_MFSM_EXT_PMEAS_S), (B2B_MFSM_EXT_PMEAS_S, B2B_MFSM_NOTHING)]"

definition mfsm_bse :: "(u32 \<times> u32) list" where
  "mfsm_bse =
     [(B2B_MFSM_S0, B2B_MFSM_EXT_TKICK_C), (B2B_MFSM_EXT_TKICK_C, B2B_MFSM_EXT_PMEAS_S),
      (B2B_MFSM_EXT_PMEAS_S, B2B_MFSM_EXT_TRIG), (B2B_MFSM_EXT_TRIG, B2B_MFSM_NOTHING)]"

definition mfsm_b2e :: "(u32 \<times> u32) list" where
  "mfsm_b2e =
     [(B2B_MFSM_S0, B2B_MFSM_EXT_PMEAS_S), (B2B_MFSM_EXT_PMEAS_S, B2B_MFSM_EXT_PMEAS_R),
      (B2B_MFSM_EXT_PMEAS_R, B2B_MFSM_EXT_TNEXTRF_C), (B2B_MFSM_EXT_TNEXTRF_C, B2B_MFSM_EXT_TRIG),
      (B2B_MFSM_EXT_TRIG, B2B_MFSM_NOTHING)]"

definition mfsm_b2c :: "(u32 \<times> u32) list" where
  "mfsm_b2c =
     [(B2B_MFSM_S0, B2B_MFSM_EXT_PMEAS_S), (B2B_MFSM_EXT_PMEAS_S, B2B_MFSM_INJ_PMEAS_S),
      (B2B_MFSM_INJ_PMEAS_S, B2B_MFSM_EXT_PMEAS_R), (B2B_MFSM_EXT_PMEAS_R, B2B_MFSM_EXT_TNEXTRF_C),
      (B2B_MFSM_EXT_TNEXTRF_C, B2B_MFSM_EXT_TRIG), (B2B_MFSM_EXT_TRIG, B2B_MFSM_INJ_TRIG),
      (B2B_MFSM_INJ_TRIG, B2B_MFSM_NOTHING)]"

definition mfsm_fbeat :: "(u32 \<times> u32) list" where
  "mfsm_fbeat =
     [(B2B_MFSM_S0, B2B_MFSM_EXT_PMEAS_S), (B2B_MFSM_EXT_PMEAS_S, B2B_MFSM_INJ_PMEAS_S),
      (B2B_MFSM_EXT_TFBEAT_C, B2B_MFSM_EXT_TRIG), (B2B_MFSM_EXT_TRIG, B2B_MFSM_INJ_TRIG),
      (B2B_MFSM_INJ_TRIG, B2B_MFSM_NOTHING)]"

definition mfsm_epshift :: "(u32 \<times> u32) list" where
  "mfsm_epshift =
     [(B2B_MFSM_S0, B2B_MFSM_EXT_PMEAS_S), (B2B_MFSM_EXT_PMEAS_S, B2B_MFSM_EXT_PMEAS_R),
      (B2B_MFSM_EXT_PMEAS_R, B2B_MFSM_EXT_TNEXTRF_C), (B2B_MFSM_EXT_TNEXTRF_C, B2B_MFSM_EXT_PSHIFT_S),
      (B2B_MFSM_EXT_PSHIFT_S, B2B_MFSM_EXT_TRIG), (B2B_MFSM_EXT_TRIG, B2B_MFSM_NOTHING)]"

definition mfsm_pshifte :: "(u32 \<times> u32) list" where
  "mfsm_pshifte =
     [(B2B_MFSM_S0, B2B_MFSM_EXT_PMEAS_S), (B2B_MFSM_EXT_PMEAS_S, B2B_MFSM_INJ_PMEAS_S),
      (B2B_MFSM_EXT_TNEXTRF_C, B2B_MFSM_EXT_PSHIFT_C), (B2B_MFSM_EXT_PSHIFT_C, B2B_MFSM_EXT_PSHIFT_S),
      (B2B_MFSM_EXT_PSHIFT_S, B2B_MFSM_EXT_TRIG), (B2B_MFSM_EXT_TRIG, B2B_MFSM_INJ_TRIG),
      (B2B_MFSM_INJ_TRIG, B2B_MFSM_NOTHING)]"

definition mfsm_pshifti :: "(u32 \<times> u32) list" where
  "mfsm_pshifti =
     [(B2B_MFSM_S0, B2B_MFSM_EXT_PMEAS_S), (B2B_MFSM_EXT_PMEAS_S, B2B_MFSM_INJ_PMEAS_S),
      (B2B_MFSM_EXT_TNEXTRF_C, B2B_MFSM_INJ_PSHIFT_C), (B2B_MFSM_INJ_PSHIFT_C, B2B_MFSM_INJ_PSHIFT_S),
      (B2B_MFSM_INJ_PSHIFT_S, B2B_MFSM_EXT_TRIG), (B2B_MFSM_EXT_TRIG, B2B_MFSM_INJ_TRIG),
      (B2B_MFSM_INJ_TRIG, B2B_MFSM_NOTHING)]"

text \<open>The diamond of the modes that ask for two phase measurements: either result may come first.\<close>

definition diamond :: "(u32 \<times> u32) list \<Rightarrow> u32 \<Rightarrow> u32 \<Rightarrow> b2b \<Rightarrow> u32 \<times> b2b" where
  "diamond table after act s =
     (if act = B2B_MFSM_INJ_PMEAS_S then (B2B_MFSM_ALL_PMEAS_R, s\<lparr>nPhaseResult := 0\<rparr>)
      else if act = B2B_MFSM_ALL_PMEAS_R
      then let n = nPhaseResult s + 1
           in (if n = 2 then after else B2B_MFSM_ALL_PMEAS_R, s\<lparr>nPhaseResult := n\<rparr>)
      else (switch table act, s))"

definition getNextMState :: "u32 \<Rightarrow> u32 \<Rightarrow> b2b \<Rightarrow> u32 \<times> b2b" where
  "getNextMState md act s =
     (if md = B2B_MODE_OFF then (switch mfsm_off act, s)
      else if md = B2B_MODE_BSE then (switch mfsm_bse act, s)
      else if md = B2B_MODE_B2E then (switch mfsm_b2e act, s)
      else if md = B2B_MODE_B2C then (switch mfsm_b2c act, s)
      else if md = B2B_MODE_B2BFBEAT then diamond mfsm_fbeat B2B_MFSM_EXT_TFBEAT_C act s
      else if md = B2B_MODE_B2EPSHIFT then (switch mfsm_epshift act, s)
      else if md = B2B_MODE_B2BPSHIFTE then diamond mfsm_pshifte B2B_MFSM_EXT_TNEXTRF_C act s
      else if md = B2B_MODE_B2BPSHIFTI then diamond mfsm_pshifti B2B_MFSM_EXT_TNEXTRF_C act s
      else (B2B_MFSM_NOTHING, s))"

text \<open>The end of every stage: the state that has been served is noted, and the next one is taken.\<close>

definition next_stage :: "b2b \<Rightarrow> b2b" where
  "next_stage s =
     (let s1 = s\<lparr>transStat := transStat s OR mState s\<rparr>
      in case getNextMState (b_mode s1) (mState s1) s1 of (m, s2) \<Rightarrow> s2\<lparr>mState := m\<rparr>)"

end
