(* ===== verification/B2b.thy ===== *)
theory B2b
  imports B2b_Match B2b_Fsm
begin

text \<open>
  The operation of the central unit (modules/b2b/fw/b2b-cbu.c): submitting settings, the three timing
  messages that drive a transfer (its start, the phase of the extraction and that of the injection ring),
  the stages of the mini state machine, and one call of \<open>doActionOperation\<close>.
\<close>

section \<open>Settings\<close>

definition clearAllSid :: "b2b \<Rightarrow> b2b" where
  "clearAllSid s = s\<lparr>sets := (\<lambda>i. if i < B2B_NSID then no_set else sets s i)\<rparr>"

text \<open>The two halves of \<open>setSubmit\<close>: values of the extraction, and those added for an injection.\<close>

definition submit_ext :: "b2b \<Rightarrow> b2b_set \<Rightarrow> b2b_set" where
  "submit_ext s e =
     e\<lparr>setMode := shm s B2B_SHARED_SET_MODE, setGid := shm s B2B_SHARED_SET_GIDEXT,
       setTH1Ext_as := mk64 (shm s B2B_SHARED_SET_TH1EXTHI) (shm s B2B_SHARED_SET_TH1EXTLO),
       setNHExt := shm s B2B_SHARED_SET_NHEXT, setCTrigExt := shm s B2B_SHARED_SET_CTRIGEXT,
       setNBuckExt := shm s B2B_SHARED_SET_NBUCKEXT, setFFinTune := shm s B2B_SHARED_SET_FFINTUNE,
       setCPhase := shm s B2B_SHARED_SET_CPHASE\<rparr>"

text \<open>The pointer to the bucket number of the injection is set to the word of the trigger correction
  (\<open>initSharedMem\<close>).  Without injection the sequence of the injection ring keeps its old value.\<close>

definition pSharedSetNBuckInj :: u32 where "pSharedSetNBuckInj = B2B_SHARED_SET_CTRIGINJ"

definition submit_inj :: "b2b \<Rightarrow> b2b_set \<Rightarrow> b2b_set" where
  "submit_inj s e =
     e\<lparr>setGid := setGid e + shm s B2B_SHARED_SET_GIDINJ, setLSidInj := shm s B2B_SHARED_SET_LSIDINJ,
       setLBpidInj := shm s B2B_SHARED_SET_LBPIDINJ,
       setLParamInj := mk64 (shm s B2B_SHARED_SET_LPARAMINJHI) (shm s B2B_SHARED_SET_LPARAMINJLO),
       setTH1Inj_as := mk64 (shm s B2B_SHARED_SET_TH1INJHI) (shm s B2B_SHARED_SET_TH1INJLO),
       setNHInj := shm s B2B_SHARED_SET_NHINJ, setCTrigInj := shm s B2B_SHARED_SET_CTRIGINJ,
       setNBuckInj := shm s pSharedSetNBuckInj, setFMBTune := shm s B2B_SHARED_SET_FMBTUNE\<rparr>"

definition submit_noinj :: "b2b_set \<Rightarrow> b2b_set" where
  "submit_noinj e =
     e\<lparr>setTH1Inj_as := 0, setNHInj := 0, setLBpidInj := 0, setLParamInj := 0, setCTrigInj := 0, setNBuckInj := 0,
       setFMBTune := 0\<rparr>"

definition inject_mode :: "u32 \<Rightarrow> bool" where
  "inject_mode m \<longleftrightarrow> m = B2B_MODE_B2C \<or> m = B2B_MODE_B2BFBEAT \<or> m = B2B_MODE_B2BPSHIFTE \<or> m = B2B_MODE_B2BPSHIFTI"

definition put_set :: "nat \<Rightarrow> b2b_set \<Rightarrow> b2b \<Rightarrow> b2b" where
  "put_set i e s = s\<lparr>sets := (sets s)(i := e)\<rparr>"

definition setSubmit :: "b2b \<Rightarrow> u32 \<times> b2b" where
  "setSubmit s =
     (if shm s B2B_SHARED_SET_SIDEEXT > 15 then (COMMON_STATUS_OUTOFRANGE, s)
      else
        let i = unat (shm s B2B_SHARED_SET_SIDEEXT);
            flagInject = inject_mode (shm s B2B_SHARED_SET_MODE);
            e = (sets s i)\<lparr>setFlagValid := 0\<rparr>
        in if flagInject \<and> shm s B2B_SHARED_SET_SIDEINJ \<noteq> shm s B2B_SHARED_SET_SIDEEXT
           then (B2B_STATUS_BADSETTING, put_set i e s)
           else let e1 = submit_ext s e;
                    e2 = (if flagInject then submit_inj s e1 else submit_noinj e1)
                in (COMMON_STATUS_OK, put_set i (e2\<lparr>setFlagValid := 1\<rparr>) s))"

section \<open>Timing messages\<close>

definition ev_gid :: "u64 \<Rightarrow> u32" where "ev_gid i = ucast (drop_bit 48 i AND 0xfff)"
definition ev_sid :: "u64 \<Rightarrow> u32" where "ev_sid i = ucast (drop_bit 20 i AND 0xfff)"
definition ev_bpid :: "u64 \<Rightarrow> u32" where "ev_bpid i = ucast (drop_bit 6 i AND 0x3fff)"
definition ev_res :: "u64 \<Rightarrow> u32" where "ev_res i = ucast (i AND 0x3f)"

text \<open>A measured phase: nanoseconds as parameter, picoseconds and their uncertainty in the TEF field.\<close>

definition phase_of :: "u64 \<Rightarrow> u32 \<Rightarrow> b2bt" where
  "phase_of param tef =
     \<lparr>b_ns = param, b_ps = scast (ucast (tef AND 0x0000ffff) :: u16),
      b_dps = ucast (ucast (drop_bit 16 (tef AND 0xffff0000)) :: u16)\<rparr>"

definition no_time :: "b2bt \<Rightarrow> b2bt" where
  "no_time t = t\<lparr>b_ns := 0, b_ps := 0\<rparr>"

text \<open>What a start clears before it looks at its settings.\<close>

definition start_clear :: "eca_action \<Rightarrow> b2b \<Rightarrow> b2b" where
  "start_clear a s =
     s\<lparr>b_sid := ev_sid (ea_id a), b_gid := ev_gid (ea_id a), flagsExt := 0, sidExt := 0, bpidExt := 0, paramExt := 0,
       flagsInj := 0, sidInj := 0, bpidInj := 0, paramInj := 0, b_mode := 0, nHExt := 0, nHInj := 0,
       TH1Ext_as := 0, TH1Inj_as := 0, TBeat_as := 0, cPhase_t := no_time (cPhase_t s),
       cTrigExt_t := no_time (cTrigExt_t s), cTrigInj_t := no_time (cTrigInj_t s), nBucketExt := 0, nBucketInj := 0,
       TPhaseShift := 0, fFineTune := 0, fMBTune := 0, tCBS := 0, nGExt := 0, nGInj := 0, offsetPrr_us := 0,
       transStat := 0, b_nTransfer := b_nTransfer s + 1\<rparr>"

text \<open>The time for a phase shift: a negative bucket number stands for so many half milliseconds.\<close>

definition phase_shift_time :: "u32 \<Rightarrow> u64" where
  "phase_shift_time n =
     (let t = (if sint n \<ge> 0 then B2B_PHASESHIFTTIME else scast (signed_drop_bit 1 (- n * 1000000)))
      in if t > B2B_KICKOFFSETMAX - B2B_KICKOFFSETMIN then B2B_KICKOFFSETMAX - B2B_KICKOFFSETMIN else t)"

definition want_ext :: "u32 \<Rightarrow> u64 \<Rightarrow> u64 \<Rightarrow> u64" where
  "want_ext m cbs kickOffs =
     (if m = B2B_MODE_BSE \<or> m = B2B_MODE_B2E \<or> m = B2B_MODE_B2C \<or> m = B2B_MODE_B2BFBEAT then cbs + B2B_KICKOFFSETMIN
      else if m = B2B_MODE_B2EPSHIFT \<or> m = B2B_MODE_B2BPSHIFTE \<or> m = B2B_MODE_B2BPSHIFTI then cbs + kickOffs
      else cbs)"

definition start_copy :: "eca_action \<Rightarrow> b2b_set \<Rightarrow> b2b \<Rightarrow> b2b" where
  "start_copy a e s =
     (let t = phase_shift_time (setNBuckExt e);
          conv = (\<lambda>old f. fwlib_tfns2tps (undef_u64 s) (undef_i32 s) (b_dps old) f);
          kick = t + B2B_KICKOFFSETMIN;
          cp = conv (cPhase_t s) (setCPhase e);
          shift = (if setMode e = B2B_MODE_B2EPSHIFT then (b_ns cp, b_ps cp) else (0, 0))
      in s\<lparr>flagsExt := B2B_FLAG_BEAMIN, sidExt := ev_sid (ea_id a), bpidExt := ev_bpid (ea_id a),
           paramExt := ea_param a, flagsInj := B2B_FLAG_BEAMIN, sidInj := setLSidInj e, bpidInj := setLBpidInj e,
           paramInj := setLParamInj e, b_gid := setGid e, b_mode := setMode e, TH1Ext_as := setTH1Ext_as e,
           nHExt := setNHExt e, TH1Inj_as := setTH1Inj_as e, nHInj := setNHInj e, cPhase_t := cp,
           cTrigExt_t := conv (cTrigExt_t s) (setCTrigExt e), cTrigInj_t := conv (cTrigInj_t s) (setCTrigInj e),
           nBucketExt := setNBuckExt e, nBucketInj := setNBuckInj e, fFineTune := setFFinTune e,
           fMBTune := setFMBTune e, TPhaseShift := t,
           TPhaseShiftDDS := f_of_d (d_div (d_of_f (f_of_u64 t)) d_1e9), kickOffsPShift := kick,
           tCBS := ea_deadline a, nGExt := fst (getGeometricHarmonics (setGid e)),
           nGInj := snd (getGeometricHarmonics (setGid e)),
           tWantExt := want_ext (setMode e) (ea_deadline a) kick,
           pShiftExt := (pShiftExt s)\<lparr>b_ns := fst shift, b_ps := snd shift\<rparr>,
           pShiftInj := (pShiftInj s)\<lparr>b_ns := 0, b_ps := 0\<rparr>\<rparr>)"

text \<open>The handlers of the messages: \<open>Inl\<close> is a status returned at once, \<open>Inr\<close> goes on with the stages.
  \<open>status\<close> is that of the firmware.\<close>

definition on_start :: "eca_action \<Rightarrow> b2b \<Rightarrow> (u32 \<times> b2b) + (u32 \<times> b2b_loc \<times> b2b)" where
  "on_start a s =
     (let s1 = start_clear a s in
      case setSubmit s1 of (st, s2) \<Rightarrow>
        if st \<noteq> COMMON_STATUS_OK then Inl (st, s2\<lparr>mState := B2B_MFSM_NOTHING\<rparr>)
        else if b_sid s2 > 15 then Inl (COMMON_STATUS_OUTOFRANGE, s2\<lparr>b_sid := 0, mState := B2B_MFSM_NOTHING\<rparr>)
        else if setFlagValid (sets s2 (unat (b_sid s2))) = 0
        then Inl (B2B_STATUS_BADSETTING, s2\<lparr>mState := B2B_MFSM_NOTHING\<rparr>)
        else
          let s3 = start_copy a (sets s2 (unat (b_sid s2))) s2;
              loc = \<lparr>tTrig = no_time (tTrig (stack s3)), cTrigExt_us = half_us (undef_u32 s) (fwlib_tps2tfns (cTrigExt_t s3)),
                     cTrigInj_us = half_us (undef_u32 s) (fwlib_tps2tfns (cTrigInj_t s3)),
                     cPhase_us = half_us (undef_u32 s) (fwlib_tps2tfns (cPhase_t s3))\<rparr>
          in case getNextMState (b_mode s3) B2B_MFSM_S0 s3 of
               (m, s4) \<Rightarrow> Inr (st, loc, s4\<lparr>mState := m, errorFlags := 0\<rparr>))"

definition set_prr :: "b2b \<Rightarrow> b2b" where
  "set_prr s = (case sys_time s of (now, s1) \<Rightarrow> s1\<lparr>offsetPrr_us := half_us (undef_u32 s1) (f_of_u64 (now - tCBS s1))\<rparr>)"

definition on_prext :: "u32 \<Rightarrow> eca_action \<Rightarrow> b2b \<Rightarrow> (u32 \<times> b2b) + (u32 \<times> b2b_loc \<times> b2b)" where
  "on_prext status a s =
     (if b_mode s < B2B_MODE_B2E then Inl (status, s)
      else let s1 = set_prr s in
        if ev_gid (ea_id a) \<noteq> b_gid s1 then Inl (COMMON_STATUS_OUTOFRANGE, s1)
        else if ev_sid (ea_id a) \<noteq> b_sid s1 then Inl (COMMON_STATUS_OUTOFRANGE, s1)
        else if mState s1 \<noteq> B2B_MFSM_EXT_PMEAS_R \<and> mState s1 \<noteq> B2B_MFSM_ALL_PMEAS_R
        then Inl (COMMON_STATUS_OUTOFRANGE, s1)
        else
          let s2 = (if ev_res (ea_id a) AND B2B_ERRFLAG_PMEXT \<noteq> 0
                    then s1\<lparr>errorFlags := errorFlags s1 OR B2B_ERRFLAG_PMEXT\<rparr> else s1)
          in Inr (status, stack s2, next_stage (s2\<lparr>tH1Ext_t := phase_of (ea_param a) (ea_tef a)\<rparr>)))"

definition on_prinj :: "u32 \<Rightarrow> eca_action \<Rightarrow> b2b \<Rightarrow> (u32 \<times> b2b) + (u32 \<times> b2b_loc \<times> b2b)" where
  "on_prinj status a s =
     (if b_mode s < B2B_MODE_B2BFBEAT then Inl (status, s)
      else let s1 = set_prr s in
        if ev_gid (ea_id a) \<noteq> b_gid s1 then Inl (COMMON_STATUS_OUTOFRANGE, s1)
        else if ev_sid (ea_id a) \<noteq> b_sid s1 then Inl (COMMON_STATUS_OUTOFRANGE, s1)
        else if mState s1 \<noteq> B2B_MFSM_ALL_PMEAS_R then Inl (COMMON_STATUS_OUTOFRANGE, s1)
        else
          let s2 = (if ev_res (ea_id a) AND B2B_ERRFLAG_PMINJ \<noteq> 0
                    then s1\<lparr>errorFlags := errorFlags s1 OR B2B_ERRFLAG_PMINJ\<rparr> else s1);
              t = phase_of (ea_param a) (ea_tef a)
          in Inr (status, stack s2,
               next_stage (s2\<lparr>tH1Inj_t := t\<lparr>b_ns := b_ns t - b_ns (cPhase_t s2), b_ps := b_ps t - b_ps (cPhase_t s2)\<rparr>\<rparr>)))"

section \<open>The stages\<close>

definition send_tm :: "u64 \<Rightarrow> u64 \<Rightarrow> u64 \<Rightarrow> u32 \<Rightarrow> b2b \<Rightarrow> b2b" where
  "send_tm deadline evtId param tef s = snd (fwlib_ebmWriteTM deadline evtId param tef 0 s)"

definition stage_tkick :: "b2b_loc \<Rightarrow> b2b \<Rightarrow> b2b_loc \<times> b2b" where
  "stage_tkick loc s = (loc\<lparr>tTrig := (tTrig loc)\<lparr>b_ns := tWantExt s\<rparr>\<rparr>, next_stage s)"



definition stage_pmext :: "b2b_loc \<Rightarrow> b2b \<Rightarrow> b2b" where
  "stage_pmext loc s =
     next_stage (send_tm (tCBS s + B2B_PMOFFSET)
       (fwlib_buildEvtidV1 (b_gid s) B2B_ECADO_B2B_PMEXT (flagsExt s) (sidExt s) (bpidExt s) 0)
       ((TH1Ext_as s AND 0x000fffffffffffff) OR push_bit 56 (ucast (nGExt s AND 0xff))
        OR push_bit 52 (ucast (b_mode s AND 0xf)))
       (push_bit 16 (ucast (cTrigExt_us loc)) OR ucast (cPhase_us loc))
       (s\<lparr>tH1Ext_t := no_b2bt\<rparr>))"

definition stage_pminj :: "b2b_loc \<Rightarrow> b2b \<Rightarrow> b2b" where
  "stage_pminj loc s =
     next_stage (send_tm (tCBS s + B2B_PMOFFSET + 1)
       (fwlib_buildEvtidV1 (b_gid s) B2B_ECADO_B2B_PMINJ (flagsInj s) (sidExt s) (bpidExt s) 0)
       ((TH1Inj_as s AND 0x000fffffffffffff) OR push_bit 56 (ucast (nGInj s AND 0xff)))
       (push_bit 16 (ucast (cTrigInj_us loc)))
       (s\<lparr>tH1Inj_t := no_b2bt\<rparr>))"

text \<open>Plan B is to kick at the earliest time, without synchronisation.\<close>

definition plan_b :: "b2b_loc \<Rightarrow> b2b \<Rightarrow> b2b_loc" where
  "plan_b loc s = loc\<lparr>tTrig := (tTrig loc)\<lparr>b_ns := tWantExt s\<rparr>\<rparr>"

definition stage_tnextrf :: "b2b_loc \<Rightarrow> b2b \<Rightarrow> b2b_loc \<times> b2b" where
  "stage_tnextrf loc s =
     (if errorFlags s \<noteq> 0 then (plan_b loc s, next_stage s)
      else case calcExtTime (tTrig loc) (tWantExt s) s of (st, t) \<Rightarrow>
        let loc1 = loc\<lparr>tTrig := t\<rparr> in
        if st \<noteq> COMMON_STATUS_OK
        then (plan_b loc1 s, next_stage (s\<lparr>errorFlags := errorFlags s OR B2B_ERRFLAG_CBU\<rparr>))
        else (loc1, next_stage s))"

text \<open>The status of the phase match becomes that of the operation.\<close>

definition stage_tfbeat :: "u32 \<Rightarrow> b2b_loc \<Rightarrow> b2b \<Rightarrow> (u32 \<times> b2b_loc \<times> b2b) option" where
  "stage_tfbeat status loc s =
     (if errorFlags s \<noteq> 0 then Some (status, plan_b loc s, next_stage s)
      else case calcPhaseMatch (tWantExt s) (tTrig loc) s of
        None \<Rightarrow> None
      | Some (st, t, s1) \<Rightarrow>
          let loc1 = loc\<lparr>tTrig := t\<rparr> in
          if st \<noteq> COMMON_STATUS_OK
          then Some (st, plan_b loc1 s1, next_stage (s1\<lparr>errorFlags := errorFlags s1 OR B2B_ERRFLAG_CBU\<rparr>))
          else Some (st, loc1, next_stage s1))"

text \<open>A time relative to the start of the transfer, in attoseconds.\<close>

definition rel_as :: "b2bt \<Rightarrow> u64 \<Rightarrow> u64" where
  "rel_as t cbs = (b_ns t - cbs) * one_ns_as + scast (b_ps t) * one_ps_as"

definition phase_diff :: "u64 \<Rightarrow> u64 \<Rightarrow> u64 \<Rightarrow> u64 option" where
  "phase_diff a b T = do {
     a' \<leftarrow> while_option (\<lambda>x. sint x > sint b) (\<lambda>x. x - T) a;
     Some (b - a')
   }"

definition shift_of :: "b2bt \<Rightarrow> u64 \<Rightarrow> b2bt" where
  "shift_of p d = p\<lparr>b_ns := d div one_ns_as, b_ps := ucast (d mod one_ns_as div one_ps_as)\<rparr>"

definition stage_pshiftc_ext :: "b2b_loc \<Rightarrow> b2b \<Rightarrow> b2b option" where
  "stage_pshiftc_ext loc s =
     map_option (\<lambda>d. next_stage (s\<lparr>pShiftExt := shift_of (pShiftExt s) d\<rparr>))
       (phase_diff (rel_as (tTrig loc) (tCBS s))
          (rel_as (fwlib_advanceTimePs (tH1Inj_t s) (tTrig loc) (TH1Inj_as s)) (tCBS s)) (TH1Ext_as s))"

definition stage_pshiftc_inj :: "b2b_loc \<Rightarrow> b2b \<Rightarrow> b2b option" where
  "stage_pshiftc_inj loc s =
     map_option (\<lambda>d. next_stage (s\<lparr>pShiftInj := shift_of (pShiftInj s) d\<rparr>))
       (phase_diff (rel_as (fwlib_advanceTimePs (tH1Inj_t s) (tTrig loc) (TH1Inj_as s)) (tCBS s))
          (rel_as (tTrig loc) (tCBS s)) (TH1Inj_as s))"

text \<open>The parameter of a phase shift: the angle in degrees and the time in seconds, \<open>float\<close>s with their
  halves swapped.\<close>

definition swap_halves :: "u32 \<Rightarrow> u32" where
  "swap_halves x = push_bit 16 (x AND 0x0000ffff) OR drop_bit 16 (x AND 0xffff0000)"

definition shift_angle :: "b2bt \<Rightarrow> u64 \<Rightarrow> u32" where
  "shift_angle p T = f_of_d (d_div (d_mul d_m360 (d_of_f (fwlib_tps2tfns p))) (d_div (d_of_f (f_of_u64 T)) d_1e9))"

definition shift_param :: "b2bt \<Rightarrow> u64 \<Rightarrow> u32 \<Rightarrow> u64" where
  "shift_param p T dds = ucast (swap_halves (shift_angle p T)) OR push_bit 32 (ucast (swap_halves dds))"

text \<open>Two messages: the shift, and later the same with the sign of the angle inverted.\<close>

definition send_shift :: "u64 \<Rightarrow> u64 \<Rightarrow> b2b \<Rightarrow> b2b" where
  "send_shift evtId param s =
     (let i = evtId OR 0x10000;
          s1 = send_tm ((tCBS s + B2B_KICKOFFSETMIN) div 10000 * 10000) i param 0 s
      in send_tm (tCBS s1 + B2B_TDIAGOBS + B2B_KICKOFFSETMIN) i (param XOR 0x8000) 0 s1)"

definition stage_pshifts_ext :: "b2b_loc \<Rightarrow> b2b \<Rightarrow> b2b_loc \<times> b2b" where
  "stage_pshifts_ext loc s =
     (let s1 = send_shift (fwlib_buildEvtidV1 (b_gid s) B2B_ECADO_B2B_PSHIFTEXT (flagsExt s) (sidExt s) (bpidExt s) 0)
                 (shift_param (pShiftExt s) (TH1Ext_as s) (TPhaseShiftDDS s)) s
      in (loc\<lparr>tTrig := (tTrig loc)\<lparr>b_ns := b_ns (tTrig loc) + b_ns (pShiftExt s1)\<rparr>\<rparr>, next_stage s1))"

definition stage_pshifts_inj :: "b2b_loc \<Rightarrow> b2b \<Rightarrow> b2b_loc \<times> b2b" where
  "stage_pshifts_inj loc s =
     (loc, next_stage (send_shift
        (fwlib_buildEvtidV1 (b_gid s) B2B_ECADO_B2B_PSHIFTINJ (flagsInj s) (sidInj s) (bpidInj s) 0)
        (shift_param (pShiftInj s) (TH1Inj_as s) (TPhaseShiftDDS s)) s))"

text \<open>The kicker of the extraction ring is triggered in any case, a late one with the error flag; that of the
  injection ring only when there is time.  \<open>Inl\<close>: there is no such kicker.\<close>

definition flag_late :: "u64 \<Rightarrow> b2b \<Rightarrow> bool \<times> b2b" where
  "flag_late t s =
     (case sys_time s of (now, s1) \<Rightarrow>
        if t < now + COMMON_LATELIMIT then (True, s1\<lparr>errorFlags := errorFlags s1 OR B2B_ERRFLAG_CBU\<rparr>)
        else (False, s1))"

definition stage_trigext :: "b2b_loc \<Rightarrow> b2b \<Rightarrow> (u32 \<times> b2b) + b2b" where
  "stage_trigext loc s =
     (let sendGid = getTrigGid True s in
      if sendGid = 0 then Inl (COMMON_STATUS_OUTOFRANGE, s)
      else
        let tTrigExt = b_ns (tTrig loc) + b_ns (cTrigExt_t s) in
        case sys_time s of (now, s1) \<Rightarrow>
          let fin = half_us (undef_u32 s1) (f_of_i32 (ucast (now - tCBS s1)));
              s2 = snd (flag_late tTrigExt s1)
          in Inr (next_stage (send_tm tTrigExt
               (fwlib_buildEvtidV1 sendGid B2B_ECADO_B2B_TRIGGEREXT (flagsExt s2) (sidExt s2) (bpidExt s2) (errorFlags s2))
               (paramExt s2) (push_bit 16 (ucast fin) OR ucast (offsetPrr_us s2)) s2)))"

definition stage_triginj :: "b2b_loc \<Rightarrow> b2b \<Rightarrow> (u32 \<times> b2b) + b2b" where
  "stage_triginj loc s =
     (let sendGid = getTrigGid False s in
      if sendGid = 0 then Inl (COMMON_STATUS_OUTOFRANGE, s)
      else
        let tTrigInj = b_ns (tTrig loc) + b_ns (cTrigInj_t s) in
        case flag_late tTrigInj s of (late, s1) \<Rightarrow>
          Inr (next_stage (if late then s1
               else send_tm tTrigInj
                 (fwlib_buildEvtidV1 sendGid B2B_ECADO_B2B_TRIGGERINJ (flagsInj s1) (sidInj s1) (bpidInj s1) (errorFlags s1))
                 (paramInj s1) 0 s1)))"

text \<open>All stages in their order, each taken when its state is the current one.\<close>

definition calc_stages :: "u32 \<Rightarrow> b2b_loc \<Rightarrow> b2b \<Rightarrow> (u32 \<times> b2b_loc \<times> b2b) option" where
  "calc_stages status loc s = do {
     let (loc1, s1) = (if mState s = B2B_MFSM_EXT_TKICK_C then stage_tkick loc s else (loc, s));
     let s2 = (if mState s1 = B2B_MFSM_EXT_PMEAS_S then stage_pmext loc1 s1 else s1);
     let s3 = (if mState s2 = B2B_MFSM_INJ_PMEAS_S then stage_pminj loc1 s2 else s2);
     let (loc4, s4) = (if mState s3 = B2B_MFSM_EXT_TNEXTRF_C then stage_tnextrf loc1 s3 else (loc1, s3));
     (st5, loc5, s5) \<leftarrow> (if mState s4 = B2B_MFSM_EXT_TFBEAT_C then stage_tfbeat status loc4 s4 else Some (status, loc4, s4));
     s6 \<leftarrow> (if mState s5 = B2B_MFSM_EXT_PSHIFT_C then stage_pshiftc_ext loc5 s5 else Some s5);
     s7 \<leftarrow> (if mState s6 = B2B_MFSM_INJ_PSHIFT_C then stage_pshiftc_inj loc5 s6 else Some s6);
     let (loc8, s8) = (if mState s7 = B2B_MFSM_EXT_PSHIFT_S then stage_pshifts_ext loc5 s7 else (loc5, s7));
     let (loc9, s9) = (if mState s8 = B2B_MFSM_INJ_PSHIFT_S then stage_pshifts_inj loc8 s8 else (loc8, s8));
     Some (st5, loc9, s9)
   }"

definition trig_stages :: "b2b_loc \<Rightarrow> b2b \<Rightarrow> (u32 \<times> b2b) + b2b" where
  "trig_stages loc s =
     (case (if mState s = B2B_MFSM_EXT_TRIG then stage_trigext loc s else Inr s) of
        Inl r \<Rightarrow> Inl r
      | Inr s1 \<Rightarrow> if mState s1 = B2B_MFSM_INJ_TRIG then stage_triginj loc s1 else Inr s1)"

section \<open>One call of doActionOperation\<close>

definition update_stat :: "eca_event \<Rightarrow> u32 \<Rightarrow> b2b_stat \<Rightarrow> b2b_stat" where
  "update_stat ev dn t =
     (let a = ev_action ev;
          t1 = t\<lparr>comLatency := ev_lat ev, offsDone := dn,
                 nEarly := nEarly t + of_bool (ea_early a), nConflict := nConflict t + of_bool (ea_conflict a),
                 nDelayed := nDelayed t + of_bool (ea_delayed a)\<rparr>;
          t2 = (if ev_slow ev
                then let f = ev_offs ev
                     in t1\<lparr>nSlow := nSlow t1 + 1, offsSlow := f,
                           offsSlowMin := (if f < offsSlowMin t1 then f else offsSlowMin t1),
                           offsSlowMax := (if f > offsSlowMax t1 then f else offsSlowMax t1)\<rparr>
                else t1)
      in t2\<lparr>comLatencyMax := (if comLatency t2 > comLatencyMax t2 then comLatency t2 else comLatencyMax t2),
            comLatencyMin := (if comLatency t2 < comLatencyMin t2 then comLatency t2 else comLatencyMin t2),
            offsDoneMax := (if offsDone t2 > offsDoneMax t2 then offsDone t2 else offsDoneMax t2),
            offsDoneMin := (if offsDone t2 < offsDoneMin t2 then offsDone t2 else offsDoneMin t2)\<rparr>)"

definition finish :: "eca_event \<Rightarrow> u64 \<Rightarrow> u32 \<Rightarrow> b2b \<Rightarrow> u32 \<times> b2b" where
  "finish ev startTime status s =
     (let s1 = (if flagClearAllSid s \<noteq> 0 then (clearAllSid s)\<lparr>flagClearAllSid := 0\<rparr> else s);
          late = (status = COMMON_STATUS_OK \<and> ea_late (ev_action ev));
          st = (if late then B2B_STATUS_LATEMESSAGE else status);
          s2 = (if late then s1\<lparr>stat := (stat s1)\<lparr>nLate := nLate (stat s1) + 1\<rparr>\<rparr> else s1)
      in case sys_time s2 of (now, s3) \<Rightarrow>
         case fwlib_wrCheckSyncState (s3\<lparr>stat := update_stat ev (ucast (now - startTime)) (stat s3)\<rparr>) of (w, s4) \<Rightarrow>
           (if w = COMMON_STATUS_WRBADSYNC then COMMON_STATUS_WRBADSYNC else st, s4))"

definition on_event :: "u32 \<Rightarrow> eca_event \<Rightarrow> b2b \<Rightarrow> (u32 \<times> b2b) + (u32 \<times> b2b_loc \<times> b2b)" where
  "on_event status ev s =
     (if ev_tag ev = B2B_ECADO_B2B_START then on_start (ev_action ev) s
      else if ev_tag ev = B2B_ECADO_B2B_PREXT then on_prext status (ev_action ev) s
      else if ev_tag ev = B2B_ECADO_B2B_PRINJ then on_prinj status (ev_action ev) s
      else Inl (status, s))"

definition doActionOperation_b2b :: "u32 \<Rightarrow> b2b \<Rightarrow> (u32 \<times> b2b) option" where
  "doActionOperation_b2b actStatus s = do {
     (ev, s1) \<leftarrow> fwlib_wait4ECAEvent2 1000 s;
     let (startTime, s2) = sys_time s1;
     case on_event actStatus ev s2 of
       Inl r \<Rightarrow> Some r
     | Inr (status, loc, s3) \<Rightarrow> do {
         (st, loc', s4) \<leftarrow> calc_stages status loc s3;
         Some (case trig_stages loc' s4 of Inl r \<Rightarrow> r | Inr s5 \<Rightarrow> finish ev startTime st s5)
       }
   }"

end
