(* ===== verification/B2b_Main.thy ===== *)
theory B2b_Main
  imports B2b
begin

text \<open>
  The frame of the central unit (modules/b2b/fw/b2b-cbu.c): entry and exit actions of the states, commands
  of the host, set-up of the shared memory, one pass of the main loop and the start.
\<close>

section \<open>Entry and exit actions\<close>

definition no_stat :: b2b_stat where
  "no_stat = \<lparr>nLate = 0, nEarly = 0, nConflict = 0, nDelayed = 0, nSlow = 0, offsSlow = 0, offsSlowMax = 0,
     offsSlowMin = 0xffffffff, comLatency = 0, comLatencyMax = 0, comLatencyMin = 0xffffffff, offsDone = 0,
     offsDoneMax = 0, offsDoneMin = 0xffffffff\<rparr>"

definition extern_clearDiag_b2b :: "b2b \<Rightarrow> b2b" where
  "extern_clearDiag_b2b s = s\<lparr>b_statusArray := 0, b_nTransfer := 0, transStat := 0, stat := no_stat\<rparr>"

definition extern_entryActionConfigured_b2b :: "b2b \<Rightarrow> (u32 \<times> b2b) option" where
  "extern_entryActionConfigured_b2b s =
     (let s1 = (clearAllSid (fwlib_clearDiag extern_clearDiag_b2b s))\<lparr>flagClearAllSid := 0\<rparr> in
      case fwlib_ebmInit 2000 0xffffffffffff 0xffffffff EBM_NOREPLY s1 of
        None \<Rightarrow> None
      | Some (st, s2) \<Rightarrow> Some (if st \<noteq> COMMON_STATUS_OK then (st, s2) else (st, fwlib_publishNICData s2)))"

partial_function (option) flush_eca_b2b :: "b2b \<Rightarrow> b2b option" where
  "flush_eca_b2b s =
     (case fwlib_wait4ECAEvent 1000 s of
        None \<Rightarrow> None
      | Some (tag, a, s1) \<Rightarrow> if tag \<noteq> COMMON_ECADO_TIMEOUT then flush_eca_b2b s1 else Some s1)"

text \<open>The words that entering the operation clears: settings, then published values.  The bucket number of
  the injection is missing, its pointer being that of the trigger correction.\<close>

definition operation_words :: "u32 list" where
  "operation_words =
     [B2B_SHARED_SET_GIDEXT, B2B_SHARED_SET_SIDEEXT, B2B_SHARED_SET_MODE, B2B_SHARED_SET_TH1EXTHI,
      B2B_SHARED_SET_TH1EXTLO, B2B_SHARED_SET_NHEXT, B2B_SHARED_SET_CPHASE, B2B_SHARED_SET_CTRIGEXT,
      B2B_SHARED_SET_CTRIGINJ, B2B_SHARED_SET_NBUCKEXT, B2B_SHARED_SET_FFINTUNE, B2B_SHARED_SET_FMBTUNE,
      B2B_SHARED_SET_GIDINJ, B2B_SHARED_SET_SIDEINJ, B2B_SHARED_SET_LSIDINJ, B2B_SHARED_SET_LBPIDINJ,
      B2B_SHARED_SET_LPARAMINJHI, B2B_SHARED_SET_LPARAMINJLO, B2B_SHARED_SET_TH1INJHI, B2B_SHARED_SET_TH1INJLO,
      B2B_SHARED_SET_NHINJ, pSharedSetNBuckInj,
      B2B_SHARED_GET_GID, B2B_SHARED_GET_SID, B2B_SHARED_GET_MODE, B2B_SHARED_GET_TH1EXTHI,
      B2B_SHARED_GET_TH1EXTLO, B2B_SHARED_GET_NHEXT, B2B_SHARED_GET_TH1INJHI, B2B_SHARED_GET_TH1INJLO,
      B2B_SHARED_GET_NHINJ, B2B_SHARED_GET_CPHASE, B2B_SHARED_GET_CTRIGEXT, B2B_SHARED_GET_CTRIGINJ,
      B2B_SHARED_GET_TBEATHI, B2B_SHARED_GET_TBEATLO]"

definition extern_entryActionOperation_b2b :: "b2b \<Rightarrow> (u32 \<times> b2b) option" where
  "extern_entryActionOperation_b2b s =
     (case flush_eca_b2b (fwlib_clearDiag extern_clearDiag_b2b s) of
        None \<Rightarrow> None
      | Some s1 \<Rightarrow> Some (COMMON_STATUS_OK, fold (\<lambda>w. b2b_wr w 0) operation_words s1))"

definition extern_exitActionOperation_b2b :: "b2b \<Rightarrow> u32 \<times> b2b" where
  "extern_exitActionOperation_b2b s = (COMMON_STATUS_OK, s)"

definition b2b_hooks where
  "b2b_hooks = \<lparr>entryActionConfigured = extern_entryActionConfigured_b2b,
     entryActionOperation = extern_entryActionOperation_b2b, exitActionOperation = extern_exitActionOperation_b2b\<rparr>"

section \<open>Commands of the host\<close>

definition cmdHandler_b2b :: "u32 \<Rightarrow> b2b \<Rightarrow> b2b" where
  "cmdHandler_b2b cmd s =
     (if cmd = B2B_CMD_CONFSUBMIT then snd (setSubmit s)
      else if cmd = B2B_CMD_CONFCLEAR then s\<lparr>flagClearAllSid := 1\<rparr>
      else s)"

section \<open>The main loop\<close>

definition b2b_act :: "u32 \<Rightarrow> u32 \<Rightarrow> u32 \<Rightarrow> b2b \<Rightarrow> (u32 \<times> u32 \<times> b2b) option" where
  "b2b_act reqState actState status s =
     (if actState = COMMON_STATE_OPREADY
      then map_option (\<lambda>(st, s1).
        (if st = COMMON_STATUS_WRBADSYNC \<or> st = COMMON_STATUS_ERROR then COMMON_STATE_ERROR else reqState, st, s1))
        (doActionOperation_b2b status s)
      else fwlib_doActionState reqState actState status s)"

definition update_status_b2b :: "u32 \<Rightarrow> b2b \<Rightarrow> b2b" where
  "update_status_b2b status s =
     (if status = COMMON_STATUS_OK then s\<lparr>b_statusArray := b_statusArray s OR 1\<rparr>
      else let s1 = (if bit (b_statusArray s) 0 then fwlib_incBadStatusCnt s else s)
           in s1\<lparr>b_statusArray := (b_statusArray s1 AND NOT 1) OR push_bit (unat status) 1\<rparr>)"

definition publish_transfer :: "b2b \<Rightarrow> b2b" where
  "publish_transfer s =
     (let t = stat s in
      fwlib_publishTransferStatus2 (b_nTransfer s) 0 (transStat s) (nLate t) (nEarly t) (nConflict t) (nDelayed t)
        (nSlow t) (offsSlow t) (offsSlowMax t) (offsSlowMin t) (comLatency t) (comLatencyMax t) (comLatencyMin t)
        (offsDone t) (offsDoneMax t) (offsDoneMin t) s)"

definition publish_get :: "b2b \<Rightarrow> b2b" where
  "publish_get s =
     fold (\<lambda>(off, v). b2b_wr off v)
       [(B2B_SHARED_GET_GID, b_gid s), (B2B_SHARED_GET_SID, b_sid s), (B2B_SHARED_GET_MODE, b_mode s),
        (B2B_SHARED_GET_TH1EXTHI, hiW (TH1Ext_as s)), (B2B_SHARED_GET_TH1EXTLO, loW (TH1Ext_as s)),
        (B2B_SHARED_GET_NHEXT, nHExt s), (B2B_SHARED_GET_TH1INJHI, hiW (TH1Inj_as s)),
        (B2B_SHARED_GET_TH1INJLO, loW (TH1Inj_as s)), (B2B_SHARED_GET_NHINJ, nHInj s),
        (B2B_SHARED_GET_CPHASE, fwlib_tps2tfns (cPhase_t s)), (B2B_SHARED_GET_CTRIGEXT, fwlib_tps2tfns (cTrigExt_t s)),
        (B2B_SHARED_GET_CTRIGINJ, fwlib_tps2tfns (cTrigInj_t s)), (B2B_SHARED_GET_TBEATHI, hiW (TBeat_as s)),
        (B2B_SHARED_GET_TBEATLO, loW (TBeat_as s))] s"

text \<open>One pass of the loop: requested, actual and published state, the status, which is kept from pass to
  pass, then the rest.\<close>

definition b2b_iter :: "u32 \<times> u32 \<times> u32 \<times> u32 \<times> b2b \<Rightarrow> (u32 \<times> u32 \<times> u32 \<times> u32 \<times> b2b) option" where
  "b2b_iter = (\<lambda>(reqState, actState, pubState, status, s). do {
     let (req1, cmd, s1) = fwlib_cmdHandler extern_clearDiag_b2b reqState s;
     (act, req2, st2, s2) \<leftarrow> fwlib_changeState b2b_hooks actState req1 status (cmdHandler_b2b cmd s1);
     (req3, st3, s3) \<leftarrow> b2b_act req2 act st2 s2;
     let s4 = update_status_b2b st3 s3;
     let s5 = (if pubState = COMMON_STATE_OPREADY \<and> act \<noteq> COMMON_STATE_OPREADY then fwlib_incBadStateCnt s4 else s4);
     let s6 = fwlib_publishState act (fwlib_publishStatusArray (b_statusArray s5) s5);
     Some (req3, act, act, st3, publish_get (publish_transfer s6))
   })"

section \<open>Start\<close>

text \<open>\<open>initSharedMem\<close>: \<open>clu\<close> and \<open>rams\<close> tell whether the cluster of CPUs and how many of their RAMs were found,
  \<open>adr\<close> their addresses.  The words behind the common part are cleared.  The external address is zero from
  power up when no RAM is found.\<close>

definition initSharedMem_b2b ::
  "bool \<Rightarrow> nat \<Rightarrow> (nat \<Rightarrow> u32) \<Rightarrow> nat \<Rightarrow> u32 \<Rightarrow> b2b \<Rightarrow> u32 \<times> u32 \<times> u32 \<times> b2b"
where
  "initSharedMem_b2b clu rams adr cpuId reqState s =
     (if \<not> clu \<or> rams = 0 then COMMON_STATE_FATAL else reqState,
      if rams = 0 then 0 else adr cpuId AND 0x7fffffff,
      B2B_SHARED_END,
      fold (\<lambda>k. b2b_wr (b2b_shared k) 0) [1..<41] s)"

definition b2b_start :: "bool \<Rightarrow> nat \<Rightarrow> (nat \<Rightarrow> u32) \<Rightarrow> nat \<Rightarrow> b2b \<Rightarrow> u32 \<times> u32 \<times> u32 \<times> u32 \<times> b2b" where
  "b2b_start clu rams adr cpuId s =
     (case initSharedMem_b2b clu rams adr cpuId COMMON_STATE_S0 (s\<lparr>b_nTransfer := 0\<rparr>) of
        (req, ext, sharedSize, s1) \<Rightarrow>
          (req, COMMON_STATE_UNKNOWN, COMMON_STATE_UNKNOWN, COMMON_STATUS_OK,
           fwlib_clearDiag extern_clearDiag_b2b
             (fwlib_init ext (SHARED_OFFS s1) sharedSize B2BCBU_FW_VERSION s1)))"

end
