(* ===== verification/B2b_Node.thy ===== *)
theory B2b_Node
  imports B2b_Main Fw_Program
begin

text \<open>
  What the measuring nodes of the bunch-to-bucket system have in common (modules/b2b/fw/b2b-pm.c and b2b-kd.c, where
  it is written out in each): status, counters and diagnostics, the end of a call of \<open>doActionOperation\<close>, one
  pass of the main loop and the set-up.  The locale says that an invariant which a node's own operations
  keep is kept by the whole program.
\<close>

section \<open>Constants (b2b.h)\<close>

definition B2BPM_FW_VERSION :: u32 where "B2BPM_FW_VERSION = 0x000816"
definition B2B_STATUS_PHASEFAILED :: u32 where "B2B_STATUS_PHASEFAILED = 16"
definition B2B_STATUS_NORF :: u32 where "B2B_STATUS_NORF = 19"
definition B2B_STATUS_NOKICK :: u32 where "B2B_STATUS_NOKICK = 21"

definition B2B_ECADO_TIMEOUT :: u32 where "B2B_ECADO_TIMEOUT = COMMON_ECADO_TIMEOUT"
definition B2B_ECADO_TLUINPUT1 :: u32 where "B2B_ECADO_TLUINPUT1 = 0xa01"
definition B2B_ECADO_TLUINPUT2 :: u32 where "B2B_ECADO_TLUINPUT2 = 0xa02"
definition B2B_ECADO_TLUINPUT3 :: u32 where "B2B_ECADO_TLUINPUT3 = 0xa03"
definition B2B_ECADO_TLUINPUT4 :: u32 where "B2B_ECADO_TLUINPUT4 = 0xa04"
definition B2B_ECADO_B2B_DIAGKICKEXT :: u32 where "B2B_ECADO_B2B_DIAGKICKEXT = 0x806"
definition B2B_ECADO_B2B_DIAGKICKINJ :: u32 where "B2B_ECADO_B2B_DIAGKICKINJ = 0x807"
definition B2B_ECADO_B2B_DIAGEXT :: u32 where "B2B_ECADO_B2B_DIAGEXT = 0x808"
definition B2B_ECADO_B2B_DIAGINJ :: u32 where "B2B_ECADO_B2B_DIAGINJ = 0x809"
definition B2B_ECADO_B2B_PDEXT :: u32 where "B2B_ECADO_B2B_PDEXT = 0x820"
definition B2B_ECADO_B2B_PDINJ :: u32 where "B2B_ECADO_B2B_PDINJ = 0x821"

lemmas node_ecado = B2B_ECADO_TIMEOUT_def B2B_ECADO_TLUINPUT1_def B2B_ECADO_TLUINPUT2_def B2B_ECADO_TLUINPUT3_def
  B2B_ECADO_TLUINPUT4_def B2B_ECADO_B2B_DIAGKICKEXT_def B2B_ECADO_B2B_DIAGKICKINJ_def B2B_ECADO_B2B_DIAGEXT_def
  B2B_ECADO_B2B_DIAGINJ_def B2B_ECADO_B2B_PDEXT_def B2B_ECADO_B2B_PDINJ_def

definition B2B_ERRFLAG_KDEXT :: u32 where "B2B_ERRFLAG_KDEXT = 0x2"
definition B2B_ERRFLAG_KDINJ :: u32 where "B2B_ERRFLAG_KDINJ = 0x8"
definition B2B_PRETRIGGERTR :: u64 where "B2B_PRETRIGGERTR = 20000"
definition B2B_AHEADT :: u64 where "B2B_AHEADT = 300000"
definition B2B_ACCEPTKMON :: u32 where "B2B_ACCEPTKMON = 10000"
definition B2B_ACCEPTKPROBE :: u32 where "B2B_ACCEPTKPROBE = 100"
definition B2B_NSAMPLES :: nat where "B2B_NSAMPLES = 32"
definition B2B_FW_USESUBNSFIT :: u32 where "B2B_FW_USESUBNSFIT = 1"

definition B2B_SHARED_GET_TKTRIGHI :: u32 where "B2B_SHARED_GET_TKTRIGHI = b2b_shared 37"
definition B2B_SHARED_GET_TKTRIGLO :: u32 where "B2B_SHARED_GET_TKTRIGLO = b2b_shared 38"
definition B2B_SHARED_GET_DKMON :: u32 where "B2B_SHARED_GET_DKMON = b2b_shared 39"
definition B2B_SHARED_GET_DKPROBE :: u32 where "B2B_SHARED_GET_DKPROBE = b2b_shared 40"

section \<open>State and entry actions\<close>

record node = fw +
  n_SHARED_OFFS :: u32
  n_statusArray :: u64
  n_nTransfer :: u32
  n_transStat :: u32
  n_stat :: b2b_stat

definition shm_put :: "u32 \<Rightarrow> u32 \<Rightarrow> 'a fw_scheme \<Rightarrow> 'a fw_scheme" where
  "shm_put off v s = s\<lparr>shm := (shm s)(off := v)\<rparr>"

definition clearDiag_node :: "'a node_scheme \<Rightarrow> 'a node_scheme" where
  "clearDiag_node s = s\<lparr>n_statusArray := 0, n_nTransfer := 0, n_transStat := 0, n_stat := no_stat\<rparr>"

text \<open>The part of the entry actions that follows the gates of the inputs.\<close>

definition configure_node :: "'a node_scheme \<Rightarrow> (u32 \<times> 'a node_scheme) option" where
  "configure_node s =
     (case fwlib_ebmInit 2000 0xffffffffffff 0xffffffff EBM_NOREPLY s of
        None \<Rightarrow> None
      | Some (st, s1) \<Rightarrow> Some (if st \<noteq> COMMON_STATUS_OK then (st, s1) else (st, fwlib_publishNICData s1)))"

partial_function (option) flush_eca_node :: "'a fw_scheme \<Rightarrow> 'a fw_scheme option" where
  "flush_eca_node s =
     (case fwlib_wait4ECAEvent 1000 s of
        None \<Rightarrow> None
      | Some (tag, a, s1) \<Rightarrow> if tag \<noteq> COMMON_ECADO_TIMEOUT then flush_eca_node s1 else Some s1)"

definition operation_node :: "u32 list \<Rightarrow> 'a node_scheme \<Rightarrow> (u32 \<times> 'a node_scheme) option" where
  "operation_node ws s =
     (case flush_eca_node (fwlib_clearDiag clearDiag_node s) of
        None \<Rightarrow> None
      | Some s1 \<Rightarrow> Some (COMMON_STATUS_OK, fold (\<lambda>w. shm_put w 0) ws s1))"

definition exit_node :: "'a node_scheme \<Rightarrow> u32 \<times> 'a node_scheme" where
  "exit_node s = (COMMON_STATUS_OK, s)"

section \<open>The end of a call of doActionOperation\<close>

text \<open>\<open>late\<close> is the flag of the message unless the handler has cleared it.\<close>

definition finish_node :: "eca_event \<Rightarrow> bool \<Rightarrow> u64 \<Rightarrow> u32 \<Rightarrow> 'a node_scheme \<Rightarrow> u32 \<times> 'a node_scheme" where
  "finish_node ev late startTime status s =
     (let isLate = (status = COMMON_STATUS_OK \<and> late);
          st = (if isLate then B2B_STATUS_LATEMESSAGE else status);
          s1 = (if isLate then s\<lparr>n_stat := (n_stat s)\<lparr>nLate := nLate (n_stat s) + 1\<rparr>\<rparr> else s);
          s2 = (if ev_tag ev = COMMON_ECADO_TIMEOUT then s1
                else case sys_time s1 of (now, s') \<Rightarrow>
                  s'\<lparr>n_stat := update_stat ev (ucast (now - startTime)) (n_stat s')\<rparr>)
      in case fwlib_wrCheckSyncState s2 of (w, s3) \<Rightarrow>
           (if w = COMMON_STATUS_WRBADSYNC then COMMON_STATUS_WRBADSYNC else st, s3))"

section \<open>The main loop\<close>

definition node_act ::
  "(u32 \<Rightarrow> 'a node_scheme \<Rightarrow> (u32 \<times> 'a node_scheme) option) \<Rightarrow>
   u32 \<Rightarrow> u32 \<Rightarrow> u32 \<Rightarrow> 'a node_scheme \<Rightarrow> (u32 \<times> u32 \<times> 'a node_scheme) option"
where
  "node_act operation reqState actState status s =
     (if actState = COMMON_STATE_OPREADY
      then map_option (\<lambda>(st, s1).
        (if st = COMMON_STATUS_WRBADSYNC \<or> st = COMMON_STATUS_ERROR then COMMON_STATE_ERROR else reqState, st, s1))
        (operation status s)
      else fwlib_doActionState reqState actState status s)"

definition update_status_node :: "u32 \<Rightarrow> 'a node_scheme \<Rightarrow> 'a node_scheme" where
  "update_status_node status s =
     (if status = COMMON_STATUS_OK then s\<lparr>n_statusArray := n_statusArray s OR 1\<rparr>
      else let s1 = (if bit (n_statusArray s) 0 then fwlib_incBadStatusCnt s else s)
           in s1\<lparr>n_statusArray := (n_statusArray s1 AND NOT 1) OR push_bit (unat status) 1\<rparr>)"

definition publish_node :: "'a node_scheme \<Rightarrow> 'a node_scheme" where
  "publish_node s =
     (let t = n_stat s in
      fwlib_publishTransferStatus2 (n_nTransfer s) 0 (n_transStat s) (nLate t) (nEarly t) (nConflict t) (nDelayed t)
        (nSlow t) (offsSlow t) (offsSlowMax t) (offsSlowMin t) (comLatency t) (comLatencyMax t) (comLatencyMin t)
        (offsDone t) (offsDoneMax t) (offsDoneMin t) s)"

text \<open>One pass: requested, actual and published state, then the rest; the status starts as ok in each pass.\<close>

definition node_iter ::
  "'a node_ext hooks \<Rightarrow> (u32 \<Rightarrow> 'a node_scheme \<Rightarrow> (u32 \<times> 'a node_scheme) option) \<Rightarrow>
   u32 \<times> u32 \<times> u32 \<times> 'a node_scheme \<Rightarrow> (u32 \<times> u32 \<times> u32 \<times> 'a node_scheme) option"
where
  "node_iter h operation = (\<lambda>(reqState, actState, pubState, s). do {
     let (req1, cmd, s1) = fwlib_cmdHandler clearDiag_node reqState s;
     (act, req2, st2, s2) \<leftarrow> fwlib_changeState h actState req1 COMMON_STATUS_OK s1;
     (req3, st3, s3) \<leftarrow> node_act operation req2 act st2 s2;
     let s4 = update_status_node st3 s3;
     let s5 = (if pubState = COMMON_STATE_OPREADY \<and> act \<noteq> COMMON_STATE_OPREADY then fwlib_incBadStateCnt s4 else s4);
     let s6 = fwlib_publishState act (fwlib_publishStatusArray (n_statusArray s5) s5);
     Some (req3, act, act, publish_node s6)
   })"

section \<open>Start\<close>

text \<open>The set-up of the shared memory, as in the central unit.\<close>

definition initSharedMem_node ::
  "bool \<Rightarrow> nat \<Rightarrow> (nat \<Rightarrow> u32) \<Rightarrow> nat \<Rightarrow> u32 \<Rightarrow> 'a node_scheme \<Rightarrow> u32 \<times> u32 \<times> u32 \<times> 'a node_scheme"
where
  "initSharedMem_node clu rams adr cpuId reqState s =
     (if \<not> clu \<or> rams = 0 then COMMON_STATE_FATAL else reqState,
      if rams = 0 then 0 else adr cpuId AND 0x7fffffff,
      B2B_SHARED_END,
      fold (\<lambda>k. shm_put (b2b_shared k) 0) [1..<41] s)"

text \<open>\<open>ver\<close> is the version, \<open>swapped\<close> tells whether the program passes offset and size of the shared
  memory to \<open>fwlib_init\<close> in the wrong order.\<close>

definition node_start ::
  "u32 \<Rightarrow> bool \<Rightarrow> bool \<Rightarrow> nat \<Rightarrow> (nat \<Rightarrow> u32) \<Rightarrow> nat \<Rightarrow> 'a node_scheme \<Rightarrow> u32 \<times> u32 \<times> u32 \<times> 'a node_scheme"
where
  "node_start ver swapped clu rams adr cpuId s =
     (case initSharedMem_node clu rams adr cpuId COMMON_STATE_S0 (s\<lparr>n_nTransfer := 0\<rparr>) of
        (req, ext, sharedSize, s1) \<Rightarrow>
          (req, COMMON_STATE_UNKNOWN, COMMON_STATE_UNKNOWN,
           fwlib_clearDiag clearDiag_node
             (if swapped then fwlib_init ext sharedSize (n_SHARED_OFFS s1) ver s1
              else fwlib_init ext (n_SHARED_OFFS s1) sharedSize ver s1)))"

end
