(* ===== verification/B2b_Pm.thy ===== *)
theory B2b_Pm
  imports B2b_Node
begin

text \<open>
  The node that measures the phase of a ring (modules/b2b/fw/b2b-pm.c): sorting of the time stamps, the fit of the
  phase, acquisition of time stamps from an input, and the three pairs of timing messages it answers: phase
  measurement, match of the kicker trigger, phase diagnostic.
\<close>

section \<open>State\<close>

text \<open>\<open>pm_TH1_as\<close> to \<open>TMeas_us\<close> are the static variables of \<open>doActionOperation\<close>, zero from power up; \<open>stack_dt\<close> is
  what its local variable \<open>dtPhase_as\<close> holds when nothing has been assigned to it.\<close>

record pm = node +
  tStamp :: "u64 list"
  pm_TH1_as :: u64
  pm_tH1_t :: b2bt
  flagPMError :: u32
  flagMatchDone :: u32
  flagPhaseDone :: u32
  dtMatch_as :: u64
  nSamples :: u32
  TMeas :: u64
  TMeas_us :: u32
  stack_dt :: u64

section \<open>Sorting\<close>

text \<open>The inner loop, which moves the stamps above \<open>tmp\<close> up by one from index \<open>j\<close> down, and puts \<open>tmp\<close> below them.\<close>

fun shift_down :: "u64 \<Rightarrow> nat \<Rightarrow> u64 list \<Rightarrow> u64 list" where
  "shift_down tmp 0 ts = ts[0 := tmp]"
| "shift_down tmp (Suc j) ts =
     (if ts ! j > tmp then shift_down tmp j (ts[Suc j := ts ! j]) else ts[Suc j := tmp])"

definition insertionSort :: "u64 list \<Rightarrow> nat \<Rightarrow> u64 list" where
  "insertionSort stamps n = fold (\<lambda>i ts. shift_down (ts ! i) i ts) [1..<n] stamps"

section \<open>Fitting the phase\<close>

text \<open>Sum, largest and smallest of the deviations that are small enough, and their number.\<close>

record pm_fit =
  sum_deviation_as :: u64
  max_deviation_as :: u64
  min_deviation_as :: u64
  nGood :: nat

text \<open>One stamp; the periods passed since the first are \<open>sum_rfperiods_as\<close>.\<close>

definition fit_step :: "u64 \<Rightarrow> u64 \<Rightarrow> u64 \<Rightarrow> pm_fit \<times> u64 \<Rightarrow> pm_fit \<times> u64" where
  "fit_step TH1_as tFirst_ns t = (\<lambda>(f, sum_rfperiods_as).
     (let dev = (t - tFirst_ns) * one_ns_as - sum_rfperiods_as;
          abs_dev = (if sint dev < 0 then - dev else dev)
      in (if sint abs_dev < sint (drop_bit 2 TH1_as)
          then f\<lparr>sum_deviation_as := sum_deviation_as f + dev, nGood := nGood f + 1,
                 max_deviation_as := (if sint dev > sint (max_deviation_as f) then dev else max_deviation_as f),
                 min_deviation_as := (if sint dev < sint (min_deviation_as f) then dev else min_deviation_as f)\<rparr>
          else f, sum_rfperiods_as + TH1_as)))"

definition fit_stamps :: "u64 \<Rightarrow> u64 \<Rightarrow> u64 list \<Rightarrow> pm_fit" where
  "fit_stamps TH1_as tFirst_ns ts =
     fst (fold (fit_step TH1_as tFirst_ns) ts
       (\<lparr>sum_deviation_as = 0, max_deviation_as = 0, min_deviation_as = 0, nGood = 0\<rparr>, 0))"

definition phaseFitAverage :: "u64 \<Rightarrow> nat \<Rightarrow> u64 list \<Rightarrow> b2bt \<Rightarrow> u32 \<times> b2bt" where
  "phaseFitAverage TH1_as n tS phase =
     (if TH1_as = 0 then (B2B_STATUS_PHASEFAILED, phase)
      else if n < 3 then (B2B_STATUS_PHASEFAILED, phase)
      else
        let f = fit_stamps TH1_as (tS ! 1) (map ((!) tS) [1..<n]) in
        if nGood f < 1
        then (B2B_STATUS_PHASEFAILED, \<lparr>b_ns = 0x7fffffffffffffff, b_ps = 0x7fffffff, b_dps = 0x7fffffff\<rparr>)
        else
          let ave = sint (sum_deviation_as f) sdiv int (nGood f);
              subns = signed_drop_bit 1 (max_deviation_as f + min_deviation_as f);
              window_as = ucast (max_deviation_as f - min_deviation_as f) :: u32
          in (COMMON_STATUS_OK, fwlib_cleanB2bt
               \<lparr>b_ns = tS ! 1,
                b_ps = word_of_int ((if B2B_FW_USESUBNSFIT \<noteq> 0 then sint subns else ave) sdiv 1000000),
                b_dps = drop_bit 20 window_as\<rparr>))"

text \<open>\<open>None\<close> is the division by a period of less than a nanosecond.  Comparing \<open>dt\<close> with \<open>maxDelta\<close> is
  unsigned.\<close>

definition phaseFit :: "u64 \<Rightarrow> nat \<Rightarrow> u64 list \<Rightarrow> b2bt \<Rightarrow> (u32 \<times> b2bt) option" where
  "phaseFit period_as n tS phase =
     (if period_as = 0 then Some (B2B_STATUS_PHASEFAILED, phase)
      else if n < 3 then Some (B2B_STATUS_PHASEFAILED, phase)
      else
        let usedIdx = n div 2;
            periodNs = ucast (period_as div one_ns_as) :: u32;
            maxDelta = word_of_int (sint periodNs sdiv 10) :: u32;
            diff = ucast (tS ! (usedIdx + 1) - tS ! usedIdx) :: u32
        in if periodNs = 0 then None
           else
             let delta = word_of_int (sint diff smod sint periodNs) :: u32;
                 dt = (if sint delta > sint (signed_drop_bit 1 periodNs) then periodNs - delta else delta)
             in if dt > maxDelta then Some (B2B_STATUS_PHASEFAILED, phase)
                else case phaseFitAverage period_as n tS phase of (st, p) \<Rightarrow>
                  if st \<noteq> COMMON_STATUS_OK
                  then Some (COMMON_STATUS_OK, \<lparr>b_ns = tS ! usedIdx, b_ps = 0, b_dps = 2000\<rparr>)
                  else Some (st, p))"

section \<open>Time stamps\<close>

text \<open>Gate \<open>io\<close> is opened for the interval of the measurement, then the queue is read.  Only the \<open>nReq\<close>
  first entries of the array are written.\<close>

partial_function (option) acquire_loop ::
  "u32 \<Rightarrow> nat \<Rightarrow> u64 list \<Rightarrow> nat \<Rightarrow> 'a fw_scheme \<Rightarrow> (u64 list \<times> nat \<times> 'a fw_scheme) option"
where
  "acquire_loop tag nReq ts nRec s =
     (if nRec < nReq
      then case fwlib_wait4ECAEvent 1 s of
             None \<Rightarrow> None
           | Some (ecaAction, a, s1) \<Rightarrow>
               let ts1 = (if ecaAction = tag then ts[nRec := ea_deadline a] else ts);
                   n1 = (if ecaAction = tag then nRec + 1 else nRec)
               in if ecaAction = B2B_ECADO_TIMEOUT then Some (ts1, n1, s1) else acquire_loop tag nReq ts1 n1 s1
      else Some (ts, nRec, s))"

definition acquireTimestamps :: "u64 list \<Rightarrow> nat \<Rightarrow> u32 \<Rightarrow> u32 \<Rightarrow> 'a fw_scheme \<Rightarrow> (u64 list \<times> nat \<times> 'a fw_scheme) option" where
  "acquireTimestamps ts nReq io tag s =
     acquire_loop tag nReq ts 0 (snd (fwlib_ioCtrlSetGate 0 io (snd (fwlib_ioCtrlSetGate 1 io s))))"

text \<open>The stamps of one measurement, sorted when there are three.\<close>

definition acquire_pm :: "pm \<Rightarrow> (nat \<times> pm) option" where
  "acquire_pm s =
     (case acquireTimestamps (tStamp s) (unat (nSamples s)) 2 B2B_ECADO_TLUINPUT3 s of
        None \<Rightarrow> None
      | Some (ts, nInput, s1) \<Rightarrow>
          Some (nInput, s1\<lparr>tStamp := (if nInput > 2 then insertionSort ts nInput else ts)\<rparr>))"

section \<open>Phase measurement\<close>

definition samples_of :: "u64 \<Rightarrow> u32" where
  "samples_of TH1 =
     (if TH1 > 20000000000000 then 3
      else if TH1 > 10000000000000 then of_nat B2B_NSAMPLES div 8
      else if TH1 > 5000000000000 then of_nat B2B_NSAMPLES div 4
      else if TH1 > 2500000000000 then of_nat B2B_NSAMPLES div 2
      else of_nat B2B_NSAMPLES)"

definition pm_request :: "eca_action \<Rightarrow> pm \<Rightarrow> pm" where
  "pm_request a s =
     (let p = ea_param a;
          s1 = shm_put B2B_SHARED_GET_TH1EXTHI (ucast (drop_bit 32 p AND 0x000fffff))
              (shm_put B2B_SHARED_GET_TH1EXTLO (ucast (p AND 0xffffffff))
              (shm_put B2B_SHARED_GET_NHEXT (ucast (drop_bit 56 p AND 0xff))
              (shm_put B2B_SHARED_GET_GID (ev_gid (ea_id a))
              (shm_put B2B_SHARED_GET_SID (ev_sid (ea_id a)) s))));
          TH1 = p AND 0x000fffffffffffff;
          n = samples_of TH1;
          w = ucast n * drop_bit 30 TH1
      in s1\<lparr>pm_TH1_as := TH1, flagMatchDone := 0, flagPhaseDone := 0, flagPMError := 0,
            pm_tH1_t := (pm_tH1_t s1)\<lparr>b_ns := 0x6fffffffffffffff\<rparr>, nSamples := n, TMeas := w,
            TMeas_us := ucast (drop_bit 10 w) + 16\<rparr>)"

text \<open>The message for the monitoring of the processing time.\<close>

definition monitor_tm :: "u64 \<Rightarrow> eca_event \<Rightarrow> pm \<Rightarrow> pm" where
  "monitor_tm now ev s =
     snd (fwlib_ecaWriteTM now
       (fwlib_buildEvtidV1 0xfff (ev_tag ev) 0 (ev_sid (ea_id (ev_action ev))) (ev_bpid (ea_id (ev_action ev))) 0)
       0xdeadbeef 0 1 s)"

definition tef_of :: "b2bt \<Rightarrow> u32" where
  "tef_of t = (ucast (ucast (b_ps t) :: u16)) OR push_bit 16 (ucast (ucast (b_dps t) :: u16))"

definition pm_answer :: "u32 \<Rightarrow> eca_event \<Rightarrow> pm \<Rightarrow> pm" where
  "pm_answer sendEvtNo ev s =
     (let i = ea_id (ev_action ev) in
      case sys_time s of (now, s1) \<Rightarrow>
        case sys_time (snd (fwlib_ebmWriteTM (now + B2B_AHEADT)
               (fwlib_buildEvtidV1 (ev_gid i) sendEvtNo 0 (ev_sid i) (ev_bpid i) (flagPMError s1))
               (b_ns (pm_tH1_t s1)) (tef_of (pm_tH1_t s1)) 0 s1)) of (sysTime, s2) \<Rightarrow>
          let s3 = monitor_tm sysTime ev s2
          in s3\<lparr>n_stat := (n_stat s3)\<lparr>offsDone := ucast (sysTime - ea_deadline (ev_action ev))\<rparr>,
                n_transStat := b_dps (pm_tH1_t s3), n_nTransfer := n_nTransfer s3 + 1\<rparr>)"

definition on_pm :: "bool \<Rightarrow> u32 \<Rightarrow> eca_event \<Rightarrow> pm \<Rightarrow> (u32 \<times> pm) option" where
  "on_pm ext status ev s =
     (case acquire_pm (pm_request (ev_action ev) s) of
        None \<Rightarrow> None
      | Some (nInput, s1) \<Rightarrow>
          (case phaseFit (pm_TH1_as s1) nInput (tStamp s1) (pm_tH1_t s1) of
             None \<Rightarrow> None
           | Some (st, t) \<Rightarrow>
               let s2 = s1\<lparr>pm_tH1_t := t,
                           flagPMError := (if st \<noteq> COMMON_STATUS_OK
                             then (if ext then B2B_ERRFLAG_PMEXT else B2B_ERRFLAG_PMINJ) else flagPMError s1)\<rparr>;
                   status' = (if st \<noteq> COMMON_STATUS_OK
                              then (if nInput < 3 then B2B_STATUS_NORF else B2B_STATUS_PHASEFAILED) else status)
               in Some (status', pm_answer (if ext then B2B_ECADO_B2B_PREXT else B2B_ECADO_B2B_PRINJ) ev s2)))"

section \<open>Match of the trigger and phase diagnostic\<close>

text \<open>The reading of the clock determines how long to wait.\<close>

definition on_match :: "u32 \<Rightarrow> eca_event \<Rightarrow> pm \<Rightarrow> (u32 \<times> pm) option" where
  "on_match status ev s =
     (if flagPMError s \<noteq> 0 then Some (status, s)
      else
        let reqDeadline = ea_deadline (ev_action ev) + B2B_PRETRIGGERTR in
        case acquire_pm (snd (sys_time s)) of
          None \<Rightarrow> None
        | Some (nInput, s1) \<Rightarrow>
            if nInput > 2
            then (case phaseFit (pm_TH1_as s1) nInput (tStamp s1) no_b2bt of
                    None \<Rightarrow> None
                  | Some (st, t) \<Rightarrow> Some (status,
                      if st = COMMON_STATUS_OK
                      then s1\<lparr>dtMatch_as := ((reqDeadline - b_ns t) * 1000 - scast (b_ps t)) * 1000000, flagMatchDone := 1\<rparr>
                      else s1))
            else Some (status, s1))"

definition f_of_i64 :: "u64 \<Rightarrow> u32" where
  "f_of_i64 n = f_bits (fl_round 24 8 (sint n < 0) (nat \<bar>sint n\<bar>) 1 0)"

text \<open>Attoseconds as \<open>float\<close> with nanoseconds.\<close>

definition as_to_tfns :: "u64 \<Rightarrow> u32" where
  "as_to_tfns d = f_of_d (d_div (d_of_f (f_of_i64 d)) d_1e9)"

text \<open>The distance of two phases, modulo the period, nearest to zero; the modulo is that of unsigned numbers.\<close>

definition phase_dist :: "b2bt \<Rightarrow> b2bt \<Rightarrow> u64 \<Rightarrow> u64" where
  "phase_dist t t0 TH1 =
     (let d = (b_ns t - b_ns t0) * 1000000000 + scast ((b_ps t - b_ps t0) * 1000000);
          r = d mod TH1
      in if r > drop_bit 1 TH1 then r - TH1 else r)"

definition pd_answer :: "u32 \<Rightarrow> u64 \<Rightarrow> eca_event \<Rightarrow> pm \<Rightarrow> pm" where
  "pd_answer sendEvtNo dtPhase_as ev s =
     (let i = ea_id (ev_action ev);
          hi = (if flagPhaseDone s \<noteq> 0 then as_to_tfns dtPhase_as else 0x7fffffff);
          lo = (if flagMatchDone s \<noteq> 0 then as_to_tfns (dtMatch_as s) else 0x7fffffff)
      in case sys_time s of (now, s1) \<Rightarrow>
           case sys_time (snd (fwlib_ebmWriteTM (now + COMMON_AHEADT)
                  (fwlib_buildEvtidV1 (ev_gid i) sendEvtNo 0 (ev_sid i) (ev_bpid i) 0)
                  (push_bit 32 (ucast hi) OR ucast lo) 0 0 s1)) of (now2, s2) \<Rightarrow>
             monitor_tm now2 ev s2)"

definition on_pd :: "bool \<Rightarrow> u32 \<Rightarrow> eca_event \<Rightarrow> pm \<Rightarrow> (u32 \<times> pm) option" where
  "on_pd ext status ev s =
     (let no = (if ext then B2B_ECADO_B2B_DIAGEXT else B2B_ECADO_B2B_DIAGINJ) in
      case acquire_pm s of
        None \<Rightarrow> None
      | Some (nInput, s1) \<Rightarrow>
          if nInput > 2
          then (case phaseFit (pm_TH1_as s1) nInput (tStamp s1) no_b2bt of
                  None \<Rightarrow> None
                | Some (st, t) \<Rightarrow> Some (status,
                    if st = COMMON_STATUS_OK
                    then pd_answer no (phase_dist t (pm_tH1_t s1) (pm_TH1_as s1)) ev (s1\<lparr>flagPhaseDone := 1\<rparr>)
                    else pd_answer no (stack_dt s1) ev s1))
          else Some (status, pd_answer no (stack_dt s1) ev s1))"

section \<open>One call of doActionOperation\<close>

text \<open>Anything but the six messages is taken from the queue and nothing more; its late flag is ignored.\<close>

definition on_event_pm :: "u32 \<Rightarrow> eca_event \<Rightarrow> pm \<Rightarrow> (bool \<times> u32 \<times> pm) option" where
  "on_event_pm status ev s =
     (let late = ea_late (ev_action ev) in
      if ev_tag ev = B2B_ECADO_B2B_PMEXT \<or> ev_tag ev = B2B_ECADO_B2B_PMINJ
      then map_option (Pair late) (on_pm (ev_tag ev = B2B_ECADO_B2B_PMEXT) status ev s)
      else if ev_tag ev = B2B_ECADO_B2B_TRIGGEREXT \<or> ev_tag ev = B2B_ECADO_B2B_TRIGGERINJ
      then map_option (Pair late) (on_match status ev s)
      else if ev_tag ev = B2B_ECADO_B2B_PDEXT \<or> ev_tag ev = B2B_ECADO_B2B_PDINJ
      then map_option (Pair late) (on_pd (ev_tag ev = B2B_ECADO_B2B_PDEXT) status ev s)
      else Some (False, status, s))"

definition doActionOperation_pm :: "u32 \<Rightarrow> pm \<Rightarrow> (u32 \<times> pm) option" where
  "doActionOperation_pm actStatus s = do {
     (ev, s1) \<leftarrow> fwlib_wait4ECAEvent2 1000 s;
     let (startTime, s2) = sys_time s1;
     (late, status, s3) \<leftarrow> on_event_pm actStatus ev s2;
     Some (finish_node ev late startTime status s3)
   }"

section \<open>The program\<close>

definition extern_entryActionConfigured_pm :: "pm \<Rightarrow> (u32 \<times> pm) option" where
  "extern_entryActionConfigured_pm s = configure_node (snd (fwlib_ioCtrlSetGate 0 2 s))"

definition operation_words_pm :: "u32 list" where
  "operation_words_pm =
     [B2B_SHARED_GET_TH1EXTHI, B2B_SHARED_GET_TH1EXTLO, B2B_SHARED_GET_NHEXT, B2B_SHARED_GET_GID, B2B_SHARED_GET_SID]"

definition pm_hooks where
  "pm_hooks = \<lparr>entryActionConfigured = extern_entryActionConfigured_pm,
     entryActionOperation = operation_node operation_words_pm, exitActionOperation = exit_node\<rparr>"

definition pm_iter :: "u32 \<times> u32 \<times> u32 \<times> pm \<Rightarrow> (u32 \<times> u32 \<times> u32 \<times> pm) option" where
  "pm_iter = node_iter pm_hooks doActionOperation_pm"

definition pm_start :: "bool \<Rightarrow> nat \<Rightarrow> (nat \<Rightarrow> u32) \<Rightarrow> nat \<Rightarrow> pm \<Rightarrow> u32 \<times> u32 \<times> u32 \<times> pm" where
  "pm_start = node_start B2BPM_FW_VERSION False"

end
