(* ===== verification/Fw_Time.thy ===== *)
theory Fw_Time
  imports Fwlib
begin

text \<open>
  Times with picoseconds (common-fwlib.c): the normal form of a time, and advancing a
  time by full periods of a radio frequency.
\<close>

section \<open>Normal form\<close>

lemma step_1000:
  "(1500 + x) div 1000 = (x + 500) div 1000 + (1 :: int)" "(1500 + x) mod 1000 = (x + 500) mod (1000 :: int)"
  "(x - 500) div 1000 = (x + 500) div 1000 - (1 :: int)" "(x - 500) mod 1000 = (x + 500) mod (1000 :: int)"
proof -
  have "1500 + x = (x + 500) + 1000" "x + 500 = (x - 500) + 1000" by simp_all
  thus "(1500 + x) div 1000 = (x + 500) div 1000 + 1" "(1500 + x) mod 1000 = (x + 500) mod 1000"
    "(x - 500) div 1000 = (x + 500) div 1000 - 1" "(x - 500) mod 1000 = (x + 500) mod 1000"
    by (simp_all only: div_add_self2 mod_add_self2 zero_neq_numeral)
qed

lemma clean_up_spec:
  "b_ns (clean_up t) + word_of_int ((sint (b_ps (clean_up t)) + 500) div 1000) = b_ns t + word_of_int ((sint (b_ps t) + 500) div 1000)
   \<and> (sint (b_ps (clean_up t)) + 500) mod 1000 = (sint (b_ps t) + 500) mod 1000
   \<and> - 500 \<le> sint (b_ps (clean_up t)) \<and> b_dps (clean_up t) = b_dps t"
proof (induction t rule: clean_up.induct)
  case (1 t)
  show ?case
  proof (cases "sint (b_ps t) < - 500")
    case True
    have s: "sint (b_ps t + 1000) = sint (b_ps t) + 1000"
      using True sint_ge[of "b_ps t"] by (simp add: signed_take_bit_int_eq_self sint_word_ariths(1))
    show ?thesis using 1[OF True] True s step_1000[of "sint (b_ps t)"] by (simp add: clean_up.simps[of t])
  qed (simp add: clean_up.simps)
qed

lemma clean_down_spec:
  "- 500 \<le> sint (b_ps t) \<Longrightarrow>
   b_ns (clean_down t) = b_ns t + word_of_int ((sint (b_ps t) + 500) div 1000)
   \<and> sint (b_ps (clean_down t)) = (sint (b_ps t) + 500) mod 1000 - 500 \<and> b_dps (clean_down t) = b_dps t"
proof (induction t rule: clean_down.induct)
  case (1 t)
  show ?case
  proof (cases "500 \<le> sint (b_ps t)")
    case True
    have s: "sint (b_ps t - 1000) = sint (b_ps t) - 1000"
      using True sint_lt[of "b_ps t"] by (simp add: signed_take_bit_int_eq_self sint_word_ariths(2))
    show ?thesis using 1(1)[OF True] True s step_1000[of "sint (b_ps t)"] by (simp add: clean_down.simps[of t])
  next
    case False
    have "(sint (b_ps t) + 500) div 1000 = 0" "(sint (b_ps t) + 500) mod 1000 = sint (b_ps t) + 500"
      using False 1(2) by simp_all
    thus ?thesis using False by (simp add: clean_down.simps)
  qed
qed

lemma clean_spec:
  "b_ns (fwlib_cleanB2bt t) = b_ns t + word_of_int ((sint (b_ps t) + 500) div 1000)"
  "sint (b_ps (fwlib_cleanB2bt t)) = (sint (b_ps t) + 500) mod 1000 - 500" "b_dps (fwlib_cleanB2bt t) = b_dps t"
  using clean_up_spec[of t] clean_down_spec[of "clean_up t"] by (simp_all add: fwlib_cleanB2bt_def)

text \<open>
  However far the fraction is off, cleaning a time ends, and is rounding to the nearest nanosecond:
  the fraction comes into the range from -500 to 499 ps and the nanoseconds carry the difference.
\<close>

theorem cleanB2bt_normal:
  "b_ns (fwlib_cleanB2bt t) = b_ns t + word_of_int ((sint (b_ps t) + 500) div 1000) \<and>
   sint (b_ps (fwlib_cleanB2bt t)) = (sint (b_ps t) + 500) mod 1000 - 500 \<and>
   b_dps (fwlib_cleanB2bt t) = b_dps t \<and> fwlib_cleanB2bt (fwlib_cleanB2bt t) = fwlib_cleanB2bt t"
proof -
  let ?t = "fwlib_cleanB2bt t"
  have "0 \<le> sint (b_ps ?t) + 500" "sint (b_ps ?t) + 500 < 1000" unfolding clean_spec(2) by simp_all
  hence "sint (b_ps (fwlib_cleanB2bt ?t)) = sint (b_ps ?t)" "b_ns (fwlib_cleanB2bt ?t) = b_ns ?t"
    unfolding clean_spec[of ?t] by simp_all
  hence "fwlib_cleanB2bt ?t = ?t" using clean_spec(3)[of ?t] by (simp add: signed_word_eqI)
  thus ?thesis using clean_spec[of t] by simp
qed

section \<open>Advancing by full periods\<close>

lemma sdiv_close: "\<bar>f - 1000000 * (f sdiv 1000000)\<bar> < (1000000 :: int)"
proof (cases "0 \<le> f")
  case True
  hence "f sdiv 1000000 = f div 1000000" by (cases "f = 0") (simp_all add: signed_divide_int_def)
  thus ?thesis by (simp add: minus_mult_div_eq_mod)
next
  case False
  hence "f sdiv 1000000 = - ((- f) div 1000000)" by (simp add: signed_divide_int_def)
  moreover have "- f - 1000000 * ((- f) div 1000000) = (- f) mod 1000000" by (simp add: minus_mult_div_eq_mod)
  moreover have "0 \<le> (- f) mod 1000000" "(- f) mod 1000000 < 1000000" by simp_all
  ultimately show ?thesis by linarith
qed

lemma sdiv_bound: "\<bar>f\<bar> \<le> 500000000 \<Longrightarrow> \<bar>f sdiv 1000000\<bar> \<le> (500 :: int)"
  using sdiv_close[of f] by linarith

lemma uint_of_int: "0 \<le> x \<Longrightarrow> x < 18446744073709551616 \<Longrightarrow> uint (word_of_int x :: u64) = x"
  by (simp add: uint_word_of_int)

text \<open>
  Advancing a time is from \<open>t1\<close> by the smallest number of periods that leads past \<open>t2\<close>; the
  result is off from that by less than one picosecond.  Times up to one second apart with clean fractions, and
  periods of up to four seconds, keep every intermediate result within 64 bits.
\<close>

theorem advanceTimePs_next:
  fixes t1 t2 :: b2bt and T_as :: u64
  defines "D \<equiv> (int (unat (b_ns t2)) - int (unat (b_ns t1))) * 1000 + (sint (b_ps t2) - sint (b_ps t1))"
    and "T \<equiv> int (unat T_as)" and "r \<equiv> fwlib_advanceTimePs t1 t2 T_as"
  assumes T: "0 < T" "T \<le> 4000000000000000000" and D: "0 \<le> D"
    and ns: "b_ns t1 \<le> b_ns t2" "b_ns t2 - b_ns t1 \<le> 1000000000"
    and ps: "\<bar>sint (b_ps t1)\<bar> \<le> 500" "\<bar>sint (b_ps t2)\<bar> \<le> 500"
  shows "\<exists>n \<ge> 1. D * 1000000 < n * T \<and> n * T \<le> D * 1000000 + T \<and>
    \<bar>(1000 * int (unat (b_ns r - b_ns t1)) + (sint (b_ps r) - sint (b_ps t1))) * 1000000 - n * T\<bar> < 1000000 \<and>
    \<bar>sint (b_ps r) - sint (b_ps t1)\<bar> \<le> 500 \<and> b_dps r = b_dps t1"
proof -
  have uT: "uint T_as = T" by (simp add: T_def)
  have d1: "int (unat (b_ns t2)) - int (unat (b_ns t1)) \<le> 1000000000"
  proof -
    have "unat (b_ns t2) - unat (b_ns t1) \<le> 1000000000"
      using ns(2) unat_sub[OF ns(1)] by (simp add: word_le_nat_alt)
    thus ?thesis by linarith
  qed
  have "(b_ns t2 - b_ns t1) * 1000 + scast (b_ps t2 - b_ps t1) = word_of_int D"
  proof -
    have "sint (b_ps t2 - b_ps t1) = sint (b_ps t2) - sint (b_ps t1)"
      using ps by (simp add: sint_word_ariths(2) signed_take_bit_int_eq_self)
    hence "(scast (b_ps t2 - b_ps t1) :: u64) = word_of_int (sint (b_ps t2) - sint (b_ps t1))"
      by (simp only: scast_eq)
    thus ?thesis by (simp add: D_def)
  qed
  moreover have D2: "D * 1000000 \<le> 1000001000000000000" using d1 ps by (simp add: D_def)
  ultimately have as: "((b_ns t2 - b_ns t1) * 1000 + scast (b_ps t2 - b_ps t1)) * 1000000 = word_of_int (D * 1000000)"
    and as2: "uint (word_of_int (D * 1000000) :: u64) = D * 1000000"
    using D by (simp, intro uint_of_int) simp_all
  define n where "n = D * 1000000 div T + 1"
  have n: "1 \<le> n" "D * 1000000 < n * T" "n * T \<le> D * 1000000 + T"
  proof -
    show "1 \<le> n" using D T by (simp add: n_def pos_imp_zdiv_nonneg_iff)
    have "D * 1000000 = D * 1000000 div T * T + D * 1000000 mod T" by simp
    moreover have "0 \<le> D * 1000000 mod T" "D * 1000000 mod T < T" using T by simp_all
    moreover have "n * T = D * 1000000 div T * T + T" by (simp add: n_def algebra_simps)
    ultimately show "D * 1000000 < n * T" "n * T \<le> D * 1000000 + T" by linarith+
  qed
  define I where "I = n * T"
  have I: "0 \<le> I" "I \<le> 5100000000000000000" using n T D D2 by (simp_all add: I_def)
  have np: "(word_of_int (D * 1000000) :: u64) div T_as + 1 = word_of_int n"
    unfolding word_div_def as2 uT by (simp add: n_def)
  have "word_of_int n * T_as = word_of_int (n * uint T_as)" by simp
  hence iv: "(word_of_int n * T_as) = (word_of_int I :: u64)" by (simp only: uT I_def)
  have uI: "uint (word_of_int I :: u64) = I" using I by (simp add: uint_of_int)
  have dv: "(word_of_int I :: u64) div 1000000000 = word_of_int (I div 1000000000)"
    "(word_of_int I :: u64) mod 1000000000 = word_of_int (I mod 1000000000)"
    by (simp_all add: word_div_def word_mod_def uI)
  define up where "up \<longleftrightarrow> I mod 1000000000 > 500000000"
  have hf: "drop_bit 1 (1000000000 :: u64) = 500000000" by simp
  have upw: "(word_of_int (I mod 1000000000) > (500000000 :: u64)) = up"
    by (simp add: word_less_def uint_of_int up_def)
  define N where "N = I div 1000000000 + (if up then 1 else 0)"
  define F where "F = I mod 1000000000 - (if up then 1000000000 else 0)"
  have NF: "I = N * 1000000000 + F" by (simp add: N_def F_def)
  have F: "\<bar>F\<bar> \<le> 500000000"
    using pos_mod_bound[of 1000000000 I] pos_mod_sign[of 1000000000 I] by (auto simp: F_def up_def)
  have N: "0 \<le> N" "N < 18446744073709551616" using I by (auto simp: N_def)
  have "(if up then word_of_int (I mod 1000000000) - 1000000000 else word_of_int (I mod 1000000000)) = (word_of_int F :: u64)"
    by (simp add: F_def)
  moreover have "sint (word_of_int F :: u64) = F" using F by (simp add: sint_sbintrunc' signed_take_bit_int_eq_self)
  ultimately have r: "r = \<lparr>b_ns = b_ns t1 + word_of_int N, b_ps = b_ps t1 + word_of_int (F sdiv 1000000), b_dps = b_dps t1\<rparr>"
    using ns T uT unfolding r_def fwlib_advanceTimePs_def Let_def as np iv dv hf upw
    by (auto simp: N_def not_less)
  have q: "\<bar>F sdiv 1000000\<bar> \<le> 500" using sdiv_bound[OF F] .
  have "sint (b_ps r) = sint (b_ps t1) + F sdiv 1000000"
  proof -
    have "sint (word_of_int (F sdiv 1000000) :: u32) = F sdiv 1000000"
      using q by (simp add: sint_sbintrunc' signed_take_bit_int_eq_self)
    thus ?thesis using q ps by (simp add: r sint_word_ariths(1) signed_take_bit_int_eq_self)
  qed
  moreover have "int (unat (b_ns r - b_ns t1)) = N" using N by (simp add: r uint_of_int)
  moreover have "(1000 * N + F sdiv 1000000) * 1000000 - n * T = 1000000 * (F sdiv 1000000) - F"
    using NF unfolding I_def by (simp add: algebra_simps)
  ultimately show ?thesis using n sdiv_close[of F] r q by (intro exI[of _ n]) (simp add: abs_minus_commute)
qed

theorem advanceTimePs_next_witness:
  "let r = fwlib_advanceTimePs \<lparr>b_ns = 100, b_ps = 0, b_dps = 0\<rparr> \<lparr>b_ns = 100, b_ps = 250, b_dps = 0\<rparr> 1000000000
   in \<exists>n \<ge> 1. 250000000 < n * 1000000000 \<and>
     \<bar>(1000 * int (unat (b_ns r - 100)) + sint (b_ps r)) * 1000000 - n * 1000000000\<bar> < 1000000"
  using advanceTimePs_next[of 1000000000 "\<lparr>b_ns = 100, b_ps = 250, b_dps = 0\<rparr>" "\<lparr>b_ns = 100, b_ps = 0, b_dps = 0\<rparr>"]
  unfolding Let_def by auto

end
