(* ===== verification/B2b_Phase.thy ===== *)
theory B2b_Phase
  imports B2b_Match Fw_Time
begin

text \<open>
  The calculations of the central unit are right: the time of a phase match, the fine tuning and the next zero
  crossing of the extraction ring.
\<close>

section \<open>Aligning the fast signal\<close>

lemma add_no_wrap: "uint (a :: u64) + uint b < 2 ^ 64 \<Longrightarrow> uint (a + b) = uint a + uint b"
  by (simp add: uint_plus_if')

lemma mult_no_wrap: "uint (a :: u64) * uint b < 2 ^ 64 \<Longrightarrow> uint (a * b) = uint a * uint b"
  by (simp add: uint_word_ariths(3) take_bit_int_eq_self)

lemma sub_no_wrap: "b \<le> (a :: u64) \<Longrightarrow> uint (a - b) = uint a - uint b"
  by (simp add: uint_minus_simple_alt)

lemma align_fast_spec:
  assumes T: "0 < T" and w: "uint tSlow + uint T < 2 ^ 64"
  shows "\<exists>t. align_fast tSlow T t0 = Some t \<and> tSlow \<le> t \<and> uint t \<le> uint tSlow + uint T \<and> uint T dvd uint t - uint t0"
proof -
  have Tp: "0 < uint T" using T by (simp add: word_less_def)
  let ?c = "\<lambda>t :: u64. t + T" and ?b = "\<lambda>t. t < tSlow"
  let ?P = "\<lambda>t. uint T dvd uint t - uint t0"
  have step: "uint (t + T) = uint t + uint T" if "t < tSlow" for t
    using that w by (intro add_no_wrap) (simp add: word_less_def)
  obtain t1 where t1: "while_option ?b ?c t0 = Some t1"
    using measure_while_option_Some[of "\<lambda>_. True" ?b ?c "\<lambda>t. nat (uint tSlow - uint t)" t0] step Tp
    by (auto simp: word_less_def)
  have up: "?P t \<Longrightarrow> ?b t \<Longrightarrow> ?P (?c t)" for t
    using step[of t] dvd_add[of "uint T" "uint t - uint t0" "uint T"] by (simp add: algebra_simps)
  have k1: "?P t1" by (rule while_option_rule[where P = ?P, OF up t1]) simp_all
  have s1: "tSlow \<le> t1" using while_option_stop[OF t1] by simp
  let ?b2 = "\<lambda>t. t - tSlow > T" and ?c2 = "\<lambda>t :: u64. t - T"
  have step2: "uint (t - T) = uint t - uint T" "tSlow \<le> t - T" if "t - tSlow > T" "tSlow \<le> t" for t
  proof -
    have "uint (t - tSlow) = uint t - uint tSlow" by (rule sub_no_wrap) fact
    hence l: "uint tSlow + uint T < uint t" using that(1) by (simp add: word_less_def)
    thus u: "uint (t - T) = uint t - uint T"
      by (intro sub_no_wrap, unfold word_le_def) (use uint_ge_0[of tSlow] in linarith)
    show "tSlow \<le> t - T" using u l by (simp add: word_le_def)
  qed
  let ?Q = "\<lambda>t. tSlow \<le> t \<and> uint T dvd uint t - uint t0"
  have q: "?Q t \<Longrightarrow> ?b2 t \<Longrightarrow> ?Q (?c2 t)" for t
  proof -
    have "uint t - uint T - uint t0 = uint t - uint t0 - uint T" by simp
    moreover assume h: "?Q t" "?b2 t"
    ultimately have "uint T dvd uint t - uint T - uint t0" by (simp only: dvd_diff dvd_refl)
    thus "?Q (?c2 t)" using step2[of t] h by (simp only:)
  qed
  have dec: "nat (uint (?c2 t)) < nat (uint t)" if "?Q t" "?b2 t" for t
    using step2(1)[of t] that Tp uint_ge_0[of "t - T"] by (subst nat_less_eq_zless) linarith+
  obtain t2 where t2: "while_option ?b2 ?c2 t1 = Some t2"
    using measure_while_option_Some[of ?Q ?b2 ?c2 "\<lambda>t. nat (uint t)" t1] q dec s1 k1 by blast
  have "?Q t2" by (rule while_option_rule[where P = ?Q, OF q t2]) (use s1 k1 in auto)
  moreover have "uint t2 \<le> uint tSlow + uint T"
  proof -
    have "uint (t2 - tSlow) = uint t2 - uint tSlow" using calculation by (intro sub_no_wrap) simp
    thus ?thesis using while_option_stop[OF t2] by (simp add: word_less_def)
  qed
  ultimately show ?thesis using t1 t2 by (auto simp: align_fast_def)
qed


section \<open>The match\<close>

lemma rounded_count:
  fixes D d :: int
  assumes "0 < d" "0 \<le> D"
  defines "n \<equiv> (if D mod d > d div 2 then D div d + 1 else D div d)"
  shows "2 * \<bar>n * d - D\<bar> \<le> d"
proof -
  have D: "D = D div d * d + D mod d" by simp
  show ?thesis
  proof (cases "D mod d > d div 2")
    case True
    hence "n * d - D = d - D mod d" unfolding n_def using D by (simp add: algebra_simps)
    thus ?thesis using True pos_mod_bound[OF assms(1), of D] by simp
  next
    case False
    hence "n * d - D = - (D mod d)" unfolding n_def using D by (simp add: algebra_simps)
    thus ?thesis using False pos_mod_sign[OF assms(1), of D] by simp
  qed
qed

text \<open>
  C18. The time of a phase match, the heart of a bunch-to-bucket transfer.  For a slow and a fast signal, given by a
  zero crossing and a period each, the fast one is brought behind the slow one (the loops end), and after the
  number of periods the code calculates the n-th crossings of both coincide within half the difference of
  the periods, as long as the time itself fits into 64 bits.
\<close>

theorem phase_match:
  fixes tSlow TSlow tFast0 TFast :: u64
  defines "s \<equiv> uint tSlow" and "S \<equiv> uint TSlow" and "F \<equiv> uint TFast"
  assumes T: "0 < F" "F < S" and w: "s + (F div (S - F) + 1) * S + F < 2 ^ 64"
  shows "\<exists>tFast n. align_fast tSlow TFast tFast0 = Some tFast \<and> F dvd uint tFast - uint tFast0 \<and>
    uint (match_count tSlow TSlow tFast TFast) = n \<and>
    uint (match_count tSlow TSlow tFast TFast * TSlow + tSlow) = s + n * S \<and>
    2 * \<bar>(s + n * S) - (uint tFast + n * F)\<bar> \<le> S - F"
proof -
  have p: "0 \<le> (F div (S - F) + 1) * S" "0 \<le> F div (S - F)" "0 < S - F"
    using T by (simp_all add: pos_imp_zdiv_nonneg_iff)
  obtain tFast where t: "align_fast tSlow TFast tFast0 = Some tFast" "tSlow \<le> tFast" "uint tFast \<le> s + F"
    "F dvd uint tFast - uint tFast0"
    using align_fast_spec[of TFast tSlow tFast0] T w p by (auto simp: word_less_def s_def F_def)
  define D where "D = uint tFast - s"
  have D: "0 \<le> D" "D \<le> F" using t by (simp_all add: D_def s_def word_le_def)
  have uD: "uint (tFast - tSlow) = D" unfolding D_def s_def by (rule sub_no_wrap[OF t(2)])
  have ud: "uint (TSlow - TFast) = S - F"
    unfolding S_def F_def by (rule sub_no_wrap) (use T in \<open>simp add: word_le_def S_def F_def\<close>)
  define n where "n = (if D mod (S - F) > (S - F) div 2 then D div (S - F) + 1 else D div (S - F))"
  have le: "D div (S - F) \<le> F div (S - F)" using D(2) p(3) by (simp add: zdiv_mono1)
  hence n: "0 \<le> n" "n \<le> F div (S - F) + 1" using D p by (auto simp: n_def pos_imp_zdiv_nonneg_iff)
  have S1: "1 \<le> S" using T by simp
  have nS: "n * S \<le> (F div (S - F) + 1) * S" using n(2) S1 by (intro mult_right_mono) simp_all
  have "n * 1 \<le> n * S" using n(1) S1 by (intro mult_left_mono) simp_all
  hence nb: "n < 2 ^ 64" "n * S < 2 ^ 64" "s + n * S < 2 ^ 64"
    using nS w T uint_ge_0[of tSlow] unfolding s_def by linarith+
  have c: "uint (match_count tSlow TSlow tFast TFast) = n"
  proof -
    have q: "uint ((tFast - tSlow) div (TSlow - TFast)) = D div (S - F)" by (simp add: uint_div uD ud)
    have r: "((tFast - tSlow) mod (TSlow - TFast) > drop_bit 1 (TSlow - TFast)) \<longleftrightarrow> D mod (S - F) > (S - F) div 2"
      by (simp add: word_less_def uint_mod uint_div uD ud drop_bit_eq_div)
    have "uint ((tFast - tSlow) div (TSlow - TFast) + 1) = D div (S - F) + 1" if "D mod (S - F) > (S - F) div 2"
      using that nb(1) q by (subst add_no_wrap) (simp_all add: n_def)
    thus ?thesis using q r by (auto simp: match_count_def Let_def n_def)
  qed
  have "uint (match_count tSlow TSlow tFast TFast * TSlow) = n * S"
    using c nb by (subst mult_no_wrap) (simp_all add: S_def)
  hence m: "uint (match_count tSlow TSlow tFast TFast * TSlow + tSlow) = s + n * S"
    using nb by (subst add_no_wrap) (simp_all add: s_def add.commute)
  have "s + n * S - (uint tFast + n * F) = n * (S - F) - D" by (simp add: D_def algebra_simps)
  thus ?thesis using t c m rounded_count[OF p(3) D(1)] by (auto simp: n_def)
qed


theorem phase_match_witness:
  "\<exists>tFast n. align_fast 5000 990 100 = Some tFast \<and> 2 * \<bar>(5000 + n * 1000) - (uint tFast + n * 990)\<bar> \<le> 10"
  using phase_match[where tSlow = 5000 and TSlow = 1000 and ?tFast0.0 = 100 and TFast = 990] by auto

section \<open>Fine tuning\<close>

lemma on_grid_spec:
  assumes T: "0 < T" and le: "t0 \<le> t" and w: "uint t + uint T < 2 ^ 64"
  shows "\<exists>k \<ge> 0. uint (on_grid t0 T t) = uint t0 + k * uint T \<and> 2 * \<bar>uint (on_grid t0 T t) - uint t\<bar> \<le> uint T"
proof -
  have Tp: "0 < uint T" using T by (simp add: word_less_def)
  define D where "D = uint t - uint t0"
  have D: "0 \<le> D" "uint (t - t0) = D" unfolding D_def using le by (simp_all add: word_le_def sub_no_wrap)
  define n where "n = (if D mod uint T > uint T div 2 then D div uint T + 1 else D div uint T)"
  have r: "2 * \<bar>n * uint T - D\<bar> \<le> uint T" unfolding n_def by (rule rounded_count[OF Tp D(1)])
  have n0: "0 \<le> n" using D Tp by (auto simp: n_def pos_imp_zdiv_nonneg_iff)
  have nT: "n * uint T \<le> D + uint T" using r Tp abs_ge_self[of "n * uint T - D"] by simp
  have "n * 1 \<le> n * uint T" using n0 Tp by (intro mult_left_mono) simp_all
  hence nb: "n < 2 ^ 64" "n * uint T < 2 ^ 64" "uint t0 + n * uint T < 2 ^ 64"
    using nT w D(1) uint_ge_0[of t0] unfolding D_def by linarith+
  have q: "uint ((t - t0) div T) = D div uint T" by (simp add: uint_div D)
  have u: "uint ((t - t0) div T + 1) = D div uint T + 1" if "D mod uint T > uint T div 2"
    using that nb(1) q by (subst add_no_wrap) (simp_all add: n_def)
  have c: "uint (if (t - t0) mod T > drop_bit 1 T then (t - t0) div T + 1 else (t - t0) div T) = n"
    using q u by (auto simp: n_def word_less_def uint_mod uint_div D drop_bit_eq_div)
  have "uint (on_grid t0 T t) = uint t0 + n * uint T"
    unfolding on_grid_def Let_def
    using c nb by (subst add_no_wrap; (subst mult_no_wrap)?) (simp_all add: mult_no_wrap)
  moreover have "uint t0 + n * uint T - uint t = n * uint T - D" by (simp add: D_def)
  ultimately show ?thesis using n0 r by (intro exI[of _ n]) (simp only: simp_thms)
qed

lemma uint_ucast_64: "uint (ucast (w :: u32) :: u64) = uint w"
  by (simp add: unsigned_ucast_eq take_bit_int_eq_self order.strict_trans[OF unsigned_less])

lemma near: "2 * \<bar>x - y\<bar> \<le> (z :: int) \<Longrightarrow> x \<le> y + z \<and> y \<le> x + z"
  by (cases "x \<le> y") simp_all

lemma sint_of_int: "- (2 ^ 63) \<le> z \<Longrightarrow> z < 2 ^ 63 \<Longrightarrow> sint (word_of_int z :: u64) = z"
  by (simp add: sint_sbintrunc' signed_take_bit_int_eq_self)

lemma word_diff:
  "(a :: u64) - x - (b - y) = word_of_int ((uint a - uint x) - (uint b - uint y))"
  "a - b = word_of_int (uint a - uint b)"
  "a + x - (b + y) = word_of_int ((uint a + uint x) - (uint b + uint y))"
  by simp_all

text \<open>
  C19. Fine tuning finds the best of its candidates: from the crossing of the extraction ring next to the time
  asked for and the crossing of the injection ring next to that one, it goes back or ahead by a common multiple
  of the periods, or stays, and returns the time (a crossing of the extraction ring) and the distance that is
  least of the three.
\<close>

theorem fine_tune_best:
  fixes e0 i0 t :: u64 and s :: b2b
  defines "T1 \<equiv> uint (TH1Ext_as s)" and "T2 \<equiv> uint (TH1Inj_as s)"
  defines "X \<equiv> T1 * uint (nGInj s)" and "Y \<equiv> T2 * uint (nGExt s)"
  assumes T: "0 < T1" "0 < T2" and g: "e0 \<le> t" "uint i0 + T1 \<le> uint t" "X + T1 \<le> uint t"
    and w: "uint t + T1 + T2 + X + Y < 2 ^ 62"
  shows "\<exists>E I a b k. 0 \<le> a \<and> 0 \<le> b \<and> k \<in> {- 1, 0, 1} \<and>
    E = uint e0 + a * T1 \<and> 2 * \<bar>E - uint t\<bar> \<le> T1 \<and> I = uint i0 + b * T2 \<and> 2 * \<bar>I - E\<bar> \<le> T2 \<and>
    (case rfFineTune e0 i0 t s of (m, d) \<Rightarrow>
       uint m = E + k * X \<and> sint d = (E + k * X) - (I + k * Y) \<and>
       (\<forall>j \<in> {- 1, 0, 1}. \<bar>sint d\<bar> \<le> \<bar>(E + j * X) - (I + j * Y)\<bar>))"
proof -
  have XY: "0 \<le> X" "0 \<le> Y" using T by (simp_all add: X_def Y_def)
  have u: "uint t + T1 < 2 ^ 64" using w T XY by simp
  define e where "e = on_grid e0 (TH1Ext_as s) t"
  obtain a where a: "0 \<le> a" "uint e = uint e0 + a * T1" "2 * \<bar>uint e - uint t\<bar> \<le> T1"
    using on_grid_spec[of "TH1Ext_as s" e0 t] T g(1) u unfolding e_def T1_def by (auto simp: word_less_def)
  have ae: "uint e \<le> uint t + T1" "uint t \<le> uint e + T1" using near[OF a(3)] by simp_all
  define i where "i = on_grid i0 (TH1Inj_as s) e"
  have ie: "i0 \<le> e" "uint e + T2 < 2 ^ 64" using ae g(2) w T XY by (simp_all add: word_le_def)
  obtain b where b: "0 \<le> b" "uint i = uint i0 + b * T2" "2 * \<bar>uint i - uint e\<bar> \<le> T2"
    using on_grid_spec[of "TH1Inj_as s" i0 e] T ie unfolding i_def T2_def by (auto simp: word_less_def)
  define x y where "x = TH1Ext_as s * ucast (nGInj s)" and "y = TH1Inj_as s * ucast (nGExt s)"
  have lt: "uint t < 2 ^ 62" "T1 < 2 ^ 62" "T2 < 2 ^ 62" "X < 2 ^ 62" "Y < 2 ^ 62"
    using w T XY uint_ge_0[of t] by linarith+
  have uxy: "uint x = X" "uint y = Y"
    unfolding x_def y_def
    using lt mult_no_wrap[of "TH1Ext_as s" "ucast (nGInj s)"] mult_no_wrap[of "TH1Inj_as s" "ucast (nGExt s)"]
    by (simp_all add: uint_ucast_64 X_def[symmetric] Y_def[symmetric] T1_def[symmetric] T2_def[symmetric] del: uint_ge_0)
  let ?c = "\<lambda>k. (uint e + k * X) - (uint i + k * Y)"
  have ei: "uint e - uint i \<le> T2" "uint i - uint e \<le> T2" using near[OF b(3)] by simp_all
  have s1: "sint (e - x - (i - y)) = ?c (- 1)"
    unfolding word_diff(1) uxy using ei lt XY by (subst sint_of_int) simp_all
  have s2: "sint (e - i) = ?c 0" unfolding word_diff(2) using ei lt by (subst sint_of_int) simp_all
  have s3: "sint (e + x - (i + y)) = ?c 1"
    unfolding word_diff(3) uxy using ei lt XY by (subst sint_of_int) simp_all
  have m1: "uint (e - x) = uint e + (- 1) * X"
    using ae g(3) uxy by (subst sub_no_wrap) (simp_all add: word_le_def)
  have m3: "uint (e + x) = uint e + 1 * X" using ae lt uxy by (subst add_no_wrap) simp_all
  define k :: int where
    "k = (if \<bar>?c 1\<bar> < \<bar>?c 0\<bar> then 1 else if \<bar>?c (- 1)\<bar> < \<bar>?c 0\<bar> then - 1 else 0)"
  have f: "rfFineTune e0 i0 t s =
      (if \<bar>?c 1\<bar> < \<bar>?c 0\<bar> then (e + x, e + x - (i + y))
       else if \<bar>?c (- 1)\<bar> < \<bar>?c 0\<bar> then (e - x, e - x - (i - y)) else (e, e - i))"
    unfolding rfFineTune_def Let_def e_def[symmetric] i_def[symmetric] x_def[symmetric] y_def[symmetric] s1 s2 s3 ..
  have r: "case rfFineTune e0 i0 t s of (m, d) \<Rightarrow> uint m = uint e + k * X \<and> sint d = ?c k"
  proof (cases "\<bar>?c 1\<bar> < \<bar>?c 0\<bar>")
    case True
    thus ?thesis unfolding f k_def if_P[OF True] prod.case s3 m3 by (simp only: simp_thms)
  next
    case False
    note nt = this
    show ?thesis
    proof (cases "\<bar>?c (- 1)\<bar> < \<bar>?c 0\<bar>")
      case True
      thus ?thesis unfolding f k_def if_not_P[OF nt] if_P[OF True] prod.case s1 m1 by (simp only: simp_thms)
    next
      case False
      thus ?thesis unfolding f k_def if_not_P[OF nt] if_not_P[OF False] prod.case s2 by simp
    qed
  qed
  obtain m d where md: "rfFineTune e0 i0 t s = (m, d)" by (cases "rfFineTune e0 i0 t s")
  have rm: "uint m = uint e + k * X" and rd: "sint d = ?c k" using r unfolding md prod.case by (simp_all only: simp_thms)
  have best: "\<forall>j \<in> {- 1, 0, 1}. \<bar>sint d\<bar> \<le> \<bar>?c j\<bar>" unfolding rd k_def by auto
  have k: "k \<in> {- 1, 0, 1}" by (simp add: k_def)
  show ?thesis unfolding md prod.case
    by (rule exI[of _ "uint e"], rule exI[of _ "uint i"], rule exI[of _ a], rule exI[of _ b], rule exI[of _ k])
      (intro conjI; fact a b k rm rd best)
qed

theorem fine_tune_best_witness:
  "case rfFineTune 1000 1100 20000 (power_up\<lparr>TH1Ext_as := 1000, TH1Inj_as := 300, nGExt := 1, nGInj := 1\<rparr>) of
     (m, d) \<Rightarrow> 2 * \<bar>sint d\<bar> \<le> 300"
  using fine_tune_best[where s = "power_up\<lparr>TH1Ext_as := 1000, TH1Inj_as := 300, nGExt := 1, nGInj := 1\<rparr>"
    and ?e0.0 = 1000 and ?i0.0 = 1100 and t = 20000]
  by (cases "rfFineTune 1000 1100 20000 (power_up\<lparr>TH1Ext_as := 1000, TH1Inj_as := 300, nGExt := 1, nGInj := 1\<rparr>)")
    (auto simp: abs_minus_commute)

section \<open>The next zero crossing\<close>

text \<open>Picoseconds of a time.\<close>

definition pst :: "b2bt \<Rightarrow> int" where
  "pst t = 1000 * uint (b_ns t) + sint (b_ps t)"

lemma clean_pst:
  assumes "\<bar>sint (b_ps t)\<bar> \<le> 1000" "1 \<le> uint (b_ns t)" "uint (b_ns t) < 2 ^ 64 - 1"
  shows "pst (fwlib_cleanB2bt t) = pst t"
proof -
  define q where "q = (sint (b_ps t) + 500) div 1000"
  have q: "- 1 \<le> q" "q \<le> 1" using assms(1) by (simp_all add: q_def)
  have "uint (b_ns t + word_of_int q) = uint (b_ns t) + q"
  proof -
    have "b_ns t + word_of_int q = word_of_int (uint (b_ns t) + q)" by simp
    moreover have "uint (word_of_int (uint (b_ns t) + q) :: u64) = uint (b_ns t) + q"
      by (rule uint_of_int) (use q assms(2,3) in simp_all)
    ultimately show ?thesis by simp
  qed
  moreover have "sint (b_ps t) + 500 = 1000 * q + (sint (b_ps t) + 500) mod 1000" by (simp add: q_def)
  ultimately show ?thesis using clean_spec[of t] by (simp add: pst_def q_def[symmetric])
qed

text \<open>
  The time for the extraction kick: a whole number of periods of the extraction ring after the measured zero
  crossing, to less than a picosecond, not before the time wanted and at most one period after it (again to
  a picosecond), in clean form.  Periods of up to four seconds and a measurement of up to a second ago.
\<close>

lemma next_zero_crossing:
  fixes s :: b2b and tWant :: u64
  defines "T \<equiv> uint (TH1Ext_as s)" and "t \<equiv> tH1Ext_t s"
  assumes T: "0 < T" "T \<le> 4000000000000000000" "nHExt s \<noteq> 0" and ps: "\<bar>sint (b_ps t)\<bar> \<le> 500"
    and w: "1 \<le> uint (b_ns t)" "pst t \<le> 1000 * uint tWant" "uint tWant \<le> uint (b_ns t) + 1000000000"
    "uint (b_ns t) + 6000000000 < 2 ^ 64"
  shows "\<exists>r. calcExtTime x tWant s = (COMMON_STATUS_OK, r) \<and>
    (\<exists>n \<ge> 1. \<bar>(pst r - pst t) * 1000000 - n * T\<bar> < 1000000) \<and>
    - 1000000 < pst r * 1000000 - uint tWant * 1000000000 \<and>
    pst r * 1000000 - uint tWant * 1000000000 < T + 1000000 \<and> - 500 \<le> sint (b_ps r) \<and> sint (b_ps r) < 500"
proof -
  have le: "b_ns t \<le> tWant" using w(2) ps by (simp add: pst_def word_le_def)
  define r0 where "r0 = fwlib_advanceTimePs t (fwlib_tns2tps tWant) (TH1Ext_as s)"
  define D where "D = 1000 * uint tWant - pst t"
  have D: "0 \<le> D" "D \<le> 1000000000500" using w ps by (simp_all add: D_def pst_def)
  have d: "b_ns (fwlib_tns2tps tWant) - b_ns t \<le> 1000000000"
    using w(3) sub_no_wrap[OF le] by (simp add: fwlib_tns2tps_def word_le_def)
  obtain n where n: "1 \<le> n" "D * 1000000 < n * T" "n * T \<le> D * 1000000 + T"
    "\<bar>sint (b_ps r0) - sint (b_ps t)\<bar> \<le> 500"
    "\<bar>(1000 * uint (b_ns r0 - b_ns t) + (sint (b_ps r0) - sint (b_ps t))) * 1000000 - n * T\<bar> < 1000000"
    using advanceTimePs_next[of "TH1Ext_as s" "fwlib_tns2tps tWant" t] T D le d ps
    by (auto simp: fwlib_tns2tps_def T_def D_def pst_def r0_def)
  define N where "N = uint (b_ns r0 - b_ns t)"
  define m where "m = n * T"
  define q where "q = sint (b_ps r0) - sint (b_ps t)"
  have b: "\<bar>(1000 * N + q) * 1000000 - m\<bar> < 1000000" "\<bar>q\<bar> \<le> 500" "D * 1000000 < m" "m \<le> D * 1000000 + T"
    using n unfolding N_def q_def m_def by simp_all
  have N0: "0 \<le> N" by (simp add: N_def)
  have "(1000 * N + q) * 1000000 < m + 1000000" "- 500 \<le> q" using b(1,2) by linarith+
  moreover have "m \<le> 5000000000500000000" using b(4) D(2) T(2) by linarith
  ultimately have N: "0 \<le> N" "N \<le> 5100000000" using N0 by simp_all
  have "b_ns r0 = b_ns t + (b_ns r0 - b_ns t)" by simp
  also have "uint \<dots> = uint (b_ns t) + N" unfolding N_def using N w(4) by (intro add_no_wrap) (simp add: N_def)
  finally have u: "uint (b_ns r0) = uint (b_ns t) + N" .
  hence p: "pst r0 - pst t = 1000 * N + q" by (simp add: pst_def q_def)
  have c: "pst (fwlib_cleanB2bt r0) = pst r0"
    using b(2) ps u N w by (intro clean_pst) (simp_all add: q_def)
  define r where "r = fwlib_cleanB2bt r0"
  have pr: "pst r - pst t = 1000 * N + q" "pst r = pst t + 1000 * N + q" unfolding r_def using p c by simp_all
  have psr: "- 500 \<le> sint (b_ps r)" "sint (b_ps r) < 500" unfolding r_def clean_spec by simp_all
  have r0: "b_ns r \<noteq> 0"
  proof
    assume "b_ns r = 0"
    hence "pst r < 500" using psr by (simp add: pst_def)
    thus False using pr(2) b ps w(1) D N by (simp add: D_def pst_def)
  qed
  have l: "\<not> b_ns t + one_s_ns < tWant"
    using add_no_wrap[of "b_ns t" one_s_ns] w by (simp add: one_s_ns_def word_less_def)
  have "TH1Ext_as s \<noteq> 0" using T by (auto simp: T_def)
  hence "calcExtTime x tWant s = (COMMON_STATUS_OK, r)"
    using l r0 T unfolding calcExtTime_def r_def r0_def t_def by (simp add: Let_def)
  moreover have "\<bar>(pst r - pst t) * 1000000 - n * T\<bar> < 1000000" unfolding pr(1) using b(1) by (simp add: m_def)
  moreover have "pst r * 1000000 - uint tWant * 1000000000 = (1000 * N + q) * 1000000 - D * 1000000"
    unfolding pr(2) D_def by simp
  ultimately show ?thesis using n(1) b psr by (intro exI[of _ r]) auto
qed

end
