(* ===== verification/B2b_Phasefit.thy ===== *)
theory B2b_Phasefit
  imports B2b_Pm B2b_Phase
begin

text \<open>
  The measurement of a phase (modules/b2b/fw/b2b-pm.c): the time stamps are sorted, and the fit finds the
  phase of a periodic signal as exactly as the time stamps are.
\<close>

section \<open>Sorting\<close>

lemma insort_snoc_le: "(x :: 'a :: linorder) \<le> y \<Longrightarrow> insort x (xs @ [y]) = insort x xs @ [y]"
  by (induction xs) auto

lemma shift_down_insort:
  assumes "sorted (take j ts)" "j < length ts"
  shows "shift_down tmp j ts = insort tmp (take j ts) @ drop (Suc j) ts"
  using assms
proof (induction tmp j ts rule: shift_down.induct)
  case (1 tmp ts)
  thus ?case by (cases ts) simp_all
next
  case (2 tmp j ts)
  have t: "take (Suc j) ts = take j ts @ [ts ! j]" using 2(3) by (simp add: take_Suc_conv_app_nth)
  have s: "sorted (take j ts)" "\<forall>x \<in> set (take j ts). x \<le> ts ! j"
    using 2(2) unfolding t by (simp_all add: sorted_append)
  show ?case
  proof (cases "ts ! j > tmp")
    case True
    have "drop (Suc j) (ts[Suc j := ts ! j]) = ts ! j # drop (Suc (Suc j)) ts"
      using 2(3) by (simp add: Cons_nth_drop_Suc[symmetric])
    thus ?thesis using 2(1)[OF True] 2(3) s True by (simp add: t insort_snoc_le)
  next
    case False
    have "insort tmp (take (Suc j) ts) = take (Suc j) ts @ [tmp]"
      using False s 2(2) by (intro sorted_insort_is_snoc) (auto simp: t)
    moreover have "ts[Suc j := tmp] = take (Suc j) ts @ tmp # drop (Suc (Suc j)) ts"
      using 2(3) by (simp add: upd_conv_take_nth_drop)
    ultimately show ?thesis using False by simp
  qed
qed

lemma sort_snoc: "sort (xs @ [x]) = insort x (sort xs)" for x :: "'a :: linorder"
  by (rule properties_for_sort) (simp_all add: sorted_insort)

text \<open>Insertion sort: the first \<open>n\<close> stamps are in order, the others stay.\<close>

lemma insertionSort_sort: "n \<le> length ts \<Longrightarrow> insertionSort ts n = sort (take n ts) @ drop n ts"
proof (induction n)
  case (Suc n)
  show ?case
  proof (cases n)
    case 0
    thus ?thesis using Suc(2) by (cases ts) (simp_all add: insertionSort_def)
  next
    case (Suc m)
    define us where "us = sort (take n ts) @ drop n ts"
    have l: "n < length ts" using Suc.prems by simp
    have u: "us ! n = ts ! n" "take n us = sort (take n ts)" "drop (Suc n) us = drop (Suc n) ts" "length us = length ts"
      using l by (simp_all add: us_def nth_append)
    have "insertionSort ts (Suc n) = shift_down (us ! n) n us"
      using Suc.IH l Suc by (simp add: insertionSort_def us_def)
    also have "\<dots> = insort (ts ! n) (sort (take n ts)) @ drop (Suc n) ts"
      using shift_down_insort[of n us "us ! n"] l by (simp add: u)
    finally show ?thesis using l by (simp add: take_Suc_conv_app_nth sort_snoc)
  qed
qed (simp add: insertionSort_def)

section \<open>The fit\<close>

lemma clean_pst_any:
  assumes "0 \<le> uint (b_ns t) + (sint (b_ps t) + 500) div 1000" "uint (b_ns t) + (sint (b_ps t) + 500) div 1000 < 2 ^ 64"
  shows "pst (fwlib_cleanB2bt t) = pst t"
proof -
  define q where "q = (sint (b_ps t) + 500) div 1000"
  have "uint (b_ns t + word_of_int q) = uint (b_ns t) + q"
  proof -
    have "b_ns t + word_of_int q = word_of_int (uint (b_ns t) + q)" by simp
    moreover have "uint (word_of_int (uint (b_ns t) + q) :: u64) = uint (b_ns t) + q"
      by (rule uint_of_int) (use assms in \<open>simp_all add: q_def\<close>)
    ultimately show ?thesis by simp
  qed
  moreover have "sint (b_ps t) + 500 = 1000 * q + (sint (b_ps t) + 500) mod 1000" by (simp add: q_def)
  ultimately show ?thesis using clean_spec[of t] by (simp add: pst_def q_def[symmetric])
qed

text \<open>Every stamp but the first is within \<open>D\<close> (in attoseconds) of its crossing; the first crossing used is at
  \<open>P\<close>, the period is \<open>T\<close>.\<close>

definition near_crossings :: "int \<Rightarrow> int \<Rightarrow> int \<Rightarrow> u64 list \<Rightarrow> bool" where
  "near_crossings P T D us \<longleftrightarrow>
     (\<forall>i. 1 \<le> i \<and> i < length us \<longrightarrow> \<bar>uint (us ! i) * 1000000000 - (P + (int i - 1) * T)\<bar> \<le> D)"

text \<open>The deviation of a stamp from the first one used.\<close>

definition dev_of :: "int \<Rightarrow> u64 list \<Rightarrow> nat \<Rightarrow> int" where
  "dev_of T us i = (uint (us ! i) - uint (us ! 1)) * 1000000000 - (int i - 1) * T"

lemma dev_of_bound:
  assumes "near_crossings P T D us" "1 \<le> i" "i < length us"
  shows "\<bar>dev_of T us i\<bar> \<le> 2 * D" "\<bar>uint (us ! 1) * 1000000000 - P\<bar> \<le> D"
    "\<bar>uint (us ! 1) * 1000000000 + dev_of T us i - P\<bar> \<le> D"
proof -
  have a: "\<bar>uint (us ! i) * 1000000000 - (P + (int i - 1) * T)\<bar> \<le> D"
    using assms by (auto simp: near_crossings_def)
  have "\<bar>uint (us ! 1) * 1000000000 - (P + (int 1 - 1) * T)\<bar> \<le> D"
    using assms(1)[unfolded near_crossings_def, rule_format, of 1] assms(2,3) by simp
  thus b: "\<bar>uint (us ! 1) * 1000000000 - P\<bar> \<le> D" by simp
  have c: "uint (us ! 1) * 1000000000 + dev_of T us i - P = uint (us ! i) * 1000000000 - (P + (int i - 1) * T)"
    by (simp add: dev_of_def algebra_simps)
  show "\<bar>uint (us ! 1) * 1000000000 + dev_of T us i - P\<bar> \<le> D" using a c by simp
  thus "\<bar>dev_of T us i\<bar> \<le> 2 * D" using b by linarith
qed

lemma fit_step_near:
  fixes TH :: u64
  defines "T \<equiv> uint TH"
  assumes sint: "sint ((t - t1) * one_ns_as - r) = d" and small: "\<bar>d\<bar> < T div 4" "T < 2 ^ 63"
  shows "\<exists>f'. fit_step TH t1 t (f, r) = (f', r + TH) \<and> nGood f' = nGood f + 1 \<and>
    sint (max_deviation_as f') \<in> {sint (max_deviation_as f), d} \<and>
    sint (min_deviation_as f') \<in> {sint (min_deviation_as f), d}"
proof -
  define dev where "dev = (t - t1) * one_ns_as - r"
  have d: "sint dev = d" using sint by (simp add: dev_def)
  have q: "sint (drop_bit 2 TH) = T div 4"
  proof -
    have "uint (drop_bit 2 TH) = T div 4" by (simp add: T_def drop_bit_eq_div uint_div)
    moreover have "0 \<le> T" by (simp add: T_def)
    ultimately show ?thesis using small(2) by (simp add: sint_uint signed_take_bit_int_eq_self)
  qed
  have "sint (- dev) = - d"
    using small d by (simp add: sint_word_ariths(4) signed_take_bit_int_eq_self)
  hence "sint (if sint dev < 0 then - dev else dev) = \<bar>d\<bar>" using d by auto
  hence "fit_step TH t1 t (f, r) =
      (f\<lparr>sum_deviation_as := sum_deviation_as f + dev, nGood := nGood f + 1,
         max_deviation_as := (if d > sint (max_deviation_as f) then dev else max_deviation_as f),
         min_deviation_as := (if d < sint (min_deviation_as f) then dev else min_deviation_as f)\<rparr>, r + TH)"
    unfolding fit_step_def prod.case dev_def[symmetric] Let_def using q small(1) d by simp
  thus ?thesis using d by auto
qed

lemma fit_near:
  fixes TH :: u64 and us :: "u64 list"
  defines "T \<equiv> uint TH"
  assumes near: "near_crossings P T D us" "sorted us" and len: "length us \<le> 32"
    and small: "8 * D < T - 8" "T < 2 ^ 52"
  shows "1 \<le> k \<Longrightarrow> k < length us \<Longrightarrow>
    \<exists>f. fold (fit_step TH (us ! 1)) (map ((!) us) [1..<Suc k])
       (\<lparr>sum_deviation_as = 0, max_deviation_as = 0, min_deviation_as = 0, nGood = 0\<rparr>, 0) = (f, of_nat k * TH) \<and>
     nGood f = k \<and> (\<exists>a. 1 \<le> a \<and> a \<le> k \<and> sint (max_deviation_as f) = dev_of T us a) \<and>
     (\<exists>b. 1 \<le> b \<and> b \<le> k \<and> sint (min_deviation_as f) = dev_of T us b)"
proof (induction k)
  case (Suc k)
  let ?z = "\<lparr>sum_deviation_as = 0, max_deviation_as = 0, min_deviation_as = 0, nGood = 0\<rparr>"
  have T0: "0 \<le> T" by (simp add: T_def)
  have d: "\<bar>dev_of T us (Suc k)\<bar> < T div 4"
    using dev_of_bound(1)[OF near(1) Suc.prems] small by linarith
  have s: "sint ((us ! Suc k - us ! 1) * one_ns_as - of_nat k * TH) = dev_of T us (Suc k)"
  proof -
    have TH: "TH = word_of_int T" by (simp add: T_def)
    have w: "(us ! Suc k - us ! 1) * one_ns_as - of_nat k * TH
        = word_of_int ((uint (us ! Suc k) - uint (us ! 1)) * 1000000000 - int k * T)"
      unfolding TH by (simp add: one_ns_as_def)
    have i: "(uint (us ! Suc k) - uint (us ! 1)) * 1000000000 - int k * T = dev_of T us (Suc k)"
      by (simp add: dev_of_def)
    show ?thesis unfolding w i using d small(2) by (intro sint_of_int) simp_all
  qed
  have T63: "uint TH < 2 ^ 63" using small(2) by (simp add: T_def)
  have r: "of_nat k * TH + TH = of_nat (Suc k) * TH" by (simp add: algebra_simps)
  show ?case
  proof (cases "k = 0")
    case True
    have z: "dev_of T us 1 = 0" by (simp add: dev_of_def)
    obtain f where "fit_step TH (us ! 1) (us ! Suc 0) (?z, 0) = (f, 0 + TH)" "nGood f = 1"
      "sint (max_deviation_as f) \<in> {0, 0}" "sint (min_deviation_as f) \<in> {0, 0}"
      using fit_step_near[of "us ! 1" "us ! 1" 0 0 TH ?z] T63 small True Suc.prems
        dev_of_bound(1)[OF near(1), of 1] d[unfolded True] z by (auto simp: T_def)
    thus ?thesis using z by (auto simp: True)
  next
    case False
    obtain f a b where f: "fold (fit_step TH (us ! 1)) (map ((!) us) [1..<Suc k]) (?z, 0) = (f, of_nat k * TH)"
      "nGood f = k" and a: "1 \<le> a" "a \<le> k" "sint (max_deviation_as f) = dev_of T us a"
      and b: "1 \<le> b" "b \<le> k" "sint (min_deviation_as f) = dev_of T us b"
      using Suc.IH False Suc.prems by auto
    obtain f' where f': "fit_step TH (us ! 1) (us ! Suc k) (f, of_nat k * TH) = (f', of_nat k * TH + TH)"
      "nGood f' = k + 1" "sint (max_deviation_as f') \<in> {dev_of T us a, dev_of T us (Suc k)}"
      "sint (min_deviation_as f') \<in> {dev_of T us b, dev_of T us (Suc k)}"
      using fit_step_near[of "us ! Suc k" "us ! 1" "of_nat k * TH" "dev_of T us (Suc k)" TH f] s d T63 f(2) a(3) b(3)
      by (auto simp: T_def)
    have e: "fold (fit_step TH (us ! 1)) (map ((!) us) [1..<Suc (Suc k)]) (?z, 0) = (f', of_nat (Suc k) * TH)"
      using f(1) f'(1) r by simp
    have "\<exists>a. 1 \<le> a \<and> a \<le> Suc k \<and> sint (max_deviation_as f') = dev_of T us a"
      using f'(3) a by (metis insertE le_SucI le_refl singletonD le_add1 plus_1_eq_Suc)
    moreover have "\<exists>a. 1 \<le> a \<and> a \<le> Suc k \<and> sint (min_deviation_as f') = dev_of T us a"
      using f'(4) b by (metis insertE le_SucI le_refl singletonD le_add1 plus_1_eq_Suc)
    ultimately show ?thesis using e f'(2) by auto
  qed
qed simp

lemma word_small:
  assumes "0 \<le> x" "x < 2 ^ 31"
  shows "uint (word_of_int x :: u32) = x" "sint (word_of_int x :: u32) = x"
  using assms by (simp_all add: uint_word_of_int sint_sbintrunc' signed_take_bit_int_eq_self)

lemma period_arith:
  fixes T D X N :: int
  assumes T: "20 * D + 10000000000 \<le> T" "0 \<le> D" and X: "\<bar>X * 1000000000 - T\<bar> \<le> 2 * D" and N: "N = T div 1000000000"
  shows "10 \<le> N" "0 \<le> X" "X < 2 * N"
    "(if X mod N > N div 2 then N - X mod N else X mod N) \<le> N div 10"
    "0 \<le> (if X mod N > N div 2 then N - X mod N else X mod N)"
proof -
  have n: "N * 1000000000 \<le> T" "T < N * 1000000000 + 1000000000" using N by linarith+
  show N10: "10 \<le> N" using n T by linarith
  have ub: "X * 1000000000 - N * 1000000000 < 1000000000 + 2 * D" using X n by linarith
  have lb: "N * 1000000000 - X * 1000000000 \<le> 2 * D" using X n by linarith
  have d: "2 * D \<le> (N * 1000000000 - 9000000000) div 10" using T n by linarith
  have q: "N = 10 * (N div 10) + N mod 10" "0 \<le> N mod 10" "N mod 10 < 10" by simp_all
  have u: "X - N \<le> N div 10" using ub d q by linarith
  have l: "N - X \<le> N div 10" using lb d q by linarith
  show X0: "0 \<le> X" "X < 2 * N" using l u N10 by linarith+
  have "(if X mod N > N div 2 then N - X mod N else X mod N) \<le> N div 10 \<and>
    0 \<le> (if X mod N > N div 2 then N - X mod N else X mod N)"
  proof (cases "N \<le> X")
    case True
    have "X mod N = X - N" using True X0 N10 mod_pos_pos_trivial[of "X - N" N] by simp
    moreover have "\<not> X - N > N div 2" using u N10 by linarith
    ultimately show ?thesis using u True by simp
  next
    case False
    have "X mod N = X" using False X0 by simp
    moreover have "X > N div 2" using l N10 by linarith
    ultimately show ?thesis using l False by simp
  qed
  thus "(if X mod N > N div 2 then N - X mod N else X mod N) \<le> N div 10"
    "0 \<le> (if X mod N > N div 2 then N - X mod N else X mod N)" by blast+
qed

lemma phaseFit_accepts:
  fixes period :: u64 and us :: "u64 list"
  defines "T \<equiv> uint period"
  assumes near: "near_crossings P T D us" "sorted us" and len: "3 \<le> length us"
    and small: "20 * D + 10000000000 \<le> T" "T < 2 ^ 52"
    and fit: "phaseFitAverage period (length us) us p = (COMMON_STATUS_OK, r)"
  shows "phaseFit period (length us) us p = Some (COMMON_STATUS_OK, r)"
proof -
  define u where "u = length us div 2"
  have u: "1 \<le> u" "u + 1 < length us" using len by (simp_all add: u_def)
  have D0: "0 \<le> D" using dev_of_bound(2)[OF near(1), of 1] len by linarith
  define X where "X = uint (us ! (u + 1)) - uint (us ! u)"
  define N where "N = T div 1000000000"
  have "\<bar>uint (us ! (u + 1)) * 1000000000 - (P + int u * T)\<bar> \<le> D"
    "\<bar>uint (us ! u) * 1000000000 - (P + (int u - 1) * T)\<bar> \<le> D"
    using near(1)[unfolded near_crossings_def, rule_format, of "u + 1"]
      near(1)[unfolded near_crossings_def, rule_format, of u] u by simp_all
  hence XT: "\<bar>X * 1000000000 - T\<bar> \<le> 2 * D" by (simp add: X_def algebra_simps)
  note a = period_arith[OF small(1) D0 XT N_def]
  have Nb: "N < 2 ^ 23" using small(2) by (simp add: N_def)
  have Xw: "uint (us ! (u + 1) - us ! u) = X"
    using sub_no_wrap[of "us ! u" "us ! (u + 1)"] near(2) u by (simp add: X_def sorted_iff_nth_mono)
  have pn: "(ucast (period div one_ns_as) :: u32) = word_of_int N"
  proof -
    have "uint (period div one_ns_as) = N" by (simp add: N_def T_def uint_div one_ns_as_def)
    thus ?thesis by (simp add: word_uint_eq_iff unsigned_ucast_eq uint_word_of_int take_bit_eq_mod)
  qed
  have dn: "(ucast (us ! (u + 1) - us ! u) :: u32) = word_of_int X"
    using Xw by (simp add: word_uint_eq_iff unsigned_ucast_eq uint_word_of_int take_bit_eq_mod)
  have N0: "(word_of_int N :: u32) \<noteq> 0" using word_small(1)[of N] a(1) Nb by force
  have sN: "sint (word_of_int N :: u32) = N" using word_small(2)[of N] a(1) Nb by simp
  have sX: "sint (word_of_int X :: u32) = X" using word_small(2)[of X] a(2,3) Nb by simp
  have dv: "N sdiv 10 = N div 10" using a(1) by (simp add: signed_divide_int_def)
  have md: "X smod N = X mod N" using a(1,2) by (cases "X = 0") (simp_all add: signed_modulo_int_def signed_divide_int_def minus_mult_div_eq_mod)
  define m where "m = X mod N"
  have m: "0 \<le> m" "m < N" using a(1) by (simp_all add: m_def)
  have hN: "sint (signed_drop_bit 1 (word_of_int N :: u32)) = N div 2"
    by (simp add: sint_signed_drop_bit_eq sN drop_bit_eq_div)
  have dt: "(if sint (word_of_int m :: u32) > sint (signed_drop_bit 1 (word_of_int N :: u32))
      then word_of_int N - word_of_int m else word_of_int m) = (word_of_int (if m > N div 2 then N - m else m) :: u32)"
    using word_small(2)[of m] m Nb hN by simp
  have "\<not> (word_of_int (if m > N div 2 then N - m else m) :: u32) > word_of_int (N div 10)"
    using a(4,5) word_small(1)[of "if m > N div 2 then N - m else m"] word_small(1)[of "N div 10"] a(1) Nb
    unfolding m_def[symmetric] by (simp add: word_less_def split del: if_split)
  moreover have "period \<noteq> 0" using small(1) D0 by (auto simp: T_def)
  ultimately show ?thesis
    unfolding phaseFit_def u_def[symmetric] Let_def pn dn sN sX dv md m_def[symmetric] dt
    using N0 len fit by simp
qed

lemma fit_stamps_near:
  fixes TH :: u64 and us :: "u64 list"
  assumes "near_crossings P (uint TH) D us" "sorted us" "length us \<le> 32" "8 * D < uint TH - 8" "uint TH < 2 ^ 52" "3 \<le> length us"
  shows "\<exists>a b. nGood (fit_stamps TH (us ! 1) (map ((!) us) [1..<length us])) = length us - 1 \<and>
    1 \<le> a \<and> a < length us \<and>
    sint (max_deviation_as (fit_stamps TH (us ! 1) (map ((!) us) [1..<length us]))) = dev_of (uint TH) us a \<and>
    1 \<le> b \<and> b < length us \<and>
    sint (min_deviation_as (fit_stamps TH (us ! 1) (map ((!) us) [1..<length us]))) = dev_of (uint TH) us b"
proof -
  have k: "1 \<le> length us - 1" "length us - 1 < length us" "Suc (length us - 1) = length us" using assms(6) by simp_all
  obtain f a b where f: "fit_stamps TH (us ! 1) (map ((!) us) [1..<length us]) = f" "nGood f = length us - 1"
    "1 \<le> a" "a \<le> length us - 1" "sint (max_deviation_as f) = dev_of (uint TH) us a"
    "1 \<le> b" "b \<le> length us - 1" "sint (min_deviation_as f) = dev_of (uint TH) us b"
    using fit_near[OF assms(1-5) k(1,2), unfolded k(3)] unfolding fit_stamps_def by force
  show ?thesis unfolding f(1) by (rule exI[of _ a], rule exI[of _ b]) (use f k in linarith)
qed

lemma phaseFit_prefix:
  assumes "\<And>i. i < n \<Longrightarrow> us ! i = vs ! i" "3 \<le> n"
  shows "phaseFit period n us p = phaseFit period n vs p"
proof -
  have "map ((!) us) [1..<n] = map ((!) vs) [1..<n]" "us ! 1 = vs ! 1" using assms by simp_all
  hence "phaseFitAverage period n us p = phaseFitAverage period n vs p"
    by (simp only: phaseFitAverage_def)
  moreover have "us ! (n div 2) = vs ! (n div 2)" "us ! (n div 2 + 1) = vs ! (n div 2 + 1)"
    using assms(2) by (intro assms(1); simp)+
  ultimately show ?thesis unfolding phaseFit_def Let_def by (simp only:)
qed

text \<open>
  The measured phase is as exact as the time stamps.  From three to 32 stamps, in whatever order they
  arrive, of which all but the earliest are within \<open>D\<close> attoseconds of successive zero crossings of the radio
  frequency, the fit succeeds, and the phase it gives is within \<open>D\<close> and a picosecond of the crossing at \<open>P\<close>, the one that
  belongs to the second stamp.  Periods from ten nanoseconds to four milliseconds, stamps off by up to a twentieth of a period less
  half a nanosecond.
\<close>

theorem phase_accuracy:
  fixes period :: u64 and ts us :: "u64 list" and P D :: int
  defines "T \<equiv> uint period" and "n \<equiv> length us"
  assumes stamps: "mset (take n ts) = mset us" "sorted us" "near_crossings P T D us" and n: "3 \<le> n" "n \<le> 32"
    and small: "20 * D + 10000000000 \<le> T" "T < 2 ^ 52" "T \<le> P" "P + T < 2 ^ 64 * 1000000000"
  shows "\<exists>r. phaseFit period n (insertionSort ts n) p = Some (COMMON_STATUS_OK, r) \<and>
    \<bar>pst r * 1000000 - P\<bar> < D + 1000000 \<and> - 500 \<le> sint (b_ps r) \<and> sint (b_ps r) < 500"
proof -
  have l: "n \<le> length ts" using mset_eq_length[OF stamps(1)] by (simp add: n_def)
  have srt: "sort (take n ts) = us" using stamps(1,2) by (metis properties_for_sort)
  have D0: "0 \<le> D" using dev_of_bound(2)[OF stamps(3), of 1] n by (simp add: n_def)
  have k: "1 \<le> n - 1" "n - 1 < length us" "Suc (n - 1) = n" using n by (simp_all add: n_def)
  obtain f a b where f: "fit_stamps period (us ! 1) (map ((!) us) [1..<n]) = f" "nGood f = n - 1"
    and a: "1 \<le> a" "a < length us" "sint (max_deviation_as f) = dev_of T us a"
    and b: "1 \<le> b" "b < length us" "sint (min_deviation_as f) = dev_of T us b"
    using fit_stamps_near[OF stamps(3)[unfolded T_def] stamps(2)] n small D0 unfolding T_def n_def by auto
  define c where "c = (dev_of T us a + dev_of T us b) div 2"
  define g where "g = c sdiv 1000000"
  have da: "\<bar>dev_of T us a\<bar> \<le> 2 * D" "\<bar>dev_of T us b\<bar> \<le> 2 * D"
    using dev_of_bound(1)[OF stamps(3)] a b by blast+
  have e: "\<bar>uint (us ! 1) * 1000000000 + dev_of T us a - P\<bar> \<le> D" "\<bar>uint (us ! 1) * 1000000000 + dev_of T us b - P\<bar> \<le> D"
    using dev_of_bound(3)[OF stamps(3)] a b by blast+
  have c: "\<bar>c\<bar> \<le> 2 * D" "\<bar>uint (us ! 1) * 1000000000 + c - P\<bar> \<le> D" using da e unfolding c_def by linarith+
  have g: "\<bar>1000000 * g - c\<bar> < 1000000" using sdiv_close[of c] by (simp add: g_def)
  have sub: "sint (signed_drop_bit 1 (max_deviation_as f + min_deviation_as f)) = c"
  proof -
    have "sint (max_deviation_as f + min_deviation_as f) = dev_of T us a + dev_of T us b"
      using da small(1,2) a(3) b(3) by (simp add: sint_word_ariths(1) signed_take_bit_int_eq_self)
    thus ?thesis by (simp add: sint_signed_drop_bit_eq drop_bit_eq_div c_def)
  qed
  define w :: u32 where "w = drop_bit 20 (ucast (max_deviation_as f - min_deviation_as f))"
  define t where "t = \<lparr>b_ns = us ! 1, b_ps = word_of_int g, b_dps = w\<rparr>"
  have "period \<noteq> 0" using small(1) D0 by (auto simp: T_def)
  hence av: "phaseFitAverage period (length us) us p = (COMMON_STATUS_OK, fwlib_cleanB2bt t)"
    using n f unfolding phaseFitAverage_def
    by (simp add: n_def Let_def B2B_FW_USESUBNSFIT_def sub[unfolded One_nat_def] t_def g_def w_def)
  have "phaseFit period n (insertionSort ts n) p = phaseFit period n us p"
    unfolding insertionSort_sort[OF l] srt by (rule phaseFit_prefix) (use n in \<open>simp_all add: nth_append n_def\<close>)
  also have "\<dots> = Some (COMMON_STATUS_OK, fwlib_cleanB2bt t)"
    unfolding n_def by (rule phaseFit_accepts[OF stamps(3)[unfolded T_def] stamps(2)])
      (use n small av in \<open>simp_all add: n_def T_def\<close>)
  finally have fit: "phaseFit period n (insertionSort ts n) p = Some (COMMON_STATUS_OK, fwlib_cleanB2bt t)" .
  have T52: "T < 4503599627370496" "P + T < 18446744073709551616000000000" using small(2,4) by simp_all
  have gb: "\<bar>g\<bar> < 1073741824" using g c(1) small(1) T52 by linarith
  have sg: "sint (b_ps t) = g" using gb by (simp add: t_def sint_sbintrunc' signed_take_bit_int_eq_self)
  have "pst (fwlib_cleanB2bt t) = pst t"
  proof (rule clean_pst_any)
    show "0 \<le> uint (b_ns t) + (sint (b_ps t) + 500) div 1000"
      unfolding sg using g c small(1,3) by (simp add: t_def)
    show "uint (b_ns t) + (sint (b_ps t) + 500) div 1000 < 2 ^ 64"
      unfolding sg using g c small(1) T52 by (simp add: t_def)
  qed
  also have "pst t = 1000 * uint (us ! 1) + g" unfolding pst_def sg by (simp add: t_def)
  finally have "\<bar>pst (fwlib_cleanB2bt t) * 1000000 - P\<bar> < D + 1000000" using c(2) g by simp
  thus ?thesis using fit clean_spec(2)[of t] by simp
qed

theorem phase_accuracy_witness:
  "\<exists>r. phaseFit 1000000000000 4 (insertionSort [2001000, 2003000, 2000500, 2002001] 4) no_b2bt = Some (COMMON_STATUS_OK, r) \<and>
     \<bar>pst r * 1000000 - 2001000000000000\<bar> < 1001000000"
proof -
  have "near_crossings 2001000000000000 1000000000000 1000000000 [2000500, 2001000, 2002001, 2003000]"
  proof -
    have "i = 1 \<or> i = 2 \<or> i = 3" if "1 \<le> i \<and> i < 4" for i :: nat using that by auto
    thus ?thesis unfolding near_crossings_def by fastforce
  qed
  hence near: "near_crossings 2001000000000000 (uint (1000000000000 :: u64)) 1000000000 [2000500, 2001000, 2002001, 2003000]"
    by simp
  have l: "length [2000500, 2001000, 2002001, 2003000 :: u64] = 4" by simp
  have m: "mset (take 4 [2001000, 2003000, 2000500, 2002001 :: u64]) = mset [2000500, 2001000, 2002001, 2003000]" by simp
  show ?thesis
    using phase_accuracy[where p = no_b2bt and us = "[2000500, 2001000, 2002001, 2003000]", unfolded l, OF m _ near]
    by auto
qed

end
