(* ===== verification/B2b_Frame.thy ===== *)
theory B2b_Frame
  imports B2b_Main Fw_Frame
begin

text \<open>
  The control state of the central unit: mode, state of the mini state machine, number of results received,
  group, and whether the extraction kicker has been triggered.  What the stages do to it is a function of
  the control state alone.
\<close>

section \<open>The control state\<close>

type_synonym b2b_key = "u32 \<times> u32 \<times> u32 \<times> u32 \<times> bool"

definition key :: "b2b \<Rightarrow> b2b_key" where
  "key s = (b_mode s, mState s, nPhaseResult s, b_gid s, bit (transStat s) 6)"

definition mnext :: "u32 \<Rightarrow> u32 \<Rightarrow> u32 \<Rightarrow> u32 \<times> u32" where
  "mnext md act n = (let r = getNextMState md act (power_up\<lparr>nPhaseResult := n\<rparr>) in (fst r, nPhaseResult (snd r)))"

fun next_key :: "b2b_key \<Rightarrow> b2b_key" where
  "next_key (md, m, n, g, k) = (md, fst (mnext md m n), snd (mnext md m n), g, k \<or> bit m 6)"

lemma same_result: "s\<lparr>nPhaseResult := nPhaseResult s\<rparr> = (s :: b2b)"
  by (cases s) simp

lemma getNextMState_mnext:
  "getNextMState md act s = (fst (mnext md act (nPhaseResult s)), s\<lparr>nPhaseResult := snd (mnext md act (nPhaseResult s))\<rparr>)"
  by (simp add: mnext_def getNextMState_def diamond_def Let_def same_result)

lemma key_next_stage: "key (next_stage s) = next_key (key s)"
  by (simp add: next_stage_def getNextMState_mnext key_def Let_def bit_or_iff)

lemma more_fields: "fw.more s = fw.more t \<Longrightarrow> key s = key t \<and> stack s = stack t \<and> errorFlags s = errorFlags t"
  by (cases s; cases t) (simp add: key_def)

lemma key_more: "fw.more s = fw.more t \<Longrightarrow> key s = key t"
  using more_fields by blast

named_theorems key_simps "operations that keep the control state"

lemma key_lib [key_simps]:
  "key (snd (sys_time s)) = key s" "key (send_tm dl i p t s) = key s" "key (wr_dev r v s) = key s"
  unfolding send_tm_def by (rule key_more, simp add: more_simps)+

lemma key_fields [key_simps]:
  "key (s\<lparr>tH1Ext_t := a\<rparr>) = key s" "key (s\<lparr>tH1Inj_t := a\<rparr>) = key s" "key (s\<lparr>errorFlags := e\<rparr>) = key s"
  "key (s\<lparr>pShiftExt := a\<rparr>) = key s" "key (s\<lparr>pShiftInj := a\<rparr>) = key s" "key (s\<lparr>offsetPrr_us := w\<rparr>) = key s"
  "key (s\<lparr>TBeat_as := b\<rparr>) = key s" "key (s\<lparr>beyond_TBeat := b\<rparr>) = key s" "key (s\<lparr>stat := st\<rparr>) = key s"
  "key (s\<lparr>sets := ss\<rparr>) = key s" "key (s\<lparr>flagClearAllSid := e\<rparr>) = key s" "key (s\<lparr>shm := mm\<rparr>) = key s"
  "key (s\<lparr>b_nTransfer := e\<rparr>) = key s" "key (s\<lparr>b_statusArray := b\<rparr>) = key s" "key (s\<lparr>time_cnt := k\<rparr>) = key s"
  by (simp_all add: key_def)

lemma key_wr [key_simps]: "key (b2b_wr off v s) = key s"
  by (simp add: b2b_wr_def key_simps)

lemma key_mid: "fst (snd (key s)) = mState s"
  by (simp add: key_def)

section \<open>Stages\<close>

lemma key_stages:
  "key (snd (stage_tkick loc s)) = next_key (key s)" "key (stage_pmext loc s) = next_key (key s)"
  "key (stage_pminj loc s) = next_key (key s)" "key (snd (stage_tnextrf loc s)) = next_key (key s)"
  "stage_pshiftc_ext loc s = Some s' \<Longrightarrow> key s' = next_key (key s)"
  "stage_pshiftc_inj loc s = Some s' \<Longrightarrow> key s' = next_key (key s)"
  "key (snd (stage_pshifts_ext loc s)) = next_key (key s)" "key (snd (stage_pshifts_inj loc s)) = next_key (key s)"
  by (auto simp: stage_tkick_def stage_pmext_def stage_pminj_def stage_tnextrf_def stage_pshiftc_ext_def
      stage_pshiftc_inj_def stage_pshifts_ext_def stage_pshifts_inj_def send_shift_def Let_def key_next_stage key_simps
      split: prod.splits if_splits)

lemma key_probe: "key (snd (probe k i a b c d e f best s)) = key s"
proof (induction k arbitrary: i best s)
  case 0
  thus ?case by (cases best) simp
next
  case (Suc k)
  show ?case by (cases best) (simp add: Let_def split_beta Suc key_simps)
qed

lemma key_tune: "tune a b c d e s = Some (t, s') \<Longrightarrow> key s' = key s"
  using key_probe by (auto simp: tune_def Let_def split: if_splits)
    (metis snd_conv)+

lemma key_match: "calcPhaseMatch tMin t s = Some (st, t', s') \<Longrightarrow> key s' = key s"
proof -
  assume a: "calcPhaseMatch tMin t s = Some (st, t', s')"
  have b: "key (snd (set_TBeat x y u)) = key u" for x y u
    by (simp add: set_TBeat_def Let_def key_simps)
  show ?thesis
    using a unfolding calcPhaseMatch_def Let_def split_beta
    by (auto simp: b key_simps bind_eq_Some_conv key_tune split: if_splits dest!: key_tune)
qed

lemma key_tfbeat: "stage_tfbeat st loc s = Some (st', loc', s') \<Longrightarrow> key s' = next_key (key s)"
  by (auto simp: stage_tfbeat_def Let_def key_next_stage key_simps split: if_splits option.splits prod.splits dest: key_match)


text \<open>The stages in their order, on control states.\<close>

definition at :: "u32 \<Rightarrow> b2b_key \<Rightarrow> b2b_key" where
  "at m k = (if fst (snd k) = m then next_key k else k)"

definition calc_key :: "b2b_key \<Rightarrow> b2b_key" where
  "calc_key k = at B2B_MFSM_INJ_PSHIFT_S (at B2B_MFSM_EXT_PSHIFT_S (at B2B_MFSM_INJ_PSHIFT_C (at B2B_MFSM_EXT_PSHIFT_C
     (at B2B_MFSM_EXT_TFBEAT_C (at B2B_MFSM_EXT_TNEXTRF_C (at B2B_MFSM_INJ_PMEAS_S (at B2B_MFSM_EXT_PMEAS_S
     (at B2B_MFSM_EXT_TKICK_C k))))))))"

lemma calc_stages_key:
  assumes "calc_stages st loc s = Some (st', loc', s')"
  shows "key s' = calc_key (key s)"
proof -
  let ?r1 = "if mState s = B2B_MFSM_EXT_TKICK_C then stage_tkick loc s else (loc, s)"
  obtain l1 s1 where r1: "?r1 = (l1, s1)" by fastforce
  let ?s2 = "if mState s1 = B2B_MFSM_EXT_PMEAS_S then stage_pmext l1 s1 else s1"
  let ?s3 = "if mState ?s2 = B2B_MFSM_INJ_PMEAS_S then stage_pminj l1 ?s2 else ?s2"
  let ?r4 = "if mState ?s3 = B2B_MFSM_EXT_TNEXTRF_C then stage_tnextrf l1 ?s3 else (l1, ?s3)"
  obtain l4 s4 where r4: "?r4 = (l4, s4)" by fastforce
  let ?r5 = "if mState s4 = B2B_MFSM_EXT_TFBEAT_C then stage_tfbeat st l4 s4 else Some (st, l4, s4)"
  obtain st5 l5 s5 s6 s7 where r5: "?r5 = Some (st5, l5, s5)"
    and r6: "(if mState s5 = B2B_MFSM_EXT_PSHIFT_C then stage_pshiftc_ext l5 s5 else Some s5) = Some s6"
    and r7: "(if mState s6 = B2B_MFSM_INJ_PSHIFT_C then stage_pshiftc_inj l5 s6 else Some s6) = Some s7"
    and f: "(case (if mState s7 = B2B_MFSM_EXT_PSHIFT_S then stage_pshifts_ext l5 s7 else (l5, s7)) of
        (l8, s8) \<Rightarrow> case (if mState s8 = B2B_MFSM_INJ_PSHIFT_S then stage_pshifts_inj l8 s8 else (l8, s8)) of
        (l9, s9) \<Rightarrow> Some (st5, l9, s9)) = Some (st', loc', s')"
    using assms unfolding calc_stages_def Let_def r1 prod.case r4 by (auto simp: bind_eq_Some_conv)
  have k1: "key s1 = at B2B_MFSM_EXT_TKICK_C (key s)"
    using r1 key_stages(1)[of loc s] by (auto simp: at_def key_mid split: if_splits)
  have k2: "key ?s2 = at B2B_MFSM_EXT_PMEAS_S (key s1)" by (simp add: at_def key_mid key_stages)
  have k3: "key ?s3 = at B2B_MFSM_INJ_PMEAS_S (key ?s2)" by (simp add: at_def key_mid key_stages)
  have k4: "key s4 = at B2B_MFSM_EXT_TNEXTRF_C (key ?s3)"
    using arg_cong[OF r4, of snd] key_stages(4)[of l1 ?s3] by (simp add: at_def key_mid split: if_splits)
  have k5: "key s5 = at B2B_MFSM_EXT_TFBEAT_C (key s4)"
    using r5 by (auto simp: at_def key_mid dest: key_tfbeat split: if_splits)
  have k6: "key s6 = at B2B_MFSM_EXT_PSHIFT_C (key s5)"
    using r6 by (auto simp: at_def key_mid dest: key_stages(5) split: if_splits)
  have k7: "key s7 = at B2B_MFSM_INJ_PSHIFT_C (key s6)"
    using r7 by (auto simp: at_def key_mid dest: key_stages(6) split: if_splits)
  obtain l8 s8 where r8: "(if mState s7 = B2B_MFSM_EXT_PSHIFT_S then stage_pshifts_ext l5 s7 else (l5, s7)) = (l8, s8)"
    by fastforce
  have k8: "key s8 = at B2B_MFSM_EXT_PSHIFT_S (key s7)"
    using r8 key_stages(7)[of l5 s7] by (auto simp: at_def key_mid split: if_splits)
  have "key s' = at B2B_MFSM_INJ_PSHIFT_S (key s8)"
    using f key_stages(8)[of l8 s8] unfolding r8 prod.case by (auto simp: at_def key_mid split: if_splits prod.splits)
  thus ?thesis by (simp only: calc_key_def k8 k7 k6 k5 k4 k3 k2 k1)
qed

definition gid_of :: "bool \<Rightarrow> u32 \<Rightarrow> u32" where
  "gid_of e g = getTrigGid e (power_up\<lparr>b_gid := g\<rparr>)"

fun trig :: "bool \<Rightarrow> u32 \<Rightarrow> b2b_key \<Rightarrow> b2b_key" where
  "trig e a (md, m, n, g, k) = (if m = a \<and> gid_of e g \<noteq> 0 then next_key (md, m, n, g, k) else (md, m, n, g, k))"

definition trig_key :: "b2b_key \<Rightarrow> b2b_key" where
  "trig_key k = trig False B2B_MFSM_INJ_TRIG (trig True B2B_MFSM_EXT_TRIG k)"

text \<open>The state a handler leaves, whether it returns at once or goes on.\<close>

definition left :: "(u32 \<times> b2b) + b2b \<Rightarrow> b2b" where
  "left r = (case r of Inl (st, s) \<Rightarrow> s | Inr s \<Rightarrow> s)"

lemma gid_key: "getTrigGid e s = gid_of e (b_gid s)"
  by (simp add: gid_of_def getTrigGid_def)

lemma key_flag_late: "key (snd (flag_late t s)) = key s"
  by (simp add: flag_late_def split_beta key_simps)

lemma key_trigext: "key (left (stage_trigext loc s)) = trig True (mState s) (key s)"
proof (cases "getTrigGid True s = 0")
  case True
  thus ?thesis by (simp add: stage_trigext_def left_def Let_def key_def gid_key)
next
  case False
  hence "key (left (stage_trigext loc s)) = next_key (key s)"
    by (simp add: stage_trigext_def left_def Let_def split_beta key_next_stage key_simps key_flag_late)
  thus ?thesis using False by (simp add: key_def gid_key)
qed

lemma key_triginj: "key (left (stage_triginj loc s)) = trig False (mState s) (key s)"
proof (cases "getTrigGid False s = 0")
  case True
  thus ?thesis by (simp add: stage_triginj_def left_def Let_def key_def gid_key)
next
  case False
  hence "key (left (stage_triginj loc s)) = next_key (key s)"
    using key_flag_late by (auto simp: stage_triginj_def left_def Let_def key_next_stage key_simps split: prod.splits)
      (metis snd_conv)+
  thus ?thesis using False by (simp add: key_def gid_key)
qed

lemma trig_other: "fst (snd k) \<noteq> a \<Longrightarrow> trig e a k = k"
  by (cases k) simp

lemma trig_stages_key: "key (left (trig_stages loc s)) = trig_key (key s)"
proof (cases "mState s = B2B_MFSM_EXT_TRIG")
  case True
  note e = this
  have k: "key (left (stage_trigext loc s)) = trig True B2B_MFSM_EXT_TRIG (key s)"
    using key_trigext[of loc s] by (simp add: e)
  show ?thesis
  proof (cases "stage_trigext loc s")
    case (Inl r)
    hence "getTrigGid True s = 0" by (auto simp: stage_trigext_def Let_def split_beta split: if_splits)
    hence "trig True B2B_MFSM_EXT_TRIG (key s) = key s" by (simp add: key_def gid_key)
    moreover have "trig False B2B_MFSM_INJ_TRIG (key s) = key s"
      by (rule trig_other) (simp add: key_mid e b2b_mfsm)
    ultimately show ?thesis using k Inl by (simp add: trig_stages_def e trig_key_def left_def split: prod.splits)
  next
    case (Inr s1)
    hence k1: "key s1 = trig True B2B_MFSM_EXT_TRIG (key s)" using k by (simp add: left_def)
    show ?thesis
    proof (cases "mState s1 = B2B_MFSM_INJ_TRIG")
      case True
      thus ?thesis using key_triginj[of loc s1] Inr by (simp add: trig_stages_def e trig_key_def k1)
    next
      case False
      hence "trig False B2B_MFSM_INJ_TRIG (key s1) = key s1" by (intro trig_other) (simp add: key_mid)
      thus ?thesis using False Inr by (simp add: trig_stages_def e trig_key_def k1 left_def)
    qed
  qed
next
  case False
  hence k: "trig True B2B_MFSM_EXT_TRIG (key s) = key s" by (intro trig_other) (simp add: key_mid)
  show ?thesis
  proof (cases "mState s = B2B_MFSM_INJ_TRIG")
    case True
    thus ?thesis using key_triginj[of loc s] \<open>mState s \<noteq> B2B_MFSM_EXT_TRIG\<close> by (simp add: trig_stages_def trig_key_def k)
  next
    case False
    hence "trig False B2B_MFSM_INJ_TRIG (key s) = key s" by (intro trig_other) (simp add: key_mid)
    thus ?thesis using False \<open>mState s \<noteq> B2B_MFSM_EXT_TRIG\<close> by (simp add: trig_stages_def trig_key_def k left_def)
  qed
qed

section \<open>Messages\<close>

lemma key_set_prr: "key (set_prr s) = key s"
  by (simp add: set_prr_def split_beta key_simps)

lemma on_prext_key:
  "on_prext st a s = Inl (st', s') \<Longrightarrow> key s' = key s"
  "on_prext st a s = Inr (st', loc, s') \<Longrightarrow> mState s \<in> {B2B_MFSM_EXT_PMEAS_R, B2B_MFSM_ALL_PMEAS_R} \<and> key s' = next_key (key s)"
proof -
  have m: "mState (set_prr s) = mState s" using key_set_prr[of s] by (simp add: key_def)
  show "on_prext st a s = Inl (st', s') \<Longrightarrow> key s' = key s"
    by (auto simp: on_prext_def Let_def key_set_prr split: if_splits)
  show "on_prext st a s = Inr (st', loc, s') \<Longrightarrow>
      mState s \<in> {B2B_MFSM_EXT_PMEAS_R, B2B_MFSM_ALL_PMEAS_R} \<and> key s' = next_key (key s)"
    by (auto simp: on_prext_def Let_def key_set_prr m key_next_stage key_simps split: if_splits)
qed

lemma on_prinj_key:
  "on_prinj st a s = Inl (st', s') \<Longrightarrow> key s' = key s"
  "on_prinj st a s = Inr (st', loc, s') \<Longrightarrow> mState s = B2B_MFSM_ALL_PMEAS_R \<and> key s' = next_key (key s)"
proof -
  have m: "mState (set_prr s) = mState s" using key_set_prr[of s] by (simp add: key_def)
  show "on_prinj st a s = Inl (st', s') \<Longrightarrow> key s' = key s"
    by (auto simp: on_prinj_def Let_def key_set_prr split: if_splits)
  show "on_prinj st a s = Inr (st', loc, s') \<Longrightarrow> mState s = B2B_MFSM_ALL_PMEAS_R \<and> key s' = next_key (key s)"
    by (auto simp: on_prinj_def Let_def key_set_prr m key_next_stage key_simps split: if_splits)
qed

lemma on_start_key:
  "on_start a s = Inl (st', s') \<Longrightarrow> mState s' = B2B_MFSM_NOTHING \<and> transStat s' = 0"
  "on_start a s = Inr (st', loc, s') \<Longrightarrow>
     \<exists>md n g. key s' = (md, fst (mnext md B2B_MFSM_S0 n), snd (mnext md B2B_MFSM_S0 n), g, False)"
proof -
  have t: "transStat (snd (setSubmit (start_clear a s))) = 0"
    by (simp add: setSubmit_def start_clear_def put_set_def Let_def)
  show "on_start a s = Inl (st', s') \<Longrightarrow> mState s' = B2B_MFSM_NOTHING \<and> transStat s' = 0"
    using t by (auto simp: on_start_def Let_def split: if_splits prod.splits)
  show "on_start a s = Inr (st', loc, s') \<Longrightarrow>
     \<exists>md n g. key s' = (md, fst (mnext md B2B_MFSM_S0 n), snd (mnext md B2B_MFSM_S0 n), g, False)"
    using t by (auto simp: on_start_def Let_def getNextMState_mnext key_def start_copy_def split: if_splits prod.splits)
qed

end
