(* ===== verification/B2b_Reach.thy ===== *)
theory B2b_Reach
  imports B2b_Frame Fw_Program
begin

text \<open>
  The reachable states of the central unit: between two timing messages it rests in one of a few states, and
  once it has triggered the extraction kicker nothing but the next start makes it send again.
\<close>

section \<open>Where the unit rests between two messages\<close>

fun at_rest :: "b2b_key \<Rightarrow> bool" where
  "at_rest (md, m, n, g, k) \<longleftrightarrow>
     (k \<longrightarrow> m = B2B_MFSM_NOTHING \<or> m = B2B_MFSM_INJ_TRIG) \<and>
     (m = 0 \<or> m = B2B_MFSM_NOTHING \<or>
      m = B2B_MFSM_EXT_PMEAS_R \<and> md \<in> {B2B_MODE_B2E, B2B_MODE_B2C, B2B_MODE_B2EPSHIFT} \<or>
      m = B2B_MFSM_ALL_PMEAS_R \<and> md \<in> {B2B_MODE_B2BFBEAT, B2B_MODE_B2BPSHIFTE, B2B_MODE_B2BPSHIFTI} \<and> n \<in> {0, 1} \<or>
      m = B2B_MFSM_EXT_TRIG \<and> gid_of True g = 0 \<or> m = B2B_MFSM_INJ_TRIG \<and> gid_of False g = 0)"

lemmas mfsm_tables = mfsm_off_def mfsm_bse_def mfsm_b2e_def mfsm_b2c_def mfsm_fbeat_def mfsm_epshift_def
  mfsm_pshifte_def mfsm_pshifti_def

lemma mnext_eval:
  "mnext md m n =
     (if md = B2B_MODE_OFF then (switch mfsm_off m, n)
      else if md = B2B_MODE_BSE then (switch mfsm_bse m, n)
      else if md = B2B_MODE_B2E then (switch mfsm_b2e m, n)
      else if md = B2B_MODE_B2C then (switch mfsm_b2c m, n)
      else if md = B2B_MODE_B2EPSHIFT then (switch mfsm_epshift m, n)
      else if md = B2B_MODE_B2BFBEAT \<or> md = B2B_MODE_B2BPSHIFTE \<or> md = B2B_MODE_B2BPSHIFTI
      then (if m = B2B_MFSM_INJ_PMEAS_S then (B2B_MFSM_ALL_PMEAS_R, 0)
            else if m = B2B_MFSM_ALL_PMEAS_R
            then (if n + 1 = 2 then (if md = B2B_MODE_B2BFBEAT then B2B_MFSM_EXT_TFBEAT_C else B2B_MFSM_EXT_TNEXTRF_C)
                  else B2B_MFSM_ALL_PMEAS_R, n + 1)
            else (switch (if md = B2B_MODE_B2BFBEAT then mfsm_fbeat else if md = B2B_MODE_B2BPSHIFTE then mfsm_pshifte
                          else mfsm_pshifti) m, n))
      else (B2B_MFSM_NOTHING, n))"
  by (simp add: mnext_def getNextMState_def diamond_def Let_def b2b_mode power_up_def)

lemmas run_defs = mnext_eval switch_def mfsm_tables b2b_mode b2b_mfsm at_def calc_key_def trig_key_def

lemma run_start: "at_rest (trig_key (calc_key (md, fst (mnext md B2B_MFSM_S0 n), snd (mnext md B2B_MFSM_S0 n), g, False)))"
proof -
  consider "md = B2B_MODE_OFF" | "md = B2B_MODE_BSE" | "md = B2B_MODE_B2E" | "md = B2B_MODE_B2C" |
    "md = B2B_MODE_B2BFBEAT" | "md = B2B_MODE_B2EPSHIFT" | "md = B2B_MODE_B2BPSHIFTE" | "md = B2B_MODE_B2BPSHIFTI" |
    "md \<notin> {B2B_MODE_OFF, B2B_MODE_BSE, B2B_MODE_B2E, B2B_MODE_B2C, B2B_MODE_B2BFBEAT, B2B_MODE_B2EPSHIFT,
      B2B_MODE_B2BPSHIFTE, B2B_MODE_B2BPSHIFTI}"
    by blast
  thus ?thesis by cases (simp_all add: run_defs)
qed

lemma run_result:
  assumes "at_rest (md, m, n, g, k)" "m = B2B_MFSM_EXT_PMEAS_R \<or> m = B2B_MFSM_ALL_PMEAS_R"
  shows "at_rest (trig_key (calc_key (next_key (md, m, n, g, k))))"
  using assms(2)
proof
  assume m: "m = B2B_MFSM_EXT_PMEAS_R"
  have k: "k = False" "md = B2B_MODE_B2E \<or> md = B2B_MODE_B2C \<or> md = B2B_MODE_B2EPSHIFT"
    using assms(1) unfolding m by (simp_all add: b2b_mfsm)
  from k(2) show ?thesis by (elim disjE) (simp_all add: run_defs m k(1))
next
  assume m: "m = B2B_MFSM_ALL_PMEAS_R"
  have k: "k = False" "md = B2B_MODE_B2BFBEAT \<or> md = B2B_MODE_B2BPSHIFTE \<or> md = B2B_MODE_B2BPSHIFTI"
    "n = 0 \<or> n = 1"
    using assms(1) unfolding m by (simp_all add: b2b_mfsm)
  from k(2,3) show ?thesis by (elim disjE) (simp_all add: run_defs m k(1))
qed

definition b2b_inv :: "b2b \<Rightarrow> bool" where
  "b2b_inv s \<longleftrightarrow> at_rest (key s)"

lemma b2b_inv_key: "key s = key t \<Longrightarrow> b2b_inv s = b2b_inv t"
  by (simp add: b2b_inv_def)

lemma rest_idle: "mState s = B2B_MFSM_NOTHING \<Longrightarrow> b2b_inv s"
  by (simp add: b2b_inv_def key_def)

lemma on_event_run:
  assumes "on_event st ev s = Inr (st', loc, s')" "b2b_inv s"
  shows "at_rest (trig_key (calc_key (key s')))"
proof -
  have r: "at_rest (trig_key (calc_key (key s')))"
    if "mState s \<in> {B2B_MFSM_EXT_PMEAS_R, B2B_MFSM_ALL_PMEAS_R}" "key s' = next_key (key s)"
  proof -
    obtain md n g k where "key s = (md, mState s, n, g, k)" by (simp add: key_def)
    thus ?thesis using run_result[of md "mState s" n g k] assms(2) that by (simp add: b2b_inv_def del: at_rest.simps next_key.simps)
  qed
  show ?thesis
    using assms(1) on_start_key(2)[of "ev_action ev" s st' loc s'] on_prext_key(2)[of st "ev_action ev" s st' loc s']
      on_prinj_key(2)[of st "ev_action ev" s st' loc s'] r
    by (auto simp: on_event_def run_start split: if_splits)
qed

lemma on_event_stop:
  assumes "on_event st ev s = Inl (st', s')" "b2b_inv s"
  shows "b2b_inv s'"
  using assms on_start_key(1)[of "ev_action ev" s st' s'] on_prext_key(1)[of st "ev_action ev" s st' s']
    on_prinj_key(1)[of st "ev_action ev" s st' s'] rest_idle
  by (auto simp: on_event_def b2b_inv_def split: if_splits)

lemma finish_key: "key (snd (finish ev t st s)) = key s"
proof -
  have w: "key (snd (fwlib_wrCheckSyncState u)) = key u" for u :: b2b
    by (rule key_more) (simp add: fwlib_wrCheckSyncState_def Let_def split_beta)
  show ?thesis by (simp add: finish_def Let_def split_beta clearAllSid_def w key_simps)
qed

lemma wait2_key: "fwlib_wait4ECAEvent2 us s = Some (ev, s') \<Longrightarrow> key s' = key s"
proof -
  assume "fwlib_wait4ECAEvent2 us s = Some (ev, s')"
  hence "fwlib_wait4ECAEvent us s = Some (ev_tag ev, ev_action ev, s')" by (simp add: fwlib_wait4ECAEvent_def)
  thus ?thesis by (intro key_more) (rule more_wait)
qed

lemma action_inv:
  assumes "doActionOperation_b2b st s = Some (st', s')" "b2b_inv s"
  shows "b2b_inv s'"
proof -
  obtain ev s1 where w: "fwlib_wait4ECAEvent2 1000 s = Some (ev, s1)"
    using assms(1) by (auto simp: doActionOperation_b2b_def bind_eq_Some_conv)
  let ?s2 = "snd (sys_time s1)"
  have i: "b2b_inv ?s2" using assms(2) wait2_key[OF w] by (simp add: b2b_inv_def key_simps)
  show ?thesis
  proof (cases "on_event st ev ?s2")
    case (Inl r)
    hence "r = (st', s')" using assms(1) w by (simp add: doActionOperation_b2b_def split_beta Let_def)
    thus ?thesis using Inl i on_event_stop by simp
  next
    case (Inr r)
    obtain st3 loc s3 where r: "r = (st3, loc, s3)" by (cases r)
    obtain st4 loc4 s4 where c: "calc_stages st3 loc s3 = Some (st4, loc4, s4)"
      and e: "(case trig_stages loc4 s4 of Inl q \<Rightarrow> q | Inr s5 \<Rightarrow> finish ev (wr_time s1 (time_cnt s1)) st4 s5) = (st', s')"
      using assms(1) w Inr r by (auto simp: doActionOperation_b2b_def sys_time_def Let_def bind_eq_Some_conv)
    have "key s' = key (left (trig_stages loc4 s4))"
      using e finish_key[of ev "wr_time s1 (time_cnt s1)" st4] by (cases "trig_stages loc4 s4") (auto simp: left_def, metis snd_conv)
    hence "key s' = trig_key (calc_key (key s3))" by (simp only: trig_stages_key calc_stages_key[OF c])
    thus ?thesis using on_event_run[OF Inr[unfolded r] i] by (simp add: b2b_inv_def)
  qed
qed


section \<open>Reachable states\<close>

lemma inv_more: "fw.more s' = fw.more s \<Longrightarrow> b2b_inv s \<Longrightarrow> b2b_inv s'"
  using key_more[of s' s] b2b_inv_key by blast

lemma inv_clear: "b2b_inv s \<Longrightarrow> b2b_inv (extern_clearDiag_b2b s)"
  by (cases "key s") (auto simp: b2b_inv_def extern_clearDiag_b2b_def key_def)

lemma key_flush: "flush_eca_b2b s = Some s' \<Longrightarrow> key s' = key s"
proof -
  assume a: "flush_eca_b2b s = Some s'"
  show ?thesis
    by (rule flush_eca_b2b.raw_induct[where P = "\<lambda>s s'. key s' = key s", OF _ a])
      (auto split: option.splits if_splits dest: more_wait[THEN key_more])
qed

lemma key_words: "key (fold (\<lambda>w. b2b_wr w 0) ws s) = key s"
  by (induction ws arbitrary: s) (simp_all add: key_simps)

lemma b2b_inv_configured: "extern_entryActionConfigured_b2b s = Some (st, s') \<Longrightarrow> b2b_inv s \<Longrightarrow> b2b_inv s'"
proof -
  assume a: "extern_entryActionConfigured_b2b s = Some (st, s')" and i: "b2b_inv s"
  let ?s1 = "(clearAllSid (fwlib_clearDiag extern_clearDiag_b2b s))\<lparr>flagClearAllSid := 0\<rparr>"
  obtain s2 where e: "fwlib_ebmInit 2000 0xffffffffffff 0xffffffff EBM_NOREPLY ?s1 = Some (st, s2)"
    and r: "s' = s2 \<or> s' = fwlib_publishNICData s2"
    using a by (auto simp: extern_entryActionConfigured_b2b_def Let_def split: option.splits if_splits)
  have "b2b_inv (fwlib_clearDiag extern_clearDiag_b2b s)"
    using inv_more[of "fwlib_clearDiag extern_clearDiag_b2b s" "extern_clearDiag_b2b s"] inv_clear[OF i]
    by (simp add: fwlib_clearDiag_def Let_def split_beta more_simps)
  hence "b2b_inv ?s1" by (simp add: b2b_inv_def clearAllSid_def key_simps)
  hence "b2b_inv s2" using inv_more[OF more_ebmInit[OF e]] by blast
  thus ?thesis using r inv_more[of "fwlib_publishNICData s2" s2] by (auto simp: more_simps)
qed

lemma inv_operation: "extern_entryActionOperation_b2b s = Some (st, s') \<Longrightarrow> b2b_inv s \<Longrightarrow> b2b_inv s'"
proof -
  assume a: "extern_entryActionOperation_b2b s = Some (st, s')" and i: "b2b_inv s"
  obtain s1 where f: "flush_eca_b2b (fwlib_clearDiag extern_clearDiag_b2b s) = Some s1"
    and r: "s' = fold (\<lambda>w. b2b_wr w 0) operation_words s1"
    using a by (auto simp: extern_entryActionOperation_b2b_def split: option.splits)
  have "b2b_inv (fwlib_clearDiag extern_clearDiag_b2b s)"
    using inv_more[of "fwlib_clearDiag extern_clearDiag_b2b s" "extern_clearDiag_b2b s"] inv_clear[OF i]
    by (simp add: fwlib_clearDiag_def Let_def split_beta more_simps)
  thus ?thesis by (simp add: r b2b_inv_def key_words key_flush[OF f])
qed

interpretation b2b_program: fw_program b2b_hooks b2b_inv extern_clearDiag_b2b
proof
  fix s s' :: b2b and st
  show "b2b_inv s'" if "b2b_inv s" "entryActionConfigured b2b_hooks s = Some (st, s')"
    using that b2b_inv_configured by (simp add: b2b_hooks_def)
  show "b2b_inv s'" if "b2b_inv s" "entryActionOperation b2b_hooks s = Some (st, s')"
    using that inv_operation by (simp add: b2b_hooks_def)
  show "b2b_inv (snd (exitActionOperation b2b_hooks s))" if "b2b_inv s"
    using that by (simp add: b2b_hooks_def extern_exitActionOperation_b2b_def)
  show "b2b_inv s'" if "fw.more s' = fw.more s" "b2b_inv s" by (rule inv_more[OF that])
  show "b2b_inv (extern_clearDiag_b2b s)" if "b2b_inv s" by (rule inv_clear[OF that])
qed

lemma key_host: "key (cmdHandler_b2b cmd s) = key s"
  by (simp add: cmdHandler_b2b_def setSubmit_def put_set_def Let_def key_simps)

lemma key_get: "key (publish_get s) = key s"
  by (simp add: publish_get_def key_simps)

lemma b2b_inv_iter: "b2b_iter (req, act, pub, st, s) = Some (req', act', pub', st', s') \<Longrightarrow> b2b_inv s \<Longrightarrow> b2b_inv s'"
proof -
  assume a: "b2b_iter (req, act, pub, st, s) = Some (req', act', pub', st', s')" and i: "b2b_inv s"
  obtain req1 cmd s1 where 1: "fwlib_cmdHandler extern_clearDiag_b2b req s = (req1, cmd, s1)" by (metis prod_cases3)
  obtain act3 req3 st3 s3 where 3: "fwlib_changeState b2b_hooks act req1 st (cmdHandler_b2b cmd s1) = Some (act3, req3, st3, s3)"
    using a by (auto simp: b2b_iter_def 1 bind_eq_Some_conv)
  obtain req4 st4 s4 where 4: "b2b_act req3 act3 st3 s3 = Some (req4, st4, s4)"
    using a by (auto simp: b2b_iter_def 1 3 bind_eq_Some_conv)
  have "b2b_inv (cmdHandler_b2b cmd s1)"
    using b2b_program.command_keeps[OF 1 i] by (simp add: b2b_inv_def key_host)
  hence "b2b_inv s3" by (rule b2b_program.change_keeps[OF 3])
  hence i4: "b2b_inv s4"
    using 4 action_inv b2b_program.do_keeps by (fastforce simp: b2b_act_def split: if_splits)
  have u: "b2b_inv (update_status_b2b x t)" if "b2b_inv t" for x t
    using that b2b_program.publish_keeps(4)[OF that] by (simp add: update_status_b2b_def Let_def b2b_inv_def key_simps)
  have p: "b2b_inv (publish_get (publish_transfer t))" if "b2b_inv t" for t
    using b2b_program.publish_keeps(5)[OF that] by (simp add: publish_transfer_def Let_def b2b_inv_def key_get)
  show ?thesis
    using a i4 by (auto simp: b2b_iter_def 1 3 4 Let_def b2b_program.publish_keeps u intro!: p)
qed

text \<open>From power-on, where the state of the mini state machine is zero, by passes of the main loop and
  writes of the host to the shared memory.\<close>

inductive b2b_reach :: "u32 \<times> u32 \<times> u32 \<times> u32 \<times> b2b \<Rightarrow> bool" where
  start: "mState s = 0 \<Longrightarrow> b2b_reach (b2b_start clu rams adr cpuId s)"
| pass: "b2b_reach c \<Longrightarrow> b2b_iter c = Some c' \<Longrightarrow> b2b_reach c'"
| host: "b2b_reach (req, act, pub, st, s) \<Longrightarrow> b2b_reach (req, act, pub, st, s\<lparr>shm := mem\<rparr>)"

lemma b2b_start_inv: "mState s = 0 \<Longrightarrow> b2b_start clu rams adr cpuId s = (req, act, pub, st, s') \<Longrightarrow> b2b_inv s'"
proof -
  assume z: "mState s = 0" and a: "b2b_start clu rams adr cpuId s = (req, act, pub, st, s')"
  have f: "key (fold (\<lambda>k. b2b_wr (b2b_shared k) 0) ks u) = key u" for ks u
    by (induction ks arbitrary: u) (simp_all add: key_simps)
  obtain u x y z where s': "s' = fwlib_clearDiag extern_clearDiag_b2b (fwlib_init x y z B2BCBU_FW_VERSION u)"
    and u: "key u = key s"
    using a by (auto simp: b2b_start_def initSharedMem_b2b_def f key_simps)
  let ?i = "fwlib_init x y z B2BCBU_FW_VERSION u"
  have "key ?i = key s" using key_more[of ?i u] u by (simp add: more_simps)
  hence "mState ?i = 0" using z by (simp add: key_def)
  hence "b2b_inv (extern_clearDiag_b2b ?i)" by (simp add: b2b_inv_def key_def extern_clearDiag_b2b_def)
  thus ?thesis
    using inv_more[of s' "extern_clearDiag_b2b ?i"] by (simp add: s' fwlib_clearDiag_def Let_def split_beta more_simps)
qed

lemma reach_keeps: "b2b_reach c \<Longrightarrow> b2b_inv (snd (snd (snd (snd c))))"
proof (induction rule: b2b_reach.induct)
  case (start s clu rams adr cpuId)
  thus ?case using b2b_start_inv by (metis prod.collapse)
next
  case (pass c c')
  thus ?case using b2b_inv_iter by (metis prod.collapse)
qed (simp add: b2b_inv_def key_simps)

lemma b2b_reach_inv: "b2b_reach (req, act, pub, st, s) \<Longrightarrow> b2b_inv s"
  using reach_keeps by fastforce

lemma kicked_bit: "transStat s AND B2B_MFSM_EXT_TRIG \<noteq> 0 \<longleftrightarrow> bit (transStat s) 6"
proof -
  have "B2B_MFSM_EXT_TRIG = 2 ^ 6" by (simp add: B2B_MFSM_EXT_TRIG_def)
  thus ?thesis using and_exp_eq_0_iff_not_bit[of "transStat s" 6] by metis
qed

text \<open>
  C16. Between two timing messages the central unit is idle, or waits for the phase of the extraction ring in a mode that
  needs only that, or waits for one or two results in a mode that needs both, or has stopped before a kicker
  that the group of the transfer does not have.  Once the extraction kicker has been triggered (its bit is set
  in the status of the transfer) it waits for nothing any more.
\<close>

theorem transfer_rests:
  assumes "b2b_reach (req, act, pub, st, s)"
  shows "(mState s = 0 \<or> mState s = B2B_MFSM_NOTHING \<or>
    mState s = B2B_MFSM_EXT_PMEAS_R \<and> b_mode s \<in> {B2B_MODE_B2E, B2B_MODE_B2C, B2B_MODE_B2EPSHIFT} \<or>
    mState s = B2B_MFSM_ALL_PMEAS_R \<and> b_mode s \<in> {B2B_MODE_B2BFBEAT, B2B_MODE_B2BPSHIFTE, B2B_MODE_B2BPSHIFTI} \<and>
      nPhaseResult s \<in> {0, 1} \<or>
    mState s = B2B_MFSM_EXT_TRIG \<and> getTrigGid True s = GID_INVALID \<or>
    mState s = B2B_MFSM_INJ_TRIG \<and> getTrigGid False s = GID_INVALID) \<and>
    (transStat s AND B2B_MFSM_EXT_TRIG \<noteq> 0 \<longrightarrow> mState s \<in> {B2B_MFSM_NOTHING, B2B_MFSM_INJ_TRIG})"
  using b2b_reach_inv[OF assms] unfolding kicked_bit by (auto simp: b2b_inv_def key_def gid_key GID_INVALID_def)

theorem transfer_rests_witness:
  "\<exists>req act pub st s. b2b_start True 1 (\<lambda>_. 0x80000000) 0 power_up = (req, act, pub, st, s) \<and>
     (transStat s AND B2B_MFSM_EXT_TRIG \<noteq> 0 \<longrightarrow> mState s \<in> {B2B_MFSM_NOTHING, B2B_MFSM_INJ_TRIG})"
proof -
  obtain req act pub st s where e: "b2b_start True 1 (\<lambda>_. 0x80000000) 0 power_up = (req, act, pub, st, s)"
    by (metis prod_cases5)
  have "mState power_up = 0" by (simp add: power_up_def)
  hence "b2b_reach (req, act, pub, st, s)" using b2b_reach.start[of power_up] by (simp only: e[symmetric])
  thus ?thesis using transfer_rests e by blast
qed

text \<open>
  C23. Only a start or an awaited result makes the central unit act: in any other state - in particular after the kick -
  a pass of the operation that receives no start returns at once, writes to no device and stays where it is,
  whatever it receives.
\<close>

theorem silent_until_start:
  assumes m: "mState s \<noteq> B2B_MFSM_EXT_PMEAS_R" "mState s \<noteq> B2B_MFSM_ALL_PMEAS_R"
    and w: "fwlib_wait4ECAEvent2 1000 s = Some (ev, s1)" "ev_tag ev \<noteq> B2B_ECADO_B2B_START"
  shows "\<exists>st' s'. doActionOperation_b2b st s = Some (st', s') \<and> dev_out s' = dev_out s1 \<and> transStat s' = transStat s \<and>
    mState s' = mState s"
proof -
  have k: "key s1 = key s" by (rule wait2_key[OF w(1)])
  let ?s2 = "snd (sys_time s1)"
  have k2: "mState ?s2 = mState s" using k by (simp add: key_def)
  have p: "mState (set_prr ?s2) = mState s" "dev_out (set_prr ?s2) = dev_out s1"
    using key_set_prr[of ?s2] k by (simp_all add: key_def set_prr_def split_beta)
  let ?stops = "\<lambda>r. \<exists>st' s'. r = Inl (st', s') \<and> (s' = ?s2 \<or> s' = set_prr ?s2)"
  have "?stops (on_prext st (ev_action ev) ?s2)" "?stops (on_prinj st (ev_action ev) ?s2)"
    unfolding on_prext_def on_prinj_def Let_def p using m by (auto split: if_split)
  hence "?stops (on_event st ev ?s2)" using w(2) by (simp add: on_event_def del: sys_time_sel)
  then obtain st' s' where o: "on_event st ev ?s2 = Inl (st', s')" and r: "s' = ?s2 \<or> s' = set_prr ?s2" by blast
  have "transStat s1 = transStat s"
  proof -
    have "fwlib_wait4ECAEvent 1000 s = Some (ev_tag ev, ev_action ev, s1)" using w(1) by (simp add: fwlib_wait4ECAEvent_def)
    hence "fw.more s1 = fw.more s" by (rule more_wait)
    thus ?thesis by (cases s; cases s1) simp
  qed
  hence t: "transStat s' = transStat s" using r by (auto simp: set_prr_def split_beta)
  show ?thesis
    using o r t p k2 by (intro exI[of _ st'] exI[of _ s'])
      (auto simp: doActionOperation_b2b_def w(1) split_beta Let_def)
qed

theorem silent_until_start_witness:
  "\<exists>st' s'. doActionOperation_b2b COMMON_STATUS_OK (power_up\<lparr>mState := B2B_MFSM_NOTHING\<rparr>) = Some (st', s') \<and>
     dev_out s' = []"
proof -
  let ?s = "power_up\<lparr>mState := B2B_MFSM_NOTHING\<rparr>"
  obtain ev s1 where w: "fwlib_wait4ECAEvent2 1000 ?s = Some (ev, s1)" "ev_tag ev = COMMON_ECADO_TIMEOUT" "dev_out s1 = []"
    by (simp add: fwlib_wait4ECAEvent2_def eca_poll.simps power_up_def Let_def sys_time_def)
  show ?thesis
    using silent_until_start[OF _ _ w(1), of COMMON_STATUS_OK] w(2,3)
    by (auto simp: b2b_mfsm b2b_ecado COMMON_ECADO_TIMEOUT_def)
qed

end
