(* ===== verification/B2b_Transfer.thy ===== *)
theory B2b_Transfer
  imports B2b_Reach B2b_Phase Fw_Transfer
begin

text \<open>
  Whole transfers of the central unit (modules/b2b/fw/b2b-cbu.c): what the start of a transfer takes over, what the
  report of a phase leads to, in which order reports may come, when the kickers are triggered, how a phase shift is
  found and taken back, and what happens without a usable radio frequency.
\<close>

section \<open>Start\<close>

text \<open>The settings that the host has put into the shared memory, as a record of their own.  What an extraction alone
  does not use is zero, but for the sequence number of the injection ring, which stays as it was.\<close>

definition host_settings :: "(u32 \<Rightarrow> u32) \<Rightarrow> b2b_set \<Rightarrow> b2b_set" where
  "host_settings m old =
     (let inj = inject_mode (m B2B_SHARED_SET_MODE);
          only_inj = (\<lambda>v. if inj then v else 0)
      in \<lparr>setFlagValid = 1,
          setGid = m B2B_SHARED_SET_GIDEXT + only_inj (m B2B_SHARED_SET_GIDINJ),
          setMode = m B2B_SHARED_SET_MODE,
          setTH1Ext_as = mk64 (m B2B_SHARED_SET_TH1EXTHI) (m B2B_SHARED_SET_TH1EXTLO),
          setNHExt = m B2B_SHARED_SET_NHEXT,
          setTH1Inj_as = (if inj then mk64 (m B2B_SHARED_SET_TH1INJHI) (m B2B_SHARED_SET_TH1INJLO) else 0),
          setNHInj = only_inj (m B2B_SHARED_SET_NHINJ),
          setLSidInj = (if inj then m B2B_SHARED_SET_LSIDINJ else setLSidInj old),
          setLBpidInj = only_inj (m B2B_SHARED_SET_LBPIDINJ),
          setLParamInj = (if inj then mk64 (m B2B_SHARED_SET_LPARAMINJHI) (m B2B_SHARED_SET_LPARAMINJLO) else 0),
          setCPhase = m B2B_SHARED_SET_CPHASE,
          setCTrigExt = m B2B_SHARED_SET_CTRIGEXT,
          setCTrigInj = only_inj (m B2B_SHARED_SET_CTRIGINJ),
          setNBuckExt = m B2B_SHARED_SET_NBUCKEXT,
          setNBuckInj = only_inj (m B2B_SHARED_SET_CTRIGINJ),
          setFFinTune = m B2B_SHARED_SET_FFINTUNE,
          setFMBTune = only_inj (m B2B_SHARED_SET_FMBTUNE)\<rparr>)"

text \<open>What the shared memory says cannot be used.\<close>

definition bad_settings :: "(u32 \<Rightarrow> u32) \<Rightarrow> u32 option" where
  "bad_settings m =
     (if m B2B_SHARED_SET_SIDEEXT > 15 then Some COMMON_STATUS_OUTOFRANGE
      else if inject_mode (m B2B_SHARED_SET_MODE) \<and> m B2B_SHARED_SET_SIDEINJ \<noteq> m B2B_SHARED_SET_SIDEEXT
      then Some B2B_STATUS_BADSETTING else None)"

text \<open>The settings \<open>e\<close> are those of the transfer.\<close>

definition running_with :: "b2b_set \<Rightarrow> b2b \<Rightarrow> bool" where
  "running_with e s \<longleftrightarrow> b_gid s = setGid e \<and> b_mode s = setMode e \<and> TH1Ext_as s = setTH1Ext_as e \<and>
     nHExt s = setNHExt e \<and> TH1Inj_as s = setTH1Inj_as e \<and> nHInj s = setNHInj e \<and> sidInj s = setLSidInj e \<and>
     bpidInj s = setLBpidInj e \<and> paramInj s = setLParamInj e \<and> nBucketExt s = setNBuckExt e \<and>
     nBucketInj s = setNBuckInj e \<and> fFineTune s = setFFinTune e \<and> fMBTune s = setFMBTune e"

lemma setSubmit_bad:
  "bad_settings (shm s) = Some st \<Longrightarrow> \<exists>f. setSubmit s = (st, s\<lparr>sets := f\<rparr>) \<and> st \<noteq> COMMON_STATUS_OK"
  by (cases s)
    (auto simp: setSubmit_def bad_settings_def put_set_def Let_def COMMON_STATUS_OK_def COMMON_STATUS_OUTOFRANGE_def
      B2B_STATUS_BADSETTING_def split: if_splits)

lemma setSubmit_good:
  assumes "bad_settings (shm s) = None"
  defines "k \<equiv> unat (shm s B2B_SHARED_SET_SIDEEXT)"
  shows "setSubmit s = (COMMON_STATUS_OK, s\<lparr>sets := (sets s)(k := host_settings (shm s) (sets s k))\<rparr>)"
proof -
  have "\<not> shm s B2B_SHARED_SET_SIDEEXT > 15"
    "\<not> (inject_mode (shm s B2B_SHARED_SET_MODE) \<and> shm s B2B_SHARED_SET_SIDEINJ \<noteq> shm s B2B_SHARED_SET_SIDEEXT)"
    using assms(1) by (simp_all add: bad_settings_def split: if_splits)
  thus ?thesis
    by (cases "sets s k") (auto simp: k_def[symmetric] setSubmit_def Let_def put_set_def submit_ext_def submit_inj_def
        submit_noinj_def host_settings_def pSharedSetNBuckInj_def)
qed

lemma start_copy_fields:
  "running_with e (start_copy a e s)" "tCBS (start_copy a e s) = ea_deadline a" "paramExt (start_copy a e s) = ea_param a"
  "cPhase_t (start_copy a e s) = fwlib_tfns2tps (undef_u64 s) (undef_i32 s) (b_dps (cPhase_t s)) (setCPhase e)"
  "cTrigExt_t (start_copy a e s) = fwlib_tfns2tps (undef_u64 s) (undef_i32 s) (b_dps (cTrigExt_t s)) (setCTrigExt e)"
  "cTrigInj_t (start_copy a e s) = fwlib_tfns2tps (undef_u64 s) (undef_i32 s) (b_dps (cTrigInj_t s)) (setCTrigInj e)"
  "dev_out (start_copy a e s) = dev_out s" "sets (start_copy a e s) = sets s" "b_sid (start_copy a e s) = b_sid s"
  by (simp_all add: start_copy_def running_with_def Let_def)

text \<open>
  C22. The start of a transfer.  The settings in the shared memory are taken over first, also without a command of the
  host, for the sequence they name.  The start is refused when they cannot be used (the sequence is above 15, or an injection
  names another sequence), when the sequence of the message is above 15, or when the settings submitted last for
  it are not valid: then a status that is not ok is returned at once, nothing goes out, and the machine is idle, so a
  transfer that was waiting for results is over, and its deadline and mode are cleared.  Otherwise the transfer runs with
  exactly the settings of its sequence, periods, harmonics, groups, corrections, bucket numbers, tuning flags and the
  data for the injection, is at the first stage of the mode without errors, and nothing has gone out yet.
\<close>

theorem start_settings:
  fixes a :: eca_action and s :: b2b
  defines "sid \<equiv> ev_sid (ea_id a)" and "m \<equiv> shm s"
  defines "e \<equiv> (if m B2B_SHARED_SET_SIDEEXT = sid then host_settings m (sets s (unat sid)) else sets s (unat sid))"
  shows "if bad_settings m \<noteq> None \<or> sid > 15 \<or> setFlagValid e = 0
    then \<exists>st s'. on_start a s = Inl (st, s') \<and> st \<noteq> COMMON_STATUS_OK \<and> dev_out s' = dev_out s \<and>
      st = (case bad_settings m of Some r \<Rightarrow> r
            | None \<Rightarrow> if sid > 15 then COMMON_STATUS_OUTOFRANGE else B2B_STATUS_BADSETTING) \<and>
      mState s' = B2B_MFSM_NOTHING \<and> tCBS s' = 0 \<and> b_mode s' = 0
    else \<exists>loc s'. on_start a s = Inr (COMMON_STATUS_OK, loc, s') \<and> dev_out s' = dev_out s \<and> b_sid s' = sid \<and>
      running_with e s' \<and> tCBS s' = ea_deadline a \<and> paramExt s' = ea_param a \<and>
      cPhase_t s' = fwlib_tfns2tps (undef_u64 s) (undef_i32 s) (b_dps (cPhase_t s)) (setCPhase e) \<and>
      cTrigExt_t s' = fwlib_tfns2tps (undef_u64 s) (undef_i32 s) (b_dps (cTrigExt_t s)) (setCTrigExt e) \<and>
      cTrigInj_t s' = fwlib_tfns2tps (undef_u64 s) (undef_i32 s) (b_dps (cTrigInj_t s)) (setCTrigInj e) \<and>
      mState s' = fst (getNextMState (b_mode s') B2B_MFSM_S0 s) \<and> errorFlags s' = 0 \<and>
      sets s' = (let k = unat (m B2B_SHARED_SET_SIDEEXT) in (sets s)(k := host_settings m (sets s k)))"
proof -
  define s1 where "s1 = start_clear a s"
  have c: "shm s1 = m" "sets s1 = sets s" "dev_out s1 = dev_out s" "b_sid s1 = sid" "tCBS s1 = 0" "b_mode s1 = 0"
    "undef_u64 s1 = undef_u64 s" "undef_i32 s1 = undef_i32 s" "b_dps (cPhase_t s1) = b_dps (cPhase_t s)"
    "b_dps (cTrigExt_t s1) = b_dps (cTrigExt_t s)" "b_dps (cTrigInj_t s1) = b_dps (cTrigInj_t s)"
    by (simp_all add: s1_def start_clear_def m_def sid_def no_time_def)
  have ne: "COMMON_STATUS_OUTOFRANGE \<noteq> COMMON_STATUS_OK" "B2B_STATUS_BADSETTING \<noteq> COMMON_STATUS_OK"
    by (simp_all add: COMMON_STATUS_OK_def COMMON_STATUS_OUTOFRANGE_def B2B_STATUS_BADSETTING_def)
  have g: "getNextMState md B2B_MFSM_S0 w = (fst (getNextMState md B2B_MFSM_S0 s), w)" for md w
    by (simp add: getNextMState_def diamond_def b2b_mfsm)
  show ?thesis
  proof (cases "bad_settings m")
    case (Some r)
    then obtain f where "setSubmit s1 = (r, s1\<lparr>sets := f\<rparr>)" "r \<noteq> COMMON_STATUS_OK"
      using setSubmit_bad[of s1 r] c(1) by auto
    thus ?thesis using c Some by (simp add: on_start_def s1_def[symmetric])
  next
    case None
    let ?k = "unat (m B2B_SHARED_SET_SIDEEXT)"
    define s2 where "s2 = s1\<lparr>sets := (sets s)(?k := host_settings m (sets s ?k))\<rparr>"
    have u: "setSubmit s1 = (COMMON_STATUS_OK, s2)" using setSubmit_good[of s1] None c by (simp add: s2_def)
    have e: "sets s2 (unat sid) = e" by (simp add: s2_def e_def word_unat_eq_iff)
    have s2: "b_sid s2 = sid" "dev_out s2 = dev_out s" "tCBS s2 = 0" "b_mode s2 = 0" using c by (simp_all add: s2_def)
    show ?thesis
    proof (cases "sid > 15 \<or> setFlagValid e = 0")
      case True
      thus ?thesis using None ne s2 e by (auto simp: on_start_def s1_def[symmetric] u)
    next
      case False
      define s3 where "s3 = start_copy a e s2"
      define m3 where "m3 = fst (getNextMState (b_mode s3) B2B_MFSM_S0 s)"
      have q: "getNextMState (b_mode s3) B2B_MFSM_S0 s3 = (m3, s3)" unfolding m3_def by (rule g)
      have "\<exists>loc. on_start a s = Inr (COMMON_STATUS_OK, loc, s3\<lparr>mState := m3, errorFlags := 0\<rparr>)"
        using False by (simp add: on_start_def s1_def[symmetric] u s2(1) e Let_def s3_def[symmetric] q)
      then obtain loc where r: "on_start a s = Inr (COMMON_STATUS_OK, loc, s3\<lparr>mState := m3, errorFlags := 0\<rparr>)" ..
      have "undef_u64 s2 = undef_u64 s" "undef_i32 s2 = undef_i32 s" "cPhase_t s2 = cPhase_t s1"
        "cTrigExt_t s2 = cTrigExt_t s1" "cTrigInj_t s2 = cTrigInj_t s1"
        "sets s2 = (sets s)(?k := host_settings m (sets s ?k))"
        using c by (simp_all add: s2_def)
      note k = start_copy_fields[where a = a and e = e and s = s2, folded s3_def, unfolded this s2 c(9-11)]
      show ?thesis using None False k by (simp add: r m3_def running_with_def Let_def)
    qed
  qed
qed

theorem start_settings_witness:
  "\<exists>loc s'. on_start no_action (power_up\<lparr>shm := (\<lambda>_. 0)(B2B_SHARED_SET_MODE := B2B_MODE_B2E, B2B_SHARED_SET_NHEXT := 4)\<rparr>) =
     Inr (COMMON_STATUS_OK, loc, s') \<and> b_mode s' = B2B_MODE_B2E \<and> nHExt s' = 4 \<and> mState s' = B2B_MFSM_EXT_PMEAS_S"
proof -
  let ?m = "(\<lambda>_. 0)(B2B_SHARED_SET_MODE := B2B_MODE_B2E, B2B_SHARED_SET_NHEXT := 4) :: u32 \<Rightarrow> u32"
  let ?s = "power_up\<lparr>shm := ?m\<rparr>"
  have m: "?m B2B_SHARED_SET_MODE = B2B_MODE_B2E" "?m B2B_SHARED_SET_NHEXT = 4" "?m B2B_SHARED_SET_SIDEEXT = 0"
    by (simp_all add: b2b_shared_def B2B_SHARED_SET_MODE_def B2B_SHARED_SET_NHEXT_def B2B_SHARED_SET_SIDEEXT_def)
  have b: "bad_settings ?m = None" unfolding bad_settings_def m by (simp add: inject_mode_def b2b_mode)
  have e: "setFlagValid (host_settings ?m old) = 1" "setMode (host_settings ?m old) = B2B_MODE_B2E"
    "setNHExt (host_settings ?m old) = 4" for old
    by (simp_all only: host_settings_def Let_def m b2b_set.simps)
  have i: "ev_sid (ea_id no_action) = 0" by (simp add: no_action_def ev_sid_def)
  have sh: "shm ?s = ?m" by simp
  let ?e = "host_settings ?m (sets ?s (unat (0 :: u32)))"
  have "\<exists>loc s'. on_start no_action ?s = Inr (COMMON_STATUS_OK, loc, s') \<and> running_with ?e s' \<and>
      mState s' = fst (getNextMState (b_mode s') B2B_MFSM_S0 ?s)"
    using start_settings[where a = no_action and s = ?s] unfolding sh i m(3) b by (auto simp: e(1))
  moreover have "fst (getNextMState B2B_MODE_B2E B2B_MFSM_S0 ?s) = B2B_MFSM_EXT_PMEAS_S"
    by (simp add: getNextMState_def switch_def mfsm_b2e_def b2b_mode b2b_mfsm)
  ultimately show ?thesis unfolding running_with_def e by auto
qed

section \<open>One stage\<close>

lemma next_stage_plain:
  assumes "mState s \<noteq> B2B_MFSM_INJ_PMEAS_S" "mState s \<noteq> B2B_MFSM_ALL_PMEAS_R"
  shows "next_stage s = s\<lparr>transStat := transStat s OR mState s, mState := fst (mnext (b_mode s) (mState s) (nPhaseResult s))\<rparr>"
proof -
  have "snd (mnext md m n) = n" if "m \<noteq> B2B_MFSM_INJ_PMEAS_S" "m \<noteq> B2B_MFSM_ALL_PMEAS_R" for md m n
    using that by (auto simp: mnext_eval)
  thus ?thesis using assms by (simp add: next_stage_def getNextMState_mnext Let_def)
qed

lemma calcExtTime_fields:
  "calcExtTime t0 w (s\<lparr>time_cnt := k, offsetPrr_us := p, tH1Ext_t := v, transStat := q, mState := y\<rparr>) =
   calcExtTime t0 w (s\<lparr>tH1Ext_t := v\<rparr>)"
  by (simp add: calcExtTime_def cong: if_cong)

section \<open>The kick of an extraction\<close>

lemma set_prr_eq:
  "set_prr s = s\<lparr>time_cnt := Suc (time_cnt s), offsetPrr_us := half_us (undef_u32 s) (f_of_u64 (wr_time s (time_cnt s) - tCBS s))\<rparr>"
  by (simp add: set_prr_def sys_time_def)

lemma win_time [simp]: "win (s\<lparr>time_cnt := k\<rparr>) = win s"
  by (simp add: win_def fun_eq_iff)

lemma trigext_out:
  fixes loc :: b2b_loc and s :: b2b
  assumes "getTrigGid True s \<noteq> 0"
  defines "t \<equiv> b_ns (tTrig loc) + b_ns (cTrigExt_t s)" and "n \<equiv> time_cnt s"
  defines "err \<equiv> (if t < wr_time s (Suc n) + COMMON_LATELIMIT then errorFlags s OR B2B_ERRFLAG_CBU else errorFlags s)"
  shows "\<exists>s' tef. stage_trigext loc s = Inr s' \<and> mState s' = fst (mnext (b_mode s) (mState s) (nPhaseResult s)) \<and>
    dev_out s' = dev_out s @ tm_ops s
      (if t < wr_time s (Suc (Suc n)) + COMMON_LATELIMIT then wr_time s (Suc (Suc (Suc n))) + COMMON_AHEADT else t)
      (fwlib_buildEvtidV1 (getTrigGid True s) B2B_ECADO_B2B_TRIGGEREXT (flagsExt s) (sidExt s) (bpidExt s) err)
      (paramExt s) tef"
proof -
  define u where "u = s\<lparr>time_cnt := Suc (Suc n), errorFlags := err\<rparr>"
  define tef :: u32 where "tef = push_bit 16 (ucast (half_us (undef_u32 s) (f_of_i32 (ucast (wr_time s n - tCBS s))))) OR ucast (offsetPrr_us s)"
  let ?id = "fwlib_buildEvtidV1 (getTrigGid True s) B2B_ECADO_B2B_TRIGGEREXT (flagsExt s) (sidExt s) (bpidExt s) err"
  have f: "snd (flag_late t (s\<lparr>time_cnt := Suc n\<rparr>)) = u"
    by (simp add: flag_late_def sys_time_def u_def err_def n_def)
  have e: "stage_trigext loc s = Inr (next_stage (send_tm t ?id (paramExt s) tef u))"
    using assms(1) f by (simp add: stage_trigext_def Let_def sys_time_def t_def[symmetric] n_def[symmetric])
      (simp add: u_def tef_def)
  have d: "dev_out (next_stage w) = dev_out w" for w by (simp add: next_stage_def Let_def getNextMState_mnext)
  have "mState (next_stage (send_tm t ?id (paramExt s) tef u)) = fst (snd (next_key (key u)))"
    using key_next_stage[of "send_tm t ?id (paramExt s) tef u"] key_mid[of "next_stage (send_tm t ?id (paramExt s) tef u)"]
    by (simp add: key_simps)
  moreover have "key u = key s" by (simp add: u_def key_simps)
  ultimately have m: "mState (next_stage (send_tm t ?id (paramExt s) tef u)) = fst (mnext (b_mode s) (mState s) (nPhaseResult s))"
    by (simp add: key_def)
  have "tm_ops u dl e p w = tm_ops s dl e p w" for dl e p w by (simp add: tm_ops_def u_def win_def)
  hence "dev_out (send_tm t ?id (paramExt s) tef u) = dev_out s @ tm_ops s (tm_dl t 0 u) ?id (paramExt s) tef"
    unfolding send_tm_def writeTM_out by (simp add: u_def)
  moreover have "tm_dl t 0 u = (if t < wr_time s (Suc (Suc n)) + COMMON_LATELIMIT then wr_time s (Suc (Suc (Suc n))) + COMMON_AHEADT else t)"
    by (simp add: tm_dl_def tm_late_def u_def)
  ultimately show ?thesis using e m d by auto
qed


lemma prext_b2e:
  assumes m: "mState s = B2B_MFSM_EXT_PMEAS_R" "b_mode s = B2B_MODE_B2E" "errorFlags s = 0"
    and ids: "ev_gid (ea_id a) = b_gid s" "ev_sid (ea_id a) = b_sid s" "ev_res (ea_id a) AND B2B_ERRFLAG_PMEXT = 0"
    and t: "calcExtTime (tTrig (stack s)) (tWantExt s) (s\<lparr>tH1Ext_t := phase_of (ea_param a) (ea_tef a)\<rparr>) = (COMMON_STATUS_OK, r)"
  shows "\<exists>s1 s2. on_prext st a s = Inr (st, stack s, s1) \<and>
    calc_stages st (stack s) s1 = Some (st, (stack s)\<lparr>tTrig := r\<rparr>, s2) \<and>
    s2 = s\<lparr>time_cnt := Suc (time_cnt s), offsetPrr_us := offsetPrr_us (set_prr s), tH1Ext_t := phase_of (ea_param a) (ea_tef a),
      transStat := transStat s OR B2B_MFSM_EXT_PMEAS_R OR B2B_MFSM_EXT_TNEXTRF_C, mState := B2B_MFSM_EXT_TRIG\<rparr>"
proof -
  define s0 where "s0 = s\<lparr>time_cnt := Suc (time_cnt s), offsetPrr_us := offsetPrr_us (set_prr s),
    tH1Ext_t := phase_of (ea_param a) (ea_tef a)\<rparr>"
  have n: "fst (mnext B2B_MODE_B2E B2B_MFSM_EXT_PMEAS_R k) = B2B_MFSM_EXT_TNEXTRF_C"
    "fst (mnext B2B_MODE_B2E B2B_MFSM_EXT_TNEXTRF_C k) = B2B_MFSM_EXT_TRIG" for k
    by (simp_all add: run_defs)
  define s1 where "s1 = s0\<lparr>transStat := transStat s OR B2B_MFSM_EXT_PMEAS_R, mState := B2B_MFSM_EXT_TNEXTRF_C\<rparr>"
  have "next_stage s0 = s1"
    using next_stage_plain[of s0] m n(1)[of "nPhaseResult s0"] by (simp add: s0_def s1_def b2b_mfsm)
  hence p: "on_prext st a s = Inr (st, stack s, s1)"
    using m ids by (simp add: on_prext_def Let_def set_prr_eq s0_def b2b_mode)
  have c: "calcExtTime (tTrig (stack s)) (tWantExt s1) s1 = (COMMON_STATUS_OK, r)"
    using t calcExtTime_fields[where ?t0.0 = "tTrig (stack s)" and w = "tWantExt s" and s = s] by (simp add: s1_def s0_def)
  define s2 :: b2b where "s2 = s1\<lparr>transStat := transStat s1 OR B2B_MFSM_EXT_TNEXTRF_C, mState := B2B_MFSM_EXT_TRIG\<rparr>"
  have "next_stage s1 = s2"
    using next_stage_plain[of s1] m n(2)[of "nPhaseResult s1"] by (simp add: s0_def s1_def s2_def b2b_mfsm)
  hence x: "stage_tnextrf (stack s) s1 = ((stack s)\<lparr>tTrig := r\<rparr>, s2)"
    using c m by (simp add: stage_tnextrf_def Let_def) (simp add: s1_def s0_def)
  have "mState s1 = B2B_MFSM_EXT_TNEXTRF_C" "mState s2 = B2B_MFSM_EXT_TRIG" by (simp_all add: s1_def s2_def)
  hence "calc_stages st (stack s) s1 = Some (st, (stack s)\<lparr>tTrig := r\<rparr>, s2)"
    by (simp add: calc_stages_def x b2b_mfsm)
  thus ?thesis using p by (intro exI[of _ s1] exI[of _ s2]) (simp add: s2_def s1_def s0_def or.assoc)
qed

lemma finish_keeps: "dev_out (snd (finish ev t st s)) = dev_out s \<and> key (snd (finish ev t st s)) = key s"
  using finish_key[of ev t st s]
  by (simp add: finish_def Let_def split_beta clearAllSid_def fwlib_wrCheckSyncState_def sys_time_def)

lemma prext_kick:
  fixes s0 s :: b2b and ev :: eca_event
  defines "t \<equiv> phase_of (ea_param (ev_action ev)) (ea_tef (ev_action ev))" and "n \<equiv> time_cnt s"
  assumes w: "fwlib_wait4ECAEvent2 1000 s0 = Some (ev, s)" "ev_tag ev = B2B_ECADO_B2B_PREXT"
    and m: "mState s = B2B_MFSM_EXT_PMEAS_R" "b_mode s = B2B_MODE_B2E" "errorFlags s = 0"
    and ids: "ev_gid (ea_id (ev_action ev)) = b_gid s" "ev_sid (ea_id (ev_action ev)) = b_sid s"
      "ev_res (ea_id (ev_action ev)) AND B2B_ERRFLAG_PMEXT = 0"
    and g: "getTrigGid True s \<noteq> 0"
    and t: "calcExtTime (tTrig (stack s)) (tWantExt s) (s\<lparr>tH1Ext_t := t\<rparr>) = (COMMON_STATUS_OK, r)"
  defines "d \<equiv> b_ns r + b_ns (cTrigExt_t s)"
  shows "\<exists>st' s' tef. doActionOperation_b2b st s0 = Some (st', s') \<and> mState s' = B2B_MFSM_NOTHING \<and>
    dev_out s' = dev_out s @ tm_ops s
      (if d < wr_time s (n + 4) + COMMON_LATELIMIT then wr_time s (n + 5) + COMMON_AHEADT else d)
      (fwlib_buildEvtidV1 (getTrigGid True s) B2B_ECADO_B2B_TRIGGEREXT (flagsExt s) (sidExt s) (bpidExt s)
        (if d < wr_time s (n + 3) + COMMON_LATELIMIT then B2B_ERRFLAG_CBU else 0)) (paramExt s) tef"
proof -
  let ?a = "ev_action ev"
  define u where "u = s\<lparr>time_cnt := Suc n\<rparr>"
  have uf: "mState u = B2B_MFSM_EXT_PMEAS_R" "b_mode u = B2B_MODE_B2E" "errorFlags u = 0" "b_gid u = b_gid s" "b_sid u = b_sid s"
    using m by (simp_all add: u_def)
  have ct: "calcExtTime (tTrig (stack u)) (tWantExt u) (u\<lparr>tH1Ext_t := phase_of (ea_param ?a) (ea_tef ?a)\<rparr>) = (COMMON_STATUS_OK, r)"
    using t by (simp add: u_def t_def calcExtTime_def cong: if_cong)
  obtain s1 s2 where p: "on_prext st ?a u = Inr (st, stack u, s1)"
    and c: "calc_stages st (stack u) s1 = Some (st, (stack u)\<lparr>tTrig := r\<rparr>, s2)"
    and s2: "s2 = u\<lparr>time_cnt := Suc (time_cnt u), offsetPrr_us := offsetPrr_us (set_prr u),
      tH1Ext_t := phase_of (ea_param ?a) (ea_tef ?a),
      transStat := transStat u OR B2B_MFSM_EXT_PMEAS_R OR B2B_MFSM_EXT_TNEXTRF_C, mState := B2B_MFSM_EXT_TRIG\<rparr>"
    using prext_b2e[OF uf(1,2,3) _ _ ids(3) ct] uf(4,5) ids(1,2) by metis
  have s2f: "getTrigGid True s2 = getTrigGid True s" "mState s2 = B2B_MFSM_EXT_TRIG" "b_mode s2 = B2B_MODE_B2E" "time_cnt s2 = n + 2"
    "wr_time s2 = wr_time s" "dev_out s2 = dev_out s" "errorFlags s2 = 0" "cTrigExt_t s2 = cTrigExt_t s" "flagsExt s2 = flagsExt s"
    "sidExt s2 = sidExt s" "bpidExt s2 = bpidExt s" "paramExt s2 = paramExt s" "nPhaseResult s2 = nPhaseResult s"
    using uf by (simp_all add: s2 u_def getTrigGid_def)
  have ops: "tm_ops s2 dl e q v = tm_ops s dl e q v" for dl e q v by (simp add: tm_ops_def s2 u_def win_def)
  let ?loc = "(stack u)\<lparr>tTrig := r\<rparr>"
  have n4: "Suc (n + 2) = n + 3" "Suc (n + 3) = n + 4" "Suc (n + 4) = n + 5" by simp_all
  have dd: "b_ns (tTrig ?loc) + b_ns (cTrigExt_t s) = d" by (simp add: d_def)
  obtain s3 tef where x: "stage_trigext ?loc s2 = Inr s3" "mState s3 = fst (mnext B2B_MODE_B2E B2B_MFSM_EXT_TRIG (nPhaseResult s))"
    "dev_out s3 = dev_out s @ tm_ops s
      (if d < wr_time s (n + 4) + COMMON_LATELIMIT then wr_time s (n + 5) + COMMON_AHEADT else d)
      (fwlib_buildEvtidV1 (getTrigGid True s) B2B_ECADO_B2B_TRIGGEREXT (flagsExt s) (sidExt s) (bpidExt s)
        (if d < wr_time s (n + 3) + COMMON_LATELIMIT then B2B_ERRFLAG_CBU else 0)) (paramExt s) tef"
    using trigext_out[of s2 ?loc] g unfolding s2f ops n4 dd or.left_neutral by blast
  have n3: "mState s3 = B2B_MFSM_NOTHING" using x(2) by (simp add: run_defs)
  have tr: "trig_stages ?loc s2 = Inr s3"
    using s2f(2) n3 x(1) by (simp add: trig_stages_def b2b_mfsm)
  have e: "on_event st ev u = on_prext st ?a u"
    using w(2) by (simp add: on_event_def b2b_ecado)
  define fin where "fin = finish ev (wr_time s n) st s3"
  have o: "doActionOperation_b2b st s0 = Some fin"
    using p c tr by (simp add: doActionOperation_b2b_def w(1) e sys_time_def u_def[symmetric] n_def[symmetric] fin_def)
  have "dev_out (snd fin) = dev_out s3" "mState (snd fin) = mState s3"
    using finish_keeps[of ev "wr_time s n" st s3] key_mid by (metis fin_def)+
  thus ?thesis using o x(3) n3 by (intro exI[of _ "fst fin"] exI[of _ "snd fin"] exI[of _ tef]) simp
qed

text \<open>
  C17. A transfer without injection (the mode of an extraction alone) is synchronised with the radio frequency of its
  ring: when the phase of the ring, measured at most a second before the time wanted, is reported without an error to a
  unit that waits for it and has recorded none, the message that triggers the extraction kicker goes out in the same call, and
  the transfer is over.  It carries the identity of the beam and is due at a time \<open>r\<close> plus the correction of the
  kicker; \<open>r\<close> is a whole number of periods after the measured zero crossing and at or after the time
  wanted by at most one period (all to a picosecond).  Only when that is less than the limit away is the
  deadline the present time and the lead; the error flag in the event number is set when it was too late at an
  earlier reading of the clock.
\<close>

theorem extraction_synchronised:
  fixes s0 s :: b2b and ev :: eca_event
  defines "a \<equiv> ev_action ev" and "n \<equiv> time_cnt s" and "T \<equiv> uint (TH1Ext_as s)" and "clock \<equiv> wr_time s"
    and "t \<equiv> phase_of (ea_param (ev_action ev)) (ea_tef (ev_action ev))" and "want \<equiv> tWantExt s"
  assumes w: "fwlib_wait4ECAEvent2 1000 s0 = Some (ev, s)" "ev_tag ev = B2B_ECADO_B2B_PREXT"
    and m: "mState s = B2B_MFSM_EXT_PMEAS_R" "b_mode s = B2B_MODE_B2E" "errorFlags s = 0"
    and ids: "ev_gid (ea_id a) = b_gid s" "ev_sid (ea_id a) = b_sid s" "ev_res (ea_id a) AND B2B_ERRFLAG_PMEXT = 0"
    and g: "getTrigGid True s \<noteq> 0"
    and T: "0 < T" "T \<le> 4000000000000000000" "nHExt s \<noteq> 0" and ps: "\<bar>sint (b_ps t)\<bar> \<le> 500"
    and r: "1 \<le> uint (b_ns t)" "pst t \<le> 1000 * uint want" "uint want \<le> uint (b_ns t) + 1000000000"
      "uint (b_ns t) + 6000000000 < 2 ^ 64"
  shows "\<exists>st' s' r d deadline err tef. doActionOperation_b2b st s0 = Some (st', s') \<and> mState s' = B2B_MFSM_NOTHING \<and>
    dev_out s' = dev_out s @ tm_ops s deadline
      (fwlib_buildEvtidV1 (getTrigGid True s) B2B_ECADO_B2B_TRIGGEREXT (flagsExt s) (sidExt s) (bpidExt s) err)
      (paramExt s) tef \<and>
    (\<exists>k \<ge> 1. \<bar>(pst r - pst t) * 1000000 - k * T\<bar> < 1000000) \<and>
    - 1000000 < pst r * 1000000 - uint want * 1000000000 \<and>
    pst r * 1000000 - uint want * 1000000000 < T + 1000000 \<and>
    d = b_ns r + b_ns (cTrigExt_t s) \<and>
    deadline = (if d < clock (n + 4) + COMMON_LATELIMIT then clock (n + 5) + COMMON_AHEADT else d) \<and>
    err = (if d < clock (n + 3) + COMMON_LATELIMIT then B2B_ERRFLAG_CBU else 0)"
proof -
  let ?u = "s\<lparr>tH1Ext_t := t\<rparr>"
  have f: "TH1Ext_as ?u = TH1Ext_as s" "tH1Ext_t ?u = t" "nHExt ?u = nHExt s" by simp_all
  obtain z where c: "calcExtTime (tTrig (stack s)) want ?u = (COMMON_STATUS_OK, z)"
    and z: "\<exists>k \<ge> 1. \<bar>(pst z - pst t) * 1000000 - k * T\<bar> < 1000000"
    "- 1000000 < pst z * 1000000 - uint want * 1000000000" "pst z * 1000000 - uint want * 1000000000 < T + 1000000"
    using next_zero_crossing[of ?u want "tTrig (stack s)"] T ps r unfolding f T_def by auto
  show ?thesis
    using prext_kick[OF w m ids[unfolded a_def] g c[unfolded t_def want_def], of st] z
    unfolding n_def clock_def by blast
qed

theorem extraction_synchronised_witness:
  "\<exists>s0 st' s'. doActionOperation_b2b COMMON_STATUS_OK s0 = Some (st', s') \<and>
     last (dev_out s') = (EBM_FLUSH_OWR, 1) \<and> mState s' = B2B_MFSM_NOTHING"
proof -
  let ?a = "\<lparr>ea_id = 0x13a0046000500000, ea_deadline = 0, ea_tag = B2B_ECADO_B2B_PREXT, ea_param = 2000000000000000000,
     ea_tef = 250, ea_late = False, ea_early = False, ea_conflict = False, ea_delayed = False\<rparr>"
  define s0 where "s0 = power_up\<lparr>eca_in := (\<lambda>_. Some ?a), mState := B2B_MFSM_EXT_PMEAS_R, b_mode := B2B_MODE_B2E,
     b_gid := SIS18_B2B_EXTRACT, b_sid := 5, TH1Ext_as := 1000000000000, nHExt := 4, tWantExt := 2000000000020000000\<rparr>"
  obtain ev s where w: "fwlib_wait4ECAEvent2 1000 s0 = Some (ev, s)" and e: "ev_tag ev = B2B_ECADO_B2B_PREXT" "ev_action ev = ?a"
    and f: "key s = key s0" "errorFlags s = 0" "b_sid s = 5" "nHExt s = 4" "TH1Ext_as s = 1000000000000"
      "tWantExt s = 2000000000020000000" "dev_out s = [(ECAQ_POP, 1)]"
    by (simp add: fwlib_wait4ECAEvent2_def eca_poll.simps power_up_def Let_def sys_time_def s0_def eca_monitor_def key_def wr_dev_def)
  have k: "mState s = B2B_MFSM_EXT_PMEAS_R" "b_mode s = B2B_MODE_B2E" "b_gid s = SIS18_B2B_EXTRACT"
    using f(1) by (simp_all add: key_def s0_def)
  have i: "ev_gid (ea_id ?a) = b_gid s" "ev_sid (ea_id ?a) = b_sid s" "ev_res (ea_id ?a) AND B2B_ERRFLAG_PMEXT = 0"
    by (simp_all add: ev_gid_def ev_sid_def ev_res_def k f b2b_gid)
  have g: "getTrigGid True s \<noteq> 0" by (simp add: getTrigGid_def k b2b_gid)
  have p: "phase_of (ea_param ?a) (ea_tef ?a) = \<lparr>b_ns = 2000000000000000000, b_ps = 250, b_dps = 0\<rparr>"
    by (simp add: phase_of_def)
  show ?thesis
    using extraction_synchronised[OF w e(1) k(1,2) f(2), unfolded e(2), OF i g, of COMMON_STATUS_OK] f(4-7)
    unfolding p by (simp add: pst_def tm_ops_def) (rule exI[of _ s0], auto)
qed

section \<open>Two results\<close>

lemma next_stage_all:
  assumes "mState s = B2B_MFSM_ALL_PMEAS_R" "b_mode s \<in> {B2B_MODE_B2BFBEAT, B2B_MODE_B2BPSHIFTE, B2B_MODE_B2BPSHIFTI}"
  shows "next_stage s = s\<lparr>transStat := transStat s OR B2B_MFSM_ALL_PMEAS_R, nPhaseResult := nPhaseResult s + 1,
    mState := (if nPhaseResult s = 1 then (if b_mode s = B2B_MODE_B2BFBEAT then B2B_MFSM_EXT_TFBEAT_C else B2B_MFSM_EXT_TNEXTRF_C)
               else B2B_MFSM_ALL_PMEAS_R)\<rparr>"
proof -
  have "mnext (b_mode s) B2B_MFSM_ALL_PMEAS_R n =
      (if n = 1 then (if b_mode s = B2B_MODE_B2BFBEAT then B2B_MFSM_EXT_TFBEAT_C else B2B_MFSM_EXT_TNEXTRF_C)
       else B2B_MFSM_ALL_PMEAS_R, n + 1)" for n
  proof -
    have "n + 1 = 2 \<longleftrightarrow> n = 1" by (metis add_right_cancel one_add_one)
    thus ?thesis using assms(2) by (auto simp: mnext_eval b2b_mode b2b_mfsm)
  qed
  thus ?thesis using assms(1) by (simp add: next_stage_def getNextMState_mnext Let_def)
qed

text \<open>
  C20. When both rings are measured the results may come in either order: the states afterwards are the same to the bit, the
  first result alone leads to no stage, and after the second the phase match (or, for phase shifts, the next crossing of
  the extraction ring) is due, with the phase of the extraction ring as reported and that of the injection
  ring less the phase asked for.
\<close>

theorem results_in_any_order:
  assumes m: "mState s = B2B_MFSM_ALL_PMEAS_R" "nPhaseResult s = 0"
      "b_mode s \<in> {B2B_MODE_B2BFBEAT, B2B_MODE_B2BPSHIFTE, B2B_MODE_B2BPSHIFTI}"
    and a: "ev_gid (ea_id a) = b_gid s" "ev_sid (ea_id a) = b_sid s"
    and b: "ev_gid (ea_id b) = b_gid s" "ev_sid (ea_id b) = b_sid s"
  shows "\<exists>s1 s2 s'. on_prext st a s = Inr (st, stack s, s1) \<and> on_prinj st b s1 = Inr (st, stack s, s') \<and>
    on_prinj st b s = Inr (st, stack s, s2) \<and> on_prext st a s2 = Inr (st, stack s, s') \<and>
    (\<forall>u \<in> {s1, s2}. calc_stages st (stack s) u = Some (st, stack s, u) \<and> trig_stages (stack s) u = Inr u) \<and>
    mState s' = (if b_mode s = B2B_MODE_B2BFBEAT then B2B_MFSM_EXT_TFBEAT_C else B2B_MFSM_EXT_TNEXTRF_C) \<and>
    tH1Ext_t s' = phase_of (ea_param a) (ea_tef a) \<and>
    b_ns (tH1Inj_t s') = ea_param b - b_ns (cPhase_t s)"
proof -
  define ea where "ea = (if ev_res (ea_id a) AND B2B_ERRFLAG_PMEXT \<noteq> 0 then errorFlags s OR B2B_ERRFLAG_PMEXT else errorFlags s)"
  define eb where "eb = (if ev_res (ea_id b) AND B2B_ERRFLAG_PMINJ \<noteq> 0 then errorFlags s OR B2B_ERRFLAG_PMINJ else errorFlags s)"
  define te where "te = phase_of (ea_param a) (ea_tef a)"
  define ti where "ti = (let t = phase_of (ea_param b) (ea_tef b) in
    t\<lparr>b_ns := b_ns t - b_ns (cPhase_t s), b_ps := b_ps t - b_ps (cPhase_t s)\<rparr>)"
  have md: "\<not> b_mode s < B2B_MODE_B2E" "\<not> b_mode s < B2B_MODE_B2BFBEAT" using m(3) by (auto simp: b2b_mode)
  define s1 where "s1 = s\<lparr>time_cnt := Suc (time_cnt s), offsetPrr_us := half_us (undef_u32 s) (f_of_u64 (wr_time s (time_cnt s) - tCBS s)),
    errorFlags := ea, tH1Ext_t := te, transStat := transStat s OR B2B_MFSM_ALL_PMEAS_R, nPhaseResult := 1\<rparr>"
  define s2 where "s2 = s\<lparr>time_cnt := Suc (time_cnt s), offsetPrr_us := half_us (undef_u32 s) (f_of_u64 (wr_time s (time_cnt s) - tCBS s)),
    errorFlags := eb, tH1Inj_t := ti, transStat := transStat s OR B2B_MFSM_ALL_PMEAS_R, nPhaseResult := 1\<rparr>"
  have 1: "on_prext st a s = Inr (st, stack s, s1)"
    using m a md by (simp add: on_prext_def Let_def set_prr_def sys_time_def next_stage_all s1_def ea_def te_def)
  have 2: "on_prinj st b s = Inr (st, stack s, s2)"
    using m b md by (simp add: on_prinj_def Let_def set_prr_def sys_time_def next_stage_all s2_def eb_def ti_def phase_of_def)
  define s' where "s' = s1\<lparr>time_cnt := Suc (Suc (time_cnt s)), offsetPrr_us := half_us (undef_u32 s) (f_of_u64 (wr_time s (Suc (time_cnt s)) - tCBS s)),
    errorFlags := ea OR eb, tH1Inj_t := ti, nPhaseResult := 2,
    mState := (if b_mode s = B2B_MODE_B2BFBEAT then B2B_MFSM_EXT_TFBEAT_C else B2B_MFSM_EXT_TNEXTRF_C)\<rparr>"
  have 3: "on_prinj st b s1 = Inr (st, stack s, s')"
    using m b md
    by (simp add: on_prinj_def Let_def set_prr_def sys_time_def next_stage_all s1_def s'_def ea_def eb_def ti_def phase_of_def
        or.assoc or.left_commute or.commute)
  have 4: "on_prext st a s2 = Inr (st, stack s, s')"
    using m a md
    by (simp add: on_prext_def Let_def set_prr_def sys_time_def next_stage_all s1_def s2_def s'_def ea_def eb_def te_def
        or.assoc or.left_commute or.commute)
  have "mState s1 = B2B_MFSM_ALL_PMEAS_R" "mState s2 = B2B_MFSM_ALL_PMEAS_R" using m(1) by (simp_all add: s1_def s2_def)
  hence "\<forall>u \<in> {s1, s2}. calc_stages st (stack s) u = Some (st, stack s, u) \<and> trig_stages (stack s) u = Inr u"
    by (simp add: calc_stages_def trig_stages_def b2b_mfsm)
  thus ?thesis using 1 2 3 4
    by (intro exI[of _ s1] exI[of _ s2] exI[of _ s'])
      (simp add: s'_def s1_def te_def ti_def Let_def phase_of_def)
qed

theorem results_in_any_order_witness:
  "\<exists>a b s s1 s2 s'. on_prext COMMON_STATUS_OK a s = Inr (COMMON_STATUS_OK, stack s, s1) \<and>
     on_prinj COMMON_STATUS_OK b s1 = Inr (COMMON_STATUS_OK, stack s, s') \<and>
     on_prinj COMMON_STATUS_OK b s = Inr (COMMON_STATUS_OK, stack s, s2) \<and>
     on_prext COMMON_STATUS_OK a s2 = Inr (COMMON_STATUS_OK, stack s, s')"
proof -
  let ?a = "no_action\<lparr>ea_id := 0x13a1802000300000\<rparr>"
  let ?s = "power_up\<lparr>mState := B2B_MFSM_ALL_PMEAS_R, b_mode := B2B_MODE_B2BFBEAT, b_gid := SIS18_B2B_ESR, b_sid := 3\<rparr>"
  have e: "ev_gid (ea_id ?a) = b_gid ?s" "ev_sid (ea_id ?a) = b_sid ?s"
    by (simp_all add: ev_gid_def ev_sid_def b2b_gid no_action_def)
  have p: "mState ?s = B2B_MFSM_ALL_PMEAS_R" "nPhaseResult ?s = 0"
    "b_mode ?s \<in> {B2B_MODE_B2BFBEAT, B2B_MODE_B2BPSHIFTE, B2B_MODE_B2BPSHIFTI}" by (simp_all add: power_up_def)
  show ?thesis using results_in_any_order[OF p e e, of COMMON_STATUS_OK] by blast
qed

section \<open>The kick of an injection\<close>

text \<open>
  C21. The injection kicker is triggered in time or not at all: too late at the first reading of the clock, nothing is
  sent and the error flag is set; otherwise one message goes out, due at the time of the transfer plus the
  correction of the kicker.  Only when the limit is passed between the first reading and the second, inside the
  library, does it go out with the present time and the lead as deadline.
\<close>

theorem injection_kick:
  fixes loc :: b2b_loc and s :: b2b
  assumes "getTrigGid False s \<noteq> 0"
  defines "t \<equiv> b_ns (tTrig loc) + b_ns (cTrigInj_t s)" and "n \<equiv> time_cnt s" and "clock \<equiv> wr_time s"
  shows "\<exists>s'. stage_triginj loc s = Inr s' \<and> mState s' = fst (getNextMState (b_mode s) (mState s) s) \<and>
    (if t < clock n + COMMON_LATELIMIT then dev_out s' = dev_out s \<and> errorFlags s' = errorFlags s OR B2B_ERRFLAG_CBU
     else errorFlags s' = errorFlags s \<and>
       dev_out s' = dev_out s @ tm_ops s
         (if t < clock (Suc n) + COMMON_LATELIMIT then clock (Suc (Suc n)) + COMMON_AHEADT else t)
         (fwlib_buildEvtidV1 (getTrigGid False s) B2B_ECADO_B2B_TRIGGERINJ (flagsInj s) (sidInj s) (bpidInj s) (errorFlags s))
         (paramInj s) 0)"
proof -
  define late where "late = (t < wr_time s n + COMMON_LATELIMIT)"
  define u where "u = s\<lparr>time_cnt := Suc n, errorFlags := (if late then errorFlags s OR B2B_ERRFLAG_CBU else errorFlags s)\<rparr>"
  let ?id = "fwlib_buildEvtidV1 (getTrigGid False s) B2B_ECADO_B2B_TRIGGERINJ (flagsInj s) (sidInj s) (bpidInj s) (errorFlags s)"
  define v where "v = (if late then u else send_tm t ?id (paramInj s) 0 u)"
  have f: "flag_late t s = (late, u)"
    by (simp add: flag_late_def sys_time_def u_def late_def n_def)
  have e: "stage_triginj loc s = Inr (next_stage v)"
    using assms(1) f by (simp add: stage_triginj_def Let_def t_def[symmetric] v_def) (simp add: u_def)
  have d: "dev_out (next_stage w) = dev_out w" "errorFlags (next_stage w) = errorFlags w" for w
    by (simp_all add: next_stage_def Let_def getNextMState_mnext)
  have "key v = key s" by (simp add: v_def u_def key_simps)
  hence "mState (next_stage v) = fst (mnext (b_mode s) (mState s) (nPhaseResult s))"
    using key_next_stage[of v] key_mid[of "next_stage v"] by (simp add: key_def)
  hence m: "mState (next_stage v) = fst (getNextMState (b_mode s) (mState s) s)" by (simp add: getNextMState_mnext)
  have w: "errorFlags (send_tm dl i p tef u) = errorFlags u" for dl i p tef
    unfolding send_tm_def using more_fields by (metis more_simps)
  have "tm_ops u dl i p tef = tm_ops s dl i p tef" for dl i p tef by (simp add: tm_ops_def u_def win_def)
  hence "dev_out (send_tm t ?id (paramInj s) 0 u) = dev_out s @ tm_ops s (tm_dl t 0 u) ?id (paramInj s) 0"
    unfolding send_tm_def writeTM_out by (simp add: u_def)
  moreover have "tm_dl t 0 u = (if t < wr_time s (Suc n) + COMMON_LATELIMIT then wr_time s (Suc (Suc n)) + COMMON_AHEADT else t)"
    by (simp add: tm_dl_def tm_late_def u_def)
  ultimately show ?thesis
    using m e unfolding late_def[symmetric] clock_def
    by (intro exI[of _ "next_stage v"]) (simp add: d v_def w, simp add: u_def)
qed

theorem injection_kick_witness:
  "\<exists>s'. stage_triginj (stack power_up\<lparr>tTrig := \<lparr>b_ns = 2000000000100000000, b_ps = 0, b_dps = 0\<rparr>\<rparr>)
       (power_up\<lparr>b_gid := SIS18_B2B_ESR\<rparr>) = Inr s' \<and> last (dev_out s') = (EBM_FLUSH_OWR, 1)"
proof -
  let ?s = "power_up\<lparr>b_gid := SIS18_B2B_ESR\<rparr>"
  have f: "wr_time ?s 0 = 2000000000000000000" "wr_time ?s 1 = 2000000000001000000" "time_cnt ?s = 0"
    "b_ns (cTrigInj_t ?s) = 0" by (simp_all add: power_up_def no_b2bt_def)
  have "getTrigGid False ?s \<noteq> 0" by (simp add: getTrigGid_def b2b_gid)
  thus ?thesis
    using injection_kick[of ?s "stack power_up\<lparr>tTrig := \<lparr>b_ns = 2000000000100000000, b_ps = 0, b_dps = 0\<rparr>\<rparr>"] f
    by (auto simp: tm_ops_def COMMON_LATELIMIT_def)
qed

section \<open>Phase shifts\<close>

lemma phase_diff_stop: "sint a \<le> sint b \<Longrightarrow> phase_diff a b T = Some (b - a)"
  by (simp add: phase_diff_def while_option_unfold)

lemma phase_diff_step: "sint b < sint a \<Longrightarrow> phase_diff a b T = phase_diff (a - T) b T"
  by (simp add: phase_diff_def while_option_unfold[of _ _ a])

lemma phase_diff_zero:
  assumes "sint b < sint a"
  shows "phase_diff a b 0 = None"
proof -
  have "while_option (\<lambda>x. sint b < sint x) (\<lambda>x. x - 0) a = None"
  proof (rule ccontr)
    assume "\<not> ?thesis"
    then obtain t where t: "while_option (\<lambda>x. sint b < sint x) (\<lambda>x. x - 0) a = Some t" by blast
    have "t = a" using while_option_rule[where P = "\<lambda>x. x = a", OF _ t] by simp
    thus False using while_option_stop[OF t] assms by simp
  qed
  thus ?thesis by (simp add: phase_diff_def)
qed

lemma phase_diff_down:
  fixes a b T :: u64
  assumes "0 < uint T" "uint T \<le> sint b + 2 ^ 63" "sint a - sint b \<le> int k * uint T" "sint b < sint a"
  shows "\<exists>n :: nat. phase_diff a b T = Some (b - a + of_nat n * T) \<and>
    0 \<le> sint b - sint a + int n * uint T \<and> sint b - sint a + int n * uint T < uint T"
  using assms(3,4)
proof (induction k arbitrary: a)
  case 0
  thus ?case by simp
next
  case (Suc k)
  have g: "- (2 ^ 63) \<le> sint b" "sint a < 2 ^ 63" using sint_range_size[of a] sint_range_size[of b] by (simp_all add: word_size)
  have "sint (a - T) = sint (word_of_int (sint a - uint T) :: u64)" by simp
  also have "\<dots> = sint a - uint T" using g Suc.prems(2) assms(1,2) by (intro sint_of_int) simp_all
  finally have s: "sint (a - T) = sint a - uint T" .
  have p: "phase_diff a b T = phase_diff (a - T) b T" by (rule phase_diff_step[OF Suc.prems(2)])
  show ?case
  proof (cases "sint (a - T) \<le> sint b")
    case True
    thus ?thesis using Suc.prems(2) phase_diff_stop[OF True] p s by (intro exI[of _ 1]) simp
  next
    case False
    moreover have "sint (a - T) - sint b \<le> int k * uint T" using Suc.prems(1) s by (simp add: algebra_simps)
    ultimately obtain n where "phase_diff (a - T) b T = Some (b - (a - T) + of_nat n * T)"
      "0 \<le> sint b - sint (a - T) + int n * uint T" "sint b - sint (a - T) + int n * uint T < uint T"
      using Suc.IH[of "a - T"] by auto
    thus ?thesis using p s by (intro exI[of _ "Suc n"]) (simp add: algebra_simps)
  qed
qed

text \<open>
  C24. The phase shift, in attoseconds, for two phases compared as signed numbers.  When the first is not ahead of the
  second, the loop makes no step and the shift is their difference as it is, whatever its size and whatever the period,
  zero included.  When the first is ahead, it is put back by whole periods, as often as needed, and the shift is
  the difference plus so many periods, less than a period; with the period zero there is then no result.  The period
  is so small that no step wraps around.
\<close>

theorem phase_shift_found:
  fixes a b T :: u64
  assumes "uint T \<le> sint b + 2 ^ 63"
  shows "if sint a \<le> sint b then phase_diff a b T = Some (b - a)
    else if T = 0 then phase_diff a b T = None
    else \<exists>n d. phase_diff a b T = Some d \<and> d = b - a + of_nat n * T \<and> d < T"
proof -
  consider "sint a \<le> sint b" | "sint b < sint a" "T = 0" | "sint b < sint a" "T \<noteq> 0" by linarith
  thus ?thesis
  proof cases
    case 3
    have T: "0 < uint T" using 3(2) uint_ge_0[of T] by (metis order_le_less uint_0_iff)
    have "sint a - sint b \<le> int (nat (sint a - sint b)) * uint T"
      using 3(1) T mult_left_mono[of 1 "uint T" "sint a - sint b"] by simp
    then obtain n :: nat where n: "phase_diff a b T = Some (b - a + of_nat n * T)"
      "0 \<le> sint b - sint a + int n * uint T" "sint b - sint a + int n * uint T < uint T"
      using phase_diff_down[OF T assms _ 3(1)] by blast
    have "b - a + of_nat n * T = word_of_int (sint b - sint a + int n * uint T)" by simp
    hence "uint (b - a + of_nat n * T) = sint b - sint a + int n * uint T"
      using n(2,3) uint_lt2p[of T] by (simp only:) (rule uint_of_int, simp_all)
    hence "b - a + of_nat n * T < T" using n(3) by (simp add: word_less_def)
    thus ?thesis using n(1) 3 by auto
  qed (use phase_diff_stop phase_diff_zero in auto)
qed

theorem phase_shift_found_witness: "\<exists>n d. phase_diff 7 2 3 = Some d \<and> d = 2 - 7 + of_nat n * 3 \<and> d < 3"
  using phase_shift_found[of 3 2 7] by simp

section \<open>No frequency of the injection ring\<close>

text \<open>
  Without a period of the injection ring the phase shift there has no end when the start of the transfer, in
  attoseconds modulo \<open>2^64\<close> and negated, lies above the time of the kick: the call does not return.
\<close>

theorem no_frequency_no_return:
  assumes "mState s = B2B_MFSM_INJ_PSHIFT_C" "TH1Inj_as s = 0"
    and "sint (rel_as (tTrig loc) (tCBS s)) < sint (- tCBS s * one_ns_as)"
  shows "calc_stages st loc s = None"
proof -
  have "fwlib_advanceTimePs t t' 0 = \<lparr>b_ns = 0, b_ps = 0, b_dps = 0\<rparr>" for t t' by (simp add: fwlib_advanceTimePs_def)
  hence "rel_as (fwlib_advanceTimePs (tH1Inj_t s) (tTrig loc) (TH1Inj_as s)) (tCBS s) = - tCBS s * one_ns_as"
    by (simp add: assms(2) rel_as_def)
  hence "stage_pshiftc_inj loc s = None" using assms(2,3) phase_diff_zero by (simp add: stage_pshiftc_inj_def)
  thus ?thesis using assms(1) by (simp add: calc_stages_def b2b_mfsm)
qed

theorem no_frequency_no_return_witness:
  "calc_stages COMMON_STATUS_OK (stack power_up\<lparr>tTrig := \<lparr>b_ns = 1999999995000500000, b_ps = 0, b_dps = 0\<rparr>\<rparr>)
     (power_up\<lparr>mState := B2B_MFSM_INJ_PSHIFT_C, tCBS := 1999999995000000000\<rparr>) = None"
proof (rule no_frequency_no_return)
  show "TH1Inj_as (power_up\<lparr>mState := B2B_MFSM_INJ_PSHIFT_C, tCBS := 1999999995000000000\<rparr>) = 0"
    by (simp add: power_up_def)
qed (simp_all add: rel_as_def b2b_units)

section \<open>Taking a phase shift back\<close>

lemma bit_swap_halves:
  "bit (swap_halves x) n \<longleftrightarrow> (if n < 16 then bit x (n + 16) else n < 32 \<and> bit x (n - 16))"
proof -
  have c: "(0x0000ffff :: u32) = mask 16" "(0xffff0000 :: u32) = push_bit 16 (mask 16)" by (simp_all add: mask_eq_exp_minus_1)
  show ?thesis unfolding swap_halves_def c
    by (auto simp: bit_simps add.commute dest: bit_imp_le_length simp del: push_bit_mask_eq mask_numeral)
qed

lemma swap_sign: "(ucast (swap_halves x) :: u64) XOR 0x8000 = ucast (swap_halves (x XOR 0x80000000))"
proof -
  have c: "(0x8000 :: u64) = push_bit 15 1" "(0x80000000 :: u32) = push_bit 31 1" by simp_all
  show ?thesis unfolding c
    by (rule bit_eqI)
      (auto simp: bit_simps bit_swap_halves bit_1_iff simp del: push_bit_of_1 dest: bit_imp_le_length)
qed

lemma flip_low:
  fixes x :: u32
  shows "unat (x XOR 0x80000000) mod 2 ^ 31 = unat x mod 2 ^ 31"
    "odd (unat (x XOR 0x80000000) div 2 ^ 31) \<longleftrightarrow> even (unat x div 2 ^ 31)"
proof -
  have c: "(0x80000000 :: u32) = push_bit 31 1" by simp
  have "take_bit 31 (x XOR 0x80000000) = take_bit 31 x"
    unfolding c by (rule bit_eqI) (auto simp: bit_take_bit_iff bit_xor_iff bit_push_bit_iff)
  hence "unat (take_bit 31 (x XOR 0x80000000)) = unat (take_bit 31 x)" by (rule arg_cong)
  hence "take_bit 31 (unat (x XOR 0x80000000)) = take_bit 31 (unat x)" unfolding unsigned_take_bit_eq .
  thus "unat (x XOR 0x80000000) mod 2 ^ 31 = unat x mod 2 ^ 31" unfolding take_bit_eq_mod .
  have "bit (x XOR push_bit 31 1) 31 \<longleftrightarrow> \<not> bit x 31" by (simp add: bit_xor_iff bit_push_bit_iff del: push_bit_of_1)
  hence "bit (unat (x XOR push_bit 31 1)) 31 \<longleftrightarrow> \<not> bit (unat x) 31" by (simp only: bit_unsigned_iff) auto
  thus "odd (unat (x XOR 0x80000000) div 2 ^ 31) \<longleftrightarrow> even (unat x div 2 ^ 31)" unfolding c by (simp only: bit_iff_odd) blast
qed

lemma f_num_sign: "f_num (x XOR 0x80000000) = fl_neg (f_num x)"
proof -
  have n: "fl_unpack 24 8 n = (let m = n mod 2 ^ 31 mod 2 ^ 23; e = n mod 2 ^ 31 div 2 ^ 23; s = odd (n div 2 ^ 31)
      in if e = 255 then (if m = 0 then Inf s else Nan) else if e = 0 then Num s m (fl_min 24 8)
         else Num s (2 ^ 23 + m) (fl_min 24 8 + int e - 1))" for n
  proof -
    have "(2 :: nat) ^ 31 = 2 ^ 23 * 2 ^ 8" by simp
    hence "n mod 2 ^ 31 mod 2 ^ 23 = n mod 2 ^ 23" "n mod 2 ^ 31 div 2 ^ 23 = n div 2 ^ 23 mod 2 ^ 8"
      by (simp_all only: mod_mult2_eq) (simp_all add: mod_mult2_eq)
    moreover have "(24 :: nat) - 1 = 23" "(23 :: nat) + 8 = 31" by simp_all
    ultimately show ?thesis by (simp only: fl_unpack_def) simp
  qed
  show ?thesis unfolding f_num_def n flip_low by (auto simp: Let_def)
qed

lemma send_tm_time:
  assumes "wr_time s (time_cnt s) + COMMON_LATELIMIT \<le> dl"
  shows "dev_out (send_tm dl e p tef s) = dev_out s @ tm_ops s dl e p tef"
    "ebm_frame (send_tm dl e p tef s) = ebm_frame (s\<lparr>time_cnt := Suc (time_cnt s)\<rparr>)"
proof -
  have l: "\<not> tm_late dl 0 s" using assms by (simp add: tm_late_def)
  thus "dev_out (send_tm dl e p tef s) = dev_out s @ tm_ops s dl e p tef"
    unfolding send_tm_def writeTM_out by (simp add: tm_dl_def)
  have "tm_deadline dl 0 s = (dl, COMMON_STATUS_OK, s\<lparr>time_cnt := Suc (time_cnt s)\<rparr>)"
    using assms by (simp add: tm_deadline_def sys_time_def not_less[symmetric])
  thus "ebm_frame (send_tm dl e p tef s) = ebm_frame (s\<lparr>time_cnt := Suc (time_cnt s)\<rparr>)"
    by (simp add: send_tm_def fwlib_ebmWriteTM_def ebm_flush_def ebm_hi_def ebm_tm_out[THEN conjunct1])
qed

text \<open>
  C25. A phase shift of the extraction ring, commanded in time, is taken back by a second message that differs in one bit only, and that bit is the sign of the angle:
  the first message is due at a multiple of ten microseconds, the second when the transfer has been observed, with
  the same event number and the same duration.
\<close>

theorem shift_reversed:
  fixes loc :: b2b_loc and s :: b2b
  defines "d1 \<equiv> (tCBS s + B2B_KICKOFFSETMIN) div 10000 * 10000" and "d2 \<equiv> tCBS s + B2B_TDIAGOBS + B2B_KICKOFFSETMIN"
    and "angle \<equiv> shift_angle (pShiftExt s) (TH1Ext_as s)"
    and "param \<equiv> (\<lambda>x. ucast (swap_halves x) OR push_bit 32 (ucast (swap_halves (TPhaseShiftDDS s))))"
  assumes clock: "wr_time s (time_cnt s) + COMMON_LATELIMIT \<le> d1" "wr_time s (Suc (time_cnt s)) + COMMON_LATELIMIT \<le> d2"
  shows "\<exists>evtId. dev_out (snd (stage_pshifts_ext loc s)) =
      dev_out s @ tm_ops s d1 evtId (param angle) 0 @ tm_ops s d2 evtId (param (angle XOR 0x80000000)) 0 \<and>
    f_num (angle XOR 0x80000000) = fl_neg (f_num angle) \<and> bit evtId 16"
proof -
  define i where "i = fwlib_buildEvtidV1 (b_gid s) B2B_ECADO_B2B_PSHIFTEXT (flagsExt s) (sidExt s) (bpidExt s) 0 OR 0x10000"
  define s1 where "s1 = send_tm d1 i (param angle) 0 s"
  have 1: "dev_out s1 = dev_out s @ tm_ops s d1 i (param angle) 0"
    "ebm_frame s1 = ebm_frame (s\<lparr>time_cnt := Suc (time_cnt s)\<rparr>)"
    unfolding s1_def by (rule send_tm_time[OF clock(1)])+
  have "fw.more s1 = fw.more s" unfolding s1_def send_tm_def by (simp add: more_simps)
  hence t: "tCBS s1 = tCBS s" by (cases s1; cases s) simp
  have f: "win s1 = win s" "EBM_WRITE s1 = EBM_WRITE s" "wr_time s1 = wr_time s" "time_cnt s1 = Suc (time_cnt s)"
    using ebm_frame_win[OF 1(2)] by simp_all
  have o: "tm_ops s1 dl e p w = tm_ops s dl e p w" for dl e p w using f by (simp add: tm_ops_def)
  have "dev_out (send_tm d2 i q 0 s1) = dev_out s1 @ tm_ops s1 d2 i q 0" for q
    by (rule send_tm_time) (use clock(2) f in simp)
  hence 2: "dev_out (send_tm d2 i q 0 s1) = dev_out s @ tm_ops s d1 i (param angle) 0 @ tm_ops s d2 i q 0" for q
    using 1(1) o by simp
  have x: "param angle XOR 0x8000 = param (angle XOR 0x80000000)"
  proof -
    have "bit (0x8000 :: u64) n \<longrightarrow> \<not> bit (push_bit 32 y) n" for n and y :: u64
    proof -
      have c: "(0x8000 :: u64) = push_bit 15 1" by simp
      show ?thesis unfolding c by (auto simp: bit_push_bit_iff bit_1_iff simp del: push_bit_of_1)
    qed
    hence "(w OR push_bit 32 y) XOR 0x8000 = (w XOR 0x8000) OR push_bit 32 y" for w y :: u64
      by (intro bit_eqI) (auto simp: bit_or_iff bit_xor_iff)
    thus ?thesis unfolding param_def swap_sign[symmetric] by blast
  qed
  have "shift_param (pShiftExt s) (TH1Ext_as s) (TPhaseShiftDDS s) = param angle"
    by (simp add: shift_param_def param_def angle_def)
  hence "dev_out (snd (stage_pshifts_ext loc s)) = dev_out (send_tm d2 i (param angle XOR 0x8000) 0 s1)"
    by (simp add: stage_pshifts_ext_def send_shift_def Let_def i_def[symmetric] d1_def[symmetric] d2_def t s1_def[symmetric]
        next_stage_def getNextMState_mnext)
  moreover have "bit i 16"
  proof -
    have "(0x10000 :: u64) = push_bit 16 1" by simp
    thus ?thesis by (simp add: i_def bit_or_iff bit_push_bit_iff del: push_bit_of_1)
  qed
  ultimately show ?thesis using 2 x f_num_sign by (intro exI[of _ i]) simp
qed

theorem shift_reversed_witness:
  "\<exists>evtId p q. dev_out (snd (stage_pshifts_ext (stack power_up) (power_up\<lparr>tCBS := 2000000000001000000\<rparr>))) =
     tm_ops power_up (2000000000001000000 + B2B_KICKOFFSETMIN) evtId p 0 @
     tm_ops power_up (2000000000001000000 + B2B_TDIAGOBS + B2B_KICKOFFSETMIN) evtId q 0"
proof -
  let ?s = "power_up\<lparr>tCBS := 2000000000001000000\<rparr>"
  have "tm_ops ?s dl e p w = tm_ops power_up dl e p w" for dl e p w by (simp add: tm_ops_def win_def)
  moreover have "dev_out ?s = []" "wr_time ?s 0 = 2000000000000000000" "wr_time ?s 1 = 2000000000001000000" "time_cnt ?s = 0"
    by (simp_all add: power_up_def)
  ultimately show ?thesis
    using shift_reversed[of ?s "stack power_up"] by (auto simp: b2b_times COMMON_LATELIMIT_def)
qed

end
