(* ===== verification/B2b_Node_Reach.thy ===== *)
theory B2b_Node_Reach
  imports B2b_Node
begin

text \<open>
  Reachable states of a measuring node of the bunch-to-bucket system, and the contract by which an invariant of the
  variables of one node is kept by everything that the nodes have in common.
\<close>

section \<open>Reachable states\<close>

text \<open>Requested, actual and published state of the common state machine, and the state of the node: from power-on by
  passes of the main loop and writes of the host to the shared memory.\<close>

inductive node_reach ::
  "'a node_ext hooks \<Rightarrow> (u32 \<Rightarrow> 'a node_scheme \<Rightarrow> (u32 \<times> 'a node_scheme) option) \<Rightarrow> u32 \<Rightarrow> bool \<Rightarrow>
   ('a node_scheme \<Rightarrow> bool) \<Rightarrow> u32 \<times> u32 \<times> u32 \<times> 'a node_scheme \<Rightarrow> bool"
  for h operation ver swapped power_on
where
  start: "power_on s \<Longrightarrow> node_reach h operation ver swapped power_on (node_start ver swapped clu rams adr cpuId s)"
| pass: "node_reach h operation ver swapped power_on c \<Longrightarrow> node_iter h operation c = Some c' \<Longrightarrow>
    node_reach h operation ver swapped power_on c'"
| host: "node_reach h operation ver swapped power_on (req, act, pub, s) \<Longrightarrow>
    node_reach h operation ver swapped power_on (req, act, pub, s\<lparr>shm := mem\<rparr>)"

section \<open>What the nodes have in common keeps an invariant\<close>

lemma more_configure: "configure_node s = Some (st, s') \<Longrightarrow> fw.more s' = fw.more s"
proof -
  assume a: "configure_node s = Some (st, s')"
  obtain s1 where e: "fwlib_ebmInit 2000 0xffffffffffff 0xffffffff EBM_NOREPLY s = Some (st, s1)"
    and r: "s' = s1 \<or> s' = fwlib_publishNICData s1"
    using a by (auto simp: configure_node_def split: option.splits if_splits)
  show ?thesis using more_ebmInit[OF e] r by (auto simp: more_simps)
qed

lemma more_flush: "flush_eca_node s = Some s' \<Longrightarrow> fw.more s' = fw.more s"
  by (rule flush_eca_node.raw_induct[where P = "\<lambda>s s'. fw.more s' = fw.more s"])
    (auto split: option.splits if_splits dest: more_wait)

lemma more_operation: "operation_node ws s = Some (st, s') \<Longrightarrow> fw.more s' = fw.more (clearDiag_node s)"
proof -
  assume a: "operation_node ws s = Some (st, s')"
  obtain s1 where f: "flush_eca_node (fwlib_clearDiag clearDiag_node s) = Some s1" and r: "s' = fold (\<lambda>w. shm_put w 0) ws s1"
    using a by (auto simp: operation_node_def split: option.splits)
  have "fw.more (fold (\<lambda>w. shm_put w 0) ws u) = fw.more u" for u :: "'a node_scheme"
    by (rule more_fold) (simp add: shm_put_def)
  thus ?thesis using more_flush[OF f] r by (simp add: fwlib_clearDiag_def Let_def split_beta more_simps)
qed

text \<open>The variables that all nodes have are not part of the invariant.\<close>

locale node_state = fw_program h inv clearDiag_node for h :: "'a node_ext hooks" and inv :: "'a node_scheme \<Rightarrow> bool" +
  assumes status_free: "inv s \<Longrightarrow> inv (s\<lparr>n_statusArray := arr\<rparr>)" and stat_free: "inv s \<Longrightarrow> inv (s\<lparr>n_stat := st\<rparr>)"
    and transfer_free: "inv s \<Longrightarrow> inv (s\<lparr>n_nTransfer := n\<rparr>)"
begin

lemma time_node_keeps: "inv s \<Longrightarrow> inv (s\<lparr>time_cnt := n\<rparr>)" "inv s \<Longrightarrow> inv (s\<lparr>shm := m\<rparr>)" "inv s \<Longrightarrow> inv (shm_put off v s)"
  "inv s \<Longrightarrow> inv (snd (sys_time s))" "inv s \<Longrightarrow> inv (snd (fwlib_wrCheckSyncState s))"
  "inv s \<Longrightarrow> inv (snd (fwlib_ebmWriteTM dl e p tef f s))" "inv s \<Longrightarrow> inv (snd (fwlib_ecaWriteTM dl e p tef f s))"
  by (erule library[rotated]; simp add: shm_put_def fwlib_wrCheckSyncState_def Let_def split_beta more_simps)+

lemma wait_node_keeps: "fwlib_wait4ECAEvent us s = Some (tag, a, s') \<Longrightarrow> inv s \<Longrightarrow> inv s'"
  by (erule library[rotated, OF _ more_wait])

lemma wait2_keeps: "fwlib_wait4ECAEvent2 us s = Some (ev, s') \<Longrightarrow> inv s \<Longrightarrow> inv s'"
  by (rule wait_node_keeps[of us s "ev_tag ev" "ev_action ev"]) (simp_all add: fwlib_wait4ECAEvent_def)

lemma finish_node_keeps: "inv s \<Longrightarrow> inv (snd (finish_node ev late t st s))"
  by (auto simp: finish_node_def Let_def sys_time_def split_beta intro!: time_node_keeps stat_free)

lemma update_keeps: "inv s \<Longrightarrow> inv (update_status_node st s)"
  by (auto simp: update_status_node_def Let_def intro!: status_free publish_keeps(4))

lemma publish_node_keeps: "inv s \<Longrightarrow> inv (publish_node s)"
  by (simp add: publish_node_def Let_def publish_keeps(5))

lemma start_keeps: "inv s \<Longrightarrow> node_start ver swapped clu rams adr cpuId s = (req, act, pub, s') \<Longrightarrow> inv s'"
proof -
  assume i: "inv s" and a: "node_start ver swapped clu rams adr cpuId s = (req, act, pub, s')"
  have f: "inv (fold (\<lambda>k. shm_put (b2b_shared k) 0) ks u)" if "inv u" for ks u
    using that by (induction ks arbitrary: u) (simp_all add: time_node_keeps)
  show ?thesis
    using a by (auto simp: node_start_def initSharedMem_node_def intro!: clear_keeps publish_keeps(6) f transfer_free i)
qed

end

text \<open>A node: its operation keeps the invariant as well.  Then all of it does.\<close>

locale node_program = node_state h inv for h :: "'a node_ext hooks" and inv :: "'a node_scheme \<Rightarrow> bool" +
  fixes operation :: "u32 \<Rightarrow> 'a node_scheme \<Rightarrow> (u32 \<times> 'a node_scheme) option"
  assumes operation_keeps: "inv s \<Longrightarrow> operation st s = Some (st', s') \<Longrightarrow> inv s'"
begin

lemma iter_keeps: "node_iter h operation (req, act, pub, s) = Some (req', act', pub', s') \<Longrightarrow> inv s \<Longrightarrow> inv s'"
proof -
  assume a: "node_iter h operation (req, act, pub, s) = Some (req', act', pub', s')" and i: "inv s"
  obtain req1 cmd s1 where 1: "fwlib_cmdHandler clearDiag_node req s = (req1, cmd, s1)" by (metis prod_cases3)
  obtain act2 req2 st2 s2 where 2: "fwlib_changeState h act req1 COMMON_STATUS_OK s1 = Some (act2, req2, st2, s2)"
    using a by (auto simp: node_iter_def 1 bind_eq_Some_conv)
  obtain req3 st3 s3 where 3: "node_act operation req2 act2 st2 s2 = Some (req3, st3, s3)"
    using a by (auto simp: node_iter_def 1 2 bind_eq_Some_conv)
  have i2: "inv s2" by (rule change_keeps[OF 2 command_keeps[OF 1 i]])
  have i3: "inv s3"
  proof (cases "act2 = COMMON_STATE_OPREADY")
    case True
    then obtain st' where "operation st2 s2 = Some (st', s3)" using 3 by (auto simp: node_act_def)
    thus ?thesis by (rule operation_keeps[OF i2])
  next
    case False
    hence "fwlib_doActionState req2 act2 st2 s2 = Some (req3, st3, s3)" using 3 by (simp add: node_act_def)
    thus ?thesis by (rule do_keeps) (rule i2)
  qed
  thus ?thesis
    using a i3 by (auto simp: node_iter_def 1 2 3 Let_def intro!: publish_node_keeps publish_keeps update_keeps)
qed

lemma reach_node_keeps:
  assumes "\<And>s. power_on s \<Longrightarrow> inv s"
  shows "node_reach h operation ver swapped power_on c \<Longrightarrow> inv (snd (snd (snd c)))"
proof (induction rule: node_reach.induct)
  case (start s clu rams adr cpuId)
  thus ?case using start_keeps assms by (metis prod.collapse)
next
  case (pass c c')
  thus ?case using iter_keeps by (metis prod.collapse)
qed (simp add: time_node_keeps)

end

end
