(* ===== verification/B2b_Measure.thy ===== *)
theory B2b_Measure
  imports B2b_Phasefit B2b_Transfer B2b_Node_Reach
begin

text \<open>
  Whole measurements (modules/b2b/fw/b2b-pm.c): what reading the time stamps does to the devices, the answer to
  a request of the central unit, and the invariant of the array of time stamps in all reachable states.
\<close>

section \<open>Reading time stamps\<close>

lemma poll_setup:
  "eca_poll T s = Some r \<Longrightarrow> setup_of (snd r) = setup_of s \<and>
     dev_out (snd r) = dev_out s @ (if fst r = None then [] else [(ECAQ_POP, 1)])"
  by (rule eca_poll.raw_induct[where P = "\<lambda>T s r. setup_of (snd r) = setup_of s \<and>
        dev_out (snd r) = dev_out s @ (if fst r = None then [] else [(ECAQ_POP, 1)])"])
    (auto simp: sys_time_def setup_of_def wr_dev_def split: if_splits option.splits)

lemma wait_setup:
  assumes "fwlib_wait4ECAEvent us s = Some (tag, a, s')"
  shows "setup_of s' = setup_of s \<and> (\<exists>k. dev_out s' = dev_out s @ replicate k (ECAQ_POP, 1))"
proof -
  obtain T q s2 where p: "eca_poll T (snd (sys_time s)) = Some (q, s2)" and s: "s' = s2 \<or> s' = snd (sys_time s2)"
    using assms by (auto simp: fwlib_wait4ECAEvent_def fwlib_wait4ECAEvent2_def Let_def sys_time_def
        split: option.splits prod.splits)
  have "setup_of s2 = setup_of s" "dev_out s2 = dev_out s @ replicate (of_bool (q \<noteq> None)) (ECAQ_POP, 1)"
    using poll_setup[OF p] by (auto simp: setup_of_def)
  moreover have "setup_of (snd (sys_time s2)) = setup_of s2" "dev_out (snd (sys_time s2)) = dev_out s2"
    by (simp_all add: setup_of_def)
  ultimately show ?thesis using s by auto
qed

lemma acquire_keeps:
  "acquire_loop tag nReq ts n s = Some (ts', n', s') \<Longrightarrow> length ts' = length ts \<and> n \<le> n' \<and> n' \<le> max n nReq \<and>
     setup_of s' = setup_of s \<and> (\<exists>k. dev_out s' = dev_out s @ replicate k (ECAQ_POP, 1))"
proof -
  let ?P = "\<lambda>tag nReq ts n s r. length (fst r) = length ts \<and> n \<le> fst (snd r) \<and> fst (snd r) \<le> max n nReq \<and>
     setup_of (snd (snd r)) = setup_of s \<and> (\<exists>k. dev_out (snd (snd r)) = dev_out s @ replicate k (ECAQ_POP, 1))"
  assume a: "acquire_loop tag nReq ts n s = Some (ts', n', s')"
  have "?P tag nReq ts n s (ts', n', s')"
  proof (rule acquire_loop.raw_induct[where P = ?P, OF _ a])
    fix f tag nReq ts n and s :: "'a fw_scheme" and r
    assume IH: "\<And>tag nReq ts n (s :: 'a fw_scheme) r. f tag nReq ts n s = Some r \<Longrightarrow> ?P tag nReq ts n s r"
      and e: "(if n < nReq
      then case fwlib_wait4ECAEvent 1 s of
             None \<Rightarrow> None
           | Some (ecaAction, a, s1) \<Rightarrow>
               let ts1 = (if ecaAction = tag then ts[n := ea_deadline a] else ts);
                   n1 = (if ecaAction = tag then n + 1 else n)
               in if ecaAction = B2B_ECADO_TIMEOUT then Some (ts1, n1, s1) else f tag nReq ts1 n1 s1
      else Some (ts, n, s)) = Some r"
    show "?P tag nReq ts n s r"
    proof (cases "n < nReq")
      case True
      then obtain act a s1 where w: "fwlib_wait4ECAEvent 1 s = Some (act, a, s1)"
        using e by (auto split: option.splits)
      define ts1 n1 where "ts1 = (if act = tag then ts[n := ea_deadline a] else ts)" and "n1 = (if act = tag then n + 1 else n)"
      have l: "length ts1 = length ts" "n \<le> n1" "n1 \<le> nReq" using True by (simp_all add: ts1_def n1_def)
      obtain k where k: "setup_of s1 = setup_of s" "dev_out s1 = dev_out s @ replicate k (ECAQ_POP, 1)"
        using wait_setup[OF w] by auto
      show ?thesis
      proof (cases "act = B2B_ECADO_TIMEOUT")
        case True
        hence "r = (ts1, n1, s1)" using e w \<open>n < nReq\<close> by (simp add: ts1_def n1_def Let_def)
        thus ?thesis using l k by auto
      next
        case False
        hence "f tag nReq ts1 n1 s1 = Some r" using e w \<open>n < nReq\<close> by (simp add: ts1_def n1_def Let_def)
        from IH[OF this] show ?thesis using l k by (auto simp: replicate_add[symmetric])
      qed
    qed (use e in \<open>auto intro: exI[of _ 0]\<close>)
  qed
  thus ?thesis by simp
qed

lemma more_pm:
  fixes s t :: pm
  assumes "fw.more s = fw.more t"
  shows "tStamp s = tStamp t" "pm_TH1_as s = pm_TH1_as t" "pm_tH1_t s = pm_tH1_t t" "flagPMError s = flagPMError t"
    "nSamples s = nSamples t" "flagMatchDone s = flagMatchDone t" "flagPhaseDone s = flagPhaseDone t" "dtMatch_as s = dtMatch_as t"
    "TMeas_us s = TMeas_us t"
  using assms by (cases s; cases t; simp)+

text \<open>The writes of one acquisition: gate 2 is opened and closed, then the queue is read.\<close>

definition acquire_ops :: "nat \<Rightarrow> (reg \<times> u32) list" where
  "acquire_ops k = [(IOC IO_CTRL_LVDSINGATESETLOW, 4), (IOC IO_CTRL_LVDSINGATERESETLOW, 4)] @ replicate k (ECAQ_POP, 1)"

lemma acquire_pm_keeps:
  assumes "acquire_pm s = Some (n, s')"
  shows "\<exists>s1 ts. s' = s1\<lparr>tStamp := ts\<rparr> \<and> length ts = length (tStamp s) \<and> n \<le> unat (nSamples s) \<and> fw.more s1 = fw.more s \<and>
    (EBM_OFFS_DAT s1, EBM_ADR_MASK s1, EBM_WRITE s1) = (EBM_OFFS_DAT s, EBM_ADR_MASK s, EBM_WRITE s) \<and>
    (\<exists>k. dev_out s1 = dev_out s @ acquire_ops k)"
proof -
  define s0 where "s0 = snd (fwlib_ioCtrlSetGate 0 2 (snd (fwlib_ioCtrlSetGate 1 2 s)))"
  have g: "setup_of s0 = setup_of s" "dev_out s0 = dev_out s @ acquire_ops 0"
    by (simp_all add: s0_def fwlib_ioCtrlSetGate_def setup_of_def wr_dev_def acquire_ops_def)
  obtain ts s1 where a: "acquire_loop B2B_ECADO_TLUINPUT3 (unat (nSamples s)) (tStamp s) 0 s0 = Some (ts, n, s1)"
    and s': "s' = s1\<lparr>tStamp := (if n > 2 then insertionSort ts n else ts)\<rparr>"
    using assms by (auto simp: acquire_pm_def acquireTimestamps_def s0_def split: option.splits)
  have len: "length (insertionSort ts n) = length ts" for ts n
  proof -
    have "length (shift_down x j us) = length us" for x j us by (induction x j us rule: shift_down.induct) simp_all
    hence "length (fold (\<lambda>i ts. shift_down (ts ! i) i ts) is us) = length us" for "is" us
      by (induction "is" arbitrary: us) simp_all
    thus ?thesis by (simp add: insertionSort_def)
  qed
  show ?thesis
    using acquire_keeps[OF a] g s' len[of ts n]
    by (intro exI[of _ s1] exI[of _ "if n > 2 then insertionSort ts n else ts"])
      (auto simp: setup_of_def acquire_ops_def)
qed

section \<open>The answer\<close>

lemma ev_masks: "(0xfff :: 'a :: len word) = mask 12" "(0x3fff :: 'a word) = mask 14" "(0x3f :: 'a word) = mask 6"
  by (simp_all add: mask_eq_exp_minus_1)

lemma ucast_small: "ucast (ucast (x AND mask n :: u32) :: u64) = (x AND mask n :: u32)"
  by (rule bit_word_eqI) (auto simp: bit_simps)

lemma ev_of_build:
  "ev_gid (fwlib_buildEvtidV1 g e f s b r) = g AND 0xfff" "ev_sid (fwlib_buildEvtidV1 g e f s b r) = s AND 0xfff"
  "ev_bpid (fwlib_buildEvtidV1 g e f s b r) = b AND 0x3fff" "ev_res (fwlib_buildEvtidV1 g e f s b r) = r AND 0x3f"
  "ucast (drop_bit 36 (fwlib_buildEvtidV1 g e f s b r) AND 0xfff) = e AND (0xfff :: u32)"
  using evtid_fields[of g e f s b r]
  by (simp_all only: ev_gid_def ev_sid_def ev_bpid_def ev_res_def ev_masks ucast_small)

lemma ev_fits: "ev_gid i AND 0xfff = ev_gid i" "ev_sid i AND 0xfff = ev_sid i" "ev_bpid i AND 0x3fff = ev_bpid i"
  by (simp_all only: ev_gid_def ev_sid_def ev_bpid_def ev_masks; rule bit_word_eqI; auto simp: bit_simps)+

lemma phaseFit_clean:
  assumes "phaseFit T n ts p = Some (st, t)"
  shows "st = COMMON_STATUS_OK \<and> - 500 \<le> sint (b_ps t) \<and> sint (b_ps t) < 500 \<and> b_dps t < 0x1000 \<or>
    st = B2B_STATUS_PHASEFAILED \<and> t = p"
proof -
  have d: "drop_bit 20 (w :: u32) < 0x1000" for w
  proof -
    have "unat w < 2 ^ 32" using unsigned_less[of w] by simp
    thus ?thesis by (simp add: word_less_nat_alt unat_div drop_bit_eq_div less_mult_imp_div_less)
  qed
  have "- 500 \<le> sint (b_ps q) \<and> sint (b_ps q) < 500 \<and> b_dps q < 0x1000" if "phaseFitAverage T n ts p = (COMMON_STATUS_OK, q)" for q
    using that d clean_spec
    by (auto simp: phaseFitAverage_def Let_def B2B_STATUS_PHASEFAILED_def COMMON_STATUS_OK_def split: if_splits)
  thus ?thesis
    using assms by (auto simp: phaseFit_def Let_def split: if_splits prod.splits)
qed

lemma uint_ucast_32: "uint (ucast (w :: u16) :: u32) = uint w"
  by (simp add: unsigned_ucast_eq take_bit_int_eq_self order.strict_trans[OF unsigned_less])

lemma tef_roundtrip:
  assumes "- 500 \<le> sint (b_ps t)" "sint (b_ps t) < 500" "b_dps t < 0x1000"
  shows "phase_of (b_ns t) (tef_of t) = t"
proof -
  have m: "(0xffff :: u32) = mask 16" "(0xffff0000 :: u32) = push_bit 16 (mask 16)"
    by (simp_all add: mask_eq_exp_minus_1 push_bit_eq_mult)
  have lo: "ucast (tef_of t AND 0xffff) = (ucast (b_ps t) :: u16)"
    by (rule bit_word_eqI) (auto simp: tef_of_def m bit_simps)
  have hi: "ucast (drop_bit 16 (tef_of t AND 0xffff0000)) = (ucast (b_dps t) :: u16)"
    by (rule bit_word_eqI) (auto simp: tef_of_def m bit_simps)
  have "sint (ucast (b_ps t) :: u16) = signed_take_bit 15 (uint (b_ps t))"
    by (simp add: sint_uint unsigned_ucast_eq signed_take_bit_take_bit)
  also have "\<dots> = signed_take_bit 15 (sint (b_ps t))" by (simp add: sint_uint)
  also have "\<dots> = sint (b_ps t)" using assms(1,2) by (simp add: signed_take_bit_int_eq_self)
  finally have q: "sint (ucast (b_ps t) :: u16) = sint (b_ps t)" .
  have p: "scast (ucast (b_ps t) :: u16) = b_ps t"
    using arg_cong[OF q, of "of_int :: int \<Rightarrow> u32"] by (simp add: scast_id)
  have "uint (b_dps t) < 0x1000" using assms(3) by (simp add: word_less_def)
  hence "uint (ucast (b_dps t) :: u16) = uint (b_dps t)"
    by (simp add: unsigned_ucast_eq take_bit_int_eq_self)
  hence "ucast (ucast (b_dps t) :: u16) = b_dps t" using uint_ucast_32[of "ucast (b_dps t) :: u16"] by (metis word_uint_eq_iff)
  thus ?thesis unfolding phase_of_def lo hi p by simp
qed

lemma tm_ops_same:
  "(EBM_OFFS_DAT s, EBM_ADR_MASK s, EBM_WRITE s) = (EBM_OFFS_DAT t, EBM_ADR_MASK t, EBM_WRITE t) \<Longrightarrow> tm_ops s = tm_ops t"
  by (simp add: tm_ops_def win_def fun_eq_iff)

lemma ecaWriteTM_out:
  "\<exists>ws. length ws = 8 \<and> dev_out (snd (fwlib_ecaWriteTM dl e p tef f s)) = dev_out s @ map (Pair ECA_IN) ws"
  using tm_deadline_cases[of dl f s]
  by (intro exI[of _ "tm_words (tm_dl dl f s) e p tef"]) (auto simp: fwlib_ecaWriteTM_def eca_tm_out tm_words_def)

text \<open>The writes of an answer: one message to the network, eight words for the own ECA.\<close>

lemma pm_answer_out:
  fixes s :: pm and ev :: eca_event
  defines "i \<equiv> ea_id (ev_action ev)" and "t \<equiv> pm_tH1_t s"
  shows "\<exists>dl ws. length ws = 8 \<and> dev_out (pm_answer no ev s) = dev_out s @
      tm_ops s dl (fwlib_buildEvtidV1 (ev_gid i) no 0 (ev_sid i) (ev_bpid i) (flagPMError s)) (b_ns t) (tef_of t) @
      map (Pair ECA_IN) ws \<and>
    pm_tH1_t (pm_answer no ev s) = t \<and> flagPMError (pm_answer no ev s) = flagPMError s \<and>
    pm_TH1_as (pm_answer no ev s) = pm_TH1_as s"
proof -
  let ?id = "fwlib_buildEvtidV1 (ev_gid i) no 0 (ev_sid i) (ev_bpid i) (flagPMError s)"
  define s1 where "s1 = snd (sys_time s)"
  define s2 where "s2 = snd (fwlib_ebmWriteTM (wr_time s (time_cnt s) + B2B_AHEADT) ?id (b_ns t) (tef_of t) 0 s1)"
  define s3 where "s3 = snd (sys_time s2)"
  have m: "fw.more s1 = fw.more s" "fw.more s2 = fw.more s" "fw.more s3 = fw.more s"
    by (simp_all add: s1_def s2_def s3_def more_simps)
  define s4 where "s4 = monitor_tm (wr_time s2 (time_cnt s2)) ev s3"
  have m4: "fw.more s4 = fw.more s" by (simp add: s4_def monitor_tm_def m more_simps)
  have d2: "dev_out s2 = dev_out s @ tm_ops s (tm_dl (wr_time s (time_cnt s) + B2B_AHEADT) 0 s1) ?id (b_ns t) (tef_of t)"
  proof -
    have "tm_ops s1 = tm_ops s" by (rule tm_ops_same) (simp add: s1_def)
    moreover have "dev_out s1 = dev_out s" by (simp add: s1_def)
    ultimately show ?thesis by (simp add: s2_def writeTM_out)
  qed
  obtain ws where w: "length ws = 8" "dev_out s4 = dev_out s3 @ map (Pair ECA_IN) ws"
    using ecaWriteTM_out[of _ _ _ _ _ s3] unfolding s4_def monitor_tm_def by blast
  have a: "pm_answer no ev s = s4\<lparr>n_stat := (n_stat s4)\<lparr>offsDone := ucast (wr_time s2 (time_cnt s2) - ea_deadline (ev_action ev))\<rparr>,
      n_transStat := b_dps (pm_tH1_t s4), n_nTransfer := n_nTransfer s4 + 1\<rparr>"
    by (simp add: pm_answer_def sys_time_def Let_def s4_def s3_def s2_def s1_def i_def t_def)
  have "dev_out s3 = dev_out s2" by (simp add: s3_def)
  thus ?thesis using w d2 more_pm[OF m4] by (auto simp: a t_def)
qed

lemma request_fields:
  "pm_TH1_as (pm_request a s) = ea_param a AND 0x000fffffffffffff" "flagPMError (pm_request a s) = 0"
  "b_ns (pm_tH1_t (pm_request a s)) = 0x6fffffffffffffff" "nSamples (pm_request a s) = samples_of (ea_param a AND 0x000fffffffffffff)"
  "tStamp (pm_request a s) = tStamp s" "dev_out (pm_request a s) = dev_out s"
  "(EBM_OFFS_DAT (pm_request a s), EBM_ADR_MASK (pm_request a s), EBM_WRITE (pm_request a s)) = (EBM_OFFS_DAT s, EBM_ADR_MASK s, EBM_WRITE s)"
  by (simp_all add: pm_request_def shm_put_def Let_def)

lemma node_status: "B2B_STATUS_PHASEFAILED \<noteq> COMMON_STATUS_OK" "B2B_STATUS_NORF \<noteq> COMMON_STATUS_OK"
  by (simp_all add: B2B_STATUS_PHASEFAILED_def B2B_STATUS_NORF_def COMMON_STATUS_OK_def)

text \<open>
  The answer to a request.  The node opens and closes the gate of its input, takes what is in the queue, and sends one
  message to the network, which carries group, sequence and beam process of the request: the phase, which the central unit
  reads from it exactly as it has been measured, or the error flag of the ring.
\<close>

theorem phase_answered:
  fixes ev :: eca_event and s s' :: pm
  defines "i \<equiv> ea_id (ev_action ev)" and "t \<equiv> pm_tH1_t s'"
  assumes "on_pm ext st ev s = Some (st', s')"
  shows "\<exists>id k dl ws. length ws = 8 \<and>
    dev_out s' = dev_out s @ acquire_ops k @ tm_ops s dl id (b_ns t) (tef_of t) @ map (Pair ECA_IN) ws \<and>
    ev_gid id = ev_gid i \<and> ev_sid id = ev_sid i \<and> ev_bpid id = ev_bpid i \<and> ev_res id = flagPMError s' \<and>
    ucast (drop_bit 36 id AND 0xfff) = (if ext then B2B_ECADO_B2B_PREXT else B2B_ECADO_B2B_PRINJ) \<and>
    pm_TH1_as s' = ea_param (ev_action ev) AND 0x000fffffffffffff \<and>
    (flagPMError s' = 0 \<and> st' = st \<and> \<bar>sint (b_ps t)\<bar> \<le> 500 \<and> phase_of (b_ns t) (tef_of t) = t \<or>
     flagPMError s' = (if ext then B2B_ERRFLAG_PMEXT else B2B_ERRFLAG_PMINJ) \<and>
       st' \<in> {B2B_STATUS_NORF, B2B_STATUS_PHASEFAILED} \<and> b_ns t = 0x6fffffffffffffff)"
proof -
  let ?q = "pm_request (ev_action ev) s" and ?no = "if ext then B2B_ECADO_B2B_PREXT else B2B_ECADO_B2B_PRINJ"
  obtain n s1 where a: "acquire_pm ?q = Some (n, s1)" using assms(3) by (auto simp: on_pm_def split: option.splits)
  obtain s0 ts k where k: "s1 = s0\<lparr>tStamp := ts\<rparr>" "fw.more s0 = fw.more ?q"
    "(EBM_OFFS_DAT s0, EBM_ADR_MASK s0, EBM_WRITE s0) = (EBM_OFFS_DAT ?q, EBM_ADR_MASK ?q, EBM_WRITE ?q)"
    "dev_out s0 = dev_out ?q @ acquire_ops k"
    using acquire_pm_keeps[OF a] by blast
  have f: "flagPMError s1 = 0" "b_ns (pm_tH1_t s1) = 0x6fffffffffffffff"
    "pm_TH1_as s1 = ea_param (ev_action ev) AND 0x000fffffffffffff"
    using more_pm[OF k(2)] by (simp_all add: k(1) request_fields)
  have e: "(EBM_OFFS_DAT s1, EBM_ADR_MASK s1, EBM_WRITE s1) = (EBM_OFFS_DAT s, EBM_ADR_MASK s, EBM_WRITE s)"
    "dev_out s1 = dev_out s @ acquire_ops k"
    using k(3,4) by (simp_all add: k(1) request_fields request_fields(7)[simplified])
  obtain fst' q where fit: "phaseFit (pm_TH1_as s1) n (tStamp s1) (pm_tH1_t s1) = Some (fst', q)"
    using assms(3) a by (auto simp: on_pm_def split: option.splits)
  define err where "err = (if fst' \<noteq> COMMON_STATUS_OK then (if ext then B2B_ERRFLAG_PMEXT else B2B_ERRFLAG_PMINJ) else 0)"
  define s2 where "s2 = s1\<lparr>pm_tH1_t := q, flagPMError := err\<rparr>"
  have r: "s' = pm_answer ?no ev s2" "st' = (if fst' \<noteq> COMMON_STATUS_OK
      then (if n < 3 then B2B_STATUS_NORF else B2B_STATUS_PHASEFAILED) else st)"
    using assms(3) a fit f(1) by (auto simp: on_pm_def Let_def s2_def err_def)
  obtain dl ws where w: "length ws = 8" "dev_out s' = dev_out s2 @
      tm_ops s2 dl (fwlib_buildEvtidV1 (ev_gid i) ?no 0 (ev_sid i) (ev_bpid i) err) (b_ns q) (tef_of q) @ map (Pair ECA_IN) ws"
    "t = q" "flagPMError s' = err" "pm_TH1_as s' = pm_TH1_as s1"
    using pm_answer_out[of ?no ev s2] unfolding r(1) t_def i_def by (auto simp: s2_def)
  have o: "tm_ops s2 = tm_ops s" by (rule tm_ops_same) (use e(1) in \<open>simp add: s2_def\<close>)
  have d: "dev_out s2 = dev_out s @ acquire_ops k" using e(2) by (simp add: s2_def)
  have m: "err AND 0x3f = err" "?no AND 0xfff = ?no"
    by (simp_all add: err_def B2B_ERRFLAG_PMEXT_def B2B_ERRFLAG_PMINJ_def b2b_ecado)
  have "err = 0 \<and> st' = st \<and> \<bar>sint (b_ps q)\<bar> \<le> 500 \<and> phase_of (b_ns q) (tef_of q) = q \<or>
     err = (if ext then B2B_ERRFLAG_PMEXT else B2B_ERRFLAG_PMINJ) \<and>
       st' \<in> {B2B_STATUS_NORF, B2B_STATUS_PHASEFAILED} \<and> b_ns q = 0x6fffffffffffffff"
    using phaseFit_clean[OF fit] tef_roundtrip[of q] f(2) r(2) node_status by (auto simp: err_def)
  thus ?thesis
    using w(1,2) d ev_of_build m ev_fits unfolding w(3-5) f(3) o
    by (intro exI[of _ "fwlib_buildEvtidV1 (ev_gid i) ?no 0 (ev_sid i) (ev_bpid i) err"] exI[of _ k] exI[of _ dl] exI[of _ ws])
      (simp del: fwlib_buildEvtidV1_def)
qed

section \<open>Reachable states\<close>

definition pm_key :: "pm \<Rightarrow> nat \<times> u32 \<times> b2bt \<times> u32 \<times> u32" where
  "pm_key s = (length (tStamp s), nSamples s, pm_tH1_t s, TMeas_us s, flagPMError s)"

text \<open>The array keeps its size, at most that many samples are asked for, the fraction of the phase is clean, a
  measurement takes at most 12.304 ms.\<close>

fun pm_ok :: "nat \<times> u32 \<times> b2bt \<times> u32 \<times> u32 \<Rightarrow> bool" where
  "pm_ok (l, n, t, w, e) \<longleftrightarrow> l = B2B_NSAMPLES \<and> n \<in> {0, 3, 4, 8, 16, 32} \<and> - 500 \<le> sint (b_ps t) \<and> sint (b_ps t) < 500 \<and>
     w \<le> 12304 \<and> e \<in> {0, B2B_ERRFLAG_PMEXT, B2B_ERRFLAG_PMINJ}"

definition pm_inv :: "pm \<Rightarrow> bool" where
  "pm_inv s \<longleftrightarrow> pm_ok (pm_key s)"

lemma pm_key_more: "fw.more s = fw.more t \<Longrightarrow> pm_key s = pm_key t"
  using more_pm[of s t] by (simp add: pm_key_def)

lemma pm_free:
  "pm_key (s\<lparr>n_statusArray := arr\<rparr>) = pm_key s" "pm_key (s\<lparr>n_stat := st\<rparr>) = pm_key s"
  "pm_key (s\<lparr>n_nTransfer := k\<rparr>) = pm_key s" "pm_key (s\<lparr>n_transStat := k\<rparr>) = pm_key s" "pm_key (clearDiag_node s) = pm_key s"
  "pm_key (s\<lparr>flagMatchDone := f\<rparr>) = pm_key s" "pm_key (s\<lparr>dtMatch_as := d\<rparr>) = pm_key s" "pm_key (s\<lparr>flagPhaseDone := f\<rparr>) = pm_key s"
  by (simp_all add: pm_key_def clearDiag_node_def)

interpretation pm_state: node_state pm_hooks pm_inv
proof
  fix s s' :: pm and st
  show "pm_inv s'" if "pm_inv s" "entryActionConfigured pm_hooks s = Some (st, s')"
    using that more_configure[of "snd (fwlib_ioCtrlSetGate 0 2 s)" st s'] pm_key_more[of s' s]
    by (simp add: pm_hooks_def extern_entryActionConfigured_pm_def pm_inv_def more_simps)
  show "pm_inv s'" if "pm_inv s" "entryActionOperation pm_hooks s = Some (st, s')"
    using that more_operation[of operation_words_pm s st s'] pm_key_more[of s' "clearDiag_node s"]
    by (simp add: pm_hooks_def pm_inv_def pm_free)
  show "pm_inv (snd (exitActionOperation pm_hooks s))" if "pm_inv s"
    using that by (simp add: pm_hooks_def exit_node_def)
  show "pm_inv s'" if "fw.more s' = fw.more s" "pm_inv s" using that pm_key_more[of s' s] by (simp add: pm_inv_def)
  show "pm_inv (clearDiag_node s)" if "pm_inv s" using that by (simp add: pm_inv_def pm_free)
  fix arr n x
  show "pm_inv (s\<lparr>n_statusArray := arr\<rparr>)" "pm_inv (s\<lparr>n_stat := x\<rparr>)" "pm_inv (s\<lparr>n_nTransfer := n\<rparr>)" if "pm_inv s"
    using that by (simp_all add: pm_inv_def pm_free)
qed

lemma window_value:
  assumes "uint n \<le> 32" "uint q < 4194304"
  shows "uint (ucast (drop_bit 10 (ucast (n :: u32) * q :: u64)) + 16 :: u32) = uint n * uint q div 1024 + 16"
proof -
  have m: "uint n * uint q \<le> 32 * 4194303" using assms by (intro mult_mono) simp_all
  have "uint (ucast n * q :: u64) = uint n * uint q"
    using m mult_no_wrap[of "ucast n" q] by (simp add: uint_ucast_64)
  hence u: "uint (drop_bit 10 (ucast n * q :: u64)) = uint n * uint q div 1024"
    by (simp add: drop_bit_eq_div uint_div)
  have b: "uint n * uint q div 1024 < 2 ^ 31" "0 \<le> uint n * uint q div 1024"
    using m by (simp_all add: pos_imp_zdiv_nonneg_iff)
  have "uint (ucast (drop_bit 10 (ucast n * q :: u64)) :: u32) = uint n * uint q div 1024"
    using u b by (simp add: unsigned_ucast_eq take_bit_int_eq_self)
  thus ?thesis using b by (simp add: uint_word_ariths(1) mod_pos_pos_trivial)
qed

lemma samples_window:
  assumes "p = x AND 0x000fffffffffffff"
  shows "samples_of p \<in> {3, 4, 8, 16, 32}"
    "(ucast (drop_bit 10 (ucast (samples_of p) * drop_bit 30 p :: u64)) + 16 :: u32) \<le> 12304"
proof -
  have "uint p = uint x AND 4503599627370495" by (simp add: assms unsigned_and_eq)
  also have "\<dots> \<le> 4503599627370495" by (rule AND_upper2) simp
  finally have P: "uint p \<le> 4503599627370495" .
  define q where "q = drop_bit 30 p"
  have q: "uint q = uint p div 1073741824" by (simp add: q_def drop_bit_eq_div uint_div)
  have n: "uint (samples_of p) = (if uint p > 20000000000000 then 3 else if uint p > 10000000000000 then 4
      else if uint p > 5000000000000 then 8 else if uint p > 2500000000000 then 16 else 32)"
    by (simp add: samples_of_def word_less_def B2B_NSAMPLES_def)
  show "samples_of p \<in> {3, 4, 8, 16, 32}" by (simp add: samples_of_def B2B_NSAMPLES_def)
  have "uint (samples_of p) * uint q div 1024 + 16 \<le> 12304" unfolding n q using P by auto
  moreover have "uint (samples_of p) \<le> 32" unfolding n by simp
  moreover have "uint q < 4194304" unfolding q using P by simp
  ultimately show "(ucast (drop_bit 10 (ucast (samples_of p) * drop_bit 30 p :: u64)) + 16 :: u32) \<le> 12304"
    unfolding q_def[symmetric] using window_value[of "samples_of p" q] by (simp add: word_le_def)
qed

lemma request_key: "pm_key (pm_request a s) = (length (tStamp s), samples_of (ea_param a AND 0x000fffffffffffff),
    (pm_tH1_t s)\<lparr>b_ns := 0x6fffffffffffffff\<rparr>,
    ucast (drop_bit 10 (ucast (samples_of (ea_param a AND 0x000fffffffffffff)) * drop_bit 30 (ea_param a AND 0x000fffffffffffff) :: u64)) + 16, 0)"
  by (simp add: pm_key_def pm_request_def shm_put_def Let_def)

lemma request_inv: "pm_inv s \<Longrightarrow> pm_inv (pm_request a s)"
  using samples_window[of "ea_param a AND 0x000fffffffffffff" "ea_param a"]
  by (simp add: pm_inv_def request_key) (simp add: pm_key_def)

lemma acquire_inv:
  assumes "acquire_pm s = Some (n, s')" "pm_inv s"
  shows "pm_inv s' \<and> n \<le> B2B_NSAMPLES"
proof -
  obtain s1 ts where k: "s' = s1\<lparr>tStamp := ts\<rparr>" "length ts = length (tStamp s)" "n \<le> unat (nSamples s)" "fw.more s1 = fw.more s"
    using acquire_pm_keeps[OF assms(1)] by blast
  have "pm_key s' = pm_key s" using k(2) more_pm[OF k(4)] by (simp add: pm_key_def k(1))
  moreover have "unat (nSamples s) \<le> B2B_NSAMPLES" using assms(2) by (auto simp: pm_inv_def pm_key_def B2B_NSAMPLES_def)
  ultimately show ?thesis using assms(2) k(3) by (simp add: pm_inv_def)
qed

lemma answer_key: "pm_key (pm_answer no ev s) = pm_key s"
proof -
  have m: "pm_key (monitor_tm t ev u) = pm_key u" for t u
    using pm_key_more[of "monitor_tm t ev u" u] by (simp add: monitor_tm_def more_simps)
  have w: "pm_key (snd (fwlib_ebmWriteTM d e p q f u)) = pm_key u" for d e p q f and u :: pm
    using pm_key_more[of "snd (fwlib_ebmWriteTM d e p q f u)" u] by (simp add: more_simps)
  have t: "pm_key (u\<lparr>time_cnt := k\<rparr>) = pm_key u" for u :: pm and k by (simp add: pm_key_def)
  show ?thesis by (simp add: pm_answer_def Let_def sys_time_def pm_free m w t)
qed

lemma pd_key: "pm_key (pd_answer no d ev s) = pm_key s"
proof -
  have m: "pm_key (monitor_tm t ev u) = pm_key u" for t u
    using pm_key_more[of "monitor_tm t ev u" u] by (simp add: monitor_tm_def more_simps)
  have w: "pm_key (snd (fwlib_ebmWriteTM d e p q f u)) = pm_key u" for d e p q f and u :: pm
    using pm_key_more[of "snd (fwlib_ebmWriteTM d e p q f u)" u] by (simp add: more_simps)
  have t: "pm_key (u\<lparr>time_cnt := k\<rparr>) = pm_key u" for u :: pm and k by (simp add: pm_key_def)
  show ?thesis by (simp add: pd_answer_def Let_def sys_time_def m w t)
qed

lemma on_pm_inv:
  assumes "on_pm ext st ev s = Some (st', s')" "pm_inv s"
  shows "pm_inv s'"
proof -
  obtain n s1 where a: "acquire_pm (pm_request (ev_action ev) s) = Some (n, s1)"
    using assms(1) by (auto simp: on_pm_def split: option.splits)
  have i: "pm_inv s1" using acquire_inv[OF a request_inv[OF assms(2)]] by simp
  obtain x q where f: "phaseFit (pm_TH1_as s1) n (tStamp s1) (pm_tH1_t s1) = Some (x, q)"
    using assms(1) a by (auto simp: on_pm_def split: option.splits)
  have e: "pm_inv (s1\<lparr>pm_tH1_t := q, flagPMError := e\<rparr>)" if "e \<in> {flagPMError s1, B2B_ERRFLAG_PMEXT, B2B_ERRFLAG_PMINJ}" for e
    using i that phaseFit_clean[OF f] by (auto simp: pm_inv_def pm_key_def)
  define err where "err = (if x \<noteq> COMMON_STATUS_OK then (if ext then B2B_ERRFLAG_PMEXT else B2B_ERRFLAG_PMINJ) else flagPMError s1)"
  have "s' = pm_answer (if ext then B2B_ECADO_B2B_PREXT else B2B_ECADO_B2B_PRINJ) ev (s1\<lparr>pm_tH1_t := q, flagPMError := err\<rparr>)"
    using assms(1) unfolding on_pm_def a option.case prod.case f Let_def err_def by simp
  thus ?thesis using e[of err] by (simp add: pm_inv_def answer_key err_def)
qed

lemma on_match_key:
  assumes "on_match st ev s = Some (st', s')" "flagPMError s = 0"
  shows "\<exists>n s1. acquire_pm (snd (sys_time s)) = Some (n, s1) \<and> pm_key s' = pm_key s1"
proof (cases "acquire_pm (snd (sys_time s))")
  case (Some r)
  then obtain n s1 where a: "acquire_pm (snd (sys_time s)) = Some (n, s1)" by (cases r) simp
  hence "pm_key s' = pm_key s1"
    using assms by (cases "phaseFit (pm_TH1_as s1) n (tStamp s1) no_b2bt"; cases "n > 2")
      (simp_all only: on_match_def Let_def, auto simp: pm_free split: if_splits)
  thus ?thesis using a by blast
qed (use assms in \<open>simp add: on_match_def\<close>)

lemma on_pd_key:
  assumes "on_pd ext st ev s = Some (st', s')"
  shows "\<exists>n s1. acquire_pm s = Some (n, s1) \<and> pm_key s' = pm_key s1"
proof (cases "acquire_pm s")
  case (Some r)
  then obtain n s1 where a: "acquire_pm s = Some (n, s1)" by (cases r) simp
  hence "pm_key s' = pm_key s1"
    using assms by (cases "phaseFit (pm_TH1_as s1) n (tStamp s1) no_b2bt"; cases "n > 2")
      (simp_all only: on_pd_def Let_def, auto simp: pm_free pd_key split: if_splits)
  thus ?thesis using a by blast
qed (use assms in \<open>simp add: on_pd_def\<close>)

lemma on_event_pm_inv:
  assumes "on_event_pm st ev s = Some (late, st', s')" "pm_inv s"
  shows "pm_inv s'"
proof -
  have t: "pm_inv (snd (sys_time s))" by (rule pm_state.time_node_keeps(4)[OF assms(2)])
  have m: "pm_inv s'" if "on_match st ev s = Some (st', s')"
  proof (cases "flagPMError s = 0")
    case True
    then obtain n s1 where a: "acquire_pm (snd (sys_time s)) = Some (n, s1)" "pm_key s' = pm_key s1"
      using on_match_key[OF \<open>on_match st ev s = Some (st', s')\<close>] by blast
    show ?thesis using acquire_inv[OF a(1) t] a(2) by (simp add: pm_inv_def)
  qed (use that assms(2) in \<open>simp add: on_match_def\<close>)
  have d: "pm_inv s'" if p: "on_pd ext st ev s = Some (st', s')" for ext
    using on_pd_key[OF p] acquire_inv[OF _ assms(2)] by (auto simp: pm_inv_def)
  show ?thesis
    using assms m d on_pm_inv[of _ st ev s st' s'] by (auto simp: on_event_pm_def Let_def split: if_splits)
qed

interpretation pm_program: node_program pm_hooks pm_inv doActionOperation_pm
proof
  fix s s' st st'
  assume i: "pm_inv s" and a: "doActionOperation_pm st s = Some (st', s')"
  obtain ev s1 where w: "fwlib_wait4ECAEvent2 1000 s = Some (ev, s1)"
    using a by (auto simp: doActionOperation_pm_def bind_eq_Some_conv)
  obtain late st3 s3 where e: "on_event_pm st ev (snd (sys_time s1)) = Some (late, st3, s3)"
    and f: "(st', s') = finish_node ev late (wr_time s1 (time_cnt s1)) st3 s3"
    using a w by (auto simp: doActionOperation_pm_def bind_eq_Some_conv sys_time_def)
  have "pm_inv s3" by (rule on_event_pm_inv[OF e]) (intro pm_state.time_node_keeps pm_state.wait2_keeps[OF w] i)
  thus "pm_inv s'" using pm_state.finish_node_keeps f by (metis snd_conv)
qed

text \<open>The measuring node of a ring: all variables are zero from power up, of the array the size is known.\<close>

definition pm_power_on :: "pm \<Rightarrow> bool" where
  "pm_power_on s \<longleftrightarrow> length (tStamp s) = B2B_NSAMPLES \<and> nSamples s = 0 \<and> TMeas_us s = 0 \<and> flagPMError s = 0 \<and>
     pm_tH1_t s = no_b2bt"

definition pm_reach :: "u32 \<times> u32 \<times> u32 \<times> pm \<Rightarrow> bool" where
  "pm_reach = node_reach pm_hooks doActionOperation_pm B2BPM_FW_VERSION False pm_power_on"

text \<open>
  In every reachable state of a measuring node the array of time stamps has its 32 entries, and no measurement asks for more;
  it lasts at most 12.304 ms.  Reading time stamps from such a state reads at most as many as asked for and leaves the
  size of the array, whatever is in the queue.  The fraction of the phase is clean, so that the difference of two
  such fractions in attoseconds fits the 32 bits in which the diagnostic computes it.
\<close>

theorem stamps_in_bounds:
  assumes "pm_reach (req, act, pub, s)"
  shows "length (tStamp s) = 32 \<and> unat (nSamples s) \<le> 32 \<and> TMeas_us s \<le> 12304 \<and>
    (\<forall>ts n s1. acquireTimestamps (tStamp s) (unat (nSamples s)) 2 B2B_ECADO_TLUINPUT3 s = Some (ts, n, s1) \<longrightarrow>
      length ts = 32 \<and> n \<le> unat (nSamples s)) \<and>
    (\<forall>t. - 500 \<le> sint (b_ps t) \<and> sint (b_ps t) < 500 \<longrightarrow>
      sint ((b_ps t - b_ps (pm_tH1_t s)) * 1000000) = (sint (b_ps t) - sint (b_ps (pm_tH1_t s))) * 1000000)"
proof -
  have "pm_inv u" if "pm_power_on u" for u
    using that by (simp add: pm_power_on_def pm_inv_def pm_key_def no_b2bt_def)
  hence i: "pm_inv s"
    using pm_program.reach_node_keeps[of pm_power_on] assms unfolding pm_reach_def by fastforce
  hence n: "unat (nSamples s) \<le> 32" "length (tStamp s) = 32" "TMeas_us s \<le> 12304"
    by (auto simp: pm_inv_def pm_key_def B2B_NSAMPLES_def)
  have "sint ((b_ps t - b_ps (pm_tH1_t s)) * 1000000) = (sint (b_ps t) - sint (b_ps (pm_tH1_t s))) * 1000000"
    if "- 500 \<le> sint (b_ps t) \<and> sint (b_ps t) < 500" for t
  proof -
    define x y where "x = sint (b_ps t)" and "y = sint (b_ps (pm_tH1_t s))"
    have b: "- 500 \<le> x" "x < 500" "- 500 \<le> y" "y < 500" using that i by (auto simp: x_def y_def pm_inv_def pm_key_def)
    have d: "sint (b_ps t - b_ps (pm_tH1_t s)) = x - y"
      using b by (simp add: sint_word_ariths(2) signed_take_bit_int_eq_self x_def y_def)
    have k: "sint (1000000 :: u32) = 1000000" by simp
    show ?thesis
      unfolding sint_word_ariths(3) d k x_def[symmetric] y_def[symmetric]
      using b by (intro signed_take_bit_int_eq_self) simp_all
  qed
  moreover have "length ts = 32 \<and> m \<le> unat (nSamples s)"
    if "acquireTimestamps (tStamp s) (unat (nSamples s)) 2 B2B_ECADO_TLUINPUT3 s = Some (ts, m, s1)" for ts m s1
    using acquire_keeps[OF that[unfolded acquireTimestamps_def]] n by simp
  ultimately show ?thesis using n by blast
qed

theorem stamps_in_bounds_witness:
  "\<exists>c. pm_reach c \<and> length (tStamp (snd (snd (snd c)))) = 32"
proof -
  fix z :: pm
  define s where "s = z\<lparr>tStamp := replicate 32 0, nSamples := 0, TMeas_us := 0, flagPMError := 0, pm_tH1_t := no_b2bt\<rparr>"
  obtain req act pub s' where c: "node_start B2BPM_FW_VERSION False True 1 (\<lambda>_. 0x80100000) 0 s = (req, act, pub, s')"
    by (metis prod_cases4)
  have "pm_power_on s" by (simp add: pm_power_on_def s_def B2B_NSAMPLES_def)
  hence r: "pm_reach (req, act, pub, s')"
    using node_reach.start[of pm_power_on s _ _ B2BPM_FW_VERSION False True 1 "\<lambda>_. 0x80100000" 0]
    unfolding pm_reach_def by (simp only: c)
  show ?thesis using stamps_in_bounds[OF r] r by fastforce
qed

section \<open>Central unit and measuring node\<close>

lemma next_stage_keeps: "tH1Ext_t (next_stage s) = tH1Ext_t s" "errorFlags (next_stage s) = errorFlags s"
  by (simp_all add: next_stage_def getNextMState_mnext Let_def)

lemma prext_accepted:
  assumes c: "mState c = B2B_MFSM_EXT_PMEAS_R \<or> mState c = B2B_MFSM_ALL_PMEAS_R" "B2B_MODE_B2E \<le> b_mode c"
    and i: "ev_gid (ea_id a) = b_gid c" "ev_sid (ea_id a) = b_sid c" "ev_res (ea_id a) = e" "e = 0 \<or> e = B2B_ERRFLAG_PMEXT"
  shows "\<exists>c'. on_prext x a c = Inr (x, stack c, c') \<and> tH1Ext_t c' = phase_of (ea_param a) (ea_tef a) \<and>
    errorFlags c' = errorFlags c OR e"
proof -
  have m: "\<not> b_mode c < B2B_MODE_B2E" using c(2) by simp
  have z: "B2B_ERRFLAG_PMEXT AND B2B_ERRFLAG_PMEXT \<noteq> 0" "(0 :: u32) AND B2B_ERRFLAG_PMEXT = 0"
    by (simp_all add: B2B_ERRFLAG_PMEXT_def)
  show ?thesis
    using m c(1) i z by (auto simp: on_prext_def set_prr_eq Let_def next_stage_keeps)
qed

text \<open>
  The measurement of a phase, from request to result.  The central unit asks for it with the event number and the
  parameter of its message; the node takes the period of the ring from that, and sends one message.  Whatever else happens to the
  central unit, when that message reaches it while it waits for the phase, it accepts it, and holds the
  very phase that the node has measured, with a clean fraction, or has the error flag of the extraction ring set.
\<close>

theorem phase_reported:
  fixes c :: b2b and s s' :: pm and ev :: eca_event
  defines "t \<equiv> pm_tH1_t s'"
  assumes request: "ea_id (ev_action ev) = fwlib_buildEvtidV1 (b_gid c) B2B_ECADO_B2B_PMEXT (flagsExt c) (sidExt c) (bpidExt c) 0"
      "ea_param (ev_action ev) = (TH1Ext_as c AND 0x000fffffffffffff) OR push_bit 56 (ucast (nGExt c AND 0xff))
         OR push_bit 52 (ucast (b_mode c AND 0xf))"
    and ids: "b_gid c \<le> 0xfff" "b_sid c \<le> 15" "sidExt c = b_sid c" "TH1Ext_as c < 2 ^ 52"
    and waits: "mState c = B2B_MFSM_EXT_PMEAS_R \<or> mState c = B2B_MFSM_ALL_PMEAS_R" "B2B_MODE_B2E \<le> b_mode c"
    and answer: "on_pm True st ev s = Some (st', s')"
  shows "\<exists>id k dl ws. pm_TH1_as s' = TH1Ext_as c \<and>
    dev_out s' = dev_out s @ acquire_ops k @ tm_ops s dl id (b_ns t) (tef_of t) @ map (Pair ECA_IN) ws \<and>
    (\<forall>a x. ea_id a = id \<and> ea_param a = b_ns t \<and> ea_tef a = tef_of t \<longrightarrow>
      (\<exists>c'. on_prext x a c = Inr (x, stack c, c') \<and>
        (flagPMError s' = 0 \<and> st' = st \<and> tH1Ext_t c' = t \<and> \<bar>sint (b_ps t)\<bar> \<le> 500 \<and> errorFlags c' = errorFlags c \<or>
         flagPMError s' = B2B_ERRFLAG_PMEXT \<and> st' \<in> {B2B_STATUS_NORF, B2B_STATUS_PHASEFAILED} \<and>
           errorFlags c' = errorFlags c OR B2B_ERRFLAG_PMEXT)))"
proof -
  let ?i = "ea_id (ev_action ev)"
  have "b_gid c < 2 ^ 12" "b_sid c < 2 ^ 12"
    using ids(1,2) by (simp_all add: word_less_def word_le_def)
  hence g: "ev_gid ?i = b_gid c" "ev_sid ?i = b_sid c"
    unfolding request(1) ev_of_build ids(3) ev_masks by (simp_all add: less_mask_eq)
  have m: "(0x000fffffffffffff :: u64) = mask 52" by (simp add: mask_eq_exp_minus_1)
  have "ea_param (ev_action ev) AND 0x000fffffffffffff = TH1Ext_as c AND mask 52"
    unfolding request(2) m by (rule bit_word_eqI) (auto simp: bit_simps)
  hence T: "ea_param (ev_action ev) AND 0x000fffffffffffff = TH1Ext_as c" using less_mask_eq[OF ids(4)] by simp
  obtain id k dl ws where o: "dev_out s' = dev_out s @ acquire_ops k @ tm_ops s dl id (b_ns t) (tef_of t) @ map (Pair ECA_IN) ws"
    and i: "ev_gid id = b_gid c" "ev_sid id = b_sid c" "ev_res id = flagPMError s'" and p: "pm_TH1_as s' = TH1Ext_as c"
    and r: "flagPMError s' = 0 \<and> st' = st \<and> \<bar>sint (b_ps t)\<bar> \<le> 500 \<and> phase_of (b_ns t) (tef_of t) = t \<or>
       flagPMError s' = B2B_ERRFLAG_PMEXT \<and> st' \<in> {B2B_STATUS_NORF, B2B_STATUS_PHASEFAILED}"
    using phase_answered[OF answer] unfolding g T t_def by auto
  have "\<exists>c'. on_prext x a c = Inr (x, stack c, c') \<and> tH1Ext_t c' = phase_of (b_ns t) (tef_of t) \<and>
      errorFlags c' = errorFlags c OR flagPMError s'"
    if "ea_id a = id" "ea_param a = b_ns t" "ea_tef a = tef_of t" for a x
    using prext_accepted[OF waits, of a "flagPMError s'" x] i r that by auto
  thus ?thesis using o p r by (intro exI[of _ id] exI[of _ k] exI[of _ dl] exI[of _ ws]) fastforce
qed

end
