(* ===== verification/B2b_Kd.thy ===== *)
theory B2b_Kd
  imports B2b_Node
begin

text \<open>
  The node that watches a kicker (modules/b2b/fw/b2b-kd.c): it takes the trigger of the kick from a timing message, the
  monitor and the probe signal of the electronics from inputs, and reports the delays of the signals, or
  that the monitor signal is missing.
\<close>

section \<open>State\<close>

text \<open>The static variables of \<open>doActionOperation\<close>, zero from power up.  \<open>flagSendMessage\<close> is zero between two calls and
  \<open>reqDeadline\<close> is not read in a later one: they are no part of the state.\<close>

record kd = node +
  k_gid :: u32
  k_sid :: u32
  k_bpid :: u32
  tKickTrig :: u64
  tKickMon :: u64
  tKickProbe :: u64
  flagsError :: u32
  flagRecTrig :: u32
  flagRecMon :: u32
  flagRecProbe :: u32
  flagIsExt :: u32

section \<open>Collecting data\<close>

definition on_trigger :: "eca_event \<Rightarrow> kd \<Rightarrow> kd" where
  "on_trigger ev s =
     (let a = ev_action ev;
          reqDeadline = ea_deadline a + B2B_PRETRIGGERTR;
          s1 = s\<lparr>flagIsExt := (if ev_tag ev = B2B_ECADO_B2B_TRIGGEREXT then 1 else 0),
                 k_gid := ev_gid (ea_id a), k_sid := ev_sid (ea_id a), k_bpid := ev_bpid (ea_id a),
                 tKickTrig := reqDeadline, flagsError := ev_res (ea_id a), flagRecTrig := 1\<rparr>
      in shm_put B2B_SHARED_GET_TKTRIGLO (loW (tKickTrig s1))
           (shm_put B2B_SHARED_GET_TKTRIGHI (hiW (tKickTrig s1))
             (shm_put B2B_SHARED_GET_SID (k_sid s1) (shm_put B2B_SHARED_GET_GID (k_gid s1) s1))))"

text \<open>A monitor signal; what comes next from the queue within 100 us is the probe signal, or it is dropped.\<close>

definition on_monitor :: "eca_event \<Rightarrow> kd \<Rightarrow> kd option" where
  "on_monitor ev s =
     (case fwlib_wait4ECAEvent B2B_ACCEPTKPROBE (s\<lparr>tKickMon := ea_deadline (ev_action ev), flagRecMon := 1\<rparr>) of
        None \<Rightarrow> None
      | Some (ecaAction2, a, s1) \<Rightarrow> Some
          (if ecaAction2 = B2B_ECADO_TLUINPUT1 \<or> ecaAction2 = B2B_ECADO_TLUINPUT4
           then s1\<lparr>tKickProbe := ea_deadline a - B2B_PRETRIGGERTR, flagRecProbe := 1\<rparr>
           else s1\<lparr>flagRecProbe := 0\<rparr>))"

definition on_event_kd :: "eca_event \<Rightarrow> kd \<Rightarrow> kd option" where
  "on_event_kd ev s =
     (if ev_tag ev = B2B_ECADO_B2B_TRIGGEREXT \<or> ev_tag ev = B2B_ECADO_B2B_TRIGGERINJ then Some (on_trigger ev s)
      else if ev_tag ev = B2B_ECADO_TLUINPUT2 then on_monitor ev s
      else Some s)"

section \<open>What to do\<close>

text \<open>\<open>abs\<close> of C takes an \<open>int\<close>: the low 32 bits of the difference.\<close>

definition c_abs :: "u64 \<Rightarrow> int" where
  "c_abs d = (let w = ucast d :: u32 in sint (if sint w < 0 then - w else w))"

definition ACCEPT_NS :: int where "ACCEPT_NS = sint B2B_ACCEPTKMON * 1000"

text \<open>The delays to be reported, if any: trigger and monitor signal are there, ...\<close>

definition kd_match :: "kd \<Rightarrow> (u64 \<times> u64) option \<times> kd" where
  "kd_match s =
     (if flagRecTrig s \<noteq> 0 \<and> flagRecMon s \<noteq> 0
      then (let dKickMon = tKickMon s - tKickTrig s in
            (if c_abs dKickMon < ACCEPT_NS
             then Some (dKickMon, if flagRecProbe s \<noteq> 0 then tKickProbe s - tKickTrig s else 0x7fffffff) else None,
             s\<lparr>flagRecTrig := 0, flagRecMon := 0\<rparr>))
      else (None, s))"

text \<open>... or the trigger has waited too long for the monitor signal.\<close>

definition kd_missing :: "(u64 \<times> u64) option \<times> kd \<Rightarrow> (u64 \<times> u64) option \<times> kd" where
  "kd_missing = (\<lambda>(msg, s).
     if flagRecTrig s \<noteq> 0
     then case sys_time s of (now, s1) \<Rightarrow>
       if c_abs (now - tKickTrig s1) > ACCEPT_NS
       then (Some (0x7fffffff, 0x7fffffff),
             s1\<lparr>flagsError := flagsError s1 OR (if flagIsExt s1 \<noteq> 0 then B2B_ERRFLAG_KDEXT else B2B_ERRFLAG_KDINJ),
                flagRecTrig := 0\<rparr>)
       else (msg, s1)
     else (msg, s))"

text \<open>A monitor signal without trigger is forgotten.\<close>

definition kd_stale :: "kd \<Rightarrow> kd" where
  "kd_stale s =
     (if flagRecMon s \<noteq> 0
      then case sys_time s of (now, s1) \<Rightarrow>
        if c_abs (now - tKickMon s1) > ACCEPT_NS then s1\<lparr>flagRecMon := 0\<rparr> else s1
      else s)"

text \<open>Delay of the monitor signal in the upper, of the probe in the lower half of the parameter.\<close>

definition kd_param :: "u64 \<Rightarrow> u64 \<Rightarrow> u64" where
  "kd_param dKickMon dKickProbe = push_bit 32 dKickMon OR (dKickProbe AND 0xffffffff)"

definition kd_evtid :: "kd \<Rightarrow> u64" where
  "kd_evtid s =
     fwlib_buildEvtidV1 (k_gid s) (if flagIsExt s \<noteq> 0 then B2B_ECADO_B2B_DIAGKICKEXT else B2B_ECADO_B2B_DIAGKICKINJ) 0
       (k_sid s) (k_bpid s) (flagsError s)"

definition kd_send :: "u64 \<Rightarrow> u64 \<Rightarrow> u32 \<Rightarrow> kd \<Rightarrow> u32 \<times> kd" where
  "kd_send dKickMon dKickProbe status s =
     (let s1 = s\<lparr>n_nTransfer := n_nTransfer s + 1\<rparr>;
          sendDeadline = tKickTrig s1 + 2 * COMMON_AHEADT
      in case sys_time s1 of (sysTime, s2) \<Rightarrow>
           let late = (sysTime > sendDeadline - COMMON_AHEADT);
               dl = (if late then sysTime + COMMON_AHEADT else sendDeadline);
               s3 = snd (fwlib_ebmWriteTM dl (kd_evtid s2) (kd_param dKickMon dKickProbe) 0 0 s2);
               s4 = shm_put B2B_SHARED_GET_DKPROBE (ucast dKickProbe) (shm_put B2B_SHARED_GET_DKMON (ucast dKickMon) s3)
           in (if late then B2B_STATUS_NOKICK else status, s4\<lparr>n_transStat := flagsError s4\<rparr>))"

definition kd_report :: "u32 \<Rightarrow> kd \<Rightarrow> u32 \<times> kd" where
  "kd_report status s =
     (case kd_missing (kd_match s) of
        (msg, s1) \<Rightarrow>
          (case msg of None \<Rightarrow> (status, kd_stale s1) | Some (m, p) \<Rightarrow> kd_send m p status (kd_stale s1)))"

section \<open>One call of doActionOperation\<close>

definition doActionOperation_kd :: "u32 \<Rightarrow> kd \<Rightarrow> (u32 \<times> kd) option" where
  "doActionOperation_kd actStatus s = do {
     (ev, s1) \<leftarrow> fwlib_wait4ECAEvent2 1000 (s\<lparr>n_transStat := 0\<rparr>);
     let (startTime, s2) = sys_time s1;
     s3 \<leftarrow> on_event_kd ev s2;
     let (status, s4) = kd_report actStatus s3;
     Some (finish_node ev (ea_late (ev_action ev)) startTime status s4)
   }"

section \<open>The program\<close>

text \<open>The inputs of the probe stay open.\<close>

definition extern_entryActionConfigured_kd :: "kd \<Rightarrow> (u32 \<times> kd) option" where
  "extern_entryActionConfigured_kd s =
     configure_node (snd (fwlib_ioCtrlSetGate 1 3 (snd (fwlib_ioCtrlSetGate 1 0 (snd (fwlib_ioCtrlSetGate 1 1 s))))))"

definition operation_words_kd :: "u32 list" where
  "operation_words_kd =
     [B2B_SHARED_GET_TKTRIGHI, B2B_SHARED_GET_TKTRIGLO, B2B_SHARED_GET_DKMON, B2B_SHARED_GET_DKPROBE,
      B2B_SHARED_GET_SID, B2B_SHARED_GET_GID]"

definition kd_hooks where
  "kd_hooks = \<lparr>entryActionConfigured = extern_entryActionConfigured_kd,
     entryActionOperation = operation_node operation_words_kd, exitActionOperation = exit_node\<rparr>"

definition kd_iter :: "u32 \<times> u32 \<times> u32 \<times> kd \<Rightarrow> (u32 \<times> u32 \<times> u32 \<times> kd) option" where
  "kd_iter = node_iter kd_hooks doActionOperation_kd"

text \<open>This program passes offset and size to \<open>fwlib_init\<close> in the wrong order.\<close>

definition kd_start :: "bool \<Rightarrow> nat \<Rightarrow> (nat \<Rightarrow> u32) \<Rightarrow> nat \<Rightarrow> kd \<Rightarrow> u32 \<times> u32 \<times> u32 \<times> kd" where
  "kd_start = node_start B2BPM_FW_VERSION True"

end
