(* ===== verification/B2b_Kick.thy ===== *)
theory B2b_Kick
  imports B2b_Kd B2b_Node_Reach Fw_Transfer
begin

text \<open>
  The kicks that are watched (modules/b2b/fw/b2b-kd.c): between two calls of the operation a trigger and a monitor
  signal are never both waiting, in every reachable state; and what is reported of a kick, bit by bit, when the
  signal comes, when it is too far off, and when it does not come.
\<close>

section \<open>Trigger or monitor signal\<close>

definition one_waits :: "kd \<Rightarrow> bool" where
  "one_waits s \<longleftrightarrow> flagRecTrig s = 0 \<or> flagRecMon s = 0"

lemma waits_more: "fw.more s' = fw.more s \<Longrightarrow> one_waits s \<Longrightarrow> one_waits s'"
proof -
  assume a: "fw.more s' = fw.more s" and i: "one_waits s"
  have "flagRecTrig s' = flagRecTrig s" "flagRecMon s' = flagRecMon s" using a by (cases s; cases s'; simp)+
  thus "one_waits s'" using i by (simp add: one_waits_def)
qed

lemma waits_fields:
  "one_waits (s\<lparr>n_statusArray := a1\<rparr>) = one_waits s" "one_waits (s\<lparr>n_stat := a2\<rparr>) = one_waits s"
  "one_waits (s\<lparr>n_nTransfer := a3\<rparr>) = one_waits s" "one_waits (s\<lparr>n_transStat := a4\<rparr>) = one_waits s"
  "one_waits (s\<lparr>time_cnt := a5\<rparr>) = one_waits s" "one_waits (shm_put off v s) = one_waits s"
  "one_waits (clearDiag_node s) = one_waits s"
  by (simp_all add: one_waits_def shm_put_def clearDiag_node_def)

interpretation kd_state: node_state kd_hooks one_waits
proof
  fix s s' :: kd and st
  show "one_waits s'" if "one_waits s" "entryActionConfigured kd_hooks s = Some (st, s')"
    using that more_configure[of _ st s'] waits_more[of s' s]
    by (fastforce simp: kd_hooks_def extern_entryActionConfigured_kd_def more_simps)
  show "one_waits s'" if "one_waits s" "entryActionOperation kd_hooks s = Some (st, s')"
    using that more_operation[of operation_words_kd s st s'] waits_more[of s' "clearDiag_node s"]
    by (simp add: kd_hooks_def waits_fields)
  show "one_waits (snd (exitActionOperation kd_hooks s))" if "one_waits s"
    using that by (simp add: kd_hooks_def exit_node_def)
  show "one_waits s'" if "fw.more s' = fw.more s" "one_waits s" by (rule waits_more[OF that])
  show "one_waits (clearDiag_node s)" if "one_waits s" using that by (simp add: waits_fields)
  fix arr n x
  show "one_waits (s\<lparr>n_statusArray := arr\<rparr>)" "one_waits (s\<lparr>n_stat := x\<rparr>)" "one_waits (s\<lparr>n_nTransfer := n\<rparr>)" if "one_waits s"
    using that by (simp_all add: waits_fields)
qed

lemma send_waits: "one_waits s \<Longrightarrow> one_waits (snd (kd_send m p st s))"
  by (simp add: kd_send_def Let_def sys_time_def split_beta waits_fields kd_state.time_node_keeps)

text \<open>Whatever came, the report leaves at most one of the two.\<close>

lemma report_waits: "one_waits (snd (kd_report st s))"
proof -
  obtain msg s1 where m: "kd_match s = (msg, s1)" by fastforce
  have 1: "one_waits s1" using m by (auto simp: kd_match_def one_waits_def Let_def split: if_splits)
  obtain msg2 s2 where k: "kd_missing (msg, s1) = (msg2, s2)" by fastforce
  have "one_waits s2" using k 1 by (auto simp: kd_missing_def sys_time_def one_waits_def split: if_splits)
  hence "one_waits (kd_stale s2)" by (auto simp: kd_stale_def sys_time_def one_waits_def)
  thus ?thesis using send_waits by (auto simp: kd_report_def m k split: option.split)
qed

interpretation kd_program: node_program kd_hooks one_waits doActionOperation_kd
proof
  fix s s' st st'
  assume a: "doActionOperation_kd st s = Some (st', s')"
  obtain ev s1 where w: "fwlib_wait4ECAEvent2 1000 (s\<lparr>n_transStat := 0\<rparr>) = Some (ev, s1)"
    using a by (auto simp: doActionOperation_kd_def bind_eq_Some_conv)
  obtain s3 where e: "on_event_kd ev (snd (sys_time s1)) = Some s3"
    using a w by (auto simp: doActionOperation_kd_def bind_eq_Some_conv split_beta)
  have "(st', s') = finish_node ev (ea_late (ev_action ev)) (fst (sys_time s1)) (fst (kd_report st s3)) (snd (kd_report st s3))"
    using a w e by (simp add: doActionOperation_kd_def split_beta)
  thus "one_waits s'" using kd_state.finish_node_keeps[OF report_waits] by (metis snd_conv)
qed

text \<open>From power-on, when all variables are zero, a trigger and a monitor signal never wait together.\<close>

theorem never_both_wait:
  assumes "node_reach kd_hooks doActionOperation_kd B2BPM_FW_VERSION True (\<lambda>s. flagRecTrig s = 0 \<and> flagRecMon s = 0) (req, act, pub, s)"
  shows "flagRecTrig s = 0 \<or> flagRecMon s = 0"
  using kd_program.reach_node_keeps[OF _ assms] by (simp add: one_waits_def)

section \<open>What is reported\<close>

text \<open>The two delays can be read back from the parameter.\<close>

lemma kd_param_fields: "ucast (drop_bit 32 (kd_param m p)) = (ucast m :: u32)" "ucast (kd_param m p) = (ucast p :: u32)"
proof -
  have k: "(0xffffffff :: u64) = mask 32" by (simp add: mask_eq_exp_minus_1)
  show "ucast (drop_bit 32 (kd_param m p)) = (ucast m :: u32)" "ucast (kd_param m p) = (ucast p :: u32)"
    unfolding kd_param_def k by (rule bit_word_eqI; auto simp: bit_simps)+
qed

text \<open>The deadline of a report, and whether it counts as a missed kick.\<close>

definition report_late :: "kd \<Rightarrow> nat \<Rightarrow> bool" where
  "report_late s n \<longleftrightarrow> wr_time s n > tKickTrig s + 2 * COMMON_AHEADT - COMMON_AHEADT"

lemma send_out:
  assumes "kd_send m p st s = (st', s')"
  shows "st' = (if report_late s (time_cnt s) then B2B_STATUS_NOKICK else st) \<and>
    (\<exists>dl. dev_out s' = dev_out s @ tm_ops s dl (kd_evtid s) (kd_param m p) 0) \<and>
    flagRecTrig s' = flagRecTrig s \<and> flagRecMon s' = flagRecMon s \<and> n_nTransfer s' = n_nTransfer s + 1 \<and>
    n_transStat s' = flagsError s"
proof -
  define u where "u = s\<lparr>n_nTransfer := n_nTransfer s + 1, time_cnt := Suc (time_cnt s)\<rparr>"
  define dl where "dl = (if report_late s (time_cnt s) then wr_time s (time_cnt s) + COMMON_AHEADT
    else tKickTrig s + 2 * COMMON_AHEADT)"
  define w where "w = snd (fwlib_ebmWriteTM dl (kd_evtid u) (kd_param m p) 0 0 u)"
  have s': "st' = (if report_late s (time_cnt s) then B2B_STATUS_NOKICK else st)"
    "s' = (let v = shm_put B2B_SHARED_GET_DKPROBE (ucast p) (shm_put B2B_SHARED_GET_DKMON (ucast m) w)
           in v\<lparr>n_transStat := flagsError v\<rparr>)"
    using assms by (auto simp: kd_send_def Let_def sys_time_def u_def w_def dl_def report_late_def cong: if_cong)
  have "fw.more w = fw.more u" by (simp add: w_def more_simps)
  hence "flagRecTrig w = flagRecTrig u" "flagRecMon w = flagRecMon u" "n_nTransfer w = n_nTransfer u" "flagsError w = flagsError u"
    by (cases w; cases u; simp)+
  moreover have "kd_evtid u = kd_evtid s" by (simp add: kd_evtid_def u_def)
  moreover have "tm_ops u x e q f = tm_ops s x e q f" for x e q f by (simp add: tm_ops_def win_def u_def)
  hence "dev_out w = dev_out s @ tm_ops s (tm_dl dl 0 u) (kd_evtid u) (kd_param m p) 0"
    by (simp add: w_def writeTM_out) (simp add: u_def)
  ultimately show ?thesis using s' by (auto simp: Let_def shm_put_def u_def)
qed

text \<open>
  A kick with its monitor signal: when the signal lies within the window around the trigger, one message goes out, with
  the identity of the trigger and the delays of monitor and probe signal; when it does not, trigger and signal are
  dropped and nothing at all is sent.
\<close>

theorem kick_reported:
  fixes s :: kd
  defines "d \<equiv> tKickMon s - tKickTrig s"
  assumes "flagRecTrig s \<noteq> 0" "flagRecMon s \<noteq> 0" "kd_report st s = (st', s')"
  shows "flagRecTrig s' = 0 \<and> flagRecMon s' = 0 \<and>
    (if c_abs d < ACCEPT_NS
     then \<exists>dl q. dev_out s' = dev_out s @ tm_ops s dl (kd_evtid s) q 0 \<and> ucast (drop_bit 32 q) = (ucast d :: u32) \<and>
       ucast q = (if flagRecProbe s \<noteq> 0 then ucast (tKickProbe s - tKickTrig s) else 0x7fffffff :: u32) \<and>
       st' = (if report_late s (time_cnt s) then B2B_STATUS_NOKICK else st)
     else dev_out s' = dev_out s \<and> st' = st)"
proof -
  let ?u = "s\<lparr>flagRecTrig := 0, flagRecMon := 0\<rparr>" and ?p = "if flagRecProbe s \<noteq> 0 then tKickProbe s - tKickTrig s else 0x7fffffff"
  have u: "kd_evtid ?u = kd_evtid s" "report_late ?u n = report_late s n" "tm_ops ?u = tm_ops s" for n
    by (simp_all add: kd_evtid_def report_late_def tm_ops_def win_def fun_eq_iff)
  have "kd_report st s = (if c_abs d < ACCEPT_NS then kd_send d ?p st ?u else (st, ?u))"
    using assms(2,3) by (simp add: kd_report_def kd_match_def kd_missing_def kd_stale_def d_def Let_def)
  hence r: "(st', s') = (if c_abs d < ACCEPT_NS then kd_send d ?p st ?u else (st, ?u))" using assms(4) by simp
  show ?thesis
  proof (cases "c_abs d < ACCEPT_NS")
    case True
    hence "kd_send d ?p st ?u = (st', s')" using r by simp
    from send_out[OF this] obtain dl where "dev_out s' = dev_out s @ tm_ops s dl (kd_evtid s) (kd_param d ?p) 0"
      "st' = (if report_late s (time_cnt s) then B2B_STATUS_NOKICK else st)" "flagRecTrig s' = 0" "flagRecMon s' = 0"
      by (auto simp: u)
    moreover have "ucast (kd_param d ?p) = (if flagRecProbe s \<noteq> 0 then ucast (tKickProbe s - tKickTrig s) else 0x7fffffff :: u32)"
      by (simp add: kd_param_fields)
    ultimately show ?thesis using True kd_param_fields(1) by metis
  next
    case False
    thus ?thesis using r by simp
  qed
qed

text \<open>
  A trigger without monitor signal: once it is older than the window, one message goes out, with the error
  flag of its kicker added to those of the trigger and both delays at their largest; until then it keeps waiting.
\<close>

theorem missing_kick_reported:
  fixes s :: kd
  assumes "flagRecTrig s \<noteq> 0" "flagRecMon s = 0" "kd_report st s = (st', s')"
  defines "n \<equiv> time_cnt s"
    and "err \<equiv> flagsError s OR (if flagIsExt s \<noteq> 0 then B2B_ERRFLAG_KDEXT else B2B_ERRFLAG_KDINJ)"
  shows "if c_abs (wr_time s n - tKickTrig s) > ACCEPT_NS
    then flagRecTrig s' = 0 \<and> n_transStat s' = err \<and> st' = (if report_late s (Suc n) then B2B_STATUS_NOKICK else st) \<and>
      (\<exists>dl. dev_out s' = dev_out s @ tm_ops s dl (kd_evtid (s\<lparr>flagsError := err\<rparr>)) 0x7fffffff7fffffff 0)
    else flagRecTrig s' = flagRecTrig s \<and> dev_out s' = dev_out s \<and> st' = st"
proof -
  let ?u = "s\<lparr>time_cnt := Suc n, flagsError := err, flagRecTrig := 0\<rparr>"
  have u: "kd_evtid ?u = kd_evtid (s\<lparr>flagsError := err\<rparr>)" "report_late ?u k = report_late s k" "tm_ops ?u = tm_ops s" for k
    by (simp_all add: kd_evtid_def report_late_def tm_ops_def win_def fun_eq_iff)
  have "kd_report st s = (if c_abs (wr_time s n - tKickTrig s) > ACCEPT_NS then kd_send 0x7fffffff 0x7fffffff st ?u
      else (st, s\<lparr>time_cnt := Suc n\<rparr>))"
    using assms(1,2) by (simp add: kd_report_def kd_match_def kd_missing_def kd_stale_def sys_time_def n_def err_def)
  hence r: "(st', s') = (if c_abs (wr_time s n - tKickTrig s) > ACCEPT_NS then kd_send 0x7fffffff 0x7fffffff st ?u
      else (st, s\<lparr>time_cnt := Suc n\<rparr>))" using assms(3) by simp
  show ?thesis
  proof (cases "c_abs (wr_time s n - tKickTrig s) > ACCEPT_NS")
    case True
    hence "kd_send 0x7fffffff 0x7fffffff st ?u = (st', s')" using r by simp
    note o = send_out[OF this]
    have "kd_param 0x7fffffff 0x7fffffff = 0x7fffffff7fffffff" by (simp add: kd_param_def)
    thus ?thesis using True o by (auto simp: u)
  next
    case False
    thus ?thesis using r by simp
  qed
qed

end
