(* ===== verification/Spec2Isabelle.thy ===== *)
theory Spec2Isabelle
  imports Dm_Scheduling Dm_Queues Fbas_Registration Fbas_Senders Fw_Half Unipz_Main Unipz_Thread Unipz_Live
    B2b_Measure B2b_Kick
begin

text \<open>
  A verification development for the firmware of the GSI/FAIR timing system
  (bel_projects): programs in C for LM32 soft cores in the FPGAs of timing receivers
  and SCU front-end controllers.  Four programs are modelled: the data master, which
  schedules the timing messages of an accelerator, the FBAS node of the fast beam
  abort system, the gateway through which the data master requests beam from the UNILAC, and the central
  unit of the bunch-to-bucket transfer between ring accelerators, with the libraries of the firmware
  family on which they are built.

  \<^bold>\<open>The parts and how they interact.\<close>
  The data master (modules/ftm/ftmfw) walks graphs of nodes that the host lays out in the
  memory of its CPUs.  Each of eight threads has a cursor and a deadline; the main loop
  takes the thread with the earliest deadline, sends what its node says (a timing message
  to the network through a priority queue, a command into the queues of a block) and moves
  the cursor on.  Blocks hold three command queues, filled by the host or by command nodes,
  that change the way through the graph.
  The FBAS firmware (modules/fbas/fw) runs as emitter (TX) or collector (RX).  Emitters send
  the state of a power converter as MPS flags in timing messages; the collector keeps one
  message buffer per channel and shows all flags to the cards on the SCU bus.  The host
  configures the node through shared memory.  Messages arrive as actions of the ECA and leave
  through the EtherBone master (modules/lm32-include/ebm.c).  The state machine, the
  host's command register, the ECA queue, transfers and time come from the common library
  (modules/common-libs/fw/common-fwlib.c).
  The UNIPZ gateway (modules/dm-unipz/fw/dm-unipz.c) is another application on that library.  The data master
  sends it timing messages that ask for the transfer channel, for beam and for its release; the gateway passes
  the requests on to the UNILAC over the MIL device bus (top/gsi_scu/scu_mil.c), waits for the event
  that announces the beam, and then writes a command and a thread start into the memory of the data
  master, over the network.  Both ends of that exchange are modelled here, and so is the exchange itself.
  The central unit (modules/b2b/fw/b2b-cbu.c) is a third application on the library.  The data master's start message
  begins a transfer with the settings that the host has put into shared memory for its sequence; a mini state machine,
  whose tables depend on the mode, then asks the measuring nodes of the rings for the phases of their radio frequency,
  computes from the reports when the kickers are to fire (at a zero crossing, when two frequencies meet, or after a
  phase shift) and sends the messages that trigger them.
  Two kinds of measuring nodes serve it: one sorts and fits time stamps of the radio frequency and answers with the phase
  (modules/b2b/fw/b2b-pm.c), the other watches the signals of a kicker and reports its delays
  (modules/b2b/fw/b2b-kd.c).

  \<^bold>\<open>Theories and the code they model.\<close>
  Prelude: machine words, bytes and 64-bit values as two bus words, loops over arrays.
  Data master: Ftm_Common (the register map of ftm_common.h), Dm_State (memory of 32-bit words,
  clock, device log: \<open>dm_state\<close>), Dm_Heap (\<open>heapReplace\<close>, \<open>heapify\<close>), Dm_Nodes (node and deadline
  functions, block, command and action functions of dm.c), Dm_Main (\<open>dmInit\<close>, \<open>main_iter\<close> of
  main.c in its three phases); over them Heap_List (a heap as a list of keys, with its locale),
  Dm_Frame and Dm_Sched (what a node function leaves alone), Dm_Loop (reachable states),
  Dm_Scheduling, Dm_Handlers and Dm_Queues (properties).
  Firmware library: Fw_Env (time, devices, ECA queue and shared memory as state \<open>fw\<close>), Ebm (ebm.c),
  Fwlib (common-fwlib.c), Mil (scu_mil.c and the MIL part of common-fwlib.c), Fw_Frame (what the library leaves
  alone), Fw_States (the state machine's properties and the locale
  \<open>fw_application\<close> of what an application promises to it, interpreted three times: twice for FBAS, once for the
  gateway), Fw_Program (the locale that extends it by what an invariant needs to survive a whole pass, interpreted for
  gateway and central unit), Fw_Transfer and Fw_Time (properties of transfers and times), Fw_Float (IEEE
  arithmetic on bit patterns, times as \<open>float\<close>, half precision of common-core.c), Fw_Half (its properties).
  FBAS: Fbas_Timer (timer.c), Fbas_Measure (measure.c), Fbas_State (the state \<open>fbas\<close>, which extends
  \<open>fw\<close>, and the constants of fbas_common.h, fbas.h, tmessage.h), Fbas_Message (tmessage.c), Fbas_Io
  (ioctl.c, fwlib.c), Fbas_Sb (sbctl.c), Fbas (fbas.c: actions, entry and exit actions, commands,
  \<open>fbas_iter\<close> for one pass of the main loop, \<open>fbas_start\<close>); over them Fbas_Frame (what each
  operation keeps), Fbas_Reach (the reachable configurations \<open>fbas_reach\<close>: start, pass, timer
  interrupt, host), Fbas_Recovery, Fbas_Operation, Fbas_Registration and Fbas_Senders (properties).
  Gateway: Unipz_State (dm-unipz.h and the state \<open>unipz\<close>, which extends \<open>fw\<close> as well), Unipz_Dm (addresses,
  commands and thread starts for the data master), Unipz_Pz (the words for and from UNIPZ), Unipz (the handlers of
  the operation state; the long handler of a beam request is cut into the parts \<open>breq_begin\<close> to \<open>breq_end\<close>),
  Unipz_Main (entry and exit actions, host commands, publishing, \<open>unipz_iter\<close>, \<open>unipz_start\<close>); over them
  Unipz_Frame (what the libraries keep, and that their waits end), Unipz_Beam (reachable configurations
  \<open>unipz_reach\<close> and the beam request), Unipz_Live (every pass returns), Unipz_Queue and Unipz_Thread (gateway and data
  master together).
  Central unit: B2b_State (b2b.h and the state \<open>b2b\<close>, which extends \<open>fw\<close>), B2b_Fsm (the tables of
  \<open>getNextMState\<close>), B2b_Match (zero crossings, fine tuning, phase match), B2b (settings, the three messages, the
  stages of \<open>doActionOperation\<close>), B2b_Main (entry and exit actions, commands, publishing, \<open>b2b_iter\<close>,
  \<open>b2b_start\<close>); over them B2b_Phase (the computations), B2b_Frame (the control state and what each stage does
  to it), B2b_Reach (reachable configurations \<open>b2b_reach\<close>), B2b_Transfer (whole transfers).
  Measuring nodes: B2b_Node (what b2b-pm.c and b2b-kd.c share: the state \<open>node\<close>, which extends \<open>fw\<close>, the end of an
  operation, the main loop \<open>node_iter\<close>, \<open>node_start\<close>), B2b_Pm (sorting, fit, the three kinds of requests; state
  \<open>pm\<close>), B2b_Kd (trigger, monitor and probe signal; state \<open>kd\<close>); over them B2b_Node_Reach (reachable
  configurations and the locales \<open>node_state\<close> and \<open>node_program\<close>, which extend \<open>fw_program\<close> and are interpreted for
  both nodes), B2b_Phasefit (the fit), B2b_Measure (from request to result), B2b_Kick.
  Definitions carry the names of the C functions; parts of a long function have a suffix or a name of their own and are
  mapped to the lines they translate; functions that have namesakes in another program end in \<open>_uz\<close> (gateway)
  or \<open>_b2b\<close> (central unit), \<open>_pm\<close> and \<open>_kd\<close> (nodes).

  \<^bold>\<open>What the lemmas show.\<close>
  Data master (C1 to C5, C8 to C12): the heap order is an invariant of the main loop; a turn serves the
  thread with the earliest deadline; abort, start and dispatch phases, the eight words of a timing
  message; what a block does with its queues, the command flush, and enqueueing, up to
  the round trip of a command from a command node through a block.
  Gateway and data master (C6, C7, C13): the two messages by which the gateway ends the wait of a block refine the
  data master's own enqueueing of a flush command, so the block continues; a thread it starts runs; and a defect, the
  loss of a command that another writer enqueues meanwhile.  Gateway alone (C14, C15): the
  beam request is withdrawn at the end of every pass but one that prepared a thread start which fails its check, and
  every pass in operation returns.
  Central unit (C16 to C25): where a transfer can rest in reachable states; a kick of an extraction at the zero
  crossing, from the report to the message; the phase match and the fine tuning; the two reports in either order; a late
  injection kick is not sent; what a start takes over, and that nothing goes out without one; finding a phase shift
  and taking it back.  C26: half precision.
  FBAS messages (C27 to C30): the table of senders, storing of messages, lifetime of a flag, and
  that in the firmware as it is no lifetime ever runs.  State machine and recovery (C31 to C33), the way of a flag
  to the SCU bus (C34).  Library (C35 to C37, C40): block transfers, timing messages
  sent remotely or locally, waiting for the ECA.  Registration of an emitter from request to acceptance (C38), the
  table of senders as a dictionary in every reachable state (C39).  Further theorems, without a number: timers,
  statistics, event numbers, the window of the EB master, normal form of times and advancing by periods, flow
  commands, blocks without a command; of the measuring nodes, that the fitted phase is as exact as the stamps, that the
  central unit takes over the phase measured or the error, that the array of stamps is kept to, that trigger and monitor
  signal never wait together, and what is reported of a kick; and defects: a flush of its own queue, a race of the search for a command with the
  clock, configurations that use up the timers or forget the senders, new cycles after a pause, the one return of
  the gateway that leaves a beam request open, and the phase shift that never ends without a frequency.

  \<^bold>\<open>State, bounds and fuel.\<close>
  Integers keep their width; pointers of the data master are 32-bit addresses into its memory,
  pointers of the FBAS code are indices with None for null.  A null dereference sets \<open>crashed\<close> (FBAS)
  or is the fault result (data master).  The clock, device registers, the ECA queue and the replies of the network are
  streams: the n-th read returns the n-th value; nothing is assumed of them but what a theorem states.
  Loops that need not end (\<open>eca_poll\<close>, \<open>ebm_wait_data\<close>, \<open>flush_eca\<close>, \<open>op_actions\<close>, \<open>mil_drain\<close>,
  \<open>mil_poll_events\<close>, \<open>pz_wait\<close>, \<open>acquire_loop\<close>, \<open>flush_eca_node\<close>) are partial functions
  with None for not returning, and so are the loops of the phase match and the phase shift (\<open>align_fast\<close>,
  \<open>match_grids\<close>, \<open>phase_diff\<close>); C18, C24, C36 and C40 say when and with what they return, C15 that those
  of the gateway do in operation.  The
  loops of the heap and of the flush are bounded by the sizes of their arrays (eight threads, four elements), so
  no fuel is needed beyond these.  In the theorems on gateway and data master a message of the gateway arrives as a whole and
  in order; the address the gateway sees a memory word under differs by a constant from the data master's
  own (\<open>int_adr\<close>), and what happens at the data master between two messages is arbitrary but for what
  the theorem names (\<open>undisturbed\<close>).  Floats are bit patterns; a conversion that C leaves undefined gives what an
  arbitrary function of the state says, and locals that are read before they are set are a component of the state
  (\<open>stack\<close>).

  \<^bold>\<open>Not modelled.\<close>
  Printing, LEDs and the OLED; the SDB search (the addresses it finds are inputs); the interrupt
  table (the timer interrupt acts between passes of the main loop); the string form of addresses
  in ebm.c; the generated register maps of EtherBone master and ECA (registers carry names); the build variant
  of the data master with software transmission control.  The node b2b-psm.c, which counts the
  messages that shift phases.
  The other gateways, the SCU function generator and the burst generator are programs of their own on
  libraries that are modelled here; their logic is register programming of hardware whose behaviour the
  sources do not state.  Host tools, gateware and the C++ side of the data master are not C firmware and stay out.
\<close>

end
